(* ===== verification/Prelude.thy ===== *)
theory Prelude
  imports Main "HOL-Library.Word" "HOL-Library.AList" "HOL-Library.Char_ord" "HOL-Library.List_Lexorder" "HOL-Library.Code_Target_Nat"
begin

text \<open>
  What the components share: Rust's unsigned integers at their width with the saturating and
  checked operations the program calls, hash maps and hash sets as association lists and lists
  in their iteration order, and UTF-8 strings as lists of bytes with the few \<open>str\<close> methods the
  program uses (\<open>chars\<close>, \<open>trim().is_empty()\<close>, \<open>is_ascii\<close>, \<open>to_ascii_lowercase\<close>, \<open>join\<close>,
  decimal formatting).
\<close>

named_theorems hm_simps \<open>lookup, keys and invariant of the hash-map operations\<close>
named_theorems guar_intros \<open>rules that give the guarantee of a composed program\<close>
named_theorems run_simps \<open>evaluation of the program combinators\<close>

type_synonym u8 = "8 word"
type_synonym u16 = "16 word"
type_synonym u32 = "32 word"
type_synonym u64 = "64 word"
type_synonym i32 = "32 word"
type_synonym i64 = "64 word"
type_synonym bytes = "u8 list"

section \<open>Machine integers\<close>

definition sat_add :: "'a::len word \<Rightarrow> 'a word \<Rightarrow> 'a word" where
  "sat_add a b = (if unat a + unat b < 2 ^ LENGTH('a) then a + b else - 1)"

definition sat_sub :: "'a::len word \<Rightarrow> 'a word \<Rightarrow> 'a word" where
  "sat_sub a b = (if b \<le> a then a - b else 0)"

definition sat_mul :: "'a::len word \<Rightarrow> 'a word \<Rightarrow> 'a word" where
  "sat_mul a b = (if unat a * unat b < 2 ^ LENGTH('a) then a * b else - 1)"

definition checked_add :: "'a::len word \<Rightarrow> 'a word \<Rightarrow> 'a word option" where
  "checked_add a b = (if unat a + unat b < 2 ^ LENGTH('a) then Some (a + b) else None)"

definition u128_max :: nat where
  "u128_max = 2 ^ 128 - 1"

definition sat_add128 :: "nat \<Rightarrow> nat \<Rightarrow> nat" where
  "sat_add128 a b = min u128_max (a + b)"

definition sat_mul128 :: "nat \<Rightarrow> nat \<Rightarrow> nat" where
  "sat_mul128 a b = min u128_max (a * b)"

definition u64_of_u128 :: "nat \<Rightarrow> u64" where
  \<comment> \<open>\<open>x.min(u64::MAX as u128) as u64\<close>\<close>
  "u64_of_u128 n = of_nat (min n (2 ^ 64 - 1))"

lemma unat_max_word: "unat (- 1 :: 'a::len word) = 2 ^ LENGTH('a) - 1"
  by transfer (simp add: take_bit_minus_one_eq_mask mask_eq_exp_minus_1 nat_diff_distrib nat_power_eq)

lemma unat_lt2p: "unat (x :: 'a::len word) < 2 ^ LENGTH('a)"
  by transfer (simp add: nat_less_iff)

lemma unat_sat_add:
  "unat (sat_add a b :: 'a::len word) = min (2 ^ LENGTH('a) - 1) (unat a + unat b)"
  using unat_lt2p [of a] by (auto simp: sat_add_def unat_word_ariths unat_max_word min_def)

lemma unat_sat_sub: "unat (sat_sub a b) = unat a - unat b"
  by (auto simp: sat_sub_def unat_sub word_le_nat_alt)

lemma unat_sat_mul:
  "unat (sat_mul a b :: 'a::len word) = min (2 ^ LENGTH('a) - 1) (unat a * unat b)"
  by (auto simp: sat_mul_def unat_word_ariths unat_max_word min_def)

lemma checked_add_Some:
  "checked_add a b = Some c \<longleftrightarrow> unat a + unat b < 2 ^ LENGTH('a) \<and> c = (a + b :: 'a::len word)"
  by (auto simp: checked_add_def)

lemma unat_add_no_overflow:
  "unat a + unat b < 2 ^ LENGTH('a) \<Longrightarrow> unat (a + b :: 'a::len word) = unat a + unat b"
  by (simp add: unat_word_ariths)

lemma sat_add_ge: "a \<le> sat_add a (b :: 'a::len word)"
proof -
  have "unat a \<le> 2 ^ LENGTH('a) - 1"
    using unat_lt2p [of a] by linarith
  then show ?thesis
    by (simp add: word_le_nat_alt unat_sat_add)
qed

lemma u64_lt: "unat (x :: u64) < 2 ^ 64"
  using unat_lt2p [of x] by simp

lemma u32_lt: "unat (x :: u32) < 2 ^ 32"
  using unat_lt2p [of x] by simp

lemma unat_u64_of_u128: "unat (u64_of_u128 n) = min n (2 ^ 64 - 1)"
  by (simp add: u64_of_u128_def unat_of_nat)

section \<open>Hash maps and hash sets in iteration order\<close>

text \<open>
  A \<open>HashMap\<close> is the list of its entries in the order its iterator yields them. That order is
  not specified by the standard library, so a statement about a map holds for every list.
\<close>

type_synonym ('k, 'v) hmap = "('k \<times> 'v) list"

definition hm_get :: "('k, 'v) hmap \<Rightarrow> 'k \<Rightarrow> 'v option" where
  "hm_get m k = map_of m k"

definition hm_insert :: "('k, 'v) hmap \<Rightarrow> 'k \<Rightarrow> 'v \<Rightarrow> ('k, 'v) hmap" where
  "hm_insert m k v = AList.update k v m"

definition hm_remove :: "('k, 'v) hmap \<Rightarrow> 'k \<Rightarrow> ('k, 'v) hmap" where
  "hm_remove m k = AList.delete k m"

definition hm_keys :: "('k, 'v) hmap \<Rightarrow> 'k list" where
  "hm_keys m = map fst m"

definition hm_values :: "('k, 'v) hmap \<Rightarrow> 'v list" where
  "hm_values m = map snd m"

definition hm_map_values :: "('v \<Rightarrow> 'v) \<Rightarrow> ('k, 'v) hmap \<Rightarrow> ('k, 'v) hmap" where
  \<comment> \<open>\<open>for v in m.values_mut() { *v = f(v) }\<close>\<close>
  "hm_map_values f m = map (\<lambda>(k, v). (k, f v)) m"

definition hm_entry_or :: "('k, 'v) hmap \<Rightarrow> 'k \<Rightarrow> 'v \<Rightarrow> ('k, 'v) hmap" where
  \<comment> \<open>\<open>m.entry(k).or_insert(v)\<close>\<close>
  "hm_entry_or m k v = (case hm_get m k of Some _ \<Rightarrow> m | None \<Rightarrow> hm_insert m k v)"

definition hm_get_or0 :: "('k, 'v::zero) hmap \<Rightarrow> 'k \<Rightarrow> 'v" where
  \<comment> \<open>\<open>m.get(k).copied().unwrap_or(0)\<close>\<close>
  "hm_get_or0 m k = (case hm_get m k of Some v \<Rightarrow> v | None \<Rightarrow> 0)"

definition hm_ok :: "('k, 'v) hmap \<Rightarrow> bool" where
  "hm_ok m \<longleftrightarrow> distinct (hm_keys m)"

definition hs_insert :: "'a list \<Rightarrow> 'a \<Rightarrow> bool \<times> 'a list" where
  \<comment> \<open>\<open>HashSet::insert\<close>: whether the value is new, and the set\<close>
  "hs_insert s x = (x \<notin> set s, List.insert x s)"

definition hs_remove :: "'a list \<Rightarrow> 'a \<Rightarrow> bool \<times> 'a list" where
  \<comment> \<open>\<open>HashSet::remove\<close>: whether the value was there, and the set\<close>
  "hs_remove s x = (x \<in> set s, removeAll x s)"

lemma hm_get_Nil [hm_simps]: "hm_get [] k = None"
  by (simp add: hm_get_def)

lemma hm_get_insert [hm_simps]: "hm_get (hm_insert m k v) k' = (if k' = k then Some v else hm_get m k')"
  by (simp add: hm_get_def hm_insert_def update_conv')

lemma hm_get_remove [hm_simps]: "hm_get (hm_remove m k) k' = (if k' = k then None else hm_get m k')"
  by (simp add: hm_get_def hm_remove_def delete_conv')

lemma hm_get_map_values [hm_simps]: "hm_get (hm_map_values f m) k = map_option f (hm_get m k)"
  by (induction m) (auto simp: hm_get_def hm_map_values_def)

lemma hm_get_entry_or [hm_simps]:
  "hm_get (hm_entry_or m k v) k' =
     (if k' = k then Some (case hm_get m k of Some x \<Rightarrow> x | None \<Rightarrow> v) else hm_get m k')"
  by (auto simp: hm_entry_or_def hm_simps split: option.split)

lemma hm_keys_get: "k \<in> set (hm_keys m) \<longleftrightarrow> hm_get m k \<noteq> None"
  by (auto simp: hm_keys_def hm_get_def map_of_eq_None_iff)

lemma hm_ok_Nil [hm_simps]: "hm_ok []"
  by (simp add: hm_ok_def hm_keys_def)

lemma hm_ok_insert [hm_simps]: "hm_ok (hm_insert m k v) \<longleftrightarrow> hm_ok m"
proof -
  have "map fst (AList.update k v m) = (if k \<in> fst ` set m then map fst m else map fst m @ [k])"
    by (simp add: update_keys)
  then show ?thesis
    by (auto simp: hm_ok_def hm_keys_def hm_insert_def)
qed

lemma hm_ok_remove [hm_simps]: "hm_ok m \<Longrightarrow> hm_ok (hm_remove m k)"
  by (simp add: hm_ok_def hm_keys_def hm_remove_def distinct_delete)

lemma hm_keys_map_values [hm_simps]: "hm_keys (hm_map_values f m) = hm_keys m"
  by (simp add: hm_keys_def hm_map_values_def case_prod_beta)

lemma hm_ok_map_values [hm_simps]: "hm_ok (hm_map_values f m) \<longleftrightarrow> hm_ok m"
  by (simp add: hm_ok_def hm_simps)

lemma hm_ok_entry_or [hm_simps]: "hm_ok (hm_entry_or m k v) \<longleftrightarrow> hm_ok m"
  by (auto simp: hm_entry_or_def hm_simps split: option.split)

lemma hm_get_mem: "hm_ok m \<Longrightarrow> hm_get m k = Some v \<longleftrightarrow> (k, v) \<in> set m"
  by (simp add: hm_ok_def hm_keys_def hm_get_def map_of_eq_Some_iff)

lemma hm_get_memD: "hm_get m k = Some v \<Longrightarrow> (k, v) \<in> set m"
  by (simp add: hm_get_def map_of_SomeD)

lemma hm_values_get: "hm_ok m \<Longrightarrow> v \<in> set (hm_values m) \<longleftrightarrow> (\<exists>k. hm_get m k = Some v)"
  by (force simp: hm_get_mem hm_values_def)

lemma hm_insert_Nil_iff [hm_simps]: "hm_insert m k v \<noteq> []"
  by (cases m) (auto simp: hm_insert_def)

lemma hm_Nil_get: "m = [] \<longleftrightarrow> (\<forall>k. hm_get m k = None)"
  by (cases m) (auto simp: hm_get_def split: if_splits)

lemma set_hs_insert [simp]: "set (snd (hs_insert s x)) = insert x (set s)"
  by (simp add: hs_insert_def)

lemma set_hs_remove [simp]: "set (snd (hs_remove s x)) = set s - {x}"
  by (simp add: hs_remove_def)

lemma hs_insert_fst [simp]: "fst (hs_insert s x) \<longleftrightarrow> x \<notin> set s"
  by (simp add: hs_insert_def)

lemma hs_remove_fst [simp]: "fst (hs_remove s x) \<longleftrightarrow> x \<in> set s"
  by (simp add: hs_remove_def)

text \<open>\<open>keys().min().copied()\<close>\<close>

fun min_key :: "'k::linorder list \<Rightarrow> 'k option" where
  "min_key [] = None"
| "min_key (k # ks) = (case min_key ks of None \<Rightarrow> Some k | Some j \<Rightarrow> Some (min k j))"

lemma min_key_None [simp]: "min_key ks = None \<longleftrightarrow> ks = []"
  by (cases ks) (auto split: option.splits)

lemma min_key_Some: "min_key ks = Some k \<Longrightarrow> k \<in> set ks \<and> (\<forall>j \<in> set ks. k \<le> j)"
proof (induction ks arbitrary: k)
  case Nil
  then show ?case by simp
next
  case (Cons a ks)
  show ?case
  proof (cases "min_key ks")
    case None
    with Cons.prems show ?thesis by simp
  next
    case (Some j)
    with Cons.IH [OF Some] Cons.prems show ?thesis
      by (auto simp: min_def split: if_splits)
  qed
qed

section \<open>Strings\<close>

text \<open>
  A Rust \<open>String\<close> is its list of UTF-8 bytes, a \<^typ>\<open>string\<close>; \<open>len\<close> counts bytes and \<open>cmp\<close>
  is the byte-wise lexicographic order (\<^theory_text>\<open>List_Lexorder\<close> over \<^theory_text>\<open>Char_ord\<close>).
\<close>

definition byte_of :: "char \<Rightarrow> nat" where
  "byte_of c = of_char c"

definition str_bytes :: "string \<Rightarrow> bytes" where
  \<comment> \<open>\<open>str::as_bytes\<close>\<close>
  "str_bytes s = map (\<lambda>c. of_char c) s"

fun utf8_decode :: "nat list \<Rightarrow> nat list" where
  "utf8_decode [] = []"
| "utf8_decode (a # as) =
     (if a < 128 then a # utf8_decode as
      else case as of [] \<Rightarrow> [a]
        | b # bs \<Rightarrow>
            if a < 224 then ((a mod 32) * 64 + b mod 64) # utf8_decode bs
            else case bs of [] \<Rightarrow> [a]
              | c # cs \<Rightarrow>
                  if a < 240 then ((a mod 16) * 4096 + (b mod 64) * 64 + c mod 64) # utf8_decode cs
                  else case cs of [] \<Rightarrow> [a]
                    | d # ds \<Rightarrow>
                        ((a mod 8) * 262144 + (b mod 64) * 4096 + (c mod 64) * 64 + d mod 64)
                          # utf8_decode ds)"

definition chars :: "string \<Rightarrow> nat list" where
  \<comment> \<open>\<open>str::chars\<close>: the code points\<close>
  "chars s = utf8_decode (map byte_of s)"

definition is_whitespace :: "nat \<Rightarrow> bool" where
  \<comment> \<open>\<open>char::is_whitespace\<close>: the Unicode property White\_Space\<close>
  "is_whitespace n \<longleftrightarrow> 9 \<le> n \<and> n \<le> 13 \<or> n = 32 \<or> n = 133 \<or> n = 160 \<or> n = 5760
     \<or> 8192 \<le> n \<and> n \<le> 8202 \<or> n = 8232 \<or> n = 8233 \<or> n = 8239 \<or> n = 8287 \<or> n = 12288"

definition is_control :: "nat \<Rightarrow> bool" where
  \<comment> \<open>\<open>char::is_control\<close>: the general category Cc\<close>
  "is_control n \<longleftrightarrow> n < 32 \<or> 127 \<le> n \<and> n \<le> 159"

definition trim_is_empty :: "string \<Rightarrow> bool" where
  \<comment> \<open>\<open>s.trim().is_empty()\<close>\<close>
  "trim_is_empty s = list_all is_whitespace (chars s)"

definition is_ascii :: "string \<Rightarrow> bool" where
  "is_ascii s = list_all (\<lambda>c. byte_of c < 128) s"

definition ascii_lower :: "char \<Rightarrow> char" where
  "ascii_lower c = (if 65 \<le> byte_of c \<and> byte_of c \<le> 90 then char_of (byte_of c + 32) else c)"

definition to_ascii_lowercase :: "string \<Rightarrow> string" where
  "to_ascii_lowercase s = map ascii_lower s"

definition contains_at :: "string \<Rightarrow> bool" where
  \<comment> \<open>\<open>s.contains('@')\<close>\<close>
  "contains_at s = (CHR ''@'' \<in> set s)"

fun join :: "string \<Rightarrow> string list \<Rightarrow> string" where
  "join sep [] = []"
| "join sep [x] = x"
| "join sep (x # y # ys) = x @ sep @ join sep (y # ys)"

fun dec :: "nat \<Rightarrow> string" where
  \<comment> \<open>decimal formatting of an unsigned integer\<close>
  "dec n = (if n < 10 then [char_of (48 + n)] else dec (n div 10) @ [char_of (48 + n mod 10)])"

declare dec.simps [simp del]

abbreviation dec64 :: "u64 \<Rightarrow> string" where
  "dec64 x \<equiv> dec (unat x)"

definition show_int :: "int \<Rightarrow> string" where
  \<comment> \<open>\<open>Display\<close> of a signed integer\<close>
  "show_int i = (if i < 0 then CHR ''-'' # dec (nat (- i)) else dec (nat i))"

definition dec_bool :: "bool \<Rightarrow> string" where
  \<comment> \<open>\<open>Display for bool\<close>\<close>
  "dec_bool b = (if b then ''true'' else ''false'')"

lemma utf8_decode_ascii: "list_all (\<lambda>a. a < 128) as \<Longrightarrow> utf8_decode as = as"
  by (induction as) auto

lemma chars_ascii: "is_ascii s \<Longrightarrow> chars s = map byte_of s"
  by (simp add: chars_def is_ascii_def utf8_decode_ascii list.pred_map comp_def)

definition quoted_at :: string where
  \<comment> \<open>the at sign in single quotes, as it stands in the messages\<close>
  "quoted_at = [CHR 0x27, CHR ''@'', CHR 0x27]"

definition starts_with :: "string \<Rightarrow> string \<Rightarrow> bool" where
  \<comment> \<open>\<open>s.starts_with(p)\<close>\<close>
  "starts_with s p = (take (length p) s = p)"

definition utf8_width :: "char \<Rightarrow> nat" where
  "utf8_width c = (let n = byte_of c in if n < 128 then 1 else if n < 224 then 2 else if n < 240 then 3 else 4)"

function utf8_chunks :: "string \<Rightarrow> string list" where
  \<comment> \<open>the bytes of each character\<close>
  "utf8_chunks [] = []"
| "utf8_chunks (c # s) = take (utf8_width c) (c # s) # utf8_chunks (drop (utf8_width c) (c # s))"
  by pat_completeness auto
termination
  by (relation "measure length") (auto simp: utf8_width_def Let_def)

definition str_trim :: "string \<Rightarrow> string" where
  \<comment> \<open>\<open>str::trim\<close>\<close>
  "str_trim s = (let ws = \<lambda>chunk. list_all is_whitespace (chars chunk) in
     concat (rev (dropWhile ws (rev (dropWhile ws (utf8_chunks s))))))"

fun split_on :: "char \<Rightarrow> string \<Rightarrow> string list" where
  \<comment> \<open>\<open>s.split(c)\<close>: always at least one piece\<close>
  "split_on c [] = [[]]"
| "split_on c (x # s) =
     (if x = c then [] # split_on c s
      else case split_on c s of [] \<Rightarrow> [[x]] | w # ws \<Rightarrow> (x # w) # ws)"

fun split_once :: "char \<Rightarrow> string \<Rightarrow> (string \<times> string) option" where
  \<comment> \<open>\<open>s.split_once(c)\<close>\<close>
  "split_once c [] = None"
| "split_once c (x # s) =
     (if x = c then Some ([], s) else map_option (\<lambda>(a, b). (x # a, b)) (split_once c s))"

definition str_lines :: "string \<Rightarrow> string list" where
  \<comment> \<open>\<open>s.lines()\<close>: no empty line after a final line feed, no carriage return before a line feed\<close>
  "str_lines s =
     (let pieces = split_on (CHR 0x0A) s;
          strip = (\<lambda>l. if l \<noteq> [] \<and> last l = CHR 0x0D then butlast l else l) in
      map strip (butlast pieces) @ (if last pieces = [] then [] else [last pieces]))"

definition strip_prefix :: "string \<Rightarrow> string \<Rightarrow> string option" where
  \<comment> \<open>\<open>s.strip_prefix(p)\<close>\<close>
  "strip_prefix s p = (if starts_with s p then Some (drop (length p) s) else None)"

definition replace_char :: "char \<Rightarrow> char \<Rightarrow> string \<Rightarrow> string" where
  "replace_char a b s = map (\<lambda>x. if x = a then b else x) s"

lemma char_of_byte_of [simp]: "char_of (byte_of c) = c"
  by (simp add: byte_of_def)

lemma byte_of_char_of [simp]: "n < 256 \<Longrightarrow> byte_of (char_of n) = n"
  by (simp add: byte_of_def)

section \<open>Results\<close>

definition or_else :: "'a option \<Rightarrow> 'a option \<Rightarrow> 'a option" where
  "or_else x y = (case x of Some _ \<Rightarrow> x | None \<Rightarrow> y)"

definition unwrap_or :: "'a option \<Rightarrow> 'a \<Rightarrow> 'a" where
  "unwrap_or x d = (case x of Some v \<Rightarrow> v | None \<Rightarrow> d)"

definition try_bind :: "'e + 'a \<Rightarrow> ('a \<Rightarrow> 'e + 'b) \<Rightarrow> 'e + 'b" where
  \<comment> \<open>\<open>let x = r?; \<dots>\<close>\<close>
  "try_bind r k = (case r of Inl e \<Rightarrow> Inl e | Inr x \<Rightarrow> k x)"

fun first_error :: "'e option list \<Rightarrow> 'e option" where
  \<comment> \<open>checks in a row, each left with \<open>?\<close>; \<open>None\<close> is \<open>Ok(())\<close>\<close>
  "first_error [] = None"
| "first_error (None # cs) = first_error cs"
| "first_error (Some e # cs) = Some e"

lemma first_error_None [simp]: "first_error cs = None \<longleftrightarrow> list_all (\<lambda>c. c = None) cs"
  by (induction cs rule: first_error.induct) auto

section \<open>Bytes\<close>

text \<open>Big-endian bytes of fixed width (\<open>to_be_bytes\<close>, \<open>from_be_bytes\<close>).\<close>

fun be_bytes :: "nat \<Rightarrow> nat \<Rightarrow> bytes" where
  "be_bytes 0 n = []"
| "be_bytes (Suc k) n = be_bytes k (n div 256) @ [of_nat (n mod 256)]"

definition be_value :: "bytes \<Rightarrow> nat" where
  "be_value bs = foldl (\<lambda>acc b. acc * 256 + unat b) 0 bs"

lemma length_be_bytes [simp]: "length (be_bytes k n) = k"
  by (induction k arbitrary: n) auto

lemma be_value_snoc: "be_value (bs @ [b]) = be_value bs * 256 + unat b"
  by (simp add: be_value_def)

lemma be_value_bytes: "n < 256 ^ k \<Longrightarrow> be_value (be_bytes k n) = n"
proof (induction k arbitrary: n)
  case 0
  then show ?case by (simp add: be_value_def)
next
  case (Suc k)
  have "n div 256 < 256 ^ k"
    using Suc.prems by (simp add: less_mult_imp_div_less mult.commute)
  moreover have "unat (of_nat (n mod 256) :: u8) = n mod 256"
    by (simp add: unat_of_nat)
  ultimately show ?case
    by (simp add: Suc.IH be_value_snoc)
qed

end
