(* ===== verification/Effects.thy ===== *)
theory Effects
  imports Prelude
begin

text \<open>
  Asynchronous handlers as resumptions. A program is a tree of atomic steps over a shared world:
  a section under the hub's mutex, one \<open>try_send\<close>, one clock reading. Between two atomic steps
  another task may run, so a handler is not atomic. \<open>run\<close> executes a program alone; \<open>pool_step\<close>
  interleaves many. \<open>guar G p\<close> says that every atomic step of \<open>p\<close>, from any world, is in the
  relation \<open>G\<close>; such a guarantee survives every interleaving.
\<close>

datatype ('w, 'e, 'a) prog =
    Return 'a
  | Fail 'e
  | Atomic "'w \<Rightarrow> ('w, 'e, 'a) prog \<times> 'w"

primrec bind_prog :: "('w, 'e, 'a) prog \<Rightarrow> ('a \<Rightarrow> ('w, 'e, 'b) prog) \<Rightarrow> ('w, 'e, 'b) prog" where
  "bind_prog (Return x) k = k x"
| "bind_prog (Fail e) k = Fail e"
| "bind_prog (Atomic f) k = Atomic (map_prod (\<lambda>p. bind_prog p k) id \<circ> f)"

primrec run :: "('w, 'e, 'a) prog \<Rightarrow> 'w \<Rightarrow> ('e + 'a) \<times> 'w" where
  "run (Return x) = (\<lambda>w. (Inr x, w))"
| "run (Fail e) = (\<lambda>w. (Inl e, w))"
| "run (Atomic f) = (\<lambda>w. case (map_prod run id \<circ> f) w of (r, w') \<Rightarrow> r w')"

definition atomic :: "('w \<Rightarrow> 'a \<times> 'w) \<Rightarrow> ('w, 'e, 'a) prog" where
  "atomic f = Atomic (\<lambda>w. map_prod Return id (f w))"

definition atomic_try :: "('w \<Rightarrow> ('e + 'a) \<times> 'w) \<Rightarrow> ('w, 'e, 'a) prog" where
  "atomic_try f = Atomic (\<lambda>w. map_prod (\<lambda>r. case r of Inl e \<Rightarrow> Fail e | Inr x \<Rightarrow> Return x) id (f w))"

definition seq_prog :: "('w, 'e, 'a) prog \<Rightarrow> ('w, 'e, 'b) prog \<Rightarrow> ('w, 'e, 'b) prog" where
  "seq_prog p q = bind_prog p (\<lambda>_. q)"

fun for_each :: "'a list \<Rightarrow> ('a \<Rightarrow> ('w, 'e, unit) prog) \<Rightarrow> ('w, 'e, unit) prog" where
  "for_each [] f = Return ()"
| "for_each (x # xs) f = seq_prog (f x) (for_each xs f)"

fun count_failed :: "'a list \<Rightarrow> ('a \<Rightarrow> ('w, 'e, bool) prog) \<Rightarrow> ('w, 'e, nat) prog" where
  \<comment> \<open>a loop that counts the elements for which \<open>f\<close> returns False\<close>
  "count_failed [] f = Return 0"
| "count_failed (x # xs) f =
     bind_prog (f x) (\<lambda>ok. bind_prog (count_failed xs f) (\<lambda>n. Return (if ok then n else Suc n)))"

definition when_true :: "bool \<Rightarrow> ('w, 'e, unit) prog \<Rightarrow> ('w, 'e, unit) prog" where
  "when_true b p = (if b then p else Return ())"

definition when_some :: "'a option \<Rightarrow> ('a \<Rightarrow> ('w, 'e, unit) prog) \<Rightarrow> ('w, 'e, unit) prog" where
  "when_some x f = (case x of None \<Rightarrow> Return () | Some y \<Rightarrow> f y)"

lemma run_Atomic: "run (Atomic f) w = run (fst (f w)) (snd (f w))"
  by (simp add: case_prod_beta)

lemma bind_Atomic: "bind_prog (Atomic f) k = Atomic (\<lambda>w. (bind_prog (fst (f w)) k, snd (f w)))"
  by (simp add: fun_eq_iff map_prod_def case_prod_beta)

lemma prog_induct [case_names Return Fail Atomic, induct type: prog]:
  fixes P :: "('w, 'e, 'a) prog \<Rightarrow> bool"
  assumes "\<And>x. P (Return x)" and "\<And>e. P (Fail e)"
    and "\<And>f. (\<And>w. P (fst (f w))) \<Longrightarrow> P (Atomic f)"
  shows "P p"
proof (rule prog.induct)
  fix f :: "'w \<Rightarrow> ('w, 'e, 'a) prog \<times> 'w"
  assume IH: "\<And>x q. x \<in> range f \<Longrightarrow> q \<in> Basic_BNFs.fsts x \<Longrightarrow> P q"
  have "P (fst (f w))" for w
    by (rule IH [of "f w"]) (simp_all add: fsts.simps prod_set_defs)
  then show "P (Atomic f)" by (rule assms(3))
qed (auto intro: assms)

section \<open>Evaluation\<close>

lemma run_Return [run_simps]: "run (Return x) w = (Inr x, w)"
  by simp

lemma run_Fail [run_simps]: "run (Fail e) w = (Inl e, w)"
  by simp

lemma run_bind [run_simps]:
  "run (bind_prog p k) w = (case run p w of (Inl e, w') \<Rightarrow> (Inl e, w') | (Inr x, w') \<Rightarrow> run (k x) w')"
proof (induction p arbitrary: w)
  case (Atomic f)
  show ?case
    using Atomic [of w "snd (f w)"] by (simp add: run_Atomic bind_Atomic del: run.simps bind_prog.simps)
qed simp_all

lemma run_seq [run_simps]:
  "run (seq_prog p q) w = (case run p w of (Inl e, w') \<Rightarrow> (Inl e, w') | (Inr x, w') \<Rightarrow> run q w')"
  by (simp add: seq_prog_def run_bind)

lemma run_atomic [run_simps]: "run (atomic f) w = (Inr (fst (f w)), snd (f w))"
  by (simp add: atomic_def case_prod_beta)

lemma run_atomic_try [run_simps]: "run (atomic_try f) w = f w"
  by (cases "f w") (auto simp: atomic_try_def split: sum.split)

lemma run_when_true [run_simps]: "run (when_true b p) w = (if b then run p w else (Inr (), w))"
  by (simp add: when_true_def)

lemma run_when_some [run_simps]:
  "run (when_some x f) w = (case x of None \<Rightarrow> (Inr (), w) | Some y \<Rightarrow> run (f y) w)"
  by (simp add: when_some_def split: option.split)

section \<open>Guarantees\<close>

inductive guar :: "('w \<Rightarrow> 'w \<Rightarrow> bool) \<Rightarrow> ('w, 'e, 'a) prog \<Rightarrow> bool" for G where
  guar_Return: "guar G (Return x)"
| guar_Fail: "guar G (Fail e)"
| guar_Atomic: "(\<And>w. G w (snd (f w)) \<and> guar G (fst (f w))) \<Longrightarrow> guar G (Atomic f)"

inductive_simps guar_Atomic_iff: "guar G (Atomic f)"

lemmas guar_base [guar_intros] = guar_Return guar_Fail

lemma guar_bind [guar_intros]:
  assumes "guar G p" and "\<And>x. guar G (k x)"
  shows "guar G (bind_prog p k)"
  using assms(1)
proof (induction rule: guar.induct)
  case (guar_Atomic f)
  then show ?case by (auto intro!: guar.guar_Atomic)
qed (auto intro: assms(2) guar_intros)

lemma guar_seq [guar_intros]: "guar G p \<Longrightarrow> guar G q \<Longrightarrow> guar G (seq_prog p q)"
  by (auto simp: seq_prog_def intro: guar_intros)

lemma guar_atomic: "(\<And>w. G w (snd (f w))) \<Longrightarrow> guar G (atomic f)"
  by (auto simp: atomic_def intro!: guar.guar_Atomic guar_intros)

lemma guar_atomic_try: "(\<And>w. G w (snd (f w))) \<Longrightarrow> guar G (atomic_try f)"
  by (auto simp: atomic_try_def intro!: guar.guar_Atomic guar_intros split: sum.split)

lemma guar_for_each [guar_intros]: "(\<And>x. guar G (f x)) \<Longrightarrow> guar G (for_each xs f)"
  by (induction xs) (auto intro: guar_intros)

lemma guar_count_failed [guar_intros]: "(\<And>x. guar G (f x)) \<Longrightarrow> guar G (count_failed xs f)"
  by (induction xs) (auto intro!: guar_intros)

lemma guar_when_true [guar_intros]: "guar G p \<Longrightarrow> guar G (when_true b p)"
  by (simp add: when_true_def guar_intros)

lemma guar_when_some [guar_intros]: "(\<And>y. guar G (f y)) \<Longrightarrow> guar G (when_some x f)"
  by (auto simp: when_some_def intro: guar_intros split: option.split)

lemma guar_if [guar_intros]: "guar G p \<Longrightarrow> guar G q \<Longrightarrow> guar G (if b then p else q)"
  by simp

lemma guar_case_option [guar_intros]:
  "guar G p \<Longrightarrow> (\<And>y. guar G (f y)) \<Longrightarrow> guar G (case x of None \<Rightarrow> p | Some y \<Rightarrow> f y)"
  by (simp split: option.split)

lemma guar_case_sum [guar_intros]:
  "(\<And>y. guar G (f y)) \<Longrightarrow> (\<And>z. guar G (g z)) \<Longrightarrow> guar G (case x of Inl y \<Rightarrow> f y | Inr z \<Rightarrow> g z)"
  by (simp split: sum.split)

lemma guar_case_prod [guar_intros]:
  "(\<And>y z. guar G (f y z)) \<Longrightarrow> guar G (case x of (y, z) \<Rightarrow> f y z)"
  by (simp split: prod.split)

lemma guar_mono: "guar G p \<Longrightarrow> (\<And>w w'. G w w' \<Longrightarrow> H w w') \<Longrightarrow> guar H p"
  by (induction rule: guar.induct) (auto intro: guar.intros)

text \<open>A program that runs alone moves the world along its guarantee.\<close>

lemma guar_run: "guar G p \<Longrightarrow> G\<^sup>*\<^sup>* w (snd (run p w))"
proof (induction arbitrary: w rule: guar.induct)
  case (guar_Atomic f)
  have "G w (snd (f w))" and "G\<^sup>*\<^sup>* (snd (f w)) (snd (run (fst (f w)) (snd (f w))))"
    using guar_Atomic by blast+
  then show ?case
    by (simp add: run_Atomic del: run.simps)
qed simp_all

section \<open>Interleaving\<close>

text \<open>
  A pool of tasks over one world. A step runs one atomic step of one task, or starts a new task
  that the environment (a new socket, an arriving frame, a timer) may start.
\<close>

inductive pool_step ::
    "('w, 'e, 'a) prog set \<Rightarrow> ('w, 'e, 'a) prog list \<times> 'w \<Rightarrow> ('w, 'e, 'a) prog list \<times> 'w \<Rightarrow> bool"
  for start where
  advance: "i < length ps \<Longrightarrow> ps ! i = Atomic f \<Longrightarrow>
     pool_step start (ps, w) (ps[i := fst (f w)], snd (f w))"
| spawn: "p \<in> start \<Longrightarrow> pool_step start (ps, w) (ps @ [p], w)"

inductive_cases pool_stepE: "pool_step start (ps, w) c"

lemma pool_step_guar:
  assumes "pool_step start (ps, w) (ps', w')"
    and "\<forall>p \<in> start. guar G p" and "\<forall>p \<in> set ps. guar G p"
  shows "G\<^sup>=\<^sup>= w w' \<and> (\<forall>p \<in> set ps'. guar G p)"
  using assms(1)
proof (cases rule: pool_step.cases)
  case (advance i f)
  have "guar G (Atomic f)"
    using advance assms(3) by (metis nth_mem)
  then have "G w (snd (f w)) \<and> guar G (fst (f w))"
    by (simp add: guar_Atomic_iff)
  then show ?thesis
    using advance assms(3) by (auto dest!: set_update_subset_insert [THEN subsetD])
next
  case (spawn p)
  then show ?thesis using assms by auto
qed

lemma pool_steps_guar:
  assumes "(pool_step start)\<^sup>*\<^sup>* ([], w) (ps, w')" and "\<forall>p \<in> start. guar G p"
  shows "G\<^sup>*\<^sup>* w w' \<and> (\<forall>p \<in> set ps. guar G p)"
  using assms(1)
proof (induction "(ps, w')" arbitrary: ps w' rule: rtranclp_induct)
  case base
  then show ?case by simp
next
  case (step c)
  obtain qs v where c: "c = (qs, v)" by (cases c)
  have IH: "G\<^sup>*\<^sup>* w v \<and> (\<forall>p \<in> set qs. guar G p)"
    using step.hyps(3) c by blast
  have "G\<^sup>=\<^sup>= v w' \<and> (\<forall>p \<in> set ps. guar G p)"
    using pool_step_guar [OF step.hyps(2) [unfolded c] assms(2)] IH by blast
  then show ?case
    using IH by (auto intro: rtranclp.rtrancl_into_rtrancl)
qed

text \<open>Running a task alone is one of the pool's schedules.\<close>

lemma pool_run_alone:
  "(pool_step start)\<^sup>*\<^sup>* (ps @ [p], w)
     (ps @ [case fst (run p w) of Inl e \<Rightarrow> Fail e | Inr x \<Rightarrow> Return x], snd (run p w))"
proof (induction p arbitrary: w)
  case (Atomic f)
  have "pool_step start (ps @ [Atomic f], w) ((ps @ [Atomic f])[length ps := fst (f w)], snd (f w))"
    by (rule pool_step.advance) simp_all
  then have "pool_step start (ps @ [Atomic f], w) (ps @ [fst (f w)], snd (f w))"
    by simp
  moreover have "(pool_step start)\<^sup>*\<^sup>* (ps @ [fst (f w)], snd (f w))
      (ps @ [case fst (run (fst (f w)) (snd (f w))) of Inl e \<Rightarrow> Fail e | Inr x \<Rightarrow> Return x],
       snd (run (fst (f w)) (snd (f w))))"
    by (rule Atomic)
  ultimately show ?case
    by (simp add: run_Atomic del: run.simps)
qed simp_all

end
