(* ===== verification/Wire_Types.thy ===== *)
theory Wire_Types
  imports Prelude
begin

text \<open>
  The message types of \<^verbatim>\<open>crates/kaigi-wire/src/lib.rs\<close>: one record per struct, one datatype per
  enum, with the fields and variants in the order of the source. Field names carry a short prefix
  per struct, since several structs share a field name. Integers have the width of the source.
\<close>

record anon_hello_frame =
  ah_protocol_version :: u16
  ah_participant_handle :: string
  ah_x25519_pubkey_hex :: string

record anon_roster_entry =
  are_participant_handle :: string
  are_x25519_pubkey_hex :: string
  are_joined_at_ms :: u64

record anon_roster_frame =
  ar_at_ms :: u64
  ar_participants :: "anon_roster_entry list"

record group_key_update_frame =
  gk_sent_at_ms :: u64
  gk_participant_handle :: string
  gk_x25519_pubkey_hex :: string
  gk_epoch :: u64

datatype encrypted_control_kind =
    Ctl_Chat
  | Ctl_ParticipantState
  | Ctl_Moderation
  | Ctl_Command
  | Ctl_EscrowHeartbeat

record encrypted_recipient_payload =
  erp_recipient_handle :: string
  erp_nonce_hex :: string
  erp_ciphertext_hex :: string

record encrypted_control_frame =
  ec_sent_at_ms :: u64
  ec_sender_handle :: string
  ec_epoch :: u64
  ec_kind :: encrypted_control_kind
  ec_payloads :: "encrypted_recipient_payload list"

record escrow_proof_frame =
  ep_sent_at_ms :: u64
  ep_payer_handle :: string
  ep_escrow_id :: string
  ep_proof_hex :: string

record escrow_ack_frame =
  ea_received_at_ms :: u64
  ea_escrow_id :: string
  ea_accepted :: bool
  ea_reason :: "string option"

record hello_frame =
  he_protocol_version :: u16
  he_participant_id :: string
  he_display_name :: "string option"
  he_mic_enabled :: bool
  he_video_enabled :: bool
  he_screen_share_enabled :: bool
  he_hdr_display :: bool
  he_hdr_capture :: bool

record chat_frame =
  ch_sent_at_ms :: u64
  ch_from_participant_id :: string
  ch_from_display_name :: "string option"
  ch_text :: string

record roster_entry =
  roe_participant_id :: string
  roe_display_name :: "string option"
  roe_mic_enabled :: bool
  roe_video_enabled :: bool
  roe_screen_share_enabled :: bool

record roster_frame =
  ro_at_ms :: u64
  ro_participants :: "roster_entry list"

record participant_snapshot =
  sn_at_ms :: u64
  sn_participant_id :: string
  sn_display_name :: "string option"
  sn_mic_enabled :: bool
  sn_video_enabled :: bool
  sn_screen_share_enabled :: bool

record participant_left_frame =
  lf_at_ms :: u64
  lf_participant_id :: string

datatype room_event_frame =
    Ev_Joined participant_snapshot
  | Ev_Left participant_left_frame
  | Ev_StateUpdated participant_snapshot

record participant_state_frame =
  psf_updated_at_ms :: u64
  psf_mic_enabled :: "bool option"
  psf_video_enabled :: "bool option"
  psf_screen_share_enabled :: "bool option"

datatype media_track_kind =
    Track_Camera
  | Track_ScreenShare

datatype video_codec_kind =
    Codec_NoritoBaseline

datatype audio_codec_kind =
    Audio_NoritoNative

record media_capability_frame =
  mc_reported_at_ms :: u64
  mc_participant_id :: string
  mc_max_video_width :: u16
  mc_max_video_height :: u16
  mc_max_video_fps :: u8
  mc_video_codecs :: "video_codec_kind list"
  mc_audio_codecs :: "audio_codec_kind list"
  mc_audio_sample_rate :: u32
  mc_audio_channels :: u8

record media_track_state_frame =
  mt_updated_at_ms :: u64
  mt_participant_id :: string
  mt_mic_enabled :: bool
  mt_camera_enabled :: bool
  mt_screen_share_enabled :: bool
  mt_active_video_track :: media_track_kind

record video_segment_frame =
  vs_sent_at_ms :: u64
  vs_participant_id :: string
  vs_segment_number :: u64
  vs_frame_width :: u16
  vs_frame_height :: u16
  vs_frame_duration_ns :: u32
  vs_payload :: bytes

record audio_packet_frame =
  ap_sent_at_ms :: u64
  ap_participant_id :: string
  ap_sequence :: u64
  ap_sample_rate :: u32
  ap_channels :: u8
  ap_frame_samples :: u16
  ap_payload :: bytes

datatype anonymous_payload_kind =
    Anon_Control
  | Anon_VideoSegment
  | Anon_AudioPacket

record anon_group_key_rotate_frame =
  kr_sent_at_ms :: u64
  kr_epoch :: u64
  kr_key_wrap_hex :: string
  kr_member_handles :: "string list"

record anon_encrypted_payload_frame =
  ae_sent_at_ms :: u64
  ae_sender_handle :: string
  ae_epoch :: u64
  ae_kind :: anonymous_payload_kind
  ae_nonce_hex :: string
  ae_ciphertext_hex :: string

record room_config_frame =
  rc_updated_at_ms :: u64
  rc_host_participant_id :: "string option"
  rc_rate_per_minute_nano :: u64
  rc_billing_grace_secs :: u64
  rc_max_screen_shares :: u8

record room_config_update_frame =
  rcu_updated_at_ms :: u64
  rcu_rate_per_minute_nano :: "u64 option"
  rcu_max_screen_shares :: "u8 option"

datatype role_kind =
    Role_Host
  | Role_CoHost
  | Role_Participant

record role_grant_frame =
  rg_issued_at_ms :: u64
  rg_target_participant_id :: string
  rg_role :: role_kind
  rg_granted_by :: string
  rg_signature_hex :: string

record role_revoke_frame =
  rr_issued_at_ms :: u64
  rr_target_participant_id :: string
  rr_role :: role_kind
  rr_revoked_by :: string
  rr_signature_hex :: string

record permissions_snapshot_frame =
  perm_at_ms :: u64
  perm_participant_id :: string
  perm_host :: bool
  perm_co_host :: bool
  perm_can_moderate :: bool
  perm_can_record_local :: bool
  perm_epoch :: u64

record session_policy_frame =
  sp_updated_at_ms :: u64
  sp_room_lock :: bool
  sp_waiting_room_enabled :: bool
  sp_guest_join_allowed :: bool
  sp_local_recording_allowed :: bool
  sp_e2ee_required :: bool
  sp_max_participants :: u32
  sp_policy_epoch :: u64
  sp_updated_by :: string
  sp_signature_hex :: string

record device_capability_frame =
  dc_reported_at_ms :: u64
  dc_participant_id :: string
  dc_codecs :: "string list"
  dc_hdr_capture :: bool
  dc_hdr_render :: bool
  dc_max_video_streams :: u16

datatype media_profile_kind =
    Profile_Sdr
  | Profile_Hdr

record media_profile_negotiation_frame =
  mp_at_ms :: u64
  mp_participant_id :: string
  mp_requested_profile :: media_profile_kind
  mp_negotiated_profile :: media_profile_kind
  mp_codec :: string
  mp_epoch :: u64

datatype recording_state =
    Recording_Started
  | Recording_Stopped

record recording_notice_frame =
  rn_at_ms :: u64
  rn_participant_id :: string
  rn_state :: recording_state
  rn_local_recording :: bool
  rn_policy_basis :: "string option"
  rn_issued_by :: string

record e2ee_key_epoch_frame =
  ke_sent_at_ms :: u64
  ke_participant_id :: string
  ke_epoch :: u64
  ke_public_key_hex :: string
  ke_signature_hex :: string

record key_rotation_ack_frame =
  ka_received_at_ms :: u64
  ka_participant_id :: string
  ka_ack_epoch :: u64

record role_change_entry =
  rce_participant_id :: string
  rce_role :: role_kind
  rce_granted :: bool

record participant_presence_delta_frame =
  pd_at_ms :: u64
  pd_sequence :: u64
  pd_joined :: "participant_snapshot list"
  pd_left :: "participant_left_frame list"
  pd_role_changes :: "role_change_entry list"

datatype moderation_target =
    Target_All
  | Target_Participant string

datatype moderation_action =
    Action_Kick
  | Action_DisableMic
  | Action_DisableVideo
  | Action_DisableScreenShare
  | Action_AdmitFromWaiting
  | Action_DenyFromWaiting

record moderation_frame =
  mo_sent_at_ms :: u64
  mo_target :: moderation_target
  mo_action :: moderation_action

record moderation_signed_frame =
  ms_sent_at_ms :: u64
  ms_target :: moderation_target
  ms_action :: moderation_action
  ms_issued_by :: string
  ms_signature_hex :: string

record payment_frame =
  pay_sent_at_ms :: u64
  pay_amount_nano_xor :: u64
  pay_tx_hash_hex :: "string option"

record payment_ack_frame =
  pa_received_at_ms :: u64
  pa_amount_nano_xor :: u64
  pa_total_paid_nano_xor :: u64
  pa_total_billed_nano_xor :: u64

record ping_frame =
  ping_nonce :: u64

record pong_frame =
  pong_nonce :: u64

record error_frame =
  err_message :: string

datatype kaigi_frame =
    K_AnonHello anon_hello_frame
  | K_AnonRoster anon_roster_frame
  | K_GroupKeyUpdate group_key_update_frame
  | K_EncryptedControl encrypted_control_frame
  | K_EscrowProof escrow_proof_frame
  | K_EscrowAck escrow_ack_frame
  | K_Hello hello_frame
  | K_Roster roster_frame
  | K_Event room_event_frame
  | K_RoomConfig room_config_frame
  | K_RoomConfigUpdate room_config_update_frame
  | K_Moderation moderation_frame
  | K_ModerationSigned moderation_signed_frame
  | K_RoleGrant role_grant_frame
  | K_RoleRevoke role_revoke_frame
  | K_PermissionsSnapshot permissions_snapshot_frame
  | K_SessionPolicy session_policy_frame
  | K_DeviceCapability device_capability_frame
  | K_MediaProfileNegotiation media_profile_negotiation_frame
  | K_RecordingNotice recording_notice_frame
  | K_E2EEKeyEpoch e2ee_key_epoch_frame
  | K_KeyRotationAck key_rotation_ack_frame
  | K_ParticipantPresenceDelta participant_presence_delta_frame
  | K_Chat chat_frame
  | K_ParticipantState participant_state_frame
  | K_MediaCapability media_capability_frame
  | K_MediaTrackState media_track_state_frame
  | K_VideoSegment video_segment_frame
  | K_AudioPacket audio_packet_frame
  | K_AnonGroupKeyRotate anon_group_key_rotate_frame
  | K_AnonEncryptedPayload anon_encrypted_payload_frame
  | K_Payment payment_frame
  | K_PaymentAck payment_ack_frame
  | K_Ping ping_frame
  | K_Pong pong_frame
  | K_Error error_frame

definition PROTOCOL_VERSION :: u16 where
  "PROTOCOL_VERSION = 6"

definition MAX_FRAME_LEN :: nat where
  "MAX_FRAME_LEN = 2 * 1024 * 1024"

definition MAX_ANON_PARTICIPANT_HANDLE_LEN :: nat where
  "MAX_ANON_PARTICIPANT_HANDLE_LEN = 128"

definition MAX_ESCROW_ID_LEN :: nat where
  "MAX_ESCROW_ID_LEN = 128"

definition MAX_ESCROW_PROOF_HEX_LEN :: nat where
  "MAX_ESCROW_PROOF_HEX_LEN = 64 * 1024"

text \<open>
  What the program calls and the repository does not hold: the Norito codec, BLAKE3 and the
  \<open>hex\<close> crate. They are parameters, gathered in one record that the definitions take.
\<close>

record ext =
  norito_to_bytes :: "kaigi_frame \<Rightarrow> bytes option"
  norito_decode :: "bytes \<Rightarrow> kaigi_frame option"
  blake3 :: "bytes \<Rightarrow> bytes"
  hex_encode :: "bytes \<Rightarrow> string"
  hex_decode :: "string \<Rightarrow> bytes option"

text \<open>What a codec promises: decoding inverts encoding, and an encoding is never empty.\<close>

definition norito_roundtrip :: "ext \<Rightarrow> bool" where
  "norito_roundtrip X \<longleftrightarrow> (\<forall>f b. norito_to_bytes X f = Some b \<longrightarrow> norito_decode X b = Some f)"

definition norito_nonempty :: "ext \<Rightarrow> bool" where
  "norito_nonempty X \<longleftrightarrow> (\<forall>f b. norito_to_bytes X f = Some b \<longrightarrow> b \<noteq> [])"

section \<open>An instance of the parameters\<close>

text \<open>
  A concrete instance, on which the theorems that speak of the parameters are applied: pings and
  error messages are encoded with a tag byte, the hash is a truncation, hex is hex.
\<close>

definition hex_digit :: "nat \<Rightarrow> char" where
  "hex_digit n = (if n < 10 then char_of (48 + n) else char_of (87 + n))"

definition hex_value :: "char \<Rightarrow> nat option" where
  "hex_value c = (let n = byte_of c in
     if 48 \<le> n \<and> n \<le> 57 then Some (n - 48)
     else if 97 \<le> n \<and> n \<le> 102 then Some (n - 87)
     else if 65 \<le> n \<and> n \<le> 70 then Some (n - 55) else None)"

fun hex_pairs :: "string \<Rightarrow> bytes option" where
  "hex_pairs [] = Some []"
| "hex_pairs [c] = None"
| "hex_pairs (a # b # s) =
     (case (hex_value a, hex_value b, hex_pairs s) of
        (Some x, Some y, Some bs) \<Rightarrow> Some (of_nat (16 * x + y) # bs)
      | _ \<Rightarrow> None)"

definition demo_encode :: "kaigi_frame \<Rightarrow> bytes option" where
  "demo_encode f = (case f of
     K_Ping p \<Rightarrow> Some (1 # be_bytes 8 (unat (ping_nonce p)))
   | K_Error e \<Rightarrow> Some (2 # str_bytes (err_message e))
   | _ \<Rightarrow> None)"

definition demo_decode :: "bytes \<Rightarrow> kaigi_frame option" where
  "demo_decode b = (case b of
     [] \<Rightarrow> None
   | t # r \<Rightarrow>
       if t = 1 then Some (K_Ping \<lparr>ping_nonce = of_nat (be_value r)\<rparr>)
       else if t = 2 then Some (K_Error \<lparr>err_message = map (\<lambda>x. char_of (unat x)) r\<rparr>)
       else None)"

definition demo_ext :: ext where
  "demo_ext = \<lparr>
     norito_to_bytes = demo_encode,
     norito_decode = demo_decode,
     blake3 = (\<lambda>b. take 32 (rev b @ replicate 32 0)),
     hex_encode = (\<lambda>b. concat (map (\<lambda>x. [hex_digit (unat x div 16), hex_digit (unat x mod 16)]) b)),
     hex_decode = hex_pairs\<rparr>"

lemma str_bytes_inverse: "map (\<lambda>x. char_of (unat x)) (str_bytes s) = s"
proof -
  have "char_of (unat (of_char c :: u8)) = c" for c
  proof -
    have "(of_char c :: u8) = of_nat (of_char c)"
      by (simp only: of_nat_of_char)
    then have "unat (of_char c :: u8) = of_char c mod 256"
      by (simp only: unat_of_nat) simp
    then show ?thesis
      by (simp only: mod_less nat_of_char_less_256 char_of_char)
  qed
  then show ?thesis by (simp add: str_bytes_def comp_def map_idI)
qed

lemma demo_ext_roundtrip: "norito_roundtrip demo_ext"
proof -
  have "be_value (be_bytes 8 (unat (n :: u64))) = unat n" for n
    using u64_lt [of n] by (intro be_value_bytes) simp
  then show ?thesis
    by (auto simp: norito_roundtrip_def demo_ext_def demo_encode_def demo_decode_def
        str_bytes_inverse split: kaigi_frame.splits)
qed

lemma demo_ext_nonempty: "norito_nonempty demo_ext"
  by (auto simp: norito_nonempty_def demo_ext_def demo_encode_def split: kaigi_frame.splits)

end
