(* ===== verification/Framing.thy ===== *)
theory Framing
  imports Prelude
begin

text \<open>
  The interface of a length-prefixed byte stream: a sender writes the length of a payload in a
  header of fixed width and then the payload; a receiver reads the header back. Two parts of the
  program use it, with a 4-byte header (\<^verbatim>\<open>kaigi-wire\<close>) and a 2-byte header (the relay handshake
  of \<^verbatim>\<open>kaigi-soranet-client\<close>).
\<close>

locale length_prefixed =
  fixes put_len :: "nat \<Rightarrow> bytes"
    and get_len :: "bytes \<Rightarrow> nat"
    and width :: nat
    and limit :: nat
  assumes length_put_len: "length (put_len n) = width"
    and get_put_len: "n \<le> limit \<Longrightarrow> get_len (put_len n) = n"
begin

lemma take_header: "take width (put_len n @ rest) = put_len n"
  by (simp add: length_put_len)

lemma drop_header: "drop width (put_len n @ rest) = rest"
  by (simp add: length_put_len)

lemma split_frame:
  assumes "length p \<le> limit"
  shows "get_len (take width (put_len (length p) @ p @ rest)) = length p"
    and "take (length p) (drop width (put_len (length p) @ p @ rest)) = p"
    and "drop (width + length p) (put_len (length p) @ p @ rest) = rest"
proof -
  show "get_len (take width (put_len (length p) @ p @ rest)) = length p"
    using assms by (simp only: take_header get_put_len)
  show "take (length p) (drop width (put_len (length p) @ p @ rest)) = p"
    by (simp only: drop_header) simp
  have "drop (width + length p) (put_len (length p) @ p @ rest)
      = drop (length p) (drop width (put_len (length p) @ p @ rest))"
    by (simp only: drop_drop add.commute)
  then show "drop (width + length p) (put_len (length p) @ p @ rest) = rest"
    by (simp only: drop_header) simp
qed

text \<open>Two senders' outputs differ whenever their payloads differ, whatever follows.\<close>

lemma frame_unique:
  assumes "length p \<le> limit" and "length q \<le> limit"
    and "put_len (length p) @ p @ r = put_len (length q) @ q @ s"
  shows "p = q \<and> r = s"
proof -
  have "length p = length q"
    using split_frame(1) [OF assms(1), of r] split_frame(1) [OF assms(2), of s] assms(3) by simp
  then show ?thesis
    using assms(3) by (simp add: length_put_len)
qed

end

end
