(* ===== verification/Wire_Codec.thy ===== *)
theory Wire_Codec
  imports Wire_Types Framing
begin

text \<open>
  The framing codec of \<^verbatim>\<open>crates/kaigi-wire/src/lib.rs\<close>: \<open>encode_framed\<close> and the streaming
  \<open>FrameDecoder\<close>, and the receive loop around it. The frames a receiver sees do not depend on
  where the transport cut the byte stream, and a sender's frames arrive as they were sent.
\<close>

datatype wire_error =
    Norito_Encode
  | Frame_Too_Large nat
  | Declared_Length_Too_Large nat
  | Norito_Decode

record frame_decoder =
  buf :: bytes

definition decoder_new :: frame_decoder where
  "decoder_new = \<lparr>buf = []\<rparr>"

definition decoder_push :: "frame_decoder \<Rightarrow> bytes \<Rightarrow> frame_decoder" where
  "decoder_push d data = d\<lparr>buf := buf d @ data\<rparr>"

definition buffer_len :: "frame_decoder \<Rightarrow> nat" where
  "buffer_len d = length (buf d)"

definition u32_be_bytes :: "nat \<Rightarrow> bytes" where
  "u32_be_bytes n = be_bytes 4 n"

definition encode_framed :: "ext \<Rightarrow> kaigi_frame \<Rightarrow> wire_error + bytes" where
  "encode_framed X frame =
     (case norito_to_bytes X frame of
        None \<Rightarrow> Inl Norito_Encode
      | Some payload \<Rightarrow>
          if length payload > MAX_FRAME_LEN then Inl (Frame_Too_Large (length payload))
          else Inr (u32_be_bytes (length payload) @ payload))"

definition try_next :: "ext \<Rightarrow> frame_decoder \<Rightarrow> (wire_error + kaigi_frame option) \<times> frame_decoder" where
  "try_next X d =
     (if length (buf d) < 4 then (Inr None, d)
      else let len = be_value (take 4 (buf d)) in
        if len = 0 then
          (Inr (Some (K_Error \<lparr>err_message = ''zero-length frame''\<rparr>)), d\<lparr>buf := drop 4 (buf d)\<rparr>)
        else if len > MAX_FRAME_LEN then (Inl (Declared_Length_Too_Large len), d)
        else if length (buf d) < 4 + len then (Inr None, d)
        else
          let payload = take len (drop 4 (buf d));
              d' = d\<lparr>buf := drop (4 + len) (buf d)\<rparr> in
          case norito_decode X payload of
            None \<Rightarrow> (Inl Norito_Decode, d')
          | Some frame \<Rightarrow> (Inr (Some frame), d'))"

section \<open>The receive loop\<close>

lemma try_next_shrinks:
  "try_next X d = (Inr (Some f), d') \<Longrightarrow> length (buf d') + 4 \<le> length (buf d)"
  by (auto simp: try_next_def Let_def split: if_splits option.splits)

function drain :: "ext \<Rightarrow> frame_decoder \<Rightarrow> kaigi_frame list \<times> wire_error option \<times> frame_decoder" where
  \<comment> \<open>\<open>while let Some(frame) = decoder.try_next()?\<close>: the frames, the error that stopped it if any\<close>
  "drain X d =
     (case try_next X d of
        (Inl e, d') \<Rightarrow> ([], Some e, d')
      | (Inr None, d') \<Rightarrow> ([], None, d')
      | (Inr (Some f), d') \<Rightarrow> (case drain X d' of (fs, e, d'') \<Rightarrow> (f # fs, e, d'')))"
  by pat_completeness auto
termination
  by (relation "measure (\<lambda>(X, d). length (buf d))") (auto dest!: try_next_shrinks [OF sym])

declare drain.simps [simp del]

fun receive :: "ext \<Rightarrow> frame_decoder \<Rightarrow> bytes list \<Rightarrow> kaigi_frame list \<times> wire_error option \<times> frame_decoder" where
  \<comment> \<open>one \<open>push\<close> and one \<open>drain\<close> per chunk of the transport, until the first error\<close>
  "receive X d [] = ([], None, d)"
| "receive X d (c # cs) =
     (case drain X (decoder_push d c) of
        (fs, Some e, d') \<Rightarrow> (fs, Some e, d')
      | (fs, None, d') \<Rightarrow> (case receive X d' cs of (gs, e, d'') \<Rightarrow> (fs @ gs, e, d'')))"

lemma MAX_FRAME_LEN_lt: "MAX_FRAME_LEN < 256 ^ 4"
  by (simp add: MAX_FRAME_LEN_def)

interpretation wire: length_prefixed u32_be_bytes be_value 4 MAX_FRAME_LEN
  by unfold_locales (use MAX_FRAME_LEN_lt in \<open>auto simp: u32_be_bytes_def be_value_bytes\<close>)

lemma encode_framed_Inr:
  "encode_framed X f = Inr bs \<longleftrightarrow>
     (\<exists>p. norito_to_bytes X f = Some p \<and> length p \<le> MAX_FRAME_LEN \<and> bs = u32_be_bytes (length p) @ p)"
  by (auto simp: encode_framed_def split: option.splits if_splits)

text \<open>One encoded frame at the head of the buffer is decoded and removed.\<close>

lemma try_next_encoded:
  assumes "norito_roundtrip X" and "norito_nonempty X" and "encode_framed X f = Inr bs"
  shows "try_next X \<lparr>buf = bs @ rest\<rparr> = (Inr (Some f), \<lparr>buf = rest\<rparr>)"
proof -
  obtain p where p: "norito_to_bytes X f = Some p" "length p \<le> MAX_FRAME_LEN"
      "bs = u32_be_bytes (length p) @ p"
    using assms(3) by (auto simp: encode_framed_Inr)
  have "p \<noteq> []" and "norito_decode X p = Some f"
    using assms(1,2) p(1) by (auto simp: norito_nonempty_def norito_roundtrip_def)
  then show ?thesis
    using p wire.split_frame [OF p(2), of rest]
    by (simp add: try_next_def Let_def wire.length_put_len)
qed

text \<open>What \<open>try_next\<close> decides on a buffer it decides the same way when more bytes follow.\<close>

lemma try_next_more:
  "try_next X \<lparr>buf = a\<rparr> = (Inr (Some f), d') \<Longrightarrow>
     try_next X \<lparr>buf = a @ b\<rparr> = (Inr (Some f), \<lparr>buf = buf d' @ b\<rparr>)"
  by (auto simp: try_next_def Let_def split: if_splits option.splits)

lemma try_next_more_error:
  "try_next X \<lparr>buf = a\<rparr> = (Inl e, d') \<Longrightarrow> \<exists>d''. try_next X \<lparr>buf = a @ b\<rparr> = (Inl e, d'')"
  by (auto simp: try_next_def Let_def split: if_splits option.splits)

lemma drain_stop: "drain X d = (fs, None, d') \<Longrightarrow> drain X d' = ([], None, d')"
proof (induction X d arbitrary: fs rule: drain.induct)
  case (1 X d)
  obtain r d1 where t: "try_next X d = (r, d1)" by (cases "try_next X d")
  show ?case
  proof (cases r)
    case (Inl e)
    then show ?thesis using "1.prems" t by (simp add: drain.simps [of X d])
  next
    case (Inr x)
    show ?thesis
    proof (cases x)
      case None
      then have "d' = d1" and "d1 = d"
        using "1.prems" t Inr
        by (auto simp: drain.simps [of X d] try_next_def Let_def split: if_splits option.splits)
      then show ?thesis using t Inr None by (simp add: drain.simps [of X d])
    next
      case (Some f)
      then obtain gs where "drain X d1 = (gs, None, d')"
        using "1.prems" t Inr by (auto simp: drain.simps [of X d] split: prod.splits)
      then show ?thesis using "1.IH" [OF t [symmetric] Inr Some] by blast
    qed
  qed
qed

lemma drain_more:
  "drain X \<lparr>buf = a\<rparr> = (fs, e, d') \<Longrightarrow>
     (case e of
        Some e' \<Rightarrow> \<exists>d''. drain X \<lparr>buf = a @ b\<rparr> = (fs, Some e', d'')
      | None \<Rightarrow> drain X \<lparr>buf = a @ b\<rparr>
          = (case drain X \<lparr>buf = buf d' @ b\<rparr> of (gs, e'', d'') \<Rightarrow> (fs @ gs, e'', d'')))"
proof (induction X "\<lparr>buf = a\<rparr>" arbitrary: a fs rule: drain.induct)
  case (1 X a)
  obtain r d1 where t: "try_next X \<lparr>buf = a\<rparr> = (r, d1)" by (cases "try_next X \<lparr>buf = a\<rparr>")
  show ?case
  proof (cases r)
    case (Inl err)
    then obtain d2 where "try_next X \<lparr>buf = a @ b\<rparr> = (Inl err, d2)"
      using try_next_more_error t by blast
    then show ?thesis
      using "1.prems" t Inl
      by (auto simp: drain.simps [of X "\<lparr>buf = a\<rparr>"] drain.simps [of X "\<lparr>buf = a @ b\<rparr>"])
  next
    case (Inr x)
    show ?thesis
    proof (cases x)
      case None
      then have "d' = \<lparr>buf = a\<rparr>" and "e = None" and "fs = []"
        using "1.prems" t Inr
        by (auto simp: drain.simps [of X "\<lparr>buf = a\<rparr>"] try_next_def Let_def split: if_splits option.splits)
      then show ?thesis by (auto split: prod.splits)
    next
      case (Some f)
      obtain c where d1: "d1 = \<lparr>buf = c\<rparr>" by (cases d1) simp
      obtain gs where gs: "drain X \<lparr>buf = c\<rparr> = (gs, e, d')" and fs: "fs = f # gs"
        using "1.prems" t Inr Some d1 by (auto simp: drain.simps [of X "\<lparr>buf = a\<rparr>"] split: prod.splits)
      have "try_next X \<lparr>buf = a @ b\<rparr> = (Inr (Some f), \<lparr>buf = c @ b\<rparr>)"
        using try_next_more t Inr Some d1 by fastforce
      moreover have "case e of
            Some e' \<Rightarrow> \<exists>d''. drain X \<lparr>buf = c @ b\<rparr> = (gs, Some e', d'')
          | None \<Rightarrow> drain X \<lparr>buf = c @ b\<rparr>
              = (case drain X \<lparr>buf = buf d' @ b\<rparr> of (hs, e'', d'') \<Rightarrow> (gs @ hs, e'', d''))"
        using "1.hyps" [OF t [unfolded d1, symmetric] Inr Some gs] by blast
      ultimately show ?thesis
        using fs by (auto simp: drain.simps [of X "\<lparr>buf = a @ b\<rparr>"] split: option.splits prod.splits)
    qed
  qed
qed

lemma drain_encoded:
  assumes "norito_roundtrip X" and "norito_nonempty X"
  shows "list_all2 (\<lambda>f bs. encode_framed X f = Inr bs) fs bss \<Longrightarrow>
     drain X \<lparr>buf = concat bss\<rparr> = (fs, None, \<lparr>buf = []\<rparr>)"
proof (induction rule: list_all2_induct)
  case Nil
  then show ?case by (simp add: drain.simps [of X "\<lparr>buf = []\<rparr>"] try_next_def)
next
  case (Cons f fs bs bss)
  then show ?case
    using try_next_encoded [OF assms Cons(1), of "concat bss"]
    by (simp add: drain.simps [of X "\<lparr>buf = bs @ concat bss\<rparr>"])
qed

text \<open>
  What is left in the buffer when \<open>drain\<close> stops without an error is an incomplete frame.
\<close>

lemma drain_rest_short: "drain X d = (fs, None, d') \<Longrightarrow> buffer_len d' < 4 + MAX_FRAME_LEN"
  using drain_stop [of X d fs d']
  by (auto simp: drain.simps [of X d'] try_next_def Let_def buffer_len_def
      split: if_splits option.splits prod.splits)

lemma receive_append_drain:
  "drain X d = ([], None, d) \<Longrightarrow> receive X d cs = (fs, e, d') \<Longrightarrow>
     (\<exists>d''. drain X \<lparr>buf = buf d @ concat cs\<rparr> = (fs, e, d'') \<and> (e = None \<longrightarrow> d'' = d'))"
proof (induction cs arbitrary: d fs)
  case Nil
  then show ?case by (cases d) auto
next
  case (Cons c cs)
  obtain gs e1 d1 where 1: "drain X \<lparr>buf = buf d @ c\<rparr> = (gs, e1, d1)"
    by (cases "drain X \<lparr>buf = buf d @ c\<rparr>") auto
  have push: "decoder_push d c = \<lparr>buf = buf d @ c\<rparr>"
    by (cases d) (simp add: decoder_push_def)
  have more: "case e1 of
        Some e' \<Rightarrow> \<exists>d''. drain X \<lparr>buf = (buf d @ c) @ concat cs\<rparr> = (gs, Some e', d'')
      | None \<Rightarrow> drain X \<lparr>buf = (buf d @ c) @ concat cs\<rparr>
          = (case drain X \<lparr>buf = buf d1 @ concat cs\<rparr> of (hs, e'', d'') \<Rightarrow> (gs @ hs, e'', d''))"
    by (rule drain_more [OF 1])
  show ?case
  proof (cases e1)
    case (Some e')
    then show ?thesis using 1 more Cons.prems(2) push by auto
  next
    case None
    obtain hs where hs: "receive X d1 cs = (hs, e, d')" and fs: "fs = gs @ hs"
      using Cons.prems(2) 1 None push by (auto split: prod.splits)
    have "drain X d1 = ([], None, d1)"
      using drain_stop 1 None by blast
    from Cons.IH [OF this hs] obtain d2 where
        "drain X \<lparr>buf = buf d1 @ concat cs\<rparr> = (hs, e, d2)" and "e = None \<longrightarrow> d2 = d'"
      by blast
    then show ?thesis using more None fs by auto
  qed
qed

lemma drain_new: "drain X decoder_new = ([], None, decoder_new)"
  by (subst drain.simps) (simp add: try_next_def decoder_new_def)

lemma receive_drain:
  "fst (receive X decoder_new cs) = fst (drain X \<lparr>buf = concat cs\<rparr>)"
  "fst (snd (receive X decoder_new cs)) = fst (snd (drain X \<lparr>buf = concat cs\<rparr>))"
  using receive_append_drain [OF drain_new, of X cs]
  by (cases "receive X decoder_new cs", auto simp: decoder_new_def)+

lemma receive_encoded:
  assumes "norito_roundtrip X" and "norito_nonempty X"
    and "list_all2 (\<lambda>f bs. encode_framed X f = Inr bs) fs bss"
    and "concat chunks = concat bss"
  shows "receive X decoder_new chunks = (fs, None, decoder_new)"
proof -
  obtain gs e d where r: "receive X decoder_new chunks = (gs, e, d)"
    by (cases "receive X decoder_new chunks") auto
  obtain d'' where "drain X \<lparr>buf = buf decoder_new @ concat chunks\<rparr> = (gs, e, d'')"
      and "e = None \<longrightarrow> d'' = d"
    using receive_append_drain [OF drain_new r] by blast
  moreover have "drain X \<lparr>buf = concat bss\<rparr> = (fs, None, decoder_new)"
    using drain_encoded [OF assms(1-3)] by (simp add: decoder_new_def)
  ultimately show ?thesis
    using r assms(4) by (simp add: decoder_new_def)
qed

section \<open>Properties\<close>

text \<open>C6. Frames survive the transport: if a sender encodes a sequence of frames and the
  transport delivers the same bytes cut into any chunks, the receiver's decoder yields exactly
  the frames that were sent, in order, without an error, and its buffer is empty afterwards.
  (The Norito codec inverts itself and has no empty encodings.)\<close>

theorem receive_roundtrip:
  assumes "norito_roundtrip X" and "norito_nonempty X"
    and "list_all2 (\<lambda>f bs. encode_framed X f = Inr bs) fs bss"
    and "concat chunks = concat bss"
  shows "receive X decoder_new chunks = (fs, None, decoder_new)"
  by (rule receive_encoded [OF assms])

lemma receive_roundtrip_witness:
  "receive demo_ext decoder_new [[0, 0, 0], [9, 1, 0, 0, 0, 0, 0, 0, 0, 7, 0, 0, 0, 3, 2], [104, 105]]
    = ([K_Ping \<lparr>ping_nonce = 7\<rparr>, K_Error \<lparr>err_message = ''hi''\<rparr>], None, decoder_new)"
proof (rule receive_roundtrip [OF demo_ext_roundtrip demo_ext_nonempty])
  show "list_all2 (\<lambda>f bs. encode_framed demo_ext f = Inr bs)
      [K_Ping \<lparr>ping_nonce = 7\<rparr>, K_Error \<lparr>err_message = ''hi''\<rparr>]
      [[0, 0, 0, 9, 1, 0, 0, 0, 0, 0, 0, 0, 7], [0, 0, 0, 3, 2, 104, 105]]"
    by code_simp
qed simp

text \<open>Chunk boundaries do not matter, for any byte stream, well formed or not: feeding the
  stream in any two chunkings yields the same frames and the same error, if any.\<close>

theorem receive_chunking_irrelevant:
  assumes "concat cs = concat cs'"
  shows "fst (receive X decoder_new cs) = fst (receive X decoder_new cs')
    \<and> fst (snd (receive X decoder_new cs)) = fst (snd (receive X decoder_new cs'))"
  using assms by (simp add: receive_drain)

lemma receive_chunking_irrelevant_witness:
  "fst (receive demo_ext decoder_new [[0, 0, 0, 1, 9]]) = fst (receive demo_ext decoder_new [[0, 0], [0, 1, 9]])
    \<and> fst (snd (receive demo_ext decoder_new [[0, 0, 0, 1, 9]]))
      = fst (snd (receive demo_ext decoder_new [[0, 0], [0, 1, 9]]))"
  by (rule receive_chunking_irrelevant) simp

text \<open>The decoder's memory is bounded: when the receive loop waits for more bytes, fewer
  than \<open>4 + MAX_FRAME_LEN\<close> bytes are buffered, whatever was received before.\<close>

theorem drain_buffer_bound:
  "drain X d = (fs, None, d') \<Longrightarrow> buffer_len d' < 4 + MAX_FRAME_LEN"
  by (rule drain_rest_short)
lemma drain_buffer_bound_witness: "buffer_len \<lparr>buf = [0, 0, 0]\<rparr> < 4 + MAX_FRAME_LEN"
  by (rule drain_buffer_bound [of demo_ext "\<lparr>buf = [0, 0, 0, 0, 0, 0, 0]\<rparr>"
        "[K_Error \<lparr>err_message = ''zero-length frame''\<rparr>]"]) code_simp

text \<open>A declared length above the limit is rejected for good: the decoder reports the error,
  keeps its buffer, and reports the same error after any further bytes.\<close>

theorem try_next_oversized_sticky:
  assumes "4 \<le> length (buf d)" and "MAX_FRAME_LEN < be_value (take 4 (buf d))"
  shows "try_next X (decoder_push d extra)
    = (Inl (Declared_Length_Too_Large (be_value (take 4 (buf d)))), decoder_push d extra)"
  using assms by (auto simp: try_next_def Let_def decoder_push_def MAX_FRAME_LEN_def)

lemma try_next_oversized_sticky_witness:
  "try_next demo_ext (decoder_push \<lparr>buf = [255, 0, 0, 0, 1]\<rparr> [2, 3])
    = (Inl (Declared_Length_Too_Large 4278190080), \<lparr>buf = [255, 0, 0, 0, 1, 2, 3]\<rparr>)"
proof -
  have v: "be_value (take 4 (buf \<lparr>buf = [255, 0, 0, 0, 1]\<rparr>)) = 4278190080"
    by (simp add: be_value_def)
  have "MAX_FRAME_LEN < be_value (take 4 (buf \<lparr>buf = [255, 0, 0, 0, 1]\<rparr>))"
    unfolding v by (simp add: MAX_FRAME_LEN_def)
  then show ?thesis
    using try_next_oversized_sticky [of "\<lparr>buf = [255, 0, 0, 0, 1]\<rparr>" demo_ext "[2, 3]"]
    unfolding v by (simp add: decoder_push_def)
qed

end
