(* ===== verification/Hub_State.thy ===== *)
theory Hub_State
  imports Effects Wire_Codec
begin

text \<open>
  The state of the hub (\<^verbatim>\<open>crates/kaigi-hub-echo/src/main.rs\<close>): configuration, participants, rooms,
  the outbound queue of each connection and the system clock; and the ways a handler touches it:
  a section under the room mutex (\<open>with_room\<close>, \<open>read_room\<close>), a clock reading (\<open>now_ms\<close>) and a
  non-blocking send on a queue (\<open>try_send\<close>).

  A participant's \<open>tx\<close> is the sending half of its connection's queue; there is one queue per
  connection, so \<open>tx\<close> is the connection id. The clock is any sequence of system times: nothing
  is assumed about it, not even that it grows.
\<close>

type_synonym room_id = bytes
type_synonym conn_id = u64

definition DEFAULT_XOR_RATE_PER_MINUTE_NANO :: u64 where
  "DEFAULT_XOR_RATE_PER_MINUTE_NANO = 1000000"

definition MAX_ENCRYPTED_CIPHERTEXT_HEX_LEN :: nat where
  "MAX_ENCRYPTED_CIPHERTEXT_HEX_LEN = 64 * 1024"

definition MIN_ENCRYPTED_CIPHERTEXT_HEX_LEN :: nat where
  "MIN_ENCRYPTED_CIPHERTEXT_HEX_LEN = 32"

definition MAX_ENCRYPTED_RECIPIENTS_PER_FRAME :: nat where
  "MAX_ENCRYPTED_RECIPIENTS_PER_FRAME = 256"

definition DEFAULT_ANON_MAX_PARTICIPANTS :: nat where
  "DEFAULT_ANON_MAX_PARTICIPANTS = 256"

definition WARN_ANON_MAX_PARTICIPANTS_THRESHOLD :: nat where
  "WARN_ANON_MAX_PARTICIPANTS_THRESHOLD = 1024"

definition WARN_ANON_ESCROW_PROOF_STALE_SECS_THRESHOLD :: u64 where
  "WARN_ANON_ESCROW_PROOF_STALE_SECS_THRESHOLD = 3600"

definition DEFAULT_MAX_PARTICIPANTS :: u32 where
  "DEFAULT_MAX_PARTICIPANTS = 500"

definition SYSTEM_POLICY_UPDATED_BY :: string where
  "SYSTEM_POLICY_UPDATED_BY = ''system''"

definition BACKPRESSURE_NOTICE_MIN_INTERVAL_MS :: u64 where
  "BACKPRESSURE_NOTICE_MIN_INTERVAL_MS = 5000"

definition CHANNEL_CAPACITY :: nat where
  "CHANNEL_CAPACITY = 256"

record billing_config =
  default_rate_per_minute_nano :: u64
  anon_zk_extra_fee_per_minute_nano :: u64
  grace_secs :: u64
  check_interval_secs :: u64
  anon_escrow_proof_max_stale_secs :: u64

text \<open>The immutable part of \<open>HubState\<close>.\<close>

record hub_config =
  billing :: billing_config
  anon_max_participants :: nat
  allow_free_calls :: bool
  require_payment_tx_hash :: bool

record participant_state =
  p_participant_id :: string
  p_display_name :: "string option"
  p_participant_handle :: "string option"
  p_x25519_pubkey_hex :: "string option"
  p_x25519_epoch :: u64
  p_mic_enabled :: bool
  p_video_enabled :: bool
  p_screen_share_enabled :: bool
  p_anonymous_mode :: bool
  p_waiting_room_pending :: bool
  p_hello_seen :: bool
  p_last_billed_at_ms :: u64
  p_billed_nano_xor :: u64
  p_billing_remainder_mod_60k :: u32
  p_paid_nano_xor :: u64
  p_last_payment_at_ms :: "u64 option"
  p_last_escrow_proof_at_ms :: "u64 option"
  p_escrow_id :: "string option"

record participant =
  p_tx :: conn_id
  p_state :: participant_state

record room_state =
  r_participants :: "(conn_id, participant) hmap"
  r_device_caps_by_conn :: "(conn_id, device_capability_frame) hmap"
  r_host_conn_id :: "conn_id option"
  r_host_role_owner :: "string option"
  r_co_host_conn_ids :: "conn_id list"
  r_co_host_role_owners :: "string list"
  r_e2ee_epochs :: "(conn_id, u64) hmap"
  r_key_rotation_ack_epochs :: "(conn_id, u64) hmap"
  r_signed_action_clock_by_signer :: "(string, u64) hmap"
  r_presence_sequence :: u64
  r_rate_per_minute_nano :: u64
  r_max_screen_shares :: u8
  r_room_lock :: bool
  r_waiting_room_enabled :: bool
  r_guest_join_allowed :: bool
  r_local_recording_allowed :: bool
  r_e2ee_required :: bool
  r_max_participants :: u32
  r_policy_epoch :: u64
  r_policy_updated_at_ms :: u64
  r_policy_updated_by :: string
  r_policy_signature_hex :: string
  r_permissions_epoch :: u64
  r_anonymous_mode :: bool
  r_anon_admission_rejections :: u64
  r_backpressure_dropped_messages :: u64
  r_backpressure_last_notice_at_ms :: u64

datatype ws_message =
    Msg_Text string
  | Msg_Binary bytes
  | Msg_Ping bytes
  | Msg_Pong bytes
  | Msg_Close "(u16 \<times> string) option"
  | Msg_Frame

record channel =
  q_msgs :: "ws_message list"
  q_open :: bool

text \<open>The shared part of \<open>HubState\<close>, with the queues and the clock.\<close>

record hub =
  h_rooms :: "(room_id, room_state) hmap"
  h_next_conn_id :: u64
  h_chans :: "(conn_id, channel) hmap"
  h_time :: "nat \<Rightarrow> int"
  h_ticks :: nat

datatype hub_error =
    Wire_Failed wire_error
  | Room_Missing
  | Participant_Missing
  | Handshake_Closed
  | Handshake_Not_Binary
  | Handshake_Undecodable
  | Ws_Recv_Failed

type_synonym 'a hub_prog = "(hub, hub_error, 'a) prog"

definition new_participant_state :: "conn_id \<Rightarrow> u64 \<Rightarrow> participant_state" where
  "new_participant_state conn_id connected_at_ms = \<lparr>
     p_participant_id = ''conn-'' @ dec64 conn_id,
     p_display_name = None,
     p_participant_handle = None,
     p_x25519_pubkey_hex = None,
     p_x25519_epoch = 0,
     p_mic_enabled = False,
     p_video_enabled = False,
     p_screen_share_enabled = False,
     p_anonymous_mode = False,
     p_waiting_room_pending = False,
     p_hello_seen = False,
     p_last_billed_at_ms = connected_at_ms,
     p_billed_nano_xor = 0,
     p_billing_remainder_mod_60k = 0,
     p_paid_nano_xor = 0,
     p_last_payment_at_ms = None,
     p_last_escrow_proof_at_ms = None,
     p_escrow_id = None\<rparr>"

definition new_participant :: "conn_id \<Rightarrow> u64 \<Rightarrow> participant" where
  "new_participant conn_id connected_at_ms =
     \<lparr>p_tx = conn_id, p_state = new_participant_state conn_id connected_at_ms\<rparr>"

definition new_room :: "u64 \<Rightarrow> room_state" where
  "new_room default_rate = \<lparr>
     r_participants = [],
     r_device_caps_by_conn = [],
     r_host_conn_id = None,
     r_host_role_owner = None,
     r_co_host_conn_ids = [],
     r_co_host_role_owners = [],
     r_e2ee_epochs = [],
     r_key_rotation_ack_epochs = [],
     r_signed_action_clock_by_signer = [],
     r_presence_sequence = 0,
     r_rate_per_minute_nano = default_rate,
     r_max_screen_shares = 1,
     r_room_lock = False,
     r_waiting_room_enabled = False,
     r_guest_join_allowed = True,
     r_local_recording_allowed = True,
     r_e2ee_required = True,
     r_max_participants = DEFAULT_MAX_PARTICIPANTS,
     r_policy_epoch = 0,
     r_policy_updated_at_ms = 0,
     r_policy_updated_by = SYSTEM_POLICY_UPDATED_BY,
     r_policy_signature_hex = [],
     r_permissions_epoch = 0,
     r_anonymous_mode = False,
     r_anon_admission_rejections = 0,
     r_backpressure_dropped_messages = 0,
     r_backpressure_last_notice_at_ms = 0\<rparr>"

abbreviation get_p :: "room_state \<Rightarrow> conn_id \<Rightarrow> participant option" where
  "get_p room c \<equiv> hm_get (r_participants room) c"

definition set_pstate :: "room_state \<Rightarrow> conn_id \<Rightarrow> participant_state \<Rightarrow> room_state" where
  \<comment> \<open>an assignment through \<open>room.participants.get_mut(&c)\<close>; nothing when \<open>c\<close> is absent\<close>
  "set_pstate room c s = (case get_p room c of
     None \<Rightarrow> room
   | Some p \<Rightarrow> room\<lparr>r_participants := hm_insert (r_participants room) c (p\<lparr>p_state := s\<rparr>)\<rparr>)"

abbreviation p_states :: "room_state \<Rightarrow> participant_state list" where
  "p_states room \<equiv> map (\<lambda>e. p_state (snd e)) (r_participants room)"

section \<open>The clock\<close>

definition clamp_ms :: "int \<Rightarrow> u64" where
  \<comment> \<open>\<open>now_ms\<close>: before the epoch 0, beyond \<open>u64\<close> the maximum\<close>
  "clamp_ms t = (if t < 0 then 0 else if 2 ^ 64 \<le> t then - 1 else of_int t)"

definition reading :: "hub \<Rightarrow> nat \<Rightarrow> u64" where
  \<comment> \<open>the \<open>i\<close>-th next clock reading\<close>
  "reading w i = clamp_ms (h_time w (h_ticks w + i))"

definition now_ms :: "u64 hub_prog" where
  "now_ms = atomic (\<lambda>w. (reading w 0, w\<lparr>h_ticks := h_ticks w + 1\<rparr>))"

section \<open>Sections under the room mutex\<close>

definition with_room :: "room_id \<Rightarrow> 'a \<Rightarrow> ((nat \<Rightarrow> u64) \<Rightarrow> room_state \<Rightarrow> 'a \<times> room_state) \<Rightarrow> 'a hub_prog" where
  \<comment> \<open>\<open>let mut rooms = state.rooms.lock().await; \<dots> rooms.get_mut(&room_id)\<close>; \<open>absent\<close> is the result
      without the room; \<open>t 0, t 1, \<dots>\<close> are the clock readings made inside the section\<close>
  "with_room rid absent f = atomic (\<lambda>w. case hm_get (h_rooms w) rid of
     None \<Rightarrow> (absent, w)
   | Some room \<Rightarrow> (case f (reading w) room of
       (r, room') \<Rightarrow> (r, w\<lparr>h_rooms := hm_insert (h_rooms w) rid room', h_ticks := h_ticks w + 4\<rparr>)))"

definition read_room :: "room_id \<Rightarrow> 'a \<Rightarrow> (room_state \<Rightarrow> 'a) \<Rightarrow> 'a hub_prog" where
  \<comment> \<open>\<open>let rooms = state.rooms.lock().await; \<dots> rooms.get(&room_id)\<close>\<close>
  "read_room rid absent f = atomic (\<lambda>w. (case hm_get (h_rooms w) rid of
     None \<Rightarrow> absent | Some room \<Rightarrow> f room, w))"

section \<open>The outbound queues\<close>

definition try_send :: "conn_id \<Rightarrow> ws_message \<Rightarrow> bool hub_prog" where
  \<comment> \<open>\<open>mpsc::Sender::try_send(..).is_ok()\<close> on a queue of capacity 256\<close>
  "try_send c m = atomic (\<lambda>w. case hm_get (h_chans w) c of
     None \<Rightarrow> (False, w)
   | Some ch \<Rightarrow>
       if q_open ch \<and> length (q_msgs ch) < CHANNEL_CAPACITY
       then (True, w\<lparr>h_chans := hm_insert (h_chans w) c (ch\<lparr>q_msgs := q_msgs ch @ [m]\<rparr>)\<rparr>)
       else (False, w))"

definition send_quietly :: "conn_id \<Rightarrow> ws_message \<Rightarrow> unit hub_prog" where
  \<comment> \<open>\<open>let _ = tx.try_send(m);\<close>\<close>
  "send_quietly c m = bind_prog (try_send c m) (\<lambda>_. Return ())"

definition writer_step :: "conn_id \<Rightarrow> bool \<Rightarrow> unit hub_prog" where
  \<comment> \<open>one turn of the writer task: it takes a message off the queue and sends it; when the send
      fails the task ends and the receiving half is dropped\<close>
  "writer_step c sent = atomic (\<lambda>w. ((), case hm_get (h_chans w) c of
     None \<Rightarrow> w
   | Some ch \<Rightarrow>
       if q_msgs ch = [] then w
       else w\<lparr>h_chans := hm_insert (h_chans w) c
          (if sent then ch\<lparr>q_msgs := tl (q_msgs ch)\<rparr> else ch\<lparr>q_msgs := [], q_open := False\<rparr>)\<rparr>))"

section \<open>Lemmas\<close>

lemma get_p_set_pstate [simp]:
  "get_p (set_pstate room c s) c' =
     (if c' = c then map_option (\<lambda>p. p\<lparr>p_state := s\<rparr>) (get_p room c) else get_p room c')"
  by (auto simp: set_pstate_def hm_simps split: option.split)

lemma set_pstate_fields [simp]:
  "r_device_caps_by_conn (set_pstate room c s) = r_device_caps_by_conn room"
  "r_host_conn_id (set_pstate room c s) = r_host_conn_id room"
  "r_host_role_owner (set_pstate room c s) = r_host_role_owner room"
  "r_co_host_conn_ids (set_pstate room c s) = r_co_host_conn_ids room"
  "r_co_host_role_owners (set_pstate room c s) = r_co_host_role_owners room"
  "r_e2ee_epochs (set_pstate room c s) = r_e2ee_epochs room"
  "r_key_rotation_ack_epochs (set_pstate room c s) = r_key_rotation_ack_epochs room"
  "r_signed_action_clock_by_signer (set_pstate room c s) = r_signed_action_clock_by_signer room"
  "r_presence_sequence (set_pstate room c s) = r_presence_sequence room"
  "r_rate_per_minute_nano (set_pstate room c s) = r_rate_per_minute_nano room"
  "r_max_screen_shares (set_pstate room c s) = r_max_screen_shares room"
  "r_room_lock (set_pstate room c s) = r_room_lock room"
  "r_waiting_room_enabled (set_pstate room c s) = r_waiting_room_enabled room"
  "r_guest_join_allowed (set_pstate room c s) = r_guest_join_allowed room"
  "r_local_recording_allowed (set_pstate room c s) = r_local_recording_allowed room"
  "r_e2ee_required (set_pstate room c s) = r_e2ee_required room"
  "r_max_participants (set_pstate room c s) = r_max_participants room"
  "r_policy_epoch (set_pstate room c s) = r_policy_epoch room"
  "r_policy_updated_at_ms (set_pstate room c s) = r_policy_updated_at_ms room"
  "r_policy_updated_by (set_pstate room c s) = r_policy_updated_by room"
  "r_policy_signature_hex (set_pstate room c s) = r_policy_signature_hex room"
  "r_permissions_epoch (set_pstate room c s) = r_permissions_epoch room"
  "r_anonymous_mode (set_pstate room c s) = r_anonymous_mode room"
  "r_anon_admission_rejections (set_pstate room c s) = r_anon_admission_rejections room"
  "r_backpressure_dropped_messages (set_pstate room c s) = r_backpressure_dropped_messages room"
  "r_backpressure_last_notice_at_ms (set_pstate room c s) = r_backpressure_last_notice_at_ms room"
  by (auto simp: set_pstate_def split: option.split)

lemma hm_ok_set_pstate [simp]: "hm_ok (r_participants (set_pstate room c s)) = hm_ok (r_participants room)"
  by (auto simp: set_pstate_def hm_simps split: option.split)

lemma run_now_ms [run_simps]: "run now_ms w = (Inr (reading w 0), w\<lparr>h_ticks := h_ticks w + 1\<rparr>)"
  by (simp add: now_ms_def run_atomic)

lemma run_with_room [run_simps]:
  "run (with_room rid absent f) w = (case hm_get (h_rooms w) rid of
     None \<Rightarrow> (Inr absent, w)
   | Some room \<Rightarrow> (Inr (fst (f (reading w) room)),
       w\<lparr>h_rooms := hm_insert (h_rooms w) rid (snd (f (reading w) room)), h_ticks := h_ticks w + 4\<rparr>))"
  by (simp add: with_room_def run_atomic case_prod_beta split: option.split)

lemma run_read_room [run_simps]:
  "run (read_room rid absent f) w =
     (Inr (case hm_get (h_rooms w) rid of None \<Rightarrow> absent | Some room \<Rightarrow> f room), w)"
  by (simp add: read_room_def run_atomic)

end
