(* ===== verification/Hub_Validate.thy ===== *)
theory Hub_Validate
  imports Hub_State
begin

text \<open>
  The hub's frame validation: hex and handle syntax, the deterministic frame signatures of the dev
  harness, the per-frame \<open>validate_*\<close> functions (an error message, or \<open>None\<close>), and the per-signer
  action clock that rejects replays.
\<close>

section \<open>Hex strings and handles\<close>

fun strip_hex_prefix :: "string \<Rightarrow> string" where
  "strip_hex_prefix (a # b # s) =
     (if a = CHR ''0'' \<and> (b = CHR ''x'' \<or> b = CHR ''X'') then s else a # b # s)"
| "strip_hex_prefix s = s"

definition is_valid_tx_hash_hex :: "ext \<Rightarrow> string \<Rightarrow> bool" where
  "is_valid_tx_hash_hex X hash =
     (let normalized = strip_hex_prefix hash in
      length normalized = 64 \<and> hex_decode X normalized \<noteq> None)"

definition is_valid_hex :: "ext \<Rightarrow> string \<Rightarrow> bool" where
  "is_valid_hex X value =
     (let normalized = strip_hex_prefix value in
      normalized \<noteq> [] \<and> even (length normalized) \<and> hex_decode X normalized \<noteq> None)"

definition is_valid_hex_len :: "ext \<Rightarrow> string \<Rightarrow> nat \<Rightarrow> bool" where
  "is_valid_hex_len X value bytes =
     (let normalized = strip_hex_prefix value in
      length normalized = bytes * 2 \<and> hex_decode X normalized \<noteq> None)"

definition has_disallowed_anon_handle_chars :: "string \<Rightarrow> bool" where
  "has_disallowed_anon_handle_chars value =
     list_ex (\<lambda>ch. is_whitespace ch \<or> is_control ch) (chars value)"

definition has_forbidden_anon_handle_symbol :: "string \<Rightarrow> bool" where
  "has_forbidden_anon_handle_symbol value = contains_at value"

definition participant_id_is_guest :: "string \<Rightarrow> bool" where
  "participant_id_is_guest participant_id = (\<not> contains_at participant_id)"

section \<open>Deterministic signatures\<close>

definition deterministic_signature_hex :: "ext \<Rightarrow> string \<Rightarrow> string \<Rightarrow> string" where
  "deterministic_signature_hex X tag payload = hex_encode X (blake3 X (str_bytes tag @ str_bytes payload))"

fun role_kind_token :: "role_kind \<Rightarrow> string" where
  "role_kind_token Role_Host = ''host''"
| "role_kind_token Role_CoHost = ''cohost''"
| "role_kind_token Role_Participant = ''participant''"

fun moderation_action_token :: "moderation_action \<Rightarrow> string" where
  "moderation_action_token Action_DisableMic = ''disable_mic''"
| "moderation_action_token Action_DisableVideo = ''disable_video''"
| "moderation_action_token Action_DisableScreenShare = ''disable_screen_share''"
| "moderation_action_token Action_Kick = ''kick''"
| "moderation_action_token Action_AdmitFromWaiting = ''admit_from_waiting''"
| "moderation_action_token Action_DenyFromWaiting = ''deny_from_waiting''"

fun moderation_target_token :: "moderation_target \<Rightarrow> string" where
  "moderation_target_token Target_All = ''all''"
| "moderation_target_token (Target_Participant participant_id) = ''participant:'' @ participant_id"

definition moderation_signed_signature_is_valid :: "ext \<Rightarrow> moderation_signed_frame \<Rightarrow> bool" where
  "moderation_signed_signature_is_valid X m =
     (deterministic_signature_hex X ''moderation''
        (join ''|'' [ms_issued_by m, moderation_target_token (ms_target m),
           moderation_action_token (ms_action m), dec64 (ms_sent_at_ms m)])
      = to_ascii_lowercase (ms_signature_hex m))"

definition role_grant_signature_is_valid :: "ext \<Rightarrow> role_grant_frame \<Rightarrow> bool" where
  "role_grant_signature_is_valid X grant =
     (deterministic_signature_hex X ''role_grant''
        (join ''|'' [rg_granted_by grant, rg_target_participant_id grant,
           role_kind_token (rg_role grant), dec64 (rg_issued_at_ms grant)])
      = to_ascii_lowercase (rg_signature_hex grant))"

definition role_revoke_signature_is_valid :: "ext \<Rightarrow> role_revoke_frame \<Rightarrow> bool" where
  "role_revoke_signature_is_valid X revoke =
     (deterministic_signature_hex X ''role_revoke''
        (join ''|'' [rr_revoked_by revoke, rr_target_participant_id revoke,
           role_kind_token (rr_role revoke), dec64 (rr_issued_at_ms revoke)])
      = to_ascii_lowercase (rr_signature_hex revoke))"

definition session_policy_signature_is_valid :: "ext \<Rightarrow> session_policy_frame \<Rightarrow> bool" where
  "session_policy_signature_is_valid X policy =
     (deterministic_signature_hex X ''session_policy''
        (join ''|'' [sp_updated_by policy, dec_bool (sp_room_lock policy),
           dec_bool (sp_waiting_room_enabled policy), dec_bool (sp_guest_join_allowed policy),
           dec_bool (sp_local_recording_allowed policy), dec_bool (sp_e2ee_required policy),
           dec (unat (sp_max_participants policy)), dec64 (sp_policy_epoch policy),
           dec64 (sp_updated_at_ms policy)])
      = to_ascii_lowercase (sp_signature_hex policy))"

definition e2ee_public_key_is_valid :: "ext \<Rightarrow> e2ee_key_epoch_frame \<Rightarrow> bool" where
  "e2ee_public_key_is_valid X frame =
     (deterministic_signature_hex X ''e2ee_public_key''
        (join ''|'' [ke_participant_id frame, dec64 (ke_epoch frame)])
      = to_ascii_lowercase (ke_public_key_hex frame))"

definition e2ee_signature_is_valid :: "ext \<Rightarrow> e2ee_key_epoch_frame \<Rightarrow> bool" where
  "e2ee_signature_is_valid X frame =
     (deterministic_signature_hex X ''e2ee_key_epoch''
        (join ''|'' [ke_participant_id frame, dec64 (ke_epoch frame), dec64 (ke_sent_at_ms frame)])
      = to_ascii_lowercase (ke_signature_hex frame))"

section \<open>The per-signer action clock\<close>

definition signed_action_clock_key :: "string \<Rightarrow> string \<Rightarrow> string" where
  "signed_action_clock_key action_tag signer_id = action_tag @ '':'' @ signer_id"

definition enforce_signed_action_clock ::
    "room_state \<Rightarrow> string \<Rightarrow> string \<Rightarrow> string \<Rightarrow> u64 \<Rightarrow> (string + unit) \<times> room_state" where
  "enforce_signed_action_clock room action_tag signer_id timestamp_label timestamp_ms =
     (if timestamp_ms = 0 then (Inl (timestamp_label @ '' must be >= 1''), room)
      else
        let key = signed_action_clock_key action_tag signer_id;
            accept = (Inr (), room\<lparr>r_signed_action_clock_by_signer :=
                        hm_insert (r_signed_action_clock_by_signer room) key timestamp_ms\<rparr>) in
        case hm_get (r_signed_action_clock_by_signer room) key of
          None \<Rightarrow> accept
        | Some last_seen \<Rightarrow>
            if timestamp_ms \<le> last_seen
            then (Inl (action_tag @ '' '' @ timestamp_label @ '' must increase for signer '' @ signer_id
                   @ '': last='' @ dec64 last_seen @ '' got='' @ dec64 timestamp_ms
                   @ '' (replay/stale rejected)''), room)
            else accept)"

section \<open>Anonymous mode\<close>

definition should_apply_group_key_update :: "u64 \<Rightarrow> string option \<Rightarrow> u64 \<Rightarrow> string \<Rightarrow> string + bool" where
  "should_apply_group_key_update current_epoch current_pubkey_hex update_epoch update_pubkey_hex =
     (if update_epoch = 0 then Inl ''group key epoch must be >= 1''
      else if update_epoch < current_epoch then
        Inl (''group key epoch is stale: current_epoch='' @ dec64 current_epoch
          @ '' update_epoch='' @ dec64 update_epoch)
      else if update_epoch = current_epoch then
        (if current_pubkey_hex = Some update_pubkey_hex then Inr False
         else Inl ''group key rotation requires strictly increasing epoch for this sender'')
      else Inr True)"

definition validate_group_key_update_frame :: "ext \<Rightarrow> group_key_update_frame \<Rightarrow> string option" where
  "validate_group_key_update_frame X update =
     (if trim_is_empty (gk_participant_handle update)
      then Some ''group key participant_handle must be non-empty''
      else if \<not> is_ascii (gk_participant_handle update)
      then Some ''group key participant_handle must be ASCII''
      else if has_forbidden_anon_handle_symbol (gk_participant_handle update)
      then Some (''group key participant_handle must not contain '' @ quoted_at)
      else if has_disallowed_anon_handle_chars (gk_participant_handle update)
      then Some ''group key participant_handle must not contain whitespace/control chars''
      else if length (gk_participant_handle update) > MAX_ANON_PARTICIPANT_HANDLE_LEN
      then Some (''group key participant_handle too long: max '' @ dec MAX_ANON_PARTICIPANT_HANDLE_LEN @ '' chars'')
      else if \<not> is_valid_hex_len X (gk_x25519_pubkey_hex update) 32
      then Some ''x25519_pubkey_hex must be 32-byte hex''
      else if gk_epoch update = 0
      then Some ''group key epoch must be >= 1''
      else None)"

fun validate_encrypted_payloads :: "ext \<Rightarrow> string list \<Rightarrow> encrypted_recipient_payload list \<Rightarrow> string option" where
  \<comment> \<open>the loop over \<open>enc.payloads\<close>; \<open>recipients\<close> is the set of handles seen so far\<close>
  "validate_encrypted_payloads X recipients [] = None"
| "validate_encrypted_payloads X recipients (payload # payloads) =
     (let normalized_ciphertext = strip_hex_prefix (erp_ciphertext_hex payload) in
      if trim_is_empty (erp_recipient_handle payload) \<or> \<not> is_valid_hex_len X (erp_nonce_hex payload) 24
         \<or> erp_ciphertext_hex payload = []
      then Some ''encrypted payloads must include recipient, 24-byte nonce, and ciphertext''
      else if length (erp_recipient_handle payload) > MAX_ANON_PARTICIPANT_HANDLE_LEN
      then Some (''encrypted recipient handle too long: max '' @ dec MAX_ANON_PARTICIPANT_HANDLE_LEN @ '' chars'')
      else if \<not> is_ascii (erp_recipient_handle payload)
      then Some ''encrypted recipient handle must be ASCII''
      else if has_forbidden_anon_handle_symbol (erp_recipient_handle payload)
      then Some (''encrypted recipient handle must not contain '' @ quoted_at)
      else if has_disallowed_anon_handle_chars (erp_recipient_handle payload)
      then Some ''encrypted recipient handle must not contain whitespace/control chars''
      else if \<not> is_valid_hex X (erp_ciphertext_hex payload)
      then Some ''encrypted ciphertext must be valid hex''
      else if length normalized_ciphertext > MAX_ENCRYPTED_CIPHERTEXT_HEX_LEN
      then Some (''encrypted ciphertext too long: max '' @ dec MAX_ENCRYPTED_CIPHERTEXT_HEX_LEN @ '' hex chars'')
      else if length normalized_ciphertext < MIN_ENCRYPTED_CIPHERTEXT_HEX_LEN
      then Some (''encrypted ciphertext too short: min '' @ dec MIN_ENCRYPTED_CIPHERTEXT_HEX_LEN @ '' hex chars'')
      else if erp_recipient_handle payload \<in> set recipients
      then Some ''encrypted payload recipients must be unique''
      else validate_encrypted_payloads X (snd (hs_insert recipients (erp_recipient_handle payload))) payloads)"

definition validate_encrypted_control_frame :: "ext \<Rightarrow> encrypted_control_frame \<Rightarrow> string option" where
  "validate_encrypted_control_frame X enc =
     (if ec_epoch enc = 0
      then Some ''encrypted control epoch must be >= 1''
      else if trim_is_empty (ec_sender_handle enc)
      then Some ''encrypted sender handle must be non-empty''
      else if \<not> is_ascii (ec_sender_handle enc)
      then Some ''encrypted sender handle must be ASCII''
      else if has_forbidden_anon_handle_symbol (ec_sender_handle enc)
      then Some (''encrypted sender handle must not contain '' @ quoted_at)
      else if has_disallowed_anon_handle_chars (ec_sender_handle enc)
      then Some ''encrypted sender handle must not contain whitespace/control chars''
      else if length (ec_sender_handle enc) > MAX_ANON_PARTICIPANT_HANDLE_LEN
      then Some (''encrypted sender handle too long: max '' @ dec MAX_ANON_PARTICIPANT_HANDLE_LEN @ '' chars'')
      else if ec_payloads enc = []
      then Some ''encrypted control payloads must be non-empty''
      else if length (ec_payloads enc) > MAX_ENCRYPTED_RECIPIENTS_PER_FRAME
      then Some (''encrypted payload fanout too large: max '' @ dec MAX_ENCRYPTED_RECIPIENTS_PER_FRAME @ '' recipients'')
      else validate_encrypted_payloads X [] (ec_payloads enc))"

definition anon_roster_handles :: "room_state \<Rightarrow> string list" where
  \<comment> \<open>the handles of the room's joined anonymous participants\<close>
  "anon_roster_handles room = List.map_filter p_participant_handle
     (filter (\<lambda>st. p_anonymous_mode st \<and> p_hello_seen st) (p_states room))"

definition validate_encrypted_control_room_recipients ::
    "encrypted_control_frame \<Rightarrow> room_state \<Rightarrow> string option" where
  "validate_encrypted_control_room_recipients enc room =
     (let roster_handles = anon_roster_handles room in
      case find (\<lambda>payload. erp_recipient_handle payload \<notin> set roster_handles) (ec_payloads enc) of
        Some payload \<Rightarrow> Some (''encrypted recipient handle is not in anonymous roster: ''
                           @ erp_recipient_handle payload)
      | None \<Rightarrow> None)"

definition validate_encrypted_control_epoch :: "u64 \<Rightarrow> u64 \<Rightarrow> string option" where
  "validate_encrypted_control_epoch frame_epoch sender_epoch =
     (if sender_epoch = 0 then Some ''sender key epoch is not initialized''
      else if frame_epoch \<noteq> sender_epoch
      then Some (''encrypted control epoch mismatch: expected '' @ dec64 sender_epoch @ '' got '' @ dec64 frame_epoch)
      else None)"

definition validate_escrow_proof_frame :: "ext \<Rightarrow> escrow_proof_frame \<Rightarrow> string option" where
  "validate_escrow_proof_frame X proof =
     (if trim_is_empty (ep_payer_handle proof)
      then Some ''payer_handle must be non-empty''
      else if \<not> is_ascii (ep_payer_handle proof)
      then Some ''payer_handle must be ASCII''
      else if has_forbidden_anon_handle_symbol (ep_payer_handle proof)
      then Some (''payer_handle must not contain '' @ quoted_at)
      else if has_disallowed_anon_handle_chars (ep_payer_handle proof)
      then Some ''payer_handle must not contain whitespace/control chars''
      else if length (ep_payer_handle proof) > MAX_ANON_PARTICIPANT_HANDLE_LEN
      then Some (''payer_handle too long: max '' @ dec MAX_ANON_PARTICIPANT_HANDLE_LEN @ '' chars'')
      else if trim_is_empty (ep_escrow_id proof)
      then Some ''escrow_id must be non-empty''
      else if \<not> is_ascii (ep_escrow_id proof)
      then Some ''escrow_id must be ASCII''
      else if contains_at (ep_escrow_id proof)
      then Some (''escrow_id must not contain '' @ quoted_at)
      else if list_ex (\<lambda>ch. is_whitespace ch \<or> is_control ch) (chars (ep_escrow_id proof))
      then Some ''escrow_id must not contain whitespace/control chars''
      else if length (ep_escrow_id proof) > MAX_ESCROW_ID_LEN
      then Some (''escrow_id too long: max '' @ dec MAX_ESCROW_ID_LEN @ '' chars'')
      else if length (strip_hex_prefix (ep_proof_hex proof)) > MAX_ESCROW_PROOF_HEX_LEN
      then Some (''proof_hex too long: max '' @ dec MAX_ESCROW_PROOF_HEX_LEN @ '' hex chars'')
      else if \<not> is_valid_hex X (ep_proof_hex proof)
      then Some ''proof_hex must be valid hex''
      else None)"

definition validate_escrow_id_consistency :: "string option \<Rightarrow> string \<Rightarrow> string option" where
  "validate_escrow_id_consistency current incoming =
     (case current of
        Some expected \<Rightarrow>
          if expected \<noteq> incoming
          then Some ''escrow_id must remain stable for a participant session'' else None
      | None \<Rightarrow> None)"

section \<open>Transparent mode\<close>

definition validate_device_capability_frame :: "device_capability_frame \<Rightarrow> string option" where
  "validate_device_capability_frame cap =
     (if trim_is_empty (dc_participant_id cap)
      then Some ''device capability participant_id must be non-empty''
      else if dc_max_video_streams cap = 0
      then Some ''device capability max_video_streams must be >= 1''
      else if dc_codecs cap = []
      then Some ''device capability codecs must be non-empty''
      else if list_ex trim_is_empty (dc_codecs cap)
      then Some ''device capability codec entries must be non-empty''
      else None)"

definition validate_media_profile_negotiation_frame :: "media_profile_negotiation_frame \<Rightarrow> string option" where
  "validate_media_profile_negotiation_frame profile =
     (if trim_is_empty (mp_participant_id profile)
      then Some ''media profile participant_id must be non-empty''
      else if trim_is_empty (mp_codec profile)
      then Some ''media profile codec must be non-empty''
      else if mp_epoch profile = 0
      then Some ''media profile epoch must be >= 1''
      else None)"

definition validate_recording_notice_frame :: "recording_notice_frame \<Rightarrow> string option" where
  "validate_recording_notice_frame notice =
     (if trim_is_empty (rn_participant_id notice)
      then Some ''recording notice participant_id must be non-empty''
      else if trim_is_empty (rn_issued_by notice)
      then Some ''recording notice issued_by must be non-empty''
      else None)"

definition validate_e2ee_key_epoch_frame :: "ext \<Rightarrow> e2ee_key_epoch_frame \<Rightarrow> string option" where
  "validate_e2ee_key_epoch_frame X frame =
     (if trim_is_empty (ke_participant_id frame)
      then Some ''e2ee key epoch participant_id must be non-empty''
      else if ke_epoch frame = 0
      then Some ''e2ee key epoch must be >= 1''
      else if \<not> is_valid_hex_len X (ke_public_key_hex frame) 32
      then Some ''e2ee key epoch public_key_hex must be 32-byte hex''
      else if \<not> is_valid_hex_len X (ke_signature_hex frame) 32
      then Some ''e2ee key epoch signature_hex must be 32-byte hex''
      else if \<not> e2ee_public_key_is_valid X frame
      then Some ''e2ee key epoch public_key_hex failed verification''
      else if \<not> e2ee_signature_is_valid X frame
      then Some ''e2ee key epoch signature_hex failed verification''
      else None)"

section \<open>Lemmas\<close>

lemma clock_accepts:
  "enforce_signed_action_clock room tag signer label t = (Inr u, room') \<longleftrightarrow>
     0 < t \<and> (\<forall>last. hm_get (r_signed_action_clock_by_signer room) (signed_action_clock_key tag signer) = Some last
        \<longrightarrow> last < t)
     \<and> room' = room\<lparr>r_signed_action_clock_by_signer :=
          hm_insert (r_signed_action_clock_by_signer room) (signed_action_clock_key tag signer) t\<rparr>"
  by (auto simp: enforce_signed_action_clock_def Let_def word_gt_0 split: option.splits)

lemma clock_rejects: "enforce_signed_action_clock room tag signer label t = (Inl m, room') \<Longrightarrow> room' = room"
  by (auto simp: enforce_signed_action_clock_def Let_def split: option.splits if_splits)

lemma clock_room:
  "snd (enforce_signed_action_clock room tag signer label t) =
     (case fst (enforce_signed_action_clock room tag signer label t) of
        Inl _ \<Rightarrow> room
      | Inr _ \<Rightarrow> room\<lparr>r_signed_action_clock_by_signer :=
          hm_insert (r_signed_action_clock_by_signer room) (signed_action_clock_key tag signer) t\<rparr>)"
  by (auto simp: enforce_signed_action_clock_def Let_def split: option.splits)

lemma clock_cases [consumes 1, case_names reject accept]:
  assumes "enforce_signed_action_clock room tag signer label t = (r, room')"
  obtains m where "r = Inl m" "room' = room"
    | "r = Inr ()" "0 < t"
      "\<And>last. hm_get (r_signed_action_clock_by_signer room) (signed_action_clock_key tag signer) = Some last
        \<Longrightarrow> last < t"
      "room' = room\<lparr>r_signed_action_clock_by_signer :=
          hm_insert (r_signed_action_clock_by_signer room) (signed_action_clock_key tag signer) t\<rparr>"
  using assms by (cases r) (auto dest: clock_rejects simp: clock_accepts)

lemma trim_is_empty_ascii: "is_ascii s \<Longrightarrow> trim_is_empty s \<longleftrightarrow> (\<forall>c \<in> set s. is_whitespace (byte_of c))"
  by (simp add: trim_is_empty_def chars_ascii list_all_iff)

text \<open>The syntax of an anonymous handle.\<close>

definition handle_syntax :: "string \<Rightarrow> bool" where
  "handle_syntax h \<longleftrightarrow> h \<noteq> [] \<and> length h \<le> 128 \<and>
     (\<forall>c \<in> set h. 33 \<le> byte_of c \<and> byte_of c \<le> 126 \<and> c \<noteq> CHR ''@'')"

lemma handle_char_ok:
  assumes "n < 128"
  shows "\<not> (is_whitespace n \<or> is_control n) \<longleftrightarrow> 33 \<le> n \<and> n \<le> 126"
  using assms by (auto simp: is_whitespace_def is_control_def)

lemma printable_not_whitespace: "33 \<le> n \<Longrightarrow> n \<le> 126 \<Longrightarrow> \<not> is_whitespace n"
  by (simp add: is_whitespace_def)

lemma handle_syntax_iff:
  "handle_syntax h \<longleftrightarrow> \<not> trim_is_empty h \<and> is_ascii h \<and> \<not> has_forbidden_anon_handle_symbol h
     \<and> \<not> has_disallowed_anon_handle_chars h \<and> length h \<le> MAX_ANON_PARTICIPANT_HANDLE_LEN"
proof (cases "is_ascii h")
  case True
  then have small: "\<forall>c \<in> set h. byte_of c < 128"
    by (simp add: is_ascii_def list_all_iff)
  have ctl: "\<not> has_disallowed_anon_handle_chars h \<longleftrightarrow> (\<forall>c \<in> set h. 33 \<le> byte_of c \<and> byte_of c \<le> 126)"
    using small handle_char_ok
    by (fastforce simp: has_disallowed_anon_handle_chars_def chars_ascii [OF True] list_ex_iff)
  have syn: "handle_syntax h \<longleftrightarrow> h \<noteq> [] \<and> length h \<le> 128
      \<and> (\<forall>c \<in> set h. 33 \<le> byte_of c \<and> byte_of c \<le> 126) \<and> CHR ''@'' \<notin> set h"
    unfolding handle_syntax_def by blast
  have ws: "trim_is_empty h \<longleftrightarrow> h = []" if "\<forall>c \<in> set h. 33 \<le> byte_of c \<and> byte_of c \<le> 126"
    unfolding trim_is_empty_ascii [OF True] using that printable_not_whitespace
    by (metis list.set_cases list.set_intros(1) empty_iff list.set(1) neq_Nil_conv)
  show ?thesis
    unfolding syn ctl has_forbidden_anon_handle_symbol_def contains_at_def
      MAX_ANON_PARTICIPANT_HANDLE_LEN_def
    using ws True by blast
next
  case False
  have "handle_syntax h \<Longrightarrow> is_ascii h"
    unfolding handle_syntax_def is_ascii_def list_all_iff by fastforce
  with False show ?thesis by blast
qed

lemma validate_encrypted_payloads_None:
  "validate_encrypted_payloads X seen ps = None \<longleftrightarrow>
     distinct (map erp_recipient_handle ps) \<and> set seen \<inter> erp_recipient_handle ` set ps = {} \<and>
     (\<forall>p \<in> set ps. handle_syntax (erp_recipient_handle p) \<and> is_valid_hex_len X (erp_nonce_hex p) 24
        \<and> is_valid_hex X (erp_ciphertext_hex p)
        \<and> length (strip_hex_prefix (erp_ciphertext_hex p)) \<in> {32..65536})"
proof (induction ps arbitrary: seen)
  case Nil
  then show ?case by simp
next
  case (Cons p ps)
  have "is_valid_hex X (erp_ciphertext_hex p) \<Longrightarrow> erp_ciphertext_hex p \<noteq> []"
    by (auto simp: is_valid_hex_def)
  then show ?case
    by (simp add: Let_def Cons.IH handle_syntax_iff MAX_ENCRYPTED_CIPHERTEXT_HEX_LEN_def
        MIN_ENCRYPTED_CIPHERTEXT_HEX_LEN_def not_less) blast
qed

section \<open>Properties\<close>

text \<open>The encrypted control frames the hub accepts are exactly the well-formed ones: a positive
  epoch, a sender handle of 1 to 128 printable ASCII characters without the at sign, 1 to 256
  payloads with pairwise distinct recipient handles of the same syntax, 24-byte nonces and
  ciphertexts of 32 to 65536 hex digits.\<close>

theorem validate_encrypted_control_frame_iff:
  "validate_encrypted_control_frame X enc = None \<longleftrightarrow>
     ec_epoch enc \<noteq> 0 \<and> handle_syntax (ec_sender_handle enc)
     \<and> length (ec_payloads enc) \<in> {1..256} \<and> distinct (map erp_recipient_handle (ec_payloads enc))
     \<and> list_all (\<lambda>p. handle_syntax (erp_recipient_handle p)
        \<and> is_valid_hex_len X (erp_nonce_hex p) 24 \<and> is_valid_hex X (erp_ciphertext_hex p)
        \<and> length (strip_hex_prefix (erp_ciphertext_hex p)) \<in> {32..65536}) (ec_payloads enc)"
proof -
  have "ec_payloads enc = [] \<longleftrightarrow> \<not> 1 \<le> length (ec_payloads enc)"
    by (cases "ec_payloads enc") auto
  then show ?thesis
    by (simp add: validate_encrypted_control_frame_def validate_encrypted_payloads_None
        handle_syntax_iff MAX_ENCRYPTED_RECIPIENTS_PER_FRAME_def not_less list_all_iff conj_ac)
qed

end
