(* ===== verification/Hub_Roles.thy ===== *)
theory Hub_Roles
  imports Hub_Validate
begin

text \<open>
  Roles, joining and policy in a transparent room: who is host and co-host, the reserved role
  owners that survive a disconnect, the join checks, the waiting room, \<open>RoleGrant\<close>, \<open>RoleRevoke\<close> and
  \<open>SessionPolicy\<close>. Every operation works on one room under the mutex.
\<close>

section \<open>Snapshots\<close>

definition participant_snapshot_from_state :: "participant_state \<Rightarrow> u64 \<Rightarrow> participant_snapshot" where
  "participant_snapshot_from_state st at_ms = \<lparr>
     sn_at_ms = at_ms,
     sn_participant_id = p_participant_id st,
     sn_display_name = p_display_name st,
     sn_mic_enabled = p_mic_enabled st,
     sn_video_enabled = p_video_enabled st,
     sn_screen_share_enabled = p_screen_share_enabled st\<rparr>"

definition joined_delta :: "u64 \<Rightarrow> u64 \<Rightarrow> participant_snapshot \<Rightarrow> participant_presence_delta_frame" where
  "joined_delta at_ms sequence snapshot = \<lparr>pd_at_ms = at_ms, pd_sequence = sequence,
     pd_joined = [snapshot], pd_left = [], pd_role_changes = []\<rparr>"

section \<open>Roles\<close>

definition role_kind_for_conn :: "room_state \<Rightarrow> conn_id \<Rightarrow> role_kind" where
  "role_kind_for_conn room conn_id =
     (if r_host_conn_id room = Some conn_id then Role_Host
      else if conn_id \<in> set (r_co_host_conn_ids room) then Role_CoHost
      else Role_Participant)"

definition can_moderate_conn :: "room_state \<Rightarrow> conn_id \<Rightarrow> bool" where
  "can_moderate_conn room conn_id =
     (case role_kind_for_conn room conn_id of
        Role_Host \<Rightarrow> True | Role_CoHost \<Rightarrow> True | Role_Participant \<Rightarrow> False)"

definition can_manage_roles_and_policy :: "room_state \<Rightarrow> conn_id \<Rightarrow> bool" where
  "can_manage_roles_and_policy room conn_id = (r_host_conn_id room = Some conn_id)"

definition sync_active_co_host_bindings :: "room_state \<Rightarrow> bool \<times> room_state" where
  "sync_active_co_host_bindings room =
     (let previous = r_co_host_conn_ids room;
          retained = filter (\<lambda>conn_id. r_host_conn_id room \<noteq> Some conn_id \<and>
            (case get_p room conn_id of
               None \<Rightarrow> False
             | Some participant \<Rightarrow> p_hello_seen (p_state participant) \<and>
                 p_participant_id (p_state participant) \<in> set (r_co_host_role_owners room))) previous;
          after = fold (\<lambda>(conn_id, participant) ids.
            if \<not> p_hello_seen (p_state participant) \<or> r_host_conn_id room = Some conn_id then ids
            else if p_participant_id (p_state participant) \<in> set (r_co_host_role_owners room)
            then snd (hs_insert ids conn_id) else ids) (r_participants room) retained in
      (set after \<noteq> set previous, room\<lparr>r_co_host_conn_ids := after\<rparr>))"

definition bump_permissions :: "room_state \<Rightarrow> room_state" where
  "bump_permissions room = room\<lparr>r_permissions_epoch := sat_add (r_permissions_epoch room) 1\<rparr>"

definition bump_presence :: "room_state \<Rightarrow> room_state" where
  "bump_presence room = room\<lparr>r_presence_sequence := sat_add (r_presence_sequence room) 1\<rparr>"

definition restore_reserved_roles_on_join :: "room_state \<Rightarrow> conn_id \<Rightarrow> string \<Rightarrow> bool \<times> room_state" where
  "restore_reserved_roles_on_join room conn_id participant_id =
     (let host_back = (r_host_role_owner room = Some participant_id \<and> r_host_conn_id room \<noteq> Some conn_id);
          room = (if host_back then room\<lparr>r_host_conn_id := Some conn_id\<rparr> else room);
          co_host_back = (r_host_conn_id room \<noteq> Some conn_id
            \<and> participant_id \<in> set (r_co_host_role_owners room)
            \<and> fst (hs_insert (r_co_host_conn_ids room) conn_id));
          room = (if r_host_conn_id room \<noteq> Some conn_id \<and> participant_id \<in> set (r_co_host_role_owners room)
            then room\<lparr>r_co_host_conn_ids := snd (hs_insert (r_co_host_conn_ids room) conn_id)\<rparr> else room);
          (synced, room) = sync_active_co_host_bindings room in
      (host_back \<or> co_host_back \<or> synced, room))"

definition participant_id_has_reserved_moderation_role :: "room_state \<Rightarrow> string \<Rightarrow> bool" where
  "participant_id_has_reserved_moderation_role room participant_id =
     (r_host_role_owner room = Some participant_id \<or> participant_id \<in> set (r_co_host_role_owners room))"

definition conn_or_participant_can_moderate :: "room_state \<Rightarrow> conn_id \<Rightarrow> string \<Rightarrow> bool" where
  "conn_or_participant_can_moderate room conn_id participant_id =
     (r_host_conn_id room = Some conn_id \<or> conn_id \<in> set (r_co_host_conn_ids room)
      \<or> participant_id_has_reserved_moderation_role room participant_id)"

definition permissions_snapshot_for_conn ::
    "room_state \<Rightarrow> conn_id \<Rightarrow> u64 \<Rightarrow> permissions_snapshot_frame option" where
  "permissions_snapshot_for_conn room conn_id at_ms =
     (case get_p room conn_id of
        None \<Rightarrow> None
      | Some participant \<Rightarrow>
          if \<not> p_hello_seen (p_state participant) then None
          else
            let role = role_kind_for_conn room conn_id in
            Some \<lparr>perm_at_ms = at_ms,
              perm_participant_id = p_participant_id (p_state participant),
              perm_host = (role = Role_Host),
              perm_co_host = (role = Role_CoHost),
              perm_can_moderate = can_moderate_conn room conn_id,
              perm_can_record_local = r_local_recording_allowed room,
              perm_epoch = r_permissions_epoch room\<rparr>)"

section \<open>Joining\<close>

definition joined_in :: "room_state \<Rightarrow> conn_id \<Rightarrow> bool" where
  \<comment> \<open>\<open>room.participants.get(&conn_id).is_some_and(|p| p.state.hello_seen)\<close>\<close>
  "joined_in room conn_id =
     (case get_p room conn_id of None \<Rightarrow> False | Some p \<Rightarrow> p_hello_seen (p_state p))"

definition active_joined :: "room_state \<Rightarrow> nat" where
  "active_joined room = length (filter p_hello_seen (p_states room))"

definition validate_join_allowed :: "room_state \<Rightarrow> conn_id \<Rightarrow> string \<Rightarrow> string option" where
  "validate_join_allowed room conn_id participant_id =
     (if (case get_p room conn_id of
            None \<Rightarrow> False
          | Some p \<Rightarrow> p_hello_seen (p_state p) \<and> p_participant_id (p_state p) \<noteq> participant_id)
      then Some ''participant_id cannot change after Hello''
      else if list_ex (\<lambda>(c, p). c \<noteq> conn_id
           \<and> (p_hello_seen (p_state p) \<or> p_waiting_room_pending (p_state p))
           \<and> p_participant_id (p_state p) = participant_id) (r_participants room)
      then Some (''participant_id already in use: '' @ participant_id)
      else
        let can_moderate = conn_or_participant_can_moderate room conn_id participant_id in
        if r_room_lock room \<and> r_host_conn_id room \<noteq> None \<and> \<not> can_moderate
        then Some ''room is locked''
        else
          let already_joined = joined_in room conn_id in
          if \<not> already_joined \<and> \<not> r_guest_join_allowed room \<and> participant_id_is_guest participant_id
             \<and> r_host_conn_id room \<noteq> None \<and> \<not> can_moderate
          then Some ''guest participants are not allowed by room policy''
          else if \<not> already_joined \<and> active_joined room \<ge> unat (r_max_participants room)
          then Some (''room is full: max_participants='' @ dec (unat (r_max_participants room)))
          else None)"

section \<open>The waiting room\<close>

record waiting_room_admit_outcome =
  wo_conn_id :: conn_id
  wo_snapshot :: participant_snapshot
  wo_presence_delta :: participant_presence_delta_frame

definition admit_waiting_participant ::
    "u64 \<Rightarrow> room_state \<Rightarrow> conn_id \<Rightarrow> (string + waiting_room_admit_outcome) \<times> room_state" where
  "admit_waiting_participant at_ms room target_conn_id =
     (case get_p room target_conn_id of
        None \<Rightarrow> (Inl ''participant missing'', room)
      | Some target \<Rightarrow>
          if \<not> p_waiting_room_pending (p_state target)
          then (Inl (''participant_id is not waiting: '' @ p_participant_id (p_state target)), room)
          else
            let joined_state = (p_state target)\<lparr>p_waiting_room_pending := False, p_hello_seen := True,
                  p_mic_enabled := False, p_video_enabled := False, p_screen_share_enabled := False\<rparr>;
                room = set_pstate room target_conn_id joined_state;
                room = room\<lparr>r_e2ee_epochs := hm_entry_or (r_e2ee_epochs room) target_conn_id 0\<rparr>;
                (restored, room) =
                  restore_reserved_roles_on_join room target_conn_id (p_participant_id joined_state);
                room = (if restored then bump_permissions room else room);
                room = bump_presence room;
                snapshot = participant_snapshot_from_state joined_state at_ms in
            (Inr \<lparr>wo_conn_id = target_conn_id, wo_snapshot = snapshot,
               wo_presence_delta = joined_delta at_ms (r_presence_sequence room) snapshot\<rparr>, room))"

definition deny_waiting_participant :: "room_state \<Rightarrow> conn_id \<Rightarrow> (string + string) \<times> room_state" where
  "deny_waiting_participant room target_conn_id =
     (case get_p room target_conn_id of
        None \<Rightarrow> (Inl ''participant missing'', room)
      | Some target \<Rightarrow>
          if \<not> p_waiting_room_pending (p_state target)
          then (Inl (''participant_id is not waiting: '' @ p_participant_id (p_state target)), room)
          else
            let room = room\<lparr>r_participants := hm_remove (r_participants room) target_conn_id,
                  r_co_host_conn_ids := snd (hs_remove (r_co_host_conn_ids room) target_conn_id),
                  r_e2ee_epochs := hm_remove (r_e2ee_epochs room) target_conn_id,
                  r_key_rotation_ack_epochs := hm_remove (r_key_rotation_ack_epochs room) target_conn_id\<rparr>;
                room = (if r_host_conn_id room = Some target_conn_id
                  then snd (sync_active_co_host_bindings
                    (room\<lparr>r_host_conn_id := min_key (hm_keys (r_participants room))\<rparr>))
                  else room) in
            (Inr (p_participant_id (p_state target)), room))"

section \<open>Role grants and revokes\<close>

record role_mutation_outcome =
  o_host_changed :: bool
  o_permissions_changed :: bool
  o_role_change :: "role_change_entry option"

definition find_joined_by_id :: "room_state \<Rightarrow> string \<Rightarrow> conn_id option" where
  \<comment> \<open>\<open>participants.iter().find(|(_, p)| hello_seen && participant_id == id).map(|(id, _)| *id)\<close>\<close>
  "find_joined_by_id room participant_id =
     map_option fst (find (\<lambda>(_, p). p_hello_seen (p_state p)
        \<and> p_participant_id (p_state p) = participant_id) (r_participants room))"

definition grant_effect :: "room_state \<Rightarrow> conn_id \<Rightarrow> role_grant_frame \<Rightarrow> role_mutation_outcome \<times> room_state" where
  \<comment> \<open>the \<open>match grant.role\<close> of \<open>apply_role_grant\<close>\<close>
  "grant_effect room target_conn_id grant =
     (case rg_role grant of
        Role_Host \<Rightarrow>
          let owner_changed = (r_host_role_owner room \<noteq> Some (rg_target_participant_id grant));
              room = (if owner_changed
                then room\<lparr>r_host_role_owner := Some (rg_target_participant_id grant)\<rparr> else room);
              host_changed = (r_host_conn_id room \<noteq> Some target_conn_id);
              room = (if host_changed then room\<lparr>r_host_conn_id := Some target_conn_id\<rparr> else room);
              (synced, room) = sync_active_co_host_bindings room;
              permissions_changed = (owner_changed \<or> host_changed \<or> synced);
              room = (if permissions_changed then bump_permissions room else room) in
          (\<lparr>o_host_changed = host_changed, o_permissions_changed = permissions_changed,
             o_role_change = (if host_changed
               then Some \<lparr>rce_participant_id = rg_target_participant_id grant,
                      rce_role = Role_Host, rce_granted = True\<rparr> else None)\<rparr>, room)
      | _ \<Rightarrow>
          let (new_owner, owners) = hs_insert (r_co_host_role_owners room) (rg_target_participant_id grant);
              room = room\<lparr>r_co_host_role_owners := owners\<rparr>;
              bound = (r_host_conn_id room \<noteq> Some target_conn_id
                \<and> fst (hs_insert (r_co_host_conn_ids room) target_conn_id));
              room = (if r_host_conn_id room \<noteq> Some target_conn_id
                then room\<lparr>r_co_host_conn_ids := snd (hs_insert (r_co_host_conn_ids room) target_conn_id)\<rparr>
                else room);
              (synced, room) = sync_active_co_host_bindings room;
              permissions_changed = (new_owner \<or> bound \<or> synced);
              room = (if permissions_changed then bump_permissions room else room) in
          (\<lparr>o_host_changed = False, o_permissions_changed = permissions_changed,
             o_role_change = (if permissions_changed
               then Some \<lparr>rce_participant_id = rg_target_participant_id grant,
                      rce_role = Role_CoHost, rce_granted = True\<rparr> else None)\<rparr>, room))"

definition apply_role_grant ::
    "ext \<Rightarrow> room_state \<Rightarrow> conn_id \<Rightarrow> role_grant_frame \<Rightarrow> (string + role_mutation_outcome) \<times> room_state" where
  "apply_role_grant X room sender_conn_id grant =
     (case get_p room sender_conn_id of
        None \<Rightarrow> (Inl ''participant missing'', room)
      | Some sender \<Rightarrow>
          if \<not> p_hello_seen (p_state sender) then (Inl ''send Hello first'', room)
          else if \<not> can_manage_roles_and_policy room sender_conn_id then (Inl ''host only'', room)
          else if p_participant_id (p_state sender) \<noteq> rg_granted_by grant
          then (Inl ''granted_by must match sender participant_id'', room)
          else if \<not> is_valid_hex_len X (rg_signature_hex grant) 32
          then (Inl ''signature_hex must be 32-byte hex'', room)
          else if \<not> role_grant_signature_is_valid X grant
          then (Inl ''signature_hex failed role_grant verification'', room)
          else case find_joined_by_id room (rg_target_participant_id grant) of
            None \<Rightarrow> (Inl (''unknown participant_id: '' @ rg_target_participant_id grant), room)
          | Some target_conn_id \<Rightarrow>
              if rg_role grant = Role_Participant
              then (Inl ''role grant supports Host or CoHost only'', room)
              else if rg_role grant = Role_CoHost \<and> r_host_conn_id room = Some target_conn_id
              then (Inl ''host already has full permissions'', room)
              else case enforce_signed_action_clock room ''role_grant'' (rg_granted_by grant)
                     ''issued_at_ms'' (rg_issued_at_ms grant) of
                (Inl e, room) \<Rightarrow> (Inl e, room)
              | (Inr _, room) \<Rightarrow>
                  (case grant_effect room target_conn_id grant of (outcome, room) \<Rightarrow> (Inr outcome, room)))"

definition revoke_effect :: "room_state \<Rightarrow> conn_id \<Rightarrow> role_revoke_frame \<Rightarrow> role_mutation_outcome \<times> room_state" where
  \<comment> \<open>the \<open>CoHost\<close> branch of \<open>apply_role_revoke\<close>, the only one its checks let through\<close>
  "revoke_effect room target_conn_id revoke =
     (let (was_owner, owners) = hs_remove (r_co_host_role_owners room) (rr_target_participant_id revoke);
          (was_bound, ids) = hs_remove (r_co_host_conn_ids room) target_conn_id;
          room = room\<lparr>r_co_host_role_owners := owners, r_co_host_conn_ids := ids\<rparr>;
          (synced, room) = sync_active_co_host_bindings room;
          permissions_changed = (was_owner \<or> was_bound \<or> synced);
          room = (if permissions_changed then bump_permissions room else room) in
      (\<lparr>o_host_changed = False, o_permissions_changed = permissions_changed,
         o_role_change = (if permissions_changed
           then Some \<lparr>rce_participant_id = rr_target_participant_id revoke,
                  rce_role = Role_CoHost, rce_granted = False\<rparr> else None)\<rparr>, room))"

definition apply_role_revoke ::
    "ext \<Rightarrow> room_state \<Rightarrow> conn_id \<Rightarrow> role_revoke_frame \<Rightarrow> (string + role_mutation_outcome) \<times> room_state" where
  "apply_role_revoke X room sender_conn_id revoke =
     (case get_p room sender_conn_id of
        None \<Rightarrow> (Inl ''participant missing'', room)
      | Some sender \<Rightarrow>
          if \<not> p_hello_seen (p_state sender) then (Inl ''send Hello first'', room)
          else if \<not> can_manage_roles_and_policy room sender_conn_id then (Inl ''host only'', room)
          else if p_participant_id (p_state sender) \<noteq> rr_revoked_by revoke
          then (Inl ''revoked_by must match sender participant_id'', room)
          else if \<not> is_valid_hex_len X (rr_signature_hex revoke) 32
          then (Inl ''signature_hex must be 32-byte hex'', room)
          else if \<not> role_revoke_signature_is_valid X revoke
          then (Inl ''signature_hex failed role_revoke verification'', room)
          else case find_joined_by_id room (rr_target_participant_id revoke) of
            None \<Rightarrow> (Inl (''unknown participant_id: '' @ rr_target_participant_id revoke), room)
          | Some target_conn_id \<Rightarrow>
              if rr_role revoke \<noteq> Role_CoHost
              then (Inl ''role revoke supports CoHost only'', room)
              else case enforce_signed_action_clock room ''role_revoke'' (rr_revoked_by revoke)
                     ''issued_at_ms'' (rr_issued_at_ms revoke) of
                (Inl e, room) \<Rightarrow> (Inl e, room)
              | (Inr _, room) \<Rightarrow>
                  (case revoke_effect room target_conn_id revoke of (outcome, room) \<Rightarrow> (Inr outcome, room)))"

section \<open>Session policy and moderation clock\<close>

definition policy_effect :: "room_state \<Rightarrow> session_policy_frame \<Rightarrow> room_state" where
  \<comment> \<open>the assignments of \<open>apply_session_policy_update\<close>\<close>
  "policy_effect room update = room\<lparr>
     r_room_lock := sp_room_lock update,
     r_waiting_room_enabled := sp_waiting_room_enabled update,
     r_guest_join_allowed := sp_guest_join_allowed update,
     r_local_recording_allowed := sp_local_recording_allowed update,
     r_e2ee_required := sp_e2ee_required update,
     r_max_participants := sp_max_participants update,
     r_policy_epoch := sp_policy_epoch update,
     r_policy_updated_at_ms := sp_updated_at_ms update,
     r_policy_updated_by := sp_updated_by update,
     r_policy_signature_hex := sp_signature_hex update,
     r_permissions_epoch := sat_add (r_permissions_epoch room) 1\<rparr>"

definition apply_session_policy_update ::
    "ext \<Rightarrow> room_state \<Rightarrow> conn_id \<Rightarrow> session_policy_frame \<Rightarrow> (string + unit) \<times> room_state" where
  "apply_session_policy_update X room sender_conn_id update =
     (case get_p room sender_conn_id of
        None \<Rightarrow> (Inl ''participant missing'', room)
      | Some sender \<Rightarrow>
          if \<not> p_hello_seen (p_state sender) then (Inl ''send Hello first'', room)
          else if \<not> can_manage_roles_and_policy room sender_conn_id then (Inl ''host only'', room)
          else if p_participant_id (p_state sender) \<noteq> sp_updated_by update
          then (Inl ''updated_by must match sender participant_id'', room)
          else if \<not> is_valid_hex_len X (sp_signature_hex update) 32
          then (Inl ''signature_hex must be 32-byte hex'', room)
          else if \<not> session_policy_signature_is_valid X update
          then (Inl ''signature_hex failed session_policy verification'', room)
          else if sp_policy_epoch update \<le> r_policy_epoch room
          then (Inl (''policy_epoch must increase: current='' @ dec64 (r_policy_epoch room)
                 @ '' got='' @ dec64 (sp_policy_epoch update)), room)
          else if sp_max_participants update = 0
          then (Inl ''max_participants must be >= 1'', room)
          else case enforce_signed_action_clock room ''session_policy'' (sp_updated_by update)
                 ''updated_at_ms'' (sp_updated_at_ms update) of
            (Inl e, room) \<Rightarrow> (Inl e, room)
          | (Inr _, room) \<Rightarrow> (Inr (), policy_effect room update))"

definition validate_moderation_sender_clock ::
    "room_state \<Rightarrow> conn_id \<Rightarrow> moderation_frame \<Rightarrow> (string + unit) \<times> room_state" where
  "validate_moderation_sender_clock room sender_conn_id moderation =
     (case get_p room sender_conn_id of
        None \<Rightarrow> (Inl ''participant missing'', room)
      | Some sender \<Rightarrow>
          enforce_signed_action_clock room ''moderation'' (p_participant_id (p_state sender))
            ''sent_at_ms'' (mo_sent_at_ms moderation))"

section \<open>Media profiles\<close>

definition resolve_media_profile_negotiation ::
    "room_state \<Rightarrow> conn_id \<Rightarrow> media_profile_negotiation_frame \<Rightarrow> media_profile_negotiation_frame" where
  "resolve_media_profile_negotiation room sender_conn_id profile =
     (if mp_negotiated_profile profile \<noteq> Profile_Hdr then profile
      else
        let sender_hdr_capture = (case hm_get (r_device_caps_by_conn room) sender_conn_id of
              None \<Rightarrow> False | Some cap \<Rightarrow> dc_hdr_capture cap);
            any_remote_hdr_render = list_ex (\<lambda>(conn_id, participant).
              conn_id \<noteq> sender_conn_id \<and> p_hello_seen (p_state participant) \<and>
              (case hm_get (r_device_caps_by_conn room) conn_id of
                 None \<Rightarrow> False | Some cap \<Rightarrow> dc_hdr_render cap)) (r_participants room) in
        if \<not> sender_hdr_capture \<or> \<not> any_remote_hdr_render
        then profile\<lparr>mp_negotiated_profile := Profile_Sdr\<rparr> else profile)"

section \<open>Lemmas on the role bindings\<close>

text \<open>Who the room's reserved roles make an active co-host.\<close>

definition co_bound :: "room_state \<Rightarrow> conn_id \<Rightarrow> bool" where
  "co_bound room c \<longleftrightarrow> r_host_conn_id room \<noteq> Some c \<and>
     (\<exists>p. get_p room c = Some p \<and> p_hello_seen (p_state p)
        \<and> p_participant_id (p_state p) \<in> set (r_co_host_role_owners room))"

lemma set_fold_bind:
  "set (fold (\<lambda>(c, p) ids. if P p \<longrightarrow> R c then ids else if Q p then snd (hs_insert ids c) else ids) ps ids)
    = set ids \<union> {c. \<exists>p. (c, p) \<in> set ps \<and> P p \<and> \<not> R c \<and> Q p}"
proof (induction ps arbitrary: ids)
  case Nil
  then show ?case by simp
next
  case (Cons e ps)
  obtain c p where e: "e = (c, p)" by (cases e)
  have split: "{a. \<exists>b. (a, b) \<in> set (e # ps) \<and> P b \<and> \<not> R a \<and> Q b}
      = (if P p \<and> \<not> R c \<and> Q p then {c} else {}) \<union> {a. \<exists>b. (a, b) \<in> set ps \<and> P b \<and> \<not> R a \<and> Q b}"
    using e by auto
  show ?case
    unfolding split by (simp add: e Cons.IH)
qed

lemma sync_frame:
  "snd (sync_active_co_host_bindings room) =
     room\<lparr>r_co_host_conn_ids := r_co_host_conn_ids (snd (sync_active_co_host_bindings room))\<rparr>"
  by (simp add: sync_active_co_host_bindings_def Let_def)

lemma sync_fields [simp]:
  "r_participants (snd (sync_active_co_host_bindings room)) = r_participants room"
  "r_device_caps_by_conn (snd (sync_active_co_host_bindings room)) = r_device_caps_by_conn room"
  "r_host_conn_id (snd (sync_active_co_host_bindings room)) = r_host_conn_id room"
  "r_host_role_owner (snd (sync_active_co_host_bindings room)) = r_host_role_owner room"
  "r_co_host_role_owners (snd (sync_active_co_host_bindings room)) = r_co_host_role_owners room"
  "r_e2ee_epochs (snd (sync_active_co_host_bindings room)) = r_e2ee_epochs room"
  "r_key_rotation_ack_epochs (snd (sync_active_co_host_bindings room)) = r_key_rotation_ack_epochs room"
  "r_signed_action_clock_by_signer (snd (sync_active_co_host_bindings room)) = r_signed_action_clock_by_signer room"
  "r_presence_sequence (snd (sync_active_co_host_bindings room)) = r_presence_sequence room"
  "r_rate_per_minute_nano (snd (sync_active_co_host_bindings room)) = r_rate_per_minute_nano room"
  "r_max_screen_shares (snd (sync_active_co_host_bindings room)) = r_max_screen_shares room"
  "r_room_lock (snd (sync_active_co_host_bindings room)) = r_room_lock room"
  "r_waiting_room_enabled (snd (sync_active_co_host_bindings room)) = r_waiting_room_enabled room"
  "r_guest_join_allowed (snd (sync_active_co_host_bindings room)) = r_guest_join_allowed room"
  "r_local_recording_allowed (snd (sync_active_co_host_bindings room)) = r_local_recording_allowed room"
  "r_e2ee_required (snd (sync_active_co_host_bindings room)) = r_e2ee_required room"
  "r_max_participants (snd (sync_active_co_host_bindings room)) = r_max_participants room"
  "r_policy_epoch (snd (sync_active_co_host_bindings room)) = r_policy_epoch room"
  "r_policy_updated_at_ms (snd (sync_active_co_host_bindings room)) = r_policy_updated_at_ms room"
  "r_policy_updated_by (snd (sync_active_co_host_bindings room)) = r_policy_updated_by room"
  "r_policy_signature_hex (snd (sync_active_co_host_bindings room)) = r_policy_signature_hex room"
  "r_permissions_epoch (snd (sync_active_co_host_bindings room)) = r_permissions_epoch room"
  "r_anonymous_mode (snd (sync_active_co_host_bindings room)) = r_anonymous_mode room"
  "r_anon_admission_rejections (snd (sync_active_co_host_bindings room)) = r_anon_admission_rejections room"
  "r_backpressure_dropped_messages (snd (sync_active_co_host_bindings room)) = r_backpressure_dropped_messages room"
  "r_backpressure_last_notice_at_ms (snd (sync_active_co_host_bindings room)) = r_backpressure_last_notice_at_ms room"
  by (simp_all add: sync_active_co_host_bindings_def Let_def)

lemma sync_bindings [simp]:
  assumes "hm_ok (r_participants room)"
  shows "set (r_co_host_conn_ids (snd (sync_active_co_host_bindings room))) = {c. co_bound room c}"
proof -
  have mem: "(c, p) \<in> set (r_participants room) \<longleftrightarrow> get_p room c = Some p" for c p
    using hm_get_mem [OF assms] by blast
  have "set (r_co_host_conn_ids (snd (sync_active_co_host_bindings room))) =
      set (filter (\<lambda>c. r_host_conn_id room \<noteq> Some c \<and> (case get_p room c of None \<Rightarrow> False
        | Some p \<Rightarrow> p_hello_seen (p_state p) \<and> p_participant_id (p_state p) \<in> set (r_co_host_role_owners room)))
          (r_co_host_conn_ids room))
      \<union> {c. \<exists>p. get_p room c = Some p \<and> p_hello_seen (p_state p) \<and> r_host_conn_id room \<noteq> Some c
          \<and> p_participant_id (p_state p) \<in> set (r_co_host_role_owners room)}"
    by (simp add: sync_active_co_host_bindings_def Let_def set_fold_bind mem)
  then show ?thesis
    by (auto simp: co_bound_def split: option.splits)
qed

lemma sync_changed:
  "hm_ok (r_participants room) \<Longrightarrow>
     fst (sync_active_co_host_bindings room) \<longleftrightarrow> set (r_co_host_conn_ids room) \<noteq> {c. co_bound room c}"
  using sync_bindings [of room] by (auto simp: sync_active_co_host_bindings_def Let_def)

lemma co_bound_ids [simp]: "co_bound (room\<lparr>r_co_host_conn_ids := ids\<rparr>) = co_bound room"
  by (auto simp: co_bound_def fun_eq_iff)

text \<open>The bindings a room should have: exactly the reserved co-hosts that have joined.\<close>

definition bindings_exact :: "room_state \<Rightarrow> bool" where
  "bindings_exact room \<longleftrightarrow> set (r_co_host_conn_ids room) = {c. co_bound room c}"

lemma sync_exact: "hm_ok (r_participants room) \<Longrightarrow> bindings_exact (snd (sync_active_co_host_bindings room))"
  using sync_bindings [of room] sync_frame [of room] by (metis bindings_exact_def co_bound_ids)

lemma bump_fields [simp]:
  "r_participants (bump_permissions room) = r_participants room"
  "r_host_conn_id (bump_permissions room) = r_host_conn_id room"
  "r_host_role_owner (bump_permissions room) = r_host_role_owner room"
  "r_co_host_conn_ids (bump_permissions room) = r_co_host_conn_ids room"
  "r_co_host_role_owners (bump_permissions room) = r_co_host_role_owners room"
  "r_participants (bump_presence room) = r_participants room"
  "r_host_conn_id (bump_presence room) = r_host_conn_id room"
  "r_host_role_owner (bump_presence room) = r_host_role_owner room"
  "r_co_host_conn_ids (bump_presence room) = r_co_host_conn_ids room"
  "r_co_host_role_owners (bump_presence room) = r_co_host_role_owners room"
  by (simp_all add: bump_permissions_def bump_presence_def)

lemma co_bound_cong:
  "r_host_conn_id room = r_host_conn_id room' \<Longrightarrow> r_participants room = r_participants room' \<Longrightarrow>
   r_co_host_role_owners room = r_co_host_role_owners room' \<Longrightarrow> co_bound room = co_bound room'"
  by (simp add: co_bound_def fun_eq_iff)

lemma bindings_exact_cong:
  "r_host_conn_id room = r_host_conn_id room' \<Longrightarrow> r_participants room = r_participants room' \<Longrightarrow>
   r_co_host_role_owners room = r_co_host_role_owners room' \<Longrightarrow>
   r_co_host_conn_ids room = r_co_host_conn_ids room' \<Longrightarrow> bindings_exact room = bindings_exact room'"
  by (simp add: bindings_exact_def co_bound_def)

lemma find_joined_SomeD:
  assumes "find_joined_by_id room i = Some c"
  shows "\<exists>p. (c, p) \<in> set (r_participants room) \<and> p_hello_seen (p_state p) \<and> p_participant_id (p_state p) = i"
proof -
  obtain e where e: "find (\<lambda>(_, p). p_hello_seen (p_state p) \<and> p_participant_id (p_state p) = i)
        (r_participants room) = Some e" and "c = fst e"
    using assms by (auto simp: find_joined_by_id_def)
  then have "e \<in> set (r_participants room)
      \<and> p_hello_seen (p_state (snd e)) \<and> p_participant_id (p_state (snd e)) = i"
    unfolding find_Some_iff by (metis (mono_tags, lifting) case_prod_beta nth_mem)
  then show ?thesis
    using \<open>c = fst e\<close> by (metis prod.collapse)
qed

lemma find_joined_Some:
  "hm_ok (r_participants room) \<Longrightarrow> find_joined_by_id room i = Some c \<Longrightarrow>
     \<exists>p. get_p room c = Some p \<and> p_hello_seen (p_state p) \<and> p_participant_id (p_state p) = i"
  using find_joined_SomeD hm_get_mem by fastforce

lemma find_joined_None:
  "hm_ok (r_participants room) \<Longrightarrow> find_joined_by_id room i = None \<Longrightarrow> get_p room c = Some p \<Longrightarrow>
     \<not> (p_hello_seen (p_state p) \<and> p_participant_id (p_state p) = i)"
  using hm_get_mem [of "r_participants room" c p]
  by (fastforce simp: find_joined_by_id_def find_None_iff)

end
