(* ===== verification/Hub_Billing.thy ===== *)
theory Hub_Billing
  imports Hub_State
begin

text \<open>
  Pay-per-use accounting of the hub: the grace window, \<open>advance_billing\<close>, the rate policy and the
  periodic check \<open>enforce_billing\<close>, whose critical section is \<open>billing_section\<close> and one turn of
  whose loop is \<open>billing_tick\<close>. Rates and amounts are \<open>u64\<close>; the products are computed in \<open>u128\<close>,
  here naturals with the saturation written out.
\<close>

section \<open>Rates and windows\<close>

definition grace_nano :: "billing_config \<Rightarrow> u64 \<Rightarrow> u64" where
  "grace_nano b rate_per_minute_nano =
     u64_of_u128 (sat_mul128 (unat rate_per_minute_nano) (unat (grace_secs b)) div 60)"

definition advance_billing :: "participant_state \<Rightarrow> u64 \<Rightarrow> u64 \<Rightarrow> participant_state" where
  "advance_billing st rate_per_minute_nano now =
     (let elapsed_ms = sat_sub now (p_last_billed_at_ms st);
          st = st\<lparr>p_last_billed_at_ms := now\<rparr> in
      if elapsed_ms = 0 \<or> rate_per_minute_nano = 0 then st
      else
        let numerator = sat_add128 (sat_mul128 (unat rate_per_minute_nano) (unat elapsed_ms))
              (unat (p_billing_remainder_mod_60k st));
            delta_nano = u64_of_u128 (numerator div 60000) in
        st\<lparr>p_billing_remainder_mod_60k := of_nat (numerator mod 60000),
           p_billed_nano_xor := sat_add (p_billed_nano_xor st) delta_nano\<rparr>)"

definition escrow_proof_stale :: "u64 \<Rightarrow> u64 \<Rightarrow> u64 \<Rightarrow> bool" where
  "escrow_proof_stale last_proof_at_ms now max_stale_secs =
     (sat_sub now last_proof_at_ms > sat_mul max_stale_secs 1000)"

definition anonymous_hello_timed_out :: "u64 \<Rightarrow> u64 \<Rightarrow> u64 \<Rightarrow> bool" where
  "anonymous_hello_timed_out connected_at_ms now max_wait_secs =
     escrow_proof_stale connected_at_ms now max_wait_secs"

definition normalize_anon_max_participants :: "nat \<Rightarrow> nat" where
  "normalize_anon_max_participants value = max value 1"

definition should_warn_high_anon_capacity :: "nat \<Rightarrow> bool" where
  "should_warn_high_anon_capacity value = (value > WARN_ANON_MAX_PARTICIPANTS_THRESHOLD)"

definition is_anon_escrow_stale_enforcement_disabled :: "u64 \<Rightarrow> bool" where
  "is_anon_escrow_stale_enforcement_disabled value = (value = 0)"

definition should_warn_high_anon_escrow_stale_secs :: "u64 \<Rightarrow> bool" where
  "should_warn_high_anon_escrow_stale_secs value =
     (value > WARN_ANON_ESCROW_PROOF_STALE_SECS_THRESHOLD)"

definition normalize_rate_for_policy :: "u64 \<Rightarrow> bool \<Rightarrow> u64" where
  "normalize_rate_for_policy rate_per_minute_nano allow_free =
     (if allow_free then rate_per_minute_nano else max rate_per_minute_nano 1)"

definition normalize_initial_rate :: "u64 \<Rightarrow> bool \<Rightarrow> string + u64" where
  "normalize_initial_rate rate_per_minute_nano allow_free =
     (if rate_per_minute_nano = 0 \<and> \<not> allow_free
      then Inl ''--xor-rate-per-minute-nano must be > 0 unless --allow-free-calls is set''
      else Inr (normalize_rate_for_policy rate_per_minute_nano allow_free))"

definition apply_anonymous_zk_surcharge :: "u64 \<Rightarrow> u64 \<Rightarrow> string + u64" where
  "apply_anonymous_zk_surcharge base_rate extra_fee =
     (if extra_fee = 0 then Inr base_rate
      else case checked_add base_rate extra_fee of
        Some r \<Rightarrow> Inr r
      | None \<Rightarrow> Inl ''anonymous surcharge overflow: room_rate_per_minute_nano + --anon-zk-extra-fee-per-minute-nano exceeds u64'')"

section \<open>The periodic check\<close>

datatype tick_outcome =
    Tick_Stop
  | Tick_Continue
  | Tick_Disconnect string

definition anon_disconnect_message :: "billing_config \<Rightarrow> participant_state \<Rightarrow> u64 \<Rightarrow> string option" where
  \<comment> \<open>the escrow policy for a participant of an anonymous room\<close>
  "anon_disconnect_message b st now =
     (let stale = anon_escrow_proof_max_stale_secs b in
      if stale > 0 \<and> \<not> p_hello_seen st
         \<and> anonymous_hello_timed_out (p_last_billed_at_ms st) now stale
      then Some (''anonymous hello timeout: connected_at_ms='' @ dec64 (p_last_billed_at_ms st)
             @ '' max_wait_secs='' @ dec64 stale)
      else if stale > 0 \<and> p_hello_seen st then
        let last = (case p_last_escrow_proof_at_ms st of Some t \<Rightarrow> t | None \<Rightarrow> p_last_billed_at_ms st) in
        if escrow_proof_stale last now stale
        then Some (''anonymous escrow proof stale: last_proof_at_ms='' @ dec64 last
               @ '' max_stale_secs='' @ dec64 stale)
        else None
      else None)"

definition payment_required_message :: "u64 \<Rightarrow> u64 \<Rightarrow> u64 \<Rightarrow> u64 \<Rightarrow> string" where
  "payment_required_message billed paid grace rate =
     ''payment required: billed_nano_xor='' @ dec64 billed @ '' paid_nano_xor='' @ dec64 paid
       @ '' grace_nano_xor='' @ dec64 grace @ '' rate_per_minute_nano='' @ dec64 rate"

definition billing_section ::
    "billing_config \<Rightarrow> conn_id \<Rightarrow> u64 \<Rightarrow> room_state \<Rightarrow> tick_outcome \<times> room_state" where
  "billing_section b conn_id now room =
     (case get_p room conn_id of
        None \<Rightarrow> (Tick_Stop, room)
      | Some participant \<Rightarrow>
          let st = p_state participant;
              anonymous = (r_anonymous_mode room \<or> p_anonymous_mode st);
              disconnect_message = (if anonymous then anon_disconnect_message b st now else None) in
          if anonymous \<and> disconnect_message = None then (Tick_Continue, room)
          else
            let rate = r_rate_per_minute_nano room;
                st = (if p_hello_seen st then advance_billing st rate now
                      else st\<lparr>p_last_billed_at_ms := now\<rparr>);
                billed = p_billed_nano_xor st;
                paid = p_paid_nano_xor st;
                grace = grace_nano b rate;
                disconnect_message =
                  (if p_hello_seen st \<and> rate > 0 \<and> billed > sat_add paid grace
                   then Some (payment_required_message billed paid grace rate)
                   else disconnect_message);
                room = set_pstate room conn_id st in
            (case disconnect_message of
               None \<Rightarrow> (Tick_Continue, room)
             | Some m \<Rightarrow> (Tick_Disconnect m, room)))"

definition billing_tick :: "ext \<Rightarrow> billing_config \<Rightarrow> room_id \<Rightarrow> conn_id \<Rightarrow> bool hub_prog" where
  \<comment> \<open>one turn of the loop of \<open>enforce_billing\<close>; the result says whether the loop goes on\<close>
  "billing_tick X b room_id conn_id =
     bind_prog now_ms (\<lambda>now.
     bind_prog (with_room room_id Tick_Stop (\<lambda>_ room. billing_section b conn_id now room)) (\<lambda>outcome.
     case outcome of
       Tick_Stop \<Rightarrow> Return False
     | Tick_Continue \<Rightarrow> Return True
     | Tick_Disconnect message \<Rightarrow>
         seq_prog
           (case encode_framed X (K_Error \<lparr>err_message = message\<rparr>) of
              Inl _ \<Rightarrow> Return ()
            | Inr bytes \<Rightarrow> send_quietly conn_id (Msg_Binary bytes))
           (seq_prog (send_quietly conn_id (Msg_Close None)) (Return False))))"

section \<open>Accounting lemmas\<close>

text \<open>The products of the accounting never reach the \<open>u128\<close> limit.\<close>

lemma u64_product_lt: "unat (a :: u64) * unat (b :: u64) \<le> (2 ^ 64 - 1) * (2 ^ 64 - 1)"
  using u64_lt [of a] u64_lt [of b] by (intro mult_le_mono) simp_all

lemma numerator_exact:
  "sat_add128 (sat_mul128 (unat (rate :: u64)) (unat (elapsed :: u64))) (unat (r :: u32))
    = unat rate * unat elapsed + unat r"
  using u64_product_lt [of rate elapsed] u32_lt [of r]
  by (simp add: sat_add128_def sat_mul128_def u128_max_def)

lemma grace_exact:
  "unat (grace_nano b rate) = min (2 ^ 64 - 1) (unat rate * unat (grace_secs b) div 60)"
  using u64_product_lt [of rate "grace_secs b"]
  by (simp add: grace_nano_def sat_mul128_def u128_max_def unat_u64_of_u128 min.commute)

lemma min_add_min: "min M (min M a + d) = min M (a + d)" for M a d :: nat
  by (auto simp: min_def)

definition billing_ok :: "participant_state \<Rightarrow> bool" where
  "billing_ok st \<longleftrightarrow> unat (p_billing_remainder_mod_60k st) < 60000"

definition nano_ms :: "participant_state \<Rightarrow> u64 \<Rightarrow> u64 \<Rightarrow> nat" where
  \<comment> \<open>the charge of the interval up to \<open>now\<close> in nano-XOR times 60000, with the carried remainder\<close>
  "nano_ms st rate now =
     unat rate * (unat now - unat (p_last_billed_at_ms st)) + unat (p_billing_remainder_mod_60k st)"

lemma advance_billing_closed:
  assumes "billing_ok st"
  shows "unat (p_billed_nano_xor (advance_billing st rate now))
      = min (2 ^ 64 - 1) (unat (p_billed_nano_xor st) + nano_ms st rate now div 60000)"
    and "unat (p_billing_remainder_mod_60k (advance_billing st rate now)) = nano_ms st rate now mod 60000"
    and "p_last_billed_at_ms (advance_billing st rate now) = now"
proof -
  let ?e = "sat_sub now (p_last_billed_at_ms st)"
  have e: "unat ?e = unat now - unat (p_last_billed_at_ms st)"
    by (rule unat_sat_sub)
  have num: "sat_add128 (sat_mul128 (unat rate) (unat now - unat (p_last_billed_at_ms st)))
      (unat (p_billing_remainder_mod_60k st)) = nano_ms st rate now"
    using numerator_exact [of rate ?e "p_billing_remainder_mod_60k st"] e by (simp add: nano_ms_def)
  have lt: "unat (p_billed_nano_xor st) \<le> 2 ^ 64 - 1"
    using u64_lt [of "p_billed_nano_xor st"] by simp
  have small: "nano_ms st rate now mod 60000 < 2 ^ 32"
    using mod_less_divisor [of 60000 "nano_ms st rate now"] by simp
  show "unat (p_billed_nano_xor (advance_billing st rate now))
      = min (2 ^ 64 - 1) (unat (p_billed_nano_xor st) + nano_ms st rate now div 60000)"
  proof (cases "?e = 0 \<or> rate = 0")
    case True
    then have "nano_ms st rate now = unat (p_billing_remainder_mod_60k st)"
      using e by (auto simp: nano_ms_def)
    then show ?thesis
      using True assms lt by (simp add: advance_billing_def Let_def billing_ok_def)
  next
    case False
    then show ?thesis
      by (simp add: advance_billing_def Let_def num e unat_sat_add unat_u64_of_u128
          min.commute [of _ "18446744073709551615"])
  qed
  show "unat (p_billing_remainder_mod_60k (advance_billing st rate now)) = nano_ms st rate now mod 60000"
  proof (cases "?e = 0 \<or> rate = 0")
    case True
    then have "nano_ms st rate now = unat (p_billing_remainder_mod_60k st)"
      using e by (auto simp: nano_ms_def)
    then show ?thesis
      using True assms by (simp add: advance_billing_def Let_def billing_ok_def)
  next
    case False
    then show ?thesis
      using small by (simp add: advance_billing_def Let_def num e unat_of_nat)
  qed
  show "p_last_billed_at_ms (advance_billing st rate now) = now"
    by (simp add: advance_billing_def Let_def)
qed

lemma advance_billing_ok: "billing_ok st \<Longrightarrow> billing_ok (advance_billing st rate now)"
  by (simp add: billing_ok_def [of "advance_billing st rate now"] advance_billing_closed)

text \<open>Only the three billing fields change.\<close>

lemma advance_billing_frame [simp]:
  "p_participant_id (advance_billing st rate now) = p_participant_id st"
  "p_display_name (advance_billing st rate now) = p_display_name st"
  "p_participant_handle (advance_billing st rate now) = p_participant_handle st"
  "p_x25519_pubkey_hex (advance_billing st rate now) = p_x25519_pubkey_hex st"
  "p_x25519_epoch (advance_billing st rate now) = p_x25519_epoch st"
  "p_mic_enabled (advance_billing st rate now) = p_mic_enabled st"
  "p_video_enabled (advance_billing st rate now) = p_video_enabled st"
  "p_screen_share_enabled (advance_billing st rate now) = p_screen_share_enabled st"
  "p_anonymous_mode (advance_billing st rate now) = p_anonymous_mode st"
  "p_waiting_room_pending (advance_billing st rate now) = p_waiting_room_pending st"
  "p_hello_seen (advance_billing st rate now) = p_hello_seen st"
  "p_paid_nano_xor (advance_billing st rate now) = p_paid_nano_xor st"
  "p_last_payment_at_ms (advance_billing st rate now) = p_last_payment_at_ms st"
  "p_last_escrow_proof_at_ms (advance_billing st rate now) = p_last_escrow_proof_at_ms st"
  "p_escrow_id (advance_billing st rate now) = p_escrow_id st"
  by (simp_all add: advance_billing_def Let_def)

lemma advance_billing_eqI:
  assumes "billing_ok st" and "billing_ok st'"
    and "p_billed_nano_xor st = p_billed_nano_xor st'"
    and "p_billing_remainder_mod_60k st = p_billing_remainder_mod_60k st'"
    and "p_last_billed_at_ms st = p_last_billed_at_ms st'"
    and "st\<lparr>p_billed_nano_xor := 0, p_billing_remainder_mod_60k := 0, p_last_billed_at_ms := 0\<rparr>
       = st'\<lparr>p_billed_nano_xor := 0, p_billing_remainder_mod_60k := 0, p_last_billed_at_ms := 0\<rparr>"
  shows "st = st'"
  using assms by (cases st; cases st') simp

lemma advance_billing_others:
  "(advance_billing st rate now)\<lparr>p_billed_nano_xor := 0, p_billing_remainder_mod_60k := 0,
       p_last_billed_at_ms := 0\<rparr>
    = st\<lparr>p_billed_nano_xor := 0, p_billing_remainder_mod_60k := 0, p_last_billed_at_ms := 0\<rparr>"
  by (simp add: advance_billing_def Let_def)

lemma div_carry: "(x + y) div k = x div k + (y + x mod k) div k" for x y k :: nat
proof (cases "k = 0")
  case False
  have "x + y = (y + x mod k) + x div k * k"
    by simp
  then show ?thesis
    using False by (metis div_mult_self1)
qed simp

lemma nano_ms_split:
  assumes "billing_ok st" and "p_last_billed_at_ms st \<le> t1" and "t1 \<le> t2"
  shows "nano_ms st rate t2 = nano_ms st rate t1 + unat rate * (unat t2 - unat t1)"
proof -
  have "unat t2 - unat (p_last_billed_at_ms st)
      = (unat t1 - unat (p_last_billed_at_ms st)) + (unat t2 - unat t1)"
    using assms by (simp add: word_le_nat_alt)
  then show ?thesis
    by (simp add: nano_ms_def algebra_simps)
qed

section \<open>Properties\<close>

text \<open>No charge is lost to rounding: as long as the total stays within \<open>u64\<close>, advancing the
  account to \<open>now\<close> adds exactly \<open>rate * elapsed\<close> to \<open>60000 * billed + remainder\<close> (nothing when
  the clock went backwards).\<close>

theorem advance_billing_exact:
  assumes "unat (p_billing_remainder_mod_60k st) < 60000"
    and "unat (p_billed_nano_xor st) + nano_ms st rate now div 60000 < 2 ^ 64"
  shows "60000 * unat (p_billed_nano_xor (advance_billing st rate now))
      + unat (p_billing_remainder_mod_60k (advance_billing st rate now))
    = 60000 * unat (p_billed_nano_xor st) + unat (p_billing_remainder_mod_60k st)
      + unat rate * (unat now - unat (p_last_billed_at_ms st))"
proof -
  have ok: "billing_ok st"
    using assms(1) by (simp add: billing_ok_def)
  have "unat (p_billed_nano_xor (advance_billing st rate now))
      = unat (p_billed_nano_xor st) + nano_ms st rate now div 60000"
    using advance_billing_closed(1) [OF ok] assms(2) by simp
  moreover have "60000 * (nano_ms st rate now div 60000) + nano_ms st rate now mod 60000 = nano_ms st rate now"
    by simp
  ultimately show ?thesis
    using advance_billing_closed(2) [OF ok, of rate now]
    by (simp add: nano_ms_def distrib_left)
qed

lemma advance_billing_exact_witness:
  "60000 * unat (p_billed_nano_xor (advance_billing (new_participant_state 1 1000) 1000000 1777))
      + unat (p_billing_remainder_mod_60k (advance_billing (new_participant_state 1 1000) 1000000 1777))
    = 777000000"
  using advance_billing_exact [of "new_participant_state 1 1000" 1000000 1777]
  by (simp add: new_participant_state_def nano_ms_def)

text \<open>The tick interval does not matter: advancing the account in two steps at the same rate
  gives the state that one step gives, even where the amounts saturate.\<close>

theorem advance_billing_split:
  assumes "unat (p_billing_remainder_mod_60k st) < 60000"
    and "p_last_billed_at_ms st \<le> t1" and "t1 \<le> t2"
  shows "advance_billing (advance_billing st rate t1) rate t2 = advance_billing st rate t2"
proof (rule advance_billing_eqI)
  let ?s1 = "advance_billing st rate t1"
  have ok: "billing_ok st"
    using assms(1) by (simp add: billing_ok_def)
  note ok1 = advance_billing_ok [OF ok, of rate t1]
  note c = advance_billing_closed [OF ok, of rate] and c1 = advance_billing_closed [OF ok1, of rate t2]
  let ?n1 = "nano_ms st rate t1" and ?n2 = "nano_ms st rate t2"
  let ?y = "unat rate * (unat t2 - unat t1)"
  have split: "?n2 = ?n1 + ?y"
    by (rule nano_ms_split [OF ok assms(2,3)])
  have n: "nano_ms ?s1 rate t2 = ?y + ?n1 mod 60000"
    by (simp add: nano_ms_def [of ?s1] c)
  show "billing_ok (advance_billing ?s1 rate t2)" "billing_ok (advance_billing st rate t2)"
    by (intro advance_billing_ok ok)+
  show "p_last_billed_at_ms (advance_billing ?s1 rate t2) = p_last_billed_at_ms (advance_billing st rate t2)"
    by (simp add: c c1)
  have "unat (p_billing_remainder_mod_60k (advance_billing ?s1 rate t2))
      = unat (p_billing_remainder_mod_60k (advance_billing st rate t2))"
    by (simp add: c c1 n split mod_simps add.commute)
  then show "p_billing_remainder_mod_60k (advance_billing ?s1 rate t2)
      = p_billing_remainder_mod_60k (advance_billing st rate t2)"
    by (simp only: word_unat_eq_iff)
  have "unat (p_billed_nano_xor (advance_billing ?s1 rate t2))
      = unat (p_billed_nano_xor (advance_billing st rate t2))"
    by (simp add: c c1 n split div_carry [of ?n1 ?y] min_add_min add.assoc)
  then show "p_billed_nano_xor (advance_billing ?s1 rate t2)
      = p_billed_nano_xor (advance_billing st rate t2)"
    by (simp only: word_unat_eq_iff)
qed (simp only: advance_billing_others)

lemma advance_billing_split_witness:
  "advance_billing (advance_billing (new_participant_state 1 1000) 999999 1003) 999999 2000
    = advance_billing (new_participant_state 1 1000) 999999 2000"
  by (rule advance_billing_split) (simp_all add: new_participant_state_def)

text \<open>C14. In a transparent room the check disconnects a participant exactly when it has said
  Hello, the room is paid, and the charge up to now exceeds what it paid plus the grace window;
  a connection before Hello is never charged or disconnected by the check, only its cursor moves.\<close>

theorem billing_section_transparent:
  assumes "get_p room c = Some p" and "\<not> r_anonymous_mode room" and "\<not> p_anonymous_mode (p_state p)"
    and "unat (p_billing_remainder_mod_60k (p_state p)) < 60000"
  shows "((\<exists>m. fst (billing_section b c now room) = Tick_Disconnect m) \<longleftrightarrow>
      p_hello_seen (p_state p) \<and> r_rate_per_minute_nano room > 0 \<and>
      min (2 ^ 64 - 1) (unat (p_billed_nano_xor (p_state p))
          + nano_ms (p_state p) (r_rate_per_minute_nano room) now div 60000)
        > min (2 ^ 64 - 1) (unat (p_paid_nano_xor (p_state p))
          + min (2 ^ 64 - 1) (unat (r_rate_per_minute_nano room) * unat (grace_secs b) div 60)))
    \<and> snd (billing_section b c now room) = set_pstate room c
      (if p_hello_seen (p_state p) then advance_billing (p_state p) (r_rate_per_minute_nano room) now
       else (p_state p)\<lparr>p_last_billed_at_ms := now\<rparr>)"
proof -
  have ok: "billing_ok (p_state p)"
    using assms(4) by (simp add: billing_ok_def)
  show ?thesis
    using assms(1-3)
    by (simp add: billing_section_def Let_def word_less_nat_alt unat_sat_add grace_exact
        advance_billing_closed [OF ok])
qed

lemma billing_section_transparent_witness:
  "\<exists>m. fst (billing_section \<lparr>default_rate_per_minute_nano = 60, anon_zk_extra_fee_per_minute_nano = 0,
        grace_secs = 30, check_interval_secs = 5, anon_escrow_proof_max_stale_secs = 90\<rparr> 1 31000
      ((new_room 60)\<lparr>r_participants :=
        [(1, \<lparr>p_tx = 1, p_state = (new_participant_state 1 0)\<lparr>p_hello_seen := True\<rparr>\<rparr>)]\<rparr>)) = Tick_Disconnect m"
proof -
  let ?p = "\<lparr>p_tx = 1, p_state = (new_participant_state 1 0)\<lparr>p_hello_seen := True\<rparr>\<rparr>"
  let ?room = "(new_room 60)\<lparr>r_participants := [(1, ?p)]\<rparr>"
  have "get_p ?room 1 = Some ?p" "\<not> r_anonymous_mode ?room" "\<not> p_anonymous_mode (p_state ?p)"
      "unat (p_billing_remainder_mod_60k (p_state ?p)) < 60000"
    by (simp_all add: hm_get_def new_room_def new_participant_state_def)
  from billing_section_transparent [OF this, of "\<lparr>default_rate_per_minute_nano = 60,
        anon_zk_extra_fee_per_minute_nano = 0, grace_secs = 30, check_interval_secs = 5,
        anon_escrow_proof_max_stale_secs = 90\<rparr>" 31000]
  show ?thesis
    by (simp add: new_room_def new_participant_state_def nano_ms_def)
qed

end
