(* ===== verification/Hub_Anon.thy ===== *)
theory Hub_Anon
  imports Hub_Roles Hub_Billing
begin

text \<open>
  Anonymous rooms: admission of a handle, the effect of \<open>AnonHello\<close> on a participant, the roster
  and the rotation of the group key. Every operation works on one room under the mutex; \<open>t 0\<close> is
  the clock reading an operation makes.
\<close>

section \<open>Admission\<close>

definition active_anon :: "room_state \<Rightarrow> nat" where
  "active_anon room = length (filter (\<lambda>st. p_anonymous_mode st \<and> p_hello_seen st) (p_states room))"

definition validate_anonymous_room_capacity :: "room_state \<Rightarrow> conn_id \<Rightarrow> nat \<Rightarrow> string option" where
  "validate_anonymous_room_capacity room conn_id max_anon_participants =
     (let already_anonymous = (case get_p room conn_id of
            None \<Rightarrow> False
          | Some participant \<Rightarrow> p_anonymous_mode (p_state participant) \<and> p_hello_seen (p_state participant)) in
      if already_anonymous then None
      else if active_anon room \<ge> max_anon_participants
      then Some (''anonymous room participant cap reached: max '' @ dec max_anon_participants)
      else None)"

definition record_anon_admission_rejection :: "room_state \<Rightarrow> u64 \<times> room_state" where
  "record_anon_admission_rejection room =
     (let room = room\<lparr>r_anon_admission_rejections := sat_add (r_anon_admission_rejections room) 1\<rparr> in
      (r_anon_admission_rejections room, room))"

definition validate_anon_participant_handle :: "room_state \<Rightarrow> conn_id \<Rightarrow> string \<Rightarrow> string option" where
  "validate_anon_participant_handle room conn_id requested_handle =
     (if trim_is_empty requested_handle
      then Some ''participant_handle must be non-empty''
      else if \<not> is_ascii requested_handle
      then Some ''participant_handle must be ASCII''
      else if has_forbidden_anon_handle_symbol requested_handle
      then Some (''participant_handle must not contain '' @ quoted_at)
      else if has_disallowed_anon_handle_chars requested_handle
      then Some ''participant_handle must not contain whitespace/control chars''
      else if length requested_handle > MAX_ANON_PARTICIPANT_HANDLE_LEN
      then Some (''participant_handle too long: max '' @ dec MAX_ANON_PARTICIPANT_HANDLE_LEN @ '' chars'')
      else if list_ex (\<lambda>(c, p). c \<noteq> conn_id \<and> p_anonymous_mode (p_state p)
           \<and> p_participant_handle (p_state p) = Some requested_handle) (r_participants room)
      then Some ''participant_handle already in use''
      else case Option.bind (get_p room conn_id) (\<lambda>p. p_participant_handle (p_state p)) of
        Some existing \<Rightarrow>
          if existing \<noteq> requested_handle
          then Some ''participant_handle cannot change after AnonHello'' else None
      | None \<Rightarrow> None)"

definition apply_anon_hello_state ::
    "participant_state \<Rightarrow> anon_hello_frame \<Rightarrow> u64 \<Rightarrow> string + participant_state" where
  "apply_anon_hello_state participant hello now =
     (let first_anonymous_hello = (\<not> p_hello_seen participant \<or> \<not> p_anonymous_mode participant) in
      if p_hello_seen participant \<and> p_anonymous_mode participant
         \<and> (case p_x25519_pubkey_hex participant of
              None \<Rightarrow> False | Some current \<Rightarrow> current \<noteq> ah_x25519_pubkey_hex hello)
      then Inl ''x25519 key changes require GroupKeyUpdate''
      else Inr (participant\<lparr>
        p_anonymous_mode := True,
        p_waiting_room_pending := False,
        p_hello_seen := True,
        p_participant_handle := Some (ah_participant_handle hello),
        p_x25519_pubkey_hex := Some (ah_x25519_pubkey_hex hello),
        p_x25519_epoch := (if p_x25519_epoch participant = 0 then 1 else p_x25519_epoch participant),
        p_last_billed_at_ms := (if first_anonymous_hello then now else p_last_billed_at_ms participant)\<rparr>))"

section \<open>Roster and group key\<close>

definition anon_roster_frame_locked :: "u64 \<Rightarrow> room_state \<Rightarrow> anon_roster_frame" where
  "anon_roster_frame_locked at_ms room = \<lparr>
     ar_at_ms = at_ms,
     ar_participants = sort_key are_participant_handle (List.map_filter
       (\<lambda>st. case (p_participant_handle st, p_x25519_pubkey_hex st) of
          (Some handle, Some pubkey) \<Rightarrow> Some \<lparr>are_participant_handle = handle,
             are_x25519_pubkey_hex = pubkey, are_joined_at_ms = p_last_billed_at_ms st\<rparr>
        | _ \<Rightarrow> None) (p_states room))\<rparr>"

definition member_handles :: "room_state \<Rightarrow> string list" where
  "member_handles room = sort (List.map_filter
     (\<lambda>st. if p_hello_seen st \<and> p_anonymous_mode st then p_participant_handle st else None)
     (p_states room))"

definition build_anon_group_key_rotate_frame ::
    "ext \<Rightarrow> room_state \<Rightarrow> u64 \<Rightarrow> anon_group_key_rotate_frame \<times> room_state" where
  "build_anon_group_key_rotate_frame X room at_ms =
     (let room = bump_permissions room;
          epoch = max (r_permissions_epoch room) 1;
          handles = member_handles room;
          entropy = join ''|'' handles in
      (\<lparr>kr_sent_at_ms = at_ms, kr_epoch = epoch,
         kr_key_wrap_hex = deterministic_signature_hex X ''anon_group_key_rotate''
           (dec64 at_ms @ ''|'' @ dec64 epoch @ ''|'' @ entropy),
         kr_member_handles = handles\<rparr>, room))"

section \<open>The sections of the anonymous handlers\<close>

text \<open>
  What \<open>AnonHello\<close> leaves behind: nothing (the connection is gone), an error message, or the roster
  for the sender, the sender's key for everyone and the new group key.
\<close>

datatype anon_hello_outcome =
    Anon_Gone
  | Anon_Rejected string
  | Anon_Admitted anon_roster_frame group_key_update_frame anon_group_key_rotate_frame

definition anon_admit ::
    "ext \<Rightarrow> (nat \<Rightarrow> u64) \<Rightarrow> room_state \<Rightarrow> conn_id \<Rightarrow> anon_hello_frame \<Rightarrow> u64
       \<Rightarrow> anon_hello_outcome \<times> room_state" where
  \<comment> \<open>the common end of the two branches of \<open>AnonHello\<close>; \<open>rate\<close> is the room's rate afterwards\<close>
  "anon_admit X t room conn_id hello rate =
     (case get_p room conn_id of
        None \<Rightarrow> (Anon_Gone, room)
      | Some participant \<Rightarrow>
          let now = t 0 in
          case apply_anon_hello_state (p_state participant) hello now of
            Inl err \<Rightarrow> (Anon_Rejected err, room)
          | Inr st \<Rightarrow>
              let room = (set_pstate room conn_id st)\<lparr>r_rate_per_minute_nano := rate, r_anonymous_mode := True\<rparr>;
                  roster = anon_roster_frame_locked (t 1) room;
                  update = \<lparr>gk_sent_at_ms = now, gk_participant_handle = ah_participant_handle hello,
                    gk_x25519_pubkey_hex = ah_x25519_pubkey_hex hello, gk_epoch = p_x25519_epoch st\<rparr>;
                  (new_key, room) = build_anon_group_key_rotate_frame X room now in
              (Anon_Admitted roster update new_key, room))"

definition anon_hello_section ::
    "ext \<Rightarrow> hub_config \<Rightarrow> conn_id \<Rightarrow> anon_hello_frame \<Rightarrow> (nat \<Rightarrow> u64) \<Rightarrow> room_state
       \<Rightarrow> anon_hello_outcome \<times> room_state" where
  "anon_hello_section X cfg conn_id hello t room =
     (case validate_anon_participant_handle room conn_id (ah_participant_handle hello) of
        Some handle_error \<Rightarrow> (Anon_Rejected handle_error, room)
      | None \<Rightarrow>
          (case validate_anonymous_room_capacity room conn_id (anon_max_participants cfg) of
             Some cap_error \<Rightarrow> (Anon_Rejected cap_error, snd (record_anon_admission_rejection room))
           | None \<Rightarrow>
               if \<not> r_anonymous_mode room
               then
                 if list_ex (\<lambda>st. p_hello_seen st \<and> \<not> p_anonymous_mode st) (p_states room)
                 then (Anon_Rejected ''room is already in transparent mode'', room)
                 else (case apply_anonymous_zk_surcharge (r_rate_per_minute_nano room)
                         (anon_zk_extra_fee_per_minute_nano (billing cfg)) of
                     Inl err \<Rightarrow> (Anon_Rejected err, room)
                   | Inr effective_rate \<Rightarrow> anon_admit X t room conn_id hello effective_rate)
               else anon_admit X t room conn_id hello (r_rate_per_minute_nano room)))"

definition group_key_section ::
    "ext \<Rightarrow> conn_id \<Rightarrow> group_key_update_frame \<Rightarrow> (nat \<Rightarrow> u64) \<Rightarrow> room_state
       \<Rightarrow> (string option \<times> bool) \<times> room_state" where
  \<comment> \<open>\<open>(send_error_msg, should_broadcast)\<close>\<close>
  "group_key_section X conn_id update t room =
     (if \<not> r_anonymous_mode room
      then ((Some ''group key updates require anonymous room mode'', False), room)
      else case validate_group_key_update_frame X update of
        Some validation_err \<Rightarrow> ((Some validation_err, False), room)
      | None \<Rightarrow>
          (case get_p room conn_id of
             None \<Rightarrow> ((None, False), room)
           | Some participant \<Rightarrow>
               let st = p_state participant in
               if \<not> p_hello_seen st \<or> \<not> p_anonymous_mode st
               then ((Some ''send AnonHello first'', False), room)
               else if p_participant_handle st \<noteq> Some (gk_participant_handle update)
               then ((Some ''group key sender handle does not match connection'', False), room)
               else case should_apply_group_key_update (p_x25519_epoch st) (p_x25519_pubkey_hex st)
                      (gk_epoch update) (gk_x25519_pubkey_hex update) of
                 Inl err \<Rightarrow> ((Some err, False), room)
               | Inr False \<Rightarrow> ((None, False), room)
               | Inr True \<Rightarrow> ((None, True), set_pstate room conn_id
                   (st\<lparr>p_x25519_pubkey_hex := Some (gk_x25519_pubkey_hex update),
                       p_x25519_epoch := gk_epoch update\<rparr>))))"

definition encrypted_control_check ::
    "ext \<Rightarrow> conn_id \<Rightarrow> encrypted_control_frame \<Rightarrow> room_state \<Rightarrow> string option \<times> bool" where
  "encrypted_control_check X conn_id enc room =
     (if \<not> r_anonymous_mode room
      then (Some ''encrypted control frames require anonymous room mode'', False)
      else case validate_encrypted_control_frame X enc of
        Some validation_err \<Rightarrow> (Some validation_err, False)
      | None \<Rightarrow>
          (case get_p room conn_id of
             None \<Rightarrow> (None, False)
           | Some participant \<Rightarrow>
               let st = p_state participant in
               if \<not> p_hello_seen st \<or> \<not> p_anonymous_mode st
               then (Some ''send AnonHello first'', False)
               else if p_participant_handle st \<noteq> Some (ec_sender_handle enc)
               then (Some ''encrypted sender handle does not match connection'', False)
               else case validate_encrypted_control_epoch (ec_epoch enc) (p_x25519_epoch st) of
                 Some epoch_err \<Rightarrow> (Some epoch_err, False)
               | None \<Rightarrow>
                   (case validate_encrypted_control_room_recipients enc room of
                      Some recipient_err \<Rightarrow> (Some recipient_err, False)
                    | None \<Rightarrow> (None, True))))"

definition escrow_section ::
    "ext \<Rightarrow> conn_id \<Rightarrow> escrow_proof_frame \<Rightarrow> (nat \<Rightarrow> u64) \<Rightarrow> room_state
       \<Rightarrow> (bool \<times> string option) option \<times> room_state" where
  \<comment> \<open>\<open>(accepted, reason)\<close>; nothing when the connection is gone\<close>
  "escrow_section X conn_id proof_frame t room =
     (case get_p room conn_id of
        None \<Rightarrow> (None, room)
      | Some participant \<Rightarrow>
          let st = p_state participant in
          if \<not> r_anonymous_mode room \<or> \<not> p_anonymous_mode st
          then (Some (False, Some ''escrow proofs require anonymous room mode''), room)
          else if \<not> p_hello_seen st
          then (Some (False, Some ''send AnonHello first''), room)
          else if p_participant_handle st \<noteq> Some (ep_payer_handle proof_frame)
          then (Some (False, Some ''escrow proof payer handle does not match connection''), room)
          else case validate_escrow_proof_frame X proof_frame of
            Some validation_err \<Rightarrow> (Some (False, Some validation_err), room)
          | None \<Rightarrow>
              (case validate_escrow_id_consistency (p_escrow_id st) (ep_escrow_id proof_frame) of
                 Some mismatch_err \<Rightarrow> (Some (False, Some mismatch_err), room)
               | None \<Rightarrow> (Some (True, None), set_pstate room conn_id
                   (st\<lparr>p_last_escrow_proof_at_ms := Some (t 0),
                      p_escrow_id := (case p_escrow_id st of
                        Some e \<Rightarrow> Some e | None \<Rightarrow> Some (ep_escrow_id proof_frame))\<rparr>))))"

definition anon_payload_check ::
    "ext \<Rightarrow> conn_id \<Rightarrow> anon_encrypted_payload_frame \<Rightarrow> room_state \<Rightarrow> string option \<times> bool" where
  "anon_payload_check X conn_id enc room =
     (if \<not> r_anonymous_mode room
      then (Some ''anonymous encrypted payloads require anonymous room mode'', False)
      else if \<not> is_valid_hex_len X (ae_nonce_hex enc) 24
      then (Some ''nonce_hex must be 24-byte hex'', False)
      else if \<not> is_valid_hex X (ae_ciphertext_hex enc)
      then (Some ''ciphertext_hex must be valid hex'', False)
      else case get_p room conn_id of
        None \<Rightarrow> (None, False)
      | Some participant \<Rightarrow>
          let st = p_state participant in
          if \<not> p_hello_seen st \<or> \<not> p_anonymous_mode st
          then (Some ''send AnonHello first'', False)
          else if p_participant_handle st \<noteq> Some (ae_sender_handle enc)
          then (Some ''anonymous encrypted sender_handle does not match connection'', False)
          else if ae_epoch enc = 0
          then (Some ''epoch must be >= 1'', False)
          else (None, True))"

definition rotate_section ::
    "ext \<Rightarrow> (nat \<Rightarrow> u64) \<Rightarrow> room_state \<Rightarrow> anon_group_key_rotate_frame option \<times> room_state" where
  \<comment> \<open>the last section of \<open>handle_disconnect\<close> in an anonymous room\<close>
  "rotate_section X t room =
     (case build_anon_group_key_rotate_frame X room (t 0) of (new_key, room) \<Rightarrow> (Some new_key, room))"

end
