(* ===== verification/Hub_Send.thy ===== *)
theory Hub_Send
  imports Hub_Anon
begin

text \<open>
  How the hub reads a room into a frame and how it sends: to one connection, to everyone
  (\<open>broadcast_frame\<close>, with its count of full queues and the rate-limited notice to the
  moderators), to the moderators, and the permission snapshots.
\<close>

section \<open>Reading a room\<close>

definition participant_identity :: "room_id \<Rightarrow> conn_id \<Rightarrow> (string \<times> string option) hub_prog" where
  "participant_identity room_id conn_id = read_room room_id (''unknown'', None) (\<lambda>room.
     case get_p room conn_id of
       None \<Rightarrow> (''unknown'', None)
     | Some participant \<Rightarrow>
         (p_participant_id (p_state participant), p_display_name (p_state participant)))"

definition hello_seen :: "room_id \<Rightarrow> conn_id \<Rightarrow> bool hub_prog" where
  "hello_seen room_id conn_id = read_room room_id False (\<lambda>room.
     case get_p room conn_id of
       None \<Rightarrow> False
     | Some participant \<Rightarrow> p_hello_seen (p_state participant))"

definition room_is_anonymous :: "room_id \<Rightarrow> bool hub_prog" where
  "room_is_anonymous room_id = read_room room_id False r_anonymous_mode"

definition e2ee_gate :: "conn_id \<Rightarrow> room_state \<Rightarrow> string option" where
  "e2ee_gate conn_id room =
     (case get_p room conn_id of
        None \<Rightarrow> None
      | Some sender \<Rightarrow>
          if \<not> p_hello_seen (p_state sender) \<or> r_anonymous_mode room \<or> \<not> r_e2ee_required room
          then None
          else if hm_get_or0 (r_e2ee_epochs room) conn_id = 0
          then Some ''e2ee required: publish E2EEKeyEpoch before plaintext control''
          else None)"

definition validate_plaintext_e2ee_gate :: "room_id \<Rightarrow> conn_id \<Rightarrow> string option hub_prog" where
  "validate_plaintext_e2ee_gate room_id conn_id = read_room room_id None (e2ee_gate conn_id)"

definition anon_roster_frame_of :: "room_id \<Rightarrow> anon_roster_frame hub_prog" where
  \<comment> \<open>\<open>anon_roster_frame\<close>\<close>
  "anon_roster_frame_of room_id =
     bind_prog now_ms (\<lambda>at_ms. read_room room_id \<lparr>ar_at_ms = at_ms, ar_participants = []\<rparr>
       (anon_roster_frame_locked at_ms))"

definition roster_entries :: "room_state \<Rightarrow> roster_entry list" where
  "roster_entries room = sort_key roe_participant_id
     (map (\<lambda>st. \<lparr>roe_participant_id = p_participant_id st, roe_display_name = p_display_name st,
             roe_mic_enabled = p_mic_enabled st, roe_video_enabled = p_video_enabled st,
             roe_screen_share_enabled = p_screen_share_enabled st\<rparr>)
        (filter p_hello_seen (p_states room)))"

definition roster_frame_of :: "room_id \<Rightarrow> roster_frame hub_prog" where
  \<comment> \<open>\<open>roster_frame\<close>\<close>
  "roster_frame_of room_id =
     bind_prog now_ms (\<lambda>at_ms. read_room room_id \<lparr>ro_at_ms = at_ms, ro_participants = []\<rparr>
       (\<lambda>room. \<lparr>ro_at_ms = at_ms, ro_participants = roster_entries room\<rparr>))"

definition room_config_of :: "hub_config \<Rightarrow> u64 \<Rightarrow> room_state \<Rightarrow> room_config_frame" where
  "room_config_of cfg updated_at_ms room = \<lparr>
     rc_updated_at_ms = updated_at_ms,
     rc_host_participant_id =
       (if r_anonymous_mode room then None
        else Option.bind (r_host_conn_id room) (\<lambda>host_id.
          map_option (\<lambda>p. p_participant_id (p_state p)) (get_p room host_id))),
     rc_rate_per_minute_nano = r_rate_per_minute_nano room,
     rc_billing_grace_secs = grace_secs (billing cfg),
     rc_max_screen_shares = max (r_max_screen_shares room) 1\<rparr>"

definition room_config_frame_of :: "hub_config \<Rightarrow> room_id \<Rightarrow> room_config_frame hub_prog" where
  \<comment> \<open>\<open>room_config_frame\<close>\<close>
  "room_config_frame_of cfg room_id =
     bind_prog now_ms (\<lambda>updated_at_ms. read_room room_id
       \<lparr>rc_updated_at_ms = updated_at_ms, rc_host_participant_id = None,
        rc_rate_per_minute_nano = default_rate_per_minute_nano (billing cfg),
        rc_billing_grace_secs = grace_secs (billing cfg), rc_max_screen_shares = 1\<rparr>
       (room_config_of cfg updated_at_ms))"

definition session_policy_of :: "room_state \<Rightarrow> session_policy_frame" where
  "session_policy_of room = \<lparr>
     sp_updated_at_ms = r_policy_updated_at_ms room,
     sp_room_lock = r_room_lock room,
     sp_waiting_room_enabled = r_waiting_room_enabled room,
     sp_guest_join_allowed = r_guest_join_allowed room,
     sp_local_recording_allowed = r_local_recording_allowed room,
     sp_e2ee_required = r_e2ee_required room,
     sp_max_participants = r_max_participants room,
     sp_policy_epoch = r_policy_epoch room,
     sp_updated_by = r_policy_updated_by room,
     sp_signature_hex = r_policy_signature_hex room\<rparr>"

definition session_policy_frame_of :: "room_id \<Rightarrow> session_policy_frame hub_prog" where
  \<comment> \<open>\<open>session_policy_frame\<close>\<close>
  "session_policy_frame_of room_id = read_room room_id
     \<lparr>sp_updated_at_ms = 0, sp_room_lock = False, sp_waiting_room_enabled = False,
      sp_guest_join_allowed = True, sp_local_recording_allowed = True, sp_e2ee_required = True,
      sp_max_participants = DEFAULT_MAX_PARTICIPANTS, sp_policy_epoch = 0,
      sp_updated_by = SYSTEM_POLICY_UPDATED_BY, sp_signature_hex = []\<rparr>
     session_policy_of"

section \<open>Sending\<close>

definition encode_or_fail :: "ext \<Rightarrow> kaigi_frame \<Rightarrow> bytes hub_prog" where
  \<comment> \<open>\<open>encode_framed(frame)?\<close>\<close>
  "encode_or_fail X frame = (case encode_framed X frame of
     Inl e \<Rightarrow> Fail (Wire_Failed e) | Inr bytes \<Rightarrow> Return bytes)"

definition find_tx :: "room_id \<Rightarrow> conn_id \<Rightarrow> conn_id hub_prog" where
  \<comment> \<open>the lookup of \<open>send_frame_to\<close>, with its two errors\<close>
  "find_tx room_id conn_id = atomic_try (\<lambda>w. (case hm_get (h_rooms w) room_id of
       None \<Rightarrow> Inl Room_Missing
     | Some room \<Rightarrow> (case get_p room conn_id of
         None \<Rightarrow> Inl Participant_Missing
       | Some participant \<Rightarrow> Inr (p_tx participant)), w))"

definition send_frame_to :: "ext \<Rightarrow> room_id \<Rightarrow> conn_id \<Rightarrow> kaigi_frame \<Rightarrow> unit hub_prog" where
  "send_frame_to X room_id conn_id frame =
     bind_prog (encode_or_fail X frame) (\<lambda>bytes.
     bind_prog (find_tx room_id conn_id) (\<lambda>tx.
     send_quietly tx (Msg_Binary bytes)))"

definition send_error :: "ext \<Rightarrow> room_id \<Rightarrow> conn_id \<Rightarrow> string \<Rightarrow> unit hub_prog" where
  "send_error X room_id conn_id message =
     send_frame_to X room_id conn_id (K_Error \<lparr>err_message = message\<rparr>)"

definition moderator_conns :: "room_state \<Rightarrow> conn_id list" where
  "moderator_conns room =
     (case r_host_conn_id room of None \<Rightarrow> [] | Some host_conn_id \<Rightarrow> [host_conn_id])
       @ r_co_host_conn_ids room"

definition notify_moderators :: "ext \<Rightarrow> room_id \<Rightarrow> string \<Rightarrow> unit hub_prog" where
  "notify_moderators X room_id message =
     bind_prog (read_room room_id [] moderator_conns) (\<lambda>targets.
     for_each targets (\<lambda>conn_id.
       send_frame_to X room_id conn_id (K_Error \<lparr>err_message = message\<rparr>)))"

definition backpressure_section :: "nat \<Rightarrow> (nat \<Rightarrow> u64) \<Rightarrow> room_state \<Rightarrow> string option \<times> room_state" where
  \<comment> \<open>the accounting of \<open>broadcast_frame\<close> after \<open>dropped > 0\<close> failed sends\<close>
  "backpressure_section dropped t room =
     (let room = room\<lparr>r_backpressure_dropped_messages :=
            sat_add (r_backpressure_dropped_messages room) (of_nat dropped)\<rparr>;
          now = t 0 in
      if sat_sub now (r_backpressure_last_notice_at_ms room) \<ge> BACKPRESSURE_NOTICE_MIN_INTERVAL_MS
      then (Some (''backpressure: dropped fanout to '' @ dec dropped
              @ '' participant(s); total_dropped='' @ dec64 (r_backpressure_dropped_messages room)),
            room\<lparr>r_backpressure_last_notice_at_ms := now\<rparr>)
      else (None, room))"

definition room_txs :: "room_state \<Rightarrow> conn_id list" where
  "room_txs room = map p_tx (hm_values (r_participants room))"

definition broadcast_frame :: "ext \<Rightarrow> room_id \<Rightarrow> kaigi_frame \<Rightarrow> unit hub_prog" where
  "broadcast_frame X room_id frame =
     bind_prog (encode_or_fail X frame) (\<lambda>bytes.
     bind_prog (read_room room_id None (\<lambda>room. Some (room_txs room))) (\<lambda>senders.
     when_some senders (\<lambda>senders.
       bind_prog (count_failed senders (\<lambda>tx. try_send tx (Msg_Binary bytes))) (\<lambda>dropped.
       bind_prog (if dropped > 0 then with_room room_id None (backpressure_section dropped)
                  else Return None) (\<lambda>backpressure_notice.
       when_some backpressure_notice (notify_moderators X room_id))))))"

definition permissions_snapshots :: "u64 \<Rightarrow> room_state \<Rightarrow> (conn_id \<times> permissions_snapshot_frame) list" where
  "permissions_snapshots at_ms room =
     (if r_anonymous_mode room then []
      else List.map_filter (\<lambda>conn_id.
        map_option (\<lambda>snapshot. (conn_id, snapshot)) (permissions_snapshot_for_conn room conn_id at_ms))
        (hm_keys (r_participants room)))"

definition broadcast_permissions_snapshots :: "ext \<Rightarrow> room_id \<Rightarrow> unit hub_prog" where
  "broadcast_permissions_snapshots X room_id =
     bind_prog now_ms (\<lambda>at_ms.
     bind_prog (read_room room_id [] (permissions_snapshots at_ms)) (\<lambda>snapshots.
     for_each snapshots (\<lambda>(conn_id, snapshot).
       send_frame_to X room_id conn_id (K_PermissionsSnapshot snapshot))))"

end
