(* ===== verification/Hub_Sections.thy ===== *)
theory Hub_Sections
  imports Hub_Send
begin

text \<open>
  The critical sections of the transparent handlers of \<open>handle_frame\<close>, of
  \<open>process_moderation_frame\<close> and of \<open>handle_disconnect\<close>: each is what one lock of the room mutex
  computes, as a function of the room (and of the clock readings \<open>t 0, t 1, \<dots>\<close> made under the
  lock) that returns the values the handler goes on with and the new room. A check reads only.
\<close>

section \<open>Hello\<close>

definition enforce_join_media_defaults :: "hello_frame \<Rightarrow> bool \<times> hello_frame" where
  "enforce_join_media_defaults hello =
     (he_mic_enabled hello \<or> he_video_enabled hello \<or> he_screen_share_enabled hello,
      hello\<lparr>he_mic_enabled := False, he_video_enabled := False, he_screen_share_enabled := False\<rparr>)"

datatype hello_outcome =
    Hello_ModeConflict
  | Hello_Denied string
  | Hello_Waiting string
  | Hello_Joined participant_snapshot participant_presence_delta_frame

definition claim_free_host :: "room_state \<Rightarrow> conn_id \<Rightarrow> string \<Rightarrow> room_state" where
  \<comment> \<open>\<open>if room.host_conn_id.is_none() { \<dots> }\<close>\<close>
  "claim_free_host room conn_id participant_id =
     (if r_host_conn_id room = None
      then bump_permissions (snd (sync_active_co_host_bindings
        (room\<lparr>r_host_conn_id := Some conn_id, r_host_role_owner := Some participant_id\<rparr>)))
      else room)"

definition hello_state :: "participant_state \<Rightarrow> hello_frame \<Rightarrow> bool \<Rightarrow> participant_state" where
  \<comment> \<open>the assignments to \<open>participant.state\<close>\<close>
  "hello_state st hello route_to_waiting_room = st\<lparr>
     p_participant_id := he_participant_id hello,
     p_display_name := he_display_name hello,
     p_participant_handle := None,
     p_x25519_pubkey_hex := None,
     p_x25519_epoch := 0,
     p_anonymous_mode := False,
     p_mic_enabled := he_mic_enabled hello,
     p_video_enabled := he_video_enabled hello,
     p_screen_share_enabled := he_screen_share_enabled hello,
     p_waiting_room_pending := route_to_waiting_room,
     p_hello_seen := \<not> route_to_waiting_room,
     p_last_escrow_proof_at_ms := None,
     p_escrow_id := None\<rparr>"

definition hello_joined_room :: "room_state \<Rightarrow> conn_id \<Rightarrow> string \<Rightarrow> room_state" where
  \<comment> \<open>the branch that joins at once\<close>
  "hello_joined_room room conn_id participant_id =
     (let room = room\<lparr>r_e2ee_epochs := hm_entry_or (r_e2ee_epochs room) conn_id 0\<rparr>;
          (restored, room) = restore_reserved_roles_on_join room conn_id participant_id;
          room = (if restored then bump_permissions room else room) in
      bump_presence room)"

definition hello_section ::
    "conn_id \<Rightarrow> hello_frame \<Rightarrow> (nat \<Rightarrow> u64) \<Rightarrow> room_state \<Rightarrow> (hub_error + hello_outcome) \<times> room_state" where
  "hello_section conn_id hello t room =
     (if r_anonymous_mode room then (Inr Hello_ModeConflict, room)
      else case validate_join_allowed room conn_id (he_participant_id hello) of
        Some reason \<Rightarrow> (Inr (Hello_Denied reason), room)
      | None \<Rightarrow>
          let room = claim_free_host room conn_id (he_participant_id hello);
              already_joined = joined_in room conn_id;
              has_moderation_role =
                conn_or_participant_can_moderate room conn_id (he_participant_id hello);
              route_to_waiting_room = (\<not> already_joined \<and> r_waiting_room_enabled room
                \<and> r_host_conn_id room \<noteq> None \<and> \<not> has_moderation_role) in
          case get_p room conn_id of
            None \<Rightarrow> (Inl Participant_Missing, room)
          | Some participant \<Rightarrow>
              let joined_state = hello_state (p_state participant) hello route_to_waiting_room;
                  room = set_pstate room conn_id joined_state in
              if route_to_waiting_room
              then (Inr (Hello_Waiting (''waiting room: pending admission for participant_id=''
                     @ he_participant_id hello)), room)
              else
                let room = hello_joined_room room conn_id (he_participant_id hello);
                    snapshot = participant_snapshot_from_state joined_state (t 0) in
                (Inr (Hello_Joined snapshot (joined_delta (t 1) (r_presence_sequence room) snapshot)), room))"

section \<open>Media state\<close>

datatype state_outcome =
    State_Gone
  | State_Refused string
  | State_Updated participant_snapshot "u8 option"
  \<comment> \<open>with the maximum of screen shares that denied the request\<close>

definition active_shares_of_others :: "room_state \<Rightarrow> conn_id \<Rightarrow> nat" where
  "active_shares_of_others room conn_id =
     length (filter (\<lambda>(c, p). c \<noteq> conn_id \<and> p_screen_share_enabled (p_state p)) (r_participants room))"

definition screen_share_request ::
    "room_state \<Rightarrow> conn_id \<Rightarrow> participant_state \<Rightarrow> bool option \<Rightarrow> bool option \<times> u8 option" where
  \<comment> \<open>\<open>(apply_screen_share, deny_share_max)\<close>\<close>
  "screen_share_request room conn_id existing requested =
     (case requested of
        None \<Rightarrow> (None, None)
      | Some value \<Rightarrow>
          if value
          then
            if p_screen_share_enabled existing then (Some True, None)
            else
              let max_screen_shares = max (r_max_screen_shares room) 1 in
              if active_shares_of_others room conn_id \<ge> unat max_screen_shares
              then (None, Some max_screen_shares)
              else (Some True, None)
          else (Some False, None))"

definition participant_state_section ::
    "conn_id \<Rightarrow> participant_state_frame \<Rightarrow> u64 \<Rightarrow> room_state \<Rightarrow> state_outcome \<times> room_state" where
  "participant_state_section conn_id update at_ms room =
     (case get_p room conn_id of
        None \<Rightarrow> (State_Gone, room)
      | Some existing \<Rightarrow>
          let st = p_state existing in
          if \<not> p_hello_seen st then (State_Refused ''send Hello first'', room)
          else if r_e2ee_required room \<and> hm_get_or0 (r_e2ee_epochs room) conn_id = 0
          then (State_Refused ''e2ee required: publish E2EEKeyEpoch before plaintext control'', room)
          else
            let (apply_screen_share, deny_share_max) =
                  screen_share_request room conn_id st (psf_screen_share_enabled update);
                st = st\<lparr>
                  p_mic_enabled := (case psf_mic_enabled update of Some v \<Rightarrow> v | None \<Rightarrow> p_mic_enabled st),
                  p_video_enabled := (case psf_video_enabled update of Some v \<Rightarrow> v | None \<Rightarrow> p_video_enabled st),
                  p_screen_share_enabled :=
                    (case apply_screen_share of Some v \<Rightarrow> v | None \<Rightarrow> p_screen_share_enabled st)\<rparr> in
            (State_Updated (participant_snapshot_from_state st at_ms) deny_share_max,
             set_pstate room conn_id st))"

definition sender_mismatch :: "participant_state \<Rightarrow> string \<Rightarrow> string option" where
  \<comment> \<open>the first two checks of most handlers: \<open>hello_seen\<close> and the claimed participant id\<close>
  "sender_mismatch st participant_id =
     (if \<not> p_hello_seen st then Some ''send Hello first''
      else if p_participant_id st \<noteq> participant_id
      then Some ''participant_id must match sender participant_id''
      else None)"

definition media_capability_check ::
    "conn_id \<Rightarrow> media_capability_frame \<Rightarrow> room_state \<Rightarrow> string option option" where
  \<comment> \<open>\<open>None\<close> when the sender is gone, otherwise the error\<close>
  "media_capability_check conn_id cap room =
     (case get_p room conn_id of
        None \<Rightarrow> None
      | Some sender \<Rightarrow> Some (case sender_mismatch (p_state sender) (mc_participant_id cap) of
          Some e \<Rightarrow> Some e
        | None \<Rightarrow>
            if mc_max_video_width cap = 0 \<or> mc_max_video_height cap = 0 \<or> mc_max_video_fps cap = 0
            then Some ''media capability dimensions/fps must be > 0''
            else if mc_audio_sample_rate cap = 0 \<or> mc_audio_channels cap = 0
            then Some ''audio sample rate/channels must be > 0''
            else None))"

definition track_state :: "participant_state \<Rightarrow> media_track_state_frame \<Rightarrow> participant_state" where
  "track_state st track =
     (let st = st\<lparr>p_mic_enabled := mt_mic_enabled track\<rparr> in
      case mt_active_video_track track of
        Track_Camera \<Rightarrow>
          st\<lparr>p_video_enabled := mt_camera_enabled track, p_screen_share_enabled := False\<rparr>
      | Track_ScreenShare \<Rightarrow>
          st\<lparr>p_video_enabled := False, p_screen_share_enabled := mt_screen_share_enabled track\<rparr>)"

definition media_track_section ::
    "conn_id \<Rightarrow> media_track_state_frame \<Rightarrow> u64 \<Rightarrow> room_state
       \<Rightarrow> (string + participant_snapshot) option \<times> room_state" where
  "media_track_section conn_id track at_ms room =
     (case get_p room conn_id of
        None \<Rightarrow> (None, room)
      | Some sender \<Rightarrow>
          (case sender_mismatch (p_state sender) (mt_participant_id track) of
             Some e \<Rightarrow> (Some (Inl e), room)
           | None \<Rightarrow>
               let st = track_state (p_state sender) track in
               (Some (Inr (participant_snapshot_from_state st at_ms)), set_pstate room conn_id st)))"

definition video_segment_check ::
    "conn_id \<Rightarrow> video_segment_frame \<Rightarrow> room_state \<Rightarrow> string option option" where
  "video_segment_check conn_id segment room =
     (case get_p room conn_id of
        None \<Rightarrow> None
      | Some sender \<Rightarrow> Some (case sender_mismatch (p_state sender) (vs_participant_id segment) of
          Some e \<Rightarrow> Some e
        | None \<Rightarrow>
            if vs_frame_width segment = 0 \<or> vs_frame_height segment = 0 \<or> vs_frame_duration_ns segment = 0
            then Some ''video segment frame_width/frame_height/frame_duration_ns must be > 0''
            else if vs_payload segment = []
            then Some ''video segment payload must not be empty''
            else None))"

definition audio_packet_check ::
    "conn_id \<Rightarrow> audio_packet_frame \<Rightarrow> room_state \<Rightarrow> string option option" where
  "audio_packet_check conn_id packet room =
     (case get_p room conn_id of
        None \<Rightarrow> None
      | Some sender \<Rightarrow> Some (case sender_mismatch (p_state sender) (ap_participant_id packet) of
          Some e \<Rightarrow> Some e
        | None \<Rightarrow>
            if ap_sample_rate packet = 0 \<or> ap_channels packet = 0 \<or> ap_frame_samples packet = 0
            then Some ''audio packet sample_rate/channels/frame_samples must be > 0''
            else if ap_payload packet = []
            then Some ''audio packet payload must not be empty''
            else None))"

section \<open>Room configuration\<close>

datatype config_outcome =
    Config_Gone
  | Config_Refused string
  | Config_Done bool bool
  \<comment> \<open>\<open>rejected_zero_rate\<close> and \<open>changed\<close>\<close>

definition bill_everyone :: "room_state \<Rightarrow> u64 \<Rightarrow> room_state" where
  \<comment> \<open>the loop over \<open>room.participants.values_mut()\<close>\<close>
  "bill_everyone room now = room\<lparr>r_participants := hm_map_values
     (\<lambda>p. p\<lparr>p_state := advance_billing (p_state p) (r_rate_per_minute_nano room) now\<rparr>)
     (r_participants room)\<rparr>"

definition room_config_section ::
    "hub_config \<Rightarrow> conn_id \<Rightarrow> room_config_update_frame \<Rightarrow> u64 \<Rightarrow> room_state
       \<Rightarrow> config_outcome \<times> room_state" where
  "room_config_section cfg conn_id update now room =
     (case get_p room conn_id of
        None \<Rightarrow> (Config_Gone, room)
      | Some sender \<Rightarrow>
          if \<not> p_hello_seen (p_state sender) then (Config_Refused ''send Hello first'', room)
          else if r_host_conn_id room \<noteq> Some conn_id then (Config_Refused ''host only'', room)
          else
            let room = bill_everyone room now;
                rate = (case rcu_rate_per_minute_nano update of
                  None \<Rightarrow> r_rate_per_minute_nano room
                | Some rate \<Rightarrow> normalize_rate_for_policy rate (allow_free_calls cfg));
                shares = (case rcu_max_screen_shares update of
                  None \<Rightarrow> r_max_screen_shares room | Some m \<Rightarrow> max m 1);
                rejected_zero_rate =
                  (rcu_rate_per_minute_nano update = Some 0 \<and> \<not> allow_free_calls cfg);
                changed = (rate \<noteq> r_rate_per_minute_nano room \<or> shares \<noteq> r_max_screen_shares room) in
            (Config_Done rejected_zero_rate changed,
             room\<lparr>r_rate_per_minute_nano := rate, r_max_screen_shares := shares\<rparr>))"

section \<open>Roles and policy\<close>

definition role_delta :: "(nat \<Rightarrow> u64) \<Rightarrow> room_state \<Rightarrow> role_change_entry option
    \<Rightarrow> participant_presence_delta_frame option \<times> room_state" where
  \<comment> \<open>the presence delta of a role change\<close>
  "role_delta t room role_change =
     (case role_change of
        None \<Rightarrow> (None, room)
      | Some role_change_entry \<Rightarrow>
          let room = bump_presence room in
          (Some \<lparr>pd_at_ms = t 0, pd_sequence = r_presence_sequence room, pd_joined = [],
             pd_left = [], pd_role_changes = [role_change_entry]\<rparr>, room))"

type_synonym role_result =
  "string + (role_mutation_outcome \<times> participant_presence_delta_frame option)"

definition role_grant_section ::
    "ext \<Rightarrow> conn_id \<Rightarrow> role_grant_frame \<Rightarrow> (nat \<Rightarrow> u64) \<Rightarrow> room_state \<Rightarrow> role_result option \<times> room_state" where
  "role_grant_section X conn_id grant t room =
     (case apply_role_grant X room conn_id grant of
        (Inl err, room) \<Rightarrow> (Some (Inl err), room)
      | (Inr outcome, room) \<Rightarrow>
          (case role_delta t room (o_role_change outcome) of
             (delta, room) \<Rightarrow> (Some (Inr (outcome, delta)), room)))"

definition role_revoke_section ::
    "ext \<Rightarrow> conn_id \<Rightarrow> role_revoke_frame \<Rightarrow> (nat \<Rightarrow> u64) \<Rightarrow> room_state \<Rightarrow> role_result option \<times> room_state" where
  "role_revoke_section X conn_id revoke t room =
     (case apply_role_revoke X room conn_id revoke of
        (Inl err, room) \<Rightarrow> (Some (Inl err), room)
      | (Inr outcome, room) \<Rightarrow>
          (case role_delta t room (o_role_change outcome) of
             (delta, room) \<Rightarrow> (Some (Inr (outcome, delta)), room)))"

definition session_policy_section ::
    "ext \<Rightarrow> conn_id \<Rightarrow> session_policy_frame \<Rightarrow> (nat \<Rightarrow> u64) \<Rightarrow> room_state
       \<Rightarrow> (string + unit) option \<times> room_state" where
  "session_policy_section X conn_id update t room =
     (case apply_session_policy_update X room conn_id update of (r, room) \<Rightarrow> (Some r, room))"

section \<open>Capabilities, profiles and recording\<close>

definition first_error :: "string option \<Rightarrow> string option \<Rightarrow> string option" where
  \<comment> \<open>\<open>error.get_or_insert_with(..)\<close>: an earlier error is kept\<close>
  "first_error e e' = (case e of Some x \<Rightarrow> Some x | None \<Rightarrow> e')"

definition device_capability_check ::
    "conn_id \<Rightarrow> device_capability_frame \<Rightarrow> room_state \<Rightarrow> string option option" where
  "device_capability_check conn_id cap room =
     (case get_p room conn_id of
        None \<Rightarrow> None
      | Some sender \<Rightarrow> Some (first_error (validate_device_capability_frame cap)
          (sender_mismatch (p_state sender) (dc_participant_id cap))))"

definition device_capability_section ::
    "conn_id \<Rightarrow> device_capability_frame \<Rightarrow> (nat \<Rightarrow> u64) \<Rightarrow> room_state \<Rightarrow> unit \<times> room_state" where
  "device_capability_section conn_id cap t room =
     ((), room\<lparr>r_device_caps_by_conn := hm_insert (r_device_caps_by_conn room) conn_id cap\<rparr>)"

definition media_profile_check ::
    "conn_id \<Rightarrow> media_profile_negotiation_frame \<Rightarrow> room_state \<Rightarrow> string option option" where
  "media_profile_check conn_id profile room =
     (case get_p room conn_id of
        None \<Rightarrow> None
      | Some sender \<Rightarrow> Some (first_error (validate_media_profile_negotiation_frame profile)
          (sender_mismatch (p_state sender) (mp_participant_id profile))))"

definition recording_notice_check ::
    "conn_id \<Rightarrow> recording_notice_frame \<Rightarrow> room_state \<Rightarrow> string option option" where
  "recording_notice_check conn_id notice room =
     (case get_p room conn_id of
        None \<Rightarrow> None
      | Some sender \<Rightarrow> Some (first_error (validate_recording_notice_frame notice)
          (case sender_mismatch (p_state sender) (rn_participant_id notice) of
             Some e \<Rightarrow> Some e
           | None \<Rightarrow>
               if p_participant_id (p_state sender) \<noteq> rn_issued_by notice
               then Some ''issued_by must match sender participant_id''
               else if rn_state notice = Recording_Started \<and> \<not> r_local_recording_allowed room
               then Some ''local recording is disabled by room policy''
               else None)))"

section \<open>Key epochs\<close>

definition e2ee_epoch_section ::
    "ext \<Rightarrow> conn_id \<Rightarrow> e2ee_key_epoch_frame \<Rightarrow> (nat \<Rightarrow> u64) \<Rightarrow> room_state
       \<Rightarrow> string option option \<times> room_state" where
  "e2ee_epoch_section X conn_id key_epoch t room =
     (case get_p room conn_id of
        None \<Rightarrow> (None, room)
      | Some sender \<Rightarrow>
          let error = first_error (validate_e2ee_key_epoch_frame X key_epoch)
                (sender_mismatch (p_state sender) (ke_participant_id key_epoch));
              current_epoch = hm_get_or0 (r_e2ee_epochs room) conn_id;
              error = first_error error
                (if ke_epoch key_epoch \<le> current_epoch
                 then Some (''e2ee key epoch must increase: current='' @ dec64 current_epoch
                   @ '' got='' @ dec64 (ke_epoch key_epoch))
                 else None) in
          case error of
            Some e \<Rightarrow> (Some (Some e), room)
          | None \<Rightarrow>
              (case enforce_signed_action_clock room ''e2ee_key_epoch'' (ke_participant_id key_epoch)
                      ''sent_at_ms'' (ke_sent_at_ms key_epoch) of
                 (Inl clock_err, room) \<Rightarrow> (Some (Some clock_err), room)
               | (Inr _, room) \<Rightarrow> (Some None,
                   room\<lparr>r_e2ee_epochs := hm_insert (r_e2ee_epochs room) conn_id (ke_epoch key_epoch)\<rparr>)))"

definition key_ack_error :: "conn_id \<Rightarrow> key_rotation_ack_frame \<Rightarrow> room_state \<Rightarrow> participant_state \<Rightarrow> string option" where
  \<comment> \<open>the checks of \<open>KeyRotationAck\<close> before the clock\<close>
  "key_ack_error conn_id ack room st =
     (case sender_mismatch st (ka_participant_id ack) of
        Some e \<Rightarrow> Some e
      | None \<Rightarrow>
          if ka_ack_epoch ack = 0 then Some ''ack_epoch must be >= 1''
          else
            let current_epoch = hm_get_or0 (r_e2ee_epochs room) conn_id in
            if current_epoch = 0 \<or> ka_ack_epoch ack > current_epoch
            then Some (''ack_epoch exceeds sender key epoch: sender_epoch='' @ dec64 current_epoch
                   @ '' ack_epoch='' @ dec64 (ka_ack_epoch ack))
            else
              let last_acked_epoch = hm_get_or0 (r_key_rotation_ack_epochs room) conn_id in
              if ka_ack_epoch ack \<le> last_acked_epoch
              then Some (''ack_epoch must increase: last='' @ dec64 last_acked_epoch
                     @ '' got='' @ dec64 (ka_ack_epoch ack) @ '' (stale/replay rejected)'')
              else None)"

definition key_ack_section ::
    "conn_id \<Rightarrow> key_rotation_ack_frame \<Rightarrow> (nat \<Rightarrow> u64) \<Rightarrow> room_state
       \<Rightarrow> string option option \<times> room_state" where
  "key_ack_section conn_id ack t room =
     (case get_p room conn_id of
        None \<Rightarrow> (None, room)
      | Some sender \<Rightarrow>
          (case key_ack_error conn_id ack room (p_state sender) of
             Some e \<Rightarrow> (Some (Some e), room)
           | None \<Rightarrow>
               (case enforce_signed_action_clock room ''key_rotation_ack'' (ka_participant_id ack)
                       ''received_at_ms'' (ka_received_at_ms ack) of
                  (Inl clock_err, room) \<Rightarrow> (Some (Some clock_err), room)
                | (Inr _, room) \<Rightarrow> (Some None,
                    room\<lparr>r_key_rotation_ack_epochs :=
                      hm_insert (r_key_rotation_ack_epochs room) conn_id (ka_ack_epoch ack)\<rparr>))))"

section \<open>Payment\<close>

datatype payment_outcome =
    Pay_Gone
  | Pay_NeedHello
  | Pay_BadHash
  | Pay_Accepted u64 u64
  \<comment> \<open>the totals paid and billed\<close>

definition payment_section ::
    "ext \<Rightarrow> hub_config \<Rightarrow> conn_id \<Rightarrow> payment_frame \<Rightarrow> u64 \<Rightarrow> room_state \<Rightarrow> payment_outcome \<times> room_state" where
  "payment_section X cfg conn_id payment now room =
     (case get_p room conn_id of
        None \<Rightarrow> (Pay_Gone, room)
      | Some participant \<Rightarrow>
          let st = p_state participant in
          if \<not> p_hello_seen st
          then (Pay_NeedHello, set_pstate room conn_id (st\<lparr>p_last_billed_at_ms := now\<rparr>))
          else
            let rate = r_rate_per_minute_nano room;
                st = advance_billing st rate now in
            if require_payment_tx_hash cfg \<and> rate > 0
               \<and> \<not> (case pay_tx_hash_hex payment of None \<Rightarrow> False | Some h \<Rightarrow> is_valid_tx_hash_hex X h)
            then (Pay_BadHash, set_pstate room conn_id st)
            else
              let st = st\<lparr>p_paid_nano_xor := sat_add (p_paid_nano_xor st) (pay_amount_nano_xor payment),
                    p_last_payment_at_ms := Some now\<rparr> in
              (Pay_Accepted (p_paid_nano_xor st) (p_billed_nano_xor st), set_pstate room conn_id st))"

section \<open>Moderation\<close>

definition moderation_signed_check ::
    "ext \<Rightarrow> conn_id \<Rightarrow> moderation_signed_frame \<Rightarrow> room_state \<Rightarrow> string option option" where
  "moderation_signed_check X conn_id signed_frame room =
     (case get_p room conn_id of
        None \<Rightarrow> None
      | Some sender \<Rightarrow> Some
          (if \<not> p_hello_seen (p_state sender) then Some ''send Hello first''
           else if \<not> can_moderate_conn room conn_id then Some ''host/co-host only''
           else if p_participant_id (p_state sender) \<noteq> ms_issued_by signed_frame
           then Some ''issued_by must match sender participant_id''
           else if \<not> is_valid_hex_len X (ms_signature_hex signed_frame) 32
           then Some ''signature_hex must be 32-byte hex''
           else if \<not> moderation_signed_signature_is_valid X signed_frame
           then Some ''signature_hex failed moderation_signed verification''
           else None))"

definition include_sender_in_all_target :: "moderation_action \<Rightarrow> bool" where
  "include_sender_in_all_target action = (action = Action_Kick)"

text \<open>The vectors a moderation section fills.\<close>

record moderation_effects =
  me_snapshots :: "participant_snapshot list"
  me_close_senders :: "conn_id list"
  me_admitted :: "waiting_room_admit_outcome list"
  me_denied :: "(conn_id \<times> string) list"
  me_error :: "string option"

definition no_effects :: moderation_effects where
  "no_effects = \<lparr>me_snapshots = [], me_close_senders = [], me_admitted = [], me_denied = [], me_error = None\<rparr>"

definition disable_target ::
    "(participant_state \<Rightarrow> participant_state) \<Rightarrow> u64 \<Rightarrow> room_state \<Rightarrow> conn_id \<Rightarrow> moderation_effects
       \<Rightarrow> moderation_effects \<times> room_state" where
  \<comment> \<open>the three \<open>Disable\<close> arms, with the assignment they make\<close>
  "disable_target f now room target_conn_id eff =
     (case get_p room target_conn_id of
        None \<Rightarrow> (eff, room)
      | Some target \<Rightarrow>
          let st = f (p_state target) in
          (eff\<lparr>me_snapshots := me_snapshots eff @ [participant_snapshot_from_state st now]\<rparr>,
           set_pstate room target_conn_id st))"

definition moderate_target ::
    "moderation_action \<Rightarrow> u64 \<Rightarrow> u64 \<Rightarrow> room_state \<Rightarrow> conn_id \<times> conn_id \<Rightarrow> moderation_effects
       \<Rightarrow> moderation_effects \<times> room_state" where
  \<comment> \<open>one turn of the loop over \<open>targets\<close>, on \<open>(target_conn_id, target_tx)\<close>\<close>
  "moderate_target action now at_ms room target eff =
     (case action of
        Action_Kick \<Rightarrow> (eff\<lparr>me_close_senders := me_close_senders eff @ [snd target]\<rparr>, room)
      | Action_DisableMic \<Rightarrow> disable_target (\<lambda>st. st\<lparr>p_mic_enabled := False\<rparr>) now room (fst target) eff
      | Action_DisableVideo \<Rightarrow> disable_target (\<lambda>st. st\<lparr>p_video_enabled := False\<rparr>) now room (fst target) eff
      | Action_DisableScreenShare \<Rightarrow>
          disable_target (\<lambda>st. st\<lparr>p_screen_share_enabled := False\<rparr>) now room (fst target) eff
      | Action_AdmitFromWaiting \<Rightarrow>
          (case admit_waiting_participant at_ms room (fst target) of
             (Inr outcome, room) \<Rightarrow> (eff\<lparr>me_admitted := me_admitted eff @ [outcome]\<rparr>, room)
           | (Inl err, room) \<Rightarrow> (eff\<lparr>me_error := first_error (me_error eff) (Some err)\<rparr>, room))
      | Action_DenyFromWaiting \<Rightarrow>
          (case deny_waiting_participant room (fst target) of
             (Inr denied_id, room) \<Rightarrow> (eff\<lparr>me_denied := me_denied eff @ [(snd target, denied_id)]\<rparr>, room)
           | (Inl err, room) \<Rightarrow> (eff\<lparr>me_error := first_error (me_error eff) (Some err)\<rparr>, room)))"

fun moderate_targets ::
    "moderation_action \<Rightarrow> u64 \<Rightarrow> u64 \<Rightarrow> room_state \<Rightarrow> (conn_id \<times> conn_id) list \<Rightarrow> moderation_effects
       \<Rightarrow> moderation_effects \<times> room_state" where
  "moderate_targets action now at_ms room [] eff = (eff, room)"
| "moderate_targets action now at_ms room (target # targets) eff =
     (case moderate_target action now at_ms room target eff of
        (eff, room) \<Rightarrow> moderate_targets action now at_ms room targets eff)"

definition moderation_targets ::
    "conn_id \<Rightarrow> moderation_frame \<Rightarrow> room_state \<Rightarrow> string + (conn_id \<times> conn_id) list" where
  \<comment> \<open>\<open>match &target\<close>\<close>
  "moderation_targets conn_id moderation room =
     (case mo_target moderation of
        Target_All \<Rightarrow>
          if mo_action moderation = Action_AdmitFromWaiting \<or> mo_action moderation = Action_DenyFromWaiting
          then Inl ''waiting room admit/deny requires /admit <participant_id> or /deny <participant_id>''
          else Inr (map (\<lambda>(c, p). (c, p_tx p)) (filter
            (\<lambda>(c, p). \<not> (c = conn_id \<and> \<not> include_sender_in_all_target (mo_action moderation)))
            (r_participants room)))
      | Target_Participant target_id \<Rightarrow>
          (case find (\<lambda>(_, p). p_participant_id (p_state p) = target_id) (r_participants room) of
             None \<Rightarrow> Inl (''unknown participant_id: '' @ target_id)
           | Some (c, p) \<Rightarrow> Inr [(c, p_tx p)]))"

definition moderation_section ::
    "conn_id \<Rightarrow> moderation_frame \<Rightarrow> u64 \<Rightarrow> (nat \<Rightarrow> u64) \<Rightarrow> room_state
       \<Rightarrow> (string + moderation_effects) option \<times> room_state" where
  \<comment> \<open>\<open>None\<close> when the room or the sender is gone\<close>
  "moderation_section conn_id moderation now t room =
     (case get_p room conn_id of
        None \<Rightarrow> (None, room)
      | Some sender \<Rightarrow>
          if \<not> p_hello_seen (p_state sender) then (Some (Inl ''send Hello first''), room)
          else if \<not> can_moderate_conn room conn_id then (Some (Inl ''host/co-host only''), room)
          else case validate_moderation_sender_clock room conn_id moderation of
            (Inl err, room) \<Rightarrow> (Some (Inl err), room)
          | (Inr _, room) \<Rightarrow>
              (case moderation_targets conn_id moderation room of
                 Inl err \<Rightarrow> (Some (Inl err), room)
               | Inr targets \<Rightarrow>
                   (case moderate_targets (mo_action moderation) now (t 0) room targets no_effects of
                      (eff, room) \<Rightarrow> (Some (Inr eff), room))))"

section \<open>Leaving\<close>

record disconnect_outcome =
  do_left_participant_id :: "string option"
  do_left_participant_handle :: "string option"
  do_remove_room :: bool
  do_host_changed :: bool
  do_anonymous_mode :: bool
  do_presence_delta :: "participant_presence_delta_frame option"

definition forget_conn :: "room_state \<Rightarrow> conn_id \<Rightarrow> room_state" where
  "forget_conn room conn_id = room\<lparr>
     r_participants := hm_remove (r_participants room) conn_id,
     r_device_caps_by_conn := hm_remove (r_device_caps_by_conn room) conn_id,
     r_co_host_conn_ids := snd (hs_remove (r_co_host_conn_ids room) conn_id),
     r_e2ee_epochs := hm_remove (r_e2ee_epochs room) conn_id,
     r_key_rotation_ack_epochs := hm_remove (r_key_rotation_ack_epochs room) conn_id\<rparr>"

definition reassign_host :: "room_state \<Rightarrow> conn_id \<Rightarrow> room_state" where
  \<comment> \<open>\<open>if !room.anonymous_mode && room.host_conn_id == Some(conn_id)\<close>\<close>
  "reassign_host room conn_id =
     (if \<not> r_anonymous_mode room \<and> r_host_conn_id room = Some conn_id
      then bump_permissions (snd (sync_active_co_host_bindings
        (room\<lparr>r_host_conn_id := min_key (hm_keys (r_participants room))\<rparr>)))
      else room)"

definition disconnect_section ::
    "conn_id \<Rightarrow> (nat \<Rightarrow> u64) \<Rightarrow> room_state \<Rightarrow> disconnect_outcome \<times> room_state" where
  \<comment> \<open>the room is then removed when \<open>do_remove_room\<close> holds\<close>
  "disconnect_section conn_id t room =
     (let left = map_option p_state (get_p room conn_id);
          left_id = map_option p_participant_id left;
          left_handle = Option.bind left p_participant_handle;
          host_left = (\<not> r_anonymous_mode room \<and> r_host_conn_id room = Some conn_id);
          room = forget_conn room conn_id in
      if r_participants room = []
      then (\<lparr>do_left_participant_id = left_id, do_left_participant_handle = left_handle,
              do_remove_room = True, do_host_changed = False,
              do_anonymous_mode = r_anonymous_mode room, do_presence_delta = None\<rparr>, room)
      else
        let room = reassign_host room conn_id;
            announce = (if r_anonymous_mode room then None else left_id);
            room = (if announce = None then room else bump_presence room);
            delta = map_option (\<lambda>participant_id. \<lparr>pd_at_ms = t 0,
              pd_sequence = r_presence_sequence room, pd_joined = [],
              pd_left = [\<lparr>lf_at_ms = t 1, lf_participant_id = participant_id\<rparr>],
              pd_role_changes = []\<rparr>) announce in
        (\<lparr>do_left_participant_id = left_id, do_left_participant_handle = left_handle,
           do_remove_room = False, do_host_changed = host_left,
           do_anonymous_mode = r_anonymous_mode room, do_presence_delta = delta\<rparr>, room))"

end
