(* ===== verification/Hub_Handlers.thy ===== *)
theory Hub_Handlers
  imports Hub_Sections
begin

text \<open>
  \<open>handle_frame\<close>: one definition per arm of its \<open>match\<close>, each the sequence of sections and sends of
  the arm, and the dispatch. A handler is a program of atomic steps: between two of them the tasks
  of the other connections run.
\<close>

section \<open>Common beginnings\<close>

definition reject_anonymous ::
    "ext \<Rightarrow> room_id \<Rightarrow> conn_id \<Rightarrow> string \<Rightarrow> unit hub_prog \<Rightarrow> unit hub_prog" where
  \<comment> \<open>\<open>if room_is_anonymous(..).await { send_error(..).await?; return Ok(()); }\<close>\<close>
  "reject_anonymous X room_id conn_id message rest =
     bind_prog (room_is_anonymous room_id) (\<lambda>anonymous.
       if anonymous then send_error X room_id conn_id message else rest)"

definition pass_e2ee_gate :: "ext \<Rightarrow> room_id \<Rightarrow> conn_id \<Rightarrow> unit hub_prog \<Rightarrow> unit hub_prog" where
  \<comment> \<open>\<open>if let Some(message) = validate_plaintext_e2ee_gate(..).await { \<dots> return Ok(()); }\<close>\<close>
  "pass_e2ee_gate X room_id conn_id rest =
     bind_prog (validate_plaintext_e2ee_gate room_id conn_id) (\<lambda>gate.
       case gate of Some message \<Rightarrow> send_error X room_id conn_id message | None \<Rightarrow> rest)"

definition after_check ::
    "ext \<Rightarrow> room_id \<Rightarrow> conn_id \<Rightarrow> string option option \<Rightarrow> unit hub_prog \<Rightarrow> unit hub_prog" where
  \<comment> \<open>after a check: nothing when the sender is gone, the error, or the rest of the arm\<close>
  "after_check X room_id conn_id checked rest =
     (case checked of
        None \<Rightarrow> Return ()
      | Some (Some message) \<Rightarrow> send_error X room_id conn_id message
      | Some None \<Rightarrow> rest)"

section \<open>Anonymous mode\<close>

definition handle_anon_hello ::
    "ext \<Rightarrow> hub_config \<Rightarrow> room_id \<Rightarrow> conn_id \<Rightarrow> anon_hello_frame \<Rightarrow> unit hub_prog" where
  "handle_anon_hello X cfg room_id conn_id hello =
     (if ah_protocol_version hello \<noteq> PROTOCOL_VERSION
      then send_error X room_id conn_id
        (''unsupported protocol_version '' @ dec (unat (ah_protocol_version hello)))
      else if \<not> is_valid_hex_len X (ah_x25519_pubkey_hex hello) 32
      then send_error X room_id conn_id ''x25519_pubkey_hex must be 32-byte hex''
      else
        bind_prog (with_room room_id Anon_Gone (anon_hello_section X cfg conn_id hello)) (\<lambda>outcome.
        case outcome of
          Anon_Gone \<Rightarrow> Return ()
        | Anon_Rejected err \<Rightarrow> send_error X room_id conn_id err
        | Anon_Admitted roster update new_key \<Rightarrow>
            seq_prog (send_frame_to X room_id conn_id (K_AnonRoster roster))
            (seq_prog (broadcast_frame X room_id (K_GroupKeyUpdate update))
            (broadcast_frame X room_id (K_AnonGroupKeyRotate new_key)))))"

definition handle_group_key_update ::
    "ext \<Rightarrow> room_id \<Rightarrow> conn_id \<Rightarrow> group_key_update_frame \<Rightarrow> unit hub_prog" where
  "handle_group_key_update X room_id conn_id update =
     bind_prog (with_room room_id (None, False) (group_key_section X conn_id update))
     (\<lambda>(send_error_msg, should_broadcast).
       case send_error_msg of
         Some msg \<Rightarrow> send_error X room_id conn_id msg
       | None \<Rightarrow> when_true should_broadcast (broadcast_frame X room_id (K_GroupKeyUpdate update)))"

definition handle_encrypted_control ::
    "ext \<Rightarrow> room_id \<Rightarrow> conn_id \<Rightarrow> encrypted_control_frame \<Rightarrow> unit hub_prog" where
  "handle_encrypted_control X room_id conn_id enc =
     bind_prog (read_room room_id (None, False) (encrypted_control_check X conn_id enc))
     (\<lambda>(send_error_msg, should_broadcast).
       case send_error_msg of
         Some msg \<Rightarrow> send_error X room_id conn_id msg
       | None \<Rightarrow> when_true should_broadcast (broadcast_frame X room_id (K_EncryptedControl enc)))"

definition handle_escrow_proof ::
    "ext \<Rightarrow> room_id \<Rightarrow> conn_id \<Rightarrow> escrow_proof_frame \<Rightarrow> unit hub_prog" where
  "handle_escrow_proof X room_id conn_id proof_frame =
     bind_prog (with_room room_id None (escrow_section X conn_id proof_frame)) (\<lambda>outcome.
     when_some outcome (\<lambda>(accepted, reason).
       bind_prog now_ms (\<lambda>received_at_ms.
       send_frame_to X room_id conn_id (K_EscrowAck
         \<lparr>ea_received_at_ms = received_at_ms, ea_escrow_id = ep_escrow_id proof_frame,
          ea_accepted = accepted, ea_reason = reason\<rparr>))))"

definition handle_anon_encrypted_payload ::
    "ext \<Rightarrow> room_id \<Rightarrow> conn_id \<Rightarrow> anon_encrypted_payload_frame \<Rightarrow> unit hub_prog" where
  "handle_anon_encrypted_payload X room_id conn_id enc =
     bind_prog (read_room room_id (None, False) (anon_payload_check X conn_id enc))
     (\<lambda>(send_error_msg, should_broadcast).
       case send_error_msg of
         Some msg \<Rightarrow> send_error X room_id conn_id msg
       | None \<Rightarrow> when_true should_broadcast (broadcast_frame X room_id (K_AnonEncryptedPayload enc)))"

section \<open>Hello\<close>

definition welcome_joined ::
    "ext \<Rightarrow> hub_config \<Rightarrow> room_id \<Rightarrow> conn_id \<Rightarrow> bool \<Rightarrow> participant_snapshot
       \<Rightarrow> participant_presence_delta_frame \<Rightarrow> unit hub_prog" where
  \<comment> \<open>the sends that follow a join\<close>
  "welcome_joined X cfg room_id conn_id forced_off snapshot delta =
     seq_prog (when_true forced_off (send_error X room_id conn_id
        ''mic/video/screen share must start disabled; forced off''))
     (bind_prog (roster_frame_of room_id) (\<lambda>roster.
     seq_prog (send_frame_to X room_id conn_id (K_Roster roster))
     (seq_prog (broadcast_frame X room_id (K_Event (Ev_Joined snapshot)))
     (seq_prog (broadcast_frame X room_id (K_ParticipantPresenceDelta delta))
     (bind_prog (room_config_frame_of cfg room_id) (\<lambda>config.
     seq_prog (broadcast_frame X room_id (K_RoomConfig config))
     (bind_prog (session_policy_frame_of room_id) (\<lambda>policy.
     seq_prog (send_frame_to X room_id conn_id (K_SessionPolicy policy))
     (broadcast_permissions_snapshots X room_id)))))))))"

definition handle_hello ::
    "ext \<Rightarrow> hub_config \<Rightarrow> room_id \<Rightarrow> conn_id \<Rightarrow> hello_frame \<Rightarrow> unit hub_prog" where
  "handle_hello X cfg room_id conn_id hello =
     (if he_protocol_version hello \<noteq> PROTOCOL_VERSION
      then send_error X room_id conn_id
        (''unsupported protocol_version '' @ dec (unat (he_protocol_version hello)))
      else
        let (forced_off, hello) = enforce_join_media_defaults hello in
        bind_prog (with_room room_id (Inl Room_Missing) (hello_section conn_id hello)) (\<lambda>result.
        case result of
          Inl err \<Rightarrow> Fail err
        | Inr Hello_ModeConflict \<Rightarrow>
            send_error X room_id conn_id ''room is already in anonymous mode''
        | Inr (Hello_Denied reason) \<Rightarrow> send_error X room_id conn_id reason
        | Inr (Hello_Waiting waiting_notice) \<Rightarrow>
            seq_prog (notify_moderators X room_id waiting_notice)
              (send_error X room_id conn_id waiting_notice)
        | Inr (Hello_Joined snapshot delta) \<Rightarrow>
            welcome_joined X cfg room_id conn_id forced_off snapshot delta))"

section \<open>Chat and media\<close>

definition handle_chat :: "ext \<Rightarrow> room_id \<Rightarrow> conn_id \<Rightarrow> chat_frame \<Rightarrow> unit hub_prog" where
  "handle_chat X room_id conn_id chat =
     reject_anonymous X room_id conn_id ''anonymous mode requires EncryptedControl frames''
     (bind_prog (hello_seen room_id conn_id) (\<lambda>seen.
       if \<not> seen then send_error X room_id conn_id ''send Hello first''
       else pass_e2ee_gate X room_id conn_id
         (bind_prog now_ms (\<lambda>at_ms.
          bind_prog (participant_identity room_id conn_id) (\<lambda>(from_id, from_name).
          broadcast_frame X room_id (K_Chat
            \<lparr>ch_sent_at_ms = at_ms, ch_from_participant_id = from_id,
             ch_from_display_name = from_name, ch_text = ch_text chat\<rparr>))))))"

definition handle_participant_state ::
    "ext \<Rightarrow> room_id \<Rightarrow> conn_id \<Rightarrow> participant_state_frame \<Rightarrow> unit hub_prog" where
  "handle_participant_state X room_id conn_id update =
     reject_anonymous X room_id conn_id ''anonymous mode requires EncryptedControl frames''
     (bind_prog now_ms (\<lambda>at_ms.
      bind_prog (with_room room_id State_Gone (\<lambda>t. participant_state_section conn_id update at_ms)) (\<lambda>outcome.
      case outcome of
        State_Gone \<Rightarrow> Return ()
      | State_Refused message \<Rightarrow> send_error X room_id conn_id message
      | State_Updated snapshot deny_share_max \<Rightarrow>
          seq_prog (when_some deny_share_max (\<lambda>max_screen_shares. send_error X room_id conn_id
              (''screen share denied: max_screen_shares='' @ dec (unat max_screen_shares)
                @ '' already in use'')))
            (broadcast_frame X room_id (K_Event (Ev_StateUpdated snapshot))))))"

definition handle_media_capability ::
    "ext \<Rightarrow> room_id \<Rightarrow> conn_id \<Rightarrow> media_capability_frame \<Rightarrow> unit hub_prog" where
  "handle_media_capability X room_id conn_id cap =
     reject_anonymous X room_id conn_id ''anonymous mode rejects plaintext media capabilities''
     (bind_prog (read_room room_id None (media_capability_check conn_id cap)) (\<lambda>checked.
      after_check X room_id conn_id checked (broadcast_frame X room_id (K_MediaCapability cap))))"

definition handle_media_track_state ::
    "ext \<Rightarrow> room_id \<Rightarrow> conn_id \<Rightarrow> media_track_state_frame \<Rightarrow> unit hub_prog" where
  "handle_media_track_state X room_id conn_id track =
     reject_anonymous X room_id conn_id ''anonymous mode rejects plaintext media track states''
     (pass_e2ee_gate X room_id conn_id
     (bind_prog now_ms (\<lambda>at_ms.
      bind_prog (with_room room_id None (\<lambda>t. media_track_section conn_id track at_ms)) (\<lambda>outcome.
      case outcome of
        None \<Rightarrow> Return ()
      | Some (Inl message) \<Rightarrow> send_error X room_id conn_id message
      | Some (Inr snapshot) \<Rightarrow>
          seq_prog (broadcast_frame X room_id (K_MediaTrackState track))
            (broadcast_frame X room_id (K_Event (Ev_StateUpdated snapshot)))))))"

definition handle_video_segment ::
    "ext \<Rightarrow> room_id \<Rightarrow> conn_id \<Rightarrow> video_segment_frame \<Rightarrow> unit hub_prog" where
  "handle_video_segment X room_id conn_id segment =
     reject_anonymous X room_id conn_id ''anonymous mode requires encrypted media payloads''
     (pass_e2ee_gate X room_id conn_id
     (bind_prog (read_room room_id None (video_segment_check conn_id segment)) (\<lambda>checked.
      after_check X room_id conn_id checked (broadcast_frame X room_id (K_VideoSegment segment)))))"

definition handle_audio_packet ::
    "ext \<Rightarrow> room_id \<Rightarrow> conn_id \<Rightarrow> audio_packet_frame \<Rightarrow> unit hub_prog" where
  "handle_audio_packet X room_id conn_id packet =
     reject_anonymous X room_id conn_id ''anonymous mode requires encrypted media payloads''
     (pass_e2ee_gate X room_id conn_id
     (bind_prog (read_room room_id None (audio_packet_check conn_id packet)) (\<lambda>checked.
      after_check X room_id conn_id checked (broadcast_frame X room_id (K_AudioPacket packet)))))"

section \<open>Room configuration, roles and policy\<close>

definition handle_room_config_update ::
    "ext \<Rightarrow> hub_config \<Rightarrow> room_id \<Rightarrow> conn_id \<Rightarrow> room_config_update_frame \<Rightarrow> unit hub_prog" where
  "handle_room_config_update X cfg room_id conn_id update =
     reject_anonymous X room_id conn_id ''anonymous mode rejects plaintext room config updates''
     (bind_prog now_ms (\<lambda>now.
      bind_prog (with_room room_id Config_Gone (\<lambda>t. room_config_section cfg conn_id update now)) (\<lambda>outcome.
      case outcome of
        Config_Gone \<Rightarrow> Return ()
      | Config_Refused message \<Rightarrow> send_error X room_id conn_id message
      | Config_Done rejected_zero_rate changed \<Rightarrow>
          seq_prog (when_true rejected_zero_rate (send_error X room_id conn_id
            ''rate_per_minute_nano=0 rejected: paid calls are required unless hub started with --allow-free-calls''))
          (when_true changed (bind_prog (room_config_frame_of cfg room_id) (\<lambda>config.
            broadcast_frame X room_id (K_RoomConfig config)))))))"

definition announce_role_change ::
    "ext \<Rightarrow> hub_config \<Rightarrow> room_id \<Rightarrow> conn_id \<Rightarrow> kaigi_frame \<Rightarrow> role_result option \<Rightarrow> unit hub_prog" where
  \<comment> \<open>the common end of the \<open>RoleGrant\<close> and \<open>RoleRevoke\<close> arms\<close>
  "announce_role_change X cfg room_id conn_id audit result =
     (case result of
        None \<Rightarrow> Return ()
      | Some (Inl message) \<Rightarrow> send_error X room_id conn_id message
      | Some (Inr (outcome, presence_delta)) \<Rightarrow>
          seq_prog (broadcast_frame X room_id audit)
          (seq_prog (when_true (o_host_changed outcome)
             (bind_prog (room_config_frame_of cfg room_id) (\<lambda>config.
                broadcast_frame X room_id (K_RoomConfig config))))
          (seq_prog (when_true (o_permissions_changed outcome) (broadcast_permissions_snapshots X room_id))
          (when_some presence_delta (\<lambda>delta.
             broadcast_frame X room_id (K_ParticipantPresenceDelta delta))))))"

definition handle_role_grant ::
    "ext \<Rightarrow> hub_config \<Rightarrow> room_id \<Rightarrow> conn_id \<Rightarrow> role_grant_frame \<Rightarrow> unit hub_prog" where
  "handle_role_grant X cfg room_id conn_id grant =
     reject_anonymous X room_id conn_id ''anonymous mode rejects plaintext role grants''
     (bind_prog (with_room room_id None (role_grant_section X conn_id grant))
        (announce_role_change X cfg room_id conn_id (K_RoleGrant grant)))"

definition handle_role_revoke ::
    "ext \<Rightarrow> hub_config \<Rightarrow> room_id \<Rightarrow> conn_id \<Rightarrow> role_revoke_frame \<Rightarrow> unit hub_prog" where
  "handle_role_revoke X cfg room_id conn_id revoke =
     reject_anonymous X room_id conn_id ''anonymous mode rejects plaintext role revokes''
     (bind_prog (with_room room_id None (role_revoke_section X conn_id revoke))
        (announce_role_change X cfg room_id conn_id (K_RoleRevoke revoke)))"

definition handle_session_policy ::
    "ext \<Rightarrow> room_id \<Rightarrow> conn_id \<Rightarrow> session_policy_frame \<Rightarrow> unit hub_prog" where
  "handle_session_policy X room_id conn_id update =
     reject_anonymous X room_id conn_id ''anonymous mode rejects plaintext policy updates''
     (bind_prog (with_room room_id None (session_policy_section X conn_id update)) (\<lambda>result.
      case result of
        None \<Rightarrow> Return ()
      | Some (Inl message) \<Rightarrow> send_error X room_id conn_id message
      | Some (Inr _) \<Rightarrow>
          bind_prog (session_policy_frame_of room_id) (\<lambda>current_policy.
          seq_prog (broadcast_frame X room_id (K_SessionPolicy current_policy))
            (broadcast_permissions_snapshots X room_id))))"

section \<open>Capabilities, profiles, recording and key epochs\<close>

definition handle_device_capability ::
    "ext \<Rightarrow> room_id \<Rightarrow> conn_id \<Rightarrow> device_capability_frame \<Rightarrow> unit hub_prog" where
  "handle_device_capability X room_id conn_id cap =
     reject_anonymous X room_id conn_id ''anonymous mode rejects plaintext device capabilities''
     (bind_prog (read_room room_id None (device_capability_check conn_id cap)) (\<lambda>checked.
      after_check X room_id conn_id checked
        (seq_prog (with_room room_id () (device_capability_section conn_id cap))
          (broadcast_frame X room_id (K_DeviceCapability cap)))))"

definition handle_media_profile_negotiation ::
    "ext \<Rightarrow> room_id \<Rightarrow> conn_id \<Rightarrow> media_profile_negotiation_frame \<Rightarrow> unit hub_prog" where
  "handle_media_profile_negotiation X room_id conn_id profile =
     reject_anonymous X room_id conn_id ''anonymous mode rejects plaintext media profile negotiation''
     (bind_prog (read_room room_id None (media_profile_check conn_id profile)) (\<lambda>checked.
      after_check X room_id conn_id checked
        (bind_prog (read_room room_id profile
           (\<lambda>room. resolve_media_profile_negotiation room conn_id profile)) (\<lambda>resolved_profile.
         broadcast_frame X room_id (K_MediaProfileNegotiation resolved_profile)))))"

definition handle_recording_notice ::
    "ext \<Rightarrow> room_id \<Rightarrow> conn_id \<Rightarrow> recording_notice_frame \<Rightarrow> unit hub_prog" where
  "handle_recording_notice X room_id conn_id notice =
     reject_anonymous X room_id conn_id ''anonymous mode rejects plaintext recording notices''
     (bind_prog (read_room room_id None (recording_notice_check conn_id notice)) (\<lambda>checked.
      after_check X room_id conn_id checked (broadcast_frame X room_id (K_RecordingNotice notice))))"

definition handle_e2ee_key_epoch ::
    "ext \<Rightarrow> room_id \<Rightarrow> conn_id \<Rightarrow> e2ee_key_epoch_frame \<Rightarrow> unit hub_prog" where
  "handle_e2ee_key_epoch X room_id conn_id key_epoch =
     reject_anonymous X room_id conn_id ''anonymous mode rejects plaintext e2ee key epochs''
     (bind_prog (with_room room_id None (e2ee_epoch_section X conn_id key_epoch)) (\<lambda>checked.
      after_check X room_id conn_id checked (broadcast_frame X room_id (K_E2EEKeyEpoch key_epoch))))"

definition handle_key_rotation_ack ::
    "ext \<Rightarrow> room_id \<Rightarrow> conn_id \<Rightarrow> key_rotation_ack_frame \<Rightarrow> unit hub_prog" where
  "handle_key_rotation_ack X room_id conn_id ack =
     reject_anonymous X room_id conn_id ''anonymous mode rejects plaintext key rotation acks''
     (bind_prog (with_room room_id None (key_ack_section conn_id ack)) (\<lambda>checked.
      after_check X room_id conn_id checked (broadcast_frame X room_id (K_KeyRotationAck ack))))"

section \<open>Moderation\<close>

definition announce_admitted ::
    "ext \<Rightarrow> hub_config \<Rightarrow> room_id \<Rightarrow> waiting_room_admit_outcome list \<Rightarrow> unit hub_prog" where
  \<comment> \<open>the three loops over \<open>admitted_outcomes\<close>\<close>
  "announce_admitted X cfg room_id admitted =
     seq_prog (for_each admitted (\<lambda>outcome.
        broadcast_frame X room_id (K_Event (Ev_Joined (wo_snapshot outcome)))))
     (seq_prog (for_each admitted (\<lambda>outcome.
        broadcast_frame X room_id (K_ParticipantPresenceDelta (wo_presence_delta outcome))))
     (for_each admitted (\<lambda>outcome.
        bind_prog (roster_frame_of room_id) (\<lambda>roster.
        seq_prog (send_frame_to X room_id (wo_conn_id outcome) (K_Roster roster))
        (bind_prog (room_config_frame_of cfg room_id) (\<lambda>config.
        seq_prog (send_frame_to X room_id (wo_conn_id outcome) (K_RoomConfig config))
        (bind_prog (session_policy_frame_of room_id) (\<lambda>policy.
        send_frame_to X room_id (wo_conn_id outcome) (K_SessionPolicy policy)))))))))"

definition send_last_words :: "ext \<Rightarrow> conn_id \<Rightarrow> string \<Rightarrow> unit hub_prog" where
  \<comment> \<open>an error frame and a close message, straight to the connection's queue\<close>
  "send_last_words X tx message =
     seq_prog (case encode_framed X (K_Error \<lparr>err_message = message\<rparr>) of
        Inl _ \<Rightarrow> Return () | Inr bytes \<Rightarrow> send_quietly tx (Msg_Binary bytes))
     (send_quietly tx (Msg_Close None))"

definition kick_reason :: "moderation_target \<Rightarrow> string" where
  "kick_reason target = (case target of
     Target_All \<Rightarrow> ''meeting ended by host''
   | Target_Participant p \<Rightarrow> ''removed by host: '' @ p)"

definition close_kicked :: "ext \<Rightarrow> moderation_target \<Rightarrow> conn_id list \<Rightarrow> unit hub_prog" where
  \<comment> \<open>nothing is sent when the reason cannot be encoded\<close>
  "close_kicked X target close_senders =
     (case encode_framed X (K_Error \<lparr>err_message = kick_reason target\<rparr>) of
        Inl _ \<Rightarrow> Return ()
      | Inr bytes \<Rightarrow> for_each close_senders (\<lambda>tx.
          seq_prog (send_quietly tx (Msg_Binary bytes)) (send_quietly tx (Msg_Close None))))"

definition moderation_aftermath ::
    "ext \<Rightarrow> hub_config \<Rightarrow> room_id \<Rightarrow> conn_id \<Rightarrow> moderation_frame \<Rightarrow> kaigi_frame \<Rightarrow> moderation_effects
       \<Rightarrow> unit hub_prog" where
  "moderation_aftermath X cfg room_id conn_id moderation audit_frame eff =
     (case me_error eff of
        Some err \<Rightarrow> send_error X room_id conn_id err
      | None \<Rightarrow>
          seq_prog (broadcast_frame X room_id audit_frame)
          (seq_prog (for_each (me_snapshots eff) (\<lambda>snap.
             broadcast_frame X room_id (K_Event (Ev_StateUpdated snap))))
          (seq_prog (announce_admitted X cfg room_id (me_admitted eff))
          (seq_prog (when_true (mo_action moderation = Action_AdmitFromWaiting)
             (broadcast_permissions_snapshots X room_id))
          (seq_prog (when_true (mo_action moderation = Action_Kick)
             (close_kicked X (mo_target moderation) (me_close_senders eff)))
          (when_true (mo_action moderation = Action_DenyFromWaiting)
             (for_each (me_denied eff) (\<lambda>(tx, denied_id).
                send_last_words X tx (''waiting room admission denied: '' @ denied_id)))))))))"

definition process_moderation_frame ::
    "ext \<Rightarrow> hub_config \<Rightarrow> room_id \<Rightarrow> conn_id \<Rightarrow> moderation_frame \<Rightarrow> kaigi_frame \<Rightarrow> unit hub_prog" where
  "process_moderation_frame X cfg room_id conn_id moderation audit_frame =
     reject_anonymous X room_id conn_id ''anonymous mode requires encrypted moderation payloads''
     (bind_prog now_ms (\<lambda>now.
      bind_prog (with_room room_id None (moderation_section conn_id moderation now)) (\<lambda>outcome.
      case outcome of
        None \<Rightarrow> Return ()
      | Some (Inl message) \<Rightarrow> send_error X room_id conn_id message
      | Some (Inr eff) \<Rightarrow> moderation_aftermath X cfg room_id conn_id moderation audit_frame eff)))"

definition handle_moderation_signed ::
    "ext \<Rightarrow> hub_config \<Rightarrow> room_id \<Rightarrow> conn_id \<Rightarrow> moderation_signed_frame \<Rightarrow> unit hub_prog" where
  "handle_moderation_signed X cfg room_id conn_id signed_frame =
     reject_anonymous X room_id conn_id ''anonymous mode requires encrypted moderation payloads''
     (bind_prog (read_room room_id None (moderation_signed_check X conn_id signed_frame)) (\<lambda>checked.
      after_check X room_id conn_id checked
        (process_moderation_frame X cfg room_id conn_id
          \<lparr>mo_sent_at_ms = ms_sent_at_ms signed_frame, mo_target = ms_target signed_frame,
           mo_action = ms_action signed_frame\<rparr>
          (K_ModerationSigned signed_frame))))"

section \<open>Payment\<close>

definition handle_payment ::
    "ext \<Rightarrow> hub_config \<Rightarrow> room_id \<Rightarrow> conn_id \<Rightarrow> payment_frame \<Rightarrow> unit hub_prog" where
  "handle_payment X cfg room_id conn_id payment =
     reject_anonymous X room_id conn_id ''anonymous mode uses escrow proofs instead of payment frames''
     (bind_prog now_ms (\<lambda>now.
      bind_prog (with_room room_id Pay_Gone (\<lambda>t. payment_section X cfg conn_id payment now)) (\<lambda>outcome.
      case outcome of
        Pay_Gone \<Rightarrow> Return ()
      | Pay_NeedHello \<Rightarrow> send_error X room_id conn_id ''send Hello first''
      | Pay_BadHash \<Rightarrow> send_error X room_id conn_id
          ''payment tx_hash_hex is required and must be 32-byte hex when room rate is non-zero''
      | Pay_Accepted paid_nano_xor billed_nano_xor \<Rightarrow>
          send_frame_to X room_id conn_id (K_PaymentAck
            \<lparr>pa_received_at_ms = now, pa_amount_nano_xor = pay_amount_nano_xor payment,
             pa_total_paid_nano_xor = paid_nano_xor, pa_total_billed_nano_xor = billed_nano_xor\<rparr>))))"

section \<open>The dispatch\<close>

definition handle_frame ::
    "ext \<Rightarrow> hub_config \<Rightarrow> room_id \<Rightarrow> conn_id \<Rightarrow> kaigi_frame \<Rightarrow> unit hub_prog" where
  "handle_frame X cfg room_id conn_id frame =
     (case frame of
        K_AnonHello hello \<Rightarrow> handle_anon_hello X cfg room_id conn_id hello
      | K_GroupKeyUpdate update \<Rightarrow> handle_group_key_update X room_id conn_id update
      | K_EncryptedControl enc \<Rightarrow> handle_encrypted_control X room_id conn_id enc
      | K_EscrowProof proof_frame \<Rightarrow> handle_escrow_proof X room_id conn_id proof_frame
      | K_EscrowAck _ \<Rightarrow> Return ()
      | K_AnonRoster _ \<Rightarrow> Return ()
      | K_Hello hello \<Rightarrow> handle_hello X cfg room_id conn_id hello
      | K_Chat chat \<Rightarrow> handle_chat X room_id conn_id chat
      | K_ParticipantState update \<Rightarrow> handle_participant_state X room_id conn_id update
      | K_MediaCapability cap \<Rightarrow> handle_media_capability X room_id conn_id cap
      | K_MediaTrackState track \<Rightarrow> handle_media_track_state X room_id conn_id track
      | K_VideoSegment segment \<Rightarrow> handle_video_segment X room_id conn_id segment
      | K_AudioPacket packet \<Rightarrow> handle_audio_packet X room_id conn_id packet
      | K_AnonGroupKeyRotate _ \<Rightarrow>
          send_error X room_id conn_id ''anonymous group-key rotation frames are hub-managed''
      | K_AnonEncryptedPayload enc \<Rightarrow> handle_anon_encrypted_payload X room_id conn_id enc
      | K_RoomConfigUpdate update \<Rightarrow> handle_room_config_update X cfg room_id conn_id update
      | K_RoleGrant grant \<Rightarrow> handle_role_grant X cfg room_id conn_id grant
      | K_RoleRevoke revoke \<Rightarrow> handle_role_revoke X cfg room_id conn_id revoke
      | K_SessionPolicy update \<Rightarrow> handle_session_policy X room_id conn_id update
      | K_PermissionsSnapshot _ \<Rightarrow>
          send_error X room_id conn_id ''permissions snapshots are hub-managed''
      | K_DeviceCapability cap \<Rightarrow> handle_device_capability X room_id conn_id cap
      | K_MediaProfileNegotiation profile \<Rightarrow> handle_media_profile_negotiation X room_id conn_id profile
      | K_RecordingNotice notice \<Rightarrow> handle_recording_notice X room_id conn_id notice
      | K_E2EEKeyEpoch key_epoch \<Rightarrow> handle_e2ee_key_epoch X room_id conn_id key_epoch
      | K_KeyRotationAck ack \<Rightarrow> handle_key_rotation_ack X room_id conn_id ack
      | K_Moderation moderation \<Rightarrow>
          process_moderation_frame X cfg room_id conn_id moderation (K_Moderation moderation)
      | K_ModerationSigned signed_frame \<Rightarrow> handle_moderation_signed X cfg room_id conn_id signed_frame
      | K_RoomConfig _ \<Rightarrow> Return ()
      | K_ParticipantPresenceDelta _ \<Rightarrow>
          send_error X room_id conn_id ''presence deltas are hub-managed''
      | K_Payment payment \<Rightarrow> handle_payment X cfg room_id conn_id payment
      | K_PaymentAck _ \<Rightarrow> Return ()
      | K_Ping ping \<Rightarrow> send_frame_to X room_id conn_id (K_Pong \<lparr>pong_nonce = ping_nonce ping\<rparr>)
      | K_Pong _ \<Rightarrow> Return ()
      | K_Roster _ \<Rightarrow> Return ()
      | K_Event _ \<Rightarrow> Return ()
      | K_Error _ \<Rightarrow> Return ())"

end
