(* ===== verification/Hub_Conn.thy ===== *)
theory Hub_Conn
  imports Hub_Handlers
begin

text \<open>
  The life of a connection: the handshake and the join of \<open>handle_conn\<close>, its receive loop over the
  messages of the socket, and \<open>handle_disconnect\<close>. The messages of the socket are an argument, a
  list that ends when the stream ends; the decoder of the handshake message is an argument too.
  The wait for the writer task between the loop and \<open>handle_disconnect\<close> is a matter of
  scheduling, and a program may be scheduled after any delay.
\<close>

datatype ws_event = Ws_Message ws_message | Ws_Error

section \<open>Opening\<close>

definition fetch_conn_id :: "conn_id hub_prog" where
  \<comment> \<open>\<open>state.next_conn_id.fetch_add(1, Relaxed)\<close>, which wraps; and the connection's queue\<close>
  "fetch_conn_id = atomic (\<lambda>w. (h_next_conn_id w, w\<lparr>h_next_conn_id := h_next_conn_id w + 1,
     h_chans := hm_insert (h_chans w) (h_next_conn_id w) \<lparr>q_msgs = [], q_open = True\<rparr>\<rparr>))"

definition join_section :: "conn_id \<Rightarrow> u64 \<Rightarrow> room_state \<Rightarrow> room_state" where
  "join_section conn_id connected_at_ms room = room\<lparr>r_participants :=
     hm_insert (r_participants room) conn_id (new_participant conn_id connected_at_ms)\<rparr>"

definition join_room :: "hub_config \<Rightarrow> room_id \<Rightarrow> conn_id \<Rightarrow> u64 \<Rightarrow> unit hub_prog" where
  \<comment> \<open>\<open>rooms.entry(room_id).or_insert_with(..)\<close> and the insertion of the participant\<close>
  "join_room cfg room_id conn_id connected_at_ms = atomic (\<lambda>w.
     let room = (case hm_get (h_rooms w) room_id of
           Some room \<Rightarrow> room
         | None \<Rightarrow> new_room (default_rate_per_minute_nano (billing cfg))) in
     ((), w\<lparr>h_rooms := hm_insert (h_rooms w) room_id (join_section conn_id connected_at_ms room)\<rparr>))"

section \<open>Leaving\<close>

definition leave_room :: "room_id \<Rightarrow> conn_id \<Rightarrow> disconnect_outcome option hub_prog" where
  \<comment> \<open>the first lock of \<open>handle_disconnect\<close>\<close>
  "leave_room room_id conn_id = atomic (\<lambda>w. case hm_get (h_rooms w) room_id of
     None \<Rightarrow> (None, w)
   | Some room \<Rightarrow> (case disconnect_section conn_id (reading w) room of
       (outcome, room) \<Rightarrow> (Some outcome, w\<lparr>
          h_rooms := (if do_remove_room outcome then hm_remove (h_rooms w) room_id
                      else hm_insert (h_rooms w) room_id room),
          h_ticks := h_ticks w + 4\<rparr>)))"

definition announce_anon_left ::
    "ext \<Rightarrow> room_id \<Rightarrow> string option \<Rightarrow> unit hub_prog" where
  \<comment> \<open>the anonymous branch\<close>
  "announce_anon_left X room_id left_participant_handle =
     bind_prog (anon_roster_frame_of room_id) (\<lambda>roster.
     seq_prog (broadcast_frame X room_id (K_AnonRoster roster))
     (seq_prog (when_some left_participant_handle (\<lambda>handle.
        bind_prog now_ms (\<lambda>sent_at_ms.
        broadcast_frame X room_id (K_GroupKeyUpdate \<lparr>gk_sent_at_ms = sent_at_ms,
          gk_participant_handle = handle, gk_x25519_pubkey_hex = [], gk_epoch = 0\<rparr>))))
     (bind_prog (with_room room_id None (rotate_section X)) (\<lambda>new_key.
     when_some new_key (\<lambda>key. broadcast_frame X room_id (K_AnonGroupKeyRotate key))))))"

definition announce_left ::
    "ext \<Rightarrow> room_id \<Rightarrow> string \<Rightarrow> participant_presence_delta_frame option \<Rightarrow> unit hub_prog" where
  \<comment> \<open>the transparent branch\<close>
  "announce_left X room_id participant_id presence_delta =
     bind_prog now_ms (\<lambda>at_ms.
     seq_prog (broadcast_frame X room_id
        (K_Event (Ev_Left \<lparr>lf_at_ms = at_ms, lf_participant_id = participant_id\<rparr>)))
     (when_some presence_delta (\<lambda>delta.
        broadcast_frame X room_id (K_ParticipantPresenceDelta delta))))"

definition handle_disconnect :: "ext \<Rightarrow> hub_config \<Rightarrow> room_id \<Rightarrow> conn_id \<Rightarrow> unit hub_prog" where
  "handle_disconnect X cfg room_id conn_id =
     bind_prog (leave_room room_id conn_id) (\<lambda>outcome.
     when_some outcome (\<lambda>oc.
       if do_remove_room oc then Return ()
       else if do_anonymous_mode oc
       then announce_anon_left X room_id (do_left_participant_handle oc)
       else seq_prog (when_some (do_left_participant_id oc) (\<lambda>participant_id.
              announce_left X room_id participant_id (do_presence_delta oc)))
            (when_true (do_host_changed oc)
              (bind_prog (room_config_frame_of cfg room_id) (\<lambda>config.
               seq_prog (broadcast_frame X room_id (K_RoomConfig config))
                 (broadcast_permissions_snapshots X room_id))))))"

section \<open>The receive loop\<close>

function pump_frames ::
    "ext \<Rightarrow> hub_config \<Rightarrow> room_id \<Rightarrow> conn_id \<Rightarrow> frame_decoder \<Rightarrow> frame_decoder hub_prog" where
  \<comment> \<open>\<open>while let Some(frame) = decoder.try_next()? { handle_frame(..).await?; }\<close>\<close>
  "pump_frames X cfg room_id conn_id d =
     (case try_next X d of
        (Inl e, d') \<Rightarrow> Fail (Wire_Failed e)
      | (Inr None, d') \<Rightarrow> Return d'
      | (Inr (Some frame), d') \<Rightarrow>
          seq_prog (handle_frame X cfg room_id conn_id frame) (pump_frames X cfg room_id conn_id d'))"
  by pat_completeness auto

termination
  by (relation "measure (\<lambda>(X, cfg, room_id, conn_id, d). buffer_len d)") (auto simp: buffer_len_def dest!: try_next_shrinks [OF sym])

declare pump_frames.simps [simp del]

fun receive_loop ::
    "ext \<Rightarrow> hub_config \<Rightarrow> room_id \<Rightarrow> conn_id \<Rightarrow> frame_decoder \<Rightarrow> ws_event list \<Rightarrow> unit hub_prog" where
  "receive_loop X cfg room_id conn_id d [] = Return ()"
| "receive_loop X cfg room_id conn_id d (Ws_Error # events) = Fail Ws_Recv_Failed"
| "receive_loop X cfg room_id conn_id d (Ws_Message msg # events) =
     (case msg of
        Msg_Binary chunk \<Rightarrow>
          bind_prog (pump_frames X cfg room_id conn_id (decoder_push d chunk))
            (\<lambda>d. receive_loop X cfg room_id conn_id d events)
      | Msg_Ping payload \<Rightarrow>
          seq_prog (send_quietly conn_id (Msg_Pong payload))
            (receive_loop X cfg room_id conn_id d events)
      | Msg_Close _ \<Rightarrow> Return ()
      | _ \<Rightarrow> receive_loop X cfg room_id conn_id d events)"

section \<open>The connection\<close>

definition serve_conn ::
    "ext \<Rightarrow> hub_config \<Rightarrow> room_id \<Rightarrow> ws_event list \<Rightarrow> unit hub_prog" where
  \<comment> \<open>\<open>handle_conn\<close> after the handshake: an error in the loop skips \<open>handle_disconnect\<close>\<close>
  "serve_conn X cfg room_id events =
     bind_prog fetch_conn_id (\<lambda>conn_id.
     bind_prog now_ms (\<lambda>connected_at_ms.
     seq_prog (join_room cfg room_id conn_id connected_at_ms)
     (seq_prog (receive_loop X cfg room_id conn_id decoder_new events)
     (handle_disconnect X cfg room_id conn_id))))"

definition handle_conn ::
    "ext \<Rightarrow> hub_config \<Rightarrow> (bytes \<Rightarrow> room_id option) \<Rightarrow> ws_event list \<Rightarrow> unit hub_prog" where
  \<comment> \<open>\<open>decode_open\<close> is the room of the \<open>KaigiStreamOpen\<close> that the first message encodes\<close>
  "handle_conn X cfg decode_open events =
     (case events of
        [] \<Rightarrow> Fail Handshake_Closed
      | Ws_Error # _ \<Rightarrow> Fail Ws_Recv_Failed
      | Ws_Message (Msg_Binary bytes) # events \<Rightarrow>
          (case decode_open bytes of
             None \<Rightarrow> Fail Handshake_Undecodable
           | Some room_id \<Rightarrow> serve_conn X cfg room_id events)
      | Ws_Message _ # _ \<Rightarrow> Fail Handshake_Not_Binary)"

end
