(* ===== verification/Hub_Machine.thy ===== *)
theory Hub_Machine
  imports Hub_Conn
begin

text \<open>
  The hub as a state machine: \<open>room_step\<close> has one rule per critical section that writes a room,
  \<open>rooms_step\<close> lifts it to the map of rooms. Every atomic step of every task of the hub is a
  \<open>rooms_step\<close> (\<open>guar_task\<close>), whatever the other tasks do in between. The locales \<open>room_contract\<close>
  (an invariant of rooms) and \<open>room_history\<close> (a relation between a room's earlier and later states)
  say what a statement about rooms must satisfy to hold in every interleaving.
\<close>

section \<open>Steps\<close>

inductive room_step :: "ext \<Rightarrow> hub_config \<Rightarrow> room_state \<Rightarrow> room_state \<Rightarrow> bool" for X cfg where
  step_join: "room_step X cfg room (join_section c at_ms room)"
| step_leave: "room_step X cfg room (snd (disconnect_section c t room))"
| step_anon_hello: "is_valid_hex_len X (ah_x25519_pubkey_hex ah) 32 \<Longrightarrow>
     room_step X cfg room (snd (anon_hello_section X cfg c ah t room))"
| step_group_key: "room_step X cfg room (snd (group_key_section X c gk t room))"
| step_escrow: "room_step X cfg room (snd (escrow_section X c ep t room))"
| step_rotate: "room_step X cfg room (snd (rotate_section X t room))"
| step_hello: "room_step X cfg room (snd (hello_section c (snd (enforce_join_media_defaults he)) t room))"
| step_participant_state: "room_step X cfg room (snd (participant_state_section c psf at_ms room))"
| step_media_track: "room_step X cfg room (snd (media_track_section c mt at_ms room))"
| step_room_config: "room_step X cfg room (snd (room_config_section cfg c rcu at_ms room))"
| step_role_grant: "room_step X cfg room (snd (role_grant_section X c rg t room))"
| step_role_revoke: "room_step X cfg room (snd (role_revoke_section X c rr t room))"
| step_session_policy: "room_step X cfg room (snd (session_policy_section X c sp t room))"
| step_device: "room_step X cfg room (snd (device_capability_section c dc t room))"
| step_e2ee: "room_step X cfg room (snd (e2ee_epoch_section X c ke t room))"
| step_key_ack: "room_step X cfg room (snd (key_ack_section c ka t room))"
| step_payment: "room_step X cfg room (snd (payment_section X cfg c pay at_ms room))"
| step_moderation: "room_step X cfg room (snd (moderation_section c mo at_ms t room))"
| step_billing: "room_step X cfg room (snd (billing_section (billing cfg) c at_ms room))"
| step_backpressure: "room_step X cfg room (snd (backpressure_section n t room))"

inductive rooms_step ::
    "ext \<Rightarrow> hub_config \<Rightarrow> (room_id, room_state) hmap \<Rightarrow> (room_id, room_state) hmap \<Rightarrow> bool"
  for X cfg where
  rooms_same: "rooms_step X cfg rooms rooms"
| rooms_write: "hm_get rooms rid = Some room \<Longrightarrow> room_step X cfg room room' \<Longrightarrow>
     rooms_step X cfg rooms (hm_insert rooms rid room')"
| rooms_open: "hm_get rooms rid = None \<Longrightarrow> rooms_step X cfg rooms
     (hm_insert rooms rid (join_section c at_ms (new_room (default_rate_per_minute_nano (billing cfg)))))"
| rooms_close: "rooms_step X cfg rooms (hm_remove rooms rid)"

definition hub_step :: "ext \<Rightarrow> hub_config \<Rightarrow> hub \<Rightarrow> hub \<Rightarrow> bool" where
  "hub_step X cfg w w' = rooms_step X cfg (h_rooms w) (h_rooms w')"

section \<open>Every task keeps to the steps\<close>

lemma guar_now_ms [guar_intros]: "guar (hub_step X cfg) now_ms"
  unfolding now_ms_def by (rule guar_atomic) (simp add: hub_step_def rooms_same)

lemma guar_read_room [guar_intros]: "guar (hub_step X cfg) (read_room rid absent f)"
  unfolding read_room_def by (rule guar_atomic) (simp add: hub_step_def rooms_same)

lemma guar_try_send [guar_intros]: "guar (hub_step X cfg) (try_send c m)"
  unfolding try_send_def
  by (rule guar_atomic) (auto simp: hub_step_def intro: rooms_same split: option.split)

lemma guar_writer_step [guar_intros]: "guar (hub_step X cfg) (writer_step c sent)"
  unfolding writer_step_def
  by (rule guar_atomic) (auto simp: hub_step_def intro: rooms_same split: option.split)

lemma guar_send_quietly [guar_intros]: "guar (hub_step X cfg) (send_quietly c m)"
  unfolding send_quietly_def by (intro guar_intros)

lemma guar_find_tx [guar_intros]: "guar (hub_step X cfg) (find_tx rid c)"
  unfolding find_tx_def by (rule guar_atomic_try) (simp add: hub_step_def rooms_same)

lemma guar_with_room:
  assumes "\<And>t room. room_step X cfg room (snd (f t room))"
  shows "guar (hub_step X cfg) (with_room rid absent f)"
  unfolding with_room_def
proof (rule guar_atomic)
  fix w
  show "hub_step X cfg w (snd (case hm_get (h_rooms w) rid of None \<Rightarrow> (absent, w)
     | Some room \<Rightarrow> (case f (reading w) room of (r, room') \<Rightarrow>
         (r, w\<lparr>h_rooms := hm_insert (h_rooms w) rid room', h_ticks := h_ticks w + 4\<rparr>))))"
    using assms [of _ "reading w"]
    by (auto simp: hub_step_def case_prod_beta intro: rooms_same rooms_write split: option.split)
qed

lemmas guar_sections [guar_intros] =
  guar_with_room [OF step_group_key]
  guar_with_room [OF step_escrow] guar_with_room [OF step_rotate]
  guar_with_room [OF step_participant_state] guar_with_room [OF step_media_track]
  guar_with_room [OF step_room_config] guar_with_room [OF step_role_grant]
  guar_with_room [OF step_role_revoke] guar_with_room [OF step_session_policy]
  guar_with_room [OF step_device] guar_with_room [OF step_e2ee]
  guar_with_room [OF step_key_ack] guar_with_room [OF step_payment]
  guar_with_room [OF step_moderation] guar_with_room [OF step_billing]
  guar_with_room [OF step_backpressure] guar_with_room [OF step_hello]

lemma guar_fetch_conn_id [guar_intros]: "guar (hub_step X cfg) fetch_conn_id"
  unfolding fetch_conn_id_def by (rule guar_atomic) (simp add: hub_step_def rooms_same)

lemma guar_join_room [guar_intros]: "guar (hub_step X cfg) (join_room cfg rid c at_ms)"
  unfolding join_room_def
  by (rule guar_atomic) (auto simp: hub_step_def Let_def split: option.split
      intro: rooms_open rooms_write step_join)

lemma guar_leave_room [guar_intros]: "guar (hub_step X cfg) (leave_room rid c)"
  unfolding leave_room_def
  by (rule guar_atomic) (auto simp: hub_step_def case_prod_beta split: option.split
      intro: rooms_same rooms_close rooms_write step_leave)

lemma guar_sending [guar_intros]:
  "guar (hub_step X cfg) (encode_or_fail X frame)"
  "guar (hub_step X cfg) (send_frame_to X rid c frame)"
  "guar (hub_step X cfg) (send_error X rid c m)"
  "guar (hub_step X cfg) (notify_moderators X rid m)"
  "guar (hub_step X cfg) (broadcast_frame X rid frame)"
  "guar (hub_step X cfg) (broadcast_permissions_snapshots X rid)"
  unfolding encode_or_fail_def send_frame_to_def send_error_def notify_moderators_def
    broadcast_frame_def broadcast_permissions_snapshots_def
  by (intro guar_intros)+

lemmas frame_reader_defs =
  participant_identity_def hello_seen_def room_is_anonymous_def validate_plaintext_e2ee_gate_def
  anon_roster_frame_of_def roster_frame_of_def room_config_frame_of_def session_policy_frame_of_def

lemma guar_readers [guar_intros]:
  "guar (hub_step X cfg) (participant_identity rid c)"
  "guar (hub_step X cfg) (hello_seen rid c)"
  "guar (hub_step X cfg) (room_is_anonymous rid)"
  "guar (hub_step X cfg) (validate_plaintext_e2ee_gate rid c)"
  "guar (hub_step X cfg) (anon_roster_frame_of rid)"
  "guar (hub_step X cfg) (roster_frame_of rid)"
  "guar (hub_step X cfg) (room_config_frame_of cfg rid)"
  "guar (hub_step X cfg) (session_policy_frame_of rid)"
  unfolding frame_reader_defs by (intro guar_intros)+

lemma guar_beginnings [guar_intros]:
  "guar (hub_step X cfg) rest \<Longrightarrow> guar (hub_step X cfg) (reject_anonymous X rid c m rest)"
  "guar (hub_step X cfg) rest \<Longrightarrow> guar (hub_step X cfg) (pass_e2ee_gate X rid c rest)"
  "guar (hub_step X cfg) rest \<Longrightarrow> guar (hub_step X cfg) (after_check X rid c checked rest)"
  unfolding reject_anonymous_def pass_e2ee_gate_def after_check_def by (intro guar_intros; assumption)+

lemma guar_case_anon [guar_intros]:
  "guar G p1 \<Longrightarrow> (\<And>e. guar G (p2 e)) \<Longrightarrow> (\<And>r u k. guar G (p3 r u k)) \<Longrightarrow>
     guar G (case outcome of Anon_Gone \<Rightarrow> p1 | Anon_Rejected e \<Rightarrow> p2 e | Anon_Admitted r u k \<Rightarrow> p3 r u k)"
  by (simp split: anon_hello_outcome.split)

text \<open>The key of an \<open>AnonHello\<close> is checked by the handler, before the section.\<close>

lemma guar_handle_anon_hello [guar_intros]: "guar (hub_step X cfg) (handle_anon_hello X cfg rid c ah)"
proof (cases "is_valid_hex_len X (ah_x25519_pubkey_hex ah) 32")
  case True
  show ?thesis
    unfolding handle_anon_hello_def
    by (intro guar_intros guar_with_room [OF step_anon_hello [OF True]])
next
  case False
  then show ?thesis
    unfolding handle_anon_hello_def by (simp add: guar_sending)
qed

lemma guar_handlers_anonymous [guar_intros]:
  "guar (hub_step X cfg) (handle_group_key_update X rid c gk)"
  "guar (hub_step X cfg) (handle_encrypted_control X rid c ec)"
  "guar (hub_step X cfg) (handle_escrow_proof X rid c ep)"
  "guar (hub_step X cfg) (handle_anon_encrypted_payload X rid c ae)"
  unfolding handle_group_key_update_def handle_encrypted_control_def
    handle_escrow_proof_def handle_anon_encrypted_payload_def
  by (intro guar_intros)+

lemma guar_case_hello [guar_intros]:
  "guar G p1 \<Longrightarrow> (\<And>r. guar G (p2 r)) \<Longrightarrow> (\<And>r. guar G (p3 r)) \<Longrightarrow> (\<And>s d. guar G (p4 s d)) \<Longrightarrow>
     guar G (case outcome of Hello_ModeConflict \<Rightarrow> p1 | Hello_Denied r \<Rightarrow> p2 r
       | Hello_Waiting r \<Rightarrow> p3 r | Hello_Joined s d \<Rightarrow> p4 s d)"
  by (simp split: hello_outcome.split)

lemma guar_case_state [guar_intros]:
  "guar G p1 \<Longrightarrow> (\<And>r. guar G (p2 r)) \<Longrightarrow> (\<And>s d. guar G (p3 s d)) \<Longrightarrow>
     guar G (case outcome of State_Gone \<Rightarrow> p1 | State_Refused r \<Rightarrow> p2 r | State_Updated s d \<Rightarrow> p3 s d)"
  by (simp split: state_outcome.split)

lemma guar_case_config [guar_intros]:
  "guar G p1 \<Longrightarrow> (\<And>r. guar G (p2 r)) \<Longrightarrow> (\<And>z b. guar G (p3 z b)) \<Longrightarrow>
     guar G (case outcome of Config_Gone \<Rightarrow> p1 | Config_Refused r \<Rightarrow> p2 r | Config_Done z b \<Rightarrow> p3 z b)"
  by (simp split: config_outcome.split)

lemma guar_case_payment [guar_intros]:
  "guar G p1 \<Longrightarrow> guar G p2 \<Longrightarrow> guar G p3 \<Longrightarrow> (\<And>a b. guar G (p4 a b)) \<Longrightarrow>
     guar G (case outcome of Pay_Gone \<Rightarrow> p1 | Pay_NeedHello \<Rightarrow> p2 | Pay_BadHash \<Rightarrow> p3
       | Pay_Accepted a b \<Rightarrow> p4 a b)"
  by (simp split: payment_outcome.split)

lemma guar_case_tick [guar_intros]:
  "guar G p1 \<Longrightarrow> guar G p2 \<Longrightarrow> (\<And>m. guar G (p3 m)) \<Longrightarrow>
     guar G (case outcome of Tick_Stop \<Rightarrow> p1 | Tick_Continue \<Rightarrow> p2 | Tick_Disconnect m \<Rightarrow> p3 m)"
  by (simp split: tick_outcome.split)

lemma guar_welcome_joined [guar_intros]:
  "guar (hub_step X cfg) (welcome_joined X cfg rid c forced snapshot delta)"
  unfolding welcome_joined_def by (intro guar_intros)

lemma guar_handle_hello [guar_intros]: "guar (hub_step X cfg) (handle_hello X cfg rid c he)"
  unfolding handle_hello_def Let_def case_prod_beta by (intro guar_intros)

lemma guar_handlers_media [guar_intros]:
  "guar (hub_step X cfg) (handle_chat X rid c chat)"
  "guar (hub_step X cfg) (handle_participant_state X rid c psf)"
  "guar (hub_step X cfg) (handle_media_capability X rid c mc)"
  "guar (hub_step X cfg) (handle_media_track_state X rid c mt)"
  "guar (hub_step X cfg) (handle_video_segment X rid c vs)"
  "guar (hub_step X cfg) (handle_audio_packet X rid c ap)"
  unfolding handle_chat_def handle_participant_state_def handle_media_capability_def
    handle_media_track_state_def handle_video_segment_def handle_audio_packet_def
  by (intro guar_intros)+

lemma guar_handlers_room [guar_intros]:
  "guar (hub_step X cfg) (handle_room_config_update X cfg rid c rcu)"
  "guar (hub_step X cfg) (announce_role_change X cfg rid c audit result)"
  "guar (hub_step X cfg) (handle_role_grant X cfg rid c rg)"
  "guar (hub_step X cfg) (handle_role_revoke X cfg rid c rr)"
  "guar (hub_step X cfg) (handle_session_policy X rid c sp)"
  unfolding handle_room_config_update_def announce_role_change_def handle_role_grant_def
    handle_role_revoke_def handle_session_policy_def
  by (intro guar_intros)+

lemma guar_handlers_keys [guar_intros]:
  "guar (hub_step X cfg) (handle_device_capability X rid c dc)"
  "guar (hub_step X cfg) (handle_media_profile_negotiation X rid c mp)"
  "guar (hub_step X cfg) (handle_recording_notice X rid c rn)"
  "guar (hub_step X cfg) (handle_e2ee_key_epoch X rid c ke)"
  "guar (hub_step X cfg) (handle_key_rotation_ack X rid c ka)"
  "guar (hub_step X cfg) (handle_payment X cfg rid c pay)"
  unfolding handle_device_capability_def handle_media_profile_negotiation_def
    handle_recording_notice_def handle_e2ee_key_epoch_def handle_key_rotation_ack_def handle_payment_def
  by (intro guar_intros)+

lemma guar_moderation [guar_intros]:
  "guar (hub_step X cfg) (announce_admitted X cfg rid admitted)"
  "guar (hub_step X cfg) (send_last_words X c m)"
  "guar (hub_step X cfg) (close_kicked X target cs)"
  "guar (hub_step X cfg) (moderation_aftermath X cfg rid c mo audit eff)"
  "guar (hub_step X cfg) (process_moderation_frame X cfg rid c mo audit)"
  "guar (hub_step X cfg) (handle_moderation_signed X cfg rid c ms)"
  unfolding announce_admitted_def send_last_words_def close_kicked_def moderation_aftermath_def
    process_moderation_frame_def handle_moderation_signed_def
  by (intro guar_intros)+

lemma guar_handle_frame [guar_intros]: "guar (hub_step X cfg) (handle_frame X cfg rid c frame)"
  by (cases frame) (simp_all only: handle_frame_def kaigi_frame.case guar_intros)

lemma guar_disconnect [guar_intros]:
  "guar (hub_step X cfg) (announce_anon_left X rid handle)"
  "guar (hub_step X cfg) (announce_left X rid i delta)"
  "guar (hub_step X cfg) (handle_disconnect X cfg rid c)"
  unfolding announce_anon_left_def announce_left_def handle_disconnect_def
  by (intro guar_intros)+

lemma guar_pump_frames [guar_intros]: "guar (hub_step X cfg) (pump_frames X cfg rid c d)"
proof (induction X cfg rid c d rule: pump_frames.induct)
  case (1 X cfg rid c d)
  show ?case
    unfolding pump_frames.simps [of X cfg rid c d]
    using 1 by (auto intro!: guar_intros split: prod.split sum.split option.split)
qed

lemma guar_receive_loop [guar_intros]: "guar (hub_step X cfg) (receive_loop X cfg rid c d events)"
proof (induction events arbitrary: d)
  case Nil
  then show ?case by (simp add: guar_intros)
next
  case (Cons e events)
  then show ?case
    by (cases e) (auto intro!: guar_intros split: ws_message.split)
qed

lemma guar_serve_conn [guar_intros]: "guar (hub_step X cfg) (serve_conn X cfg rid events)"
  unfolding serve_conn_def by (intro guar_intros)

lemma guar_handle_conn [guar_intros]: "guar (hub_step X cfg) (handle_conn X cfg decode_open events)"
  unfolding handle_conn_def
  by (simp add: guar_serve_conn guar_base split: list.split ws_event.split ws_message.split option.split)

lemma guar_billing_tick [guar_intros]: "guar (hub_step X cfg) (billing_tick X (billing cfg) rid c)"
  unfolding billing_tick_def by (intro guar_intros)

section \<open>The hub's tasks\<close>

text \<open>
  What the environment may start at any time: a connection with any messages, one turn of a billing
  loop, one turn of a writer. A billing loop is a sequence of turns with sleeps between them.
\<close>

definition hub_tasks :: "ext \<Rightarrow> hub_config \<Rightarrow> unit hub_prog set" where
  "hub_tasks X cfg =
     {handle_conn X cfg decode_open events |decode_open events. True}
     \<union> {bind_prog (billing_tick X (billing cfg) rid c) (\<lambda>_. Return ()) |rid c. True}
     \<union> {writer_step c sent |c sent. True}"

lemma guar_task: "p \<in> hub_tasks X cfg \<Longrightarrow> guar (hub_step X cfg) p"
  by (auto simp: hub_tasks_def intro!: guar_intros)

definition hub_reachable :: "ext \<Rightarrow> hub_config \<Rightarrow> hub \<Rightarrow> bool" where
  \<comment> \<open>some interleaving of some tasks leads from a hub without rooms to \<open>w\<close>\<close>
  "hub_reachable X cfg w \<longleftrightarrow> (\<exists>w0 ps. h_rooms w0 = [] \<and>
     (pool_step (hub_tasks X cfg))\<^sup>*\<^sup>* ([], w0) (ps, w))"

lemma hub_reachable_steps: "hub_reachable X cfg w \<Longrightarrow> \<exists>w0. h_rooms w0 = [] \<and> (hub_step X cfg)\<^sup>*\<^sup>* w0 w"
proof -
  assume "hub_reachable X cfg w"
  then obtain w0 ps where start: "h_rooms w0 = []"
      and steps: "(pool_step (hub_tasks X cfg))\<^sup>*\<^sup>* ([], w0) (ps, w)"
    unfolding hub_reachable_def by (elim exE conjE)
  have "\<forall>p \<in> hub_tasks X cfg. guar (hub_step X cfg) p"
    by (intro ballI guar_task)
  from pool_steps_guar [OF steps this] have "(hub_step X cfg)\<^sup>*\<^sup>* w0 w"
    by (rule conjunct1)
  with start show ?thesis by (intro exI conjI)
qed

section \<open>Contracts on rooms\<close>

locale room_contract =
  fixes X :: ext and cfg :: hub_config and inv :: "room_state \<Rightarrow> bool"
  assumes inv_new: "inv (new_room (default_rate_per_minute_nano (billing cfg)))"
    and inv_step: "room_step X cfg room room' \<Longrightarrow> inv room \<Longrightarrow> inv room'"
begin

lemma rooms_step_inv:
  assumes "rooms_step X cfg rooms rooms'" and "\<forall>rid room. hm_get rooms rid = Some room \<longrightarrow> inv room"
  shows "\<forall>rid room. hm_get rooms' rid = Some room \<longrightarrow> inv room"
  using assms
proof (cases rule: rooms_step.cases)
  case (rooms_open rid c at_ms)
  have "inv (join_section c at_ms (new_room (default_rate_per_minute_nano (billing cfg))))"
    by (rule inv_step [OF step_join inv_new])
  with rooms_open assms(2) show ?thesis by (simp add: hm_simps)
qed (auto simp: hm_simps intro: inv_step)

lemma hub_steps_inv:
  assumes "(hub_step X cfg)\<^sup>*\<^sup>* w w'" and "\<forall>rid room. hm_get (h_rooms w) rid = Some room \<longrightarrow> inv room"
  shows "\<forall>rid room. hm_get (h_rooms w') rid = Some room \<longrightarrow> inv room"
  using assms by (induction rule: rtranclp_induct) (auto simp: hub_step_def dest: rooms_step_inv)

lemma reachable_inv: "hub_reachable X cfg w \<Longrightarrow> hm_get (h_rooms w) rid = Some room \<Longrightarrow> inv room"
  using hub_reachable_steps hub_steps_inv by (metis hm_get_Nil option.distinct(1))

lemma room_steps_inv: "(room_step X cfg)\<^sup>*\<^sup>* room room' \<Longrightarrow> inv room \<Longrightarrow> inv room'"
  by (induction rule: rtranclp_induct) (auto intro: inv_step)

end

text \<open>A relation that every step of a room establishes holds between any two of its states.\<close>

locale room_history =
  fixes X :: ext and cfg :: hub_config and rel :: "room_state \<Rightarrow> room_state \<Rightarrow> bool"
  assumes rel_refl: "rel room room"
    and rel_trans: "rel room room' \<Longrightarrow> rel room' room'' \<Longrightarrow> rel room room''"
    and rel_step: "room_step X cfg room room' \<Longrightarrow> rel room room'"
begin

lemma room_steps_rel: "(room_step X cfg)\<^sup>*\<^sup>* room room' \<Longrightarrow> rel room room'"
  by (induction rule: rtranclp_induct) (auto intro: rel_refl rel_step rel_trans)

end

end
