(* ===== verification/Hub_Demo.thy ===== *)
theory Hub_Demo
  imports Hub_Machine
begin

text \<open>
  Concrete runs of the hub, on which the theorems about reachable states are applied: two sockets
  that open a room, say \<open>Hello\<close> (or \<open>AnonHello\<close>) and then fail, so that their participants stay.
\<close>

definition demo_hello :: "string \<Rightarrow> hello_frame" where
  "demo_hello i = \<lparr>he_protocol_version = PROTOCOL_VERSION, he_participant_id = i, he_display_name = None,
     he_mic_enabled = True, he_video_enabled = False, he_screen_share_enabled = False,
     he_hdr_display = False, he_hdr_capture = False\<rparr>"

definition demo_anon_hello :: "string \<Rightarrow> anon_hello_frame" where
  "demo_anon_hello h = \<lparr>ah_protocol_version = PROTOCOL_VERSION, ah_participant_handle = h,
     ah_x25519_pubkey_hex = replicate 64 (CHR ''0'')\<rparr>"

definition hub_ext :: ext where
  \<comment> \<open>frames are known by one byte; everything is encoded as the byte 0\<close>
  "hub_ext = demo_ext\<lparr>
     norito_to_bytes := (\<lambda>f. Some [0]),
     norito_decode := (\<lambda>b.
       if b = [1] then Some (K_Hello (demo_hello ''a@x''))
       else if b = [2] then Some (K_Hello (demo_hello ''b@x''))
       else if b = [3] then Some (K_AnonHello (demo_anon_hello ''ann''))
       else if b = [4] then Some (K_AnonHello (demo_anon_hello ''bob''))
       else None)\<rparr>"

definition demo_cfg :: hub_config where
  "demo_cfg = \<lparr>
     billing = \<lparr>default_rate_per_minute_nano = 1000000, anon_zk_extra_fee_per_minute_nano = 0,
       grace_secs = 30, check_interval_secs = 5, anon_escrow_proof_max_stale_secs = 180\<rparr>,
     anon_max_participants = 2, allow_free_calls = False, require_payment_tx_hash = True\<rparr>"

definition empty_hub :: hub where
  "empty_hub = \<lparr>h_rooms = [], h_next_conn_id = 1, h_chans = [], h_time = (\<lambda>n. 1000 + int n), h_ticks = 0\<rparr>"

text \<open>A task may be observed after any number of its atomic steps.\<close>

primrec one_step :: "('w, 'e, 'a) prog \<Rightarrow> 'w \<Rightarrow> ('w, 'e, 'a) prog \<times> 'w" where
  "one_step (Return x) = (\<lambda>w. (Return x, w))"
| "one_step (Fail e) = (\<lambda>w. (Fail e, w))"
| "one_step (Atomic f) = f"

fun some_steps :: "nat \<Rightarrow> ('w, 'e, 'a) prog \<Rightarrow> 'w \<Rightarrow> ('w, 'e, 'a) prog \<times> 'w" where
  "some_steps 0 p w = (p, w)"
| "some_steps (Suc n) p w = (case one_step p w of (q, v) \<Rightarrow> some_steps n q v)"

lemma pool_one_step:
  "(pool_step start)\<^sup>*\<^sup>* (ps @ [p], w) (ps @ [fst (one_step p w)], snd (one_step p w))"
proof (cases p)
  case (Atomic f)
  have "pool_step start (ps @ [Atomic f], w) ((ps @ [Atomic f])[length ps := fst (f w)], snd (f w))"
    by (rule pool_step.advance) simp_all
  then show ?thesis
    by (simp add: Atomic r_into_rtranclp)
qed simp_all

lemma pool_some_steps:
  "(pool_step start)\<^sup>*\<^sup>* (ps @ [p], w) (ps @ [fst (some_steps n p w)], snd (some_steps n p w))"
proof (induction n arbitrary: p w)
  case (Suc n)
  show ?case
    using rtranclp_trans [OF pool_one_step [of start ps p w] Suc [of "fst (one_step p w)" "snd (one_step p w)"]]
    by (simp add: case_prod_beta)
qed simp

lemma pool_reaches_some_steps:
  assumes "(pool_step start)\<^sup>*\<^sup>* a (ps, w)" and "p \<in> start"
  shows "(pool_step start)\<^sup>*\<^sup>* a (ps @ [fst (some_steps n p w)], snd (some_steps n p w))"
proof -
  have "(pool_step start)\<^sup>*\<^sup>* (ps, w) (ps @ [p], w)"
    using pool_step.spawn [OF assms(2)] by (rule r_into_rtranclp)
  then show ?thesis
    using assms(1) pool_some_steps [of start ps p w n] by (meson rtranclp_trans)
qed

lemma bind_assoc: "bind_prog (bind_prog p k) l = bind_prog p (\<lambda>x. bind_prog (k x) l)"
  by (induction p) (auto simp: bind_Atomic simp del: bind_prog.simps(3))

lemma steps_bind_atomic:
  "some_steps (Suc n) (bind_prog (atomic f) k) w = some_steps n (k (fst (f w))) (snd (f w))"
  by (simp add: atomic_def map_prod_def case_prod_beta)

lemma reading_fields [simp]:
  "reading (w\<lparr>h_rooms := x\<rparr>) = reading w" "reading (w\<lparr>h_chans := y\<rparr>) = reading w"
  "reading (w\<lparr>h_next_conn_id := z\<rparr>) = reading w"
  by (simp_all add: reading_def fun_eq_iff)

lemma reading_ticks [simp]: "reading (w\<lparr>h_ticks := n\<rparr>) = (\<lambda>i. clamp_ms (h_time w (n + i)))"
  by (simp add: reading_def fun_eq_iff)

text \<open>
  A new connection whose first message is one frame whose handler begins with a section \<open>f\<close>: its
  first four atomic steps take the id, read the clock, join and run the section.
\<close>

definition joined_room :: "hub_config \<Rightarrow> room_id \<Rightarrow> hub \<Rightarrow> room_state" where
  "joined_room cfg rid w = join_section (h_next_conn_id w) (reading w 0)
     (case hm_get (h_rooms w) rid of
        Some room \<Rightarrow> room
      | None \<Rightarrow> new_room (default_rate_per_minute_nano (billing cfg)))"

lemma first_frame_steps:
  assumes "try_next X (decoder_push decoder_new chunk) = (Inr (Some frame), d)"
    and "handle_frame X cfg rid (h_next_conn_id w) frame = bind_prog (with_room rid absent f) k"
    and "w' = snd (some_steps 4 (serve_conn X cfg rid (Ws_Message (Msg_Binary chunk) # events)) w)"
  shows "hm_get (h_rooms w') rid =
      Some (snd (f (reading (w\<lparr>h_ticks := h_ticks w + 1\<rparr>)) (joined_room cfg rid w)))"
    and "h_next_conn_id w' = h_next_conn_id w + 1" and "h_time w' = h_time w" and "h_ticks w' = h_ticks w + 5"
  unfolding assms(3)
  by (simp_all add: serve_conn_def fetch_conn_id_def now_ms_def join_room_def eval_nat_numeral
      pump_frames.simps assms(1,2) with_room_def bind_assoc seq_prog_def steps_bind_atomic joined_room_def
      case_prod_beta Let_def hm_simps del: one_step.simps some_steps.simps(2))

definition demo_conn :: "u8 \<Rightarrow> unit hub_prog" where
  \<comment> \<open>a socket that opens the room [7] and sends the frame of byte \<open>b\<close>\<close>
  "demo_conn b = handle_conn hub_ext demo_cfg Some
     [Ws_Message (Msg_Binary [7]), Ws_Message (Msg_Binary [0, 0, 0, 1, b])]"

definition demo_hub :: "u8 list \<Rightarrow> hub" where
  \<comment> \<open>one socket per byte, each observed right after the section of its hello\<close>
  "demo_hub bs = fold (\<lambda>b w. snd (some_steps 4 (demo_conn b) w)) bs empty_hub"

lemma demo_runs: "\<exists>ps. (pool_step (hub_tasks hub_ext demo_cfg))\<^sup>*\<^sup>* ([], empty_hub) (ps, demo_hub bs)"
proof (induction bs rule: rev_induct)
  case Nil
  show ?case by (auto simp: demo_hub_def)
next
  case (snoc b bs)
  have "demo_conn b \<in> hub_tasks hub_ext demo_cfg"
    unfolding demo_conn_def hub_tasks_def by blast
  then show ?case
    using snoc pool_reaches_some_steps by (fastforce simp: demo_hub_def)
qed

lemma demo_reachable: "hub_reachable hub_ext demo_cfg (demo_hub bs)"
proof -
  have "h_rooms empty_hub = []" by (simp add: empty_hub_def)
  with demo_runs [of bs] show ?thesis unfolding hub_reachable_def by blast
qed

lemma demo_frames:
  "try_next hub_ext (decoder_push decoder_new [0, 0, 0, 1, 1]) = (Inr (Some (K_Hello (demo_hello ''a@x''))), \<lparr>buf = []\<rparr>)"
  "try_next hub_ext (decoder_push decoder_new [0, 0, 0, 1, 2]) = (Inr (Some (K_Hello (demo_hello ''b@x''))), \<lparr>buf = []\<rparr>)"
  "try_next hub_ext (decoder_push decoder_new [0, 0, 0, 1, 3]) = (Inr (Some (K_AnonHello (demo_anon_hello ''ann''))), \<lparr>buf = []\<rparr>)"
  "try_next hub_ext (decoder_push decoder_new [0, 0, 0, 1, 4]) = (Inr (Some (K_AnonHello (demo_anon_hello ''bob''))), \<lparr>buf = []\<rparr>)"
  by (simp_all add: try_next_def decoder_push_def decoder_new_def be_value_def hub_ext_def MAX_FRAME_LEN_def)

text \<open>The rooms these runs build, as functions of rooms.\<close>

definition demo_join :: "conn_id \<Rightarrow> nat \<Rightarrow> room_state \<Rightarrow> room_state" where
  "demo_join c tick = join_section c (clamp_ms (1000 + int tick))"

definition demo_clock :: "nat \<Rightarrow> nat \<Rightarrow> u64" where
  "demo_clock tick i = clamp_ms (1000 + int (tick + i))"

definition demo_pair :: room_state where
  \<comment> \<open>a\@x, then b\@x\<close>
  "demo_pair =
     (let room = demo_join 1 0 (new_room 1000000);
          room = snd (hello_section 1 (snd (enforce_join_media_defaults (demo_hello ''a@x''))) (demo_clock 1) room);
          room = demo_join 2 5 room in
      snd (hello_section 2 (snd (enforce_join_media_defaults (demo_hello ''b@x''))) (demo_clock 6) room))"

definition demo_anon_pair :: room_state where
  "demo_anon_pair =
     (let room = demo_join 1 0 (new_room 1000000);
          room = snd (anon_hello_section hub_ext demo_cfg 1 (demo_anon_hello ''ann'') (demo_clock 1) room);
          room = demo_join 2 5 room in
      snd (anon_hello_section hub_ext demo_cfg 2 (demo_anon_hello ''bob'') (demo_clock 6) room))"

lemma demo_conn_serve: "demo_conn b = serve_conn hub_ext demo_cfg [7] [Ws_Message (Msg_Binary [0, 0, 0, 1, b])]"
  by (simp add: demo_conn_def handle_conn_def)

lemma demo_valid_key: "is_valid_hex_len hub_ext (ah_x25519_pubkey_hex (demo_anon_hello h)) 32"
proof -
  have "length (strip_hex_prefix (replicate 64 (CHR ''0''))) = 32 * 2"
    and "\<not> Option.is_none (hex_pairs (strip_hex_prefix (replicate 64 (CHR ''0''))))"
    by code_simp+
  then show ?thesis
    by (simp add: demo_anon_hello_def is_valid_hex_len_def hub_ext_def demo_ext_def Option.is_none_def
        del: replicate.simps)
qed

lemma demo_handlers:
  "\<exists>k. handle_frame hub_ext demo_cfg rid c (K_Hello (demo_hello i)) =
     bind_prog (with_room rid (Inl Room_Missing)
       (hello_section c (snd (enforce_join_media_defaults (demo_hello i))))) k"
  "\<exists>k. handle_frame hub_ext demo_cfg rid c (K_AnonHello (demo_anon_hello h)) =
     bind_prog (with_room rid Anon_Gone (anon_hello_section hub_ext demo_cfg c (demo_anon_hello h))) k"
  using demo_valid_key [of h]
  by (auto simp: handle_frame_def handle_hello_def handle_anon_hello_def case_prod_beta
      demo_hello_def demo_anon_hello_def)

lemma demo_pair_reached:
  "hm_get (h_rooms (demo_hub [1, 2])) [7] = Some demo_pair"
proof -
  obtain k1 where k1: "handle_frame hub_ext demo_cfg [7] (h_next_conn_id empty_hub) (K_Hello (demo_hello ''a@x'')) =
      bind_prog (with_room [7] (Inl Room_Missing)
       (hello_section (h_next_conn_id empty_hub) (snd (enforce_join_media_defaults (demo_hello ''a@x''))))) k1"
    using demo_handlers(1) by blast
  define w1 where "w1 = snd (some_steps 4 (serve_conn hub_ext demo_cfg [7] [Ws_Message (Msg_Binary [0, 0, 0, 1, 1])]) empty_hub)"
  note first = first_frame_steps [OF demo_frames(1) k1 w1_def]
  obtain k2 where k2: "handle_frame hub_ext demo_cfg [7] (h_next_conn_id w1) (K_Hello (demo_hello ''b@x'')) =
      bind_prog (with_room [7] (Inl Room_Missing)
       (hello_section (h_next_conn_id w1) (snd (enforce_join_media_defaults (demo_hello ''b@x''))))) k2"
    using demo_handlers(1) by blast
  define w2 where "w2 = snd (some_steps 4 (serve_conn hub_ext demo_cfg [7] [Ws_Message (Msg_Binary [0, 0, 0, 1, 2])]) w1)"
  note second = first_frame_steps [OF demo_frames(2) k2 w2_def]
  have "demo_hub [1, 2] = w2"
    by (simp add: demo_hub_def demo_conn_serve w1_def w2_def)
  then show ?thesis
    using second(1) first
    by (simp add: joined_room_def empty_hub_def demo_cfg_def demo_pair_def Let_def demo_join_def
        demo_clock_def [abs_def] reading_def [abs_def] hm_simps)
qed

lemma demo_anon_pair_reached:
  "hm_get (h_rooms (demo_hub [3, 4])) [7] = Some demo_anon_pair"
proof -
  obtain k1 where k1: "handle_frame hub_ext demo_cfg [7] (h_next_conn_id empty_hub) (K_AnonHello (demo_anon_hello ''ann'')) =
      bind_prog (with_room [7] Anon_Gone
        (anon_hello_section hub_ext demo_cfg (h_next_conn_id empty_hub) (demo_anon_hello ''ann''))) k1"
    using demo_handlers(2) by blast
  define w1 where "w1 = snd (some_steps 4 (serve_conn hub_ext demo_cfg [7] [Ws_Message (Msg_Binary [0, 0, 0, 1, 3])]) empty_hub)"
  note first = first_frame_steps [OF demo_frames(3) k1 w1_def]
  obtain k2 where k2: "handle_frame hub_ext demo_cfg [7] (h_next_conn_id w1) (K_AnonHello (demo_anon_hello ''bob'')) =
      bind_prog (with_room [7] Anon_Gone
        (anon_hello_section hub_ext demo_cfg (h_next_conn_id w1) (demo_anon_hello ''bob''))) k2"
    using demo_handlers(2) by blast
  define w2 where "w2 = snd (some_steps 4 (serve_conn hub_ext demo_cfg [7] [Ws_Message (Msg_Binary [0, 0, 0, 1, 4])]) w1)"
  note second = first_frame_steps [OF demo_frames(4) k2 w2_def]
  have "demo_hub [3, 4] = w2"
    by (simp add: demo_hub_def demo_conn_serve w1_def w2_def)
  then show ?thesis
    using second(1) first
    by (simp add: joined_room_def empty_hub_def demo_cfg_def demo_anon_pair_def Let_def demo_join_def
        demo_clock_def [abs_def] reading_def [abs_def] hm_simps)
qed

text \<open>The room of the two members, written out.\<close>

lemma demo_pair_value [code]:
  "demo_pair = \<lparr>r_participants = [(1, \<lparr>p_tx = 1, p_state = \<lparr>p_participant_id = ''a@x'',
     p_display_name = None, p_participant_handle = None, p_x25519_pubkey_hex = None, p_x25519_epoch = 0,
     p_mic_enabled = False, p_video_enabled = False, p_screen_share_enabled = False, p_anonymous_mode = False,
     p_waiting_room_pending = False, p_hello_seen = True, p_last_billed_at_ms = 1000, p_billed_nano_xor = 0,
     p_billing_remainder_mod_60k = 0, p_paid_nano_xor = 0, p_last_payment_at_ms = None, p_last_escrow_proof_at_ms = None,
     p_escrow_id = None\<rparr>\<rparr>), (2, \<lparr>p_tx = 2, p_state = \<lparr>p_participant_id = ''b@x'',
     p_display_name = None, p_participant_handle = None, p_x25519_pubkey_hex = None, p_x25519_epoch = 0,
     p_mic_enabled = False, p_video_enabled = False, p_screen_share_enabled = False, p_anonymous_mode = False,
     p_waiting_room_pending = False, p_hello_seen = True, p_last_billed_at_ms = 1005, p_billed_nano_xor = 0,
     p_billing_remainder_mod_60k = 0, p_paid_nano_xor = 0, p_last_payment_at_ms = None, p_last_escrow_proof_at_ms = None,
     p_escrow_id = None\<rparr>\<rparr>)], r_device_caps_by_conn = [], r_host_conn_id = Some 1,
     r_host_role_owner = Some ''a@x'', r_co_host_conn_ids = [], r_co_host_role_owners = [], r_e2ee_epochs = [(1, 0),
     (2, 0)], r_key_rotation_ack_epochs = [], r_signed_action_clock_by_signer = [], r_presence_sequence = 2,
     r_rate_per_minute_nano = 1000000, r_max_screen_shares = 1, r_room_lock = False, r_waiting_room_enabled = False,
     r_guest_join_allowed = True, r_local_recording_allowed = True, r_e2ee_required = True, r_max_participants = 500,
     r_policy_epoch = 0, r_policy_updated_at_ms = 0, r_policy_updated_by = ''system'', r_policy_signature_hex = [],
     r_permissions_epoch = 1, r_anonymous_mode = False, r_anon_admission_rejections = 0,
     r_backpressure_dropped_messages = 0, r_backpressure_last_notice_at_ms = 0\<rparr>"
  by code_simp

definition room_view :: "room_state \<Rightarrow> bool \<times> conn_id option \<times> u32 \<times> (conn_id \<times> string \<times> bool \<times> bool) list" where
  "room_view room = (r_anonymous_mode room, r_host_conn_id room, r_max_participants room,
     map (\<lambda>(c, p). (c, p_participant_id (p_state p), p_hello_seen (p_state p), p_waiting_room_pending (p_state p)))
       (r_participants room))"

lemma demo_pair_view:
  "room_view demo_pair = (False, Some 1, r_max_participants demo_pair, [(1, ''a@x'', True, False), (2, ''b@x'', True, False)])"
  by code_simp

lemma demo_pair_facts:
  "\<not> r_anonymous_mode demo_pair" "r_host_conn_id demo_pair = Some 1"
  "map (\<lambda>(c, p). (c, p_participant_id (p_state p), p_hello_seen (p_state p))) (r_participants demo_pair)
    = [(1, ''a@x'', True), (2, ''b@x'', True)]"
  using demo_pair_view by (auto simp: room_view_def map_eq_Cons_conv)

lemma demo_handles:
  "\<not> trim_is_empty ''ann''
   \<and> is_ascii ''ann''
   \<and> \<not> has_forbidden_anon_handle_symbol ''ann''
   \<and> \<not> has_disallowed_anon_handle_chars ''ann''
   \<and> \<not> trim_is_empty ''bob''
   \<and> is_ascii ''bob''
   \<and> \<not> has_forbidden_anon_handle_symbol ''bob''
   \<and> \<not> has_disallowed_anon_handle_chars ''bob''"
  by code_simp

lemma demo_handles_ok:
  "\<not> trim_is_empty ''ann''" "is_ascii ''ann''" "\<not> has_forbidden_anon_handle_symbol ''ann''"
  "\<not> has_disallowed_anon_handle_chars ''ann''" "\<not> trim_is_empty ''bob''" "is_ascii ''bob''"
  "\<not> has_forbidden_anon_handle_symbol ''bob''" "\<not> has_disallowed_anon_handle_chars ''bob''"
  by (simp_all add: demo_handles)

lemma demo_anon_pair_facts:
  "r_anonymous_mode demo_anon_pair"
  "map (\<lambda>(c, p). (c, p_participant_handle (p_state p), p_hello_seen (p_state p), p_anonymous_mode (p_state p)))
      (r_participants demo_anon_pair)
    = [(1, Some ''ann'', True, True), (2, Some ''bob'', True, True)]"
  by (simp_all add: demo_anon_pair_def Let_def demo_join_def join_section_def anon_hello_section_def
      validate_anon_participant_handle_def validate_anonymous_room_capacity_def active_anon_def
      new_room_def new_participant_def new_participant_state_def hm_insert_def hm_get_def anon_admit_def
      apply_anon_hello_state_def build_anon_group_key_rotate_frame_def bump_permissions_def set_pstate_def
      demo_anon_hello_def demo_handles_ok MAX_ANON_PARTICIPANT_HANDLE_LEN_def demo_cfg_def
      apply_anonymous_zk_surcharge_def)

lemma demo_anon_pair_epochs: "map (\<lambda>(c, p). p_x25519_epoch (p_state p)) (r_participants demo_anon_pair) = [1, 1]"
  by (simp add: demo_anon_pair_def Let_def demo_join_def join_section_def anon_hello_section_def
      validate_anon_participant_handle_def validate_anonymous_room_capacity_def active_anon_def
      new_room_def new_participant_def new_participant_state_def hm_insert_def hm_get_def anon_admit_def
      apply_anon_hello_state_def build_anon_group_key_rotate_frame_def bump_permissions_def set_pstate_def
      demo_anon_hello_def demo_handles_ok MAX_ANON_PARTICIPANT_HANDLE_LEN_def demo_cfg_def
      apply_anonymous_zk_surcharge_def)

lemma demo_pair_entries:
  "\<exists>p q. r_participants demo_pair = [(1, p), (2, q)]
     \<and> p_participant_id (p_state p) = ''a@x'' \<and> p_hello_seen (p_state p)
     \<and> p_participant_id (p_state q) = ''b@x'' \<and> p_hello_seen (p_state q)"
  using demo_pair_facts(3) by (auto simp: map_eq_Cons_conv)

text \<open>An instance in which every signature is the same 64 digits, to run signed actions.\<close>

definition zero_hex :: string where
  "zero_hex = replicate 64 (CHR ''0'')"

definition plain_ext :: ext where
  "plain_ext = demo_ext\<lparr>norito_to_bytes := (\<lambda>f. Some [0]), blake3 := (\<lambda>b. []),
     hex_encode := (\<lambda>b. zero_hex), hex_decode := (\<lambda>s. Some [])\<rparr>"

definition demo_grant :: "role_kind \<Rightarrow> role_grant_frame" where
  "demo_grant role = \<lparr>rg_issued_at_ms = 5, rg_target_participant_id = ''b@x'', rg_role = role,
     rg_granted_by = ''a@x'', rg_signature_hex = zero_hex\<rparr>"

definition demo_revoke :: role_revoke_frame where
  "demo_revoke = \<lparr>rr_issued_at_ms = 6, rr_target_participant_id = ''b@x'', rr_role = Role_CoHost,
     rr_revoked_by = ''a@x'', rr_signature_hex = zero_hex\<rparr>"

definition demo_policy :: session_policy_frame where
  \<comment> \<open>waiting room on, at most two participants\<close>
  "demo_policy = \<lparr>sp_updated_at_ms = 7, sp_room_lock = False, sp_waiting_room_enabled = True,
     sp_guest_join_allowed = True, sp_local_recording_allowed = True, sp_e2ee_required = False,
     sp_max_participants = 2, sp_policy_epoch = 1, sp_updated_by = ''a@x'', sp_signature_hex = zero_hex\<rparr>"

definition demo_waiting :: room_state where
  \<comment> \<open>a\@x joined as host and switched the waiting room on; b\@x waits\<close>
  "demo_waiting =
     (let room = demo_join 1 0 (new_room 1000000);
          room = snd (hello_section 1 (snd (enforce_join_media_defaults (demo_hello ''a@x''))) (demo_clock 1) room);
          room = snd (session_policy_section plain_ext 1 demo_policy (demo_clock 5) room);
          room = demo_join 2 6 room in
      snd (hello_section 2 (snd (enforce_join_media_defaults (demo_hello ''b@x''))) (demo_clock 7) room))"

lemma room_steps_extend:
  "(room_step X cfg)\<^sup>*\<^sup>* a b \<Longrightarrow> (room_step X cfg)\<^sup>*\<^sup>* a (join_section c at_ms b)"
  "(room_step X cfg)\<^sup>*\<^sup>* a b \<Longrightarrow>
     (room_step X cfg)\<^sup>*\<^sup>* a (snd (hello_section c (snd (enforce_join_media_defaults he)) t b))"
  "(room_step X cfg)\<^sup>*\<^sup>* a b \<Longrightarrow> (room_step X cfg)\<^sup>*\<^sup>* a (snd (session_policy_section X c sp t b))"
  by (rule rtranclp.rtrancl_into_rtrancl, assumption, rule step_join step_hello step_session_policy)+

lemma demo_waiting_reached:
  "(room_step plain_ext demo_cfg)\<^sup>*\<^sup>* (new_room (default_rate_per_minute_nano (billing demo_cfg))) demo_waiting"
proof -
  have "default_rate_per_minute_nano (billing demo_cfg) = 1000000"
    by (simp add: demo_cfg_def)
  then show ?thesis
    unfolding demo_waiting_def Let_def demo_join_def
    by (simp only:) (intro room_steps_extend rtranclp.rtrancl_refl)
qed

lemma demo_waiting_value [code]:
  "demo_waiting = \<lparr>r_participants = [(1, \<lparr>p_tx = 1, p_state = \<lparr>p_participant_id = ''a@x'',
     p_display_name = None, p_participant_handle = None, p_x25519_pubkey_hex = None, p_x25519_epoch = 0,
     p_mic_enabled = False, p_video_enabled = False, p_screen_share_enabled = False, p_anonymous_mode = False,
     p_waiting_room_pending = False, p_hello_seen = True, p_last_billed_at_ms = 1000, p_billed_nano_xor = 0,
     p_billing_remainder_mod_60k = 0, p_paid_nano_xor = 0, p_last_payment_at_ms = None, p_last_escrow_proof_at_ms = None,
     p_escrow_id = None\<rparr>\<rparr>), (2, \<lparr>p_tx = 2, p_state = \<lparr>p_participant_id = ''b@x'',
     p_display_name = None, p_participant_handle = None, p_x25519_pubkey_hex = None, p_x25519_epoch = 0,
     p_mic_enabled = False, p_video_enabled = False, p_screen_share_enabled = False, p_anonymous_mode = False,
     p_waiting_room_pending = True, p_hello_seen = False, p_last_billed_at_ms = 1006, p_billed_nano_xor = 0,
     p_billing_remainder_mod_60k = 0, p_paid_nano_xor = 0, p_last_payment_at_ms = None, p_last_escrow_proof_at_ms = None,
     p_escrow_id = None\<rparr>\<rparr>)], r_device_caps_by_conn = [], r_host_conn_id = Some 1,
     r_host_role_owner = Some ''a@x'', r_co_host_conn_ids = [], r_co_host_role_owners = [], r_e2ee_epochs = [(1, 0)],
     r_key_rotation_ack_epochs = [], r_signed_action_clock_by_signer = [(''session_policy:a@x'', 7)],
     r_presence_sequence = 1, r_rate_per_minute_nano = 1000000, r_max_screen_shares = 1, r_room_lock = False,
     r_waiting_room_enabled = True, r_guest_join_allowed = True, r_local_recording_allowed = True,
     r_e2ee_required = False, r_max_participants = 2, r_policy_epoch = 1, r_policy_updated_at_ms = 7,
     r_policy_updated_by = ''a@x'',
     r_policy_signature_hex = ''0000000000000000000000000000000000000000000000000000000000000000'',
     r_permissions_epoch = 2, r_anonymous_mode = False, r_anon_admission_rejections = 0,
     r_backpressure_dropped_messages = 0, r_backpressure_last_notice_at_ms = 0\<rparr>"
  by code_simp

lemma demo_waiting_view:
  "room_view demo_waiting = (False, Some 1, 2, [(1, ''a@x'', True, False), (2, ''b@x'', False, True)])"
  by code_simp

lemma demo_waiting_facts:
  "\<not> r_anonymous_mode demo_waiting" "r_host_conn_id demo_waiting = Some 1"
  "r_max_participants demo_waiting = 2"
  "map (\<lambda>(c, p). (c, p_participant_id (p_state p), p_hello_seen (p_state p), p_waiting_room_pending (p_state p)))
      (r_participants demo_waiting)
    = [(1, ''a@x'', True, False), (2, ''b@x'', False, True)]"
  using demo_waiting_view by (simp_all add: room_view_def)

lemma demo_waiting_entries:
  "\<exists>p q. r_participants demo_waiting = [(1, p), (2, q)]
     \<and> p_participant_id (p_state p) = ''a@x'' \<and> p_hello_seen (p_state p)
     \<and> p_participant_id (p_state q) = ''b@x'' \<and> \<not> p_hello_seen (p_state q)
     \<and> p_waiting_room_pending (p_state q)"
  using demo_waiting_facts(4) by (auto simp: map_eq_Cons_conv)

end
