(* ===== verification/Hub_Members.thy ===== *)
theory Hub_Members
  imports Hub_Demo
begin

text \<open>
  Who is in a room. \<open>members\<close> abstracts a room to what identifies its participants; most sections
  leave it alone (\<open>same_members\<close>), the others change it in one place. On it stands the invariant
  \<open>members_ok\<close>: identities are unique, a waiting guest has not joined, the co-host bindings of the
  joined participants are exactly the reserved ones, anonymous handles are unique and within the cap; and, as long as
  connection numbers are given out once, nobody but joined participants is bound as co-host.
\<close>

section \<open>The abstraction\<close>

record member =
  m_id :: string
  m_waiting :: bool
  m_hello :: bool
  m_anon :: bool
  m_handle :: "string option"

definition member_of :: "participant_state \<Rightarrow> member" where
  "member_of st = \<lparr>m_id = p_participant_id st, m_waiting = p_waiting_room_pending st,
     m_hello = p_hello_seen st, m_anon = p_anonymous_mode st, m_handle = p_participant_handle st\<rparr>"

definition members :: "room_state \<Rightarrow> conn_id \<Rightarrow> member option" where
  "members room c = map_option (\<lambda>p. member_of (p_state p)) (get_p room c)"

definition same_members :: "room_state \<Rightarrow> room_state \<Rightarrow> bool" where
  "same_members room room' \<longleftrightarrow>
     r_anonymous_mode room' = r_anonymous_mode room \<and> r_host_conn_id room' = r_host_conn_id room
     \<and> set (r_co_host_conn_ids room') = set (r_co_host_conn_ids room)
     \<and> set (r_co_host_role_owners room') = set (r_co_host_role_owners room)
     \<and> members room' = members room
     \<and> hm_ok (r_participants room') = hm_ok (r_participants room)"

lemma same_members_refl [simp]: "same_members room room"
  by (simp add: same_members_def)

lemma same_members_trans:
  "same_members room room' \<Longrightarrow> same_members room' room'' \<Longrightarrow> same_members room room''"
  by (simp add: same_members_def)

lemma member_of_sel [simp]:
  "m_id (member_of st) = p_participant_id st" "m_waiting (member_of st) = p_waiting_room_pending st"
  "m_hello (member_of st) = p_hello_seen st" "m_anon (member_of st) = p_anonymous_mode st"
  "m_handle (member_of st) = p_participant_handle st"
  by (simp_all add: member_of_def)

lemma members_None [simp]: "members room c = None \<longleftrightarrow> get_p room c = None"
  by (simp add: members_def)

lemma members_Some: "members room c = Some m \<longleftrightarrow> (\<exists>p. get_p room c = Some p \<and> m = member_of (p_state p))"
  by (auto simp: members_def)

lemma get_p_members: "get_p room c = Some p \<Longrightarrow> members room c = Some (member_of (p_state p))"
  by (simp add: members_def)

lemma members_cong: "r_participants room = r_participants room' \<Longrightarrow> members room = members room'"
  by (simp add: members_def fun_eq_iff)

lemma members_set_pstate:
  "get_p room c \<noteq> None \<Longrightarrow> members (set_pstate room c st) = (members room)(c \<mapsto> member_of st)"
  by (auto simp: members_def fun_eq_iff)

lemma same_members_set_pstate:
  "get_p room c = Some p \<Longrightarrow> member_of st = member_of (p_state p) \<Longrightarrow>
     same_members room (set_pstate room c st)"
  by (simp add: same_members_def members_set_pstate map_upd_triv get_p_members)

lemma same_members_fields:
  "r_participants room' = r_participants room \<Longrightarrow> r_anonymous_mode room' = r_anonymous_mode room \<Longrightarrow>
   r_host_conn_id room' = r_host_conn_id room \<Longrightarrow>
   r_co_host_conn_ids room' = r_co_host_conn_ids room \<Longrightarrow>
   r_co_host_role_owners room' = r_co_host_role_owners room \<Longrightarrow> same_members room room'"
  by (simp add: same_members_def members_cong [of room' room])

lemma member_of_advance_billing [simp]: "member_of (advance_billing st rate now) = member_of st"
  by (simp add: member_of_def)

section \<open>Sections that leave the members alone\<close>

lemma same_clock [simp]: "same_members room (snd (enforce_signed_action_clock room tag signer label t))"
  unfolding clock_room by (auto intro: same_members_fields split: sum.split)

lemma same_group_key: "same_members room (snd (group_key_section X c gk t room))"
  unfolding group_key_section_def Let_def
  by (auto intro!: same_members_set_pstate simp: member_of_def split: option.split sum.split bool.split)

lemma same_escrow: "same_members room (snd (escrow_section X c ep t room))"
  unfolding escrow_section_def Let_def
  by (auto intro!: same_members_set_pstate simp: member_of_def split: option.split)

lemma same_rotate: "same_members room (snd (rotate_section X t room))"
  by (auto simp: rotate_section_def build_anon_group_key_rotate_frame_def bump_permissions_def Let_def
      intro: same_members_fields)

lemma same_participant_state: "same_members room (snd (participant_state_section c psf at_ms room))"
  unfolding participant_state_section_def Let_def
  by (auto intro!: same_members_set_pstate simp: member_of_def split: option.split prod.split)

lemma track_state_member [simp]: "member_of (track_state st track) = member_of st"
  by (simp add: track_state_def Let_def member_of_def split: media_track_kind.split)

lemma same_media_track: "same_members room (snd (media_track_section c mt at_ms room))"
  unfolding media_track_section_def Let_def
  by (auto intro!: same_members_set_pstate split: option.split)

lemma same_bill_everyone: "same_members room (bill_everyone room now)"
  by (simp add: same_members_def bill_everyone_def members_def hm_simps fun_eq_iff option.map_comp comp_def)

lemma same_room_config: "same_members room (snd (room_config_section cfg c rcu now room))"
proof -
  have "same_members room (bill_everyone room now\<lparr>r_rate_per_minute_nano := a, r_max_screen_shares := b\<rparr>)" for a b
    by (rule same_members_trans [OF same_bill_everyone same_members_fields]) simp_all
  then show ?thesis
    by (simp add: room_config_section_def Let_def split: option.split)
qed

lemma same_clockD: "enforce_signed_action_clock room tag signer label t = (r, room') \<Longrightarrow> same_members room room'"
  using same_clock [of room tag signer label t] by simp

lemma same_session_policy: "same_members room (snd (session_policy_section X c sp t room))"
proof -
  have *: "same_members room (policy_effect room' sp)" if "same_members room room'" for room'
    by (rule same_members_trans [OF that same_members_fields]) (simp_all add: policy_effect_def)
  show ?thesis
    unfolding session_policy_section_def apply_session_policy_update_def
    by (simp add: * same_clockD split: option.split prod.split sum.split)
qed

lemma same_device: "same_members room (snd (device_capability_section c dc t room))"
  by (auto simp: device_capability_section_def intro: same_members_fields)

lemma same_e2ee: "same_members room (snd (e2ee_epoch_section X c ke t room))"
proof -
  have *: "same_members room (room'\<lparr>r_e2ee_epochs := es\<rparr>)" if "same_members room room'" for room' es
    by (rule same_members_trans [OF that same_members_fields]) simp_all
  show ?thesis
    unfolding e2ee_epoch_section_def Let_def
    by (simp add: * same_clockD split: option.split prod.split sum.split)
qed

lemma same_key_ack: "same_members room (snd (key_ack_section c ka t room))"
proof -
  have *: "same_members room (room'\<lparr>r_key_rotation_ack_epochs := es\<rparr>)" if "same_members room room'" for room' es
    by (rule same_members_trans [OF that same_members_fields]) simp_all
  show ?thesis
    unfolding key_ack_section_def Let_def
    by (simp add: * same_clockD split: option.split prod.split sum.split)
qed

lemma same_payment: "same_members room (snd (payment_section X cfg c pay now room))"
proof (cases "get_p room c")
  case (Some p)
  have "same_members room (set_pstate room c st)" if "member_of st = member_of (p_state p)" for st
    using Some that by (rule same_members_set_pstate)
  then show ?thesis
    by (simp add: payment_section_def Let_def Some member_of_def)
qed (simp add: payment_section_def)

lemma same_billing: "same_members room (snd (billing_section b c now room))"
proof (cases "get_p room c")
  case (Some p)
  have "same_members room (set_pstate room c st)" if "member_of st = member_of (p_state p)" for st
    using Some that by (rule same_members_set_pstate)
  then show ?thesis
    by (simp add: billing_section_def Let_def Some member_of_def split: option.split)
qed (simp add: billing_section_def)

lemma same_backpressure: "same_members room (snd (backpressure_section n t room))"
  by (auto simp: backpressure_section_def Let_def intro: same_members_fields)

lemma same_disable_target:
  assumes "\<And>st. member_of (f st) = member_of st"
  shows "same_members room (snd (disable_target f now room c eff))"
  using assms by (auto simp: disable_target_def Let_def intro: same_members_set_pstate split: option.split)

lemmas same_sections =
  same_group_key same_escrow same_rotate same_participant_state same_media_track same_room_config
  same_session_policy same_device same_e2ee same_key_ack same_payment same_billing same_backpressure

section \<open>The invariant\<close>

definition present :: "member \<Rightarrow> bool" where
  "present m \<longleftrightarrow> m_hello m \<or> m_waiting m"

definition ids_unique :: "room_state \<Rightarrow> bool" where
  "ids_unique room \<longleftrightarrow> (\<not> r_anonymous_mode room \<longrightarrow>
     (\<forall>c d m n. members room c = Some m \<and> members room d = Some n \<and> c \<noteq> d \<and> present m \<and> present n
        \<longrightarrow> m_id m \<noteq> m_id n))"

definition waiting_ok :: "room_state \<Rightarrow> bool" where
  "waiting_ok room \<longleftrightarrow> (\<forall>c m. members room c = Some m \<and> m_waiting m \<longrightarrow> \<not> m_hello m \<and> \<not> m_anon m)"

definition co_hosts_exact :: "room_state \<Rightarrow> bool" where
  "co_hosts_exact room \<longleftrightarrow> (\<not> r_anonymous_mode room \<longrightarrow>
     (\<forall>c m. members room c = Some m \<and> m_hello m \<longrightarrow>
        (c \<in> set (r_co_host_conn_ids room) \<longleftrightarrow>
           r_host_conn_id room \<noteq> Some c \<and> m_id m \<in> set (r_co_host_role_owners room))))"

definition modes_ok :: "room_state \<Rightarrow> bool" where
  "modes_ok room \<longleftrightarrow> (\<forall>c m. members room c = Some m \<longrightarrow>
     (m_anon m \<longrightarrow> r_anonymous_mode room) \<and> (m_handle m \<noteq> None \<longleftrightarrow> m_anon m))"

definition handles_unique :: "room_state \<Rightarrow> bool" where
  "handles_unique room \<longleftrightarrow> (\<forall>c d m n h. members room c = Some m \<and> members room d = Some n
     \<and> m_handle m = Some h \<and> m_handle n = Some h \<longrightarrow> c = d)"

definition anon_conns :: "room_state \<Rightarrow> conn_id set" where
  "anon_conns room = {c. \<exists>m. members room c = Some m \<and> m_anon m \<and> m_hello m}"

definition anon_capped :: "hub_config \<Rightarrow> room_state \<Rightarrow> bool" where
  "anon_capped cfg room \<longleftrightarrow> card (anon_conns room) \<le> anon_max_participants cfg"

definition members_core :: "hub_config \<Rightarrow> room_state \<Rightarrow> bool" where
  \<comment> \<open>what does not depend on the role bindings\<close>
  "members_core cfg room \<longleftrightarrow> hm_ok (r_participants room) \<and> ids_unique room \<and> waiting_ok room
     \<and> modes_ok room \<and> handles_unique room \<and> anon_capped cfg room"

definition members_ok :: "hub_config \<Rightarrow> room_state \<Rightarrow> bool" where
  "members_ok cfg room \<longleftrightarrow> members_core cfg room \<and> co_hosts_exact room"

lemmas member_invariants = ids_unique_def waiting_ok_def co_hosts_exact_def modes_ok_def
  handles_unique_def anon_capped_def anon_conns_def

lemma members_core_same:
  "members room' = members room \<Longrightarrow> r_anonymous_mode room' = r_anonymous_mode room \<Longrightarrow>
   hm_ok (r_participants room') = hm_ok (r_participants room) \<Longrightarrow>
   members_core cfg room' = members_core cfg room"
  by (simp add: members_core_def member_invariants)

lemma members_ok_same: "same_members room room' \<Longrightarrow> members_ok cfg room' = members_ok cfg room"
  by (simp add: members_ok_def members_core_def same_members_def member_invariants)

lemma members_ok_new: "members_ok cfg (new_room rate)"
  by (simp add: members_ok_def members_core_def member_invariants members_def new_room_def hm_simps)

lemma finite_anon_conns: "finite (anon_conns room)"
proof (rule finite_subset)
  show "anon_conns room \<subseteq> set (hm_keys (r_participants room))"
    by (auto simp: anon_conns_def members_Some hm_keys_get)
qed simp

lemma anon_capped_subset: "anon_capped cfg room \<Longrightarrow> anon_conns room' \<subseteq> anon_conns room \<Longrightarrow> anon_capped cfg room'"
  unfolding anon_capped_def using card_mono [OF finite_anon_conns [of room], of "anon_conns room'"] by linarith

text \<open>A transparent participant with an identity of its own may replace or join.\<close>

lemma members_core_update:
  assumes core: "members_core cfg room" and upd: "members room' = (members room)(c \<mapsto> m)"
    and anon: "r_anonymous_mode room' = r_anonymous_mode room" and ok: "hm_ok (r_participants room')"
    and m: "\<not> m_anon m" "m_handle m = None" "m_waiting m \<longrightarrow> \<not> m_hello m"
    and new: "present m \<Longrightarrow> \<not> r_anonymous_mode room \<Longrightarrow>
       \<forall>d n. d \<noteq> c \<and> members room d = Some n \<and> present n \<longrightarrow> m_id n \<noteq> m_id m"
  shows "members_core cfg room'"
proof -
  have uniq: "ids_unique room'"
    unfolding ids_unique_def anon
  proof (intro impI allI)
    fix c' d' m' n'
    assume t: "\<not> r_anonymous_mode room"
      and h: "members room' c' = Some m' \<and> members room' d' = Some n' \<and> c' \<noteq> d' \<and> present m' \<and> present n'"
    have old: "ids_unique room" using core by (simp add: members_core_def)
    show "m_id m' \<noteq> m_id n'"
    proof (cases "c' = c \<or> d' = c")
      case True
      then have "(m' = m \<and> d' \<noteq> c \<and> members room d' = Some n') \<or> (n' = m \<and> c' \<noteq> c \<and> members room c' = Some m')"
        using h unfolding upd by (auto split: if_splits)
      then show ?thesis using h new [OF _ t] by metis
    next
      case False
      then show ?thesis using h old t unfolding upd ids_unique_def by auto
    qed
  qed
  have "anon_conns room' \<subseteq> anon_conns room"
    using m upd by (auto simp: anon_conns_def split: if_splits)
  then have "anon_capped cfg room'"
    using core anon_capped_subset by (auto simp: members_core_def)
  moreover have "waiting_ok room'" and "modes_ok room'" and "handles_unique room'"
    using core m by (auto simp: members_core_def waiting_ok_def modes_ok_def handles_unique_def upd anon)
  ultimately show ?thesis using uniq ok by (simp add: members_core_def)
qed

lemma members_core_remove:
  assumes core: "members_core cfg room" and upd: "members room' = (members room)(c := None)"
    and anon: "r_anonymous_mode room' = r_anonymous_mode room" and ok: "hm_ok (r_participants room')"
  shows "members_core cfg room'"
proof -
  have "anon_conns room' \<subseteq> anon_conns room"
    using upd by (auto simp: anon_conns_def)
  then have "anon_capped cfg room'"
    using core anon_capped_subset by (auto simp: members_core_def)
  moreover have "ids_unique room'"
    using core unfolding members_core_def ids_unique_def upd anon by (simp add: fun_upd_def) blast
  moreover have "waiting_ok room'" and "modes_ok room'" and "handles_unique room'"
    using core by (auto simp: members_core_def waiting_ok_def modes_ok_def handles_unique_def upd anon)
  ultimately show ?thesis using ok by (simp add: members_core_def)
qed

lemma co_hosts_exact_sync:
  "hm_ok (r_participants room) \<Longrightarrow> co_hosts_exact (snd (sync_active_co_host_bindings room))"
  by (auto simp: co_hosts_exact_def co_bound_def members_Some members_def)

lemma co_hosts_exact_cong:
  "members room' = members room \<Longrightarrow> r_anonymous_mode room' = r_anonymous_mode room \<Longrightarrow>
   r_host_conn_id room' = r_host_conn_id room \<Longrightarrow>
   r_co_host_conn_ids room' = r_co_host_conn_ids room \<Longrightarrow>
   r_co_host_role_owners room' = r_co_host_role_owners room \<Longrightarrow> co_hosts_exact room' = co_hosts_exact room"
  by (simp add: co_hosts_exact_def)

lemma bump_members [simp]:
  "members (bump_permissions room) = members room" "members (bump_presence room) = members room"
  "r_anonymous_mode (bump_permissions room) = r_anonymous_mode room"
  "r_anonymous_mode (bump_presence room) = r_anonymous_mode room"
  by (simp_all add: members_def fun_eq_iff bump_permissions_def bump_presence_def)

lemma co_hosts_exact_bump [simp]:
  "co_hosts_exact (bump_permissions room) = co_hosts_exact room"
  "co_hosts_exact (bump_presence room) = co_hosts_exact room"
  by (simp_all add: co_hosts_exact_def)

lemma sync_members [simp]: "members (snd (sync_active_co_host_bindings room)) = members room"
  by (simp add: members_def fun_eq_iff)

section \<open>Every step keeps the invariant\<close>

lemma restore_fields [simp]:
  "r_participants (snd (restore_reserved_roles_on_join room c i)) = r_participants room"
  "r_anonymous_mode (snd (restore_reserved_roles_on_join room c i)) = r_anonymous_mode room"
  by (simp_all add: restore_reserved_roles_on_join_def Let_def case_prod_beta)

lemma restore_exact:
  "hm_ok (r_participants room) \<Longrightarrow> co_hosts_exact (snd (restore_reserved_roles_on_join room c i))"
  by (simp add: restore_reserved_roles_on_join_def Let_def case_prod_beta co_hosts_exact_sync)

lemma restore_members [simp]: "members (snd (restore_reserved_roles_on_join room c i)) = members room"
  by (rule members_cong) simp

lemma members_ok_join: "members_ok cfg room \<Longrightarrow> members_ok cfg (join_section c at_ms room)"
proof -
  let ?m = "member_of (new_participant_state c at_ms)"
  have upd: "members (join_section c at_ms room) = (members room)(c \<mapsto> ?m)"
    by (auto simp: members_def join_section_def new_participant_def hm_simps fun_eq_iff)
  assume "members_ok cfg room"
  then have core: "members_core cfg room" and exact: "co_hosts_exact room"
    by (simp_all add: members_ok_def)
  have "members_core cfg (join_section c at_ms room)"
    using core by (intro members_core_update [OF core upd])
      (simp_all add: join_section_def hm_simps members_core_def new_participant_state_def present_def)
  moreover have "co_hosts_exact (join_section c at_ms room)"
    using exact unfolding co_hosts_exact_def upd
    by (simp add: join_section_def new_participant_state_def)
  ultimately show ?thesis by (simp add: members_ok_def)
qed

lemma forget_conn_members: "members (forget_conn room c) = (members room)(c := None)"
  by (auto simp: forget_conn_def members_def hm_simps fun_eq_iff)

lemma members_ok_forget: "members_ok cfg room \<Longrightarrow> members_ok cfg (forget_conn room c)"
proof -
  assume ok: "members_ok cfg room"
  have "members_core cfg (forget_conn room c)"
    using ok by (intro members_core_remove [OF _ forget_conn_members])
      (simp_all add: members_ok_def members_core_def forget_conn_def hm_simps)
  moreover have "co_hosts_exact (forget_conn room c)"
    using ok unfolding members_ok_def co_hosts_exact_def forget_conn_members
    by (simp add: forget_conn_def)
  ultimately show ?thesis by (simp add: members_ok_def)
qed

text \<open>Whatever moves the host or the reserved owners and then synchronises.\<close>

lemma members_ok_sync:
  "members_core cfg room \<Longrightarrow> members_ok cfg (snd (sync_active_co_host_bindings room))"
  using members_core_same [of "snd (sync_active_co_host_bindings room)" room cfg]
  by (simp add: members_ok_def co_hosts_exact_sync members_core_def)

lemma members_ok_bump [simp]:
  "members_ok cfg (bump_permissions room) = members_ok cfg room"
  "members_ok cfg (bump_presence room) = members_ok cfg room"
  by (simp_all add: members_ok_def members_core_def member_invariants)

lemma members_core_fields:
  "r_participants room' = r_participants room \<Longrightarrow> r_anonymous_mode room' = r_anonymous_mode room \<Longrightarrow>
   members_core cfg room' = members_core cfg room"
  by (rule members_core_same) (simp_all add: members_cong [of room' room])

lemma members_ok_reassign: "members_ok cfg room \<Longrightarrow> members_ok cfg (reassign_host room c)"
  by (auto simp: reassign_host_def members_ok_def [of cfg room]
      intro!: members_ok_sync intro: members_core_fields [THEN iffD1, rotated -1])

lemma members_ok_leave: "members_ok cfg room \<Longrightarrow> members_ok cfg (snd (disconnect_section c t room))"
  by (simp add: disconnect_section_def Let_def members_ok_forget members_ok_reassign)

lemma members_ok_grant_effect:
  "members_core cfg room \<Longrightarrow> members_ok cfg (snd (grant_effect room c rg))"
  by (auto simp: grant_effect_def Let_def case_prod_beta split: role_kind.split
      intro!: members_ok_sync intro: members_core_fields [THEN iffD1, rotated -1])

lemma members_ok_revoke_effect:
  "members_core cfg room \<Longrightarrow> members_ok cfg (snd (revoke_effect room c rr))"
  by (auto simp: revoke_effect_def Let_def case_prod_beta
      intro!: members_ok_sync intro: members_core_fields [THEN iffD1, rotated -1])

lemma members_ok_role_delta [simp]: "members_ok cfg (snd (role_delta t room rc)) = members_ok cfg room"
  by (simp add: role_delta_def Let_def split: option.split)

lemma apply_role_grant_cases:
  assumes "apply_role_grant X room c rg = (r, room')"
  obtains e where "r = Inl e" "room' = room"
    | oc room1 target sender where "r = Inr oc" "grant_effect room1 target rg = (oc, room')"
      "enforce_signed_action_clock room ''role_grant'' (rg_granted_by rg) ''issued_at_ms'' (rg_issued_at_ms rg)
         = (Inr (), room1)"
      "find_joined_by_id room (rg_target_participant_id rg) = Some target"
      "get_p room c = Some sender" "p_hello_seen (p_state sender)" "r_host_conn_id room = Some c"
      "p_participant_id (p_state sender) = rg_granted_by rg"
      "role_grant_signature_is_valid X rg" "rg_role rg \<noteq> Role_Participant"
  using assms clock_rejects [of room]
  by (auto simp: apply_role_grant_def can_manage_roles_and_policy_def split: option.splits if_splits sum.splits prod.splits)

lemma apply_role_revoke_cases:
  assumes "apply_role_revoke X room c rr = (r, room')"
  obtains e where "r = Inl e" "room' = room"
    | oc room1 target sender where "r = Inr oc" "revoke_effect room1 target rr = (oc, room')"
      "enforce_signed_action_clock room ''role_revoke'' (rr_revoked_by rr) ''issued_at_ms'' (rr_issued_at_ms rr)
         = (Inr (), room1)"
      "find_joined_by_id room (rr_target_participant_id rr) = Some target"
      "get_p room c = Some sender" "p_hello_seen (p_state sender)" "r_host_conn_id room = Some c"
      "p_participant_id (p_state sender) = rr_revoked_by rr"
      "role_revoke_signature_is_valid X rr" "rr_role rr = Role_CoHost"
  using assms clock_rejects [of room]
  by (auto simp: apply_role_revoke_def can_manage_roles_and_policy_def split: option.splits if_splits sum.splits prod.splits)

lemma members_ok_core: "members_ok cfg room \<Longrightarrow> members_core cfg room"
  by (simp add: members_ok_def)

lemma members_ok_role_grant:
  assumes "members_ok cfg room"
  shows "members_ok cfg (snd (role_grant_section X c rg t room))"
proof -
  obtain r room' where eq: "apply_role_grant X room c rg = (r, room')"
    by fastforce
  then show ?thesis
  proof (cases rule: apply_role_grant_cases)
    case (1 e)
    then show ?thesis using assms eq by (simp add: role_grant_section_def)
  next
    case (2 oc room1 target sender)
    have "members_ok cfg (snd (grant_effect room1 target rg))"
      using assms same_clockD [OF 2(3)] by (intro members_ok_grant_effect members_ok_core) (simp add: members_ok_same)
    then show ?thesis
      using eq 2(1,2) by (simp add: role_grant_section_def case_prod_beta)
  qed
qed

lemma members_ok_role_revoke:
  assumes "members_ok cfg room"
  shows "members_ok cfg (snd (role_revoke_section X c rr t room))"
proof -
  obtain r room' where eq: "apply_role_revoke X room c rr = (r, room')"
    by fastforce
  then show ?thesis
  proof (cases rule: apply_role_revoke_cases)
    case (1 e)
    then show ?thesis using assms eq by (simp add: role_revoke_section_def)
  next
    case (2 oc room1 target sender)
    have "members_ok cfg (snd (revoke_effect room1 target rr))"
      using assms same_clockD [OF 2(3)] by (intro members_ok_revoke_effect members_ok_core) (simp add: members_ok_same)
    then show ?thesis
      using eq 2(1,2) by (simp add: role_revoke_section_def case_prod_beta)
  qed
qed

lemma waiting_okD:
  "waiting_ok room \<Longrightarrow> get_p room c = Some p \<Longrightarrow> p_waiting_room_pending (p_state p) \<Longrightarrow>
     \<not> p_hello_seen (p_state p) \<and> \<not> p_anonymous_mode (p_state p)"
  unfolding waiting_ok_def using get_p_members [of room c p] by fastforce

lemma modes_okD:
  "modes_ok room \<Longrightarrow> get_p room c = Some p \<Longrightarrow>
     (p_anonymous_mode (p_state p) \<longrightarrow> r_anonymous_mode room)
     \<and> (p_participant_handle (p_state p) \<noteq> None \<longleftrightarrow> p_anonymous_mode (p_state p))"
  unfolding modes_ok_def using get_p_members [of room c p] by fastforce

lemma members_set_pstate_other_fields:
  "members (room\<lparr>r_e2ee_epochs := es\<rparr>) = members room"
  by (simp add: members_def fun_eq_iff)

lemma members_ok_admit:
  assumes ok: "members_ok cfg room"
  shows "members_ok cfg (snd (admit_waiting_participant at_ms room c))"
proof (cases "\<exists>p. get_p room c = Some p \<and> p_waiting_room_pending (p_state p)")
  case True
  then obtain p where p: "get_p room c = Some p" and w: "p_waiting_room_pending (p_state p)" by blast
  define st where "st = (p_state p)\<lparr>p_waiting_room_pending := False, p_hello_seen := True,
    p_mic_enabled := False, p_video_enabled := False, p_screen_share_enabled := False\<rparr>"
  define room1 where "room1 = (set_pstate room c st)\<lparr>r_e2ee_epochs :=
    hm_entry_or (r_e2ee_epochs (set_pstate room c st)) c 0\<rparr>"
  have upd: "members room1 = (members room)(c \<mapsto> member_of st)"
    using p by (simp add: room1_def members_set_pstate_other_fields members_set_pstate)
  have old: "members room c = Some (member_of (p_state p))"
    using p by (rule get_p_members)
  have core: "members_core cfg room1"
  proof (rule members_core_update [OF members_ok_core [OF ok] upd])
    show "\<not> m_anon (member_of st)" and "m_handle (member_of st) = None"
      using ok waiting_okD [OF _ p w] modes_okD [OF _ p]
      by (simp_all add: members_ok_def members_core_def st_def)
    show "\<forall>d n. d \<noteq> c \<and> members room d = Some n \<and> present n \<longrightarrow> m_id n \<noteq> m_id (member_of st)"
      if "\<not> r_anonymous_mode room"
      using ok old w that unfolding members_ok_def members_core_def ids_unique_def present_def
      by (fastforce simp: st_def)
  qed (use ok in \<open>simp_all add: room1_def members_ok_def members_core_def st_def\<close>)
  have result: "members_ok cfg (snd (restore_reserved_roles_on_join room1 c i))" for i
    using core members_core_fields [of "snd (restore_reserved_roles_on_join room1 c i)" room1]
    by (simp add: members_ok_def restore_exact members_core_def)
  have "snd (admit_waiting_participant at_ms room c) = bump_presence
      (if fst (restore_reserved_roles_on_join room1 c (p_participant_id st))
       then bump_permissions (snd (restore_reserved_roles_on_join room1 c (p_participant_id st)))
       else snd (restore_reserved_roles_on_join room1 c (p_participant_id st)))"
    using p w by (simp add: admit_waiting_participant_def Let_def case_prod_beta room1_def st_def)
  then show ?thesis
    by (simp add: result)
qed (use ok in \<open>auto simp: admit_waiting_participant_def split: option.split\<close>)

lemma members_ok_deny:
  assumes ok: "members_ok cfg room"
  shows "members_ok cfg (snd (deny_waiting_participant room c))"
proof -
  define room1 where "room1 = room\<lparr>r_participants := hm_remove (r_participants room) c,
    r_co_host_conn_ids := snd (hs_remove (r_co_host_conn_ids room) c),
    r_e2ee_epochs := hm_remove (r_e2ee_epochs room) c,
    r_key_rotation_ack_epochs := hm_remove (r_key_rotation_ack_epochs room) c\<rparr>"
  have "same_members (forget_conn room c) room1"
    by (rule same_members_fields) (simp_all add: room1_def forget_conn_def)
  then have ok1: "members_ok cfg room1"
    using members_ok_forget [OF ok] by (simp add: members_ok_same)
  have "members_ok cfg (snd (sync_active_co_host_bindings (room1\<lparr>r_host_conn_id := h\<rparr>)))" for h
    using members_ok_core [OF ok1] members_core_fields [of "room1\<lparr>r_host_conn_id := h\<rparr>" room1 cfg]
    by (intro members_ok_sync) simp
  moreover have "snd (deny_waiting_participant room c) =
      (case get_p room c of
         None \<Rightarrow> room
       | Some p \<Rightarrow>
           if \<not> p_waiting_room_pending (p_state p) then room
           else if r_host_conn_id room = Some c
           then snd (sync_active_co_host_bindings
             (room1\<lparr>r_host_conn_id := min_key (hm_keys (hm_remove (r_participants room) c))\<rparr>))
           else room1)"
    by (simp add: deny_waiting_participant_def Let_def room1_def split: option.split)
  ultimately show ?thesis
    using ok ok1 by (simp split: option.split)
qed

lemma members_ok_moderate_target:
  "members_ok cfg room \<Longrightarrow> members_ok cfg (snd (moderate_target action now at_ms room target eff))"
proof -
  assume ok: "members_ok cfg room"
  have "members_ok cfg (snd (disable_target f now room c eff))"
    if "\<And>st. member_of (f st) = member_of st" for f c
    using ok members_ok_same [OF same_disable_target [of f room now c eff, OF that]] by simp
  then show ?thesis
    using members_ok_admit [OF ok] members_ok_deny [OF ok] ok
    by (cases action) (simp_all add: moderate_target_def member_of_def case_prod_beta split: sum.split prod.split)
qed

text \<open>What the clock and every turn of the loop keep, a moderation keeps.\<close>

lemma moderate_targets_closed:
  assumes "\<And>room target eff. P room \<Longrightarrow> P (snd (moderate_target action now at_ms room target eff))"
  shows "P room \<Longrightarrow> P (snd (moderate_targets action now at_ms room targets eff))"
  using assms by (induction targets arbitrary: room eff) (simp_all add: case_prod_beta)

lemma moderation_closed:
  assumes "P room"
    and clock: "\<And>room tag signer label time. P room \<Longrightarrow>
      P (snd (enforce_signed_action_clock room tag signer label time))"
    and target: "\<And>room action now at_ms target eff. P room \<Longrightarrow>
      P (snd (moderate_target action now at_ms room target eff))"
  shows "P (snd (moderation_section c mo now t room))"
  using assms(1) by (simp add: moderation_section_def validate_moderation_sender_clock_def case_prod_beta
      clock moderate_targets_closed [of P, OF target] split: option.split sum.split)

lemma members_ok_moderation:
  "members_ok cfg room \<Longrightarrow> members_ok cfg (snd (moderation_section c mo now t room))"
  by (rule moderation_closed)
    (simp_all add: members_ok_moderate_target members_ok_same [OF same_clock])

lemma claim_fields [simp]:
  "r_participants (claim_free_host room c i) = r_participants room"
  "r_anonymous_mode (claim_free_host room c i) = r_anonymous_mode room"
  "members (claim_free_host room c i) = members room"
  by (simp_all add: claim_free_host_def members_cong [of "claim_free_host room c i" room, symmetric]
      members_def fun_eq_iff)

lemma members_ok_claim: "members_ok cfg room \<Longrightarrow> members_ok cfg (claim_free_host room c i)"
  using members_core_fields [of "room\<lparr>r_host_conn_id := Some c, r_host_role_owner := Some i\<rparr>" room cfg]
  by (simp add: claim_free_host_def members_ok_sync members_ok_core)

lemma join_allowed_unique:
  assumes "validate_join_allowed room c i = None" and "hm_ok (r_participants room)"
  shows "\<forall>d n. d \<noteq> c \<and> members room d = Some n \<and> present n \<longrightarrow> m_id n \<noteq> i"
proof -
  have "\<not> list_ex (\<lambda>(d, p). d \<noteq> c \<and> (p_hello_seen (p_state p) \<or> p_waiting_room_pending (p_state p))
      \<and> p_participant_id (p_state p) = i) (r_participants room)"
    using assms(1) by (auto simp: validate_join_allowed_def split: if_splits)
  then show ?thesis
    using hm_get_mem [OF assms(2)] by (auto simp: members_Some present_def list_ex_iff)
qed

lemma hello_state_member [simp]:
  "member_of (hello_state st he w) = \<lparr>m_id = he_participant_id he, m_waiting = w, m_hello = \<not> w,
     m_anon = False, m_handle = None\<rparr>"
  by (simp add: hello_state_def member_of_def)

lemma hello_joined_fields [simp]:
  "r_participants (hello_joined_room room c i) = r_participants room"
  "r_anonymous_mode (hello_joined_room room c i) = r_anonymous_mode room"
  by (simp_all add: hello_joined_room_def Let_def case_prod_beta)

lemma hello_joined_exact: "hm_ok (r_participants room) \<Longrightarrow> co_hosts_exact (hello_joined_room room c i)"
  by (simp add: hello_joined_room_def Let_def case_prod_beta restore_exact)

lemma hello_section_room:
  "snd (hello_section c he t room) =
     (if r_anonymous_mode room \<or> validate_join_allowed room c (he_participant_id he) \<noteq> None then room
      else
        let room1 = claim_free_host room c (he_participant_id he);
            waits = (\<not> joined_in room1 c \<and> r_waiting_room_enabled room1 \<and> r_host_conn_id room1 \<noteq> None
              \<and> \<not> conn_or_participant_can_moderate room1 c (he_participant_id he)) in
        case get_p room1 c of
          None \<Rightarrow> room1
        | Some p \<Rightarrow>
            if waits then set_pstate room1 c (hello_state (p_state p) he True)
            else hello_joined_room (set_pstate room1 c (hello_state (p_state p) he False)) c (he_participant_id he))"
proof -
  define waits where "waits = (let room1 = claim_free_host room c (he_participant_id he) in
     \<not> joined_in room1 c \<and> r_waiting_room_enabled room1 \<and> r_host_conn_id room1 \<noteq> None
     \<and> \<not> conn_or_participant_can_moderate room1 c (he_participant_id he))"
  show ?thesis
    unfolding hello_section_def Let_def waits_def [unfolded Let_def, symmetric]
    by (cases waits) (simp_all split: option.split)
qed

lemma members_ok_hello:
  assumes ok: "members_ok cfg room"
  shows "members_ok cfg (snd (hello_section c he t room))"
proof (cases "r_anonymous_mode room \<or> validate_join_allowed room c (he_participant_id he) \<noteq> None")
  case True
  then show ?thesis using ok by (simp add: hello_section_room)
next
  case False
  let ?i = "he_participant_id he"
  define room1 where "room1 = claim_free_host room c ?i"
  have ok1: "members_ok cfg room1"
    using ok by (simp add: room1_def members_ok_claim)
  have members1: "members room1 = members room"
    by (simp add: room1_def)
  show ?thesis
  proof (cases "get_p room1 c")
    case None
    then show ?thesis using False ok1 by (simp add: hello_section_room room1_def [symmetric])
  next
    case (Some p)
    have core: "members_core cfg (set_pstate room1 c (hello_state (p_state p) he w))" for w
    proof (rule members_core_update [OF members_ok_core [OF ok1]])
      show "members (set_pstate room1 c (hello_state (p_state p) he w)) =
          (members room1)(c \<mapsto> member_of (hello_state (p_state p) he w))"
        using Some by (simp add: members_set_pstate)
      show "\<forall>d n. d \<noteq> c \<and> members room1 d = Some n \<and> present n
          \<longrightarrow> m_id n \<noteq> m_id (member_of (hello_state (p_state p) he w))"
        using join_allowed_unique [of room c ?i] False ok
        by (simp add: members1 members_ok_def members_core_def)
    qed (use ok1 in \<open>simp_all add: members_ok_def members_core_def\<close>)
    have waits: "members_ok cfg (set_pstate room1 c (hello_state (p_state p) he True))"
      using core [of True] ok1 Some
      unfolding members_ok_def co_hosts_exact_def by (simp add: members_set_pstate)
    have "members_ok cfg (hello_joined_room (set_pstate room1 c (hello_state (p_state p) he False)) c ?i)"
      using core [of False] members_core_fields
        [of "hello_joined_room (set_pstate room1 c (hello_state (p_state p) he False)) c ?i"
            "set_pstate room1 c (hello_state (p_state p) he False)" cfg]
      by (simp add: members_ok_def hello_joined_exact members_core_def)
    then show ?thesis
      using waits False Some by (simp add: hello_section_room room1_def [symmetric] Let_def)
  qed
qed

lemma active_anon_card: "hm_ok (r_participants room) \<Longrightarrow> active_anon room = card (anon_conns room)"
proof -
  assume ok: "hm_ok (r_participants room)"
  let ?es = "filter (\<lambda>e. p_anonymous_mode (p_state (snd e)) \<and> p_hello_seen (p_state (snd e))) (r_participants room)"
  have "distinct (map fst ?es)"
    using ok by (simp add: hm_ok_def hm_keys_def distinct_map inj_on_def)
  moreover have "set (map fst ?es) = anon_conns room"
    using hm_get_mem [OF ok] by (force simp: anon_conns_def members_Some)
  ultimately have "card (anon_conns room) = length ?es"
    using distinct_card [of "map fst ?es"] by simp
  then show ?thesis
    by (simp add: active_anon_def filter_map comp_def)
qed

lemma anon_hello_stateD:
  "apply_anon_hello_state st ah now = Inr st' \<Longrightarrow>
     member_of st' = \<lparr>m_id = p_participant_id st, m_waiting = False, m_hello = True, m_anon = True,
       m_handle = Some (ah_participant_handle ah)\<rparr>"
  by (auto simp: apply_anon_hello_state_def Let_def member_of_def split: if_splits)

lemma handle_free:
  assumes "validate_anon_participant_handle room c h = None" and "hm_ok (r_participants room)"
  shows "\<forall>d n. d \<noteq> c \<and> members room d = Some n \<and> m_anon n \<longrightarrow> m_handle n \<noteq> Some h"
proof -
  have "\<not> list_ex (\<lambda>(d, p). d \<noteq> c \<and> p_anonymous_mode (p_state p)
      \<and> p_participant_handle (p_state p) = Some h) (r_participants room)"
    using assms(1) by (auto simp: validate_anon_participant_handle_def split: if_splits)
  then show ?thesis
    using hm_get_mem [OF assms(2)] by (auto simp: members_Some list_ex_iff)
qed

lemma anon_conns_iff:
  "c \<in> anon_conns room \<longleftrightarrow> (case get_p room c of None \<Rightarrow> False
     | Some p \<Rightarrow> p_anonymous_mode (p_state p) \<and> p_hello_seen (p_state p))"
  by (auto simp: anon_conns_def members_def split: option.split)

lemma capacity_left:
  assumes "validate_anonymous_room_capacity room c cap = None" and "hm_ok (r_participants room)"
    and "card (anon_conns room) \<le> cap"
  shows "card (insert c (anon_conns room)) \<le> cap"
proof (cases "c \<in> anon_conns room")
  case True
  then show ?thesis using assms(3) by (simp add: insert_absorb)
next
  case False
  then have "\<not> (case get_p room c of None \<Rightarrow> False
      | Some participant \<Rightarrow> p_anonymous_mode (p_state participant) \<and> p_hello_seen (p_state participant))"
    by (simp only: anon_conns_iff not_False_eq_True)
  then have "active_anon room < cap"
    using assms(1) by (simp add: validate_anonymous_room_capacity_def not_le split: if_splits)
  then show ?thesis
    using False finite_anon_conns active_anon_card [OF assms(2)] by simp
qed

lemma members_ok_anon_admit:
  assumes ok: "members_ok cfg room"
    and free: "validate_anon_participant_handle room c (ah_participant_handle ah) = None"
    and room_left: "validate_anonymous_room_capacity room c (anon_max_participants cfg) = None"
  shows "members_ok cfg (snd (anon_admit X t room c ah rate))"
proof (cases "\<exists>p st. get_p room c = Some p \<and> apply_anon_hello_state (p_state p) ah (t 0) = Inr st")
  case True
  then obtain p st where p: "get_p room c = Some p" and st: "apply_anon_hello_state (p_state p) ah (t 0) = Inr st"
    by blast
  define room1 where "room1 = (set_pstate room c st)\<lparr>r_rate_per_minute_nano := rate, r_anonymous_mode := True\<rparr>"
  have upd: "members room1 = (members room)(c \<mapsto> member_of st)"
    using p members_cong [of room1 "set_pstate room c st"] by (simp add: room1_def members_set_pstate)
  have anon: "r_anonymous_mode room1"
    by (simp add: room1_def)
  have hm: "hm_ok (r_participants room)"
    using ok by (simp add: members_ok_def members_core_def)
  have handles: "handles_unique room1"
    unfolding handles_unique_def
  proof (intro allI impI)
    fix c' d m n h
    assume a: "members room1 c' = Some m \<and> members room1 d = Some n \<and> m_handle m = Some h \<and> m_handle n = Some h"
    have "handles_unique room" and "modes_ok room"
      using ok by (simp_all add: members_ok_def members_core_def)
    then have old: "members room e = Some k \<Longrightarrow> m_handle k = Some (ah_participant_handle ah) \<Longrightarrow> e = c" for e k
      using handle_free [OF free hm] unfolding modes_ok_def by blast
    have mine: "m_handle (member_of st) = Some (ah_participant_handle ah)"
      by (simp only: anon_hello_stateD [OF st] member.simps)
    show "c' = d"
    proof (cases "c' = c \<or> d = c")
      case True
      then show ?thesis using a old mine unfolding upd by (auto split: if_splits)
    next
      case False
      then show ?thesis using a \<open>handles_unique room\<close> unfolding upd handles_unique_def by auto
    qed
  qed
  have "anon_conns room1 = insert c (anon_conns room)"
    using anon_hello_stateD [OF st] by (auto simp: anon_conns_def upd)
  then have "anon_capped cfg room1"
    using ok capacity_left [OF room_left hm] by (simp add: members_ok_def members_core_def anon_capped_def)
  moreover have "waiting_ok room1" and "modes_ok room1"
    using ok anon_hello_stateD [OF st] anon
    by (auto simp: members_ok_def members_core_def waiting_ok_def modes_ok_def upd)
  ultimately have "members_ok cfg room1"
    using handles hm anon
    by (simp add: members_ok_def members_core_def ids_unique_def co_hosts_exact_def room1_def)
  moreover have "snd (anon_admit X t room c ah rate) = bump_permissions room1"
    using p st by (simp add: anon_admit_def Let_def build_anon_group_key_rotate_frame_def room1_def)
  ultimately show ?thesis by simp
qed (use ok in \<open>auto simp: anon_admit_def Let_def split: option.split sum.split\<close>)

lemma members_ok_anon_hello:
  assumes ok: "members_ok cfg room"
  shows "members_ok cfg (snd (anon_hello_section X cfg c ah t room))"
proof -
  have "same_members room (snd (record_anon_admission_rejection room))"
    by (auto simp: record_anon_admission_rejection_def Let_def intro: same_members_fields)
  then have "members_ok cfg (snd (record_anon_admission_rejection room))"
    using ok by (simp add: members_ok_same)
  then show ?thesis
    using ok members_ok_anon_admit [OF ok]
    by (simp add: anon_hello_section_def split: option.split sum.split)
qed

lemma members_ok_step: "room_step X cfg room room' \<Longrightarrow> members_ok cfg room \<Longrightarrow> members_ok cfg room'"
  by (induction rule: room_step.induct)
    (simp_all add: members_ok_join members_ok_leave members_ok_anon_hello members_ok_hello
      members_ok_role_grant members_ok_role_revoke members_ok_moderation
      members_ok_same [OF same_group_key] members_ok_same [OF same_escrow] members_ok_same [OF same_rotate]
      members_ok_same [OF same_participant_state] members_ok_same [OF same_media_track]
      members_ok_same [OF same_room_config] members_ok_same [OF same_session_policy]
      members_ok_same [OF same_device] members_ok_same [OF same_e2ee] members_ok_same [OF same_key_ack]
      members_ok_same [OF same_payment] members_ok_same [OF same_billing] members_ok_same [OF same_backpressure])

interpretation membership: room_contract X cfg "members_ok cfg" for X cfg
  by unfold_locales (fact members_ok_new, fact members_ok_step)

section \<open>Properties of every reachable room\<close>

lemma entry_get: "hm_ok m \<Longrightarrow> (k, v) \<in> set m \<longleftrightarrow> hm_get m k = Some v"
  by (simp add: hm_get_mem)

lemma reachable_members:
  "hub_reachable X cfg w \<Longrightarrow> hm_get (h_rooms w) rid = Some room \<Longrightarrow> members_ok cfg room"
  by (rule membership.reachable_inv)

lemma members_okD:
  assumes "members_ok cfg room"
  shows "hm_ok (r_participants room)" "ids_unique room" "waiting_ok room" "co_hosts_exact room"
    "modes_ok room" "handles_unique room" "anon_capped cfg room"
  using assms by (simp_all add: members_ok_def members_core_def)

text \<open>C1. In every hub state that any interleaving of connections, billing checks and writers can reach,
  two participants of a transparent room who have joined or wait for admission have different
  participant ids.\<close>

theorem identities_unique:
  assumes "hub_reachable X cfg w" and "hm_get (h_rooms w) rid = Some room" and "\<not> r_anonymous_mode room"
    and "get_p room c = Some p" and "get_p room d = Some q" and "c \<noteq> d"
    and "p_hello_seen (p_state p) \<or> p_waiting_room_pending (p_state p)"
    and "p_hello_seen (p_state q) \<or> p_waiting_room_pending (p_state q)"
  shows "p_participant_id (p_state p) \<noteq> p_participant_id (p_state q)"
  using members_okD(2) [OF reachable_members [OF assms(1,2)]] assms(3-)
    get_p_members [OF assms(4)] get_p_members [OF assms(5)]
  unfolding ids_unique_def present_def by (metis member_of_sel)

lemma identities_unique_witness:
  "\<exists>p q. get_p demo_pair 1 = Some p \<and> get_p demo_pair 2 = Some q
     \<and> p_participant_id (p_state p) \<noteq> p_participant_id (p_state q)"
proof -
  obtain p q where e: "r_participants demo_pair = [(1, p), (2, q)]"
      and h: "p_hello_seen (p_state p)" "p_hello_seen (p_state q)"
    using demo_pair_entries by blast
  have g: "get_p demo_pair 1 = Some p" "get_p demo_pair 2 = Some q"
    by (simp_all add: e hm_get_def)
  show ?thesis
    using identities_unique [OF demo_reachable demo_pair_reached demo_pair_facts(1) g] h g by auto
qed

section \<open>Co-host bindings\<close>

text \<open>A connection number comes from a 64-bit counter that wraps. Only a number that is given out again while its
  first connection is joined can make that connection's participant unjoined without leaving.\<close>

definition keeps_joined :: "room_state \<Rightarrow> room_state \<Rightarrow> bool" where
  "keeps_joined room room' \<longleftrightarrow> list_all (\<lambda>(c, p). p_hello_seen (p_state p) \<longrightarrow>
     (case get_p room' c of None \<Rightarrow> True | Some q \<Rightarrow> p_hello_seen (p_state q))) (r_participants room)"

definition numbered_once :: "ext \<Rightarrow> hub_config \<Rightarrow> room_state \<Rightarrow> bool" where
  \<comment> \<open>the room came about without a second use of a number\<close>
  "numbered_once X cfg room \<longleftrightarrow>
     (\<exists>rate. (\<lambda>a b. room_step X cfg a b \<and> keeps_joined a b)\<^sup>*\<^sup>* (new_room rate) room)"

definition bound_joined :: "room_state \<Rightarrow> bool" where
  "bound_joined room \<longleftrightarrow> (\<forall>c \<in> set (r_co_host_conn_ids room). joined_in room c)"

lemma keeps_joinedD: "keeps_joined room room' \<Longrightarrow> joined_in room c \<Longrightarrow> get_p room' c \<noteq> None \<Longrightarrow> joined_in room' c"
  using hm_get_memD [of "r_participants room" c]
  by (fastforce simp: keeps_joined_def list_all_iff joined_in_def split: option.splits)

lemma joined_members: "joined_in room c \<longleftrightarrow> (case members room c of None \<Rightarrow> False | Some m \<Rightarrow> m_hello m)"
  by (simp add: joined_in_def members_def split: option.split)

lemma bound_same: "same_members room room' \<Longrightarrow> bound_joined room \<Longrightarrow> bound_joined room'"
  by (simp add: bound_joined_def joined_members same_members_def)

lemma bound_sync [simp]: "bound_joined (snd (sync_active_co_host_bindings room))" if "hm_ok (r_participants room)"
  using that by (auto simp: bound_joined_def co_bound_def joined_members members_def split: option.splits)

lemma bound_bump [simp]:
  "bound_joined (bump_permissions room) = bound_joined room" "bound_joined (bump_presence room) = bound_joined room"
  by (simp_all add: bound_joined_def joined_in_def bump_permissions_def bump_presence_def)

lemma bound_update:
  assumes "bound_joined room" and "r_co_host_conn_ids room' = r_co_host_conn_ids room"
    and "members room' = (members room)(c \<mapsto> m)" and "joined_in room c \<Longrightarrow> m_hello m"
  shows "bound_joined room'"
  using assms by (auto simp: bound_joined_def joined_members split: option.splits)

lemma bound_remove:
  assumes "bound_joined room" and "set (r_co_host_conn_ids room') = set (r_co_host_conn_ids room) - {c}"
    and "members room' = (members room)(c := None)"
  shows "bound_joined room'"
  using assms by (auto simp: bound_joined_def joined_members)

lemma bound_leave:
  assumes "hm_ok (r_participants room)" and "bound_joined room"
  shows "bound_joined (snd (disconnect_section c t room))"
proof -
  have gone: "bound_joined (forget_conn room c)"
    by (rule bound_remove [OF assms(2) _ forget_conn_members]) (simp add: forget_conn_def)
  have "hm_ok (r_participants (forget_conn room c))"
    using assms(1) by (simp add: forget_conn_def hm_simps)
  then have "bound_joined (reassign_host (forget_conn room c) c)"
    using gone by (simp add: reassign_host_def)
  then show ?thesis
    using gone by (simp add: disconnect_section_def Let_def)
qed

lemma bound_join: "bound_joined room \<Longrightarrow> keeps_joined room (join_section c at_ms room) \<Longrightarrow>
    bound_joined (join_section c at_ms room)"
proof (rule bound_update [where c = c and room = room and m = "member_of (new_participant_state c at_ms)"])
  assume kept: "keeps_joined room (join_section c at_ms room)"
  have new: "get_p (join_section c at_ms room) c = Some (new_participant c at_ms)"
    by (simp add: join_section_def hm_simps)
  show "m_hello (member_of (new_participant_state c at_ms))" if "joined_in room c"
    using keeps_joinedD [OF kept that] new by (simp add: joined_in_def new_participant_def)
  show "members (join_section c at_ms room) = (members room)(c \<mapsto> member_of (new_participant_state c at_ms))"
    by (auto simp: members_def join_section_def new_participant_def hm_simps fun_eq_iff)
qed (simp_all add: join_section_def)

lemma bound_grant_effect: "hm_ok (r_participants room) \<Longrightarrow> bound_joined (snd (grant_effect room c rg))"
  by (auto simp: grant_effect_def Let_def case_prod_beta split: role_kind.split)

lemma bound_revoke_effect: "hm_ok (r_participants room) \<Longrightarrow> bound_joined (snd (revoke_effect room c rr))"
  by (auto simp: revoke_effect_def Let_def case_prod_beta)

lemma bound_role_delta [simp]: "bound_joined (snd (role_delta t room rc)) = bound_joined room"
  by (simp add: role_delta_def Let_def split: option.split)

lemma bound_role_grant:
  assumes "hm_ok (r_participants room)" and "bound_joined room"
  shows "bound_joined (snd (role_grant_section X c rg t room))"
proof -
  obtain r room' where eq: "apply_role_grant X room c rg = (r, room')" by fastforce
  then show ?thesis
  proof (cases rule: apply_role_grant_cases)
    case (2 oc room1 target sender)
    have "hm_ok (r_participants room1)" using assms(1) same_clockD [OF 2(3)] by (simp add: same_members_def)
    from bound_grant_effect [OF this] show ?thesis
      using eq 2(1,2) by (simp add: role_grant_section_def case_prod_beta) (metis snd_conv)
  qed (use assms(2) eq in \<open>simp add: role_grant_section_def\<close>)
qed

lemma bound_role_revoke:
  assumes "hm_ok (r_participants room)" and "bound_joined room"
  shows "bound_joined (snd (role_revoke_section X c rr t room))"
proof -
  obtain r room' where eq: "apply_role_revoke X room c rr = (r, room')" by fastforce
  then show ?thesis
  proof (cases rule: apply_role_revoke_cases)
    case (2 oc room1 target sender)
    have "hm_ok (r_participants room1)" using assms(1) same_clockD [OF 2(3)] by (simp add: same_members_def)
    from bound_revoke_effect [OF this] show ?thesis
      using eq 2(1,2) by (simp add: role_revoke_section_def case_prod_beta) (metis snd_conv)
  qed (use assms(2) eq in \<open>simp add: role_revoke_section_def\<close>)
qed

lemma bound_restore: "hm_ok (r_participants room) \<Longrightarrow> bound_joined (snd (restore_reserved_roles_on_join room c i))"
  by (simp add: restore_reserved_roles_on_join_def Let_def case_prod_beta)

lemma bound_hello:
  assumes ok: "hm_ok (r_participants room)" and bound: "bound_joined room"
  shows "bound_joined (snd (hello_section c he t room))"
proof -
  let ?room1 = "claim_free_host room c (he_participant_id he)"
  have b1: "bound_joined ?room1" using ok bound by (simp add: claim_free_host_def)
  have joined: "bound_joined (hello_joined_room room2 c i)" if "hm_ok (r_participants room2)" for room2 i
    using that by (simp add: hello_joined_room_def Let_def case_prod_beta bound_restore)
  have waits: "bound_joined (set_pstate ?room1 c (hello_state (p_state p) he True))"
    if "\<not> joined_in ?room1 c" and "get_p ?room1 c = Some p" for p
    using that by (intro bound_update [OF b1 _ members_set_pstate]) simp_all
  show ?thesis
    using ok bound b1 waits by (simp add: hello_section_room Let_def joined split: option.split)
qed

lemma bound_anon_hello:
  assumes bound: "bound_joined room"
  shows "bound_joined (snd (anon_hello_section X cfg c ah t room))"
proof -
  have admit: "bound_joined (snd (anon_admit X t room c ah rate))" for rate
  proof (cases "\<exists>p st. get_p room c = Some p \<and> apply_anon_hello_state (p_state p) ah (t 0) = Inr st")
    case True
    then obtain p st where p: "get_p room c = Some p" and st: "apply_anon_hello_state (p_state p) ah (t 0) = Inr st"
      by blast
    have "bound_joined (set_pstate room c st)"
      using p anon_hello_stateD [OF st] by (intro bound_update [OF bound _ members_set_pstate]) simp_all
    then have "bound_joined ((set_pstate room c st)\<lparr>r_rate_per_minute_nano := rate, r_anonymous_mode := True\<rparr>)"
      by (simp add: bound_joined_def joined_in_def)
    then show ?thesis
      using p st by (simp add: anon_admit_def Let_def build_anon_group_key_rotate_frame_def)
  qed (use bound in \<open>auto simp: anon_admit_def Let_def split: option.split sum.split\<close>)
  have "same_members room (snd (record_anon_admission_rejection room))"
    by (auto simp: record_anon_admission_rejection_def Let_def intro: same_members_fields)
  from bound_same [OF this bound] show ?thesis
    using bound admit by (simp add: anon_hello_section_def split: option.split sum.split)
qed

lemma bound_admit:
  assumes ok: "hm_ok (r_participants room)" and bound: "bound_joined room"
  shows "bound_joined (snd (admit_waiting_participant at_ms room c))"
  using ok bound by (simp add: admit_waiting_participant_def Let_def case_prod_beta bound_restore split: option.split)

lemma bound_deny:
  assumes ok: "hm_ok (r_participants room)" and bound: "bound_joined room"
  shows "bound_joined (snd (deny_waiting_participant room c))"
proof -
  let ?room1 = "room\<lparr>r_participants := hm_remove (r_participants room) c,
    r_co_host_conn_ids := snd (hs_remove (r_co_host_conn_ids room) c),
    r_e2ee_epochs := hm_remove (r_e2ee_epochs room) c,
    r_key_rotation_ack_epochs := hm_remove (r_key_rotation_ack_epochs room) c\<rparr>"
  have "members ?room1 = (members room)(c := None)"
    by (auto simp: members_def hm_simps fun_eq_iff)
  then have "bound_joined ?room1"
    by (intro bound_remove [OF bound]) simp_all
  then show ?thesis
    using ok bound by (simp add: deny_waiting_participant_def Let_def hm_simps split: option.split)
qed

lemma bound_moderate_target:
  "hm_ok (r_participants room) \<and> bound_joined room \<Longrightarrow>
     hm_ok (r_participants (snd (moderate_target action now at_ms room target eff)))
     \<and> bound_joined (snd (moderate_target action now at_ms room target eff))"
proof -
  assume ok: "hm_ok (r_participants room) \<and> bound_joined room"
  have "hm_ok (r_participants (snd (disable_target f now room c eff))) \<and> bound_joined (snd (disable_target f now room c eff))"
    if "\<And>st. member_of (f st) = member_of st" for f c
    using ok same_disable_target [of f room now c eff, OF that] bound_same by (auto simp: same_members_def)
  moreover have "hm_ok (r_participants (snd (admit_waiting_participant at_ms room (fst target))))"
    using ok by (simp add: admit_waiting_participant_def Let_def case_prod_beta split: option.split)
  moreover have "hm_ok (r_participants (snd (deny_waiting_participant room (fst target))))"
    using ok by (simp add: deny_waiting_participant_def Let_def hm_simps split: option.split)
  ultimately show ?thesis
    using ok bound_admit bound_deny
    by (cases action) (simp_all add: moderate_target_def member_of_def case_prod_beta split: sum.split prod.split)
qed

lemma bound_moderation:
  assumes "hm_ok (r_participants room)" and "bound_joined room"
  shows "bound_joined (snd (moderation_section c mo now t room))"
proof -
  have "hm_ok (r_participants (snd (moderation_section c mo now t room)))
     \<and> bound_joined (snd (moderation_section c mo now t room))"
  proof (rule moderation_closed [where P = "\<lambda>room. hm_ok (r_participants room) \<and> bound_joined room"])
    show "hm_ok (r_participants (snd (enforce_signed_action_clock room tag signer label time)))
        \<and> bound_joined (snd (enforce_signed_action_clock room tag signer label time))"
      if "hm_ok (r_participants room) \<and> bound_joined room" for room tag signer label time
      using that bound_same [OF same_clock] same_clock [of room tag signer label time] by (simp add: same_members_def)
  qed (use assms bound_moderate_target in auto)
  then show ?thesis by blast
qed

lemma bound_step:
  assumes "room_step X cfg room room'" and "keeps_joined room room'" and "members_ok cfg room" and "bound_joined room"
  shows "bound_joined room'"
proof -
  have hm: "hm_ok (r_participants room)" using assms(3) by (simp add: members_ok_def members_core_def)
  show ?thesis
    using assms(1)
  proof cases
    case (step_join c at_ms)
    then show ?thesis using bound_join assms(2,4) by simp
  qed (simp_all add: bound_leave bound_anon_hello bound_hello bound_role_grant bound_role_revoke bound_moderation
      hm assms(4) same_sections [THEN bound_same [OF _ assms(4)]])
qed

lemma bound_reached: "numbered_once X cfg room \<Longrightarrow> members_ok cfg room \<and> bound_joined room"
proof -
  have "members_ok cfg room \<and> bound_joined room"
    if "(\<lambda>a b. room_step X cfg a b \<and> keeps_joined a b)\<^sup>*\<^sup>* (new_room rate) room" for rate
    using that
  proof (induction rule: rtranclp_induct)
    case base
    show ?case using members_ok_new by (simp add: bound_joined_def new_room_def)
  next
    case (step a b)
    then show ?case using members_ok_step [of X cfg a b] bound_step [of X cfg a b] by blast
  qed
  then show "numbered_once X cfg room \<Longrightarrow> members_ok cfg room \<and> bound_joined room"
    unfolding numbered_once_def by blast
qed

text \<open>C4. In every reachable transparent room, a joined participant has the role of co-host exactly when the room does
  not list it as host and its participant id is one of the reserved co-hosts. And nobody else is bound: unless a
  connection number was given out twice, the connections bound as co-hosts are exactly those joined participants, so
  no waiting and no absent connection keeps or gains moderation rights.\<close>

theorem co_host_role_exact:
  assumes "hub_reachable X cfg w" and "hm_get (h_rooms w) rid = Some room" and "\<not> r_anonymous_mode room"
  shows "(\<forall>c p. get_p room c = Some p \<and> p_hello_seen (p_state p) \<longrightarrow>
       (role_kind_for_conn room c = Role_CoHost \<longleftrightarrow>
          r_host_conn_id room \<noteq> Some c \<and> p_participant_id (p_state p) \<in> set (r_co_host_role_owners room)))
     \<and> (numbered_once X cfg room \<longrightarrow> set (r_co_host_conn_ids room) =
          {c. \<exists>p. get_p room c = Some p \<and> p_hello_seen (p_state p) \<and> r_host_conn_id room \<noteq> Some c
             \<and> p_participant_id (p_state p) \<in> set (r_co_host_role_owners room)})"
proof -
  have bound: "c \<in> set (r_co_host_conn_ids room) \<longleftrightarrow> r_host_conn_id room \<noteq> Some c
      \<and> p_participant_id (p_state p) \<in> set (r_co_host_role_owners room)"
    if "get_p room c = Some p" and "p_hello_seen (p_state p)" for c p
    using members_okD(4) [OF reachable_members [OF assms(1,2)]] assms(3) that(2) get_p_members [OF that(1)]
    unfolding co_hosts_exact_def by (metis member_of_sel(1,3))
  have role: "role_kind_for_conn room c = Role_CoHost \<longleftrightarrow>
      r_host_conn_id room \<noteq> Some c \<and> c \<in> set (r_co_host_conn_ids room)" for c
    by (simp add: role_kind_for_conn_def)
  have "\<exists>p. get_p room c = Some p \<and> p_hello_seen (p_state p)"
    if "numbered_once X cfg room" and "c \<in> set (r_co_host_conn_ids room)" for c
    using bound_reached [OF that(1)] that(2) by (auto simp: bound_joined_def joined_in_def split: option.splits)
  then show ?thesis
    unfolding role using bound by blast
qed

lemma demo_pair_numbered: "numbered_once hub_ext demo_cfg demo_pair"
proof -
  let ?R = "\<lambda>a b. room_step hub_ext demo_cfg a b \<and> keeps_joined a b"
  define r1 where "r1 = demo_join 1 0 (new_room 1000000)"
  define r2 where "r2 = snd (hello_section 1 (snd (enforce_join_media_defaults (demo_hello ''a@x''))) (demo_clock 1) r1)"
  define r3 where "r3 = demo_join 2 5 r2"
  have r4: "demo_pair = snd (hello_section 2 (snd (enforce_join_media_defaults (demo_hello ''b@x''))) (demo_clock 6) r3)"
    by (simp add: demo_pair_def r1_def r2_def r3_def Let_def)
  have kept: "keeps_joined (new_room 1000000) r1" "keeps_joined r1 r2" "keeps_joined r2 r3" "keeps_joined r3 demo_pair"
    unfolding r1_def r2_def r3_def by code_simp+
  have path: "?R (new_room 1000000) r1" "?R r1 r2" "?R r2 r3" "?R r3 demo_pair"
    using kept unfolding r4 r3_def demo_join_def r2_def
    by (auto simp: r1_def demo_join_def intro: step_join step_hello)
  have "?R\<^sup>*\<^sup>* (new_room 1000000) demo_pair"
    using converse_rtranclp_into_rtranclp [of ?R, OF path(1) converse_rtranclp_into_rtranclp [of ?R, OF path(2)
      converse_rtranclp_into_rtranclp [of ?R, OF path(3) r_into_rtranclp [of ?R, OF path(4)]]]] .
  then show ?thesis
    unfolding numbered_once_def by blast
qed

lemma co_host_role_exact_witness:
  "role_kind_for_conn demo_pair 2 = Role_Participant \<and> set (r_co_host_conn_ids demo_pair) =
     {c. \<exists>p. get_p demo_pair c = Some p \<and> p_hello_seen (p_state p) \<and> r_host_conn_id demo_pair \<noteq> Some c
        \<and> p_participant_id (p_state p) \<in> set (r_co_host_role_owners demo_pair)}"
proof -
  have "role_kind_for_conn demo_pair 2 = Role_Participant" by code_simp
  then show ?thesis
    using co_host_role_exact [OF demo_reachable demo_pair_reached demo_pair_facts(1)] demo_pair_numbered by blast
qed

text \<open>In every reachable room, a participant in the waiting room has not joined and is not
  anonymous.\<close>

theorem waiting_means_outside:
  assumes "hub_reachable X cfg w" and "hm_get (h_rooms w) rid = Some room"
  shows "list_all (\<lambda>(c, p). \<not> (p_waiting_room_pending (p_state p)
     \<and> (p_hello_seen (p_state p) \<or> p_anonymous_mode (p_state p)))) (r_participants room)"
  using members_okD(1,3) [OF reachable_members [OF assms]] waiting_okD [of room]
  by (auto simp: list_all_iff entry_get)

lemma waiting_means_outside_witness:
  "list_all (\<lambda>(c, p). \<not> (p_waiting_room_pending (p_state p)
     \<and> (p_hello_seen (p_state p) \<or> p_anonymous_mode (p_state p)))) (r_participants demo_pair)"
  by (rule waiting_means_outside [OF demo_reachable demo_pair_reached])

lemma distinct_map_filter:
  "distinct (map fst es) \<Longrightarrow>
   (\<And>c p d q h. (c, p) \<in> set es \<Longrightarrow> (d, q) \<in> set es \<Longrightarrow> f p = Some h \<Longrightarrow> f q = Some h \<Longrightarrow> c = d) \<Longrightarrow>
   distinct (List.map_filter f (map snd es))"
proof (induction es)
  case Nil
  then show ?case by (simp add: map_filter_def)
next
  case (Cons e es)
  obtain c p where e: "e = (c, p)" by (cases e)
  have IH: "distinct (List.map_filter f (map snd es))"
  proof (rule Cons.IH)
    show "distinct (map fst es)" using Cons.prems(1) by simp
    show "a = b" if "(a, p) \<in> set es" "(b, q) \<in> set es" "f p = Some h" "f q = Some h" for a p b q h
      using Cons.prems(2) [of a p b q h] that by simp
  qed
  have "h \<notin> set (List.map_filter f (map snd es))" if "f p = Some h" for h
    using Cons.prems(1) Cons.prems(2) [of c p _ _ h] that e by (force simp: map_filter_def)
  with IH show ?case
    by (auto simp: e List.map_filter_simps split: option.split)
qed

lemma active_anon_reached:
  assumes "hub_reachable X cfg w" and "hm_get (h_rooms w) rid = Some room"
  shows "active_anon room \<le> anon_max_participants cfg"
proof -
  note ok = members_okD [OF reachable_members [OF assms]]
  show ?thesis
    using ok(7) active_anon_card [OF ok(1)] by (simp add: anon_capped_def)
qed

lemma handles_distinct:
  assumes "members_ok cfg room"
  shows "distinct (List.map_filter p_participant_handle (p_states room))"
proof -
  note ok = members_okD [OF assms]
  have "distinct (List.map_filter (p_participant_handle \<circ> p_state) (map snd (r_participants room)))"
  proof (rule distinct_map_filter)
    show "distinct (map fst (r_participants room))"
      using ok(1) by (simp add: hm_ok_def hm_keys_def)
    show "c = d" if "(c, p) \<in> set (r_participants room)" "(d, q) \<in> set (r_participants room)"
        "(p_participant_handle \<circ> p_state) p = Some h" "(p_participant_handle \<circ> p_state) q = Some h" for c p d q h
      using ok(6) that unfolding handles_unique_def entry_get [OF ok(1)]
      by (auto dest!: get_p_members)
  qed
  then show ?thesis
    by (simp add: map_filter_def filter_map comp_def)
qed

end
