(* ===== verification/Hub_Epochs.thy ===== *)
theory Hub_Epochs
  imports Hub_Members
begin

text \<open>
  What only grows in a room: the signer clocks, the policy, permissions and presence counters, the
  anonymous mode; and what stays in bounds: acknowledged key epochs, the rate, the share limit.
  \<open>advances\<close> is a preorder on rooms that every section respects, so it holds between any two states
  in a room's life; with it no section accepts a signed action a second time.
\<close>

definition clock_of :: "room_state \<Rightarrow> string \<Rightarrow> u64" where
  "clock_of room key = hm_get_or0 (r_signed_action_clock_by_signer room) key"

definition key_epoch_of :: "room_state \<Rightarrow> conn_id \<Rightarrow> u64" where
  "key_epoch_of room c = hm_get_or0 (r_e2ee_epochs room) c"

definition ack_epoch_of :: "room_state \<Rightarrow> conn_id \<Rightarrow> u64" where
  "ack_epoch_of room c = hm_get_or0 (r_key_rotation_ack_epochs room) c"

definition acks_ok :: "room_state \<Rightarrow> bool" where
  "acks_ok room \<longleftrightarrow> (\<forall>c. ack_epoch_of room c \<le> key_epoch_of room c)"

definition rate_ok :: "hub_config \<Rightarrow> room_state \<Rightarrow> bool" where
  "rate_ok cfg room \<longleftrightarrow> allow_free_calls cfg \<or> r_rate_per_minute_nano room \<noteq> 0"

definition shares_ok :: "room_state \<Rightarrow> bool" where
  "shares_ok room \<longleftrightarrow> 1 \<le> r_max_screen_shares room"

definition counters_grow :: "room_state \<Rightarrow> room_state \<Rightarrow> bool" where
  "counters_grow room room' \<longleftrightarrow>
     r_permissions_epoch room \<le> r_permissions_epoch room'
     \<and> r_presence_sequence room \<le> r_presence_sequence room'
     \<and> r_policy_epoch room \<le> r_policy_epoch room'
     \<and> r_anon_admission_rejections room \<le> r_anon_admission_rejections room'
     \<and> r_backpressure_dropped_messages room \<le> r_backpressure_dropped_messages room'
     \<and> (r_anonymous_mode room \<longrightarrow> r_anonymous_mode room')"

definition clocks_grow :: "room_state \<Rightarrow> room_state \<Rightarrow> bool" where
  "clocks_grow room room' \<longleftrightarrow> (\<forall>key. clock_of room key \<le> clock_of room' key)"

definition advances :: "hub_config \<Rightarrow> room_state \<Rightarrow> room_state \<Rightarrow> bool" where
  "advances cfg room room' \<longleftrightarrow> counters_grow room room' \<and> clocks_grow room room'
     \<and> (acks_ok room \<longrightarrow> acks_ok room') \<and> (rate_ok cfg room \<longrightarrow> rate_ok cfg room')
     \<and> (shares_ok room \<longrightarrow> shares_ok room')"

lemmas advances_defs = advances_def counters_grow_def clocks_grow_def acks_ok_def rate_ok_def
  shares_ok_def clock_of_def key_epoch_of_def ack_epoch_of_def

named_theorems adv \<open>rules that extend an advance by one update\<close>

lemma adv_refl [adv]: "advances cfg room room"
  by (simp add: advances_def counters_grow_def clocks_grow_def)

lemma advances_trans: "advances cfg a b \<Longrightarrow> advances cfg b c \<Longrightarrow> advances cfg a c"
proof -
  assume ab: "advances cfg a b" and bc: "advances cfg b c"
  have "clocks_grow a c"
    using ab bc unfolding advances_def clocks_grow_def by (blast intro: order_trans)
  moreover have "counters_grow a c"
    using ab bc unfolding advances_def counters_grow_def by (elim conjE, intro conjI impI) (order | blast)+
  ultimately show ?thesis
    using ab bc by (simp add: advances_def)
qed

text \<open>The fields an advance does not look at.\<close>

lemma adv_fields [adv]:
  "advances cfg a room \<Longrightarrow> advances cfg a (room\<lparr>r_participants := x1\<rparr>)"
  "advances cfg a room \<Longrightarrow> advances cfg a (room\<lparr>r_host_conn_id := x2\<rparr>)"
  "advances cfg a room \<Longrightarrow> advances cfg a (room\<lparr>r_host_role_owner := x3\<rparr>)"
  "advances cfg a room \<Longrightarrow> advances cfg a (room\<lparr>r_co_host_conn_ids := x4\<rparr>)"
  "advances cfg a room \<Longrightarrow> advances cfg a (room\<lparr>r_co_host_role_owners := x5\<rparr>)"
  "advances cfg a room \<Longrightarrow> advances cfg a (room\<lparr>r_device_caps_by_conn := x6\<rparr>)"
  "advances cfg a room \<Longrightarrow> advances cfg a (room\<lparr>r_backpressure_last_notice_at_ms := x7\<rparr>)"
  by (simp_all add: advances_defs)

lemma adv_set_pstate [adv]: "advances cfg a room \<Longrightarrow> advances cfg a (set_pstate room c st)"
  by (simp add: advances_defs)

lemma adv_sync [adv]: "advances cfg a room \<Longrightarrow> advances cfg a (snd (sync_active_co_host_bindings room))"
  by (subst sync_frame) (rule adv)

lemma adv_by_step: "advances cfg room room' \<Longrightarrow> advances cfg a room \<Longrightarrow> advances cfg a room'"
  by (rule advances_trans)

lemma adv_bump [adv]:
  "advances cfg a room \<Longrightarrow> advances cfg a (bump_permissions room)"
  "advances cfg a room \<Longrightarrow> advances cfg a (bump_presence room)"
  by (rule advances_trans, assumption, simp add: advances_defs bump_permissions_def bump_presence_def sat_add_ge)+

lemma adv_clock [adv]:
  assumes "advances cfg a room"
  shows "advances cfg a (snd (enforce_signed_action_clock room tag signer label t))"
proof (rule advances_trans [OF assms])
  show "advances cfg room (snd (enforce_signed_action_clock room tag signer label t))"
    by (auto simp: enforce_signed_action_clock_def Let_def advances_defs hm_get_or0_def hm_simps
        split: option.splits)
qed

lemma adv_forget [adv]:
  "advances cfg a room \<Longrightarrow> advances cfg a (room\<lparr>r_e2ee_epochs := hm_remove (r_e2ee_epochs room) c,
     r_key_rotation_ack_epochs := hm_remove (r_key_rotation_ack_epochs room) c\<rparr>)"
  by (rule advances_trans, assumption) (simp add: advances_defs hm_get_or0_def hm_simps)

lemma adv_entry [adv]:
  "advances cfg a room \<Longrightarrow>
     advances cfg a (room\<lparr>r_e2ee_epochs := hm_entry_or (r_e2ee_epochs room) c 0\<rparr>)"
  by (rule advances_trans, assumption) (auto simp: advances_defs hm_get_or0_def hm_simps split: option.splits)

lemma adv_entry_set [adv]:
  "advances cfg a room \<Longrightarrow>
     advances cfg a (set_pstate room c st\<lparr>r_e2ee_epochs := hm_entry_or (r_e2ee_epochs room) d 0\<rparr>)"
  using adv_entry [OF adv_set_pstate, of cfg a room c st d] by simp

lemma adv_if [adv]: "advances cfg a x \<Longrightarrow> advances cfg a y \<Longrightarrow> advances cfg a (if b then x else y)"
  by simp

section \<open>Every step is an advance\<close>

lemma adv_restore [adv]:
  "advances cfg a room \<Longrightarrow> advances cfg a (snd (restore_reserved_roles_on_join room c i))"
  unfolding restore_reserved_roles_on_join_def Let_def case_prod_beta snd_conv by (intro adv)

lemma adv_admit: "advances cfg a room \<Longrightarrow> advances cfg a (snd (admit_waiting_participant at_ms room c))"
  unfolding admit_waiting_participant_def Let_def case_prod_beta
  by (simp split: option.split) (intro allI impI conjI adv; assumption)

lemma adv_deny: "advances cfg a room \<Longrightarrow> advances cfg a (snd (deny_waiting_participant room c))"
proof -
  assume a: "advances cfg a room"
  have "advances cfg a (room\<lparr>r_participants := p, r_co_host_conn_ids := ids,
      r_e2ee_epochs := hm_remove (r_e2ee_epochs room) c,
      r_key_rotation_ack_epochs := hm_remove (r_key_rotation_ack_epochs room) c\<rparr>)" for p ids
    using adv_forget [of cfg a "room\<lparr>r_participants := p, r_co_host_conn_ids := ids\<rparr>" c] a
    by (simp add: adv)
  then show ?thesis
    unfolding deny_waiting_participant_def Let_def
    using a by (simp add: adv split: option.split)
qed

lemma adv_moderate_target:
  "advances cfg a room \<Longrightarrow> advances cfg a (snd (moderate_target action now at_ms room target eff))"
  using adv_admit [of cfg a room at_ms "fst target"] adv_deny [of cfg a room "fst target"]
  by (cases action)
    (simp_all add: moderate_target_def disable_target_def Let_def case_prod_beta adv split: sum.split option.split)

lemma adv_moderation: "advances cfg room (snd (moderation_section c mo now t room))"
  by (rule moderation_closed [of "advances cfg room"]) (rule adv adv_moderate_target, assumption?)+

lemma adv_join: "advances cfg room (join_section c at_ms room)"
  unfolding join_section_def by (intro adv)

lemma adv_forget_conn: "advances cfg room (forget_conn room c)"
  using adv_forget [of cfg room "room\<lparr>r_participants := hm_remove (r_participants room) c,
    r_device_caps_by_conn := hm_remove (r_device_caps_by_conn room) c,
    r_co_host_conn_ids := snd (hs_remove (r_co_host_conn_ids room) c)\<rparr>" c]
  by (simp add: forget_conn_def adv)

lemma adv_reassign [adv]: "advances cfg a room \<Longrightarrow> advances cfg a (reassign_host room c)"
  unfolding reassign_host_def by (intro adv)

lemma adv_leave: "advances cfg room (snd (disconnect_section c t room))"
  using adv_forget_conn [of cfg room c] by (simp add: disconnect_section_def Let_def adv)

lemma surcharge_nonzero:
  "apply_anonymous_zk_surcharge base extra = Inr rate \<Longrightarrow> base \<noteq> 0 \<Longrightarrow> rate \<noteq> 0"
proof -
  assume a: "apply_anonymous_zk_surcharge base extra = Inr rate" and b: "base \<noteq> 0"
  have "unat base \<le> unat rate"
    using a by (auto simp: apply_anonymous_zk_surcharge_def checked_add_Some unat_add_no_overflow
        split: if_splits option.splits)
  then show "rate \<noteq> 0"
    using b by (auto simp: unat_eq_0)
qed

lemma adv_anon_admit:
  assumes "r_rate_per_minute_nano room \<noteq> 0 \<longrightarrow> rate \<noteq> 0"
  shows "advances cfg room (snd (anon_admit X t room c ah rate))"
proof -
  have "advances cfg room ((set_pstate room c st)\<lparr>r_rate_per_minute_nano := rate, r_anonymous_mode := True\<rparr>)" for st
    using assms by (simp add: advances_defs)
  then show ?thesis
    by (simp add: anon_admit_def build_anon_group_key_rotate_frame_def Let_def adv split: option.split sum.split)
qed

lemma adv_anon_hello: "advances cfg room (snd (anon_hello_section X cfg' c ah t room))"
proof -
  have "advances cfg room (snd (record_anon_admission_rejection room))"
    by (simp add: record_anon_admission_rejection_def Let_def advances_defs sat_add_ge)
  then show ?thesis
    using adv_anon_admit surcharge_nonzero
    by (simp add: anon_hello_section_def adv split: option.split sum.split)
qed

lemma adv_claim [adv]: "advances cfg a room \<Longrightarrow> advances cfg a (claim_free_host room c i)"
proof -
  assume "advances cfg a room"
  from adv_fields(3) [OF adv_fields(2) [OF this]]
  have "advances cfg a (room\<lparr>r_host_conn_id := Some c, r_host_role_owner := Some i\<rparr>)" by simp
  with \<open>advances cfg a room\<close> show ?thesis
    unfolding claim_free_host_def by (intro adv)
qed

lemma adv_hello_joined [adv]: "advances cfg a room \<Longrightarrow> advances cfg a (hello_joined_room room c i)"
  unfolding hello_joined_room_def Let_def case_prod_beta by (intro adv)

lemma adv_hello: "advances cfg room (snd (hello_section c he t room))"
  unfolding hello_section_room Let_def by (simp add: adv split: option.split)

lemma adv_room_config: "advances cfg room (snd (room_config_section cfg c rcu now room))"
proof -
  have "advances cfg room (bill_everyone room now\<lparr>r_rate_per_minute_nano := rate, r_max_screen_shares := shares\<rparr>)"
    if "rate_ok cfg room \<longrightarrow> rate_ok cfg (room\<lparr>r_rate_per_minute_nano := rate\<rparr>)" and "shares_ok room \<longrightarrow> 1 \<le> shares"
    for rate shares
    using that by (simp add: bill_everyone_def advances_defs)
  moreover have "rate_ok cfg (room\<lparr>r_rate_per_minute_nano := normalize_rate_for_policy rate (allow_free_calls cfg)\<rparr>)"
    for rate
    by (auto simp: rate_ok_def normalize_rate_for_policy_def max_def)
  ultimately show ?thesis
    by (simp add: room_config_section_def Let_def adv bill_everyone_def shares_ok_def split: option.split)
qed

lemma adv_role_delta [adv]: "advances cfg a room \<Longrightarrow> advances cfg a (snd (role_delta t room rc))"
  by (simp add: role_delta_def Let_def adv split: option.split)

lemma adv_grant_effect: "advances cfg a room \<Longrightarrow> advances cfg a (snd (grant_effect room c rg))"
  by (cases "rg_role rg") (simp_all add: grant_effect_def Let_def case_prod_beta adv)

lemma adv_revoke_effect: "advances cfg a room \<Longrightarrow> advances cfg a (snd (revoke_effect room c rr))"
proof -
  assume "advances cfg a room"
  from adv_fields(4) [OF adv_fields(5) [OF this]]
  have "advances cfg a (room\<lparr>r_co_host_role_owners := owners, r_co_host_conn_ids := ids\<rparr>)" for ids owners by simp
  then show ?thesis
    by (simp add: revoke_effect_def Let_def case_prod_beta adv)
qed

lemma adv_clockD: "enforce_signed_action_clock room tag signer label t = (r, room') \<Longrightarrow> advances cfg room room'"
  using adv_clock [OF adv_refl, of cfg room tag signer label t] by simp

lemma adv_role_grant: "advances cfg room (snd (role_grant_section X c rg t room))"
proof -
  obtain r room' where eq: "apply_role_grant X room c rg = (r, room')" by fastforce
  then show ?thesis
  proof (cases rule: apply_role_grant_cases)
    case (1 e)
    then show ?thesis using eq by (simp add: role_grant_section_def adv)
  next
    case (2 oc room1 target sender)
    have "advances cfg room room'"
      using adv_grant_effect [OF adv_clockD [OF 2(3)], of cfg target rg] 2(2) by simp
    then show ?thesis using eq 2(1) by (simp add: role_grant_section_def case_prod_beta adv)
  qed
qed

lemma adv_role_revoke: "advances cfg room (snd (role_revoke_section X c rr t room))"
proof -
  obtain r room' where eq: "apply_role_revoke X room c rr = (r, room')" by fastforce
  then show ?thesis
  proof (cases rule: apply_role_revoke_cases)
    case (1 e)
    then show ?thesis using eq by (simp add: role_revoke_section_def adv)
  next
    case (2 oc room1 target sender)
    have "advances cfg room room'"
      using adv_revoke_effect [OF adv_clockD [OF 2(3)], of cfg target rr] 2(2) by simp
    then show ?thesis using eq 2(1) by (simp add: role_revoke_section_def case_prod_beta adv)
  qed
qed

lemma adv_policy_effect:
  "r_policy_epoch room < sp_policy_epoch sp \<Longrightarrow> advances cfg room (policy_effect room sp)"
  by (simp add: policy_effect_def advances_defs sat_add_ge less_imp_le)

lemma clock_policy_epoch [simp]:
  "r_policy_epoch (snd (enforce_signed_action_clock room tag signer label t)) = r_policy_epoch room"
  "r_e2ee_epochs (snd (enforce_signed_action_clock room tag signer label t)) = r_e2ee_epochs room"
  "r_key_rotation_ack_epochs (snd (enforce_signed_action_clock room tag signer label t))
     = r_key_rotation_ack_epochs room"
  unfolding clock_room by (simp_all split: sum.split)

lemma adv_session_policy: "advances cfg room (snd (session_policy_section X c sp t room))"
proof -
  have "advances cfg room (policy_effect room1 sp)"
    if "enforce_signed_action_clock room tag signer label time = (r, room1)"
      and "\<not> sp_policy_epoch sp \<le> r_policy_epoch room" for tag signer label time r room1
    using that adv_clockD [OF that(1)] clock_policy_epoch(1) [of room tag signer label time]
    by (intro advances_trans [OF _ adv_policy_effect]) auto
  then show ?thesis
    by (simp add: session_policy_section_def apply_session_policy_update_def adv adv_clockD
        split: option.split sum.split prod.split)
qed

lemma adv_e2ee: "advances cfg room (snd (e2ee_epoch_section X c ke t room))"
proof -
  have "advances cfg room (room1\<lparr>r_e2ee_epochs := hm_insert (r_e2ee_epochs room1) c (ke_epoch ke)\<rparr>)"
    if "enforce_signed_action_clock room tag signer label time = (r, room1)"
      and "\<not> ke_epoch ke \<le> hm_get_or0 (r_e2ee_epochs room) c" for tag signer label time r room1
  proof (rule advances_trans [OF adv_clockD [OF that(1)]])
    have "\<not> ke_epoch ke \<le> hm_get_or0 (r_e2ee_epochs room1) c"
      using that clock_policy_epoch(2) [of room tag signer label time] by simp
    then show "advances cfg room1 (room1\<lparr>r_e2ee_epochs := hm_insert (r_e2ee_epochs room1) c (ke_epoch ke)\<rparr>)"
      unfolding advances_def acks_ok_def counters_grow_def clocks_grow_def ack_epoch_of_def key_epoch_of_def
      by (simp add: hm_get_or0_def hm_simps clock_of_def rate_ok_def shares_ok_def) (meson le_less_trans less_imp_le not_le)
  qed
  then show ?thesis
    unfolding e2ee_epoch_section_def Let_def
    by (cases "hm_get (r_participants room) c")
      (auto simp: adv adv_clockD first_error_def split: option.split sum.split prod.split if_splits)
qed

lemma key_ack_error_None:
  "key_ack_error c ka room st = None \<Longrightarrow>
     ack_epoch_of room c < ka_ack_epoch ka \<and> ka_ack_epoch ka \<le> key_epoch_of room c"
  by (auto simp: key_ack_error_def ack_epoch_of_def key_epoch_of_def Let_def not_le not_less
      split: option.splits if_splits)

lemma adv_key_ack: "advances cfg room (snd (key_ack_section c ka t room))"
proof -
  have "advances cfg room (room1\<lparr>r_key_rotation_ack_epochs :=
      hm_insert (r_key_rotation_ack_epochs room1) c (ka_ack_epoch ka)\<rparr>)"
    if "enforce_signed_action_clock room tag signer label time = (r, room1)"
      and "key_ack_error c ka room st = None" for tag signer label time r room1 st
  proof (rule advances_trans [OF adv_clockD [OF that(1)]])
    have "ka_ack_epoch ka \<le> key_epoch_of room1 c"
      using that key_ack_error_None clock_policy_epoch(2) [of room tag signer label time]
      by (auto simp: key_epoch_of_def)
    then show "advances cfg room1 (room1\<lparr>r_key_rotation_ack_epochs :=
        hm_insert (r_key_rotation_ack_epochs room1) c (ka_ack_epoch ka)\<rparr>)"
      by (auto simp: advances_defs hm_get_or0_def hm_simps split: option.splits)
  qed
  then show ?thesis
    unfolding key_ack_section_def
    by (simp add: adv adv_clockD split: option.split sum.split prod.split)
qed

lemma adv_backpressure: "advances cfg room (snd (backpressure_section n t room))"
  by (simp add: backpressure_section_def Let_def advances_defs sat_add_ge)

lemma adv_quiet:
  "advances cfg room (snd (group_key_section X c gk t room))"
  "advances cfg room (snd (escrow_section X c ep t room))"
  "advances cfg room (snd (rotate_section X t room))"
  "advances cfg room (snd (participant_state_section c psf at_ms room))"
  "advances cfg room (snd (media_track_section c mt at_ms room))"
  "advances cfg room (snd (device_capability_section c dc t room))"
  "advances cfg room (snd (payment_section X cfg' c pay at_ms room))"
  "advances cfg room (snd (billing_section b c at_ms room))"
  unfolding group_key_section_def escrow_section_def rotate_section_def participant_state_section_def
    media_track_section_def device_capability_section_def payment_section_def billing_section_def
    build_anon_group_key_rotate_frame_def Let_def
  by (simp_all add: adv split: option.split sum.split bool.split prod.split)

lemma advances_step: "room_step X cfg room room' \<Longrightarrow> advances cfg room room'"
  by (induction rule: room_step.induct)
    (simp_all add: adv_join adv_leave adv_anon_hello adv_hello adv_room_config adv_role_grant adv_role_revoke
      adv_session_policy adv_e2ee adv_key_ack adv_moderation adv_backpressure adv_quiet)

interpretation history: room_history X cfg "advances cfg" for X cfg
  by unfold_locales (rule adv_refl, rule advances_trans, assumption+, rule advances_step)

section \<open>Properties\<close>

text \<open>The six actions a signer's clock guards, as the operations of the room.\<close>

datatype signed_action =
    Signed_Grant role_grant_frame
  | Signed_Revoke role_revoke_frame
  | Signed_Policy session_policy_frame
  | Signed_Moderation moderation_frame
  | Signed_Key_Epoch e2ee_key_epoch_frame
  | Signed_Key_Ack key_rotation_ack_frame

fun perform :: "ext \<Rightarrow> conn_id \<Rightarrow> signed_action \<Rightarrow> u64 \<Rightarrow> (nat \<Rightarrow> u64) \<Rightarrow> room_state \<Rightarrow> bool \<times> room_state" where
  \<comment> \<open>the section of the action's handler, and whether it accepts\<close>
  "perform X c (Signed_Grant grant) now t room = apfst (\<lambda>r. case r of Some (Inr _) \<Rightarrow> True | _ \<Rightarrow> False)
     (role_grant_section X c grant t room)"
| "perform X c (Signed_Revoke revoke) now t room = apfst (\<lambda>r. case r of Some (Inr _) \<Rightarrow> True | _ \<Rightarrow> False)
     (role_revoke_section X c revoke t room)"
| "perform X c (Signed_Policy policy) now t room = apfst (\<lambda>r. case r of Some (Inr _) \<Rightarrow> True | _ \<Rightarrow> False)
     (session_policy_section X c policy t room)"
| "perform X c (Signed_Moderation mo) now t room = apfst (\<lambda>r. case r of Some (Inr _) \<Rightarrow> True | _ \<Rightarrow> False)
     (moderation_section c mo now t room)"
| "perform X c (Signed_Key_Epoch key_epoch) now t room = apfst (\<lambda>r. r = Some None) (e2ee_epoch_section X c key_epoch t room)"
| "perform X c (Signed_Key_Ack ack) now t room = apfst (\<lambda>r. r = Some None) (key_ack_section c ack t room)"

fun signed_tag :: "signed_action \<Rightarrow> string" where
  "signed_tag (Signed_Grant _) = ''role_grant''"
| "signed_tag (Signed_Revoke _) = ''role_revoke''"
| "signed_tag (Signed_Policy _) = ''session_policy''"
| "signed_tag (Signed_Moderation _) = ''moderation''"
| "signed_tag (Signed_Key_Epoch _) = ''e2ee_key_epoch''"
| "signed_tag (Signed_Key_Ack _) = ''key_rotation_ack''"

fun signed_at :: "signed_action \<Rightarrow> u64" where
  "signed_at (Signed_Grant grant) = rg_issued_at_ms grant"
| "signed_at (Signed_Revoke revoke) = rr_issued_at_ms revoke"
| "signed_at (Signed_Policy policy) = sp_updated_at_ms policy"
| "signed_at (Signed_Moderation mo) = mo_sent_at_ms mo"
| "signed_at (Signed_Key_Epoch key_epoch) = ke_sent_at_ms key_epoch"
| "signed_at (Signed_Key_Ack ack) = ka_received_at_ms ack"

fun signed_by :: "room_state \<Rightarrow> conn_id \<Rightarrow> signed_action \<Rightarrow> string option" where
  \<comment> \<open>the signer the frame names; of a moderation, the participant id of its sender\<close>
  "signed_by room c (Signed_Grant grant) = Some (rg_granted_by grant)"
| "signed_by room c (Signed_Revoke revoke) = Some (rr_revoked_by revoke)"
| "signed_by room c (Signed_Policy policy) = Some (sp_updated_by policy)"
| "signed_by room c (Signed_Moderation mo) = map_option (\<lambda>p. p_participant_id (p_state p)) (get_p room c)"
| "signed_by room c (Signed_Key_Epoch key_epoch) = Some (ke_participant_id key_epoch)"
| "signed_by room c (Signed_Key_Ack ack) = Some (ka_participant_id ack)"

lemma clock_of_accept:
  "enforce_signed_action_clock room tag signer label time = (Inr u, room1) \<Longrightarrow> advances cfg room1 room2 \<Longrightarrow>
     time \<le> clock_of room2 (signed_action_clock_key tag signer)"
proof -
  assume ok: "enforce_signed_action_clock room tag signer label time = (Inr u, room1)" and "advances cfg room1 room2"
  then have "clock_of room1 (signed_action_clock_key tag signer) \<le> clock_of room2 (signed_action_clock_key tag signer)"
    by (simp add: advances_def clocks_grow_def)
  then show ?thesis
    using ok by (simp add: clock_accepts clock_of_def hm_get_or0_def hm_simps)
qed

lemma clock_of_refuse:
  "time \<le> clock_of room (signed_action_clock_key tag signer) \<Longrightarrow>
     \<exists>e. enforce_signed_action_clock room tag signer label time = (Inl e, room)"
  by (auto simp: enforce_signed_action_clock_def Let_def clock_of_def hm_get_or0_def split: option.splits)

text \<open>An accepted action sets its signer's clock to its own time.\<close>

lemma performed_sets_clock:
  assumes "perform X c a now t room = (True, room1)" and "signed_by room c a = Some signer"
  shows "signed_at a \<le> clock_of room1 (signed_action_clock_key (signed_tag a) signer)"
proof (cases a)
  case (Signed_Grant grant)
  obtain r room' where eq: "apply_role_grant X room c grant = (r, room')" by fastforce
  then show ?thesis
  proof (cases rule: apply_role_grant_cases)
    case (2 oc room2 target sender)
    have "advances cfg room2 (snd (grant_effect room2 target grant))" for cfg
      by (rule adv_grant_effect [OF adv_refl])
    then have "advances cfg room2 (snd (role_delta t room' rc))" for cfg rc
      using 2(2) adv_role_delta [of cfg room2 room' t rc] by simp
    then show ?thesis
      using assms eq 2(1) clock_of_accept [OF 2(3), of cfg room1 for cfg] Signed_Grant
      by (auto simp: role_grant_section_def case_prod_beta)
  qed (use assms eq Signed_Grant in \<open>simp add: role_grant_section_def\<close>)
next
  case (Signed_Revoke revoke)
  obtain r room' where eq: "apply_role_revoke X room c revoke = (r, room')" by fastforce
  then show ?thesis
  proof (cases rule: apply_role_revoke_cases)
    case (2 oc room2 target sender)
    have "advances cfg room2 (snd (revoke_effect room2 target revoke))" for cfg
      by (rule adv_revoke_effect [OF adv_refl])
    then have "advances cfg room2 (snd (role_delta t room' rc))" for cfg rc
      using 2(2) adv_role_delta [of cfg room2 room' t rc] by simp
    then show ?thesis
      using assms eq 2(1) clock_of_accept [OF 2(3), of cfg room1 for cfg] Signed_Revoke
      by (auto simp: role_revoke_section_def case_prod_beta)
  qed (use assms eq Signed_Revoke in \<open>simp add: role_revoke_section_def\<close>)
next
  case (Signed_Policy policy)
  then show ?thesis
    using assms by (auto simp: session_policy_section_def apply_session_policy_update_def policy_effect_def
        clock_accepts clock_of_def hm_get_or0_def hm_simps split: option.splits if_splits sum.splits prod.splits)
next
  case (Signed_Moderation mo)
  obtain sender where sender: "get_p room c = Some sender" and signer: "signer = p_participant_id (p_state sender)"
    using assms(2) Signed_Moderation by auto
  obtain r room2 where clock: "enforce_signed_action_clock room ''moderation'' signer ''sent_at_ms'' (mo_sent_at_ms mo)
      = (r, room2)" by fastforce
  have adv: "advances cfg room2 (snd (moderate_targets action now' at_ms room2 targets eff))" for cfg action now' at_ms targets eff
    by (rule moderate_targets_closed [where P = "advances cfg room2", OF adv_moderate_target adv_refl])
  show ?thesis
  proof (cases r)
    case (Inr u)
    then show ?thesis
      using assms(1) sender clock clock_of_accept [OF clock [unfolded Inr] adv]
      by (auto simp: Signed_Moderation signer moderation_section_def validate_moderation_sender_clock_def case_prod_beta
          split: if_splits sum.splits)
  qed (use assms(1) sender clock Signed_Moderation signer in
      \<open>auto simp: moderation_section_def validate_moderation_sender_clock_def split: if_splits\<close>)
next
  case (Signed_Key_Epoch key_epoch)
  then show ?thesis
    using assms by (auto simp: e2ee_epoch_section_def Let_def
        clock_accepts clock_of_def hm_get_or0_def hm_simps split: option.splits if_splits sum.splits prod.splits)
next
  case (Signed_Key_Ack ack)
  then show ?thesis
    using assms by (auto simp: key_ack_section_def
        clock_accepts clock_of_def hm_get_or0_def hm_simps split: option.splits if_splits sum.splits prod.splits)
qed

text \<open>An action that is not newer than its signer's clock is refused and changes nothing.\<close>

lemma stale_refused:
  assumes "signed_by room c a = Some signer" and "signed_at a \<le> clock_of room (signed_action_clock_key (signed_tag a) signer)"
  shows "perform X c a now t room = (False, room)"
proof -
  have stale: "\<exists>e. enforce_signed_action_clock room (signed_tag a) signer label (signed_at a) = (Inl e, room)" for label
    using assms(2) by (rule clock_of_refuse)
  show ?thesis
  proof (cases a)
    case (Signed_Grant grant)
    then show ?thesis
      using assms(1) stale [of "''issued_at_ms''"]
      by (auto simp: role_grant_section_def apply_role_grant_def split: option.split)
  next
    case (Signed_Revoke revoke)
    then show ?thesis
      using assms(1) stale [of "''issued_at_ms''"]
      by (auto simp: role_revoke_section_def apply_role_revoke_def split: option.split)
  next
    case (Signed_Policy policy)
    then show ?thesis
      using assms(1) stale [of "''updated_at_ms''"]
      by (auto simp: session_policy_section_def apply_session_policy_update_def split: option.split)
  next
    case (Signed_Moderation mo)
    then show ?thesis
      using assms(1) stale [of "''sent_at_ms''"]
      by (auto simp: moderation_section_def validate_moderation_sender_clock_def)
  next
    case (Signed_Key_Epoch key_epoch)
    then show ?thesis
      using assms(1) stale [of "''sent_at_ms''"]
      by (auto simp: e2ee_epoch_section_def Let_def split: option.split)
  next
    case (Signed_Key_Ack ack)
    then show ?thesis
      using assms(1) stale [of "''received_at_ms''"]
      by (auto simp: key_ack_section_def split: option.split)
  qed
qed

text \<open>C3. Replays are rejected for the whole life of a room: once a role grant, a role revoke, a policy update, a
  moderation, a key epoch or a key acknowledgement of a signer was accepted, every later action of that kind that
  names the same signer and is not newer, whoever sends it and whatever happened in between, is refused and leaves
  the room as it is.\<close>

theorem replay_rejected:
  assumes "perform X c a now t room = (True, room1)" and "(room_step X cfg)\<^sup>*\<^sup>* room1 room2"
    and "signed_tag a' = signed_tag a" and "signed_by room c a = Some signer" and "signed_by room2 c' a' = Some signer"
    and "signed_at a' \<le> signed_at a"
  shows "perform X c' a' now' t' room2 = (False, room2)"
proof (rule stale_refused [OF assms(5)])
  let ?key = "signed_action_clock_key (signed_tag a) signer"
  have "signed_at a \<le> clock_of room1 ?key"
    by (rule performed_sets_clock [OF assms(1,4)])
  also have "\<dots> \<le> clock_of room2 ?key"
    using history.room_steps_rel [OF assms(2)] by (simp add: advances_def clocks_grow_def)
  finally show "signed_at a' \<le> clock_of room2 (signed_action_clock_key (signed_tag a') signer)"
    using assms(3,6) by simp
qed

lemma demo_grant_performed:
  "fst (perform plain_ext 1 (Signed_Grant (demo_grant Role_CoHost)) 0 (demo_clock 9) demo_pair)"
  by code_simp

lemma replay_rejected_witness:
  "let room1 = snd (perform plain_ext 1 (Signed_Grant (demo_grant Role_CoHost)) 0 (demo_clock 9) demo_pair);
       room2 = join_section 9 0 room1 in
   perform plain_ext 1 (Signed_Grant (demo_grant Role_CoHost)) 0 (demo_clock 9) demo_pair = (True, room1)
   \<and> perform plain_ext 1 (Signed_Grant (demo_grant Role_CoHost)) 0 (demo_clock 20) room2 = (False, room2)"
proof -
  define room1 where "room1 = snd (perform plain_ext 1 (Signed_Grant (demo_grant Role_CoHost)) 0 (demo_clock 9) demo_pair)"
  have accepted: "perform plain_ext 1 (Signed_Grant (demo_grant Role_CoHost)) 0 (demo_clock 9) demo_pair = (True, room1)"
    using demo_grant_performed unfolding room1_def by (intro prod_eqI) simp_all
  have later: "(room_step plain_ext demo_cfg)\<^sup>*\<^sup>* room1 (join_section 9 0 room1)"
    by (rule r_into_rtranclp [where r = "room_step plain_ext demo_cfg", OF step_join])
  show ?thesis
    using accepted replay_rejected [OF accepted later refl, where signer = "''a@x''"]
    unfolding Let_def room1_def [symmetric] by (simp add: demo_grant_def)
qed

definition in_bounds :: "hub_config \<Rightarrow> room_state \<Rightarrow> bool" where
  "in_bounds cfg room \<longleftrightarrow> acks_ok room \<and> shares_ok room \<and>
     (allow_free_calls cfg \<or> default_rate_per_minute_nano (billing cfg) \<noteq> 0 \<longrightarrow> rate_ok cfg room)"

interpretation bounds: room_contract X cfg "in_bounds cfg" for X cfg
proof unfold_locales
  show "in_bounds cfg (new_room (default_rate_per_minute_nano (billing cfg)))"
    by (auto simp: in_bounds_def advances_defs new_room_def hm_get_or0_def hm_simps)
next
  fix room room'
  assume "room_step X cfg room room'" and "in_bounds cfg room"
  then show "in_bounds cfg room'"
    using advances_step [of X cfg room room'] by (auto simp: in_bounds_def advances_def)
qed

lemma bounds_reached:
  assumes "hub_reachable X cfg w" and "hm_get (h_rooms w) rid = Some room"
    and "allow_free_calls cfg \<or> default_rate_per_minute_nano (billing cfg) \<noteq> 0"
  shows "hm_get_or0 (r_key_rotation_ack_epochs room) c \<le> hm_get_or0 (r_e2ee_epochs room) c
     \<and> 1 \<le> r_max_screen_shares room \<and> (allow_free_calls cfg \<or> 1 \<le> r_rate_per_minute_nano room)"
proof -
  have "acks_ok room" and "shares_ok room" and "rate_ok cfg room"
    using bounds.reachable_inv [OF assms(1,2)] assms(3) by (auto simp: in_bounds_def)
  moreover have "1 \<le> r" if "r \<noteq> 0" for r :: u64
    using that by (metis linorder_not_le word_less_1)
  ultimately show ?thesis
    unfolding acks_ok_def shares_ok_def rate_ok_def ack_epoch_of_def key_epoch_of_def by blast
qed

end
