(* ===== verification/Hub_Authority.thy ===== *)
theory Hub_Authority
  imports Hub_Epochs
begin

text \<open>
  Who may do what, and what it does: role grants and revokes, session policy, moderation, the two
  ways into a room, the choice of a new host, and the media rules.
\<close>

section \<open>Role grants and revokes\<close>

text \<open>C21. A role grant that succeeds was sent by the joined host under its own id with a valid signature
  for a joined participant, and afterwards the target has exactly the granted role: a host grant moves
  the host and its reservation to the target, a co-host grant makes the target a co-host and leaves the
  host alone. No participant record changes.\<close>

theorem role_grant_effect:
  assumes "hm_ok (r_participants room)" and "apply_role_grant X room c rg = (Inr oc, room')"
  shows "joined_in room c \<and> r_host_conn_id room = Some c \<and> role_grant_signature_is_valid X rg
     \<and> r_participants room' = r_participants room
     \<and> (case find_joined_by_id room (rg_target_participant_id rg) of
          None \<Rightarrow> False
        | Some target \<Rightarrow>
            joined_in room target \<and>
            (if rg_role rg = Role_Host
             then role_kind_for_conn room' target = Role_Host
               \<and> r_host_role_owner room' = Some (rg_target_participant_id rg)
               \<and> (c = target \<or> role_kind_for_conn room' c \<in> {Role_CoHost, Role_Participant})
             else r_host_conn_id room' = r_host_conn_id room
               \<and> role_kind_for_conn room' target = Role_CoHost))"
  using assms(2)
proof (cases rule: apply_role_grant_cases)
  case (2 oc1 room1 target sender)
  have same: "r_participants room1 = r_participants room" "r_host_conn_id room1 = r_host_conn_id room"
    using 2(3) by (auto simp: clock_accepts)
  have not_host: "rg_role rg = Role_CoHost \<Longrightarrow> r_host_conn_id room \<noteq> Some target"
    using assms(2) 2(4,5,6,7,8) by (auto simp: apply_role_grant_def split: if_splits)
  obtain p where p: "get_p room target = Some p" "p_hello_seen (p_state p)"
      "p_participant_id (p_state p) = rg_target_participant_id rg"
    using find_joined_Some [OF assms(1) 2(4)] by blast
  have room': "room' = snd (grant_effect room1 target rg)"
    using 2(2) by simp
  have ok1: "hm_ok (r_participants room1)"
    using assms(1) same by simp
  show ?thesis
  proof (cases "rg_role rg")
    case Role_Host
    then show ?thesis
      using 2 same p by (auto simp: room' grant_effect_def Let_def case_prod_beta role_kind_for_conn_def joined_in_def)
  next
    case Role_CoHost
    then show ?thesis
      using 2 same p not_host ok1
      by (auto simp: room' grant_effect_def Let_def case_prod_beta role_kind_for_conn_def joined_in_def co_bound_def)
  qed (use 2 in simp)
qed simp

lemma demo_grant_accepted:
  "\<exists>oc. apply_role_grant plain_ext demo_pair 1 (demo_grant Role_CoHost)
      = (Inr oc, snd (apply_role_grant plain_ext demo_pair 1 (demo_grant Role_CoHost)))"
proof -
  have "\<not> isl (fst (apply_role_grant plain_ext demo_pair 1 (demo_grant Role_CoHost)))"
    by code_simp
  then show ?thesis by (metis isl_def prod.collapse sum.exhaust)
qed

lemma demo_pair_ok: "hm_ok (r_participants demo_pair)"
  using demo_pair_entries by (auto simp: hm_ok_def hm_keys_def)

lemma role_grant_effect_witness:
  "role_kind_for_conn (snd (apply_role_grant plain_ext demo_pair 1 (demo_grant Role_CoHost))) 2 = Role_CoHost"
proof -
  obtain oc where "apply_role_grant plain_ext demo_pair 1 (demo_grant Role_CoHost)
      = (Inr oc, snd (apply_role_grant plain_ext demo_pair 1 (demo_grant Role_CoHost)))"
    using demo_grant_accepted by blast
  note effect = role_grant_effect [OF demo_pair_ok this]
  have "find_joined_by_id demo_pair ''b@x'' = Some 2"
    using demo_pair_entries by (auto simp: find_joined_by_id_def)
  with effect show ?thesis by (simp add: demo_grant_def)
qed

text \<open>A role revoke that succeeds was sent by the joined host under its own id with a valid signature
  for a joined participant, and afterwards no joined participant with the target's id is a co-host.
  Neither the host nor any participant record changes.\<close>

theorem role_revoke_effect:
  assumes "hm_ok (r_participants room)" and "apply_role_revoke X room c rr = (Inr oc, room')"
    and "get_p room d = Some p" and "p_hello_seen (p_state p)"
    and "p_participant_id (p_state p) = rr_target_participant_id rr"
  shows "joined_in room c \<and> r_host_conn_id room = Some c \<and> role_revoke_signature_is_valid X rr
     \<and> r_participants room' = r_participants room \<and> r_host_conn_id room' = r_host_conn_id room
     \<and> role_kind_for_conn room' d \<noteq> Role_CoHost"
  using assms(2)
proof (cases rule: apply_role_revoke_cases)
  case (2 oc1 room1 target sender)
  have same: "r_participants room1 = r_participants room" "r_host_conn_id room1 = r_host_conn_id room"
    using 2(3) by (auto simp: clock_accepts)
  have room': "room' = snd (revoke_effect room1 target rr)"
    using 2(2) by simp
  have "hm_ok (r_participants room1)"
    using assms(1) same by simp
  then show ?thesis
    using 2 same assms(3-5)
    by (auto simp: room' revoke_effect_def Let_def case_prod_beta role_kind_for_conn_def joined_in_def co_bound_def)
qed simp

lemma role_revoke_effect_witness:
  "role_kind_for_conn (snd (apply_role_revoke plain_ext demo_pair 1 demo_revoke)) 2 \<noteq> Role_CoHost"
proof -
  have "\<not> isl (fst (apply_role_revoke plain_ext demo_pair 1 demo_revoke))"
    by code_simp
  then obtain oc where revoke: "apply_role_revoke plain_ext demo_pair 1 demo_revoke
      = (Inr oc, snd (apply_role_revoke plain_ext demo_pair 1 demo_revoke))"
    by (metis isl_def prod.collapse sum.exhaust)
  obtain q where q: "get_p demo_pair 2 = Some q" "p_hello_seen (p_state q)" "p_participant_id (p_state q) = ''b@x''"
    using demo_pair_entries by (auto simp: hm_get_def)
  show ?thesis
    using role_revoke_effect [OF demo_pair_ok revoke q(1,2)] q(3) by (simp add: demo_revoke_def)
qed

section \<open>Session policy\<close>

text \<open>A session policy is accepted exactly when the joined host sends it under its own id with a
  valid signature, a policy epoch above the current one, room for at least one participant, and a
  timestamp above every accepted one; then the room carries exactly the policy of the frame, with a
  bumped permissions epoch, and otherwise nothing changes.\<close>

theorem session_policy_accepted_iff:
  "(case apply_session_policy_update X room c sp of
      (Inr _, room') \<Rightarrow>
        joined_in room c \<and> r_host_conn_id room = Some c
        \<and> map_option (\<lambda>p. p_participant_id (p_state p)) (get_p room c) = Some (sp_updated_by sp)
        \<and> is_valid_hex_len X (sp_signature_hex sp) 32 \<and> session_policy_signature_is_valid X sp
        \<and> r_policy_epoch room < sp_policy_epoch sp \<and> 0 < sp_max_participants sp
        \<and> clock_of room (signed_action_clock_key ''session_policy'' (sp_updated_by sp)) < sp_updated_at_ms sp
        \<and> session_policy_of room' = sp
        \<and> r_participants room' = r_participants room
        \<and> r_permissions_epoch room' = sat_add (r_permissions_epoch room) 1
    | (Inl _, room') \<Rightarrow>
        room' = room \<and>
        \<not> (joined_in room c \<and> r_host_conn_id room = Some c
           \<and> map_option (\<lambda>p. p_participant_id (p_state p)) (get_p room c) = Some (sp_updated_by sp)
           \<and> is_valid_hex_len X (sp_signature_hex sp) 32 \<and> session_policy_signature_is_valid X sp
           \<and> r_policy_epoch room < sp_policy_epoch sp \<and> 0 < sp_max_participants sp
           \<and> clock_of room (signed_action_clock_key ''session_policy'' (sp_updated_by sp)) < sp_updated_at_ms sp))"
proof -
  let ?clock = "enforce_signed_action_clock room ''session_policy'' (sp_updated_by sp) ''updated_at_ms'' (sp_updated_at_ms sp)"
  let ?last = "clock_of room (signed_action_clock_key ''session_policy'' (sp_updated_by sp))"
  have accept: "\<exists>room1. ?clock = (Inr (), room1) \<and> room1 = room\<lparr>r_signed_action_clock_by_signer :=
      hm_insert (r_signed_action_clock_by_signer room)
        (signed_action_clock_key ''session_policy'' (sp_updated_by sp)) (sp_updated_at_ms sp)\<rparr>"
    if "?last < sp_updated_at_ms sp"
    using that by (auto simp: clock_accepts clock_of_def hm_get_or0_def word_gt_0 split: option.splits)
  have reject: "\<exists>e. ?clock = (Inl e, room)" if "\<not> ?last < sp_updated_at_ms sp"
    using that by (auto simp: enforce_signed_action_clock_def Let_def clock_of_def hm_get_or0_def word_gt_0
        split: option.splits)
  show ?thesis
  proof (cases "?last < sp_updated_at_ms sp")
    case True
    then show ?thesis
      using accept by (auto simp: apply_session_policy_update_def joined_in_def can_manage_roles_and_policy_def
          policy_effect_def session_policy_of_def word_gt_0 split: option.split)
  next
    case False
    then show ?thesis
      using reject by (auto simp: apply_session_policy_update_def joined_in_def can_manage_roles_and_policy_def
          split: option.split)
  qed
qed

section \<open>Moderation\<close>

text \<open>Only a joined host or co-host moderates: from anyone else a moderation is refused and the room
  stays as it is, and a moderation that goes through names a sender who has joined and may moderate,
  with a timestamp above every one it used before.\<close>

theorem moderation_authority:
  "(case moderation_section c mo now t room of
      (Some (Inr _), _) \<Rightarrow> joined_in room c \<and> can_moderate_conn room c
        \<and> (case get_p room c of None \<Rightarrow> False | Some sender \<Rightarrow>
             clock_of room (signed_action_clock_key ''moderation'' (p_participant_id (p_state sender))) < mo_sent_at_ms mo)
    | (_, room') \<Rightarrow> r_participants room' = r_participants room \<and> r_host_conn_id room' = r_host_conn_id room
        \<and> (joined_in room c \<and> can_moderate_conn room c \<or> room' = room))"
proof (cases "get_p room c")
  case None
  then show ?thesis by (simp add: moderation_section_def)
next
  case (Some sender)
  obtain r room1 where clock: "enforce_signed_action_clock room ''moderation''
      (p_participant_id (p_state sender)) ''sent_at_ms'' (mo_sent_at_ms mo) = (r, room1)"
    by fastforce
  have "case r of Inl _ \<Rightarrow> room1 = room | Inr _ \<Rightarrow>
      clock_of room (signed_action_clock_key ''moderation'' (p_participant_id (p_state sender))) < mo_sent_at_ms mo
      \<and> r_participants room1 = r_participants room \<and> r_host_conn_id room1 = r_host_conn_id room"
    using clock by (cases rule: clock_cases) (auto simp: clock_of_def hm_get_or0_def split: option.splits)
  then show ?thesis
    using Some clock by (cases r) (auto simp: moderation_section_def validate_moderation_sender_clock_def
        joined_in_def case_prod_beta split: sum.split)
qed

lemma moderate_targets_kick:
  "moderate_targets Action_Kick now at_ms room targets eff =
     (eff\<lparr>me_close_senders := me_close_senders eff @ map snd targets\<rparr>, room)"
  by (induction targets arbitrary: eff) (simp_all add: moderate_target_def)

text \<open>Kicking changes no participant: it only yields the queues to close, and every such queue
  belongs to a participant of the room; kicking all includes the sender.\<close>

theorem kick_effect:
  assumes "moderation_section c mo now t room = (Some (Inr eff), room')" and "mo_action mo = Action_Kick"
  shows "r_participants room' = r_participants room \<and> me_admitted eff = [] \<and> me_denied eff = []
     \<and> me_snapshots eff = [] \<and> me_error eff = None
     \<and> (case mo_target mo of
          Target_All \<Rightarrow> me_close_senders eff = room_txs room
        | Target_Participant i \<Rightarrow>
            list_ex (\<lambda>p. p_participant_id (p_state p) = i \<and> me_close_senders eff = [p_tx p])
              (hm_values (r_participants room)))"
proof -
  obtain sender where sender: "get_p room c = Some sender"
    using assms(1) by (auto simp: moderation_section_def split: option.splits)
  obtain r room1 where clock: "enforce_signed_action_clock room ''moderation''
      (p_participant_id (p_state sender)) ''sent_at_ms'' (mo_sent_at_ms mo) = (r, room1)"
    by fastforce
  obtain targets where targets: "moderation_targets c mo room1 = Inr targets"
      and eff: "eff = no_effects\<lparr>me_close_senders := map snd targets\<rparr>" "room' = room1"
    using assms sender clock
    by (auto simp: moderation_section_def validate_moderation_sender_clock_def moderate_targets_kick no_effects_def
        split: if_splits sum.splits)
  have same: "r_participants room1 = r_participants room"
    using clock by (cases rule: clock_cases) auto
  show ?thesis
  proof (cases "mo_target mo")
    case Target_All
    then show ?thesis
      using targets assms(2) same
      by (auto simp: eff no_effects_def moderation_targets_def include_sender_in_all_target_def room_txs_def
          hm_values_def case_prod_beta comp_def)
  next
    case (Target_Participant i)
    then obtain d p where "find (\<lambda>(_, p). p_participant_id (p_state p) = i) (r_participants room) = Some (d, p)"
        and tx: "targets = [(d, p_tx p)]"
      using targets same by (auto simp: moderation_targets_def split: option.splits)
    then have "(d, p) \<in> set (r_participants room) \<and> p_participant_id (p_state p) = i"
      unfolding find_Some_iff by (metis (mono_tags, lifting) case_prod_conv nth_mem)
    then show ?thesis
      using Target_Participant tx same by (force simp: eff no_effects_def list_ex_iff hm_values_def)
  qed
qed

lemma kick_effect_witness:
  "me_close_senders (projr (the (fst (moderation_section 1
      \<lparr>mo_sent_at_ms = 9, mo_target = Target_All, mo_action = Action_Kick\<rparr> 0 (\<lambda>i. 0) demo_pair))))
    = room_txs demo_pair"
proof -
  let ?m = "moderation_section 1 \<lparr>mo_sent_at_ms = 9, mo_target = Target_All, mo_action = Action_Kick\<rparr> 0 (\<lambda>i. 0) demo_pair"
  have "(case fst ?m of Some (Inr _) \<Rightarrow> True | _ \<Rightarrow> False)"
    by code_simp
  then obtain eff where m: "?m = (Some (Inr eff), snd ?m)"
    by (metis (no_types, lifting) option.case_eq_if option.collapse prod.collapse sum.case_eq_if sum.collapse(2))
  have "me_close_senders eff = room_txs demo_pair"
    using kick_effect [OF m] by simp
  then show ?thesis
    by (metis fst_conv m option.sel sum.sel(2))
qed

section \<open>The ways into a room\<close>

text \<open>A \<open>Hello\<close> is let through by the join checks exactly when the sender does not change the id it
  joined with, no other participant who joined or waits has that id, and the sender already may
  moderate (as host, co-host or reserved owner) or no lock and no guest rule holds against it, and,
  for a sender who has not joined yet, the room is not full.\<close>

theorem join_allowed_iff:
  "validate_join_allowed room c i = None \<longleftrightarrow>
     (case get_p room c of None \<Rightarrow> True
        | Some p \<Rightarrow> p_hello_seen (p_state p) \<longrightarrow> p_participant_id (p_state p) = i)
     \<and> list_all (\<lambda>(d, p). d \<noteq> c \<and> (p_hello_seen (p_state p) \<or> p_waiting_room_pending (p_state p))
          \<longrightarrow> p_participant_id (p_state p) \<noteq> i) (r_participants room)
     \<and> (conn_or_participant_can_moderate room c i \<or> r_host_conn_id room = None
        \<or> \<not> r_room_lock room
          \<and> (joined_in room c \<or> r_guest_join_allowed room \<or> \<not> participant_id_is_guest i))
     \<and> (joined_in room c \<or> active_joined room < unat (r_max_participants room))"
  by (auto simp: validate_join_allowed_def Let_def list_ex_iff list_all_iff joined_in_def not_le
      split: option.splits if_splits)

lemma join_allowed_iff_witness:
  "validate_join_allowed demo_pair 3 ''c@x'' = None \<and> validate_join_allowed demo_pair 3 ''b@x'' \<noteq> None"
proof -
  obtain p q where e: "r_participants demo_pair = [(1, p), (2, q)]"
      and p: "p_hello_seen (p_state p)" "p_participant_id (p_state p) = ''a@x''"
      and q: "p_hello_seen (p_state q)" "p_participant_id (p_state q) = ''b@x''"
    using demo_pair_entries by blast
  have "\<not> r_room_lock demo_pair \<and> r_guest_join_allowed demo_pair \<and> 2 < unat (r_max_participants demo_pair)"
    by code_simp
  then show ?thesis
    using e p q by (simp add: join_allowed_iff hm_get_def active_joined_def numeral_2_eq_2)
qed

text \<open>Media are off on join: whatever media state a \<open>Hello\<close> asks for, afterwards the sender, if it
  is still in the room and the \<open>Hello\<close> was taken, has its microphone, camera and screen share off and
  carries the id it asked for, and the outcome says whether it joined or waits.\<close>

theorem hello_media_off:
  assumes "fst (hello_section c (snd (enforce_join_media_defaults he)) t room) = Inr outcome"
    and "outcome \<noteq> Hello_ModeConflict" and "\<not> (\<exists>reason. outcome = Hello_Denied reason)"
  shows "(case get_p (snd (hello_section c (snd (enforce_join_media_defaults he)) t room)) c of
      None \<Rightarrow> False
    | Some p \<Rightarrow> p_participant_id (p_state p) = he_participant_id he
        \<and> \<not> p_mic_enabled (p_state p) \<and> \<not> p_video_enabled (p_state p) \<and> \<not> p_screen_share_enabled (p_state p)
        \<and> p_hello_seen (p_state p) = (\<exists>s d. outcome = Hello_Joined s d)
        \<and> p_waiting_room_pending (p_state p) = (\<exists>m. outcome = Hello_Waiting m))"
proof -
  define he' where "he' = snd (enforce_join_media_defaults he)"
  have off: "\<not> he_mic_enabled he'" "\<not> he_video_enabled he'" "\<not> he_screen_share_enabled he'"
    "he_participant_id he' = he_participant_id he"
    by (simp_all add: he'_def enforce_join_media_defaults_def)
  have allowed: "\<not> r_anonymous_mode room" "validate_join_allowed room c (he_participant_id he') = None"
    using assms unfolding he'_def [symmetric] by (auto simp: hello_section_def split: if_splits option.splits)
  define waits where "waits = (let room1 = claim_free_host room c (he_participant_id he') in
     \<not> joined_in room1 c \<and> r_waiting_room_enabled room1 \<and> r_host_conn_id room1 \<noteq> None
     \<and> \<not> conn_or_participant_can_moderate room1 c (he_participant_id he'))"
  show ?thesis
    using assms(1) allowed off unfolding he'_def [symmetric] hello_section_def Let_def
      waits_def [unfolded Let_def, symmetric]
    by (cases waits; cases "get_p room c") (auto simp: hello_state_def)
qed

lemma demo_second_join:
  "\<exists>s d. fst (hello_section 2 (snd (enforce_join_media_defaults (demo_hello ''b@x''))) (\<lambda>i. 0) demo_pair)
      = Inr (Hello_Joined s d)"
proof -
  have "(case fst (hello_section 2 (snd (enforce_join_media_defaults (demo_hello ''b@x''))) (\<lambda>i. 0) demo_pair) of
      Inr (Hello_Joined s d) \<Rightarrow> True | _ \<Rightarrow> False)"
    by code_simp
  then show ?thesis by (auto split: sum.splits hello_outcome.splits)
qed

lemma hello_media_off_witness:
  "\<exists>p. get_p (snd (hello_section 2 (snd (enforce_join_media_defaults (demo_hello ''b@x''))) (\<lambda>i. 0) demo_pair)) 2 = Some p
     \<and> \<not> p_mic_enabled (p_state p) \<and> p_hello_seen (p_state p)"
proof -
  obtain s d where "fst (hello_section 2 (snd (enforce_join_media_defaults (demo_hello ''b@x''))) (\<lambda>i. 0) demo_pair)
      = Inr (Hello_Joined s d)"
    using demo_second_join by blast
  from hello_media_off [OF this] show ?thesis
    by (auto split: option.splits)
qed

section \<open>Leaving and the next host\<close>

text \<open>A disconnect forgets the connection everywhere in the room, removes the room exactly when no
  other participant is left, and touches no other participant; in a transparent room that goes on, the
  host changes only if the host left, and the next host is the smallest remaining connection id.\<close>

theorem disconnect_effect:
  assumes "hm_ok (r_participants room)" and "disconnect_section c t room = (oc, room')"
  shows "r_participants room' = hm_remove (r_participants room) c
     \<and> hm_get (r_device_caps_by_conn room') c = None \<and> c \<notin> set (r_co_host_conn_ids room')
     \<and> hm_get (r_e2ee_epochs room') c = None \<and> hm_get (r_key_rotation_ack_epochs room') c = None
     \<and> do_remove_room oc = (r_participants room' = [])
     \<and> (do_remove_room oc \<or> r_anonymous_mode room
        \<or> r_host_conn_id room' = (if r_host_conn_id room = Some c
             then min_key (hm_keys (r_participants room')) else r_host_conn_id room))"
proof -
  define left where "left = forget_conn room c"
  have ok: "hm_ok (r_participants left)" and gone: "get_p left c = None"
    using assms(1) by (simp_all add: left_def forget_conn_def hm_simps)
  have "c \<notin> set (r_co_host_conn_ids left)"
    by (simp add: left_def forget_conn_def)
  moreover have "c \<notin> set (r_co_host_conn_ids (snd (sync_active_co_host_bindings (left\<lparr>r_host_conn_id := h\<rparr>))))" for h
    using ok gone by (simp add: co_bound_def)
  ultimately have unbound: "c \<notin> set (r_co_host_conn_ids (reassign_host left c))"
    by (simp add: reassign_host_def)
  have fields: "r_participants (reassign_host left c) = hm_remove (r_participants room) c"
    "r_device_caps_by_conn (reassign_host left c) = hm_remove (r_device_caps_by_conn room) c"
    "r_e2ee_epochs (reassign_host left c) = hm_remove (r_e2ee_epochs room) c"
    "r_key_rotation_ack_epochs (reassign_host left c) = hm_remove (r_key_rotation_ack_epochs room) c"
    "r_host_conn_id (reassign_host left c) = (if \<not> r_anonymous_mode room \<and> r_host_conn_id room = Some c
       then min_key (hm_keys (hm_remove (r_participants room) c)) else r_host_conn_id room)"
    by (simp_all add: reassign_host_def bump_permissions_def left_def forget_conn_def)
  show ?thesis
    using assms(2) unbound fields \<open>c \<notin> set (r_co_host_conn_ids left)\<close>
    unfolding disconnect_section_def Let_def left_def [symmetric]
    by (auto simp: bump_presence_def hm_simps left_def forget_conn_def split: if_splits)
qed

lemma disconnect_effect_witness:
  "r_host_conn_id (snd (disconnect_section 1 (\<lambda>i. 0) demo_pair)) = Some 2"
proof -
  obtain p q where e: "r_participants demo_pair = [(1, p), (2, q)]"
    using demo_pair_entries by blast
  note effect = disconnect_effect [OF demo_pair_ok surjective_pairing [of "disconnect_section 1 (\<lambda>i. 0) demo_pair"]]
  have "r_participants (snd (disconnect_section 1 (\<lambda>i. 0) demo_pair)) = [(2, q)]"
    using effect by (simp add: e hm_remove_def)
  then show ?thesis
    using effect demo_pair_facts(1,2) by (auto simp: hm_keys_def)
qed

text \<open>C38. The next host need not have joined: when the host of a transparent room leaves and the smallest
  remaining connection is a guest in the waiting room, that guest becomes the host, and its next
  \<open>Hello\<close> under the same id joins it without anyone's admission, unless the room is full.\<close>

theorem waiting_guest_takes_over:
  assumes "members_ok cfg room" and "\<not> r_anonymous_mode room" and "r_host_conn_id room = Some h"
    and "get_p room g = Some p" and "p_waiting_room_pending (p_state p)" and "g \<noteq> h"
    and "min_key (hm_keys (hm_remove (r_participants room) h)) = Some g"
    and "active_joined (snd (disconnect_section h t room)) < unat (r_max_participants room)"
    and "he_participant_id he = p_participant_id (p_state p)"
  shows "r_host_conn_id (snd (disconnect_section h t room)) = Some g
     \<and> (\<exists>s d. fst (hello_section g he t' (snd (disconnect_section h t room))) = Inr (Hello_Joined s d))"
proof -
  define room' where "room' = snd (disconnect_section h t room)"
  note ok = members_okD [OF assms(1)]
  obtain oc where eq: "disconnect_section h t room = (oc, room')"
    unfolding room'_def by (metis prod.collapse)
  have ps: "r_participants room' = hm_remove (r_participants room) h"
    using disconnect_effect [OF ok(1) eq] by blast
  have g: "get_p room' g = Some p"
    using assms(4,6) by (simp add: ps hm_simps)
  then have "\<not> do_remove_room oc"
    using disconnect_effect [OF ok(1) eq] by (auto simp: hm_get_Nil)
  then have host: "r_host_conn_id room' = Some g"
    using disconnect_effect [OF ok(1) eq] assms(2,3,7) ps by auto
  have anon: "\<not> r_anonymous_mode room'"
    using assms(2) by (simp add: room'_def disconnect_section_def Let_def forget_conn_def reassign_host_def)
  have cap: "r_max_participants room' = r_max_participants room"
    by (simp add: room'_def disconnect_section_def Let_def forget_conn_def reassign_host_def
        bump_permissions_def bump_presence_def)
  have "members_ok cfg room'"
    using members_ok_leave [OF assms(1)] by (simp add: room'_def)
  then have uniq: "ids_unique room'" and ok': "hm_ok (r_participants room')" and wait: "waiting_ok room'"
    by (rule members_okD)+
  have others: "list_all (\<lambda>(d, q). d \<noteq> g \<and> (p_hello_seen (p_state q) \<or> p_waiting_room_pending (p_state q))
      \<longrightarrow> p_participant_id (p_state q) \<noteq> p_participant_id (p_state p)) (r_participants room')"
    unfolding list_all_iff
  proof (intro ballI, clarify)
    fix d q
    assume "(d, q) \<in> set (r_participants room')" and "d \<noteq> g"
      and "p_hello_seen (p_state q) \<or> p_waiting_room_pending (p_state q)"
      and "p_participant_id (p_state q) = p_participant_id (p_state p)"
    then show False
      using uniq anon assms(5) get_p_members [OF g] get_p_members [of room' d q]
      unfolding ids_unique_def present_def entry_get [OF ok'] by (metis member_of_sel(1,2,3))
  qed
  have mod: "conn_or_participant_can_moderate room' g i" for i
    by (simp add: conn_or_participant_can_moderate_def host)
  have "validate_join_allowed room' g (p_participant_id (p_state p)) = None"
    unfolding join_allowed_iff using g others mod assms(8) [folded room'_def] cap by simp
  then have "\<exists>s d. fst (hello_section g he t' room') = Inr (Hello_Joined s d)"
    using anon g mod assms(9) host
    by (simp add: hello_section_def Let_def case_prod_beta claim_free_host_def)
  with host show ?thesis by (simp add: room'_def)
qed

lemma waiting_guest_takes_over_witness:
  "\<exists>s d. fst (hello_section 2 (demo_hello ''b@x'') (\<lambda>i. 0) (snd (disconnect_section 1 (\<lambda>i. 0) demo_waiting)))
      = Inr (Hello_Joined s d)"
proof -
  obtain p q where e: "r_participants demo_waiting = [(1, p), (2, q)]"
      and q: "p_participant_id (p_state q) = ''b@x''" "\<not> p_hello_seen (p_state q)" "p_waiting_room_pending (p_state q)"
    using demo_waiting_entries by blast
  have ok: "members_ok demo_cfg demo_waiting"
    by (rule membership.room_steps_inv [OF demo_waiting_reached membership.inv_new])
  note left = disconnect_effect [OF members_okD(1) [OF ok] surjective_pairing [of "disconnect_section 1 (\<lambda>i. 0) demo_waiting"]]
  have "active_joined (snd (disconnect_section 1 (\<lambda>i. 0) demo_waiting)) = 0"
    using left q(2) by (simp add: e hm_remove_def active_joined_def)
  then show ?thesis
    using waiting_guest_takes_over [OF ok demo_waiting_facts(1,2), of 2 q "\<lambda>i. 0" "demo_hello ''b@x''" "\<lambda>i. 0"] q
      demo_waiting_facts(3)
    by (simp add: e hm_get_def hm_remove_def hm_keys_def demo_hello_def)
qed

lemma length_filter_upd:
  "distinct (map fst es) \<Longrightarrow> (c, p) \<in> set es \<Longrightarrow> \<not> P p \<Longrightarrow> P q \<Longrightarrow>
     length (filter (\<lambda>e. P (snd e)) (AList.update c q es)) = Suc (length (filter (\<lambda>e. P (snd e)) es))"
proof (induction es)
  case (Cons e es)
  obtain d r where e: "e = (d, r)" by (cases e)
  show ?case
  proof (cases "d = c")
    case True
    then have "r = p" using Cons.prems e by (force simp: image_iff)
    then show ?thesis using True Cons.prems e by simp
  next
    case False
    then show ?thesis using Cons e by auto
  qed
qed simp

text \<open>Admission from the waiting room joins the guest, with media off, and adds one joined
  participant whatever \<open>max_participants\<close> says: the cap that \<open>Hello\<close> enforces does not bind it.\<close>

theorem admission_ignores_cap:
  assumes "hm_ok (r_participants room)" and "get_p room c = Some p"
    and "p_waiting_room_pending (p_state p)" and "\<not> p_hello_seen (p_state p)"
  shows "(case admit_waiting_participant at_ms room c of
      (Inl _, _) \<Rightarrow> False
    | (Inr oc, room') \<Rightarrow> active_joined room' = Suc (active_joined room)
        \<and> joined_in room' c \<and> wo_conn_id oc = c
        \<and> \<not> sn_mic_enabled (wo_snapshot oc) \<and> \<not> sn_video_enabled (wo_snapshot oc)
        \<and> \<not> sn_screen_share_enabled (wo_snapshot oc))"
proof -
  have entry: "(c, p) \<in> set (r_participants room)"
    using assms(2) by (simp add: entry_get [OF assms(1)])
  have "length (filter (\<lambda>e. p_hello_seen (p_state (snd e))) (AList.update c q (r_participants room)))
      = Suc (length (filter (\<lambda>e. p_hello_seen (p_state (snd e))) (r_participants room)))"
    if "p_hello_seen (p_state q)" for q
    using length_filter_upd [of "r_participants room" c p "\<lambda>p. p_hello_seen (p_state p)" q]
      assms(1,4) entry that by (simp add: hm_ok_def hm_keys_def)
  then show ?thesis
    using assms(2,3)
    by (simp add: admit_waiting_participant_def Let_def case_prod_beta active_joined_def joined_in_def
        set_pstate_def hm_insert_def filter_map comp_def participant_snapshot_from_state_def hm_get_def
        update_conv')
qed

lemma admission_ignores_cap_witness:
  "r_max_participants (demo_waiting\<lparr>r_max_participants := 1\<rparr>) = 1
   \<and> active_joined (snd (admit_waiting_participant 0 (demo_waiting\<lparr>r_max_participants := 1\<rparr>) 2)) = 2"
proof -
  obtain p q where e: "r_participants demo_waiting = [(1, p), (2, q)]"
      and q: "p_waiting_room_pending (p_state q)" "\<not> p_hello_seen (p_state q)" "p_hello_seen (p_state p)"
    using demo_waiting_entries by blast
  let ?room = "demo_waiting\<lparr>r_max_participants := 1\<rparr>"
  have "hm_ok (r_participants ?room)" and "get_p ?room 2 = Some q" and "active_joined ?room = 1"
    using q by (simp_all add: e hm_ok_def hm_keys_def hm_get_def active_joined_def)
  with admission_ignores_cap [of ?room 2 q 0] q show ?thesis
    by (auto split: prod.splits sum.splits)
qed

section \<open>Media rules\<close>

text \<open>A \<open>ParticipantState\<close> that turns a screen share on leaves the room within its limit: it is
  granted only while fewer others share than \<open>max_screen_shares\<close> allows, and it changes nothing but
  the media flags of the sender, which are those of the returned snapshot.\<close>

theorem participant_state_share_limit:
  assumes "participant_state_section c update at_ms room = (State_Updated snapshot deny, room')"
    and "get_p room c = Some p"
  shows "room' = set_pstate room c ((p_state p)\<lparr>p_mic_enabled := sn_mic_enabled snapshot,
       p_video_enabled := sn_video_enabled snapshot, p_screen_share_enabled := sn_screen_share_enabled snapshot\<rparr>)
     \<and> p_hello_seen (p_state p)
     \<and> (\<not> sn_screen_share_enabled snapshot \<or> p_screen_share_enabled (p_state p)
        \<or> active_shares_of_others room c < unat (max (r_max_screen_shares room) 1))"
  using assms
  by (auto simp: participant_state_section_def screen_share_request_def participant_snapshot_from_state_def
      Let_def not_le split: if_splits option.splits)

lemma participant_state_share_limit_witness:
  "(case fst (participant_state_section 1 \<lparr>psf_updated_at_ms = 0, psf_mic_enabled = None, psf_video_enabled = None,
        psf_screen_share_enabled = Some True\<rparr> 0 demo_waiting) of
      State_Updated snapshot deny \<Rightarrow> sn_screen_share_enabled snapshot
        \<and> active_shares_of_others demo_waiting 1 < unat (max (r_max_screen_shares demo_waiting) 1)
    | _ \<Rightarrow> False)"
proof -
  let ?r = "participant_state_section 1 \<lparr>psf_updated_at_ms = 0, psf_mic_enabled = None, psf_video_enabled = None,
        psf_screen_share_enabled = Some True\<rparr> 0 demo_waiting"
  have "(case fst ?r of State_Updated snapshot deny \<Rightarrow> sn_screen_share_enabled snapshot | _ \<Rightarrow> False)"
    by code_simp
  then obtain snapshot deny where r: "?r = (State_Updated snapshot deny, snd ?r)" and on: "sn_screen_share_enabled snapshot"
    by (cases ?r) (auto split: state_outcome.splits)
  obtain p where p: "get_p demo_waiting 1 = Some p"
    using demo_waiting_entries by (auto simp: hm_get_def)
  have "(case get_p demo_waiting 1 of Some p \<Rightarrow> \<not> p_screen_share_enabled (p_state p) | None \<Rightarrow> False)"
    by code_simp
  then show ?thesis
    using participant_state_share_limit [OF r p] on p by (subst r) simp
qed

text \<open>\<open>MediaTrackState\<close> is not bound by that limit: a joined sender that reports an active screen
  share shares from then on, however many others share already.\<close>

theorem media_track_ignores_share_limit:
  assumes "get_p room c = Some p" and "p_hello_seen (p_state p)"
    and "p_participant_id (p_state p) = mt_participant_id track"
    and "mt_active_video_track track = Track_ScreenShare"
  shows "(case get_p (snd (media_track_section c track at_ms room)) c of
      None \<Rightarrow> False
    | Some p' \<Rightarrow> p_screen_share_enabled (p_state p') = mt_screen_share_enabled track)
    \<and> active_shares_of_others (snd (media_track_section c track at_ms room)) c = active_shares_of_others room c"
proof -
  have upd: "length (filter (\<lambda>(d, p). d \<noteq> c \<and> p_screen_share_enabled (p_state p)) (AList.update c q es))
      = length (filter (\<lambda>(d, p). d \<noteq> c \<and> p_screen_share_enabled (p_state p)) es)" for q es
    by (induction es) auto
  show ?thesis
    using assms upd by (simp add: media_track_section_def sender_mismatch_def Let_def track_state_def
        active_shares_of_others_def set_pstate_def hm_insert_def hm_get_def update_conv')
qed

lemma media_track_ignores_share_limit_witness:
  "(case get_p (snd (media_track_section 1 \<lparr>mt_updated_at_ms = 0, mt_participant_id = ''a@x'', mt_mic_enabled = False,
        mt_camera_enabled = False, mt_screen_share_enabled = True, mt_active_video_track = Track_ScreenShare\<rparr> 0
        (set_pstate demo_pair 2 ((new_participant_state 2 0)\<lparr>p_screen_share_enabled := True\<rparr>)))) 1 of
      None \<Rightarrow> False | Some p' \<Rightarrow> p_screen_share_enabled (p_state p'))"
proof -
  obtain p q where e: "r_participants demo_pair = [(1, p), (2, q)]"
      and p: "p_hello_seen (p_state p)" "p_participant_id (p_state p) = ''a@x''"
    using demo_pair_entries by blast
  let ?room = "set_pstate demo_pair 2 ((new_participant_state 2 0)\<lparr>p_screen_share_enabled := True\<rparr>)"
  have "get_p demo_pair 1 = Some p"
    by (simp add: e hm_get_def)
  then have "get_p ?room 1 = Some p"
    by simp
  from media_track_ignores_share_limit [OF this p(1), of "\<lparr>mt_updated_at_ms = 0, mt_participant_id = ''a@x'',
      mt_mic_enabled = False, mt_camera_enabled = False, mt_screen_share_enabled = True,
      mt_active_video_track = Track_ScreenShare\<rparr>" 0] p(2)
  show ?thesis by (simp split: option.splits)
qed

text \<open>An HDR profile survives negotiation exactly when the sender's device captures HDR and some
  other joined participant's device renders it; nothing else of the frame changes.\<close>

theorem hdr_negotiation:
  "resolve_media_profile_negotiation room c profile = profile\<lparr>mp_negotiated_profile :=
     (if mp_negotiated_profile profile = Profile_Hdr
         \<and> (case hm_get (r_device_caps_by_conn room) c of None \<Rightarrow> False | Some cap \<Rightarrow> dc_hdr_capture cap)
         \<and> list_ex (\<lambda>(d, p). d \<noteq> c \<and> p_hello_seen (p_state p)
              \<and> (case hm_get (r_device_caps_by_conn room) d of None \<Rightarrow> False | Some cap \<Rightarrow> dc_hdr_render cap))
            (r_participants room)
      then Profile_Hdr else Profile_Sdr)\<rparr>"
  by (cases "mp_negotiated_profile profile") (auto simp: resolve_media_profile_negotiation_def Let_def)

end
