(* ===== verification/Hub_Delivery.thy ===== *)
theory Hub_Delivery
  imports Hub_Members "HOL-Library.Multiset"
begin

text \<open>
  What reaches whom: the rosters, the delivery and the drop accounting of a broadcast, the gate that
  keeps plaintext content off a room that requires end-to-end encryption and what it lets pass, and the connections whose
  \<open>handle_disconnect\<close> never runs.
\<close>

section \<open>Rosters\<close>

lemma sorted_key_unique:
  assumes "mset xs = mset ys" and "distinct (map f xs)"
  shows "sort_key f xs = sort_key f ys"
proof -
  have inj: "inj_on f (set xs)" and "set ys = set xs"
    using assms by (auto simp: distinct_map dest: mset_eq_setD)
  show ?thesis
  proof (rule properties_for_sort_key)
    show "mset (sort_key f ys) = mset xs" using assms(1) by simp
    show "filter (\<lambda>x. f k = f x) (sort_key f ys) = filter (\<lambda>x. f k = f x) xs" if "k \<in> set (sort_key f ys)" for k
    proof -
      have k: "k \<in> set xs" using that \<open>set ys = set xs\<close> by simp
      have one: "x = k" if "x \<in> set xs" "f k = f x" for x
        using inj k that by (auto dest: inj_onD)
      have const: "filter (\<lambda>x. f k = f x) zs = replicate (count (mset zs) k) k" if "set zs = set xs" for zs
      proof -
        have "filter (\<lambda>x. f k = f x) zs = filter (\<lambda>x. k = x) zs"
          using one that by (intro filter_cong) auto
        also have "\<dots> = replicate (count (mset zs) k) k"
          by (simp add: replicate_count_mset_eq_filter_eq)
        finally show ?thesis .
      qed
      show ?thesis
        using const [of "sort_key f ys"] const [of xs] \<open>set ys = set xs\<close> assms(1) by simp
    qed
    show "sorted (map f (sort_key f ys))" by simp
  qed
qed

lemma joined_ids_distinct:
  assumes "members_ok cfg room" and "\<not> r_anonymous_mode room"
  shows "distinct (map p_participant_id (filter p_hello_seen (p_states room)))"
proof -
  note ok = members_okD [OF assms(1)]
  let ?es = "filter (\<lambda>e. p_hello_seen (p_state (snd e))) (r_participants room)"
  have "distinct ?es"
    using ok(1) by (simp add: hm_ok_def hm_keys_def distinct_map)
  moreover have "inj_on (\<lambda>e. p_participant_id (p_state (snd e))) (set ?es)"
  proof (rule inj_onI)
    fix e e'
    assume "e \<in> set ?es" and "e' \<in> set ?es" and same: "p_participant_id (p_state (snd e)) = p_participant_id (p_state (snd e'))"
    then have get: "get_p room (fst e) = Some (snd e)" "get_p room (fst e') = Some (snd e')"
        and seen: "p_hello_seen (p_state (snd e))" "p_hello_seen (p_state (snd e'))"
      using entry_get [OF ok(1), of "fst e" "snd e"] entry_get [OF ok(1), of "fst e'" "snd e'"] by auto
    have "fst e = fst e'"
      using ok(2) assms(2) same seen get_p_members [OF get(1)] get_p_members [OF get(2)]
      unfolding ids_unique_def present_def by (metis member_of_sel(1,3))
    with get show "e = e'"
      by (simp add: prod_eq_iff)
  qed
  ultimately show ?thesis
    by (simp add: filter_map comp_def distinct_map)
qed

text \<open>The roster of a reachable transparent room is sorted by participant id without repetitions, and it
  does not depend on the order in which the hash map yields its entries.\<close>

theorem roster_deterministic:
  assumes "hub_reachable X cfg w" and "hm_get (h_rooms w) rid = Some room" and "\<not> r_anonymous_mode room"
    and "mset ps = mset (r_participants room)"
  shows "roster_entries (room\<lparr>r_participants := ps\<rparr>) = roster_entries room
     \<and> sorted (map roe_participant_id (roster_entries room))
     \<and> distinct (map roe_participant_id (roster_entries room))"
proof -
  let ?entry = "\<lambda>st. \<lparr>roe_participant_id = p_participant_id st, roe_display_name = p_display_name st,
    roe_mic_enabled = p_mic_enabled st, roe_video_enabled = p_video_enabled st,
    roe_screen_share_enabled = p_screen_share_enabled st\<rparr>"
  define entries where "entries = (\<lambda>room. map ?entry (filter p_hello_seen (p_states room)))"
  have roster: "roster_entries r = sort_key roe_participant_id (entries r)" for r
    by (simp add: roster_entries_def entries_def)
  have keys: "map roe_participant_id (entries room) = map p_participant_id (filter p_hello_seen (p_states room))"
    by (simp add: entries_def comp_def)
  have dist: "distinct (map roe_participant_id (entries room))"
    unfolding keys by (rule joined_ids_distinct [OF reachable_members [OF assms(1,2)] assms(3)])
  have "mset (entries room) = mset (entries (room\<lparr>r_participants := ps\<rparr>))"
    using assms(4) by (simp add: entries_def filter_map mset_map mset_filter comp_def)
  then have "roster_entries room = roster_entries (room\<lparr>r_participants := ps\<rparr>)"
    unfolding roster using dist by (rule sorted_key_unique)
  moreover have "distinct (map roe_participant_id (roster_entries room))"
    using dist unfolding roster by (simp add: distinct_map)
  ultimately show ?thesis
    by (simp add: roster)
qed

lemma roster_deterministic_witness:
  "roster_entries (demo_pair\<lparr>r_participants := rev (r_participants demo_pair)\<rparr>) = roster_entries demo_pair"
  using roster_deterministic [OF demo_reachable demo_pair_reached demo_pair_facts(1),
      of "rev (r_participants demo_pair)"] by simp

section \<open>Broadcast\<close>

definition can_send :: "hub \<Rightarrow> conn_id \<Rightarrow> bool" where
  "can_send w c = (case hm_get (h_chans w) c of
     None \<Rightarrow> False | Some ch \<Rightarrow> q_open ch \<and> length (q_msgs ch) < CHANNEL_CAPACITY)"

definition queue_of :: "hub \<Rightarrow> conn_id \<Rightarrow> ws_message list" where
  "queue_of w c = (case hm_get (h_chans w) c of None \<Rightarrow> [] | Some ch \<Rightarrow> q_msgs ch)"

lemma run_bind_fst:
  "run (bind_prog p k) w = (case fst (run p w) of
     Inl e \<Rightarrow> (Inl e, snd (run p w)) | Inr x \<Rightarrow> run (k x) (snd (run p w)))"
  by (simp add: run_bind case_prod_beta split: sum.split)

lemma run_try_send:
  "fst (run (try_send c m) w) = Inr (can_send w c)"
  "h_rooms (snd (run (try_send c m) w)) = h_rooms w"
  "reading (snd (run (try_send c m) w)) = reading w"
  "queue_of (snd (run (try_send c m) w)) d = queue_of w d @ (if d = c \<and> can_send w c then [m] else [])"
  "d \<noteq> c \<Longrightarrow> can_send (snd (run (try_send c m) w)) d = can_send w d"
  by (auto simp: try_send_def run_atomic can_send_def queue_of_def hm_simps split: option.splits)

lemma run_count_failed:
  assumes "distinct txs"
  shows "fst (run (count_failed txs (\<lambda>tx. try_send tx m)) w) = Inr (length (filter (\<lambda>c. \<not> can_send w c) txs))
     \<and> h_rooms (snd (run (count_failed txs (\<lambda>tx. try_send tx m)) w)) = h_rooms w
     \<and> reading (snd (run (count_failed txs (\<lambda>tx. try_send tx m)) w)) = reading w
     \<and> queue_of (snd (run (count_failed txs (\<lambda>tx. try_send tx m)) w)) d =
         queue_of w d @ (if d \<in> set txs \<and> can_send w d then [m] else [])"
  using assms
proof (induction txs arbitrary: w)
  case Nil
  then show ?case by simp
next
  case (Cons c txs)
  let ?w = "snd (run (try_send c m) w)"
  have keep: "can_send ?w d = can_send w d" if "d \<in> set txs" for d
    using that Cons.prems by (intro run_try_send(5)) auto
  have count: "filter (\<lambda>c. \<not> can_send ?w c) txs = filter (\<lambda>c. \<not> can_send w c) txs"
    using keep by (intro filter_cong) auto
  have IH: "fst (run (count_failed txs (\<lambda>tx. try_send tx m)) ?w) = Inr (length (filter (\<lambda>c. \<not> can_send w c) txs))"
    using Cons.IH [of ?w] Cons.prems count by simp
  have other: "d \<in> set txs \<Longrightarrow> d \<noteq> c"
    using Cons.prems by auto
  have "fst (run (count_failed (c # txs) (\<lambda>tx. try_send tx m)) w) = Inr (length (filter (\<lambda>c. \<not> can_send w c) (c # txs)))"
    and "snd (run (count_failed (c # txs) (\<lambda>tx. try_send tx m)) w) = snd (run (count_failed txs (\<lambda>tx. try_send tx m)) ?w)"
    by (simp_all add: run_bind_fst run_try_send(1) IH)
  then show ?case
    using Cons.IH [of ?w] Cons.prems run_try_send(2,3) [of c m w] run_try_send(4) [of c m w d] keep [of d] other
    by (cases "d = c"; cases "d \<in> set txs") simp_all
qed

lemma broadcast_run:
  assumes "encode_framed X frame = Inr bytes" and "hm_get (h_rooms w) rid = Some room"
    and "distinct (room_txs room)" and "list_all (can_send w) (room_txs room)"
    and "run (broadcast_frame X rid frame) w = (r, w')"
  shows "r = Inr () \<and> h_rooms w' = h_rooms w
     \<and> queue_of w' d = queue_of w d @ (if d \<in> set (room_txs room) then [Msg_Binary bytes] else [])"
proof -
  have none: "filter (\<lambda>c. \<not> can_send w c) (room_txs room) = []"
    using assms(4) by (auto simp: list_all_iff filter_empty_conv)
  note sent = run_count_failed [OF assms(3), of "Msg_Binary bytes" w d]
  have counted: "fst (run (count_failed (room_txs room) (\<lambda>tx. try_send tx (Msg_Binary bytes))) w) = Inr 0"
    using sent none by simp
  have "run (broadcast_frame X rid frame) w =
      (Inr (), snd (run (count_failed (room_txs room) (\<lambda>tx. try_send tx (Msg_Binary bytes))) w))"
    using assms(1,2) counted
    by (simp add: broadcast_frame_def encode_or_fail_def run_bind_fst run_read_room run_when_some)
  then show ?thesis
    using assms(4,5) sent by (auto simp: list_all_iff)
qed

text \<open>When every queue of the room takes the message, a broadcast that runs alone succeeds, appends
  exactly the encoded frame to the queue of every participant and to no other queue, and leaves every
  room as it is.\<close>

theorem broadcast_delivers:
  assumes "encode_framed X frame = Inr bytes" and "hm_get (h_rooms w) rid = Some room"
    and "distinct (room_txs room)" and "list_all (can_send w) (room_txs room)"
    and "run (broadcast_frame X rid frame) w = (r, w')"
  shows "r = Inr () \<and> h_rooms w' = h_rooms w
     \<and> queue_of w' d = queue_of w d @ (if d \<in> set (room_txs room) then [Msg_Binary bytes] else [])"
  by (rule broadcast_run [OF assms])

definition demo_listeners :: hub where
  \<comment> \<open>the pair's room, with an empty queue for each\<close>
  "demo_listeners = empty_hub\<lparr>h_rooms := [([7], demo_pair)],
     h_chans := [(1, \<lparr>q_msgs = [], q_open = True\<rparr>), (2, \<lparr>q_msgs = [], q_open = True\<rparr>)]\<rparr>"

lemma demo_pair_txs: "room_txs demo_pair = [1, 2]"
  by code_simp

lemma plain_encodes: "encode_framed plain_ext frame = Inr [0, 0, 0, 1, 0]"
proof -
  have "norito_to_bytes plain_ext frame = Some [0]"
    by (simp add: plain_ext_def)
  moreover have "u32_be_bytes 1 = [0, 0, 0, 1]"
    by code_simp
  ultimately show ?thesis
    by (simp add: encode_framed_def MAX_FRAME_LEN_def)
qed

lemma demo_pair_listening:
  "distinct (room_txs demo_pair)" "list_all (can_send demo_listeners) (room_txs demo_pair)"
  "hm_get (h_rooms demo_listeners) [7] = Some demo_pair"
  by (simp_all add: demo_pair_txs can_send_def demo_listeners_def hm_get_def CHANNEL_CAPACITY_def)

lemma broadcast_delivers_witness:
  "queue_of (snd (run (broadcast_frame plain_ext [7] (K_Ping \<lparr>ping_nonce = 3\<rparr>)) demo_listeners)) 2
    = [Msg_Binary [0, 0, 0, 1, 0]]"
  using broadcast_delivers [OF plain_encodes demo_pair_listening(3,1,2) surjective_pairing, of _ 2]
  by (simp add: demo_pair_txs queue_of_def demo_listeners_def hm_get_def)

text \<open>Sending never writes a room.\<close>

lemma send_frame_to_rooms [simp]: "h_rooms (snd (run (send_frame_to X rid c frame) w)) = h_rooms w"
  by (simp add: send_frame_to_def encode_or_fail_def run_bind_fst find_tx_def run_atomic_try send_quietly_def
      run_try_send split: sum.split)

lemma for_each_rooms:
  "(\<And>x w. h_rooms (snd (run (f x) w)) = h_rooms w) \<Longrightarrow> h_rooms (snd (run (for_each xs f) w)) = h_rooms w"
  by (induction xs arbitrary: w) (simp_all add: seq_prog_def run_bind_fst split: sum.split)

lemma notify_moderators_rooms [simp]: "h_rooms (snd (run (notify_moderators X rid m) w)) = h_rooms w"
  by (simp add: notify_moderators_def run_bind_fst run_read_room for_each_rooms)

text \<open>A broadcast that runs alone accounts for every participant whose queue did not take the frame:
  the room's count of dropped messages grows by their number (saturating), and apart from that count
  and the time of the last notice no room changes. A notice is due only \<open>5000\<close> ms after the last.\<close>

theorem broadcast_counts_drops:
  assumes "encode_framed X frame = Inr bytes" and "hm_get (h_rooms w) rid = Some room"
    and "distinct (room_txs room)" and "dropped = length (filter (\<lambda>c. \<not> can_send w c) (room_txs room))"
    and "run (broadcast_frame X rid frame) w = (r, w')"
  shows "h_rooms w' = (if dropped = 0 then h_rooms w
       else hm_insert (h_rooms w) rid (room\<lparr>
         r_backpressure_dropped_messages := sat_add (r_backpressure_dropped_messages room) (of_nat dropped),
         r_backpressure_last_notice_at_ms :=
           (if 5000 \<le> sat_sub (reading w 0) (r_backpressure_last_notice_at_ms room) then reading w 0
            else r_backpressure_last_notice_at_ms room)\<rparr>))"
proof -
  note sent = run_count_failed [OF assms(3), of "Msg_Binary bytes" w]
  let ?v = "snd (run (count_failed (room_txs room) (\<lambda>tx. try_send tx (Msg_Binary bytes))) w)"
  have v: "h_rooms ?v = h_rooms w" "reading ?v = reading w"
    and counted: "fst (run (count_failed (room_txs room) (\<lambda>tx. try_send tx (Msg_Binary bytes))) w) = Inr dropped"
    using sent assms(4) by simp_all
  have "h_rooms (snd (run (broadcast_frame X rid frame) w)) =
      (if dropped = 0 then h_rooms w else hm_insert (h_rooms w) rid (snd (backpressure_section dropped (reading w) room)))"
    using assms(1,2) counted v
    by (simp add: broadcast_frame_def encode_or_fail_def run_bind_fst run_read_room run_when_some run_with_room
        split: option.split)
  then show ?thesis
    using assms(5) by (simp add: backpressure_section_def Let_def BACKPRESSURE_NOTICE_MIN_INTERVAL_MS_def)
qed

lemma broadcast_counts_drops_witness:
  "h_rooms (snd (run (broadcast_frame plain_ext [7] (K_Ping \<lparr>ping_nonce = 3\<rparr>)) (demo_listeners\<lparr>h_chans := []\<rparr>)))
    \<noteq> h_rooms (demo_listeners\<lparr>h_chans := []\<rparr>)"
proof -
  let ?w = "demo_listeners\<lparr>h_chans := []\<rparr>"
  have get: "hm_get (h_rooms ?w) [7] = Some demo_pair"
    using demo_pair_listening(3) by simp
  have "length (filter (\<lambda>c. \<not> can_send ?w c) (room_txs demo_pair)) = 2"
    by (simp add: demo_pair_txs can_send_def hm_get_def)
  from broadcast_counts_drops [OF plain_encodes get demo_pair_listening(1) this [symmetric] surjective_pairing]
  have "hm_get (h_rooms (snd (run (broadcast_frame plain_ext [7] (K_Ping \<lparr>ping_nonce = 3\<rparr>)) ?w))) [7] \<noteq> Some demo_pair"
  proof -
    have "r_backpressure_dropped_messages demo_pair = 0"
      by code_simp
    moreover have "sat_add 0 2 \<noteq> (0 :: u64)"
      by code_simp
    ultimately have ne: "demo_pair\<lparr>r_backpressure_dropped_messages := sat_add (r_backpressure_dropped_messages demo_pair) (of_nat 2),
        r_backpressure_last_notice_at_ms := z\<rparr> \<noteq> demo_pair" for z
      by (metis (no_types, lifting) of_nat_numeral room_state.select_convs(26) room_state.surjective room_state.update_convs(26,27))
    then show ?thesis
      using \<open>_ = (if 2 = 0 then _ else _)\<close> by (simp add: hm_simps)
  qed
  then show ?thesis
    using get by auto
qed

section \<open>The end-to-end encryption gate\<close>

fun is_plaintext_content :: "kaigi_frame \<Rightarrow> bool" where
  \<comment> \<open>the frames that carry what the participants say, show and share\<close>
  "is_plaintext_content (K_Chat _) = True"
| "is_plaintext_content (K_ParticipantState _) = True"
| "is_plaintext_content (K_MediaTrackState _) = True"
| "is_plaintext_content (K_VideoSegment _) = True"
| "is_plaintext_content (K_AudioPacket _) = True"
| "is_plaintext_content _ = False"

lemma queue_ticks [simp]: "queue_of (w\<lparr>h_ticks := n\<rparr>) d = queue_of w d" "queue_of (w\<lparr>h_rooms := rs\<rparr>) d = queue_of w d"
  by (simp_all add: queue_of_def)

lemma send_error_private:
  assumes "hm_get (h_rooms w) rid = Some room" and "get_p room c = Some p" and "d \<noteq> p_tx p"
  shows "queue_of (snd (run (send_error X rid c m) w)) d = queue_of w d"
  using assms by (simp add: send_error_def send_frame_to_def encode_or_fail_def run_bind_fst find_tx_def
      run_atomic_try send_quietly_def run_try_send split: sum.split)

lemma hm_insert_same: "hm_get m k = Some v \<Longrightarrow> hm_insert m k v = m"
  by (simp add: hm_get_def hm_insert_def update_triv)

text \<open>C7. What a participant says, shows or shares in plaintext reaches nobody else as long as the sender
  has not joined, or the room is anonymous, or the room requires end-to-end encryption and the sender
  has published no key epoch: no queue but the sender's own grows and no room changes.\<close>

theorem plaintext_gate:
  assumes "hm_get (h_rooms w) rid = Some room" and "get_p room c = Some p" and "d \<noteq> p_tx p"
    and "is_plaintext_content frame"
    and "r_anonymous_mode room \<or> \<not> p_hello_seen (p_state p)
      \<or> r_e2ee_required room \<and> hm_get_or0 (r_e2ee_epochs room) c = 0"
  shows "queue_of (snd (run (handle_frame X cfg rid c frame) w)) d = queue_of w d
     \<and> h_rooms (snd (run (handle_frame X cfg rid c frame) w)) = h_rooms w"
proof -
  have sep: "queue_of (snd (run (send_error X rid c m) (w\<lparr>h_ticks := n\<rparr>))) d = queue_of w d"
    "queue_of (snd (run (send_error X rid c m) (w\<lparr>h_rooms := h_rooms w, h_ticks := n\<rparr>))) d = queue_of w d"
    "queue_of (snd (run (send_error X rid c m) w)) d = queue_of w d" for m n
    using assms(1-3) by (simp_all add: send_error_private)
  have rooms: "h_rooms (snd (run (send_error X rid c m) v)) = h_rooms v" for m v
    by (simp add: send_error_def)
  note base = handle_frame_def reject_anonymous_def pass_e2ee_gate_def validate_plaintext_e2ee_gate_def
    e2ee_gate_def room_is_anonymous_def hello_seen_def after_check_def run_bind_fst run_read_room run_now_ms
    run_with_room sender_mismatch_def
  show ?thesis
    using assms(4)
  proof (cases frame)
    case (K_Chat f)
    then show ?thesis using assms(1,2,5) sep rooms by (auto simp: base handle_chat_def)
  next
    case (K_ParticipantState f)
    then show ?thesis using assms(1,2,5) sep rooms
      by (auto simp: base handle_participant_state_def participant_state_section_def hm_insert_same Let_def)
  next
    case (K_MediaTrackState f)
    then show ?thesis using assms(1,2,5) sep rooms
      by (auto simp: base handle_media_track_state_def media_track_section_def hm_insert_same Let_def)
  next
    case (K_VideoSegment f)
    then show ?thesis using assms(1,2,5) sep rooms
      by (auto simp: base handle_video_segment_def video_segment_check_def)
  next
    case (K_AudioPacket f)
    then show ?thesis using assms(1,2,5) sep rooms
      by (auto simp: base handle_audio_packet_def audio_packet_check_def)
  qed simp_all
qed

lemma plaintext_gate_witness:
  "queue_of (snd (run (handle_frame plain_ext demo_cfg [7] 1 (K_Chat \<lparr>ch_sent_at_ms = 0,
      ch_from_participant_id = [], ch_from_display_name = None, ch_text = ''hi''\<rparr>)) demo_listeners)) 2 = []"
proof -
  obtain p where p: "get_p demo_pair 1 = Some p"
    using demo_pair_entries by (auto simp: hm_get_def)
  have "(case get_p demo_pair 1 of Some p \<Rightarrow> p_tx p = 1 | None \<Rightarrow> False)"
    and gate: "r_e2ee_required demo_pair" "hm_get_or0 (r_e2ee_epochs demo_pair) 1 = 0"
    by code_simp+
  then have "2 \<noteq> p_tx p"
    using p by simp
  from plaintext_gate [OF demo_pair_listening(3) p this] gate show ?thesis
    by (simp add: queue_of_def demo_listeners_def hm_get_def)
qed

text \<open>The gate holds back content only. A recording notice, for one, is broadcast for every joined sender of a
  transparent room whatever the room requires and whether or not the sender has published a key epoch.\<close>

theorem recording_notice_ungated:
  assumes "hm_get (h_rooms w) rid = Some room" and "\<not> r_anonymous_mode room" and "get_p room c = Some p"
    and "p_hello_seen (p_state p)" and "validate_recording_notice_frame notice = None"
    and "rn_participant_id notice = p_participant_id (p_state p)" and "rn_issued_by notice = p_participant_id (p_state p)"
    and "rn_state notice \<noteq> Recording_Started \<or> r_local_recording_allowed room"
  shows "run (handle_frame X cfg rid c (K_RecordingNotice notice)) w = run (broadcast_frame X rid (K_RecordingNotice notice)) w"
  using assms by (auto simp: handle_frame_def handle_recording_notice_def reject_anonymous_def room_is_anonymous_def
      run_bind_fst run_read_room recording_notice_check_def sender_mismatch_def first_error_def after_check_def)

lemma recording_notice_ungated_witness:
  "r_e2ee_required demo_pair \<and> hm_get_or0 (r_e2ee_epochs demo_pair) 1 = 0
   \<and> queue_of (snd (run (handle_frame plain_ext demo_cfg [7] 1 (K_RecordingNotice \<lparr>rn_at_ms = 0,
        rn_participant_id = ''a@x'', rn_state = Recording_Started, rn_local_recording = True, rn_policy_basis = None,
        rn_issued_by = ''a@x''\<rparr>)) demo_listeners)) 2 = [Msg_Binary [0, 0, 0, 1, 0]]"
proof -
  obtain p where p: "get_p demo_pair 1 = Some p" "p_hello_seen (p_state p)" "p_participant_id (p_state p) = ''a@x''"
    using demo_pair_entries by (auto simp: hm_get_def)
  have gate: "r_e2ee_required demo_pair" "hm_get_or0 (r_e2ee_epochs demo_pair) 1 = 0" "r_local_recording_allowed demo_pair"
    "\<not> trim_is_empty ''a@x''"
    by code_simp+
  have run: "run (handle_frame plain_ext demo_cfg [7] 1 (K_RecordingNotice \<lparr>rn_at_ms = 0,
        rn_participant_id = ''a@x'', rn_state = Recording_Started, rn_local_recording = True, rn_policy_basis = None,
        rn_issued_by = ''a@x''\<rparr>)) demo_listeners
    = run (broadcast_frame plain_ext [7] (K_RecordingNotice \<lparr>rn_at_ms = 0,
        rn_participant_id = ''a@x'', rn_state = Recording_Started, rn_local_recording = True, rn_policy_basis = None,
        rn_issued_by = ''a@x''\<rparr>)) demo_listeners"
    by (rule recording_notice_ungated [OF demo_pair_listening(3) demo_pair_facts(1) p(1,2)])
      (simp_all add: p(3) gate validate_recording_notice_frame_def)
  show ?thesis
    unfolding run using gate(1,2) broadcast_run [OF plain_encodes demo_pair_listening(3,1,2) surjective_pairing, of _ 2]
    by (simp add: demo_pair_txs queue_of_def demo_listeners_def hm_get_def)
qed

end
