(* ===== verification/Hub_Ledger.thy ===== *)
theory Hub_Ledger
  imports Hub_Epochs
begin

text \<open>
  Keys, escrow, payments and the room's rate: what each section accepts and what it then records.
\<close>

section \<open>Keys\<close>

text \<open>A group key update takes effect exactly when the room is anonymous, the frame is well formed,
  and the sender has joined under the handle it names with a smaller key epoch; it then records the new
  key and epoch and is broadcast. In every other case the room stays as it is.\<close>

theorem group_key_update_effect:
  "(case group_key_section X c gk t room of
      ((error, True), room') \<Rightarrow> error = None \<and> r_anonymous_mode room
        \<and> validate_group_key_update_frame X gk = None
        \<and> (case get_p room c of None \<Rightarrow> False | Some p \<Rightarrow>
             p_hello_seen (p_state p) \<and> p_anonymous_mode (p_state p)
             \<and> p_participant_handle (p_state p) = Some (gk_participant_handle gk)
             \<and> p_x25519_epoch (p_state p) < gk_epoch gk
             \<and> room' = set_pstate room c ((p_state p)\<lparr>p_x25519_pubkey_hex := Some (gk_x25519_pubkey_hex gk),
                  p_x25519_epoch := gk_epoch gk\<rparr>))
    | ((error, False), room') \<Rightarrow> room' = room)"
  by (auto simp: group_key_section_def should_apply_group_key_update_def Let_def not_less order_le_less
      split: option.split sum.split bool.split)

text \<open>A published key epoch is accepted only from the joined participant it names, with keys that
  verify, an epoch above the sender's current one and a timestamp above every accepted one; it becomes
  the sender's epoch. A rejected one changes nothing.\<close>

theorem key_epoch_effect:
  "(case e2ee_epoch_section X c ke t room of
      (Some None, room') \<Rightarrow> validate_e2ee_key_epoch_frame X ke = None
        \<and> (case get_p room c of None \<Rightarrow> False | Some p \<Rightarrow>
             p_hello_seen (p_state p) \<and> p_participant_id (p_state p) = ke_participant_id ke)
        \<and> key_epoch_of room c < ke_epoch ke \<and> key_epoch_of room' c = ke_epoch ke
        \<and> clock_of room (signed_action_clock_key ''e2ee_key_epoch'' (ke_participant_id ke)) < ke_sent_at_ms ke
        \<and> r_participants room' = r_participants room
    | (_, room') \<Rightarrow> room' = room)"
proof (cases "get_p room c")
  case None
  then show ?thesis by (simp add: e2ee_epoch_section_def)
next
  case (Some p)
  obtain r room1 where clock: "enforce_signed_action_clock room ''e2ee_key_epoch'' (ke_participant_id ke)
      ''sent_at_ms'' (ke_sent_at_ms ke) = (r, room1)"
    by fastforce
  have "case r of Inl _ \<Rightarrow> room1 = room | Inr _ \<Rightarrow>
      clock_of room (signed_action_clock_key ''e2ee_key_epoch'' (ke_participant_id ke)) < ke_sent_at_ms ke
      \<and> r_participants room1 = r_participants room"
    using clock by (cases rule: clock_cases) (auto simp: clock_of_def hm_get_or0_def split: option.splits)
  then show ?thesis
    using Some clock
    by (cases r) (auto simp: e2ee_epoch_section_def Let_def first_error_def sender_mismatch_def key_epoch_of_def
        hm_get_or0_def hm_simps not_le split: option.split)
qed

text \<open>A key acknowledgement is accepted only from the joined participant it names, for an epoch that
  the sender has published and that is above its last acknowledgement, with a timestamp above every
  accepted one; it becomes the sender's last acknowledgement. A rejected one changes nothing.\<close>

theorem key_ack_effect:
  "(case key_ack_section c ka t room of
      (Some None, room') \<Rightarrow>
        (case get_p room c of None \<Rightarrow> False | Some p \<Rightarrow>
           p_hello_seen (p_state p) \<and> p_participant_id (p_state p) = ka_participant_id ka)
        \<and> ack_epoch_of room c < ka_ack_epoch ka \<and> ka_ack_epoch ka \<le> key_epoch_of room c
        \<and> ack_epoch_of room' c = ka_ack_epoch ka
        \<and> clock_of room (signed_action_clock_key ''key_rotation_ack'' (ka_participant_id ka)) < ka_received_at_ms ka
        \<and> r_participants room' = r_participants room
    | (_, room') \<Rightarrow> room' = room)"
proof (cases "get_p room c")
  case None
  then show ?thesis by (simp add: key_ack_section_def)
next
  case (Some p)
  obtain r room1 where clock: "enforce_signed_action_clock room ''key_rotation_ack'' (ka_participant_id ka)
      ''received_at_ms'' (ka_received_at_ms ka) = (r, room1)"
    by fastforce
  have "case r of Inl _ \<Rightarrow> room1 = room | Inr _ \<Rightarrow>
      clock_of room (signed_action_clock_key ''key_rotation_ack'' (ka_participant_id ka)) < ka_received_at_ms ka
      \<and> r_participants room1 = r_participants room"
    using clock by (cases rule: clock_cases) (auto simp: clock_of_def hm_get_or0_def split: option.splits)
  moreover have "key_ack_error c ka room (p_state p) = None \<Longrightarrow>
      p_hello_seen (p_state p) \<and> p_participant_id (p_state p) = ka_participant_id ka"
    by (auto simp: key_ack_error_def sender_mismatch_def split: option.splits if_splits)
  ultimately show ?thesis
    using Some clock key_ack_error_None [of c ka room "p_state p"]
    by (cases r) (auto simp: key_ack_section_def ack_epoch_of_def hm_get_or0_def hm_simps split: option.split)
qed

definition signed_action_tags :: "string list" where
  "signed_action_tags = [''role_grant'', ''role_revoke'', ''session_policy'', ''moderation'',
     ''e2ee_key_epoch'', ''key_rotation_ack'']"

text \<open>The clocks of different signed actions and of different signers never share an entry, whatever
  characters a participant id contains.\<close>

theorem clock_keys_distinct:
  assumes "list_ex (\<lambda>x. x = tag) signed_action_tags" and "list_ex (\<lambda>x. x = tag') signed_action_tags"
  shows "signed_action_clock_key tag signer = signed_action_clock_key tag' signer' \<longleftrightarrow> tag = tag' \<and> signer = signer'"
proof -
  have split: "takeWhile (\<lambda>c. c \<noteq> CHR '':'') (tag @ '':'' @ s) = tag \<and> dropWhile (\<lambda>c. c \<noteq> CHR '':'') (tag @ '':'' @ s) = '':'' @ s"
    if "list_ex (\<lambda>x. x = tag) signed_action_tags" for tag s
    using that by (auto simp: signed_action_tags_def)
  show ?thesis
  proof
    assume "signed_action_clock_key tag signer = signed_action_clock_key tag' signer'"
    then have eq: "tag @ '':'' @ signer = tag' @ '':'' @ signer'"
      by (simp add: signed_action_clock_key_def)
    then have "tag = tag'"
      using split [OF assms(1), of signer] split [OF assms(2), of signer'] by metis
    with eq show "tag = tag' \<and> signer = signer'" by simp
  qed simp
qed

lemma clock_keys_distinct_witness:
  "signed_action_clock_key ''role_grant'' ''x'' \<noteq> signed_action_clock_key ''role_revoke'' ''x''"
  using clock_keys_distinct [of "''role_grant''" "''role_revoke''" "''x''" "''x''"]
  by (simp add: signed_action_tags_def)

section \<open>Escrow and payments\<close>

text \<open>An escrow proof is accepted only from a joined anonymous participant under its own handle, with
  a well-formed proof for the escrow id it used before, if any; it then records the id and the time, and
  the id stays. A rejected proof changes nothing and carries a reason.\<close>

theorem escrow_proof_effect:
  "(case escrow_section X c ep t room of
      (Some (True, reason), room') \<Rightarrow> reason = None \<and> r_anonymous_mode room
        \<and> validate_escrow_proof_frame X ep = None
        \<and> (case get_p room c of None \<Rightarrow> False | Some p \<Rightarrow>
             p_hello_seen (p_state p) \<and> p_anonymous_mode (p_state p)
             \<and> p_participant_handle (p_state p) = Some (ep_payer_handle ep)
             \<and> p_escrow_id (p_state p) \<in> {None, Some (ep_escrow_id ep)}
             \<and> room' = set_pstate room c ((p_state p)\<lparr>p_last_escrow_proof_at_ms := Some (t 0),
                  p_escrow_id := Some (ep_escrow_id ep)\<rparr>))
    | (Some (False, reason), room') \<Rightarrow> reason \<noteq> None \<and> room' = room
    | (None, room') \<Rightarrow> get_p room c = None \<and> room' = room)"
  by (auto simp: escrow_section_def validate_escrow_id_consistency_def Let_def split: option.split)

text \<open>C15. A payment is credited exactly once and in full, up to saturation, after the sender's bill is
  brought up to date at the room's rate; without a hash, where one is required, only the bill is
  updated, and before \<open>Hello\<close> only the billing cursor.\<close>

theorem payment_effect:
  "(case payment_section X cfg c pay now room of
      (Pay_Gone, room') \<Rightarrow> get_p room c = None \<and> room' = room
    | (Pay_NeedHello, room') \<Rightarrow> (case get_p room c of None \<Rightarrow> False | Some p \<Rightarrow>
        \<not> p_hello_seen (p_state p) \<and> room' = set_pstate room c ((p_state p)\<lparr>p_last_billed_at_ms := now\<rparr>))
    | (Pay_BadHash, room') \<Rightarrow> (case get_p room c of None \<Rightarrow> False | Some p \<Rightarrow>
        p_hello_seen (p_state p) \<and> require_payment_tx_hash cfg \<and> r_rate_per_minute_nano room \<noteq> 0
        \<and> room' = set_pstate room c (advance_billing (p_state p) (r_rate_per_minute_nano room) now))
    | (Pay_Accepted paid billed, room') \<Rightarrow> (case (get_p room c, get_p room' c) of
        (Some p, Some p') \<Rightarrow>
          p_hello_seen (p_state p)
          \<and> unat paid = min (2 ^ 64 - 1) (unat (p_paid_nano_xor (p_state p)) + unat (pay_amount_nano_xor pay))
          \<and> paid = p_paid_nano_xor (p_state p')
          \<and> billed = p_billed_nano_xor (advance_billing (p_state p) (r_rate_per_minute_nano room) now)
          \<and> billed = p_billed_nano_xor (p_state p')
          \<and> (require_payment_tx_hash cfg \<and> r_rate_per_minute_nano room \<noteq> 0 \<longrightarrow>
                (case pay_tx_hash_hex pay of None \<Rightarrow> False | Some h \<Rightarrow> is_valid_tx_hash_hex X h))
      | _ \<Rightarrow> False))"
  by (auto simp: payment_section_def Let_def unat_sat_add word_gt_0 split: option.split)

definition demo_payment :: payment_frame where
  "demo_payment = \<lparr>pay_sent_at_ms = 0, pay_amount_nano_xor = 7, pay_tx_hash_hex = None\<rparr>"

lemma payment_effect_witness:
  "(case payment_section plain_ext (demo_cfg\<lparr>require_payment_tx_hash := False\<rparr>) 1 demo_payment 0 demo_pair of
      (Pay_Accepted paid billed, room') \<Rightarrow> paid = 7
        \<and> (case get_p room' 1 of None \<Rightarrow> False | Some p' \<Rightarrow> p_paid_nano_xor (p_state p') = 7)
    | _ \<Rightarrow> False)"
proof -
  let ?r = "payment_section plain_ext (demo_cfg\<lparr>require_payment_tx_hash := False\<rparr>) 1 demo_payment 0 demo_pair"
  have "(case fst ?r of Pay_Accepted paid billed \<Rightarrow> paid = 7 | _ \<Rightarrow> False)"
    by code_simp
  then obtain paid billed where "fst ?r = Pay_Accepted paid billed" and 7: "paid = 7"
    by (auto split: payment_outcome.splits)
  then have r: "?r = (Pay_Accepted paid billed, snd ?r)"
    by (metis prod.collapse)
  show ?thesis
    using payment_effect [where X = plain_ext and cfg = "demo_cfg\<lparr>require_payment_tx_hash := False\<rparr>"
        and c = 1 and pay = demo_payment and now = 0 and room = demo_pair] 7
    by (subst r, subst (asm) r) (auto split: option.splits)
qed

section \<open>The room's rate\<close>

text \<open>A room configuration changes only on the joined host's word; then every participant of the room
  is billed up to now at the old rate (the ones that have not said \<open>Hello\<close> as well), the rate is the one
  asked for, or 1 when it is 0 and calls are not free, and at least one screen share stays allowed.\<close>

theorem room_config_effect:
  "(case room_config_section cfg c update now room of
      (Config_Done rejected changed, room') \<Rightarrow>
        joined_in room c \<and> r_host_conn_id room = Some c
        \<and> get_p room' d = map_option (\<lambda>p. p\<lparr>p_state :=
             advance_billing (p_state p) (r_rate_per_minute_nano room) now\<rparr>) (get_p room d)
        \<and> r_rate_per_minute_nano room' = (case rcu_rate_per_minute_nano update of
             None \<Rightarrow> r_rate_per_minute_nano room
           | Some rate \<Rightarrow> if rate = 0 \<and> \<not> allow_free_calls cfg then 1 else rate)
        \<and> r_max_screen_shares room' = (case rcu_max_screen_shares update of
             None \<Rightarrow> r_max_screen_shares room | Some m \<Rightarrow> if m = 0 then 1 else m)
        \<and> rejected = (rcu_rate_per_minute_nano update = Some 0 \<and> \<not> allow_free_calls cfg)
        \<and> changed = (\<not> (r_rate_per_minute_nano room' = r_rate_per_minute_nano room
             \<and> r_max_screen_shares room' = r_max_screen_shares room))
    | (_, room') \<Rightarrow> room' = room)"
proof -
  have max1: "max x 1 = (if x = 0 then 1 else x)" for x :: "'a::len word"
  proof (cases "x = 0")
    case False
    then have "1 \<le> x"
      by (metis linorder_not_le word_less_1)
    with False show ?thesis by (simp add: max_def)
  qed (simp add: max_def)
  show ?thesis
    by (auto simp: room_config_section_def Let_def joined_in_def bill_everyone_def hm_simps
        normalize_rate_for_policy_def max1 comp_def split: option.split)
qed

end
