(* ===== verification/Hub_Lifecycle.thy ===== *)
theory Hub_Lifecycle
  imports Hub_Delivery
begin

text \<open>
  The end of a connection: what \<open>handle_disconnect\<close> removes, whatever its announcements do, and what
  stays behind when the receive loop ends with an error.
\<close>

definition gone :: "room_id \<Rightarrow> conn_id \<Rightarrow> hub \<Rightarrow> bool" where
  "gone rid c w = (case hm_get (h_rooms w) rid of None \<Rightarrow> True | Some room \<Rightarrow> get_p room c = None)"

definition keeps_gone :: "room_id \<Rightarrow> conn_id \<Rightarrow> hub \<Rightarrow> hub \<Rightarrow> bool" where
  "keeps_gone rid c w w' \<longleftrightarrow> (gone rid c w \<longrightarrow> gone rid c w')"

named_theorems gone_intros \<open>programs that do not bring a connection back\<close>

lemma gone_rooms: "h_rooms w' = h_rooms w \<Longrightarrow> keeps_gone rid c w w'"
  by (simp add: keeps_gone_def gone_def)

lemma guar_gone_basic [gone_intros]:
  "guar (keeps_gone rid c) now_ms"
  "guar (keeps_gone rid c) (read_room rid' absent f)"
  "guar (keeps_gone rid c) (try_send d m)"
  "guar (keeps_gone rid c) (find_tx rid' d)"
  unfolding now_ms_def read_room_def try_send_def find_tx_def
  by (rule guar_atomic guar_atomic_try, rule gone_rooms, simp split: option.split)+

lemma guar_gone_with_room:
  assumes "\<And>t room. get_p room c = None \<Longrightarrow> get_p (snd (f t room)) c = None"
  shows "guar (keeps_gone rid c) (with_room rid' absent f)"
  unfolding with_room_def
  by (rule guar_atomic)
    (auto simp: keeps_gone_def gone_def case_prod_beta hm_simps assms split: option.splits)

lemma guar_gone_sections [gone_intros]:
  "guar (keeps_gone rid c) (with_room rid' absent (backpressure_section n))"
  "guar (keeps_gone rid c) (with_room rid' absent' (rotate_section X))"
  by (rule guar_gone_with_room;
      simp add: backpressure_section_def rotate_section_def build_anon_group_key_rotate_frame_def Let_def)+

lemma guar_gone_sending [gone_intros]:
  "guar (keeps_gone rid c) (send_quietly d m)"
  "guar (keeps_gone rid c) (encode_or_fail X frame)"
  "guar (keeps_gone rid c) (send_frame_to X rid' d frame)"
  "guar (keeps_gone rid c) (notify_moderators X rid' msg)"
  "guar (keeps_gone rid c) (broadcast_frame X rid' frame)"
  "guar (keeps_gone rid c) (broadcast_permissions_snapshots X rid')"
  "guar (keeps_gone rid c) (anon_roster_frame_of rid')"
  "guar (keeps_gone rid c) (room_config_frame_of cfg rid')"
  unfolding send_quietly_def encode_or_fail_def send_frame_to_def notify_moderators_def broadcast_frame_def
    broadcast_permissions_snapshots_def anon_roster_frame_of_def room_config_frame_of_def
  by (intro guar_intros gone_intros)+

lemma guar_gone_announce [gone_intros]:
  "guar (keeps_gone rid c) (announce_anon_left X rid' handle)"
  "guar (keeps_gone rid c) (announce_left X rid' i delta)"
  unfolding announce_anon_left_def announce_left_def by (intro guar_intros gone_intros)+

lemma gone_run: "guar (keeps_gone rid c) p \<Longrightarrow> gone rid c w \<Longrightarrow> gone rid c (snd (run p w))"
proof -
  assume "guar (keeps_gone rid c) p" and "gone rid c w"
  from guar_run [OF this(1), of w] this(2) show ?thesis
    by (induction rule: rtranclp_induct) (auto simp: keeps_gone_def)
qed

lemma leave_room_gone:
  "gone rid c (snd (run (leave_room rid c) w))"
proof (cases "hm_get (h_rooms w) rid")
  case None
  then show ?thesis by (simp add: leave_room_def run_atomic gone_def)
next
  case (Some room)
  have "r_participants (snd (disconnect_section c t room)) = hm_remove (r_participants room) c" for t
    by (simp add: disconnect_section_def Let_def forget_conn_def reassign_host_def)
  then show ?thesis
    using Some by (simp add: leave_room_def run_atomic gone_def case_prod_beta hm_simps)
qed

lemma disconnect_gone:
  "gone rid c (snd (run (handle_disconnect X cfg rid c) w))"
proof -
  have rest: "guar (keeps_gone rid c) (when_some outcome (\<lambda>oc.
       if do_remove_room oc then Return ()
       else if do_anonymous_mode oc
       then announce_anon_left X rid (do_left_participant_handle oc)
       else seq_prog (when_some (do_left_participant_id oc) (\<lambda>participant_id.
              announce_left X rid participant_id (do_presence_delta oc)))
            (when_true (do_host_changed oc)
              (bind_prog (room_config_frame_of cfg rid) (\<lambda>config.
               seq_prog (broadcast_frame X rid (K_RoomConfig config))
                 (broadcast_permissions_snapshots X rid))))))" for outcome
    by (intro guar_intros gone_intros)
  show ?thesis
    unfolding handle_disconnect_def
    by (simp only: run_bind_fst snd_conv split: sum.split)
      (intro conjI allI impI leave_room_gone gone_run [OF rest])
qed

text \<open>C30. Whatever its announcements meet (full queues, missing moderators, frames that cannot be
  encoded), after \<open>handle_disconnect\<close> has run the connection is in its room no more.\<close>

theorem disconnect_forgets:
  "gone rid c (snd (run (handle_disconnect X cfg rid c) w))"
  by (rule disconnect_gone)

lemma run_now_ms_fst [simp]: "fst (run now_ms w) = Inr (reading w 0)" "h_rooms (snd (run now_ms w)) = h_rooms w"
  by (simp_all add: run_now_ms)

lemma fetch_conn_id_run [simp]:
  "fst (run fetch_conn_id w) = Inr (h_next_conn_id w)" "h_rooms (snd (run fetch_conn_id w)) = h_rooms w"
  by (simp_all add: fetch_conn_id_def run_atomic)

lemma join_room_run:
  "fst (run (join_room cfg rid c at_ms) w) = Inr ()"
  "\<not> gone rid c (snd (run (join_room cfg rid c at_ms) w))"
  by (simp_all add: join_room_def run_atomic gone_def hm_simps Let_def join_section_def)

text \<open>A connection whose receive loop ends with an error (the socket fails, a frame does not decode, a
  handler fails) skips \<open>handle_disconnect\<close>: the task ends with the error and the participant stays in
  the room, while a connection that is closed in an orderly way leaves it.\<close>

theorem error_leaves_ghost:
  "fst (run (serve_conn X cfg rid [Ws_Error]) w) = Inl Ws_Recv_Failed
     \<and> \<not> gone rid (h_next_conn_id w) (snd (run (serve_conn X cfg rid [Ws_Error]) w))
     \<and> gone rid (h_next_conn_id w) (snd (run (serve_conn X cfg rid [Ws_Message (Msg_Close None)]) w))"
  by (simp add: serve_conn_def seq_prog_def run_bind_fst join_room_run disconnect_gone)

end
