(* ===== verification/Soranet.thy ===== *)
theory Soranet
  imports Effects Framing
begin

text \<open>
  The relay client of \<^verbatim>\<open>crates/kaigi-soranet-client/src/lib.rs\<close>: the room id, the stream header, the
  hex fields of a handshake configuration, and the length-prefixed handshake with a relay. The QUIC
  connection (\<^verbatim>\<open>quinn\<close>), the cryptographic handshake (\<^verbatim>\<open>iroha_crypto\<close>), BLAKE3 and hex decoding are the
  fields of \<open>soranet_ext\<close>; a world \<open>'w\<close> holds the connection and the randomness.
\<close>

section \<open>What the client is given\<close>

record handshake_params =
  hp_descriptor_commit :: bytes
  hp_client_capabilities :: bytes
  hp_relay_capabilities :: bytes
  hp_kem_id :: u8
  hp_sig_id :: u8
  hp_resume_hash :: "bytes option"

record runtime_params =
  rp_descriptor_commit :: bytes
  rp_client_capabilities :: bytes
  rp_relay_capabilities :: bytes
  rp_kem_id :: u8
  rp_sig_id :: u8
  rp_resume_hash :: "bytes option"

type_synonym stream_id = nat

record ('w, 'st, 'key, 'sec) soranet_ext =
  sx_blake3 :: "bytes \<Rightarrow> bytes"
  sx_hex_decode :: "string \<Rightarrow> bytes option"
  sx_open_bi :: "'w \<Rightarrow> stream_id option \<times> 'w"
  sx_write_all :: "stream_id \<Rightarrow> bytes \<Rightarrow> 'w \<Rightarrow> unit option \<times> 'w"
  sx_read_exact :: "stream_id \<Rightarrow> nat \<Rightarrow> 'w \<Rightarrow> bytes option \<times> 'w"
  sx_finish :: "stream_id \<Rightarrow> 'w \<Rightarrow> unit option \<times> 'w"
  sx_build_client_hello :: "runtime_params \<Rightarrow> 'w \<Rightarrow> (bytes \<times> 'st) option \<times> 'w"
  sx_random_key_pair :: "'w \<Rightarrow> 'key \<times> 'w"
  sx_client_handle_relay_hello ::
    "'st \<Rightarrow> bytes \<Rightarrow> 'key \<Rightarrow> runtime_params \<Rightarrow> 'w \<Rightarrow> (bytes option \<times> 'sec) option \<times> 'w"

datatype soranet_error =
    Hex_Invalid
  | Hex_Wrong_Length nat
  | Zero_Channel
  | Open_Failed
  | Send_Route_Open_Failed
  | Build_Hello_Failed
  | Payload_Too_Large
  | Write_Length_Failed
  | Write_Payload_Failed
  | Read_Length_Failed
  | Read_Payload_Failed
  | Relay_Hello_Refused
  | Finish_Failed

definition as_runtime_params :: "handshake_params \<Rightarrow> runtime_params" where
  "as_runtime_params h = \<lparr>rp_descriptor_commit = hp_descriptor_commit h,
     rp_client_capabilities = hp_client_capabilities h, rp_relay_capabilities = hp_relay_capabilities h,
     rp_kem_id = hp_kem_id h, rp_sig_id = hp_sig_id h, rp_resume_hash = hp_resume_hash h\<rparr>"

definition await :: "'e \<Rightarrow> ('w \<Rightarrow> 'a option \<times> 'w) \<Rightarrow> ('w, 'e, 'a) prog" where
  \<comment> \<open>\<open>f().await.context(e)?\<close>\<close>
  "await e f = atomic_try (\<lambda>w. case f w of (None, w') \<Rightarrow> (Inl e, w') | (Some x, w') \<Rightarrow> (Inr x, w'))"

section \<open>Room ids and stream headers\<close>

definition KAIGI_ROOM_DOMAIN_TAG :: bytes where
  "KAIGI_ROOM_DOMAIN_TAG = str_bytes ''soranet.kaigi.room_id.v1''"

definition derive_kaigi_room_id :: "('w, 'st, 'key, 'sec) soranet_ext \<Rightarrow> bytes \<Rightarrow> bytes \<Rightarrow> bytes \<Rightarrow> bytes" where
  "derive_kaigi_room_id N channel_id route_id stream_id =
     sx_blake3 N (KAIGI_ROOM_DOMAIN_TAG @ channel_id @ route_id @ stream_id)"

definition KAIGI_STREAM_TAG :: u8 where
  "KAIGI_STREAM_TAG = 0x02"

definition ROUTE_FLAG_AUTHENTICATED :: u8 where
  "ROUTE_FLAG_AUTHENTICATED = 0x01"

definition ROUTE_OPEN_FRAME_LEN :: nat where
  "ROUTE_OPEN_FRAME_LEN = 34"

definition route_open_header :: "bytes \<Rightarrow> bool \<Rightarrow> bytes" where
  "route_open_header channel_id authenticated =
     [KAIGI_STREAM_TAG, if authenticated then ROUTE_FLAG_AUTHENTICATED else 0] @ channel_id"

definition open_kaigi_stream ::
  "('w, 'st, 'key, 'sec) soranet_ext \<Rightarrow> bytes \<Rightarrow> bool \<Rightarrow> ('w, soranet_error, stream_id) prog" where
  "open_kaigi_stream N channel_id authenticated =
     (if list_all (\<lambda>b. b = 0) channel_id then Fail Zero_Channel
      else bind_prog (await Open_Failed (sx_open_bi N)) (\<lambda>s.
           seq_prog (await Send_Route_Open_Failed (sx_write_all N s (route_open_header channel_id authenticated)))
             (Return s)))"

section \<open>Hex fields\<close>

definition decode_hex_vec :: "('w, 'st, 'key, 'sec) soranet_ext \<Rightarrow> string \<Rightarrow> soranet_error + bytes" where
  "decode_hex_vec N s = (case sx_hex_decode N (str_trim s) of None \<Rightarrow> Inl Hex_Invalid | Some bs \<Rightarrow> Inr bs)"

definition hex_32_with :: "(string \<Rightarrow> bytes option) \<Rightarrow> string \<Rightarrow> soranet_error + bytes" where
  "hex_32_with decode s = (case decode (str_trim s) of
       None \<Rightarrow> Inl Hex_Invalid
     | Some bs \<Rightarrow> if length bs \<noteq> 32 then Inl (Hex_Wrong_Length (length bs)) else Inr bs)"

definition decode_hex_32 :: "('w, 'st, 'key, 'sec) soranet_ext \<Rightarrow> string \<Rightarrow> soranet_error + bytes" where
  "decode_hex_32 N s = hex_32_with (sx_hex_decode N) s"

record soranet_handshake_dto =
  descriptor_commit_hex :: string
  client_capabilities_hex :: string
  relay_capabilities_hex :: string
  kem_id :: u8
  sig_id :: u8
  resume_hash_hex :: "string option"

definition handshake_params_of_dto ::
  "('w, 'st, 'key, 'sec) soranet_ext \<Rightarrow> soranet_handshake_dto \<Rightarrow> soranet_error + handshake_params" where
  \<comment> \<open>\<open>fetch_handshake_params_from_torii\<close> once the configuration has been fetched\<close>
  "handshake_params_of_dto N dto =
     (case decode_hex_32 N (descriptor_commit_hex dto) of Inl e \<Rightarrow> Inl e | Inr descriptor_commit \<Rightarrow>
      case decode_hex_vec N (client_capabilities_hex dto) of Inl e \<Rightarrow> Inl e | Inr client_capabilities \<Rightarrow>
      case decode_hex_vec N (relay_capabilities_hex dto) of Inl e \<Rightarrow> Inl e | Inr relay_capabilities \<Rightarrow>
      case (case resume_hash_hex dto of
              None \<Rightarrow> Inr None
            | Some h \<Rightarrow> (case decode_hex_vec N h of Inl e \<Rightarrow> Inl e | Inr bs \<Rightarrow> Inr (Some bs))) of
        Inl e \<Rightarrow> Inl e
      | Inr resume_hash \<Rightarrow>
          Inr \<lparr>hp_descriptor_commit = descriptor_commit, hp_client_capabilities = client_capabilities,
               hp_relay_capabilities = relay_capabilities, hp_kem_id = kem_id dto, hp_sig_id = sig_id dto,
               hp_resume_hash = resume_hash\<rparr>)"

section \<open>The handshake\<close>

definition u16_be_bytes :: "nat \<Rightarrow> bytes" where
  "u16_be_bytes n = be_bytes 2 n"

definition write_handshake_frame ::
  "('w, 'st, 'key, 'sec) soranet_ext \<Rightarrow> stream_id \<Rightarrow> bytes \<Rightarrow> ('w, soranet_error, unit) prog" where
  "write_handshake_frame N s payload =
     (if length payload \<ge> 2 ^ 16 then Fail Payload_Too_Large
      else seq_prog (await Write_Length_Failed (sx_write_all N s (u16_be_bytes (length payload))))
             (await Write_Payload_Failed (sx_write_all N s payload)))"

definition read_handshake_frame ::
  "('w, 'st, 'key, 'sec) soranet_ext \<Rightarrow> stream_id \<Rightarrow> ('w, soranet_error, bytes) prog" where
  "read_handshake_frame N s =
     bind_prog (await Read_Length_Failed (sx_read_exact N s 2)) (\<lambda>len_buf.
     await Read_Payload_Failed (sx_read_exact N s (be_value len_buf)))"

definition perform_soranet_handshake ::
  "('w, 'st, 'key, 'sec) soranet_ext \<Rightarrow> handshake_params \<Rightarrow> bytes option \<Rightarrow> ('w, soranet_error, 'sec) prog" where
  "perform_soranet_handshake N handshake prelude_frame =
     bind_prog (await Build_Hello_Failed (sx_build_client_hello N (as_runtime_params handshake)))
       (\<lambda>(client_hello, client_state).
     bind_prog (await Open_Failed (sx_open_bi N)) (\<lambda>s.
     seq_prog (when_some prelude_frame (\<lambda>frame. write_handshake_frame N s frame))
     (seq_prog (write_handshake_frame N s client_hello)
     (bind_prog (read_handshake_frame N s) (\<lambda>relay_hello.
      bind_prog (atomic (sx_random_key_pair N)) (\<lambda>client_key_pair.
      bind_prog (await Relay_Hello_Refused
         (sx_client_handle_relay_hello N client_state relay_hello client_key_pair (as_runtime_params handshake)))
       (\<lambda>(client_finish, secrets).
      seq_prog (when_some client_finish (\<lambda>finish. write_handshake_frame N s finish))
      (seq_prog (await Finish_Failed (sx_finish N s))
       (Return secrets)))))))))"

section \<open>What the connection promises\<close>

text \<open>
  \<open>sent s w\<close> is what was written to stream \<open>s\<close>, \<open>incoming s w\<close> what the peer has written and the
  client has not read. A successful write appends, nothing else writes, a new stream is empty; a read
  of bytes that have arrived returns them.
\<close>

definition sends :: "('w, 'st, 'key, 'sec) soranet_ext \<Rightarrow> (stream_id \<Rightarrow> 'w \<Rightarrow> bytes) \<Rightarrow> bool" where
  "sends N sent \<longleftrightarrow>
     (\<forall>s bs w. fst (sx_write_all N s bs w) = Some () \<longrightarrow> sent s (snd (sx_write_all N s bs w)) = sent s w @ bs)
   \<and> (\<forall>s w. fst (sx_open_bi N w) = Some s \<longrightarrow> sent s (snd (sx_open_bi N w)) = [])
   \<and> (\<forall>s s' n w. sent s (snd (sx_read_exact N s' n w)) = sent s w)
   \<and> (\<forall>s w. sent s (snd (sx_finish N s w)) = sent s w)
   \<and> (\<forall>s w. sent s (snd (sx_random_key_pair N w)) = sent s w)
   \<and> (\<forall>s st m k rp w. sent s (snd (sx_client_handle_relay_hello N st m k rp w)) = sent s w)"

definition delivers :: "('w, 'st, 'key, 'sec) soranet_ext \<Rightarrow> (stream_id \<Rightarrow> 'w \<Rightarrow> bytes) \<Rightarrow> bool" where
  "delivers N incoming \<longleftrightarrow>
     (\<forall>s n w. n \<le> length (incoming s w) \<longrightarrow>
        fst (sx_read_exact N s n w) = Some (take n (incoming s w))
        \<and> incoming s (snd (sx_read_exact N s n w)) = drop n (incoming s w))"

section \<open>Frames\<close>

interpretation handshake: length_prefixed u16_be_bytes be_value 2 "2 ^ 16 - 1"
  by unfold_locales (auto simp: u16_be_bytes_def be_value_bytes)

definition handshake_frame :: "bytes \<Rightarrow> bytes" where
  "handshake_frame p = u16_be_bytes (length p) @ p"

lemma run_bind_Inr:
  "run (bind_prog p k) w = (Inr y, w') \<longleftrightarrow> (\<exists>x w1. run p w = (Inr x, w1) \<and> run (k x) w1 = (Inr y, w'))"
  by (auto simp: run_bind split: prod.splits sum.splits)

lemma run_seq_Inr:
  "run (seq_prog p q) w = (Inr y, w') \<longleftrightarrow> (\<exists>x w1. run p w = (Inr x, w1) \<and> run q w1 = (Inr y, w'))"
  by (simp add: seq_prog_def run_bind_Inr)

lemma run_await_Inr:
  "run (await e f) w = (Inr x, w') \<longleftrightarrow> f w = (Some x, w')"
  by (auto simp: await_def run_atomic_try split: prod.splits option.splits)

lemma write_frame_run:
  assumes "sends N sent" and "run (write_handshake_frame N s p) w = (Inr (), w')"
  shows "length p < 2 ^ 16 \<and> sent s w' = sent s w @ handshake_frame p"
proof -
  have small: "length p < 2 ^ 16"
    using assms(2) by (auto simp: write_handshake_frame_def not_less [symmetric] split: if_splits)
  then obtain w1 where 1: "sx_write_all N s (u16_be_bytes (length p)) w = (Some (), w1)"
      and 2: "sx_write_all N s p w1 = (Some (), w')"
    using assms(2) by (auto simp: write_handshake_frame_def run_seq_Inr run_await_Inr)
  have "sent s w1 = sent s w @ u16_be_bytes (length p)" and "sent s w' = sent s w1 @ p"
    using assms(1) 1 2 unfolding sends_def by (metis fst_conv snd_conv)+
  with small show ?thesis by (simp add: handshake_frame_def)
qed

lemma write_oversized:
  "2 ^ 16 \<le> length p \<Longrightarrow> run (write_handshake_frame N s p) w = (Inl Payload_Too_Large, w)"
  by (simp add: write_handshake_frame_def)

lemma delivered:
  assumes "delivers N incoming" and "incoming s w = bs @ rest"
  shows "\<exists>w'. sx_read_exact N s (length bs) w = (Some bs, w') \<and> incoming s w' = rest"
proof -
  have "length bs \<le> length (incoming s w)"
    using assms(2) by simp
  then have "fst (sx_read_exact N s (length bs) w) = Some bs"
      and "incoming s (snd (sx_read_exact N s (length bs) w)) = rest"
    using assms unfolding delivers_def by (metis append_eq_conv_conj)+
  then show ?thesis by (metis prod.collapse)
qed

lemma read_frame_run:
  assumes "delivers N incoming" and "incoming s w = handshake_frame p @ rest" and "length p < 2 ^ 16"
  shows "\<exists>w'. run (read_handshake_frame N s) w = (Inr p, w') \<and> incoming s w' = rest"
proof -
  have "length p \<le> 2 ^ 16 - 1" using assms(3) by simp
  note len = handshake.get_put_len [OF this]
  obtain w1 where 1: "sx_read_exact N s 2 w = (Some (u16_be_bytes (length p)), w1)" "incoming s w1 = p @ rest"
    using delivered [OF assms(1), of s w "u16_be_bytes (length p)" "p @ rest"] assms(2)
    by (auto simp: handshake_frame_def handshake.length_put_len)
  then obtain w2 where 2: "sx_read_exact N s (length p) w1 = (Some p, w2)" "incoming s w2 = rest"
    using delivered [OF assms(1), of s w1 p rest] by blast
  have "run (read_handshake_frame N s) w = (Inr p, w2)"
    using 1 2 by (simp add: read_handshake_frame_def run_bind await_def run_atomic_try len)
  with 2(2) show ?thesis by blast
qed

primrec read_handshake_frames ::
  "('w, 'st, 'key, 'sec) soranet_ext \<Rightarrow> stream_id \<Rightarrow> nat \<Rightarrow> ('w, soranet_error, bytes list) prog" where
  "read_handshake_frames N s 0 = Return []"
| "read_handshake_frames N s (Suc k) =
     bind_prog (read_handshake_frame N s) (\<lambda>p. bind_prog (read_handshake_frames N s k) (\<lambda>ps. Return (p # ps)))"

lemma read_frames_run:
  assumes "delivers N incoming"
  shows "incoming s w = concat (map handshake_frame ps) @ rest \<Longrightarrow> list_all (\<lambda>p. length p < 2 ^ 16) ps \<Longrightarrow>
     \<exists>w'. run (read_handshake_frames N s (length ps)) w = (Inr ps, w') \<and> incoming s w' = rest"
proof (induction ps arbitrary: w)
  case (Cons p ps)
  obtain w1 where "run (read_handshake_frame N s) w = (Inr p, w1)"
      and "incoming s w1 = concat (map handshake_frame ps) @ rest"
    using read_frame_run [OF assms, of s w p] Cons.prems by auto
  then show ?case
    using Cons.IH [of w1] Cons.prems by (auto simp: run_bind)
qed simp

lemma write_optional_frame_run:
  assumes "sends N sent" and "run (when_some x (\<lambda>p. write_handshake_frame N s p)) w = (Inr (), w')"
  shows "list_all (\<lambda>p. length p < 2 ^ 16) (case x of None \<Rightarrow> [] | Some p \<Rightarrow> [p])
     \<and> sent s w' = sent s w @ concat (map handshake_frame (case x of None \<Rightarrow> [] | Some p \<Rightarrow> [p]))"
  using assms(2) write_frame_run [OF assms(1), of s _ w w']
  by (cases x) (auto simp: when_some_def)

lemma read_keeps_sent:
  assumes "sends N sent" and "run (read_handshake_frame N s) w = (Inr p, w')"
  shows "sent s w' = sent s w"
proof -
  obtain bs w1 where "sx_read_exact N s 2 w = (Some bs, w1)" and "sx_read_exact N s (be_value bs) w1 = (Some p, w')"
    using assms(2) by (auto simp: read_handshake_frame_def run_bind_Inr run_await_Inr)
  then show ?thesis
    using assms(1) unfolding sends_def by (metis snd_conv)
qed

section \<open>The transcript\<close>

definition opt_frames :: "bytes option \<Rightarrow> bytes list" where
  "opt_frames x = (case x of None \<Rightarrow> [] | Some p \<Rightarrow> [p])"

text \<open>The exchange of a successful handshake: the hello is built, the prelude and the hello are sent and then the relay's
  hello is read (in the world \<open>v\<close>), the key is drawn, and the cryptographic handshake gives the finish and the secrets.\<close>

definition handshake_exchange ::
  "('w, 'st, 'key, 'sec) soranet_ext \<Rightarrow> (stream_id \<Rightarrow> 'w \<Rightarrow> bytes) \<Rightarrow> handshake_params \<Rightarrow> bytes option \<Rightarrow> 'w \<Rightarrow> stream_id
     \<Rightarrow> bytes \<Rightarrow> bytes option \<Rightarrow> 'sec \<Rightarrow> bool" where
  "handshake_exchange N sent h prelude w s hello finish secrets \<longleftrightarrow>
     (\<exists>st relay v v'. fst (sx_build_client_hello N (as_runtime_params h) w) = Some (hello, st)
        \<and> sent s v = concat (map handshake_frame (opt_frames prelude @ [hello]))
        \<and> run (read_handshake_frame N s) v = (Inr relay, v')
        \<and> fst (sx_client_handle_relay_hello N st relay (fst (sx_random_key_pair N v')) (as_runtime_params h)
            (snd (sx_random_key_pair N v'))) = Some (finish, secrets))"

text \<open>What a successful handshake has written: its optional prelude, the client hello and the finish of the exchange if
  it has one, each framed, and nothing else.\<close>

lemma handshake_transcript:
  assumes "sends N sent" and "run (perform_soranet_handshake N h prelude) w = (Inr secrets, w')"
  shows "\<exists>s hello finish. handshake_exchange N sent h prelude w s hello finish secrets
     \<and> sent s w' = concat (map handshake_frame (opt_frames prelude @ [hello] @ opt_frames finish))
     \<and> list_all (\<lambda>p. length p < 2 ^ 16) (opt_frames prelude @ [hello] @ opt_frames finish)"
proof -
  obtain hello st w1 s w2 w3 w4 relay w5 w6 finish w7 w8 where
      1: "sx_build_client_hello N (as_runtime_params h) w = (Some (hello, st), w1)"
    and 2: "sx_open_bi N w1 = (Some s, w2)"
    and 3: "run (when_some prelude (\<lambda>frame. write_handshake_frame N s frame)) w2 = (Inr (), w3)"
    and 4: "run (write_handshake_frame N s hello) w3 = (Inr (), w4)"
    and 5: "run (read_handshake_frame N s) w4 = (Inr relay, w5)"
    and 6: "w6 = snd (sx_random_key_pair N w5)"
    and 7: "sx_client_handle_relay_hello N st relay (fst (sx_random_key_pair N w5)) (as_runtime_params h) w6
          = (Some (finish, secrets), w7)"
    and 8: "run (when_some finish (\<lambda>frame. write_handshake_frame N s frame)) w7 = (Inr (), w8)"
    and 9: "sx_finish N s w8 = (Some (), w')"
    using assms(2)
    by (auto simp: perform_soranet_handshake_def run_bind_Inr run_seq_Inr run_await_Inr run_atomic)
  have "sent s w2 = []" and later: "sent s w6 = sent s w5" "sent s w7 = sent s w6" "sent s w' = sent s w8"
    using assms(1) 2 6 7 9 unfolding sends_def by (metis fst_conv snd_conv)+
  then have begun: "sent s w4 = concat (map handshake_frame (opt_frames prelude @ [hello]))"
    and small: "list_all (\<lambda>p. length p < 2 ^ 16) (opt_frames prelude @ [hello])"
    using write_optional_frame_run [OF assms(1) 3] write_frame_run [OF assms(1) 4] by (auto simp: opt_frames_def [symmetric])
  have "handshake_exchange N sent h prelude w s hello finish secrets"
    unfolding handshake_exchange_def using 1 5 6 7 begun by (metis fst_conv)
  moreover have "sent s w5 = sent s w4"
    by (rule read_keeps_sent [OF assms(1) 5])
  ultimately show ?thesis
    using begun small later write_optional_frame_run [OF assms(1) 8]
    by (intro exI conjI) (auto simp: opt_frames_def [symmetric])
qed

section \<open>Properties\<close>

text \<open>C39. The handshake survives the transport: what a successful handshake has written to its stream, read
  back frame by frame by the peer, is exactly the optional prelude, the client hello and the finish that the
  cryptographic handshake made of the relay's hello together with the secrets returned, if it made one, in this order;
  and nothing is left to read. (A successful write appends its bytes; bytes that arrived can be read.)\<close>

theorem handshake_roundtrip:
  assumes "sends N sent" and "delivers M incoming"
    and "run (perform_soranet_handshake N h prelude) w = (Inr secrets, w')"
  shows "\<exists>s hello finish. handshake_exchange N sent h prelude w s hello finish secrets
     \<and> (\<forall>r v. incoming r v = sent s w' \<longrightarrow>
          (\<exists>v'. run (read_handshake_frames M r (length (opt_frames prelude @ [hello] @ opt_frames finish))) v
              = (Inr (opt_frames prelude @ [hello] @ opt_frames finish), v') \<and> incoming r v' = []))"
proof -
  obtain s hello finish where 1: "handshake_exchange N sent h prelude w s hello finish secrets"
    and 2: "sent s w' = concat (map handshake_frame (opt_frames prelude @ [hello] @ opt_frames finish)) @ []"
    and 3: "list_all (\<lambda>p. length p < 2 ^ 16) (opt_frames prelude @ [hello] @ opt_frames finish)"
    using handshake_transcript [OF assms(1,3)] by auto
  have "\<exists>v'. run (read_handshake_frames M r (length (opt_frames prelude @ [hello] @ opt_frames finish))) v
      = (Inr (opt_frames prelude @ [hello] @ opt_frames finish), v') \<and> incoming r v' = []" if "incoming r v = sent s w'" for r v
    using read_frames_run [OF assms(2), of r v] 2 3 that by metis
  with 1 show ?thesis by blast
qed

text \<open>A loopback connection with one stream; a world is what was written and what is left to read.\<close>

definition loopback :: "(bytes \<times> bytes, unit, unit, bytes) soranet_ext" where
  "loopback = \<lparr>sx_blake3 = (\<lambda>b. take 32 b), sx_hex_decode = (\<lambda>s. Some (str_bytes s)),
     sx_open_bi = (\<lambda>(out, inn). (Some 0, ([], inn))),
     sx_write_all = (\<lambda>s bs (out, inn). if s = 0 then (Some (), (out @ bs, inn)) else (None, (out, inn))),
     sx_read_exact = (\<lambda>s n (out, inn). if s = 0 \<and> n \<le> length inn then (Some (take n inn), (out, drop n inn))
        else if n = 0 then (Some [], (out, inn)) else (None, (out, inn))),
     sx_finish = (\<lambda>s w. (Some (), w)),
     sx_build_client_hello = (\<lambda>rp w. (Some ([1, rp_kem_id rp], ()), w)),
     sx_random_key_pair = (\<lambda>w. ((), w)),
     sx_client_handle_relay_hello = (\<lambda>st m k rp w. (Some (Some [3], m), w))\<rparr>"

lemma loopback_sends: "sends loopback (\<lambda>s w. if s = 0 then fst w else [])"
  by (auto simp: sends_def loopback_def split: if_splits)

lemma loopback_delivers: "delivers loopback (\<lambda>s w. if s = 0 then snd w else [])"
  by (auto simp: delivers_def loopback_def)

definition loopback_params :: handshake_params where
  "loopback_params = \<lparr>hp_descriptor_commit = [], hp_client_capabilities = [], hp_relay_capabilities = [],
     hp_kem_id = 7, hp_sig_id = 1, hp_resume_hash = None\<rparr>"

lemma handshake_roundtrip_witness:
  "\<exists>v. run (read_handshake_frames loopback 0 3)
      ([], fst (snd (run (perform_soranet_handshake loopback loopback_params (Some [5])) ([], [0, 1, 8]))))
    = (Inr [[5], [1, 7], [3]], v) \<and> snd v = []"
proof -
  let ?r = "run (perform_soranet_handshake loopback loopback_params (Some [5])) ([], [0, 1, 8])"
  let ?sent = "\<lambda>(s :: nat) w. if s = 0 then fst w else []" and ?incoming = "\<lambda>(s :: nat) w. if s = 0 then snd w else []"
  have "fst ?r = Inr [8]"
    by (simp add: perform_soranet_handshake_def run_simps await_def loopback_def write_handshake_frame_def
        read_handshake_frame_def be_value_def)
  then have r: "?r = (Inr [8], snd ?r)"
    by (metis prod.collapse)
  obtain s hello finish where
    exchange: "handshake_exchange loopback ?sent loopback_params (Some [5]) ([], [0, 1, 8]) s hello finish [8]"
    and echo: "\<And>q v. ?incoming q v = ?sent s (snd ?r) \<Longrightarrow>
      \<exists>v'. run (read_handshake_frames loopback q (length (opt_frames (Some [5]) @ [hello] @ opt_frames finish))) v
        = (Inr (opt_frames (Some [5]) @ [hello] @ opt_frames finish), v') \<and> ?incoming q v' = []"
    using handshake_roundtrip [OF loopback_sends loopback_delivers r] by blast
  have "hello = [1, 7]" "finish = Some [3]" "s = 0"
    using exchange
    by (auto simp: handshake_exchange_def loopback_def as_runtime_params_def loopback_params_def handshake_frame_def split: if_splits)
  then show ?thesis
    using echo [of 0 "([], fst (snd ?r))"] by (simp add: opt_frames_def numeral_3_eq_3)
qed

section \<open>Rooms, streams and hex fields\<close>

text \<open>Two streams have the same room id only if they are the same stream or BLAKE3 collides.\<close>

lemma room_id_collision:
  assumes "derive_kaigi_room_id N c r s = derive_kaigi_room_id N c' r' s'"
    and "length c = 32" and "length c' = 32" and "length r = 32" and "length r' = 32"
  shows "c = c' \<and> r = r' \<and> s = s'
    \<or> (\<exists>x y. x \<noteq> y \<and> sx_blake3 N x = sx_blake3 N y)"
proof (cases "c @ r @ s = c' @ r' @ s'")
  case True
  then show ?thesis using assms(2-5) by simp
next
  case False
  then have "KAIGI_ROOM_DOMAIN_TAG @ c @ r @ s \<noteq> KAIGI_ROOM_DOMAIN_TAG @ c' @ r' @ s'"
    by simp
  then show ?thesis
    using assms(1) unfolding derive_kaigi_room_id_def by blast
qed

text \<open>A stream that opens has a channel id that is not all zeros, and has been sent a header of the fixed
  length from which the channel id and the flag can be read back.\<close>

lemma open_kaigi_stream_header:
  assumes "sends N sent" and "length channel_id = 32"
    and "run (open_kaigi_stream N channel_id authenticated) w = (Inr s, w')"
  shows "\<not> list_all (\<lambda>b. b = 0) channel_id \<and> length (sent s w') = ROUTE_OPEN_FRAME_LEN
    \<and> drop 2 (sent s w') = channel_id \<and> hd (sent s w') = KAIGI_STREAM_TAG
    \<and> (sent s w' ! 1 = ROUTE_FLAG_AUTHENTICATED \<longleftrightarrow> authenticated)"
proof -
  have nz: "\<not> list_all (\<lambda>b. b = 0) channel_id"
    using assms(3) by (auto simp: open_kaigi_stream_def)
  with assms(3) obtain w1 where "sx_open_bi N w = (Some s, w1)"
      and "sx_write_all N s (route_open_header channel_id authenticated) w1 = (Some (), w')"
    by (auto simp: open_kaigi_stream_def run_bind_Inr run_seq_Inr run_await_Inr)
  then have "sent s w' = route_open_header channel_id authenticated"
    using assms(1) unfolding sends_def by (metis append_Nil fst_conv snd_conv)
  with nz show ?thesis
    by (simp add: route_open_header_def assms(2) ROUTE_OPEN_FRAME_LEN_def ROUTE_FLAG_AUTHENTICATED_def)
qed

text \<open>A configuration that is accepted has a descriptor commitment of 32 bytes.\<close>

lemma handshake_params_commit:
  "handshake_params_of_dto N dto = Inr h \<Longrightarrow> length (hp_descriptor_commit h) = 32"
  by (auto simp: handshake_params_of_dto_def decode_hex_32_def hex_32_with_def split: sum.splits option.splits if_splits)

end
