(* ===== verification/Platform.thy ===== *)
theory Platform
  imports Prelude
begin

text \<open>
  \<^verbatim>\<open>crates/kaigi-platform-contract/src/lib.rs\<close>: the platforms the program is built for and the contract
  each of them gets.
\<close>

datatype target_platform =
    WebChromium | WebSafari | WebFirefox
  | MacOS | IOS | IPadOS | VisionOS | Windows | Android | Linux

definition is_web :: "target_platform \<Rightarrow> bool" where
  "is_web p \<longleftrightarrow> p = WebChromium \<or> p = WebSafari \<or> p = WebFirefox"

definition is_native :: "target_platform \<Rightarrow> bool" where
  "is_native p \<longleftrightarrow> \<not> is_web p"

definition TARGET_PLATFORMS :: "target_platform list" where
  "TARGET_PLATFORMS =
     [WebChromium, WebSafari, WebFirefox, MacOS, IOS, IPadOS, VisionOS, Windows, Android, Linux]"

definition WEB_FALLBACK_PLATFORMS :: "target_platform list" where
  "WEB_FALLBACK_PLATFORMS = [WebChromium, WebSafari, WebFirefox]"

datatype app_surface = Surface_Native | Surface_Web

record parity_targets =
  par_wallet_host_identity :: bool
  par_guest_policy_controls :: bool
  par_host_cohost_participant_roles :: bool
  par_moderation_commands :: bool
  par_waiting_room_and_room_lock :: bool
  par_roster_chat_reactions_hand_raise :: bool
  par_reconnect_and_session_continuity :: bool
  par_participant_scale_target :: u16
  par_accessibility_shortcuts_and_labels :: bool

record security_targets =
  sec_e2ee_default :: bool
  sec_signed_high_risk_actions :: bool
  sec_replay_resistance :: bool

record media_targets =
  med_camera_mic_speaker :: bool
  med_screen_share :: bool
  med_hdr_on_supported_devices :: bool
  med_sdr_tonemap_fallback :: bool
  med_active_profile_indicator :: bool

record recording_targets =
  rct_local_recording_policy_controlled :: bool
  rct_host_and_participant_recording_paths :: bool

record fallback_targets =
  fbt_web_fallback_required :: bool
  fbt_fallback_platforms :: "target_platform list"

record contract =
  con_platform :: target_platform
  con_app_surface :: app_surface
  con_parity :: parity_targets
  con_security :: security_targets
  con_media :: media_targets
  con_recording :: recording_targets
  con_fallback :: fallback_targets

definition platform_contract :: "target_platform \<Rightarrow> contract" where
  "platform_contract platform = \<lparr>
     con_platform = platform,
     con_app_surface = (if is_web platform then Surface_Web else Surface_Native),
     con_parity = \<lparr>par_wallet_host_identity = True, par_guest_policy_controls = True,
       par_host_cohost_participant_roles = True, par_moderation_commands = True,
       par_waiting_room_and_room_lock = True, par_roster_chat_reactions_hand_raise = True,
       par_reconnect_and_session_continuity = True, par_participant_scale_target = 500,
       par_accessibility_shortcuts_and_labels = True\<rparr>,
     con_security = \<lparr>sec_e2ee_default = True, sec_signed_high_risk_actions = True, sec_replay_resistance = True\<rparr>,
     con_media = \<lparr>med_camera_mic_speaker = True, med_screen_share = True, med_hdr_on_supported_devices = True,
       med_sdr_tonemap_fallback = True, med_active_profile_indicator = True\<rparr>,
     con_recording = \<lparr>rct_local_recording_policy_controlled = True,
       rct_host_and_participant_recording_paths = True\<rparr>,
     con_fallback =
       (if is_native platform
        then \<lparr>fbt_web_fallback_required = True, fbt_fallback_platforms = WEB_FALLBACK_PLATFORMS\<rparr>
        else \<lparr>fbt_web_fallback_required = False, fbt_fallback_platforms = []\<rparr>)\<rparr>"

definition all_platform_contracts :: "contract list" where
  "all_platform_contracts = map platform_contract TARGET_PLATFORMS"

text \<open>The table lists every platform exactly once.\<close>

lemma target_platforms_complete: "distinct TARGET_PLATFORMS" "p \<in> set TARGET_PLATFORMS"
  by (simp_all add: TARGET_PLATFORMS_def) (cases p; simp)

text \<open>There is one contract per platform; exactly the native platforms must have a web fallback, and the
  fallbacks named are web platforms.\<close>

lemma contracts_complete:
  "\<exists>!c. c \<in> set all_platform_contracts \<and> con_platform c = p"
  "fbt_web_fallback_required (con_fallback (platform_contract p)) \<longleftrightarrow> is_native p"
  "q \<in> set (fbt_fallback_platforms (con_fallback (platform_contract p))) \<longleftrightarrow> is_native p \<and> is_web q"
proof -
  show "\<exists>!c. c \<in> set all_platform_contracts \<and> con_platform c = p"
    using target_platforms_complete(2)
    by (intro ex1I [of _ "platform_contract p"]) (auto simp: all_platform_contracts_def platform_contract_def)
qed (auto simp: platform_contract_def is_web_def WEB_FALLBACK_PLATFORMS_def)

end
