(* ===== verification/Client_Types.thy ===== *)
theory Client_Types
  imports Prelude
begin

text \<open>
  The data of the native session client (\<^verbatim>\<open>crates/kaigi-linux-client/src/lib.rs\<close>): participants,
  policies, the session state, the frames of its JSON protocol and the events of its reducer. An \<open>i64\<close>
  or \<open>i32\<close> is a word read with \<open>sint\<close>; a \<open>BTreeMap\<close> is a map as in \<^theory_text>\<open>Prelude\<close>, its order is never
  observed.
\<close>

section \<open>Sessions\<close>

datatype connection_phase =
    Phase_Disconnected | Phase_Connecting | Phase_Connected | Phase_Degraded | Phase_FallbackActive | Phase_Error

datatype session_error_category = Protocol_Failure | Policy_Failure | Transport_Failure

record session_error =
  se_category :: session_error_category
  se_code :: string
  se_message :: string
  se_at_ms :: i64

datatype participant_role = Client_Host | Client_CoHost | Client_Participant | Client_Guest

record client_participant =
  cp_id :: string
  cp_display_name :: string
  cp_role :: participant_role
  cp_muted :: bool
  cp_video_enabled :: bool
  cp_share_enabled :: bool
  cp_waiting_room :: bool

record role_change =
  ch_participant_id :: string
  ch_role :: participant_role

datatype client_moderation_action =
    Mod_Mute | Mod_VideoOff | Mod_StopShare | Mod_Kick | Mod_AdmitFromWaiting | Mod_DenyFromWaiting

datatype media_profile = Sdr | Hdr

record media_profile_state =
  mps_preferred_profile :: media_profile
  mps_negotiated_profile :: media_profile
  mps_color_primaries :: string
  mps_transfer_function :: string
  mps_codec :: string

definition media_profile_default :: media_profile_state where
  "media_profile_default = \<lparr>mps_preferred_profile = Sdr, mps_negotiated_profile = Sdr,
     mps_color_primaries = ''bt709'', mps_transfer_function = ''gamma'', mps_codec = ''h264''\<rparr>"

datatype client_recording_state = Rec_Stopped | Rec_Started

datatype guest_policy = Guests_Open | Guests_InviteOnly | Guests_Blocked

record permission_snapshot =
  ps_effective_permissions :: "string list"
  ps_epoch :: i32

datatype settlement_status = Not_Required | Settlement_Pending | Settled | Settlement_Blocked

record payment_state =
  pst_required :: bool
  pst_destination :: "string option"
  pst_settlement_status :: settlement_status

definition payment_state_default :: payment_state where
  "payment_state_default = \<lparr>pst_required = False, pst_destination = None, pst_settlement_status = Not_Required\<rparr>"

record e2ee_state =
  es_current_epoch :: i32
  es_last_ack_epoch :: i32

definition e2ee_state_default :: e2ee_state where
  "e2ee_state_default = \<lparr>es_current_epoch = 0, es_last_ack_epoch = 0\<rparr>"

record fallback_state =
  fb_active :: bool
  fb_reason :: "string option"
  fb_activated_at_ms :: "i64 option"
  fb_recovered_at_ms :: "i64 option"
  fb_last_rto_ms :: "i64 option"

definition fallback_state_default :: fallback_state where
  "fallback_state_default = \<lparr>fb_active = False, fb_reason = None, fb_activated_at_ms = None,
     fb_recovered_at_ms = None, fb_last_rto_ms = None\<rparr>"

record meeting_config =
  cfg_signaling_url :: string
  cfg_fallback_url :: string
  cfg_room_id :: string
  cfg_participant_id :: string
  cfg_participant_name :: string
  cfg_wallet_identity :: "string option"
  cfg_require_signed_moderation :: bool
  cfg_require_payment_settlement :: bool
  cfg_prefer_web_fallback :: bool
  cfg_supports_hdr_capture :: bool
  cfg_supports_hdr_render :: bool

definition meeting_config_default :: meeting_config where
  "meeting_config_default = \<lparr>cfg_signaling_url = ''ws://127.0.0.1:9000'',
     cfg_fallback_url = ''https://example.com/fallback'', cfg_room_id = ''ga-room'',
     cfg_participant_id = ''linux-guest-1'', cfg_participant_name = ''Linux Guest'',
     cfg_wallet_identity = None, cfg_require_signed_moderation = True,
     cfg_require_payment_settlement = False, cfg_prefer_web_fallback = True,
     cfg_supports_hdr_capture = True, cfg_supports_hdr_render = True\<rparr>"

record session_state =
  ss_config :: meeting_config
  ss_connection_phase :: connection_phase
  ss_handshake_complete :: bool
  ss_resume_token :: "string option"
  ss_participants :: "(string, client_participant) hmap"
  ss_permission_snapshots :: "(string, permission_snapshot) hmap"
  ss_presence_sequence :: i64
  ss_room_locked :: bool
  ss_waiting_room_enabled :: bool
  ss_guest_policy :: guest_policy
  ss_e2ee_required :: bool
  ss_max_participants :: i32
  ss_policy_epoch :: i32
  ss_media_profile :: media_profile_state
  ss_recording_notice :: client_recording_state
  ss_e2ee_state :: e2ee_state
  ss_payment_state :: payment_state
  ss_fallback :: fallback_state
  ss_last_error :: "session_error option"

definition initial_state :: "meeting_config \<Rightarrow> session_state" where
  "initial_state config = \<lparr>
     ss_config = config,
     ss_connection_phase = Phase_Disconnected,
     ss_handshake_complete = False,
     ss_resume_token = None,
     ss_participants = [],
     ss_permission_snapshots = [],
     ss_presence_sequence = 0,
     ss_room_locked = False,
     ss_waiting_room_enabled = False,
     ss_guest_policy = Guests_Open,
     ss_e2ee_required = True,
     ss_max_participants = 300,
     ss_policy_epoch = 0,
     ss_media_profile = media_profile_default,
     ss_recording_notice = Rec_Stopped,
     ss_e2ee_state = e2ee_state_default,
     ss_payment_state = payment_state_default,
     ss_fallback = fallback_state_default,
     ss_last_error = None\<rparr>"

section \<open>Frames and events\<close>

record handshake_msg =
  hsk_room_id :: string
  hsk_participant_id :: string
  hsk_participant_name :: string
  hsk_wallet_identity :: "string option"
  hsk_resume_token :: "string option"
  hsk_preferred_profile :: media_profile
  hsk_hdr_capture :: bool
  hsk_hdr_render :: bool
  hsk_sent_at_ms :: i64

record handshake_ack_msg =
  ha_session_id :: string
  ha_resume_token :: string
  ha_accepted_at_ms :: i64

record presence_msg =
  pm_joined :: "client_participant list"
  pm_left :: "string list"
  pm_role_changes :: "role_change list"
  pm_sequence :: i64

record role_msg =
  \<comment> \<open>the fields of \<open>RoleGrant\<close> (\<open>granted_by\<close>) and of \<open>RoleRevoke\<close> (\<open>revoked_by\<close>)\<close>
  rm_target_participant_id :: string
  rm_role :: participant_role
  rm_issuer :: string
  rm_signature :: "string option"
  rm_issued_at_ms :: i64

record permissions_msg =
  pe_participant_id :: string
  pe_effective_permissions :: "string list"
  pe_epoch :: i32

record moderation_msg =
  mm_target_participant_id :: string
  mm_action :: client_moderation_action
  mm_issued_by :: string
  mm_signature :: "string option"
  mm_sent_at_ms :: i64

record policy_msg =
  pl_room_lock :: bool
  pl_waiting_room_enabled :: bool
  pl_recording_policy :: client_recording_state
  pl_guest_policy :: guest_policy
  pl_e2ee_required :: bool
  pl_max_participants :: i32
  pl_policy_epoch :: i32
  pl_updated_by :: string
  pl_signature :: "string option"
  pl_updated_at_ms :: i64

record device_msg =
  dm_participant_id :: string
  dm_codecs :: "string list"
  dm_hdr_capture :: bool
  dm_hdr_render :: bool
  dm_max_streams :: i32
  dm_updated_at_ms :: i64

record key_epoch_msg =
  km_epoch :: i32
  km_issued_by :: string
  km_signature :: "string option"
  km_sent_at_ms :: i64

record key_ack_msg =
  kk_ack_epoch :: i32
  kk_participant_id :: string
  kk_sent_at_ms :: i64

record error_msg =
  em_category :: session_error_category
  em_code :: string
  em_message :: string

datatype protocol_frame =
    PF_Handshake handshake_msg
  | PF_HandshakeAck handshake_ack_msg
  | PF_ParticipantPresenceDelta presence_msg
  | PF_RoleGrant role_msg
  | PF_RoleRevoke role_msg
  | PF_PermissionsSnapshot permissions_msg
  | PF_ModerationSigned moderation_msg
  | PF_SessionPolicy policy_msg
  | PF_DeviceCapability device_msg
  | PF_MediaProfileNegotiation media_profile_state
    \<comment> \<open>the frame has the fields of \<open>MediaProfileState\<close>\<close>
  | PF_RecordingNotice client_recording_state i64
  | PF_E2eeKeyEpoch key_epoch_msg
  | PF_KeyRotationAck key_ack_msg
  | PF_PaymentPolicy bool "string option"
  | PF_PaymentSettlement settlement_status
  | PF_Error error_msg
  | PF_Ping i64
  | PF_Pong i64

datatype protocol_event =
    Ev_ConnectRequested
  | Ev_TransportConnected
  | Ev_TransportDisconnected string
  | Ev_TransportFailure string
  | Ev_FrameReceived protocol_frame
  | Ev_FrameSendFailed string
  | Ev_ManualDisconnected
  | Ev_FallbackActivated string
  | Ev_FallbackRecovered
  | Ev_ConfigUpdated meeting_config

end
