(* ===== verification/Json_Values.thy ===== *)
theory Json_Values
  imports Wire_Types
begin

text \<open>
  JSON values as \<^verbatim>\<open>serde_json\<close> gives them to the programs: the text of a value is the library's matter, so
  printing and parsing are parameters, and a value is what its accessors (\<open>as_str\<close>, \<open>as_i64\<close>,
  \<open>as_object\<close>, \<dots>) see of it.
\<close>

section \<open>JSON values\<close>

datatype json =
    J_Null
  | J_Bool bool
  | J_Int int
  | J_Float string
  | J_String string
  | J_Array "json list"
  | J_Object "(string \<times> json) list"

type_synonym json_object = "(string \<times> json) list"

record json_ext =
  json_print :: "json \<Rightarrow> string + string"
  json_parse :: "string \<Rightarrow> string + json"

text \<open>What the library promises: a printed value is parsed back, with the entries of every object in the
  order of their keys (its \<open>Map\<close> is a \<open>BTreeMap\<close>).\<close>

definition sort_object :: "(string \<times> 'a) list \<Rightarrow> (string \<times> 'a) list" where
  "sort_object kvs = sort_key fst kvs"

primrec canon :: "json \<Rightarrow> json" where
  "canon J_Null = J_Null"
| "canon (J_Bool b) = J_Bool b"
| "canon (J_Int n) = J_Int n"
| "canon (J_Float f) = J_Float f"
| "canon (J_String s) = J_String s"
| "canon (J_Array vs) = J_Array (map canon vs)"
| "canon (J_Object kvs) = J_Object (sort_object (map (map_prod id canon) kvs))"

definition json_roundtrip :: "json_ext \<Rightarrow> bool" where
  "json_roundtrip J \<longleftrightarrow>
     (\<forall>v. case json_print J v of Inl _ \<Rightarrow> True | Inr s \<Rightarrow> json_parse J s = Inr (canon v))"

definition as_bool :: "json \<Rightarrow> bool option" where
  "as_bool v = (case v of J_Bool b \<Rightarrow> Some b | _ \<Rightarrow> None)"

definition i64_of :: "int \<Rightarrow> i64 option" where
  "i64_of n = (if - (2 ^ 63) \<le> n \<and> n < 2 ^ 63 then Some (word_of_int n) else None)"

definition as_i64 :: "json \<Rightarrow> i64 option" where
  "as_i64 v = (case v of J_Int n \<Rightarrow> i64_of n | _ \<Rightarrow> None)"

definition as_u64 :: "json \<Rightarrow> int option" where
  "as_u64 v = (case v of J_Int n \<Rightarrow> if 0 \<le> n \<and> n < 2 ^ 64 then Some n else None | _ \<Rightarrow> None)"

definition value_as_str :: "json \<Rightarrow> string option" where
  "value_as_str v = (case v of J_String s \<Rightarrow> Some s | _ \<Rightarrow> None)"

definition as_object :: "json \<Rightarrow> json_object option" where
  "as_object v = (case v of J_Object obj \<Rightarrow> Some obj | _ \<Rightarrow> None)"

definition as_array :: "json \<Rightarrow> json list option" where
  "as_array v = (case v of J_Array vs \<Rightarrow> Some vs | _ \<Rightarrow> None)"

end
