(* ===== verification/Client_Codec.thy ===== *)
theory Client_Codec
  imports Client_Types Json_Values
begin

text \<open>
  The JSON codec of \<^verbatim>\<open>crates/kaigi-linux-client/src/lib.rs\<close>: \<open>encode_frame\<close> (the derived
  \<open>Serialize\<close> with \<open>tag = "kind"\<close> and camel-case variant names), \<open>decode_frame\<close> and its field readers.
  JSON values and their library are in \<open>Json_Values\<close>.
\<close>

section \<open>Numbers\<close>

definition is_digit :: "char \<Rightarrow> bool" where
  "is_digit c \<longleftrightarrow> 48 \<le> byte_of c \<and> byte_of c \<le> 57"

definition parse_i64 :: "string \<Rightarrow> i64 option" where
  \<comment> \<open>\<open>str::parse::<i64>().ok()\<close>: an optional sign, then digits, within the range\<close>
  "parse_i64 s =
     (let sgn = (if s \<noteq> [] \<and> hd s = CHR ''-'' then - 1 else 1 :: int);
          ds = (if s \<noteq> [] \<and> (hd s = CHR ''-'' \<or> hd s = CHR ''+'') then tl s else s) in
      if ds = [] \<or> \<not> list_all is_digit ds then None
      else i64_of (sgn * foldl (\<lambda>n c. n * 10 + (int (byte_of c) - 48)) 0 ds))"

section \<open>Field readers\<close>

fun get_value :: "json_object \<Rightarrow> string list \<Rightarrow> json option" where
  "get_value obj [] = None"
| "get_value obj (key # keys) = (case map_of obj key of Some v \<Rightarrow> Some v | None \<Rightarrow> get_value obj keys)"

definition get_string :: "json_object \<Rightarrow> string list \<Rightarrow> string option" where
  \<comment> \<open>also \<open>get_string_ref\<close>\<close>
  "get_string obj keys = Option.bind (get_value obj keys) value_as_str"

definition get_bool :: "json_object \<Rightarrow> string list \<Rightarrow> bool option" where
  "get_bool obj keys = Option.bind (get_value obj keys) (\<lambda>v.
     or_else (as_bool v)
    (or_else (map_option (\<lambda>number. number \<noteq> 0) (as_i64 v))
       (case value_as_str v of
          Some s \<Rightarrow> if s = ''true'' then Some True else if s = ''false'' then Some False else None
        | None \<Rightarrow> None)))"

definition get_i64 :: "json_object \<Rightarrow> string list \<Rightarrow> i64 option" where
  "get_i64 obj keys = Option.bind (get_value obj keys) (\<lambda>v.
     or_else (as_i64 v)
    (or_else (Option.bind (as_u64 v) i64_of)
       (Option.bind (value_as_str v) parse_i64)))"

definition get_i32 :: "json_object \<Rightarrow> string list \<Rightarrow> i32 option" where
  "get_i32 obj keys = Option.bind (get_i64 obj keys) (\<lambda>number.
     if - (2 ^ 31) \<le> sint number \<and> sint number < 2 ^ 31 then Some (word_of_int (sint number)) else None)"

definition get_array :: "json_object \<Rightarrow> string list \<Rightarrow> json list" where
  "get_array obj keys = unwrap_or (Option.bind (get_value obj keys) as_array) []"

fun payload_or_root :: "json_object \<Rightarrow> string list \<Rightarrow> json_object" where
  "payload_or_root root [] = root"
| "payload_or_root root (key # keys) =
     (case Option.bind (map_of root key) as_object of Some obj \<Rightarrow> obj | None \<Rightarrow> payload_or_root root keys)"

datatype codec_error = Invalid_Json string | Invalid_Shape string

definition require_string :: "json_object \<Rightarrow> string list \<Rightarrow> string \<Rightarrow> codec_error + string" where
  "require_string obj keys field =
     (case get_string obj keys of
        Some s \<Rightarrow> Inr s
      | None \<Rightarrow> Inl (Invalid_Shape (''missing required field: '' @ field)))"

definition strings_of :: "json list \<Rightarrow> string list" where
  \<comment> \<open>\<open>iter().filter_map(value_as_str).map(ToOwned::to_owned)\<close>\<close>
  "strings_of vs = List.map_filter value_as_str vs"

section \<open>Tokens\<close>

definition parse_session_error_category :: "string option \<Rightarrow> session_error_category" where
  "parse_session_error_category raw =
     (let r = unwrap_or raw ''protocol_failure'' in
      if r = ''policyFailure'' \<or> r = ''policy_failure'' then Policy_Failure
      else if r = ''transportFailure'' \<or> r = ''transport_failure'' then Transport_Failure
      else Protocol_Failure)"

definition parse_participant_role :: "string option \<Rightarrow> participant_role" where
  "parse_participant_role raw =
     (let r = unwrap_or raw ''participant'' in
      if r = ''host'' then Client_Host
      else if r = ''coHost'' \<or> r = ''co_host'' then Client_CoHost
      else if r = ''guest'' then Client_Guest
      else Client_Participant)"

definition parse_moderation_action :: "string option \<Rightarrow> client_moderation_action" where
  "parse_moderation_action raw =
     (let r = unwrap_or raw ''mute'' in
      if r = ''videoOff'' \<or> r = ''video_off'' then Mod_VideoOff
      else if r = ''stopShare'' \<or> r = ''stop_share'' then Mod_StopShare
      else if r = ''kick'' then Mod_Kick
      else if r = ''admitFromWaiting'' \<or> r = ''admit_from_waiting'' then Mod_AdmitFromWaiting
      else if r = ''denyFromWaiting'' \<or> r = ''deny_from_waiting'' then Mod_DenyFromWaiting
      else Mod_Mute)"

definition parse_media_profile :: "string option \<Rightarrow> media_profile" where
  "parse_media_profile raw = (if unwrap_or raw ''sdr'' = ''hdr'' then Hdr else Sdr)"

definition parse_recording_state :: "string option \<Rightarrow> client_recording_state" where
  "parse_recording_state raw = (if unwrap_or raw ''stopped'' = ''started'' then Rec_Started else Rec_Stopped)"

definition parse_guest_policy :: "string option \<Rightarrow> guest_policy" where
  "parse_guest_policy raw =
     (let r = unwrap_or raw ''open'' in
      if r = ''inviteOnly'' \<or> r = ''invite_only'' then Guests_InviteOnly
      else if r = ''blocked'' then Guests_Blocked
      else Guests_Open)"

definition parse_payment_settlement_status :: "string option \<Rightarrow> settlement_status" where
  "parse_payment_settlement_status raw =
     (let r = unwrap_or raw ''not_required'' in
      if r = ''pending'' then Settlement_Pending
      else if r = ''settled'' then Settled
      else if r = ''blocked'' then Settlement_Blocked
      else Not_Required)"

definition canonical_kind :: "string \<Rightarrow> string" where
  "canonical_kind raw =
     (if raw = ''handshake_ack'' then ''handshakeAck''
      else if raw = ''participant_presence_delta'' then ''participantPresenceDelta''
      else if raw = ''role_grant'' then ''roleGrant''
      else if raw = ''role_revoke'' then ''roleRevoke''
      else if raw = ''permissions_snapshot'' then ''permissionsSnapshot''
      else if raw = ''moderation_signed'' then ''moderationSigned''
      else if raw = ''session_policy'' then ''sessionPolicy''
      else if raw = ''device_capability'' then ''deviceCapability''
      else if raw = ''media_profile_negotiation'' then ''mediaProfileNegotiation''
      else if raw = ''recording_notice'' then ''recordingNotice''
      else if raw = ''e2ee_key_epoch'' then ''e2eeKeyEpoch''
      else if raw = ''key_rotation_ack'' then ''keyRotationAck''
      else if raw = ''payment_policy'' then ''paymentPolicy''
      else if raw = ''payment_settlement'' then ''paymentSettlement''
      else raw)"

definition parse_participant :: "json \<Rightarrow> client_participant option" where
  "parse_participant v = Option.bind (as_object v) (\<lambda>obj.
     Option.bind (get_string obj [''id'']) (\<lambda>pid. Some
       \<lparr>cp_id = pid,
        cp_display_name = unwrap_or (get_string obj [''display_name'', ''displayName'']) pid,
        cp_role = parse_participant_role (get_string obj [''role'']),
        cp_muted = unwrap_or (get_bool obj [''muted'']) False,
        cp_video_enabled = unwrap_or (get_bool obj [''video_enabled'', ''videoEnabled'']) True,
        cp_share_enabled = unwrap_or (get_bool obj [''share_enabled'', ''shareEnabled'']) True,
        cp_waiting_room = unwrap_or (get_bool obj [''waiting_room'', ''waitingRoom'']) False\<rparr>))"

definition parse_role_change :: "json \<Rightarrow> role_change option" where
  "parse_role_change v = Option.bind (as_object v) (\<lambda>obj.
     Option.bind (get_string obj [''participant_id'', ''participantId'', ''participantID'']) (\<lambda>pid. Some
       \<lparr>ch_participant_id = pid, ch_role = parse_participant_role (get_string obj [''role''])\<rparr>))"

section \<open>Decoding\<close>

definition decode_handshake :: "json_object \<Rightarrow> codec_error + protocol_frame" where
  "decode_handshake obj =
     try_bind (require_string obj [''room_id'', ''roomId'', ''roomID''] ''handshake.room_id'') (\<lambda>room_id.
     try_bind (require_string obj [''participant_id'', ''participantId'', ''participantID''] ''handshake.participant_id'') (\<lambda>participant_id.
     try_bind (require_string obj [''participant_name'', ''participantName''] ''handshake.participant_name'')
       (\<lambda>participant_name. Inr (PF_Handshake
         \<lparr>hsk_room_id = room_id, hsk_participant_id = participant_id, hsk_participant_name = participant_name,
          hsk_wallet_identity = get_string obj [''wallet_identity'', ''walletIdentity''],
          hsk_resume_token = get_string obj [''resume_token'', ''resumeToken''],
          hsk_preferred_profile =
            parse_media_profile (get_string obj [''preferred_profile'', ''preferredProfile'']),
          hsk_hdr_capture = unwrap_or (get_bool obj [''hdr_capture'', ''hdrCapture'']) False,
          hsk_hdr_render = unwrap_or (get_bool obj [''hdr_render'', ''hdrRender'']) False,
          hsk_sent_at_ms = unwrap_or (get_i64 obj [''sent_at_ms'', ''sentAtMs'']) 0\<rparr>))))"

definition decode_handshake_ack :: "json_object \<Rightarrow> codec_error + protocol_frame" where
  "decode_handshake_ack obj =
     try_bind (require_string obj [''session_id'', ''sessionId'', ''sessionID''] ''handshakeAck.session_id'') (\<lambda>session_id.
     try_bind (require_string obj [''resume_token'', ''resumeToken''] ''handshakeAck.resume_token'') (\<lambda>resume_token.
     Inr (PF_HandshakeAck \<lparr>ha_session_id = session_id, ha_resume_token = resume_token,
       ha_accepted_at_ms = unwrap_or (get_i64 obj [''accepted_at_ms'', ''acceptedAtMs'']) 0\<rparr>)))"

definition decode_presence :: "json_object \<Rightarrow> codec_error + protocol_frame" where
  "decode_presence obj = Inr (PF_ParticipantPresenceDelta
     \<lparr>pm_joined = List.map_filter parse_participant (get_array obj [''joined'']),
      pm_left = strings_of (get_array obj [''left'']),
      pm_role_changes = List.map_filter parse_role_change (get_array obj [''role_changes'', ''roleChanges'']),
      pm_sequence = unwrap_or (get_i64 obj [''sequence'']) 0\<rparr>)"

definition decode_role :: "json_object \<Rightarrow> string \<Rightarrow> string list \<Rightarrow> codec_error + role_msg" where
  \<comment> \<open>the fields of \<open>roleGrant\<close> and \<open>roleRevoke\<close>\<close>
  "decode_role obj field issuer_keys =
     try_bind (require_string obj [''target_participant_id'', ''targetParticipantId'', ''targetParticipantID''] field) (\<lambda>target.
     Inr \<lparr>rm_target_participant_id = target,
       rm_role = parse_participant_role (get_string obj [''role'']),
       rm_issuer = unwrap_or (get_string obj issuer_keys) ''unknown'',
       rm_signature = get_string obj [''signature''],
       rm_issued_at_ms = unwrap_or (get_i64 obj [''issued_at_ms'', ''issuedAtMs'']) 0\<rparr>)"

definition decode_permissions :: "json_object \<Rightarrow> codec_error + protocol_frame" where
  "decode_permissions obj =
     try_bind (require_string obj [''participant_id'', ''participantId'', ''participantID''] ''permissionsSnapshot.participant_id'') (\<lambda>participant_id.
     Inr (PF_PermissionsSnapshot \<lparr>pe_participant_id = participant_id,
       pe_effective_permissions = strings_of (get_array obj [''effective_permissions'', ''effectivePermissions'']),
       pe_epoch = unwrap_or (get_i32 obj [''epoch'']) 0\<rparr>))"

definition decode_moderation :: "json_object \<Rightarrow> codec_error + protocol_frame" where
  "decode_moderation obj =
     try_bind (require_string obj [''target_participant_id'', ''targetParticipantId'', ''targetParticipantID''] ''moderationSigned.target_participant_id'') (\<lambda>target.
     Inr (PF_ModerationSigned \<lparr>mm_target_participant_id = target,
       mm_action = parse_moderation_action (get_string obj [''action'']),
       mm_issued_by = unwrap_or (get_string obj [''issued_by'', ''issuedBy'']) ''unknown'',
       mm_signature = get_string obj [''signature''],
       mm_sent_at_ms = unwrap_or (get_i64 obj [''sent_at_ms'', ''sentAtMs'']) 0\<rparr>))"

definition decode_policy :: "json_object \<Rightarrow> codec_error + protocol_frame" where
  "decode_policy obj = Inr (PF_SessionPolicy
     \<lparr>pl_room_lock = unwrap_or (get_bool obj [''room_lock'', ''roomLock'']) False,
      pl_waiting_room_enabled = unwrap_or (get_bool obj [''waiting_room_enabled'', ''waitingRoomEnabled'']) False,
      pl_recording_policy = parse_recording_state (get_string obj [''recording_policy'', ''recordingPolicy'']),
      pl_guest_policy = parse_guest_policy (get_string obj [''guest_policy'', ''guestPolicy'']),
      pl_e2ee_required = unwrap_or (get_bool obj [''e2ee_required'', ''e2eeRequired'']) True,
      pl_max_participants = unwrap_or (get_i32 obj [''max_participants'', ''maxParticipants'']) 300,
      pl_policy_epoch = unwrap_or (get_i32 obj [''policy_epoch'', ''policyEpoch'']) 0,
      pl_updated_by = unwrap_or (get_string obj [''updated_by'', ''updatedBy'']) ''system'',
      pl_signature = get_string obj [''signature''],
      pl_updated_at_ms = unwrap_or (get_i64 obj [''updated_at_ms'', ''updatedAtMs'']) 0\<rparr>)"

definition decode_device :: "json_object \<Rightarrow> codec_error + protocol_frame" where
  "decode_device obj =
     try_bind (require_string obj [''participant_id'', ''participantId'', ''participantID''] ''deviceCapability.participant_id'') (\<lambda>participant_id.
     Inr (PF_DeviceCapability \<lparr>dm_participant_id = participant_id,
       dm_codecs = strings_of (get_array obj [''codecs'']),
       dm_hdr_capture = unwrap_or (get_bool obj [''hdr_capture'', ''hdrCapture'']) False,
       dm_hdr_render = unwrap_or (get_bool obj [''hdr_render'', ''hdrRender'']) False,
       dm_max_streams = unwrap_or (get_i32 obj [''max_streams'', ''maxStreams'']) 1,
       dm_updated_at_ms = unwrap_or (get_i64 obj [''updated_at_ms'', ''updatedAtMs'']) 0\<rparr>))"

definition decode_media_profile :: "json_object \<Rightarrow> codec_error + protocol_frame" where
  "decode_media_profile obj = Inr (PF_MediaProfileNegotiation
     \<lparr>mps_preferred_profile = parse_media_profile (get_string obj [''preferred_profile'', ''preferredProfile'']),
      mps_negotiated_profile = parse_media_profile (get_string obj [''negotiated_profile'', ''negotiatedProfile'']),
      mps_color_primaries = unwrap_or (get_string obj [''color_primaries'', ''colorPrimaries'']) ''bt709'',
      mps_transfer_function = unwrap_or (get_string obj [''transfer_function'', ''transferFunction'']) ''gamma'',
      mps_codec = unwrap_or (get_string obj [''codec'']) ''h264''\<rparr>)"

definition decode_recording :: "json_object \<Rightarrow> codec_error + protocol_frame" where
  "decode_recording obj = Inr (PF_RecordingNotice (parse_recording_state (get_string obj [''state'']))
     (unwrap_or (get_i64 obj [''issued_at_ms'', ''issuedAtMs'']) 0))"

definition decode_key_epoch :: "json_object \<Rightarrow> codec_error + protocol_frame" where
  "decode_key_epoch obj = Inr (PF_E2eeKeyEpoch
     \<lparr>km_epoch = unwrap_or (get_i32 obj [''epoch'']) 0,
      km_issued_by = unwrap_or (get_string obj [''issued_by'', ''issuedBy'']) ''unknown'',
      km_signature = get_string obj [''signature''],
      km_sent_at_ms = unwrap_or (get_i64 obj [''sent_at_ms'', ''sentAtMs'']) 0\<rparr>)"

definition decode_key_ack :: "json_object \<Rightarrow> codec_error + protocol_frame" where
  "decode_key_ack obj =
     try_bind (require_string obj [''participant_id'', ''participantId'', ''participantID''] ''keyRotationAck.participant_id'') (\<lambda>participant_id.
     Inr (PF_KeyRotationAck \<lparr>kk_ack_epoch = unwrap_or (get_i32 obj [''ack_epoch'', ''ackEpoch'']) 0,
       kk_participant_id = participant_id,
       kk_sent_at_ms = unwrap_or (get_i64 obj
         [''sent_at_ms'', ''sentAtMs'', ''received_at_ms'', ''receivedAtMs'']) 0\<rparr>))"

definition decode_error :: "json_object \<Rightarrow> codec_error + protocol_frame" where
  "decode_error obj = Inr (PF_Error
     \<lparr>em_category = parse_session_error_category (get_string obj [''category'']),
      em_code = unwrap_or (get_string obj [''code'']) ''error'',
      em_message = unwrap_or (get_string obj [''message'']) ''unknown''\<rparr>)"

definition decode_value :: "json \<Rightarrow> codec_error + protocol_frame" where
  \<comment> \<open>\<open>decode_frame\<close> after the text has been parsed\<close>
  "decode_value v =
     (case as_object v of
        None \<Rightarrow> Inl (Invalid_Shape ''frame must be an object'')
      | Some root \<Rightarrow>
     (case Option.bind (map_of root ''kind'') value_as_str of
        None \<Rightarrow> Inl (Invalid_Shape ''frame.kind missing'')
      | Some raw_kind \<Rightarrow>
     (let kind = canonical_kind raw_kind in
      if kind = ''handshake'' then decode_handshake (payload_or_root root [''handshake''])
      else if kind = ''handshakeAck''
      then decode_handshake_ack (payload_or_root root [''handshakeAck'', ''handshake_ack''])
      else if kind = ''participantPresenceDelta''
      then decode_presence (payload_or_root root
        [''presenceDelta'', ''participantPresenceDelta'', ''participant_presence_delta''])
      else if kind = ''roleGrant''
      then try_bind (decode_role (payload_or_root root [''roleGrant'', ''role_grant''])
          ''roleGrant.target_participant_id'' [''granted_by'', ''grantedBy'']) (\<lambda>m. Inr (PF_RoleGrant m))
      else if kind = ''roleRevoke''
      then try_bind (decode_role (payload_or_root root [''roleRevoke'', ''role_revoke''])
          ''roleRevoke.target_participant_id'' [''revoked_by'', ''revokedBy'']) (\<lambda>m. Inr (PF_RoleRevoke m))
      else if kind = ''permissionsSnapshot''
      then decode_permissions (payload_or_root root [''permissionsSnapshot'', ''permissions_snapshot''])
      else if kind = ''moderationSigned''
      then decode_moderation (payload_or_root root [''moderationSigned'', ''moderation_signed''])
      else if kind = ''sessionPolicy''
      then decode_policy (payload_or_root root [''sessionPolicy'', ''session_policy''])
      else if kind = ''deviceCapability''
      then decode_device (payload_or_root root [''deviceCapability'', ''device_capability''])
      else if kind = ''mediaProfileNegotiation''
      then decode_media_profile (payload_or_root root [''mediaProfileNegotiation'', ''media_profile_negotiation''])
      else if kind = ''recordingNotice''
      then decode_recording (payload_or_root root [''recordingNotice'', ''recording_notice''])
      else if kind = ''e2eeKeyEpoch''
      then decode_key_epoch (payload_or_root root [''e2eeKeyEpoch'', ''e2ee_key_epoch''])
      else if kind = ''keyRotationAck''
      then decode_key_ack (payload_or_root root [''keyRotationAck'', ''key_rotation_ack''])
      else if kind = ''paymentPolicy''
      then (let obj = payload_or_root root [''paymentPolicy'', ''payment_policy''] in
        Inr (PF_PaymentPolicy (unwrap_or (get_bool obj [''required'']) False)
          (get_string obj [''destination_account'', ''destinationAccount''])))
      else if kind = ''paymentSettlement''
      then (let obj = payload_or_root root [''paymentSettlement'', ''payment_settlement''] in
        Inr (PF_PaymentSettlement (parse_payment_settlement_status (get_string obj [''status'']))))
      else if kind = ''ping''
      then Inr (PF_Ping (unwrap_or (get_i64 (payload_or_root root [''ping'']) [''sent_at_ms'', ''sentAtMs'']) 0))
      else if kind = ''pong''
      then Inr (PF_Pong (unwrap_or (get_i64 (payload_or_root root [''pong'']) [''sent_at_ms'', ''sentAtMs'']) 0))
      else if kind = ''error'' then decode_error (payload_or_root root [''error''])
      else Inl (Invalid_Shape (''unsupported frame kind: '' @ kind)))))"

definition decode_frame :: "json_ext \<Rightarrow> string \<Rightarrow> codec_error + protocol_frame" where
  "decode_frame J payload =
     (case json_parse J payload of Inl err \<Rightarrow> Inl (Invalid_Json err) | Inr v \<Rightarrow> decode_value v)"

section \<open>Encoding\<close>

text \<open>The derived \<open>Serialize\<close> implementations: snake-case tokens, fields under their own names.\<close>

definition role_token :: "participant_role \<Rightarrow> string" where
  "role_token r = (case r of Client_Host \<Rightarrow> ''host'' | Client_CoHost \<Rightarrow> ''co_host''
     | Client_Participant \<Rightarrow> ''participant'' | Client_Guest \<Rightarrow> ''guest'')"

definition moderation_token :: "client_moderation_action \<Rightarrow> string" where
  "moderation_token a = (case a of Mod_Mute \<Rightarrow> ''mute'' | Mod_VideoOff \<Rightarrow> ''video_off''
     | Mod_StopShare \<Rightarrow> ''stop_share'' | Mod_Kick \<Rightarrow> ''kick''
     | Mod_AdmitFromWaiting \<Rightarrow> ''admit_from_waiting'' | Mod_DenyFromWaiting \<Rightarrow> ''deny_from_waiting'')"

definition profile_token :: "media_profile \<Rightarrow> string" where
  "profile_token p = (case p of Sdr \<Rightarrow> ''sdr'' | Hdr \<Rightarrow> ''hdr'')"

definition recording_token :: "client_recording_state \<Rightarrow> string" where
  "recording_token r = (case r of Rec_Stopped \<Rightarrow> ''stopped'' | Rec_Started \<Rightarrow> ''started'')"

definition guest_token :: "guest_policy \<Rightarrow> string" where
  "guest_token g = (case g of Guests_Open \<Rightarrow> ''open'' | Guests_InviteOnly \<Rightarrow> ''invite_only''
     | Guests_Blocked \<Rightarrow> ''blocked'')"

definition settlement_token :: "settlement_status \<Rightarrow> string" where
  "settlement_token st = (case st of Not_Required \<Rightarrow> ''not_required'' | Settlement_Pending \<Rightarrow> ''pending''
     | Settled \<Rightarrow> ''settled'' | Settlement_Blocked \<Rightarrow> ''blocked'')"

definition category_token :: "session_error_category \<Rightarrow> string" where
  "category_token c = (case c of Protocol_Failure \<Rightarrow> ''protocol_failure'' | Policy_Failure \<Rightarrow> ''policy_failure''
     | Transport_Failure \<Rightarrow> ''transport_failure'')"

definition json_int :: "'a::len word \<Rightarrow> json" where
  "json_int x = J_Int (sint x)"

definition json_opt :: "string option \<Rightarrow> json" where
  "json_opt x = (case x of None \<Rightarrow> J_Null | Some s \<Rightarrow> J_String s)"

definition json_strings :: "string list \<Rightarrow> json" where
  "json_strings xs = J_Array (map J_String xs)"

definition json_participant :: "client_participant \<Rightarrow> json" where
  "json_participant p = J_Object
     [(''id'', J_String (cp_id p)), (''display_name'', J_String (cp_display_name p)),
      (''role'', J_String (role_token (cp_role p))), (''muted'', J_Bool (cp_muted p)),
      (''video_enabled'', J_Bool (cp_video_enabled p)), (''share_enabled'', J_Bool (cp_share_enabled p)),
      (''waiting_room'', J_Bool (cp_waiting_room p))]"

definition json_role_change :: "role_change \<Rightarrow> json" where
  "json_role_change c = J_Object
     [(''participant_id'', J_String (ch_participant_id c)), (''role'', J_String (role_token (ch_role c)))]"

definition json_role :: "string \<Rightarrow> string \<Rightarrow> role_msg \<Rightarrow> json" where
  "json_role kind issuer m = J_Object
     [(''kind'', J_String kind), (''target_participant_id'', J_String (rm_target_participant_id m)),
      (''role'', J_String (role_token (rm_role m))), (issuer, J_String (rm_issuer m)),
      (''signature'', json_opt (rm_signature m)), (''issued_at_ms'', json_int (rm_issued_at_ms m))]"

definition frame_value :: "protocol_frame \<Rightarrow> json" where
  "frame_value frame =
     (case frame of
        PF_Handshake m \<Rightarrow> J_Object
          [(''kind'', J_String ''handshake''), (''room_id'', J_String (hsk_room_id m)),
           (''participant_id'', J_String (hsk_participant_id m)),
           (''participant_name'', J_String (hsk_participant_name m)),
           (''wallet_identity'', json_opt (hsk_wallet_identity m)), (''resume_token'', json_opt (hsk_resume_token m)),
           (''preferred_profile'', J_String (profile_token (hsk_preferred_profile m))),
           (''hdr_capture'', J_Bool (hsk_hdr_capture m)), (''hdr_render'', J_Bool (hsk_hdr_render m)),
           (''sent_at_ms'', json_int (hsk_sent_at_ms m))]
      | PF_HandshakeAck m \<Rightarrow> J_Object
          [(''kind'', J_String ''handshakeAck''), (''session_id'', J_String (ha_session_id m)),
           (''resume_token'', J_String (ha_resume_token m)), (''accepted_at_ms'', json_int (ha_accepted_at_ms m))]
      | PF_ParticipantPresenceDelta m \<Rightarrow> J_Object
          [(''kind'', J_String ''participantPresenceDelta''),
           (''joined'', J_Array (map json_participant (pm_joined m))), (''left'', json_strings (pm_left m)),
           (''role_changes'', J_Array (map json_role_change (pm_role_changes m))),
           (''sequence'', json_int (pm_sequence m))]
      | PF_RoleGrant m \<Rightarrow> json_role ''roleGrant'' ''granted_by'' m
      | PF_RoleRevoke m \<Rightarrow> json_role ''roleRevoke'' ''revoked_by'' m
      | PF_PermissionsSnapshot m \<Rightarrow> J_Object
          [(''kind'', J_String ''permissionsSnapshot''), (''participant_id'', J_String (pe_participant_id m)),
           (''effective_permissions'', json_strings (pe_effective_permissions m)), (''epoch'', json_int (pe_epoch m))]
      | PF_ModerationSigned m \<Rightarrow> J_Object
          [(''kind'', J_String ''moderationSigned''),
           (''target_participant_id'', J_String (mm_target_participant_id m)),
           (''action'', J_String (moderation_token (mm_action m))), (''issued_by'', J_String (mm_issued_by m)),
           (''signature'', json_opt (mm_signature m)), (''sent_at_ms'', json_int (mm_sent_at_ms m))]
      | PF_SessionPolicy m \<Rightarrow> J_Object
          [(''kind'', J_String ''sessionPolicy''), (''room_lock'', J_Bool (pl_room_lock m)),
           (''waiting_room_enabled'', J_Bool (pl_waiting_room_enabled m)),
           (''recording_policy'', J_String (recording_token (pl_recording_policy m))),
           (''guest_policy'', J_String (guest_token (pl_guest_policy m))),
           (''e2ee_required'', J_Bool (pl_e2ee_required m)), (''max_participants'', json_int (pl_max_participants m)),
           (''policy_epoch'', json_int (pl_policy_epoch m)), (''updated_by'', J_String (pl_updated_by m)),
           (''signature'', json_opt (pl_signature m)), (''updated_at_ms'', json_int (pl_updated_at_ms m))]
      | PF_DeviceCapability m \<Rightarrow> J_Object
          [(''kind'', J_String ''deviceCapability''), (''participant_id'', J_String (dm_participant_id m)),
           (''codecs'', json_strings (dm_codecs m)), (''hdr_capture'', J_Bool (dm_hdr_capture m)),
           (''hdr_render'', J_Bool (dm_hdr_render m)), (''max_streams'', json_int (dm_max_streams m)),
           (''updated_at_ms'', json_int (dm_updated_at_ms m))]
      | PF_MediaProfileNegotiation m \<Rightarrow> J_Object
          [(''kind'', J_String ''mediaProfileNegotiation''),
           (''preferred_profile'', J_String (profile_token (mps_preferred_profile m))),
           (''negotiated_profile'', J_String (profile_token (mps_negotiated_profile m))),
           (''color_primaries'', J_String (mps_color_primaries m)),
           (''transfer_function'', J_String (mps_transfer_function m)), (''codec'', J_String (mps_codec m))]
      | PF_RecordingNotice r at_ms \<Rightarrow> J_Object
          [(''kind'', J_String ''recordingNotice''), (''state'', J_String (recording_token r)),
           (''issued_at_ms'', json_int at_ms)]
      | PF_E2eeKeyEpoch m \<Rightarrow> J_Object
          [(''kind'', J_String ''e2eeKeyEpoch''), (''epoch'', json_int (km_epoch m)),
           (''issued_by'', J_String (km_issued_by m)), (''signature'', json_opt (km_signature m)),
           (''sent_at_ms'', json_int (km_sent_at_ms m))]
      | PF_KeyRotationAck m \<Rightarrow> J_Object
          [(''kind'', J_String ''keyRotationAck''), (''ack_epoch'', json_int (kk_ack_epoch m)),
           (''participant_id'', J_String (kk_participant_id m)), (''sent_at_ms'', json_int (kk_sent_at_ms m))]
      | PF_PaymentPolicy required destination \<Rightarrow> J_Object
          [(''kind'', J_String ''paymentPolicy''), (''required'', J_Bool required),
           (''destination_account'', json_opt destination)]
      | PF_PaymentSettlement st \<Rightarrow> J_Object
          [(''kind'', J_String ''paymentSettlement''), (''status'', J_String (settlement_token st))]
      | PF_Error m \<Rightarrow> J_Object
          [(''kind'', J_String ''error''), (''category'', J_String (category_token (em_category m))),
           (''code'', J_String (em_code m)), (''message'', J_String (em_message m))]
      | PF_Ping at_ms \<Rightarrow> J_Object [(''kind'', J_String ''ping''), (''sent_at_ms'', json_int at_ms)]
      | PF_Pong at_ms \<Rightarrow> J_Object [(''kind'', J_String ''pong''), (''sent_at_ms'', json_int at_ms)])"

definition encode_frame :: "json_ext \<Rightarrow> protocol_frame \<Rightarrow> codec_error + string" where
  "encode_frame J frame =
     (case json_print J (frame_value frame) of Inl err \<Rightarrow> Inl (Invalid_Json err) | Inr s \<Rightarrow> Inr s)"

section \<open>Round trip\<close>

named_theorems json_simps \<open>what the readers find in an encoded field\<close>

lemma i64_of_sint: "LENGTH('a::len) \<le> 64 \<Longrightarrow> i64_of (sint (x :: 'a word)) = Some (word_of_int (sint x))"
proof -
  assume a: "LENGTH('a) \<le> 64"
  have "(2 :: int) ^ (LENGTH('a) - 1) \<le> 2 ^ 63"
    using a by (intro power_increasing) auto
  then show ?thesis
    using sint_ge [of x] sint_lt [of x] by (simp add: i64_of_def)
qed

lemma as_i64_json_int [json_simps]: "as_i64 (json_int x) = Some (x :: i64)"
  using i64_of_sint [of x] by (simp add: as_i64_def json_int_def)

lemma as_i64_json_i32 [json_simps]: "as_i64 (json_int (x :: i32)) = Some (word_of_int (sint x))"
  using i64_of_sint [of x] by (simp add: as_i64_def json_int_def)

lemma sint_of_i32: "sint (scast (x :: i32) :: i64) = sint x"
proof -
  have "sint (word_of_int (sint x) :: i64) = sint x"
    using sint_ge [of x] sint_lt [of x] by (simp only: sint_sbintrunc') (simp add: signed_take_bit_int_eq_self)
  then show ?thesis by simp
qed

lemma json_readers [json_simps]:
  "value_as_str (J_String t) = Some t" "value_as_str (json_int x) = None" "value_as_str (J_Bool b) = None"
  "value_as_str (json_opt o') = o'" "as_bool (J_Bool b) = Some b" "as_bool (json_int x) = None"
  "as_array (J_Array vs) = Some vs" "as_array (json_strings ts) = Some (map J_String ts)"
  "as_object (J_Object obj) = Some obj"
  "as_object (J_String t) = None" "as_object (json_opt o') = None" "as_object (J_Bool b) = None"
  "as_object (json_int x) = None"
  "or_else (Some y) z = Some y" "or_else None z = z" "unwrap_or (Some y) d = y" "unwrap_or None d = d"
  by (simp_all add: value_as_str_def as_bool_def as_array_def as_object_def json_int_def json_opt_def
      json_strings_def or_else_def unwrap_or_def split: option.split)

lemma get_i32_json [json_simps]:
  assumes "get_value obj keys = Some (json_int (x :: i32))"
  shows "get_i32 obj keys = Some x"
proof -
  have "get_i64 obj keys = Some (word_of_int (sint x))"
    by (simp only: get_i64_def assms bind.bind_lunit as_i64_json_i32 or_else_def option.case)
  moreover have "- (2 ^ 31) \<le> sint x \<and> sint x < 2 ^ 31"
    using sint_ge [of x] sint_lt [of x] by simp
  ultimately show ?thesis
    using sint_of_i32 [of x] by (simp add: get_i32_def)
qed

lemma token_readers [json_simps]:
  "parse_participant_role (Some (role_token r)) = r"
  "parse_moderation_action (Some (moderation_token a)) = a"
  "parse_media_profile (Some (profile_token m)) = m"
  "parse_recording_state (Some (recording_token rs)) = rs"
  "parse_guest_policy (Some (guest_token g)) = g"
  "parse_payment_settlement_status (Some (settlement_token st)) = st"
  "parse_session_error_category (Some (category_token c)) = c"
  by (simp_all add: parse_participant_role_def role_token_def parse_moderation_action_def moderation_token_def
      parse_media_profile_def profile_token_def parse_recording_state_def recording_token_def parse_guest_policy_def
      guest_token_def parse_payment_settlement_status_def settlement_token_def parse_session_error_category_def
      category_token_def unwrap_or_def Let_def
      split: participant_role.split client_moderation_action.split media_profile.split client_recording_state.split
        guest_policy.split settlement_status.split session_error_category.split)

lemma map_of_sort_object [json_simps]:
  "distinct (map fst kvs) \<Longrightarrow> map_of (sort_object kvs) k = map_of kvs k"
proof -
  assume d: "distinct (map fst kvs)"
  then have "distinct (map fst (sort_object kvs))"
    by (simp add: sort_object_def distinct_map inj_on_def)
  moreover have "set (sort_object kvs) = set kvs"
    by (simp add: sort_object_def)
  ultimately show ?thesis
    using d map_of_inject_set by metis
qed

lemma canon_simps [json_simps]:
  "canon (json_int x) = json_int x" "canon (json_opt o') = json_opt o'" "canon (json_strings ts) = json_strings ts"
  by (simp_all add: json_int_def json_opt_def json_strings_def split: option.split)

lemma map_filter_map: "(\<And>x. f (g x) = Some x) \<Longrightarrow> List.map_filter f (map g xs) = xs"
  by (induction xs) (simp_all add: List.map_filter_def)

lemma parse_participant_json: "parse_participant (canon (json_participant p)) = Some p"
  by (simp add: parse_participant_def json_participant_def json_simps get_string_def get_bool_def)

lemma parse_role_change_json: "parse_role_change (canon (json_role_change c)) = Some c"
  by (simp add: parse_role_change_def json_role_change_def json_simps get_string_def)

lemma list_readers [json_simps]:
  "List.map_filter parse_participant (map (canon \<circ> json_participant) ps) = ps"
  "List.map_filter parse_role_change (map (canon \<circ> json_role_change) cs) = cs"
  "strings_of (map J_String ts) = ts"
  by (simp_all add: map_filter_map parse_participant_json parse_role_change_json strings_of_def json_simps)

lemmas decode_defs = decode_value_def frame_value_def try_bind_def require_string_def get_string_def get_bool_def
  get_i64_def get_array_def canonical_kind_def Let_def

lemma decode_frame_value: "decode_value (canon (frame_value f)) = Inr f"
proof (cases f)
  case (PF_Handshake m)
  then show ?thesis by (simp add: decode_defs decode_handshake_def json_simps)
next
  case (PF_HandshakeAck m)
  then show ?thesis by (simp add: decode_defs decode_handshake_ack_def json_simps)
next
  case (PF_ParticipantPresenceDelta m)
  then show ?thesis by (simp add: decode_defs decode_presence_def json_simps)
next
  case (PF_RoleGrant m)
  then show ?thesis by (simp add: decode_defs decode_role_def json_role_def json_simps)
next
  case (PF_RoleRevoke m)
  then show ?thesis by (simp add: decode_defs decode_role_def json_role_def json_simps)
next
  case (PF_PermissionsSnapshot m)
  then show ?thesis by (simp add: decode_defs decode_permissions_def json_simps)
next
  case (PF_ModerationSigned m)
  then show ?thesis by (simp add: decode_defs decode_moderation_def json_simps)
next
  case (PF_SessionPolicy m)
  then show ?thesis by (simp add: decode_defs decode_policy_def json_simps)
next
  case (PF_DeviceCapability m)
  then show ?thesis by (simp add: decode_defs decode_device_def json_simps)
next
  case (PF_MediaProfileNegotiation m)
  then show ?thesis by (simp add: decode_defs decode_media_profile_def json_simps)
next
  case (PF_RecordingNotice r at_ms)
  then show ?thesis by (simp add: decode_defs decode_recording_def json_simps)
next
  case (PF_E2eeKeyEpoch m)
  then show ?thesis by (simp add: decode_defs decode_key_epoch_def json_simps)
next
  case (PF_KeyRotationAck m)
  then show ?thesis by (simp add: decode_defs decode_key_ack_def json_simps)
next
  case (PF_Error m)
  then show ?thesis by (simp add: decode_defs decode_error_def json_simps)
qed (simp_all add: decode_defs json_simps)

text \<open>A JSON library that knows the text of two values.\<close>

definition demo_grant_frame :: protocol_frame where
  "demo_grant_frame = PF_RoleGrant \<lparr>rm_target_participant_id = ''bob'', rm_role = Client_CoHost, rm_issuer = ''alice'',
     rm_signature = Some ''sig'', rm_issued_at_ms = - 5\<rparr>"

definition demo_json :: json_ext where
  "demo_json = \<lparr>
     json_print = (\<lambda>v. if v = frame_value demo_grant_frame then Inr ''grant''
       else if v = J_Null then Inr ''null'' else Inl ''unsupported''),
     json_parse = (\<lambda>s. if s = ''grant'' then Inr (canon (frame_value demo_grant_frame))
       else if s = ''null'' then Inr J_Null else Inl ''expected value'')\<rparr>"

lemma demo_json_roundtrip: "json_roundtrip demo_json"
  unfolding json_roundtrip_def
proof
  fix v
  consider "v = frame_value demo_grant_frame" | "v \<noteq> frame_value demo_grant_frame" "v = J_Null"
    | "v \<noteq> frame_value demo_grant_frame" "v \<noteq> J_Null" by blast
  then show "case json_print demo_json v of Inl _ \<Rightarrow> True | Inr s \<Rightarrow> json_parse demo_json s = Inr (canon v)"
    by cases (simp_all add: demo_json_def)
qed

text \<open>C31. Decoding inverts encoding: every frame that is encoded to some text is read back from that
  text, with every field as it was, negative timestamps and absent options included. (The JSON library
  parses what it prints.)\<close>

theorem client_codec_roundtrip:
  assumes "json_roundtrip J" and "encode_frame J f = Inr text"
  shows "decode_frame J text = Inr f"
proof -
  have "json_print J (frame_value f) = Inr text"
    using assms(2) by (simp add: encode_frame_def split: sum.splits)
  then have "json_parse J text = Inr (canon (frame_value f))"
    using spec [OF assms(1) [unfolded json_roundtrip_def], of "frame_value f"] by simp
  then show ?thesis
    by (simp add: decode_frame_def decode_frame_value)
qed

lemma client_codec_roundtrip_witness: "decode_frame demo_json ''grant'' = Inr demo_grant_frame"
  by (rule client_codec_roundtrip [OF demo_json_roundtrip]) (simp add: encode_frame_def demo_json_def)

end
