(* ===== verification/Client_Session.thy ===== *)
theory Client_Session
  imports Client_Types
begin

text \<open>
  The reducer of \<^verbatim>\<open>crates/kaigi-linux-client/src/lib.rs\<close>: \<open>reduce_frame\<close>, one definition per frame that
  changes the session, the two policies it enforces (payment settlement, key epochs), and \<open>reduce\<close>.
  \<open>i64\<close> and \<open>i32\<close> are compared by their signed values.
\<close>

definition i_le :: "'a::len word \<Rightarrow> 'a word \<Rightarrow> bool" where
  "i_le a b \<longleftrightarrow> sint a \<le> sint b"

definition i_max :: "'a::len word \<Rightarrow> 'a word \<Rightarrow> 'a word" where
  "i_max a b = (if i_le a b then b else a)"

definition update_participant ::
    "session_state \<Rightarrow> string \<Rightarrow> (client_participant \<Rightarrow> client_participant) \<Rightarrow> session_state" where
  \<comment> \<open>\<open>if let Some(participant) = state.participants.get_mut(&id) { \<dots> }\<close>\<close>
  "update_participant st pid f = (case hm_get (ss_participants st) pid of
     None \<Rightarrow> st
   | Some p \<Rightarrow> st\<lparr>ss_participants := hm_insert (ss_participants st) pid (f p)\<rparr>)"

section \<open>Guards\<close>

definition has_required_signature :: "string option \<Rightarrow> session_state \<Rightarrow> bool" where
  "has_required_signature signature st =
     (if \<not> cfg_require_signed_moderation (ss_config st) then True
      else case signature of None \<Rightarrow> False | Some v \<Rightarrow> \<not> trim_is_empty v)"

definition actor_is_authorized :: "string \<Rightarrow> session_state \<Rightarrow> bool" where
  "actor_is_authorized issuer st =
     (if issuer = ''system'' then True
      else case hm_get (ss_participants st) issuer of
        None \<Rightarrow> False
      | Some p \<Rightarrow> cp_role p = Client_Host \<or> cp_role p = Client_CoHost)"

definition policy_error :: "i64 \<Rightarrow> string \<Rightarrow> string \<Rightarrow> session_error" where
  "policy_error now code message =
     \<lparr>se_category = Policy_Failure, se_code = code, se_message = message, se_at_ms = now\<rparr>"

definition engage_fallback :: "fallback_state \<Rightarrow> i64 \<Rightarrow> string \<Rightarrow> fallback_state" where
  \<comment> \<open>the block \<open>if fallback_active\<close> of \<open>policy_reject\<close>\<close>
  "engage_fallback fb now code = fb\<lparr>
     fb_active := True,
     fb_reason := (case fb_reason fb of None \<Rightarrow> Some (''policy:'' @ code) | Some r \<Rightarrow> Some r),
     fb_activated_at_ms := (case fb_activated_at_ms fb of None \<Rightarrow> Some now | Some at \<Rightarrow> Some at)\<rparr>"

definition policy_reject :: "session_state \<Rightarrow> i64 \<Rightarrow> string \<Rightarrow> string \<Rightarrow> session_state" where
  "policy_reject st now code message =
     (let fallback_requested = cfg_prefer_web_fallback (ss_config st);
          fallback_active = (fallback_requested \<or> fb_active (ss_fallback st)) in
      st\<lparr>ss_connection_phase := (if fallback_active then Phase_FallbackActive else Phase_Error),
         ss_fallback := (if fallback_active then engage_fallback (ss_fallback st) now code else ss_fallback st),
         ss_last_error := Some (policy_error now code message)\<rparr>)"

definition clear_error_if_matching ::
    "session_state \<Rightarrow> (session_error option \<Rightarrow> bool) \<Rightarrow> session_state" where
  "clear_error_if_matching st matches =
     (if \<not> matches (ss_last_error st) then st
      else st\<lparr>ss_connection_phase :=
             (if fb_active (ss_fallback st) then Phase_FallbackActive
              else if ss_handshake_complete st then Phase_Connected
              else Phase_Connecting),
           ss_last_error := None\<rparr>)"

definition is_payment_policy_error :: "session_error option \<Rightarrow> bool" where
  "is_payment_policy_error error = (case error of None \<Rightarrow> False | Some e \<Rightarrow>
     se_category e = Policy_Failure
     \<and> (starts_with (se_code e) ''payment_settlement_'' \<or> se_code e = ''payment_unsettled''))"

definition is_e2ee_policy_error :: "session_error option \<Rightarrow> bool" where
  "is_e2ee_policy_error error = (case error of None \<Rightarrow> False | Some e \<Rightarrow>
     se_category e = Policy_Failure \<and> starts_with (se_code e) ''e2ee_'')"

definition enforce_payment_settlement_policy :: "session_state \<Rightarrow> i64 \<Rightarrow> session_state" where
  "enforce_payment_settlement_policy st now =
     (let settlement = pst_settlement_status (ss_payment_state st) in
      if \<not> cfg_require_payment_settlement (ss_config st) \<or> \<not> pst_required (ss_payment_state st)
      then clear_error_if_matching st is_payment_policy_error
      else if settlement = Settled \<or> settlement = Not_Required
      then clear_error_if_matching st is_payment_policy_error
      else if settlement = Settlement_Blocked
      then policy_reject st now ''payment_settlement_blocked'' ''Payment settlement blocked by policy''
      else policy_reject st now ''payment_settlement_required''
        ''Payment settlement required before media/session actions can continue'')"

definition enforce_e2ee_epoch_policy :: "session_state \<Rightarrow> i64 \<Rightarrow> session_state" where
  "enforce_e2ee_epoch_policy st now =
     (if \<not> ss_e2ee_required st then clear_error_if_matching st is_e2ee_policy_error
      else if 0 < sint (es_current_epoch (ss_e2ee_state st))
      then clear_error_if_matching st is_e2ee_policy_error
      else policy_reject st now ''e2ee_epoch_required'' ''E2EE key epoch is required by session policy'')"

section \<open>Frames\<close>

definition guarded ::
    "session_state \<Rightarrow> i64 \<Rightarrow> string option \<Rightarrow> string \<Rightarrow> string \<times> string \<Rightarrow> string \<times> string \<Rightarrow> session_state \<Rightarrow> session_state" where
  \<comment> \<open>the two guards of a privileged frame, each with its code and message, and then what the frame does\<close>
  "guarded st now signature issuer unsigned_error unauthorized_error st' =
     (if \<not> has_required_signature signature st
      then policy_reject st now (fst unsigned_error) (snd unsigned_error)
      else if \<not> actor_is_authorized issuer st
      then policy_reject st now (fst unauthorized_error) (snd unauthorized_error)
      else st')"

definition reduce_handshake_ack :: "session_state \<Rightarrow> handshake_ack_msg \<Rightarrow> session_state" where
  "reduce_handshake_ack st m = st\<lparr>
     ss_handshake_complete := True,
     ss_resume_token := Some (ha_resume_token m),
     ss_connection_phase := (if fb_active (ss_fallback st) then Phase_FallbackActive else Phase_Connected),
     ss_last_error := None\<rparr>"

definition change_role :: "(string, client_participant) hmap \<Rightarrow> role_change \<Rightarrow> (string, client_participant) hmap" where
  "change_role ps ch = (case hm_get ps (ch_participant_id ch) of
     None \<Rightarrow> ps | Some p \<Rightarrow> hm_insert ps (ch_participant_id ch) (p\<lparr>cp_role := ch_role ch\<rparr>))"

definition reduce_presence :: "session_state \<Rightarrow> presence_msg \<Rightarrow> session_state" where
  "reduce_presence st m =
     (if i_le (pm_sequence m) (ss_presence_sequence st) then st
      else
        let ps = foldl (\<lambda>ps p. hm_insert ps (cp_id p) p) (ss_participants st) (pm_joined m);
            ps = foldl (\<lambda>ps pid. hm_remove ps pid) ps (pm_left m);
            ps = foldl change_role ps (pm_role_changes m) in
        st\<lparr>ss_participants := ps, ss_presence_sequence := pm_sequence m\<rparr>)"

definition reduce_role_grant :: "session_state \<Rightarrow> role_msg \<Rightarrow> i64 \<Rightarrow> session_state" where
  "reduce_role_grant st m now = guarded st now (rm_signature m) (rm_issuer m)
     (''role_grant_signature_missing'', ''RoleGrant signature is required'')
     (''role_grant_not_authorized'', ''RoleGrant issuer is not host/co-host'')
     (update_participant st (rm_target_participant_id m) (\<lambda>p. p\<lparr>cp_role := rm_role m\<rparr>))"

definition reduce_role_revoke :: "session_state \<Rightarrow> role_msg \<Rightarrow> i64 \<Rightarrow> session_state" where
  "reduce_role_revoke st m now = guarded st now (rm_signature m) (rm_issuer m)
     (''role_revoke_signature_missing'', ''RoleRevoke signature is required'')
     (''role_revoke_not_authorized'', ''RoleRevoke issuer is not host/co-host'')
     (update_participant st (rm_target_participant_id m)
       (\<lambda>p. if cp_role p = rm_role m then p\<lparr>cp_role := Client_Participant\<rparr> else p))"

definition reduce_permissions :: "session_state \<Rightarrow> permissions_msg \<Rightarrow> session_state" where
  "reduce_permissions st m =
     (let should_apply = (case hm_get (ss_permission_snapshots st) (pe_participant_id m) of
            None \<Rightarrow> True | Some snapshot \<Rightarrow> \<not> i_le (pe_epoch m) (ps_epoch snapshot)) in
      if should_apply
      then st\<lparr>ss_permission_snapshots := hm_insert (ss_permission_snapshots st) (pe_participant_id m)
        \<lparr>ps_effective_permissions = pe_effective_permissions m, ps_epoch = pe_epoch m\<rparr>\<rparr>
      else st)"

definition moderate_participant :: "session_state \<Rightarrow> string \<Rightarrow> client_moderation_action \<Rightarrow> session_state" where
  "moderate_participant st target action =
     (case action of
        Mod_Mute \<Rightarrow> update_participant st target (\<lambda>p. p\<lparr>cp_muted := True\<rparr>)
      | Mod_VideoOff \<Rightarrow> update_participant st target (\<lambda>p. p\<lparr>cp_video_enabled := False\<rparr>)
      | Mod_StopShare \<Rightarrow> update_participant st target (\<lambda>p. p\<lparr>cp_share_enabled := False\<rparr>)
      | Mod_Kick \<Rightarrow> st\<lparr>ss_participants := hm_remove (ss_participants st) target\<rparr>
      | Mod_DenyFromWaiting \<Rightarrow> st\<lparr>ss_participants := hm_remove (ss_participants st) target\<rparr>
      | Mod_AdmitFromWaiting \<Rightarrow> update_participant st target (\<lambda>p. p\<lparr>cp_waiting_room := False\<rparr>))"

definition reduce_moderation :: "session_state \<Rightarrow> moderation_msg \<Rightarrow> i64 \<Rightarrow> session_state" where
  "reduce_moderation st m now = guarded st now (mm_signature m) (mm_issued_by m)
     (''moderation_signature_missing'', ''Moderation signature is required'')
     (''moderation_not_authorized'', ''Moderation issuer is not host/co-host'')
     (moderate_participant st (mm_target_participant_id m) (mm_action m))"

definition reduce_session_policy :: "session_state \<Rightarrow> policy_msg \<Rightarrow> i64 \<Rightarrow> session_state" where
  "reduce_session_policy st m now = guarded st now (pl_signature m) (pl_updated_by m)
     (''session_policy_signature_missing'', ''SessionPolicy signature is required'')
     (''session_policy_not_authorized'', ''SessionPolicy issuer is not host/co-host'')
     (if \<not> i_le (ss_policy_epoch st) (pl_policy_epoch m) then st
      else enforce_e2ee_epoch_policy (st\<lparr>
        ss_room_locked := pl_room_lock m,
        ss_waiting_room_enabled := pl_waiting_room_enabled m,
        ss_recording_notice := pl_recording_policy m,
        ss_guest_policy := pl_guest_policy m,
        ss_e2ee_required := pl_e2ee_required m,
        ss_max_participants := pl_max_participants m,
        ss_policy_epoch := pl_policy_epoch m\<rparr>) now)"

definition reduce_media_profile :: "session_state \<Rightarrow> media_profile_state \<Rightarrow> session_state" where
  "reduce_media_profile st m =
     (let st = st\<lparr>ss_media_profile := m\<rparr> in
      if mps_preferred_profile m = Hdr \<and> mps_negotiated_profile m = Sdr
      then st\<lparr>ss_connection_phase := Phase_Degraded\<rparr>
      else if ss_handshake_complete st \<and> \<not> fb_active (ss_fallback st)
      then st\<lparr>ss_connection_phase := Phase_Connected\<rparr>
      else st)"

definition reduce_key_epoch :: "session_state \<Rightarrow> key_epoch_msg \<Rightarrow> i64 \<Rightarrow> session_state" where
  "reduce_key_epoch st m now =
     (if \<not> has_required_signature (km_signature m) st
      then policy_reject st now ''e2ee_signature_missing'' ''E2EE key epoch signature is required''
      else enforce_e2ee_epoch_policy (st\<lparr>ss_e2ee_state := (ss_e2ee_state st)
        \<lparr>es_current_epoch := i_max (es_current_epoch (ss_e2ee_state st)) (km_epoch m)\<rparr>\<rparr>) now)"

definition reduce_key_ack :: "session_state \<Rightarrow> key_ack_msg \<Rightarrow> session_state" where
  "reduce_key_ack st m = st\<lparr>ss_e2ee_state := (ss_e2ee_state st)
     \<lparr>es_last_ack_epoch := i_max (es_last_ack_epoch (ss_e2ee_state st)) (kk_ack_epoch m)\<rparr>\<rparr>"

definition reduce_payment_policy :: "session_state \<Rightarrow> bool \<Rightarrow> string option \<Rightarrow> i64 \<Rightarrow> session_state" where
  "reduce_payment_policy st required destination_account now =
     enforce_payment_settlement_policy (st\<lparr>ss_payment_state :=
       \<lparr>pst_required = required, pst_destination = destination_account,
        pst_settlement_status = (if required then Settlement_Pending else Not_Required)\<rparr>\<rparr>) now"

definition reduce_payment_settlement :: "session_state \<Rightarrow> settlement_status \<Rightarrow> i64 \<Rightarrow> session_state" where
  "reduce_payment_settlement st status now =
     enforce_payment_settlement_policy
       (st\<lparr>ss_payment_state := (ss_payment_state st)\<lparr>pst_settlement_status := status\<rparr>\<rparr>) now"

definition reduce_error :: "session_state \<Rightarrow> error_msg \<Rightarrow> i64 \<Rightarrow> session_state" where
  "reduce_error st m now = st\<lparr>
     ss_connection_phase :=
       (if fb_active (ss_fallback st) then Phase_FallbackActive
        else if em_category m = Policy_Failure then Phase_Error
        else Phase_Degraded),
     ss_last_error := Some \<lparr>se_category = em_category m, se_code = em_code m,
       se_message = em_message m, se_at_ms = now\<rparr>\<rparr>"

definition reduce_frame :: "session_state \<Rightarrow> protocol_frame \<Rightarrow> i64 \<Rightarrow> session_state" where
  "reduce_frame st frame now =
     (case frame of
        PF_HandshakeAck m \<Rightarrow> reduce_handshake_ack st m
      | PF_ParticipantPresenceDelta m \<Rightarrow> reduce_presence st m
      | PF_RoleGrant m \<Rightarrow> reduce_role_grant st m now
      | PF_RoleRevoke m \<Rightarrow> reduce_role_revoke st m now
      | PF_PermissionsSnapshot m \<Rightarrow> reduce_permissions st m
      | PF_ModerationSigned m \<Rightarrow> reduce_moderation st m now
      | PF_SessionPolicy m \<Rightarrow> reduce_session_policy st m now
      | PF_MediaProfileNegotiation m \<Rightarrow> reduce_media_profile st m
      | PF_RecordingNotice r _ \<Rightarrow> st\<lparr>ss_recording_notice := r\<rparr>
      | PF_E2eeKeyEpoch m \<Rightarrow> reduce_key_epoch st m now
      | PF_KeyRotationAck m \<Rightarrow> reduce_key_ack st m
      | PF_PaymentPolicy required destination \<Rightarrow> reduce_payment_policy st required destination now
      | PF_PaymentSettlement status \<Rightarrow> reduce_payment_settlement st status now
      | PF_Error m \<Rightarrow> reduce_error st m now
      | PF_Handshake _ \<Rightarrow> st
      | PF_DeviceCapability _ \<Rightarrow> st
      | PF_Ping _ \<Rightarrow> st
      | PF_Pong _ \<Rightarrow> st)"

section \<open>Events\<close>

definition transport_error :: "i64 \<Rightarrow> string \<Rightarrow> string \<Rightarrow> session_error" where
  "transport_error now code message =
     \<lparr>se_category = Transport_Failure, se_code = code, se_message = message, se_at_ms = now\<rparr>"

definition reduce_transport_loss :: "session_state \<Rightarrow> string \<Rightarrow> string \<Rightarrow> i64 \<Rightarrow> session_state" where
  \<comment> \<open>the arms of \<open>TransportDisconnected\<close> and \<open>TransportFailure\<close>, which differ in the code\<close>
  "reduce_transport_loss st code message now =
     (if fb_active (ss_fallback st)
      then st\<lparr>ss_connection_phase := Phase_FallbackActive, ss_handshake_complete := False\<rparr>
      else st\<lparr>ss_connection_phase := Phase_Degraded, ss_handshake_complete := False,
           ss_last_error := Some (transport_error now code message)\<rparr>)"

definition reduce_send_failed :: "session_state \<Rightarrow> string \<Rightarrow> i64 \<Rightarrow> session_state" where
  "reduce_send_failed st message now =
     (if fb_active (ss_fallback st) then st\<lparr>ss_connection_phase := Phase_FallbackActive\<rparr>
      else st\<lparr>ss_connection_phase := Phase_Degraded,
           ss_last_error := Some (transport_error now ''send_failed'' message)\<rparr>)"

definition reduce_fallback_activated :: "session_state \<Rightarrow> string \<Rightarrow> i64 \<Rightarrow> session_state" where
  "reduce_fallback_activated st reason now = st\<lparr>
     ss_connection_phase := Phase_FallbackActive,
     ss_fallback := (ss_fallback st)\<lparr>fb_active := True, fb_reason := Some reason,
       fb_activated_at_ms := Some now\<rparr>,
     ss_last_error := Some (transport_error now ''fallback_activated'' reason)\<rparr>"

definition reduce_fallback_recovered :: "session_state \<Rightarrow> i64 \<Rightarrow> session_state" where
  \<comment> \<open>the subtraction wraps as it does in a release build\<close>
  "reduce_fallback_recovered st now =
     (let rto = map_option (\<lambda>at. i_max (now - at) 0) (fb_activated_at_ms (ss_fallback st)) in
      st\<lparr>ss_connection_phase := Phase_Disconnected,
         ss_fallback := (ss_fallback st)\<lparr>fb_active := False, fb_reason := None,
           fb_recovered_at_ms := Some now, fb_last_rto_ms := rto\<rparr>\<rparr>)"

definition reduce :: "session_state \<Rightarrow> protocol_event \<Rightarrow> i64 \<Rightarrow> session_state" where
  "reduce st event now =
     (case event of
        Ev_ConnectRequested \<Rightarrow>
          st\<lparr>ss_connection_phase := Phase_Connecting, ss_handshake_complete := False, ss_last_error := None\<rparr>
      | Ev_TransportConnected \<Rightarrow> st\<lparr>ss_connection_phase := Phase_Connecting, ss_last_error := None\<rparr>
      | Ev_TransportDisconnected reason \<Rightarrow> reduce_transport_loss st ''transport_disconnected'' reason now
      | Ev_TransportFailure message \<Rightarrow> reduce_transport_loss st ''transport_failure'' message now
      | Ev_FrameSendFailed message \<Rightarrow> reduce_send_failed st message now
      | Ev_ManualDisconnected \<Rightarrow>
          st\<lparr>ss_connection_phase := Phase_Disconnected, ss_handshake_complete := False, ss_last_error := None\<rparr>
      | Ev_FallbackActivated reason \<Rightarrow> reduce_fallback_activated st reason now
      | Ev_FallbackRecovered \<Rightarrow> reduce_fallback_recovered st now
      | Ev_ConfigUpdated config \<Rightarrow> enforce_payment_settlement_policy (st\<lparr>ss_config := config\<rparr>) now
      | Ev_FrameReceived frame \<Rightarrow> reduce_frame st frame now)"

end
