(* ===== verification/Client_Runtime.thy ===== *)
theory Client_Runtime
  imports Client_Session
begin

text \<open>
  The runtime of \<^verbatim>\<open>crates/kaigi-linux-client/src/lib.rs\<close>: \<open>SessionRuntime\<close>, its reactions to the
  application, the network and the transport, its reconnect schedule and the telemetry it records.
  The telemetry sink is the list of the events it has received.
\<close>

section \<open>State\<close>

datatype runtime_directive =
    Dir_None
  | Dir_ReconnectScheduled nat i64
  | Dir_FallbackActivated string

datatype telemetry_category = Connection_Lifecycle | Fallback_Lifecycle | Policy_Failure_Event

record telemetry_event =
  te_category :: telemetry_category
  te_name :: string
  te_attributes :: "(string, string) hmap"
  te_at_ms :: i64

record session_runtime =
  sr_state :: session_state
  sr_reconnect_backoff_ms :: "i64 list"
  sr_reconnect_attempt :: nat
  sr_reconnect_due_at_ms :: "i64 option"
  sr_user_initiated_disconnect :: bool
  sr_app_in_background :: bool
  sr_telemetry :: "telemetry_event list"

definition with_backoff :: "meeting_config \<Rightarrow> i64 list \<Rightarrow> session_runtime" where
  "with_backoff config reconnect_backoff_ms = \<lparr>
     sr_state = initial_state config,
     sr_reconnect_backoff_ms = reconnect_backoff_ms,
     sr_reconnect_attempt = 0,
     sr_reconnect_due_at_ms = None,
     sr_user_initiated_disconnect = False,
     sr_app_in_background = False,
     sr_telemetry = []\<rparr>"

definition new_runtime :: "meeting_config \<Rightarrow> session_runtime" where
  "new_runtime config = with_backoff config [1000, 2000, 4000, 8000]"

section \<open>Telemetry\<close>

definition dec_int :: "'a::len word \<Rightarrow> string" where
  \<comment> \<open>decimal formatting of a signed integer\<close>
  "dec_int x = (if sint x < 0 then CHR ''-'' # dec (nat (- sint x)) else dec (nat (sint x)))"

definition map_attributes :: "(string \<times> string) list \<Rightarrow> (string, string) hmap" where
  "map_attributes attributes = foldl (\<lambda>m (k, v). hm_insert m k v) [] attributes"

definition record_event ::
    "telemetry_category \<Rightarrow> string \<Rightarrow> (string \<times> string) list \<Rightarrow> i64 \<Rightarrow> session_runtime \<Rightarrow> session_runtime" where
  \<comment> \<open>\<open>record_typed_event\<close>, with \<open>record_telemetry\<close>\<close>
  "record_event category name attributes now rt = rt\<lparr>sr_telemetry := sr_telemetry rt @
     [\<lparr>te_category = category, te_name = name, te_attributes = map_attributes attributes, te_at_ms = now\<rparr>]\<rparr>"

definition record_connection_event ::
    "string \<Rightarrow> (string \<times> string) list \<Rightarrow> i64 \<Rightarrow> session_runtime \<Rightarrow> session_runtime" where
  "record_connection_event name attributes now rt = record_event Connection_Lifecycle name attributes now rt"

definition phase_name :: "connection_phase \<Rightarrow> string" where
  \<comment> \<open>the derived \<open>Debug\<close>\<close>
  "phase_name p = (case p of Phase_Disconnected \<Rightarrow> ''Disconnected'' | Phase_Connecting \<Rightarrow> ''Connecting''
     | Phase_Connected \<Rightarrow> ''Connected'' | Phase_Degraded \<Rightarrow> ''Degraded''
     | Phase_FallbackActive \<Rightarrow> ''FallbackActive'' | Phase_Error \<Rightarrow> ''Error'')"

definition emit_state_transition_telemetry ::
    "session_state \<Rightarrow> session_state \<Rightarrow> i64 \<Rightarrow> session_runtime \<Rightarrow> session_runtime" where
  "emit_state_transition_telemetry previous next_state now rt =
     (let rt = (if ss_connection_phase previous \<noteq> ss_connection_phase next_state
          then record_connection_event ''phase_changed''
            [(''from'', phase_name (ss_connection_phase previous)),
             (''to'', phase_name (ss_connection_phase next_state))] now rt
          else rt);
          rt = (if \<not> fb_active (ss_fallback previous) \<and> fb_active (ss_fallback next_state)
          then record_event Fallback_Lifecycle ''fallback_activated''
            [(''reason'', case fb_reason (ss_fallback next_state) of Some r \<Rightarrow> r | None \<Rightarrow> ''unknown'')] now rt
          else rt);
          rt = (if fb_active (ss_fallback previous) \<and> \<not> fb_active (ss_fallback next_state)
          then record_event Fallback_Lifecycle ''fallback_recovered''
            (case fb_last_rto_ms (ss_fallback next_state) of
               Some rto_ms \<Rightarrow> [(''rto_ms'', dec_int rto_ms)] | None \<Rightarrow> []) now rt
          else rt) in
      (case ss_last_error next_state of
         None \<Rightarrow> rt
       | Some error \<Rightarrow>
           if ss_last_error previous \<noteq> ss_last_error next_state \<and> se_category error = Policy_Failure
           then record_event Policy_Failure_Event (se_code error)
             [(''code'', se_code error), (''message'', se_message error)] now rt
           else rt))"

definition apply_event :: "protocol_event \<Rightarrow> i64 \<Rightarrow> session_runtime \<Rightarrow> session_runtime" where
  "apply_event event now rt =
     (let previous = sr_state rt;
          rt = rt\<lparr>sr_state := reduce (sr_state rt) event now\<rparr> in
      emit_state_transition_telemetry previous (sr_state rt) now rt)"

section \<open>Connecting\<close>

definition request_connect :: "bool \<Rightarrow> string \<Rightarrow> i64 \<Rightarrow> session_runtime \<Rightarrow> session_runtime" where
  "request_connect reset_backoff source now rt =
     (if sr_app_in_background rt
      then record_connection_event ''connect_deferred_backgrounded'' [(''source'', source)] now rt
      else
        let rt = rt\<lparr>sr_user_initiated_disconnect := False, sr_reconnect_due_at_ms := None,
              sr_reconnect_attempt := (if reset_backoff then 0 else sr_reconnect_attempt rt)\<rparr> in
        apply_event Ev_ConnectRequested now
          (record_connection_event ''connect_requested'' [(''source'', source)] now rt))"

definition i64_saturating_add :: "i64 \<Rightarrow> i64 \<Rightarrow> i64" where
  "i64_saturating_add a b =
     (if sint a + sint b < - (2 ^ 63) then word_of_int (- (2 ^ 63))
      else if 2 ^ 63 \<le> sint a + sint b then word_of_int (2 ^ 63 - 1)
      else a + b)"

definition schedule_reconnect_or_fallback ::
    "string \<Rightarrow> i64 \<Rightarrow> session_runtime \<Rightarrow> runtime_directive \<times> session_runtime" where
  "schedule_reconnect_or_fallback trigger now rt =
     (if sr_user_initiated_disconnect rt \<or> fb_active (ss_fallback (sr_state rt)) \<or> sr_app_in_background rt
      then (Dir_None, rt)
      else if sr_reconnect_due_at_ms rt \<noteq> None then (Dir_None, rt)
      else if sr_reconnect_attempt rt \<ge> length (sr_reconnect_backoff_ms rt)
      then
        let reason = ''Reconnect exhausted after '' @ dec (sr_reconnect_attempt rt) @ '' attempts: '' @ trigger in
        (Dir_FallbackActivated reason,
         rt\<lparr>sr_state := reduce (sr_state rt) (Ev_FallbackActivated reason) now\<rparr>)
      else
        let delay_ms = i_max (sr_reconnect_backoff_ms rt ! sr_reconnect_attempt rt) 0;
            attempt = sr_reconnect_attempt rt + 1;
            due_at_ms = i64_saturating_add now delay_ms;
            rt = rt\<lparr>sr_reconnect_attempt := attempt, sr_reconnect_due_at_ms := Some due_at_ms\<rparr> in
        (Dir_ReconnectScheduled attempt due_at_ms,
         record_connection_event ''reconnect_scheduled''
           [(''attempt'', dec attempt), (''due_at_ms'', dec_int due_at_ms), (''trigger'', trigger)] now rt))"

definition take_reconnect_if_due :: "i64 \<Rightarrow> session_runtime \<Rightarrow> bool \<times> session_runtime" where
  "take_reconnect_if_due now rt =
     (case sr_reconnect_due_at_ms rt of
        None \<Rightarrow> (False, rt)
      | Some due_at_ms \<Rightarrow>
          if \<not> i_le due_at_ms now \<or> sr_user_initiated_disconnect rt
             \<or> fb_active (ss_fallback (sr_state rt)) \<or> sr_app_in_background rt
          then (False, rt)
          else (True, request_connect False ''reconnect'' now
            (record_connection_event ''reconnect_attempt'' [] now (rt\<lparr>sr_reconnect_due_at_ms := None\<rparr>))))"

section \<open>The participant id\<close>

definition trim_chars :: "nat list \<Rightarrow> nat list" where
  \<comment> \<open>\<open>str::trim\<close>, on code points\<close>
  "trim_chars cs = rev (dropWhile is_whitespace (rev (dropWhile is_whitespace cs)))"

definition char_to_lowercase :: "nat \<Rightarrow> nat list" where
  \<comment> \<open>\<open>char::to_lowercase\<close> as far as ASCII results go: besides the ASCII capitals only U+0130 and U+212A
    have one; every other character keeps its place outside ASCII or is not changed\<close>
  "char_to_lowercase c =
     (if 65 \<le> c \<and> c \<le> 90 then [c + 32]
      else if c = 304 then [105, 775]
      else if c = 8490 then [107]
      else [c])"

definition is_ascii_alphanumeric :: "nat \<Rightarrow> bool" where
  "is_ascii_alphanumeric c \<longleftrightarrow> 48 \<le> c \<and> c \<le> 57 \<or> 65 \<le> c \<and> c \<le> 90 \<or> 97 \<le> c \<and> c \<le> 122"

definition id_char :: "nat \<Rightarrow> nat option" where
  \<comment> \<open>the closure of \<open>filter_map\<close>; 45 is the hyphen, 95 the underscore\<close>
  "id_char ch =
     (if is_ascii_alphanumeric ch \<or> ch = 45 \<or> ch = 95 then Some ch
      else if is_whitespace ch then Some 45
      else None)"

definition normalize_participant_id :: "string \<Rightarrow> string" where
  "normalize_participant_id raw =
     (let source = trim_chars (chars raw);
          base = (if source = [] then chars ''participant'' else source);
          normalized = map char_of (List.map_filter id_char (concat (map char_to_lowercase base))) in
      if normalized = [] then ''participant'' else normalized)"

definition resolved_participant_id :: "session_runtime \<Rightarrow> string" where
  "resolved_participant_id rt =
     (if \<not> trim_is_empty (cfg_participant_id (ss_config (sr_state rt)))
      then normalize_participant_id (cfg_participant_id (ss_config (sr_state rt)))
      else normalize_participant_id (cfg_participant_name (ss_config (sr_state rt))))"

definition handshake_frames :: "i64 \<Rightarrow> session_runtime \<Rightarrow> protocol_frame list" where
  "handshake_frames now rt =
     (let participant_id = resolved_participant_id rt;
          config = ss_config (sr_state rt);
          preferred_profile = (if cfg_supports_hdr_capture config \<and> cfg_supports_hdr_render config then Hdr else Sdr) in
      [PF_Handshake \<lparr>hsk_room_id = cfg_room_id config, hsk_participant_id = participant_id,
         hsk_participant_name = cfg_participant_name config, hsk_wallet_identity = cfg_wallet_identity config,
         hsk_resume_token = ss_resume_token (sr_state rt), hsk_preferred_profile = preferred_profile,
         hsk_hdr_capture = cfg_supports_hdr_capture config, hsk_hdr_render = cfg_supports_hdr_render config,
         hsk_sent_at_ms = now\<rparr>,
       PF_DeviceCapability \<lparr>dm_participant_id = participant_id, dm_codecs = [''h264'', ''vp9''],
         dm_hdr_capture = cfg_supports_hdr_capture config, dm_hdr_render = cfg_supports_hdr_render config,
         dm_max_streams = 4, dm_updated_at_ms = now\<rparr>]
      @ (if cfg_require_payment_settlement config
         then [PF_PaymentPolicy True (Some ''nexus://payment-policy'')] else []))"

section \<open>Reactions\<close>

definition connect_requested :: "i64 \<Rightarrow> session_runtime \<Rightarrow> session_runtime" where
  "connect_requested now rt = request_connect True ''manual'' now rt"

definition on_app_foregrounded :: "i64 \<Rightarrow> session_runtime \<Rightarrow> session_runtime" where
  "on_app_foregrounded now rt =
     (if sr_user_initiated_disconnect rt then rt
      else
        let rt = record_connection_event ''app_foregrounded'' [] now (rt\<lparr>sr_app_in_background := False\<rparr>) in
        if ss_connection_phase (sr_state rt) \<in> {Phase_Disconnected, Phase_Degraded, Phase_Error}
        then request_connect False ''foreground'' now rt else rt)"

definition on_app_backgrounded :: "i64 \<Rightarrow> session_runtime \<Rightarrow> session_runtime" where
  "on_app_backgrounded now rt =
     (let rt = record_connection_event ''app_backgrounded'' [] now
            (rt\<lparr>sr_app_in_background := True, sr_reconnect_due_at_ms := None\<rparr>) in
      if sr_user_initiated_disconnect rt then rt
      else if ss_connection_phase (sr_state rt) \<in> {Phase_Connected, Phase_Connecting, Phase_Degraded}
      then apply_event (Ev_TransportDisconnected ''app_backgrounded'') now rt else rt)"

definition lose_transport :: "string \<Rightarrow> i64 \<Rightarrow> session_runtime \<Rightarrow> runtime_directive \<times> session_runtime" where
  \<comment> \<open>the common end of the reactions to a lost transport, after the event was applied\<close>
  "lose_transport trigger now rt =
     (if sr_app_in_background rt
      then (Dir_None, record_connection_event ''reconnect_deferred_backgrounded'' [(''trigger'', trigger)] now rt)
      else schedule_reconnect_or_fallback trigger now rt)"

definition on_connectivity_changed :: "bool \<Rightarrow> i64 \<Rightarrow> session_runtime \<Rightarrow> session_runtime" where
  "on_connectivity_changed available now rt =
     (if sr_user_initiated_disconnect rt then rt
      else if available
      then
        let rt = record_connection_event ''network_available'' [] now rt in
        if sr_app_in_background rt
        then record_connection_event ''connectivity_restore_deferred_backgrounded'' [] now rt
        else if ss_connection_phase (sr_state rt) \<noteq> Phase_Connected
             \<and> ss_connection_phase (sr_state rt) \<noteq> Phase_Connecting
             \<and> \<not> fb_active (ss_fallback (sr_state rt))
        then request_connect False ''connectivity_restore'' now rt
        else rt
      else snd (lose_transport ''network_unavailable'' now
        (apply_event (Ev_TransportFailure ''network_unavailable'') now
          (record_connection_event ''network_unavailable'' [] now rt))))"

definition on_audio_interruption_began :: "i64 \<Rightarrow> session_runtime \<Rightarrow> session_runtime" where
  "on_audio_interruption_began now rt =
     (if sr_user_initiated_disconnect rt then rt
      else snd (lose_transport ''audio_interruption'' now
        (apply_event (Ev_TransportFailure ''audio_interruption'') now
          (record_connection_event ''audio_interruption_began'' [] now rt))))"

definition on_audio_interruption_ended :: "bool \<Rightarrow> i64 \<Rightarrow> session_runtime \<Rightarrow> session_runtime" where
  "on_audio_interruption_ended should_reconnect now rt =
     (if sr_user_initiated_disconnect rt then rt
      else
        let rt = record_connection_event ''audio_interruption_ended''
              [(''should_reconnect'', dec_bool should_reconnect)] now rt in
        if \<not> should_reconnect \<or> sr_app_in_background rt \<or> fb_active (ss_fallback (sr_state rt)) then rt
        else if ss_connection_phase (sr_state rt) \<noteq> Phase_Connected
             \<and> ss_connection_phase (sr_state rt) \<noteq> Phase_Connecting
        then request_connect False ''audio_interruption_end'' now rt
        else rt)"

definition on_audio_route_changed :: "string \<Rightarrow> i64 \<Rightarrow> session_runtime \<Rightarrow> session_runtime" where
  "on_audio_route_changed reason now rt =
     record_connection_event ''audio_route_changed'' [(''reason'', reason)] now rt"

definition on_transport_connected :: "i64 \<Rightarrow> session_runtime \<Rightarrow> protocol_frame list \<times> session_runtime" where
  "on_transport_connected now rt =
     (if sr_app_in_background rt
      then ([], apply_event (Ev_TransportDisconnected ''backgrounded_before_handshake'') now
        (record_connection_event ''transport_connected_while_backgrounded'' [] now
          (rt\<lparr>sr_reconnect_due_at_ms := None\<rparr>)))
      else
        let rt = apply_event Ev_TransportConnected now (record_connection_event ''transport_connected'' [] now
              (rt\<lparr>sr_user_initiated_disconnect := False, sr_reconnect_attempt := 0,
                 sr_reconnect_due_at_ms := None\<rparr>)) in
        (handshake_frames now rt, rt))"

definition on_transport_disconnected ::
    "string \<Rightarrow> i64 \<Rightarrow> session_runtime \<Rightarrow> runtime_directive \<times> session_runtime" where
  "on_transport_disconnected reason now rt =
     lose_transport reason now (apply_event (Ev_TransportDisconnected reason) now
       (record_connection_event ''transport_disconnected'' [(''reason'', reason)] now rt))"

definition on_transport_failure ::
    "string \<Rightarrow> i64 \<Rightarrow> session_runtime \<Rightarrow> runtime_directive \<times> session_runtime" where
  "on_transport_failure message now rt =
     lose_transport message now (apply_event (Ev_TransportFailure message) now
       (record_connection_event ''transport_failure'' [(''message'', message)] now rt))"

definition on_send_failure :: "string \<Rightarrow> i64 \<Rightarrow> session_runtime \<Rightarrow> session_runtime" where
  "on_send_failure message now rt =
     apply_event (Ev_FrameSendFailed message) now
       (record_connection_event ''send_failure'' [(''message'', message)] now rt)"

definition on_manual_disconnect :: "i64 \<Rightarrow> session_runtime \<Rightarrow> session_runtime" where
  "on_manual_disconnect now rt =
     apply_event Ev_ManualDisconnected now (record_connection_event ''manual_disconnect'' [] now
       (rt\<lparr>sr_user_initiated_disconnect := True, sr_reconnect_due_at_ms := None\<rparr>))"

definition acknowledge_key_epoch ::
    "string \<Rightarrow> key_epoch_msg \<Rightarrow> i64 \<Rightarrow> session_runtime \<Rightarrow> protocol_frame list \<times> session_runtime" where
  \<comment> \<open>the block \<open>if let Some((epoch, signature)) = maybe_e2ee_epoch\<close>\<close>
  "acknowledge_key_epoch participant_id m now rt =
     (let signature_ok = (if cfg_require_signed_moderation (ss_config (sr_state rt))
            then (case km_signature m of None \<Rightarrow> False | Some v \<Rightarrow> \<not> trim_is_empty v) else True) in
      if signature_ok \<and> i_le (km_epoch m) (es_current_epoch (ss_e2ee_state (sr_state rt)))
      then
        let ack = PF_KeyRotationAck
              \<lparr>kk_ack_epoch = km_epoch m, kk_participant_id = participant_id, kk_sent_at_ms = now\<rparr> in
        ([ack], apply_event (Ev_FrameReceived ack) now rt)
      else ([], rt))"

definition on_frame :: "protocol_frame \<Rightarrow> i64 \<Rightarrow> session_runtime \<Rightarrow> protocol_frame list \<times> session_runtime" where
  "on_frame frame now rt =
     (let participant_id = resolved_participant_id rt;
          rt = apply_event (Ev_FrameReceived frame) now rt in
      case frame of
        PF_Ping _ \<Rightarrow> ([PF_Pong now], rt)
      | PF_E2eeKeyEpoch m \<Rightarrow> acknowledge_key_epoch participant_id m now rt
      | _ \<Rightarrow> ([], rt))"

definition recover_from_fallback :: "i64 \<Rightarrow> session_runtime \<Rightarrow> session_runtime" where
  "recover_from_fallback now rt =
     request_connect False ''fallback_recovery'' now
       (apply_event Ev_FallbackRecovered now (record_connection_event ''fallback_recovery_requested'' [] now
         (rt\<lparr>sr_user_initiated_disconnect := False, sr_reconnect_attempt := 0,
            sr_reconnect_due_at_ms := None\<rparr>)))"

end
