(* ===== verification/Client_Machine.thy ===== *)
theory Client_Machine
  imports Client_Runtime
begin

text \<open>
  The client as a machine: an input is a call of one public operation of \<open>SessionRuntime\<close>, a run is a
  sequence of inputs with their times. The locale \<open>client_contract\<close> says what an invariant of the
  runtime must satisfy; it is given once by the session (\<open>session_ok\<close>) and once by the reconnect
  schedule (\<open>schedule_ok\<close>).
\<close>

section \<open>Inputs\<close>

datatype client_input =
    In_Connect
  | In_Foreground
  | In_Background
  | In_Connectivity bool
  | In_AudioBegan
  | In_AudioEnded bool
  | In_AudioRoute string
  | In_TransportConnected
  | In_TransportDisconnected string
  | In_TransportFailure string
  | In_SendFailure string
  | In_ManualDisconnect
  | In_Frame protocol_frame
  | In_Recover
  | In_Tick

fun client_step :: "client_input \<Rightarrow> i64 \<Rightarrow> session_runtime \<Rightarrow> session_runtime" where
  "client_step In_Connect now rt = connect_requested now rt"
| "client_step In_Foreground now rt = on_app_foregrounded now rt"
| "client_step In_Background now rt = on_app_backgrounded now rt"
| "client_step (In_Connectivity available) now rt = on_connectivity_changed available now rt"
| "client_step In_AudioBegan now rt = on_audio_interruption_began now rt"
| "client_step (In_AudioEnded should_reconnect) now rt = on_audio_interruption_ended should_reconnect now rt"
| "client_step (In_AudioRoute reason) now rt = on_audio_route_changed reason now rt"
| "client_step In_TransportConnected now rt = snd (on_transport_connected now rt)"
| "client_step (In_TransportDisconnected reason) now rt = snd (on_transport_disconnected reason now rt)"
| "client_step (In_TransportFailure message) now rt = snd (on_transport_failure message now rt)"
| "client_step (In_SendFailure message) now rt = on_send_failure message now rt"
| "client_step In_ManualDisconnect now rt = on_manual_disconnect now rt"
| "client_step (In_Frame frame) now rt = snd (on_frame frame now rt)"
| "client_step In_Recover now rt = recover_from_fallback now rt"
| "client_step In_Tick now rt = snd (take_reconnect_if_due now rt)"

definition client_run :: "(client_input \<times> i64) list \<Rightarrow> session_runtime \<Rightarrow> session_runtime" where
  "client_run inputs rt = fold (\<lambda>(i, now) rt. client_step i now rt) inputs rt"

lemma client_run_simps [simp]:
  "client_run [] rt = rt"
  "client_run ((i, now) # inputs) rt = client_run inputs (client_step i now rt)"
  by (simp_all add: client_run_def)

section \<open>What the operations share\<close>

named_theorems runtime_defs \<open>the operations of the runtime\<close>

lemmas [runtime_defs] = request_connect_def schedule_reconnect_or_fallback_def take_reconnect_if_due_def
  connect_requested_def on_app_foregrounded_def on_app_backgrounded_def lose_transport_def
  on_connectivity_changed_def on_audio_interruption_began_def on_audio_interruption_ended_def
  on_audio_route_changed_def on_transport_connected_def on_transport_disconnected_def on_transport_failure_def
  on_send_failure_def on_manual_disconnect_def acknowledge_key_epoch_def on_frame_def recover_from_fallback_def

text \<open>Telemetry is written, never read: every other field passes it by.\<close>

lemma record_fields [simp]:
  "sr_state (record_event c n a t rt) = sr_state rt"
  "sr_reconnect_backoff_ms (record_event c n a t rt) = sr_reconnect_backoff_ms rt"
  "sr_reconnect_attempt (record_event c n a t rt) = sr_reconnect_attempt rt"
  "sr_reconnect_due_at_ms (record_event c n a t rt) = sr_reconnect_due_at_ms rt"
  "sr_user_initiated_disconnect (record_event c n a t rt) = sr_user_initiated_disconnect rt"
  "sr_app_in_background (record_event c n a t rt) = sr_app_in_background rt"
  by (simp_all add: record_event_def)

lemma record_connection_fields [simp]:
  "sr_state (record_connection_event n a t rt) = sr_state rt"
  "sr_reconnect_backoff_ms (record_connection_event n a t rt) = sr_reconnect_backoff_ms rt"
  "sr_reconnect_attempt (record_connection_event n a t rt) = sr_reconnect_attempt rt"
  "sr_reconnect_due_at_ms (record_connection_event n a t rt) = sr_reconnect_due_at_ms rt"
  "sr_user_initiated_disconnect (record_connection_event n a t rt) = sr_user_initiated_disconnect rt"
  "sr_app_in_background (record_connection_event n a t rt) = sr_app_in_background rt"
  by (simp_all add: record_connection_event_def)

lemma emit_fields [simp]:
  "sr_state (emit_state_transition_telemetry p q t rt) = sr_state rt"
  "sr_reconnect_backoff_ms (emit_state_transition_telemetry p q t rt) = sr_reconnect_backoff_ms rt"
  "sr_reconnect_attempt (emit_state_transition_telemetry p q t rt) = sr_reconnect_attempt rt"
  "sr_reconnect_due_at_ms (emit_state_transition_telemetry p q t rt) = sr_reconnect_due_at_ms rt"
  "sr_user_initiated_disconnect (emit_state_transition_telemetry p q t rt) = sr_user_initiated_disconnect rt"
  "sr_app_in_background (emit_state_transition_telemetry p q t rt) = sr_app_in_background rt"
  by (cases "ss_last_error q", simp_all add: emit_state_transition_telemetry_def Let_def if_distrib [of sr_state]
      if_distrib [of sr_reconnect_backoff_ms] if_distrib [of sr_reconnect_attempt]
      if_distrib [of sr_reconnect_due_at_ms] if_distrib [of sr_user_initiated_disconnect]
      if_distrib [of sr_app_in_background])+

lemma apply_event_fields [simp]:
  "sr_state (apply_event e t rt) = reduce (sr_state rt) e t"
  "sr_reconnect_backoff_ms (apply_event e t rt) = sr_reconnect_backoff_ms rt"
  "sr_reconnect_attempt (apply_event e t rt) = sr_reconnect_attempt rt"
  "sr_reconnect_due_at_ms (apply_event e t rt) = sr_reconnect_due_at_ms rt"
  "sr_user_initiated_disconnect (apply_event e t rt) = sr_user_initiated_disconnect rt"
  "sr_app_in_background (apply_event e t rt) = sr_app_in_background rt"
  by (simp_all add: apply_event_def Let_def)

text \<open>Whatever the input, the session only ever moves by events of the reducer.\<close>

lemma client_step_events:
  "\<exists>events. sr_state (client_step i now rt) = fold (\<lambda>e st. reduce st e now) events (sr_state rt)"
proof -
  have none: "\<exists>events. st = fold (\<lambda>e st. reduce st e now) events st" for st
    by (rule exI [of _ "[]"]) simp
  have one: "\<exists>events. reduce st e now = fold (\<lambda>e st. reduce st e now) events st" for st e
    by (rule exI [of _ "[e]"]) simp
  have two: "\<exists>events. reduce (reduce st e now) e' now = fold (\<lambda>e st. reduce st e now) events st" for st e e'
    by (rule exI [of _ "[e, e']"]) simp
  have lose: "\<exists>events. sr_state (snd (lose_transport trigger now rt')) = fold (\<lambda>e st. reduce st e now) events st"
    if "sr_state rt' = reduce st e now" for trigger rt' st e
    by (simp add: lose_transport_def schedule_reconnect_or_fallback_def Let_def that one two)
  show ?thesis
  proof (cases "\<exists>available. i = In_Connectivity available")
    case True
    then show ?thesis
      by (auto simp: on_connectivity_changed_def request_connect_def Let_def none one intro!: lose)
  next
    case False
    then show ?thesis
      by (cases i) (simp_all add: runtime_defs Let_def none one two split: option.split protocol_frame.split)
  qed
qed

section \<open>Contracts\<close>

locale client_contract =
  fixes inv :: "session_runtime \<Rightarrow> bool"
  assumes inv_new: "inv (with_backoff config backoff)"
    and inv_step: "inv rt \<Longrightarrow> inv (client_step i now rt)"
begin

lemma inv_run: "inv rt \<Longrightarrow> inv (client_run inputs rt)"
  by (induction inputs arbitrary: rt) (auto simp: inv_step)

lemma inv_reachable: "inv (client_run inputs (with_backoff config backoff))"
  by (rule inv_run [OF inv_new])

end

text \<open>An invariant of the session alone is given by the reducer.\<close>

locale session_contract =
  fixes ok :: "session_state \<Rightarrow> bool"
  assumes ok_initial: "ok (initial_state config)"
    and ok_reduce: "ok st \<Longrightarrow> ok (reduce st e now)"
begin

lemma ok_events: "ok st \<Longrightarrow> ok (fold (\<lambda>e st. reduce st e now) events st)"
  by (induction events arbitrary: st) (auto simp: ok_reduce)

end

sublocale session_contract \<subseteq> runtime: client_contract "\<lambda>rt. ok (sr_state rt)"
proof
  show "ok (sr_state (with_backoff config backoff))" for config backoff
    by (simp add: with_backoff_def ok_initial)
  show "ok (sr_state (client_step i now rt))" if "ok (sr_state rt)" for rt i now
    using client_step_events [of i now rt] ok_events [OF that] by auto
qed

end
