(* ===== verification/Client_Safety.thy ===== *)
theory Client_Safety
  imports Client_Machine
begin

text \<open>
  What the client keeps in every run: the consistency of its phase, its counters, its guards on
  privileged frames and its payment gate.
\<close>

section \<open>The phase and the fallback\<close>

definition session_ok :: "session_state \<Rightarrow> bool" where
  "session_ok st \<longleftrightarrow>
     (ss_connection_phase st = Phase_Connected \<longrightarrow> ss_handshake_complete st)
   \<and> (ss_connection_phase st = Phase_FallbackActive \<longrightarrow> fb_active (ss_fallback st))
   \<and> (fb_active (ss_fallback st) \<longrightarrow>
        fb_reason (ss_fallback st) \<noteq> None \<and> fb_activated_at_ms (ss_fallback st) \<noteq> None)"

lemma session_okI:
  "ss_connection_phase st' = ss_connection_phase st \<Longrightarrow> ss_handshake_complete st' = ss_handshake_complete st \<Longrightarrow>
     ss_fallback st' = ss_fallback st \<Longrightarrow> session_ok st \<Longrightarrow> session_ok st'"
  by (simp add: session_ok_def)

lemma update_participant_fields [simp]:
  "ss_connection_phase (update_participant st i f) = ss_connection_phase st"
  "ss_handshake_complete (update_participant st i f) = ss_handshake_complete st"
  "ss_fallback (update_participant st i f) = ss_fallback st"
  "ss_config (update_participant st i f) = ss_config st"
  "ss_last_error (update_participant st i f) = ss_last_error st"
  "ss_presence_sequence (update_participant st i f) = ss_presence_sequence st"
  "ss_policy_epoch (update_participant st i f) = ss_policy_epoch st"
  "ss_e2ee_state (update_participant st i f) = ss_e2ee_state st"
  "ss_permission_snapshots (update_participant st i f) = ss_permission_snapshots st"
  "ss_payment_state (update_participant st i f) = ss_payment_state st"
  by (simp_all add: update_participant_def split: option.split)

lemma moderate_participant_fields [simp]:
  "ss_connection_phase (moderate_participant st i a) = ss_connection_phase st"
  "ss_handshake_complete (moderate_participant st i a) = ss_handshake_complete st"
  "ss_fallback (moderate_participant st i a) = ss_fallback st"
  "ss_presence_sequence (moderate_participant st i a) = ss_presence_sequence st"
  "ss_policy_epoch (moderate_participant st i a) = ss_policy_epoch st"
  "ss_e2ee_state (moderate_participant st i a) = ss_e2ee_state st"
  "ss_permission_snapshots (moderate_participant st i a) = ss_permission_snapshots st"
  by (cases a; simp add: moderate_participant_def)+

lemma ok_policy_reject: "session_ok st \<Longrightarrow> session_ok (policy_reject st now c m)"
  by (auto simp: session_ok_def policy_reject_def engage_fallback_def Let_def split: option.split)

lemma ok_clear: "session_ok st \<Longrightarrow> session_ok (clear_error_if_matching st f)"
  by (auto simp: session_ok_def clear_error_if_matching_def)

lemma ok_payment: "session_ok st \<Longrightarrow> session_ok (enforce_payment_settlement_policy st now)"
  by (simp add: enforce_payment_settlement_policy_def Let_def ok_policy_reject ok_clear)

lemma ok_e2ee: "session_ok st \<Longrightarrow> session_ok (enforce_e2ee_epoch_policy st now)"
  by (simp add: enforce_e2ee_epoch_policy_def ok_policy_reject ok_clear)

lemma ok_guarded: "session_ok st \<Longrightarrow> session_ok st' \<Longrightarrow> session_ok (guarded st now s i u a st')"
  by (simp add: guarded_def ok_policy_reject)

lemma session_ok_more [simp]:
  "session_ok (st\<lparr>ss_config := x1\<rparr>) = session_ok st"
  "session_ok (st\<lparr>ss_payment_state := x2\<rparr>) = session_ok st"
  "session_ok (st\<lparr>ss_e2ee_state := x3\<rparr>) = session_ok st"
  "session_ok (st\<lparr>ss_recording_notice := x4\<rparr>) = session_ok st"
  "session_ok (st\<lparr>ss_room_locked := x5, ss_waiting_room_enabled := x6, ss_recording_notice := x7,
     ss_guest_policy := x8, ss_e2ee_required := x9, ss_max_participants := x10, ss_policy_epoch := x11\<rparr>)
   = session_ok st"
  by (simp_all add: session_ok_def)

lemma ok_participants [simp]:
  "session_ok (update_participant st i f) = session_ok st"
  "session_ok (moderate_participant st i a) = session_ok st"
  by (simp_all add: session_ok_def)

lemma ok_frame: "session_ok st \<Longrightarrow> session_ok (reduce_frame st f now)"
proof (cases f)
  case (PF_SessionPolicy m)
  assume "session_ok st"
  then show ?thesis
    using PF_SessionPolicy
    by (auto simp: reduce_frame_def reduce_session_policy_def intro!: ok_guarded ok_e2ee)
next
  case (PF_E2eeKeyEpoch m)
  assume "session_ok st"
  then show ?thesis
    using PF_E2eeKeyEpoch by (auto simp: reduce_frame_def reduce_key_epoch_def intro!: ok_policy_reject ok_e2ee)
next
  case (PF_PaymentPolicy r d)
  assume "session_ok st"
  then show ?thesis
    using PF_PaymentPolicy by (auto simp: reduce_frame_def reduce_payment_policy_def intro!: ok_payment)
next
  case (PF_PaymentSettlement x)
  assume "session_ok st"
  then show ?thesis
    using PF_PaymentSettlement by (auto simp: reduce_frame_def reduce_payment_settlement_def intro!: ok_payment)
next
  case (PF_RoleGrant m)
  assume "session_ok st"
  then show ?thesis
    using PF_RoleGrant by (simp add: reduce_frame_def reduce_role_grant_def ok_guarded)
next
  case (PF_RoleRevoke m)
  assume "session_ok st"
  then show ?thesis
    using PF_RoleRevoke by (simp add: reduce_frame_def reduce_role_revoke_def ok_guarded)
next
  case (PF_ModerationSigned m)
  assume "session_ok st"
  then show ?thesis
    using PF_ModerationSigned by (simp add: reduce_frame_def reduce_moderation_def ok_guarded)
qed (auto simp: reduce_frame_def reduce_handshake_ack_def reduce_presence_def reduce_permissions_def
    reduce_media_profile_def reduce_key_ack_def reduce_error_def session_ok_def Let_def)

interpretation phases: session_contract session_ok
proof
  show "session_ok (initial_state config)" for config
    by (simp add: session_ok_def initial_state_def fallback_state_default_def)
  show "session_ok (reduce st e now)" if "session_ok st" for st e now
  proof (cases e)
    case (Ev_FrameReceived f)
    then show ?thesis using ok_frame [OF that] by (simp add: reduce_def)
  next
    case (Ev_ConfigUpdated config)
    then show ?thesis using ok_payment [of "st\<lparr>ss_config := config\<rparr>"] that by (simp add: reduce_def)
  qed (use that in \<open>auto simp: reduce_def session_ok_def reduce_transport_loss_def reduce_send_failed_def
      reduce_fallback_activated_def reduce_fallback_recovered_def Let_def\<close>)
qed

text \<open>C24. In every run of the client, whatever the application, the network and the peer do: it calls
  itself connected only after a handshake was acknowledged and since then not lost, it shows the fallback
  phase only while the fallback is active, and an active fallback has a reason and a time.\<close>

theorem client_phase_consistent:
  "session_ok (sr_state (client_run inputs (with_backoff config backoff)))"
  by (rule phases.runtime.inv_reachable)

section \<open>Counters\<close>

text \<open>Every counter that guards against replay only grows, in its signed order.\<close>

definition counters_le :: "session_state \<Rightarrow> session_state \<Rightarrow> bool" where
  "counters_le st st' \<longleftrightarrow>
     i_le (ss_presence_sequence st) (ss_presence_sequence st')
   \<and> i_le (ss_policy_epoch st) (ss_policy_epoch st')
   \<and> i_le (es_current_epoch (ss_e2ee_state st)) (es_current_epoch (ss_e2ee_state st'))
   \<and> i_le (es_last_ack_epoch (ss_e2ee_state st)) (es_last_ack_epoch (ss_e2ee_state st'))
   \<and> (\<forall>i s. hm_get (ss_permission_snapshots st) i = Some s \<longrightarrow>
        (\<exists>s'. hm_get (ss_permission_snapshots st') i = Some s' \<and> i_le (ps_epoch s) (ps_epoch s')))"

lemma i_le_refl [simp]: "i_le a a"
  by (simp add: i_le_def)

lemma i_le_max [simp]: "i_le a (i_max a b)"
  by (simp add: i_max_def i_le_def)

lemma counters_le_refl: "counters_le st st"
  by (simp add: counters_le_def)

lemma i_le_trans: "i_le a b \<Longrightarrow> i_le b c \<Longrightarrow> i_le a c"
  by (simp add: i_le_def)

lemma counters_le_trans: "counters_le a b \<Longrightarrow> counters_le b c \<Longrightarrow> counters_le a c"
  unfolding counters_le_def by (meson i_le_trans)

lemma counters_leI:
  "ss_presence_sequence st' = ss_presence_sequence st \<Longrightarrow> ss_policy_epoch st' = ss_policy_epoch st \<Longrightarrow>
   ss_e2ee_state st' = ss_e2ee_state st \<Longrightarrow> ss_permission_snapshots st' = ss_permission_snapshots st \<Longrightarrow>
   counters_le st st'"
  by (simp add: counters_le_def split: option.split)

lemma policy_reject_counters [simp]:
  "ss_presence_sequence (policy_reject st now c m) = ss_presence_sequence st"
  "ss_policy_epoch (policy_reject st now c m) = ss_policy_epoch st"
  "ss_e2ee_state (policy_reject st now c m) = ss_e2ee_state st"
  "ss_permission_snapshots (policy_reject st now c m) = ss_permission_snapshots st"
  by (simp_all add: policy_reject_def Let_def)

lemma clear_counters [simp]:
  "ss_presence_sequence (clear_error_if_matching st f) = ss_presence_sequence st"
  "ss_policy_epoch (clear_error_if_matching st f) = ss_policy_epoch st"
  "ss_e2ee_state (clear_error_if_matching st f) = ss_e2ee_state st"
  "ss_permission_snapshots (clear_error_if_matching st f) = ss_permission_snapshots st"
  by (simp_all add: clear_error_if_matching_def)

lemma enforce_counters [simp]:
  "ss_presence_sequence (enforce_e2ee_epoch_policy st now) = ss_presence_sequence st"
  "ss_policy_epoch (enforce_e2ee_epoch_policy st now) = ss_policy_epoch st"
  "ss_e2ee_state (enforce_e2ee_epoch_policy st now) = ss_e2ee_state st"
  "ss_permission_snapshots (enforce_e2ee_epoch_policy st now) = ss_permission_snapshots st"
  "ss_presence_sequence (enforce_payment_settlement_policy st now) = ss_presence_sequence st"
  "ss_policy_epoch (enforce_payment_settlement_policy st now) = ss_policy_epoch st"
  "ss_e2ee_state (enforce_payment_settlement_policy st now) = ss_e2ee_state st"
  "ss_permission_snapshots (enforce_payment_settlement_policy st now) = ss_permission_snapshots st"
  by (simp_all add: enforce_e2ee_epoch_policy_def enforce_payment_settlement_policy_def Let_def)

lemma counters_guarded: "counters_le st st' \<Longrightarrow> counters_le st (guarded st now s i u a st')"
  by (simp add: guarded_def counters_leI)

lemma counters_frame: "counters_le st (reduce_frame st f now)"
proof (cases f)
  case (PF_ParticipantPresenceDelta m)
  then show ?thesis
    by (auto simp: reduce_frame_def reduce_presence_def Let_def counters_le_def i_le_def split: option.split)
next
  case (PF_PermissionsSnapshot m)
  then show ?thesis
    by (auto simp: reduce_frame_def reduce_permissions_def Let_def counters_le_def hm_simps i_le_def
        split: option.split if_splits)
next
  case (PF_SessionPolicy m)
  then show ?thesis
    unfolding reduce_frame_def reduce_session_policy_def PF_SessionPolicy protocol_frame.case
    by (intro counters_guarded) (auto simp: counters_le_def split: option.split)
next
  case (PF_E2eeKeyEpoch m)
  then show ?thesis
    by (auto simp: reduce_frame_def reduce_key_epoch_def counters_le_def split: option.split)
next
  case (PF_KeyRotationAck m)
  then show ?thesis
    by (auto simp: reduce_frame_def reduce_key_ack_def counters_le_def split: option.split)
qed (auto simp: reduce_frame_def reduce_handshake_ack_def reduce_role_grant_def reduce_role_revoke_def
    reduce_moderation_def reduce_media_profile_def reduce_payment_policy_def reduce_payment_settlement_def
    reduce_error_def Let_def intro!: counters_guarded counters_leI)

lemma counters_reduce: "counters_le st (reduce st e now)"
proof (cases e)
  case (Ev_FrameReceived f)
  then show ?thesis using counters_frame by (simp add: reduce_def)
qed (auto simp: reduce_def reduce_transport_loss_def reduce_send_failed_def
      reduce_fallback_activated_def reduce_fallback_recovered_def Let_def intro!: counters_leI)

text \<open>No input of any run takes a counter back: presence sequence, policy epoch, key epoch,
  acknowledged epoch and the permission epoch of every participant only grow, so an old presence delta
  or permission snapshot stays without effect for good.\<close>

theorem client_counters_monotone:
  "counters_le (sr_state rt) (sr_state (client_run inputs rt))"
proof (induction inputs arbitrary: rt)
  case Nil
  show ?case by (simp add: counters_le_refl)
next
  case (Cons input inputs)
  obtain i now where input: "input = (i, now)" by fastforce
  have "counters_le st (fold (\<lambda>e st. reduce st e now) events st)" for events st
    by (induction events arbitrary: st) (auto intro: counters_le_refl counters_le_trans counters_reduce)
  then have "counters_le (sr_state rt) (sr_state (client_step i now rt))"
    using client_step_events [of i now rt] by auto
  then show ?case
    using Cons.IH counters_le_trans input by auto
qed

section \<open>Privileged frames\<close>

definition claimed_authority :: "protocol_frame \<Rightarrow> (string option \<times> string) option" where
  \<comment> \<open>signature and issuer of the frames that only a host or co-host may send\<close>
  "claimed_authority frame = (case frame of
     PF_RoleGrant m \<Rightarrow> Some (rm_signature m, rm_issuer m)
   | PF_RoleRevoke m \<Rightarrow> Some (rm_signature m, rm_issuer m)
   | PF_ModerationSigned m \<Rightarrow> Some (mm_signature m, mm_issued_by m)
   | PF_SessionPolicy m \<Rightarrow> Some (pl_signature m, pl_updated_by m)
   | _ \<Rightarrow> None)"

definition frame_authorized :: "session_state \<Rightarrow> protocol_frame \<Rightarrow> bool" where
  "frame_authorized st frame = (case claimed_authority frame of
     None \<Rightarrow> True
   | Some (signature, issuer) \<Rightarrow> has_required_signature signature st \<and> actor_is_authorized issuer st)"

definition same_but_error :: "session_state \<Rightarrow> session_state \<Rightarrow> bool" where
  \<comment> \<open>equal up to the phase, the fallback and the last error\<close>
  "same_but_error st st' \<longleftrightarrow> st' = st\<lparr>ss_connection_phase := ss_connection_phase st',
     ss_fallback := ss_fallback st', ss_last_error := ss_last_error st'\<rparr>"

lemma policy_reject_same [simp]: "same_but_error st (policy_reject st now c m)"
  by (simp add: same_but_error_def policy_reject_def Let_def)

lemma policy_reject_error [simp]:
  "ss_last_error (policy_reject st now c m) = Some (policy_error now c m)"
  by (simp add: policy_reject_def Let_def)

lemma policy_reject_phase [simp]:
  "ss_connection_phase (policy_reject st now c m) =
     (if cfg_prefer_web_fallback (ss_config st) \<or> fb_active (ss_fallback st)
      then Phase_FallbackActive else Phase_Error)"
  by (simp add: policy_reject_def Let_def)

lemma guarded_refused:
  "\<not> (has_required_signature s st \<and> actor_is_authorized i st) \<Longrightarrow>
     \<exists>c m. guarded st now s i u a st' = policy_reject st now c m"
  by (auto simp: guarded_def)

text \<open>C25. A role grant, role revocation, moderation or session policy whose required signature is missing
  or whose issuer is neither a host, a co-host nor the system changes nothing of the session but its error
  state: the error is a policy failure of this moment, and the phase is the fallback (when it is preferred
  or active) or the error phase.\<close>

theorem unauthorized_frame_refused:
  assumes "\<not> frame_authorized st frame"
  shows "same_but_error st (reduce_frame st frame now)
    \<and> (\<exists>code message. ss_last_error (reduce_frame st frame now) = Some (policy_error now code message))
    \<and> ss_connection_phase (reduce_frame st frame now) =
        (if cfg_prefer_web_fallback (ss_config st) \<or> fb_active (ss_fallback st)
         then Phase_FallbackActive else Phase_Error)"
proof -
  have "\<exists>c m. reduce_frame st frame now = policy_reject st now c m"
    using assms
    by (cases frame) (auto simp: frame_authorized_def claimed_authority_def reduce_frame_def reduce_role_grant_def
        reduce_role_revoke_def reduce_moderation_def reduce_session_policy_def intro!: guarded_refused)
  then obtain c m where "reduce_frame st frame now = policy_reject st now c m"
    by blast
  then show ?thesis by simp blast
qed

definition demo_session :: session_state where
  \<comment> \<open>a connected client with a host and a guest\<close>
  "demo_session = (initial_state meeting_config_default)\<lparr>
     ss_connection_phase := Phase_Connected, ss_handshake_complete := True,
     ss_participants :=
       [(''ann'', \<lparr>cp_id = ''ann'', cp_display_name = ''Ann'', cp_role = Client_Host, cp_muted = False,
           cp_video_enabled = True, cp_share_enabled = False, cp_waiting_room = False\<rparr>),
        (''bob'', \<lparr>cp_id = ''bob'', cp_display_name = ''Bob'', cp_role = Client_Guest, cp_muted = False,
           cp_video_enabled = True, cp_share_enabled = False, cp_waiting_room = False\<rparr>)]\<rparr>"

definition demo_kick :: "string \<Rightarrow> protocol_frame" where
  "demo_kick issuer = PF_ModerationSigned \<lparr>mm_target_participant_id = ''ann'', mm_action = Mod_Kick,
     mm_issued_by = issuer, mm_signature = Some ''sig'', mm_sent_at_ms = 5\<rparr>"

lemma unauthorized_frame_refused_witness:
  "ss_connection_phase (reduce_frame demo_session (demo_kick ''bob'') 7) = Phase_FallbackActive"
proof -
  have "\<not> frame_authorized demo_session (demo_kick ''bob'')" by code_simp
  from unauthorized_frame_refused [OF this, of 7] show ?thesis
    by (simp add: demo_session_def initial_state_def meeting_config_default_def)
qed

definition roster_changing :: "session_state \<Rightarrow> protocol_frame \<Rightarrow> bool" where
  \<comment> \<open>the frames that may change the participants\<close>
  "roster_changing st frame = (case frame of
     PF_ParticipantPresenceDelta m \<Rightarrow> \<not> i_le (pm_sequence m) (ss_presence_sequence st)
   | PF_RoleGrant m \<Rightarrow> frame_authorized st frame
   | PF_RoleRevoke m \<Rightarrow> frame_authorized st frame
   | PF_ModerationSigned m \<Rightarrow> frame_authorized st frame
   | _ \<Rightarrow> False)"

lemma participants_kept [simp]:
  "ss_participants (policy_reject st now c m) = ss_participants st"
  "ss_participants (clear_error_if_matching st f) = ss_participants st"
  "ss_participants (enforce_e2ee_epoch_policy st now) = ss_participants st"
  "ss_participants (enforce_payment_settlement_policy st now) = ss_participants st"
  by (simp_all add: policy_reject_def clear_error_if_matching_def enforce_e2ee_epoch_policy_def
      enforce_payment_settlement_policy_def Let_def)

lemma guarded_participants:
  "ss_participants (guarded st now s i u a st') =
     (if has_required_signature s st \<and> actor_is_authorized i st then ss_participants st' else ss_participants st)"
  by (simp add: guarded_def)

lemma roster_changing_only:
  "\<not> roster_changing st frame \<Longrightarrow> ss_participants (reduce_frame st frame now) = ss_participants st"
  by (cases frame) (auto simp: roster_changing_def frame_authorized_def claimed_authority_def reduce_frame_def
      reduce_role_grant_def reduce_role_revoke_def reduce_moderation_def reduce_session_policy_def
      guarded_participants reduce_handshake_ack_def reduce_presence_def reduce_permissions_def
      reduce_media_profile_def reduce_key_epoch_def reduce_key_ack_def reduce_payment_policy_def
      reduce_payment_settlement_def reduce_error_def Let_def)

text \<open>The participants a client shows change only by a frame of the peer, and of those only by a
  presence delta with a newer sequence number or by a role grant, role revocation or moderation that carries
  the required signature and the name of a host or co-host (or of the system): no transport event, no local
  call and no other frame touches them.\<close>

theorem participants_change_only_by_roster:
  assumes "ss_participants (reduce st event now) \<noteq> ss_participants st"
  shows "\<exists>frame. event = Ev_FrameReceived frame \<and> roster_changing st frame"
proof (cases event)
  case (Ev_FrameReceived frame)
  then show ?thesis
    using assms roster_changing_only [of st frame now] by (auto simp: reduce_def)
qed (use assms in \<open>auto simp: reduce_def reduce_transport_loss_def reduce_send_failed_def
      reduce_fallback_activated_def reduce_fallback_recovered_def Let_def split: if_splits\<close>)

lemma participants_change_only_by_roster_witness:
  "\<exists>frame. Ev_FrameReceived (demo_kick ''ann'') = Ev_FrameReceived frame \<and> roster_changing demo_session frame"
  by (rule participants_change_only_by_roster [where now = 7]) code_simp

text \<open>The guard trusts the name in the frame: nobody has to be present for a kick in the name of
  ''system'', whatever its signature says, to take effect.\<close>

theorem system_name_is_trusted:
  assumes "has_required_signature signature st"
  shows "ss_participants (reduce_frame st (PF_ModerationSigned
      \<lparr>mm_target_participant_id = target, mm_action = Mod_Kick, mm_issued_by = ''system'',
       mm_signature = signature, mm_sent_at_ms = at\<rparr>) now) = hm_remove (ss_participants st) target"
  using assms by (simp add: reduce_frame_def reduce_moderation_def guarded_participants actor_is_authorized_def
      moderate_participant_def)

lemma system_name_is_trusted_witness:
  "ss_participants (reduce_frame demo_session (demo_kick ''system'') 7) = hm_remove (ss_participants demo_session) ''ann''"
  unfolding demo_kick_def by (rule system_name_is_trusted) code_simp

section \<open>The payment gate\<close>

definition payment_due :: "session_state \<Rightarrow> bool" where
  \<comment> \<open>the room wants a payment, the client insists on it, and it is not settled\<close>
  "payment_due st \<longleftrightarrow> cfg_require_payment_settlement (ss_config st) \<and> pst_required (ss_payment_state st)
     \<and> pst_settlement_status (ss_payment_state st) \<noteq> Settled
     \<and> pst_settlement_status (ss_payment_state st) \<noteq> Not_Required"

definition payment_event :: "protocol_event \<Rightarrow> bool" where
  "payment_event event = (case event of
     Ev_ConfigUpdated _ \<Rightarrow> True
   | Ev_FrameReceived (PF_PaymentPolicy _ _) \<Rightarrow> True
   | Ev_FrameReceived (PF_PaymentSettlement _) \<Rightarrow> True
   | _ \<Rightarrow> False)"

lemma enforce_payment_gate:
  "is_payment_policy_error (ss_last_error (enforce_payment_settlement_policy st now)) \<longleftrightarrow> payment_due st"
  "payment_due (enforce_payment_settlement_policy st now) \<longleftrightarrow> payment_due st"
proof -
  have codes: "is_payment_policy_error (Some (policy_error now ''payment_settlement_blocked'' m))"
    "is_payment_policy_error (Some (policy_error now ''payment_settlement_required'' m))" for m
    by (simp_all add: is_payment_policy_error_def policy_error_def starts_with_def)
  have none: "\<not> is_payment_policy_error None"
    by (simp add: is_payment_policy_error_def)
  show "is_payment_policy_error (ss_last_error (enforce_payment_settlement_policy st now)) \<longleftrightarrow> payment_due st"
    by (auto simp: enforce_payment_settlement_policy_def payment_due_def clear_error_if_matching_def Let_def codes none)
  show "payment_due (enforce_payment_settlement_policy st now) \<longleftrightarrow> payment_due st"
    by (auto simp: enforce_payment_settlement_policy_def payment_due_def clear_error_if_matching_def
        policy_reject_def Let_def)
qed

text \<open>C32. Whatever changes the payment (a policy, a settlement, a new configuration) leaves the client with
  a payment error exactly when a required payment is not settled; such an error is raised, and an older one
  cleared, by the same event.\<close>

theorem payment_gate:
  assumes "payment_event event"
  shows "is_payment_policy_error (ss_last_error (reduce st event now)) \<longleftrightarrow> payment_due (reduce st event now)"
  using assms by (auto simp: payment_event_def reduce_def reduce_frame_def reduce_payment_policy_def
      reduce_payment_settlement_def enforce_payment_gate split: protocol_event.splits protocol_frame.splits)

definition paying_session :: session_state where
  "paying_session = demo_session\<lparr>ss_config := meeting_config_default\<lparr>cfg_require_payment_settlement := True\<rparr>\<rparr>"

lemma payment_gate_witness:
  "is_payment_policy_error (ss_last_error (reduce paying_session (Ev_FrameReceived (PF_PaymentPolicy True None)) 7))
     \<and> payment_due (reduce paying_session (Ev_FrameReceived (PF_PaymentPolicy True None)) 7)"
proof -
  have "payment_event (Ev_FrameReceived (PF_PaymentPolicy True None))" by code_simp
  moreover have "payment_due (reduce paying_session (Ev_FrameReceived (PF_PaymentPolicy True None)) 7)" by code_simp
  ultimately show ?thesis using payment_gate by blast
qed

text \<open>The gate does not survive a handshake: an acknowledgement clears the error without looking at the
  payment, so outside the fallback the client is connected and without error while the payment is still due.\<close>

theorem handshake_forgets_payment:
  assumes "payment_due st" and "\<not> fb_active (ss_fallback st)"
  shows "payment_due (reduce_frame st (PF_HandshakeAck m) now)
    \<and> ss_connection_phase (reduce_frame st (PF_HandshakeAck m) now) = Phase_Connected
    \<and> ss_last_error (reduce_frame st (PF_HandshakeAck m) now) = None"
  using assms by (simp add: payment_due_def reduce_frame_def reduce_handshake_ack_def)

definition native_session :: session_state where
  \<comment> \<open>the same without the preference for the web fallback, after a payment policy\<close>
  "native_session = reduce (paying_session\<lparr>ss_config := meeting_config_default
     \<lparr>cfg_require_payment_settlement := True, cfg_prefer_web_fallback := False\<rparr>\<rparr>)
     (Ev_FrameReceived (PF_PaymentPolicy True None)) 7"

lemma handshake_forgets_payment_witness:
  "ss_connection_phase native_session = Phase_Error
   \<and> ss_connection_phase (reduce_frame native_session (PF_HandshakeAck
        \<lparr>ha_session_id = ''s'', ha_resume_token = ''t'', ha_accepted_at_ms = 9\<rparr>) 9) = Phase_Connected"
proof -
  have "payment_due native_session" by code_simp
  moreover have "\<not> fb_active (ss_fallback native_session)" by code_simp
  moreover have "ss_connection_phase native_session = Phase_Error" by code_simp
  ultimately show ?thesis using handshake_forgets_payment by simp
qed

end
