(* ===== verification/Client_Reconnect.thy ===== *)
theory Client_Reconnect
  imports Client_Safety
begin

text \<open>
  The reconnect schedule of the client (its invariant, the answer to every lost transport, the run of an
  outage until the fallback), the way back, and the participant id it introduces itself with.
\<close>

section \<open>The schedule\<close>

definition schedule_ok :: "session_runtime \<Rightarrow> bool" where
  "schedule_ok rt \<longleftrightarrow>
     sr_reconnect_attempt rt \<le> length (sr_reconnect_backoff_ms rt)
   \<and> (sr_reconnect_due_at_ms rt \<noteq> None \<longrightarrow>
        0 < sr_reconnect_attempt rt \<and> \<not> sr_user_initiated_disconnect rt \<and> \<not> sr_app_in_background rt)"

lemma schedule_okI:
  "sr_reconnect_attempt rt' = sr_reconnect_attempt rt \<Longrightarrow> sr_reconnect_backoff_ms rt' = sr_reconnect_backoff_ms rt \<Longrightarrow>
   sr_reconnect_due_at_ms rt' = sr_reconnect_due_at_ms rt \<Longrightarrow>
   sr_user_initiated_disconnect rt' = sr_user_initiated_disconnect rt \<Longrightarrow>
   sr_app_in_background rt' = sr_app_in_background rt \<Longrightarrow> schedule_ok rt' = schedule_ok rt"
  by (simp add: schedule_ok_def)

lemma schedule_ok_passive [simp]:
  "schedule_ok (record_event c n a t rt) = schedule_ok rt"
  "schedule_ok (record_connection_event n a t rt) = schedule_ok rt"
  "schedule_ok (apply_event e t rt) = schedule_ok rt"
  "schedule_ok (rt\<lparr>sr_state := st\<rparr>) = schedule_ok rt"
  by (simp_all add: schedule_ok_def)

lemma schedule_ok_idle [simp]:
  "schedule_ok (rt\<lparr>sr_user_initiated_disconnect := u, sr_reconnect_attempt := 0, sr_reconnect_due_at_ms := None\<rparr>)"
  "schedule_ok rt \<Longrightarrow> schedule_ok (rt\<lparr>sr_app_in_background := b, sr_reconnect_due_at_ms := None\<rparr>)"
  "schedule_ok rt \<Longrightarrow> schedule_ok (rt\<lparr>sr_user_initiated_disconnect := u, sr_reconnect_due_at_ms := None\<rparr>)"
  "schedule_ok rt \<Longrightarrow> schedule_ok (rt\<lparr>sr_reconnect_due_at_ms := None\<rparr>)"
  "schedule_ok rt \<Longrightarrow> schedule_ok (rt\<lparr>sr_app_in_background := False\<rparr>)"
  by (auto simp: schedule_ok_def simp del: not_None_eq)

lemma schedule_ok_request: "schedule_ok rt \<Longrightarrow> schedule_ok (request_connect reset source now rt)"
  by (auto simp: request_connect_def Let_def schedule_ok_def)

lemma schedule_ok_schedule: "schedule_ok rt \<Longrightarrow> schedule_ok (snd (schedule_reconnect_or_fallback trigger now rt))"
  by (auto simp: schedule_reconnect_or_fallback_def Let_def schedule_ok_def)

lemma schedule_ok_lose: "schedule_ok rt \<Longrightarrow> schedule_ok (snd (lose_transport trigger now rt))"
  by (simp add: lose_transport_def schedule_ok_schedule)

lemma schedule_ok_acknowledge: "schedule_ok (snd (acknowledge_key_epoch p m now rt)) = schedule_ok rt"
  by (simp add: acknowledge_key_epoch_def Let_def)

lemma schedule_ok_step: "schedule_ok rt \<Longrightarrow> schedule_ok (client_step i now rt)"
  by (cases i) (auto simp: connect_requested_def on_app_foregrounded_def on_app_backgrounded_def
      on_connectivity_changed_def on_audio_interruption_began_def on_audio_interruption_ended_def
      on_audio_route_changed_def on_transport_connected_def on_transport_disconnected_def
      on_transport_failure_def on_send_failure_def on_manual_disconnect_def on_frame_def
      recover_from_fallback_def take_reconnect_if_due_def Let_def schedule_ok_request schedule_ok_lose
      schedule_ok_acknowledge split: option.split protocol_frame.split)

interpretation schedule: client_contract schedule_ok
  by unfold_locales (simp add: schedule_ok_def with_backoff_def, rule schedule_ok_step)

text \<open>In every run the number of attempts never passes the length of the backoff list, so the delay is
  always read inside the list, and a reconnect is only ever pending after at least one attempt, while the
  user has not hung up and the application is in the foreground.\<close>

theorem reconnect_schedule_bounded:
  "schedule_ok (client_run inputs (with_backoff config backoff))"
  by (rule schedule.inv_reachable)

section \<open>Lost transports\<close>

definition reconnect_planned :: "session_runtime \<Rightarrow> bool" where
  "reconnect_planned rt \<longleftrightarrow> sr_reconnect_due_at_ms rt \<noteq> None \<or> fb_active (ss_fallback (sr_state rt))"

lemma loss_keeps_fallback [simp]:
  "ss_fallback (reduce st (Ev_TransportFailure m) now) = ss_fallback st"
  "ss_fallback (reduce st (Ev_TransportDisconnected m) now) = ss_fallback st"
  by (simp_all add: reduce_def reduce_transport_loss_def)

lemma schedule_plans:
  "\<not> sr_user_initiated_disconnect rt \<Longrightarrow> \<not> sr_app_in_background rt \<Longrightarrow>
     reconnect_planned (snd (schedule_reconnect_or_fallback trigger now rt))"
  by (auto simp: schedule_reconnect_or_fallback_def reconnect_planned_def Let_def reduce_def
      reduce_fallback_activated_def)

text \<open>Liveness of the reconnect logic, one step: after any lost transport (failure, disconnect, lost
  network, audio interruption) in the foreground and without the user having hung up, the client has a plan:
  a reconnect is pending or the fallback is active.\<close>

theorem lost_transport_is_answered:
  assumes "\<not> sr_user_initiated_disconnect rt" and "\<not> sr_app_in_background rt"
    and "input \<in> {In_TransportFailure m, In_TransportDisconnected m, In_Connectivity False, In_AudioBegan}"
  shows "reconnect_planned (client_step input now rt)"
  using assms by (auto simp: on_transport_failure_def on_transport_disconnected_def on_connectivity_changed_def
      on_audio_interruption_began_def lose_transport_def schedule_plans)

lemma lost_transport_is_answered_witness:
  "reconnect_planned (client_step In_AudioBegan 50 (new_runtime meeting_config_default))"
  by (rule lost_transport_is_answered [where m = "''''"])
    (simp_all add: new_runtime_def with_backoff_def)

text \<open>The plan is carried out: once the clock has reached the due time, the next tick starts a new
  connection attempt: the phase is connecting, nothing is pending and the attempts made are remembered.\<close>

theorem due_reconnect_connects:
  assumes "sr_reconnect_due_at_ms rt = Some due" and "i_le due now" and "schedule_ok rt"
    and "\<not> fb_active (ss_fallback (sr_state rt))"
  shows "fst (take_reconnect_if_due now rt)
       \<and> ss_connection_phase (sr_state (client_step In_Tick now rt)) = Phase_Connecting
       \<and> sr_reconnect_due_at_ms (client_step In_Tick now rt) = None
       \<and> sr_reconnect_attempt (client_step In_Tick now rt) = sr_reconnect_attempt rt"
  using assms by (auto simp: take_reconnect_if_due_def schedule_ok_def request_connect_def Let_def reduce_def)

lemma due_reconnect_connects_witness:
  "ss_connection_phase (sr_state (client_step In_Tick 1050
      (client_step In_AudioBegan 50 (new_runtime meeting_config_default)))) = Phase_Connecting"
proof -
  let ?rt = "client_step In_AudioBegan 50 (new_runtime meeting_config_default)"
  have "sr_reconnect_due_at_ms ?rt = Some 1050" by code_simp
  moreover have "i_le (1050 :: i64) 1050" by simp
  moreover have "schedule_ok ?rt"
    unfolding new_runtime_def by (rule schedule_ok_step) (simp add: schedule_ok_def with_backoff_def)
  moreover have "\<not> fb_active (ss_fallback (sr_state ?rt))" by code_simp
  ultimately show ?thesis using due_reconnect_connects by blast
qed

section \<open>An outage\<close>

text \<open>An outage is a sequence of failed attempts: the transport fails at \<open>t\<close>, the clock ticks at \<open>t'\<close>.\<close>

definition outage :: "(string \<times> i64 \<times> i64) list \<Rightarrow> (client_input \<times> i64) list" where
  "outage fs = concat (map (\<lambda>(m, t, t'). [(In_TransportFailure m, t), (In_Tick, t')]) fs)"

fun timely :: "i64 list \<Rightarrow> (string \<times> i64 \<times> i64) list \<Rightarrow> bool" where
  \<comment> \<open>there is a delay for every failure, and the tick comes when it has passed\<close>
  "timely delays [] = True"
| "timely [] (_ # _) = False"
| "timely (d # ds) ((m, t, t') # fs) = (i_le (i64_saturating_add t (i_max d 0)) t' \<and> timely ds fs)"

definition ready :: "nat \<Rightarrow> session_runtime \<Rightarrow> bool" where
  "ready k rt \<longleftrightarrow> sr_reconnect_attempt rt = k \<and> sr_reconnect_due_at_ms rt = None
     \<and> \<not> sr_user_initiated_disconnect rt \<and> \<not> sr_app_in_background rt \<and> \<not> fb_active (ss_fallback (sr_state rt))"

lemma ready_failure:
  assumes "ready k rt" and "k < length (sr_reconnect_backoff_ms rt)"
    and "i_le (i64_saturating_add t (i_max (sr_reconnect_backoff_ms rt ! k) 0)) t'"
  shows "ready (Suc k) (client_step In_Tick t' (client_step (In_TransportFailure m) t rt))"
    and "sr_reconnect_backoff_ms (client_step In_Tick t' (client_step (In_TransportFailure m) t rt))
      = sr_reconnect_backoff_ms rt"
    and "ss_fallback (sr_state (client_step In_Tick t' (client_step (In_TransportFailure m) t rt)))
      = ss_fallback (sr_state rt)"
proof -
  let ?rt = "client_step (In_TransportFailure m) t rt"
  have 1: "sr_reconnect_due_at_ms ?rt = Some (i64_saturating_add t (i_max (sr_reconnect_backoff_ms rt ! k) 0))"
    "sr_reconnect_attempt ?rt = Suc k" "sr_reconnect_backoff_ms ?rt = sr_reconnect_backoff_ms rt"
    "\<not> sr_user_initiated_disconnect ?rt" "\<not> sr_app_in_background ?rt" "\<not> fb_active (ss_fallback (sr_state ?rt))"
    "ss_fallback (sr_state ?rt) = ss_fallback (sr_state rt)"
    using assms(1,2) by (simp_all add: ready_def on_transport_failure_def lose_transport_def
        schedule_reconnect_or_fallback_def Let_def)
  have 2: "client_step In_Tick t' ?rt = request_connect False ''reconnect'' t'
      (record_connection_event ''reconnect_attempt'' [] t' (?rt\<lparr>sr_reconnect_due_at_ms := None\<rparr>))"
    using 1 assms(3) by (simp add: take_reconnect_if_due_def)
  show "ready (Suc k) (client_step In_Tick t' ?rt)"
    and "sr_reconnect_backoff_ms (client_step In_Tick t' ?rt) = sr_reconnect_backoff_ms rt"
    and "ss_fallback (sr_state (client_step In_Tick t' ?rt)) = ss_fallback (sr_state rt)"
    unfolding 2 using 1 by (simp_all add: ready_def request_connect_def Let_def reduce_def)
qed

lemma ready_outage:
  "ready k rt \<Longrightarrow> timely (drop k (sr_reconnect_backoff_ms rt)) fs \<Longrightarrow>
     ready (k + length fs) (client_run (outage fs) rt)
   \<and> sr_reconnect_backoff_ms (client_run (outage fs) rt) = sr_reconnect_backoff_ms rt
   \<and> ss_fallback (sr_state (client_run (outage fs) rt)) = ss_fallback (sr_state rt)"
proof (induction fs arbitrary: k rt)
  case Nil
  then show ?case by (simp add: outage_def)
next
  case (Cons f fs)
  obtain m t t' where f: "f = (m, t, t')" by (cases f)
  let ?rt = "client_step In_Tick t' (client_step (In_TransportFailure m) t rt)"
  have k: "k < length (sr_reconnect_backoff_ms rt)"
    using Cons.prems(2) by (cases "k < length (sr_reconnect_backoff_ms rt)") (auto simp: f)
  then have "i_le (i64_saturating_add t (i_max (sr_reconnect_backoff_ms rt ! k) 0)) t'"
    and later: "timely (drop (Suc k) (sr_reconnect_backoff_ms rt)) fs"
    using Cons.prems(2) by (auto simp: f Cons_nth_drop_Suc [symmetric])
  then have "ready (Suc k) ?rt" "sr_reconnect_backoff_ms ?rt = sr_reconnect_backoff_ms rt"
    "ss_fallback (sr_state ?rt) = ss_fallback (sr_state rt)"
    using ready_failure [OF Cons.prems(1) k] by auto
  moreover have "client_run (outage (f # fs)) rt = client_run (outage fs) ?rt"
    by (simp add: outage_def f)
  ultimately show ?case
    using Cons.IH [of "Suc k" ?rt] later by simp
qed

lemma ready_new: "ready 0 (with_backoff config backoff)"
  by (simp add: ready_def with_backoff_def initial_state_def fallback_state_default_def)

lemma with_backoff_fields [simp]:
  "sr_reconnect_backoff_ms (with_backoff config backoff) = backoff"
  "ss_fallback (sr_state (with_backoff config backoff)) = fallback_state_default"
  by (simp_all add: with_backoff_def initial_state_def)

lemma outage_from_start:
  assumes "timely backoff fs"
  shows "ready (length fs) (client_run (outage fs) (with_backoff config backoff))"
    and "sr_reconnect_backoff_ms (client_run (outage fs) (with_backoff config backoff)) = backoff"
    and "ss_fallback (sr_state (client_run (outage fs) (with_backoff config backoff))) = fallback_state_default"
  using ready_outage [OF ready_new [of config backoff], of fs] assms by auto

text \<open>An outage runs through the backoff list attempt by attempt: as long as there are no more failures
  than delays, each tick coming when its delay has passed (the clock saturating at the largest \<open>i64\<close>), the
  fallback stays off, the attempts are counted exactly and the client is free to fail again.\<close>

theorem outage_counts_attempts:
  assumes "timely backoff fs"
  shows "ready (length fs) (client_run (outage fs) (with_backoff config backoff))"
  by (rule outage_from_start [OF assms])

lemma outage_counts_attempts_witness:
  "ready 2 (client_run (outage [(''a'', 0, 1000), (''b'', 1500, 3600)]) (with_backoff meeting_config_default [1000, 2000, 4000]))"
  using outage_counts_attempts [of "[1000, 2000, 4000]" "[(''a'', 0, 1000), (''b'', 1500, 3600)]"]
  by (simp add: i64_saturating_add_def i_max_def i_le_def numeral_2_eq_2)

text \<open>C33. The failure after the last delay activates the fallback, at its own time and
  with the reason that names the number of attempts and the last failure.\<close>

theorem outage_ends_in_fallback:
  assumes "timely backoff fs" and "length fs = length backoff"
  shows "ss_fallback (sr_state (client_run (outage fs @ [(In_TransportFailure m, t)]) (with_backoff config backoff)))
    = fallback_state_default\<lparr>fb_active := True, fb_activated_at_ms := Some t,
        fb_reason := Some (''Reconnect exhausted after '' @ dec (length backoff) @ '' attempts: '' @ m)\<rparr>"
proof -
  let ?rt = "client_run (outage fs) (with_backoff config backoff)"
  have "ready (length backoff) ?rt" "sr_reconnect_backoff_ms ?rt = backoff"
    "ss_fallback (sr_state ?rt) = fallback_state_default"
    using outage_from_start [OF assms(1)] assms(2) by auto
  then have "ss_fallback (sr_state (client_step (In_TransportFailure m) t ?rt))
    = fallback_state_default\<lparr>fb_active := True, fb_activated_at_ms := Some t,
        fb_reason := Some (''Reconnect exhausted after '' @ dec (length backoff) @ '' attempts: '' @ m)\<rparr>"
    by (simp add: ready_def on_transport_failure_def lose_transport_def schedule_reconnect_or_fallback_def
        Let_def reduce_def [of _ "Ev_FallbackActivated _"] reduce_fallback_activated_def)
  then show ?thesis by (simp add: client_run_def)
qed

lemma outage_ends_in_fallback_witness:
  "fb_reason (ss_fallback (sr_state (client_run (outage [(''a'', 0, 1000)] @ [(In_TransportFailure ''b'', 1500)])
      (with_backoff meeting_config_default [1000])))) = Some ''Reconnect exhausted after 1 attempts: b''"
proof -
  have "timely [1000] [(''a'', 0, 1000)]" by code_simp
  moreover have "dec (length [1000 :: i64]) = ''1''" by code_simp
  ultimately show ?thesis
    using outage_ends_in_fallback [of "[1000]" "[(''a'', 0, 1000)]"] by simp
qed

section \<open>Locked out\<close>

definition locked_out :: "session_runtime \<Rightarrow> bool" where
  "locked_out rt \<longleftrightarrow> sr_user_initiated_disconnect rt \<and> sr_app_in_background rt \<and> sr_reconnect_due_at_ms rt = None"

lemma locked_out_step: "locked_out rt \<Longrightarrow> i \<noteq> In_Recover \<Longrightarrow> locked_out (client_step i now rt)"
  by (cases i) (auto simp: locked_out_def runtime_defs Let_def split: option.split protocol_frame.split)

lemma locked_out_run:
  "locked_out rt \<Longrightarrow> In_Recover \<notin> fst ` set inputs \<Longrightarrow> locked_out (client_run inputs rt)"
  by (induction inputs arbitrary: rt) (auto simp: locked_out_step image_iff)

text \<open>Whoever hangs up and then puts the application into the background cannot connect again: coming
  back to the foreground is ignored because of the hang-up, so the client believes itself in the background
  for ever, and a request to connect is deferred without effect on the session. Only the recovery from the
  fallback ends this.\<close>

theorem hang_up_then_background_locks_out:
  assumes "In_Recover \<notin> fst ` set inputs"
  shows "sr_state (client_step In_Connect now
      (client_run ((In_ManualDisconnect, t) # (In_Background, t') # inputs) rt)) =
    sr_state (client_run ((In_ManualDisconnect, t) # (In_Background, t') # inputs) rt)"
proof -
  have "locked_out (client_step In_Background t' (client_step In_ManualDisconnect t rt))"
    by (simp add: locked_out_def runtime_defs Let_def)
  from locked_out_run [OF this assms] show ?thesis
    by (simp add: locked_out_def runtime_defs)
qed

lemma hang_up_then_background_locks_out_witness:
  "sr_state (client_step In_Connect 5 (client_run [(In_ManualDisconnect, 1), (In_Background, 2), (In_Foreground, 3)]
      (new_runtime meeting_config_default))) =
   sr_state (client_run [(In_ManualDisconnect, 1), (In_Background, 2), (In_Foreground, 3)]
      (new_runtime meeting_config_default))"
  by (rule hang_up_then_background_locks_out) simp

section \<open>Answers to frames\<close>

text \<open>A client answers a ping with one pong of the current time and a key epoch with one acknowledgement
  of exactly that epoch, the latter unless a required signature is missing; the comparison with the current
  epoch never refuses one, so an epoch older than the current one is acknowledged as well. No other frame is
  answered.\<close>

theorem frame_answers:
  "fst (on_frame frame now rt) = (case frame of
     PF_Ping _ \<Rightarrow> [PF_Pong now]
   | PF_E2eeKeyEpoch m \<Rightarrow>
       if has_required_signature (km_signature m) (sr_state rt)
       then [PF_KeyRotationAck \<lparr>kk_ack_epoch = km_epoch m,
               kk_participant_id = resolved_participant_id rt, kk_sent_at_ms = now\<rparr>]
       else []
   | _ \<Rightarrow> [])"
proof (cases frame)
  case (PF_E2eeKeyEpoch m)
  have kept: "ss_config (enforce_e2ee_epoch_policy st now) = ss_config st" for st
    by (simp add: enforce_e2ee_epoch_policy_def policy_reject_def clear_error_if_matching_def Let_def)
  have le: "i_le (km_epoch m) (i_max e (km_epoch m))" for e
    by (auto simp: i_max_def i_le_def)
  have config: "ss_config (policy_reject st now c x) = ss_config st" for st c x
    by (simp add: policy_reject_def Let_def)
  show ?thesis
    by (auto simp: PF_E2eeKeyEpoch on_frame_def acknowledge_key_epoch_def reduce_def reduce_frame_def
        reduce_key_epoch_def Let_def kept le config has_required_signature_def split: option.split)
qed (simp_all add: on_frame_def Let_def)

section \<open>Recovery\<close>

lemma recovered_fallback:
  "ss_fallback (reduce st Ev_FallbackRecovered now) = (ss_fallback st)\<lparr>fb_active := False, fb_reason := None,
     fb_recovered_at_ms := Some now,
     fb_last_rto_ms := map_option (\<lambda>at. i_max (now - at) 0) (fb_activated_at_ms (ss_fallback st))\<rparr>"
  by (simp add: reduce_def reduce_fallback_recovered_def Let_def)

text \<open>A recovery leaves the activation time in place and a policy failure only sets it when there is none:
  the recovery time reported after a second fallback is measured from the first one.\<close>

theorem recovery_time_counts_from_first_fallback:
  assumes "fb_activated_at_ms (ss_fallback st) = Some t0" and "cfg_prefer_web_fallback (ss_config st)"
  shows "fb_last_rto_ms (ss_fallback (reduce (policy_reject (reduce st Ev_FallbackRecovered t1) t2 code message)
      Ev_FallbackRecovered t3)) = Some (i_max (t3 - t0) 0)"
  using assms unfolding recovered_fallback
  by (simp add: policy_reject_def Let_def engage_fallback_def recovered_fallback)

lemma recovery_time_counts_from_first_fallback_witness:
  "fb_last_rto_ms (ss_fallback (reduce (policy_reject (reduce
      (policy_reject (initial_state meeting_config_default) 100 ''a'' ''m'')
      Ev_FallbackRecovered 200) 5000 ''b'' ''m'') Ev_FallbackRecovered 5010)) = Some 4910"
proof -
  let ?st = "policy_reject (initial_state meeting_config_default) 100 ''a'' ''m''"
  have "fb_activated_at_ms (ss_fallback ?st) = Some 100" by code_simp
  moreover have "cfg_prefer_web_fallback (ss_config ?st)" by code_simp
  moreover have "i_max (5010 - 100 :: i64) 0 = 4910" by code_simp
  ultimately show ?thesis using recovery_time_counts_from_first_fallback [of ?st 100 200 5000 _ _ 5010] by metis
qed

section \<open>The participant id\<close>

definition plain_id_char :: "char \<Rightarrow> bool" where
  \<comment> \<open>a lower-case letter, a digit, a hyphen or an underscore\<close>
  "plain_id_char c \<longleftrightarrow> 97 \<le> byte_of c \<and> byte_of c \<le> 122 \<or> 48 \<le> byte_of c \<and> byte_of c \<le> 57
     \<or> byte_of c = 45 \<or> byte_of c = 95"

lemma id_char_plain:
  "ch \<in> set (char_to_lowercase c) \<Longrightarrow> id_char ch = Some b \<Longrightarrow> plain_id_char (char_of b)"
  by (auto simp: char_to_lowercase_def id_char_def is_ascii_alphanumeric_def plain_id_char_def
      is_whitespace_def split: if_splits)

lemma default_id_plain: "list_all plain_id_char ''participant''"
  by code_simp

lemma normalized_plain:
  "normalize_participant_id raw \<noteq> [] \<and> list_all plain_id_char (normalize_participant_id raw)"
proof -
  have "list_all plain_id_char (map char_of (List.map_filter id_char (concat (map char_to_lowercase base))))" for base
    by (auto simp: list_all_iff List.map_filter_def dest: id_char_plain)
  then show ?thesis
    unfolding normalize_participant_id_def Let_def using default_id_plain by auto
qed

text \<open>The id a client introduces itself with is never empty and consists of lower-case letters, digits,
  hyphens and underscores, whatever name was configured.\<close>

theorem participant_id_form:
  "normalize_participant_id raw \<noteq> [] \<and> list_all plain_id_char (normalize_participant_id raw)"
  by (rule normalized_plain)

lemma plain_fixed:
  assumes "list_all plain_id_char s" and "s \<noteq> []"
  shows "normalize_participant_id s = s"
proof -
  have ascii: "is_ascii s"
    using assms(1) by (auto simp: is_ascii_def list_all_iff plain_id_char_def)
  have space: "\<not> is_whitespace (byte_of c)" if "c \<in> set s" for c
    using assms(1) that by (auto simp: list_all_iff plain_id_char_def is_whitespace_def)
  have "dropWhile is_whitespace (map byte_of t) = map byte_of t" if "set t \<subseteq> set s" for t
    using that space by (cases t) auto
  from this [of s] this [of "rev s"] have trim: "trim_chars (chars s) = map byte_of s"
    by (simp add: trim_chars_def chars_ascii [OF ascii] rev_map)
  have "List.map_filter id_char (concat (map char_to_lowercase (map byte_of t))) = map byte_of t"
    if "list_all plain_id_char t" for t
    using that
    by (induction t) (auto simp: plain_id_char_def char_to_lowercase_def id_char_def is_ascii_alphanumeric_def
        List.map_filter_def)
  from this [OF assms(1)] show ?thesis
    using assms(2) by (simp add: normalize_participant_id_def Let_def trim comp_def)
qed

text \<open>Normalising is idempotent: the id a client sends is the id it gets when it is configured with it.\<close>

theorem participant_id_stable:
  "normalize_participant_id (normalize_participant_id raw) = normalize_participant_id raw"
  by (rule plain_fixed) (simp_all add: normalized_plain)

end
