(* ===== verification/Cli_Telemetry.thy ===== *)
theory Cli_Telemetry
  imports Prelude "HOL-Library.Product_Lexorder"
begin

text \<open>
  The media telemetry of the conference client (\<^verbatim>\<open>crates/kaigi-cli/src/main.rs\<close>): packet flows with loss and
  jitter, round-trip samples, the choice of an adaptive profile, the quality classes and scores, the history,
  the order of the feeds, and the settings of the ASCII view (themes, density, boost). Plain arithmetic on
  words wraps, as in a release build.
\<close>

section \<open>Flows\<close>

record flow_telemetry =
  fl_window_start_ms :: u64
  fl_window_count :: u32
  fl_rate_per_sec :: u32
  fl_total :: u64
  fl_last_at_ms :: u64
  fl_last_seq :: "u64 option"
  fl_missing_packets :: u64
  fl_sequence_packets :: u64
  fl_jitter_ewma_ms :: u64
  fl_last_arrival_ms :: u64

definition flow_default :: flow_telemetry where
  "flow_default = \<lparr>fl_window_start_ms = 0, fl_window_count = 0, fl_rate_per_sec = 0, fl_total = 0, fl_last_at_ms = 0,
     fl_last_seq = None, fl_missing_packets = 0, fl_sequence_packets = 0, fl_jitter_ewma_ms = 0,
     fl_last_arrival_ms = 0\<rparr>"

definition record_flow_telemetry :: "u64 \<Rightarrow> flow_telemetry \<Rightarrow> flow_telemetry" where
  "record_flow_telemetry at_ms flow =
     (let flow = flow\<lparr>fl_total := sat_add (fl_total flow) 1, fl_last_at_ms := at_ms,
            fl_window_start_ms := (if fl_window_start_ms flow = 0 then at_ms else fl_window_start_ms flow),
            fl_window_count := sat_add (fl_window_count flow) 1\<rparr>;
          elapsed_ms = sat_sub at_ms (fl_window_start_ms flow) in
      if elapsed_ms \<ge> 1000
      then flow\<lparr>fl_rate_per_sec := of_nat (min ((unat (fl_window_count flow) * 1000) div max (unat elapsed_ms) 1)
                  (2 ^ 32 - 1)),
             fl_window_count := 0, fl_window_start_ms := at_ms\<rparr>
      else flow)"

definition abs_diff :: "u64 \<Rightarrow> u64 \<Rightarrow> u64" where
  "abs_diff a b = (if a \<le> b then b - a else a - b)"

definition seq_gap :: "u64 option \<Rightarrow> u64 \<Rightarrow> u64" where
  \<comment> \<open>the packets counted as missing when \<open>seq\<close> follows \<open>last_seq\<close>\<close>
  "seq_gap last_seq seq = (case last_seq of
     None \<Rightarrow> 0
   | Some last_seq \<Rightarrow> if seq > sat_add last_seq 1 then sat_sub (sat_sub seq last_seq) 1 else 0)"

definition record_jitter :: "u64 \<Rightarrow> u64 \<Rightarrow> flow_telemetry \<Rightarrow> flow_telemetry" where
  "record_jitter at_ms expected_interval_ms flow =
     (if fl_last_arrival_ms flow \<noteq> 0 \<and> expected_interval_ms > 0
      then (let gap = sat_sub at_ms (fl_last_arrival_ms flow); jitter = abs_diff gap expected_interval_ms in
        flow\<lparr>fl_jitter_ewma_ms := (if fl_jitter_ewma_ms flow = 0 then jitter
               else (sat_mul (fl_jitter_ewma_ms flow) 7 + jitter) div 8)\<rparr>)
      else flow)"

definition record_rx_sequence_telemetry :: "u64 \<Rightarrow> u64 \<Rightarrow> u64 \<Rightarrow> flow_telemetry \<Rightarrow> flow_telemetry" where
  "record_rx_sequence_telemetry seq at_ms expected_interval_ms flow =
     (let flow = record_flow_telemetry at_ms flow;
          flow = flow\<lparr>fl_sequence_packets := sat_add (fl_sequence_packets flow) 1,
            fl_missing_packets := sat_add (fl_missing_packets flow) (seq_gap (fl_last_seq flow) seq)\<rparr>;
          flow = record_jitter at_ms expected_interval_ms flow in
      flow\<lparr>fl_last_seq := (case fl_last_seq flow of None \<Rightarrow> Some seq
             | Some last_seq \<Rightarrow> if seq > last_seq then Some seq else Some last_seq),
           fl_last_arrival_ms := at_ms\<rparr>)"

definition loss_share :: "u64 \<Rightarrow> flow_telemetry \<Rightarrow> u64" where
  \<comment> \<open>\<open>missing.saturating_mul(scale).checked_div(total).unwrap_or(0)\<close>\<close>
  "loss_share scale flow =
     (let total = sat_add (fl_sequence_packets flow) (fl_missing_packets flow) in
      if total = 0 then 0 else sat_mul (fl_missing_packets flow) scale div total)"

definition render_loss_percent :: "flow_telemetry \<Rightarrow> string" where
  "render_loss_percent flow =
     (if sat_add (fl_sequence_packets flow) (fl_missing_packets flow) = 0 then ''--''
      else let tenths = loss_share 1000 flow in dec64 (tenths div 10) @ ''.'' @ dec64 (tenths mod 10) @ [CHR 0x25])"

definition render_jitter_ms :: "flow_telemetry \<Rightarrow> string" where
  "render_jitter_ms flow = (if fl_sequence_packets flow = 0 then ''--'' else dec64 (fl_jitter_ewma_ms flow) @ ''ms'')"

definition flow_age_ms :: "flow_telemetry \<Rightarrow> u64 \<Rightarrow> u64" where
  "flow_age_ms flow now_ms = (if fl_last_at_ms flow = 0 then - 1 else sat_sub now_ms (fl_last_at_ms flow))"

definition render_flow_age :: "u64 \<Rightarrow> string" where
  "render_flow_age age_ms = (if age_ms = - 1 then ''--'' else dec64 age_ms @ ''ms'')"

section \<open>The conference\<close>

record conference_telemetry =
  ct_rx_video :: flow_telemetry
  ct_rx_audio :: flow_telemetry
  ct_tx_video :: flow_telemetry
  ct_tx_audio :: flow_telemetry
  ct_ui_render :: flow_telemetry
  ct_rtt_last_ms :: u64
  ct_rtt_ewma_ms :: u64
  ct_rtt_samples :: u64
  ct_adaptive_video_interval_ms :: u64
  ct_adaptive_video_quantizer :: u8
  ct_adaptive_audio_interval_ms :: u64
  ct_adaptive_audio_gain_permille :: u16
  ct_adaptive_level :: u8
  ct_adaptive_manual :: bool
  ct_quality_history :: "u8 list"
  ct_quality_history_last_ms :: u64

definition conference_telemetry_default :: conference_telemetry where
  "conference_telemetry_default = \<lparr>ct_rx_video = flow_default, ct_rx_audio = flow_default, ct_tx_video = flow_default,
     ct_tx_audio = flow_default, ct_ui_render = flow_default, ct_rtt_last_ms = 0, ct_rtt_ewma_ms = 0,
     ct_rtt_samples = 0, ct_adaptive_video_interval_ms = 0, ct_adaptive_video_quantizer = 0,
     ct_adaptive_audio_interval_ms = 0, ct_adaptive_audio_gain_permille = 0, ct_adaptive_level = 0,
     ct_adaptive_manual = False, ct_quality_history = [], ct_quality_history_last_ms = 0\<rparr>"

record participant_media_telemetry =
  pm_video :: flow_telemetry
  pm_audio :: flow_telemetry

definition participant_media_default :: participant_media_telemetry where
  "participant_media_default = \<lparr>pm_video = flow_default, pm_audio = flow_default\<rparr>"

definition record_rtt_sample :: "u64 \<Rightarrow> conference_telemetry \<Rightarrow> conference_telemetry" where
  "record_rtt_sample sample_ms telemetry = telemetry\<lparr>
     ct_rtt_last_ms := sample_ms,
     ct_rtt_samples := sat_add (ct_rtt_samples telemetry) 1,
     ct_rtt_ewma_ms := (if ct_rtt_ewma_ms telemetry = 0 then sample_ms
       else (sat_mul (ct_rtt_ewma_ms telemetry) 7 + sample_ms) div 8)\<rparr>"

definition render_rtt :: "conference_telemetry \<Rightarrow> string" where
  "render_rtt telemetry = (if ct_rtt_samples telemetry = 0 then ''--''
     else dec64 (ct_rtt_last_ms telemetry) @ ''ms/'' @ dec64 (ct_rtt_ewma_ms telemetry) @ ''ms'')"

section \<open>Adaptive profiles\<close>

definition adaptive_profile_for_level :: "u8 \<Rightarrow> u64 \<times> u8 \<times> u8" where
  "adaptive_profile_for_level level =
     (if level = 0 then (100, 20, 0) else if level = 1 then (130, 24, 1) else if level = 2 then (160, 28, 2)
      else if level = 3 then (220, 34, 3) else (100, 20, 0))"

definition adaptive_audio_profile_for_level :: "u8 \<Rightarrow> u64 \<times> u16" where
  "adaptive_audio_profile_for_level level =
     (if level = 0 then (100, 1000) else if level = 1 then (110, 920) else if level = 2 then (130, 800)
      else if level = 3 then (160, 680) else (100, 1000))"

definition choose_adaptive_video_profile :: "conference_telemetry \<Rightarrow> u64 \<times> u8 \<times> u8" where
  "choose_adaptive_video_profile telemetry =
     (let loss_pct = loss_share 100 (ct_rx_video telemetry);
          jitter_ms = fl_jitter_ewma_ms (ct_rx_video telemetry);
          rtt_ms = ct_rtt_ewma_ms telemetry in
      if loss_pct \<ge> 25 \<or> jitter_ms \<ge> 300 \<or> rtt_ms \<ge> 600 then adaptive_profile_for_level 3
      else if loss_pct \<ge> 12 \<or> jitter_ms \<ge> 180 \<or> rtt_ms \<ge> 350 then adaptive_profile_for_level 2
      else if loss_pct \<ge> 5 \<or> jitter_ms \<ge> 120 \<or> rtt_ms \<ge> 220 then adaptive_profile_for_level 1
      else adaptive_profile_for_level 0)"

definition adaptive_mode_label :: "u8 \<Rightarrow> string" where
  "adaptive_mode_label level =
     (if level = 0 then ''BOOST'' else if level = 1 then ''WARM'' else if level = 2 then ''BAL''
      else if level = 3 then ''SAFE'' else ''UNK'')"

definition adaptive_override_label :: "u8 option \<Rightarrow> string" where
  "adaptive_override_label override_level = (case override_level of None \<Rightarrow> ''AUTO'' | Some level \<Rightarrow> adaptive_mode_label level)"

definition cycle_adaptive_override :: "u8 option \<Rightarrow> u8 option" where
  "cycle_adaptive_override current =
     (if current = None then Some 0 else if current = Some 0 then Some 1 else if current = Some 1 then Some 2
      else if current = Some 2 then Some 3 else None)"

definition adaptive_override_from_shortcut :: "string \<Rightarrow> u8 option option" where
  "adaptive_override_from_shortcut input =
     (if input = ''0'' then Some None else if input = ''1'' then Some (Some 0) else if input = ''2'' then Some (Some 1)
      else if input = ''3'' then Some (Some 2) else if input = ''4'' then Some (Some 3) else None)"

section \<open>Quality\<close>

definition classify_conference_quality :: "u64 \<Rightarrow> conference_telemetry \<Rightarrow> bool \<Rightarrow> string" where
  "classify_conference_quality now_ms telemetry has_video_feed =
     (let has_any_media = (has_video_feed \<or> fl_last_at_ms (ct_rx_audio telemetry) > 0
            \<or> fl_last_at_ms (ct_tx_audio telemetry) > 0 \<or> fl_last_at_ms (ct_tx_video telemetry) > 0) in
      if \<not> has_any_media then ''IDLE''
      else if has_video_feed then
        (let flow = ct_rx_video telemetry; age = flow_age_ms flow now_ms; fps = fl_rate_per_sec flow;
             high_loss = (fl_sequence_packets flow \<ge> 8 \<and> sat_mul (fl_missing_packets flow) 100
               > sat_mul (sat_add (fl_sequence_packets flow) (fl_missing_packets flow)) 15);
             high_jitter = (fl_sequence_packets flow \<ge> 8 \<and> fl_jitter_ewma_ms flow > 260) in
         if high_loss \<or> high_jitter then ''NOISY''
         else if age \<le> 500 \<and> fps \<ge> 6 then ''NEON-GOOD''
         else if age \<le> 1400 \<and> fps \<ge> 2 then ''WARM'' else ''DEGRADED'')
      else
        (let flow = ct_rx_audio telemetry; age = flow_age_ms flow now_ms; pps = fl_rate_per_sec flow;
             high_loss = (fl_sequence_packets flow \<ge> 10 \<and> sat_mul (fl_missing_packets flow) 100
               > sat_mul (sat_add (fl_sequence_packets flow) (fl_missing_packets flow)) 20);
             high_jitter = (fl_sequence_packets flow \<ge> 10 \<and> fl_jitter_ewma_ms flow > 180) in
         if high_loss \<or> high_jitter then ''AUDIO-NOISY''
         else if age \<le> 600 \<and> pps \<ge> 6 then ''AUDIO-GOOD''
         else if age \<le> 1600 \<and> pps \<ge> 2 then ''AUDIO-WARM'' else ''AUDIO-DEGRADED''))"

definition quality_level_from_label :: "string \<Rightarrow> u8" where
  "quality_level_from_label label =
     (if label \<in> {''NEON-GOOD'', ''AUDIO-GOOD''} then 4 else if label \<in> {''WARM'', ''AUDIO-WARM''} then 3
      else if label \<in> {''NOISY'', ''AUDIO-NOISY''} then 2 else if label \<in> {''DEGRADED'', ''AUDIO-DEGRADED''} then 1
      else 0)"

definition record_quality_history_sample :: "u64 \<Rightarrow> u8 \<Rightarrow> conference_telemetry \<Rightarrow> conference_telemetry" where
  "record_quality_history_sample at_ms level telemetry =
     (if ct_quality_history_last_ms telemetry \<noteq> 0 \<and> sat_sub at_ms (ct_quality_history_last_ms telemetry) < 800
      then telemetry
      else let history = ct_quality_history telemetry @ [min level 4] in
        telemetry\<lparr>ct_quality_history_last_ms := at_ms,
          ct_quality_history := (if length history > 64 then drop (length history - 64) history else history)\<rparr>)"

definition render_quality_history :: "u8 list \<Rightarrow> nat \<Rightarrow> string" where
  "render_quality_history history width =
     (if history = [] \<or> width = 0 then ''--''
      else let last_ones = drop (length history - width) history in
        replicate (width - length last_ones) (CHR '' '') @ map (\<lambda>level. '' .:*#'' ! unat (min level 4)) last_ones)"

definition participant_quality_score :: "u64 \<Rightarrow> participant_media_telemetry \<Rightarrow> u64 \<Rightarrow> nat" where
  "participant_quality_score now_ms stats frame_age_ms =
     (let video = pm_video stats;
          total = sat_add (fl_sequence_packets video) (fl_missing_packets video);
          loss_pct = loss_share 100 video;
          score = 5 - (if frame_age_ms > 1200 then 2 else 0) - (if frame_age_ms > 2400 then 2 else 0)
            - (if total \<ge> 8 then (if loss_pct > 20 then 3 else if loss_pct > 10 then 2 else if loss_pct > 4 then 1 else 0)
               else 0)
            - (if fl_sequence_packets video \<ge> 8
               then (if fl_jitter_ewma_ms video > 260 then 2 else if fl_jitter_ewma_ms video > 140 then 1 else 0)
                 + (if fl_rate_per_sec video < 2 then 1 else 0)
               else 0)
            - (if flow_age_ms video now_ms > 2000 then 2 else 0) :: int in
      nat (max 0 (min 5 score)))"

definition render_quality_bar :: "nat \<Rightarrow> string" where
  "render_quality_bar score = ''['' @ map (\<lambda>idx. if idx < min score 5 then CHR ''#'' else CHR ''-'') [0..<5] @ '']''"

definition quality_label :: "nat \<Rightarrow> string" where
  "quality_label score =
     (if score = 5 \<or> score = 4 then ''NEON'' else if score = 3 then ''WARM'' else if score = 2 then ''NOISY''
      else if score = 1 \<or> score = 0 then ''BAD'' else ''UNK'')"

section \<open>The view\<close>

record ascii_video_frame =
  av_width :: u16
  av_height :: u16
  av_luma :: "u8 list"
  av_updated_at_ms :: u64

record conference_controls =
  cc_mic_enabled :: bool
  cc_camera_enabled :: bool
  cc_share_enabled :: bool
  cc_paused :: bool
  cc_glitch :: bool
  cc_datamosh :: bool
  cc_noise_overlay :: bool
  cc_edge_enhance :: bool
  cc_rain_overlay :: bool
  cc_luma_boost_level :: u8
  cc_advanced :: bool
  cc_help_overlay :: bool
  cc_density_idx :: nat
  cc_theme_idx :: nat
  cc_auto_theme :: bool
  cc_focus_idx :: nat
  cc_adaptive_override :: "u8 option"
  cc_sort_worst_first :: bool

definition feed_age :: "(string, ascii_video_frame) hmap \<Rightarrow> u64 \<Rightarrow> string \<Rightarrow> u64" where
  "feed_age frames now_ms pid = (case hm_get frames pid of None \<Rightarrow> 0 | Some f \<Rightarrow> sat_sub now_ms (av_updated_at_ms f))"

definition feed_score ::
    "(string, ascii_video_frame) hmap \<Rightarrow> (string, participant_media_telemetry) hmap \<Rightarrow> u64 \<Rightarrow> string \<Rightarrow> nat" where
  "feed_score frames stats now_ms pid =
     participant_quality_score now_ms (unwrap_or (hm_get stats pid) participant_media_default) (feed_age frames now_ms pid)"

definition feed_rank ::
    "(string, ascii_video_frame) hmap \<Rightarrow> (string, participant_media_telemetry) hmap \<Rightarrow> u64 \<Rightarrow> string
      \<Rightarrow> nat \<times> int \<times> string" where
  \<comment> \<open>the key of the comparison: the score, the age from old to young, the id\<close>
  "feed_rank frames stats now_ms pid = (feed_score frames stats now_ms pid, - int (unat (feed_age frames now_ms pid)), pid)"

definition sorted_feed_ids ::
    "(string, ascii_video_frame) hmap \<Rightarrow> (string, participant_media_telemetry) hmap \<Rightarrow> bool \<Rightarrow> u64 \<Rightarrow> string list" where
  "sorted_feed_ids frames stats sort_worst_first now_ms =
     (let ids = sort (hm_keys frames) in
      if sort_worst_first then sort_key (feed_rank frames stats now_ms) ids else ids)"

definition top_worst_peers ::
    "(string, ascii_video_frame) hmap \<Rightarrow> (string, participant_media_telemetry) hmap \<Rightarrow> u64 \<Rightarrow> nat \<Rightarrow> string" where
  "top_worst_peers frames stats now_ms limit =
     (if limit = 0 \<or> frames = [] then ''--''
      else join '' '' (map (\<lambda>pid. pid @ '':'' @ quality_label (feed_score frames stats now_ms pid))
        (take limit (sort_key (feed_rank frames stats now_ms) (hm_keys frames)))))"

definition sanitize_snapshot_label :: "string \<Rightarrow> string" where
  \<comment> \<open>a character outside ASCII is dropped, and so is each of its bytes\<close>
  "sanitize_snapshot_label label =
     (let alnum = (\<lambda>c. let n = byte_of c in 48 \<le> n \<and> n \<le> 57 \<or> 65 \<le> n \<and> n \<le> 90 \<or> 97 \<le> n \<and> n \<le> 122);
          out = concat (map (\<lambda>c.
            if alnum c \<or> c = CHR ''-'' \<or> c = CHR ''_'' then [ascii_lower c]
            else if c = CHR '' '' \<or> c = CHR ''/'' \<or> c = CHR '':'' then ''-'' else []) label) in
      if out = [] then ''snapshot'' else out)"

definition sort_mode_label :: "bool \<Rightarrow> string" where
  "sort_mode_label sort_worst_first = (if sort_worst_first then ''WORST'' else ''ID'')"

type_synonym rgb = "u8 \<times> u8 \<times> u8"

record dashboard_theme_colors =
  th_label :: string
  th_head :: rgb
  th_hud :: rgb
  th_hud_dim :: rgb
  th_feed_header :: rgb
  th_feed_row_even :: rgb
  th_feed_row_odd :: rgb
  th_idle_row_even :: rgb
  th_idle_row_odd :: rgb

definition DASHBOARD_THEMES :: "dashboard_theme_colors list" where
  "DASHBOARD_THEMES = [
     \<lparr>th_label = ''MATRIX'', th_head = (0, 170, 110), th_hud = (0, 130, 90), th_hud_dim = (0, 118, 82),
       th_feed_header = (0, 210, 100), th_feed_row_even = (0, 225, 120), th_feed_row_odd = (0, 255, 120),
       th_idle_row_even = (0, 140, 70), th_idle_row_odd = (0, 175, 70)\<rparr>,
     \<lparr>th_label = ''NEON-ICE'', th_head = (70, 230, 255), th_hud = (45, 170, 230), th_hud_dim = (35, 145, 205),
       th_feed_header = (125, 235, 255), th_feed_row_even = (175, 250, 255), th_feed_row_odd = (110, 220, 255),
       th_idle_row_even = (85, 180, 235), th_idle_row_odd = (70, 145, 205)\<rparr>,
     \<lparr>th_label = ''SYNTHWAVE'', th_head = (255, 80, 180), th_hud = (230, 120, 255), th_hud_dim = (200, 105, 220),
       th_feed_header = (255, 140, 220), th_feed_row_even = (255, 190, 240), th_feed_row_odd = (235, 150, 225),
       th_idle_row_even = (210, 95, 200), th_idle_row_odd = (170, 70, 165)\<rparr>,
     \<lparr>th_label = ''BLADE'', th_head = (255, 170, 70), th_hud = (240, 130, 45), th_hud_dim = (205, 112, 40),
       th_feed_header = (255, 205, 125), th_feed_row_even = (255, 220, 165), th_feed_row_odd = (240, 185, 120),
       th_idle_row_even = (220, 140, 75), th_idle_row_odd = (190, 115, 62)\<rparr>]"

definition dashboard_theme :: "nat \<Rightarrow> dashboard_theme_colors" where
  "dashboard_theme theme_idx = DASHBOARD_THEMES ! (theme_idx mod length DASHBOARD_THEMES)"

definition dashboard_theme_label :: "nat \<Rightarrow> string" where
  "dashboard_theme_label theme_idx = th_label (dashboard_theme theme_idx)"

definition cycle_dashboard_theme :: "nat \<Rightarrow> nat" where
  \<comment> \<open>on a \<open>usize\<close> below the number of themes the sum does not overflow\<close>
  "cycle_dashboard_theme current = (current + 1) mod length DASHBOARD_THEMES"

definition usize_max :: nat where
  "usize_max = 2 ^ 64 - 1"

definition resolve_theme_index :: "nat \<Rightarrow> bool \<Rightarrow> u64 \<Rightarrow> nat" where
  "resolve_theme_index base_theme_idx auto_theme tick =
     (if auto_theme then min usize_max (base_theme_idx + unat (tick div 24)) else base_theme_idx)"

definition luma_boost_permille :: "u8 \<Rightarrow> u16" where
  "luma_boost_permille level =
     (if level = 0 then 900 else if level = 1 then 1000 else if level = 2 then 1200 else if level = 3 then 1450 else 1000)"

definition luma_boost_label :: "u8 \<Rightarrow> string" where
  "luma_boost_label level =
     (if level = 0 then ''DIM'' else if level = 1 then ''NORM'' else if level = 2 then ''HOT''
      else if level = 3 then ''MAX'' else ''NORM'')"

definition cycle_luma_boost_level :: "u8 \<Rightarrow> u8" where
  "cycle_luma_boost_level current =
     (if current = 0 then 1 else if current = 1 then 2 else if current = 2 then 3 else 0)"

definition pulse_channel :: "u8 \<Rightarrow> u16 \<Rightarrow> u8" where
  "pulse_channel c bump = of_nat (min (unat (sat_add (of_nat (unat c)) bump)) 255)"

definition pulse_rgb :: "rgb \<Rightarrow> int \<Rightarrow> u8 \<Rightarrow> rgb" where
  \<comment> \<open>\<open>pulse\<close> is an \<open>i32\<close>; the cast to \<open>u16\<close> keeps its low 16 bits\<close>
  "pulse_rgb base pulse step =
     (let bump = sat_mul (of_nat (unat step)) (of_int (max pulse 0)) :: u16 in
      case base of (r, g, b) \<Rightarrow> (pulse_channel r bump, pulse_channel g bump, pulse_channel b bump))"

definition density_label :: "nat \<Rightarrow> string" where
  "density_label density_idx =
     (if density_idx = 0 then ''LITE'' else if density_idx = 1 then ''GRID'' else if density_idx = 2 then ''ULTRA''
      else if density_idx = 3 then ''BOLD'' else if density_idx = 4 then ''CHROME'' else ''LITE'')"

definition cycle_density_idx :: "nat \<Rightarrow> nat" where
  "cycle_density_idx current = (if current \<ge> 4 then 0 else current + 1)"

definition bar :: "nat \<Rightarrow> nat \<Rightarrow> string" where
  "bar width fill = ''['' @ map (\<lambda>idx. if idx < fill then CHR ''#'' else CHR ''.'') [0..<width] @ '']''"

definition render_boot_bar :: "nat \<Rightarrow> nat \<Rightarrow> string" where
  "render_boot_bar width fill = bar width (min fill width)"

definition render_audio_meter :: "u16 \<Rightarrow> nat \<Rightarrow> string" where
  "render_audio_meter rms width = bar width (min usize_max (min (unat rms) 2400 * width) div 2400)"

end
