(* ===== verification/Cli_Telemetry_Safety.thy ===== *)
theory Cli_Telemetry_Safety
  imports Cli_Telemetry "HOL-Library.Multiset"
begin

text \<open>
  What the telemetry measures: exact counts for one sender, phantom losses for two, bounded round-trip averages
  and history, an adaptive profile that only gets slower as the network gets worse, a sorted feed order.
\<close>

section \<open>Counting packets\<close>

definition rx_run :: "(u64 \<times> u64) list \<Rightarrow> flow_telemetry \<Rightarrow> flow_telemetry" where
  \<comment> \<open>packets, each with its sequence number and its time\<close>
  "rx_run packets flow = fold (\<lambda>(seq, at_ms). record_rx_sequence_telemetry seq at_ms 100) packets flow"

lemma record_flow_fields [simp]:
  "fl_sequence_packets (record_flow_telemetry at_ms flow) = fl_sequence_packets flow"
  "fl_missing_packets (record_flow_telemetry at_ms flow) = fl_missing_packets flow"
  "fl_last_seq (record_flow_telemetry at_ms flow) = fl_last_seq flow"
  "fl_jitter_ewma_ms (record_flow_telemetry at_ms flow) = fl_jitter_ewma_ms flow"
  "fl_last_arrival_ms (record_flow_telemetry at_ms flow) = fl_last_arrival_ms flow"
  "fl_last_at_ms (record_flow_telemetry at_ms flow) = at_ms"
  by (simp_all add: record_flow_telemetry_def Let_def)

lemma record_jitter_fields [simp]:
  "fl_sequence_packets (record_jitter at_ms i flow) = fl_sequence_packets flow"
  "fl_missing_packets (record_jitter at_ms i flow) = fl_missing_packets flow"
  "fl_last_seq (record_jitter at_ms i flow) = fl_last_seq flow"
  by (simp_all add: record_jitter_def Let_def)

lemma record_rx_fields [simp]:
  "fl_sequence_packets (record_rx_sequence_telemetry seq at_ms i flow) = sat_add (fl_sequence_packets flow) 1"
  "fl_missing_packets (record_rx_sequence_telemetry seq at_ms i flow)
    = sat_add (fl_missing_packets flow) (seq_gap (fl_last_seq flow) seq)"
  "fl_last_seq (record_rx_sequence_telemetry seq at_ms i flow) = (case fl_last_seq flow of None \<Rightarrow> Some seq
    | Some last_seq \<Rightarrow> if seq > last_seq then Some seq else Some last_seq)"
  by (simp_all add: record_rx_sequence_telemetry_def Let_def)

lemma unat_seq_gap: "last_seq < seq \<Longrightarrow> unat (seq_gap (Some last_seq) seq) = unat seq - unat last_seq - 1"
proof -
  assume less: "last_seq < seq"
  have "unat (sat_add last_seq 1) = unat last_seq + 1"
    using less unat_lt2p [of seq] by (simp add: unat_sat_add word_less_nat_alt)
  then show ?thesis
    using less by (simp add: seq_gap_def unat_sat_sub word_less_nat_alt)
qed

definition counted :: "flow_telemetry \<Rightarrow> nat" where
  "counted flow = unat (fl_sequence_packets flow) + unat (fl_missing_packets flow)"

lemma counted_step:
  assumes "fl_last_seq flow = Some last_seq" and "last_seq < seq" and "counted flow + unat seq - unat last_seq < 2 ^ 64"
  shows "counted (record_rx_sequence_telemetry seq at_ms i flow) = counted flow + unat seq - unat last_seq
    \<and> fl_last_seq (record_rx_sequence_telemetry seq at_ms i flow) = Some seq"
proof -
  have less: "unat last_seq < unat seq"
    using assms(2) by (simp add: word_less_nat_alt)
  then show ?thesis
    using assms unat_seq_gap [OF assms(2)] by (simp add: counted_def unat_sat_add)
qed

lemma counted_run:
  assumes "fl_last_seq flow = Some first" and "sorted_wrt (<) (first # map fst packets)"
    and "counted flow + unat (last (first # map fst packets)) - unat first < 2 ^ 64"
  shows "counted (rx_run packets flow) = counted flow + unat (last (first # map fst packets)) - unat first"
  using assms
proof (induction packets arbitrary: flow first)
  case Nil
  then show ?case by (simp add: rx_run_def)
next
  case (Cons p packets)
  obtain seq at_ms where p: "p = (seq, at_ms)" by (cases p)
  let ?final = "last (seq # map fst packets)"
  have lt: "first < seq" and sorted: "sorted_wrt (<) (seq # map fst packets)"
    using Cons.prems(2) by (auto simp: p)
  have "seq \<le> ?final"
    using sorted by (cases packets rule: rev_cases) (auto simp: less_imp_le)
  then have le: "unat first < unat seq" "unat seq \<le> unat ?final"
    using lt by (simp_all add: word_less_nat_alt word_le_nat_alt)
  moreover have bound: "counted flow + unat ?final - unat first < 2 ^ 64"
    using Cons.prems(3) by (simp add: p)
  ultimately have step: "counted (record_rx_sequence_telemetry seq at_ms 100 flow) = counted flow + unat seq - unat first"
    "fl_last_seq (record_rx_sequence_telemetry seq at_ms 100 flow) = Some seq"
    using counted_step [OF Cons.prems(1) lt, of at_ms 100] by linarith+
  have "counted (rx_run packets (record_rx_sequence_telemetry seq at_ms 100 flow))
    = counted (record_rx_sequence_telemetry seq at_ms 100 flow) + unat ?final - unat seq"
    using le bound by (intro Cons.IH [OF step(2) sorted]) (simp add: step(1))
  then show ?case
    using le by (simp add: rx_run_def p step(1))
qed

text \<open>For one sender the count is exact: when packets of one sender arrive in increasing order, starting from
  a fresh flow, received and missing packets together are the numbers from the first to the last one.\<close>

theorem one_sender_counted:
  assumes "sorted_wrt (<) (first # map fst packets)"
    and "unat (last (first # map fst packets)) - unat first + 1 < 2 ^ 64"
  shows "counted (rx_run ((first, at_ms) # packets) flow_default)
    = unat (last (first # map fst packets)) - unat first + 1"
proof -
  let ?flow = "record_rx_sequence_telemetry first at_ms 100 flow_default"
  have flow: "counted ?flow = 1" "fl_last_seq ?flow = Some first"
    by (simp_all add: counted_def flow_default_def seq_gap_def sat_add_def)
  have "first \<le> last (first # map fst packets)"
    using assms(1) by (cases packets rule: rev_cases) (auto simp: less_imp_le)
  then have le: "unat first \<le> unat (last (first # map fst packets))"
    by (simp add: word_le_nat_alt)
  then have "counted (rx_run packets ?flow) = 1 + unat (last (first # map fst packets)) - unat first"
    using assms(2) flow(1) by (subst counted_run [OF flow(2) assms(1)]) simp_all
  then show ?thesis
    using le by (simp add: rx_run_def)
qed

theorem one_sender_counted_witness:
  "counted (rx_run ((5, 1000) # [(6, 1100), (9, 1300)]) flow_default)
     = unat (last (5 # map fst [(6 :: u64, 1100 :: u64), (9, 1300)])) - unat (5 :: u64) + 1"
  by (rule one_sender_counted) simp_all

text \<open>Two senders share one count, and neither needs to lose anything for it to report a loss: after a packet
  of one sender, a packet of another whose numbers are further on counts the difference as missing packets.\<close>

theorem two_senders_phantom_loss:
  assumes "fl_last_seq flow = Some a" and "a < b" and "unat (fl_missing_packets flow) + (unat b - unat a) \<le> 2 ^ 64"
  shows "unat (fl_missing_packets (record_rx_sequence_telemetry b at_ms i flow))
    = unat (fl_missing_packets flow) + (unat b - unat a - 1)"
  using assms unat_seq_gap [OF assms(2)] by (simp add: unat_sat_add word_less_nat_alt)

theorem two_senders_phantom_loss_witness:
  "unat (fl_missing_packets (record_rx_sequence_telemetry 1000 2000 100
     (record_rx_sequence_telemetry 1 1900 100 flow_default))) = 998"
  using two_senders_phantom_loss [of "record_rx_sequence_telemetry 1 1900 100 flow_default" 1 1000 2000 100]
  by (simp add: flow_default_def seq_gap_def sat_add_def)

section \<open>Round trips\<close>

lemma ewma_bound:
  assumes "unat (old :: u64) \<le> m" and "unat sample \<le> m" and "8 * m < 2 ^ 64"
  shows "unat ((sat_mul old 7 + sample) div 8) \<le> m"
proof -
  have "unat (sat_mul old 7) \<le> 7 * m"
    using assms(1) by (simp add: unat_sat_mul min_le_iff_disj)
  moreover from this have "unat (sat_mul old 7 + sample) = unat (sat_mul old 7) + unat sample"
    using assms(2,3) by (intro unat_add_no_overflow) simp
  ultimately have "unat (sat_mul old 7 + sample) \<le> 8 * m"
    using assms(2) by linarith
  then show ?thesis
    by (simp add: unat_div)
qed

text \<open>The average round trip stays within the samples: the reader admits samples up to a minute, so from the
  start no sequence of them drives the average above a minute, and its arithmetic never overflows.\<close>

theorem rtt_average_bounded:
  "list_all (\<lambda>sample. sample \<le> 60000) samples \<Longrightarrow>
     ct_rtt_ewma_ms (fold record_rtt_sample samples conference_telemetry_default) \<le> 60000"
proof -
  have "ct_rtt_ewma_ms tel \<le> 60000 \<Longrightarrow> list_all (\<lambda>sample. sample \<le> 60000) samples \<Longrightarrow>
    ct_rtt_ewma_ms (fold record_rtt_sample samples tel) \<le> 60000" for tel
  proof (induction samples arbitrary: tel)
    case (Cons s samples)
    have "unat ((sat_mul (ct_rtt_ewma_ms tel) 7 + s) div 8) \<le> 60000"
      using Cons.prems by (intro ewma_bound) (simp_all add: word_le_nat_alt)
    then show ?case
      using Cons by (simp add: record_rtt_sample_def word_le_nat_alt)
  qed simp
  then show "list_all (\<lambda>sample. sample \<le> 60000) samples \<Longrightarrow> ?thesis"
    by (simp add: conference_telemetry_default_def)
qed

theorem rtt_average_bounded_witness:
  "ct_rtt_ewma_ms (fold record_rtt_sample [60000, 1, 60000] conference_telemetry_default) \<le> 60000"
  by (rule rtt_average_bounded) simp

section \<open>Profiles, history, order\<close>

definition profile_level :: "u64 \<times> u8 \<times> u8 \<Rightarrow> u8" where
  "profile_level = (\<lambda>(_, _, level). level)"

definition beyond :: "u64 \<Rightarrow> u64 \<Rightarrow> u64 \<Rightarrow> conference_telemetry \<Rightarrow> bool" where
  \<comment> \<open>one of the three measures has reached its limit\<close>
  "beyond l j r tel \<longleftrightarrow> l \<le> loss_share 100 (ct_rx_video tel) \<or> j \<le> fl_jitter_ewma_ms (ct_rx_video tel)
     \<or> r \<le> ct_rtt_ewma_ms tel"

lemma choose_beyond:
  "choose_adaptive_video_profile tel = adaptive_profile_for_level
     (if beyond 25 300 600 tel then 3 else if beyond 12 180 350 tel then 2 else if beyond 5 120 220 tel then 1 else 0)"
  by (simp add: choose_adaptive_video_profile_def beyond_def Let_def)

text \<open>A worse network never gets a faster profile: if loss, jitter and round trip are all at least as high,
  then so are the level and the interval between the frames that are sent.\<close>

theorem adaptive_profile_monotone:
  assumes "loss_share 100 (ct_rx_video a) \<le> loss_share 100 (ct_rx_video b)"
    and "fl_jitter_ewma_ms (ct_rx_video a) \<le> fl_jitter_ewma_ms (ct_rx_video b)"
    and "ct_rtt_ewma_ms a \<le> ct_rtt_ewma_ms b"
  shows "profile_level (choose_adaptive_video_profile a) \<le> profile_level (choose_adaptive_video_profile b)
    \<and> fst (choose_adaptive_video_profile a) \<le> fst (choose_adaptive_video_profile b)"
proof -
  have "beyond l j r a \<Longrightarrow> beyond l j r b" for l j r
    using assms by (auto simp: beyond_def intro: order_trans)
  then show ?thesis
    by (auto simp: choose_beyond adaptive_profile_for_level_def profile_level_def)
qed

theorem adaptive_profile_monotone_witness:
  "profile_level (choose_adaptive_video_profile conference_telemetry_default)
     \<le> profile_level (choose_adaptive_video_profile (conference_telemetry_default\<lparr>ct_rtt_ewma_ms := 400\<rparr>))
   \<and> fst (choose_adaptive_video_profile conference_telemetry_default)
     \<le> fst (choose_adaptive_video_profile (conference_telemetry_default\<lparr>ct_rtt_ewma_ms := 400\<rparr>))"
  by (rule adaptive_profile_monotone) (simp_all add: conference_telemetry_default_def)

definition history_ok :: "conference_telemetry \<Rightarrow> bool" where
  "history_ok tel \<longleftrightarrow> length (ct_quality_history tel) \<le> 64 \<and> list_all (\<lambda>level. level \<le> 4) (ct_quality_history tel)"

lemma history_kept: "history_ok tel \<Longrightarrow> history_ok (record_quality_history_sample at_ms level tel)"
proof -
  assume ok: "history_ok tel"
  have "list_all P xs \<Longrightarrow> list_all P (drop n xs)" for P n and xs :: "u8 list"
    by (auto simp: list_all_iff dest: in_set_dropD)
  moreover have "list_all (\<lambda>level. level \<le> 4) (ct_quality_history tel @ [min level 4])"
    using ok by (simp add: history_ok_def)
  ultimately show ?thesis
    using ok by (auto simp: history_ok_def record_quality_history_sample_def Let_def)
qed

lemma sorted_feed_ids_perm:
  "mset (sorted_feed_ids frames stats worst now_ms) = mset (hm_keys frames)"
  by (simp add: sorted_feed_ids_def Let_def)

text \<open>The order of the feeds does not depend on the order of the hash map, and in the worst-first order a feed
  stands before another only if its score is at most as high.\<close>

theorem worst_feeds_first:
  "sorted (map (feed_score frames stats now_ms) (sorted_feed_ids frames stats True now_ms))
   \<and> mset (sorted_feed_ids frames stats True now_ms) = mset (hm_keys frames)"
proof -
  have "sorted (map (feed_rank frames stats now_ms) (sorted_feed_ids frames stats True now_ms))"
    by (simp add: sorted_feed_ids_def Let_def)
  then have "sorted_wrt (\<lambda>a b. feed_rank frames stats now_ms a \<le> feed_rank frames stats now_ms b)
      (sorted_feed_ids frames stats True now_ms)"
    by (simp add: sorted_map)
  then have "sorted_wrt (\<lambda>a b. feed_score frames stats now_ms a \<le> feed_score frames stats now_ms b)
      (sorted_feed_ids frames stats True now_ms)"
    by (rule sorted_wrt_mono_rel [rotated]) (auto simp: feed_rank_def less_eq_prod_def)
  then show ?thesis
    by (simp add: sorted_feed_ids_perm sorted_map)
qed

end
