(* ===== verification/Cli_View.thy ===== *)
theory Cli_View
  imports Cli_Telemetry
begin

text \<open>
  What the command line client draws (\<^verbatim>\<open>crates/kaigi-cli/src/main.rs\<close>): a video frame as lines of characters, the
  idle pattern, the dashboard of a conference, the boot screen, the player \<open>ascii-play\<close> with its keys, and the text of
  a snapshot. Output is the text that is printed; sizes and ticks are small enough that a \<open>usize\<close> is a \<open>nat\<close>, except
  where the source saturates or wraps on a tick.
\<close>

section \<open>Frames as characters\<close>

definition ascii_density_shades :: "nat \<Rightarrow> string" where
  "ascii_density_shades density_idx =
     (if density_idx = 1 then '' .,:;irsXA253hMHGS#9B&@''
      else if density_idx = 2
      then '' .'' @ [CHR 0x27, CHR 0x60, CHR 0x5E, CHR 0x22] @ '',:;Il!i~+_-?][}{1)(|'' @ [CHR 0x5C] @
        ''/*tfjrxnuvczXYUJCLQ0OZmwqpdbkhao*#MW&8%B@$''
      else if density_idx = 3 then '' .-:=+*#%@''
      else if density_idx = 4 then '' .'' @ [CHR 0x60] @ ''-~:+=*#%@''
      else '' .:-=+*#%@'')"

definition row_tick :: "nat \<Rightarrow> u64 \<Rightarrow> nat" where
  \<comment> \<open>\<open>n + tick as usize\<close>, which wraps\<close>
  "row_tick n tick = unat (of_nat n + tick)"

definition mosh_shift :: "bool \<Rightarrow> nat \<Rightarrow> nat \<Rightarrow> u64 \<Rightarrow> int" where
  "mosh_shift datamosh src_w y tick =
     (if datamosh \<and> src_w > 0
      then (let base = int (unat (sat_mul (sat_add tick (sat_mul (of_nat y) 3)) 5) mod 9) - 4 in
        if row_tick y tick mod 5 = 0 then base * 2 else base)
      else 0)"

definition pixel_or :: "u8 list \<Rightarrow> nat \<Rightarrow> nat \<Rightarrow> nat" where
  \<comment> \<open>\<open>luma.get(idx).copied().unwrap_or(d)\<close>\<close>
  "pixel_or luma idx d = (if idx < length luma then unat (luma ! idx) else d)"

definition edge_mapped :: "ascii_video_frame \<Rightarrow> nat \<Rightarrow> nat \<Rightarrow> nat \<Rightarrow> nat" where
  "edge_mapped frame sx sy px =
     (let src_w = unat (av_width frame); src_h = unat (av_height frame);
          right = pixel_or (av_luma frame) (sy * src_w + min (sx + 1) (src_w - 1)) px;
          down = pixel_or (av_luma frame) (min (sy + 1) (src_h - 1) * src_w + sx) px;
          diff = (\<lambda>a b. if a \<le> b then b - a else a - b);
          edge = min (diff px right + diff px down) 255 in
      (px * 3 + edge * 5) div 8)"

definition shade_index :: "bool \<Rightarrow> nat \<Rightarrow> nat \<Rightarrow> nat \<Rightarrow> u64 \<Rightarrow> nat \<Rightarrow> nat" where
  \<comment> \<open>the shade of a boosted pixel at column \<open>x\<close> of line \<open>y\<close>\<close>
  "shade_index glitch shade_len x y tick boosted =
     (let idx = boosted * (shade_len - 1) div 255;
          idx = (if glitch \<and> row_tick (x + y) tick mod 29 = 0 then min (idx + 2) (shade_len - 1) else idx) in
      if glitch \<and> row_tick y tick mod 6 = 0 then idx - 1 else idx)"

definition rain_char :: "bool \<Rightarrow> nat \<Rightarrow> nat \<Rightarrow> u64 \<Rightarrow> char \<Rightarrow> char" where
  "rain_char rain_overlay x y tick ch =
     (if rain_overlay
      then (let seed = sat_add (sat_add (sat_mul (of_nat x) 37) (sat_mul (of_nat y) 19)) (sat_mul tick 17) mod 97 in
        if seed \<ge> 92 then CHR ''|'' else if seed \<ge> 88 then CHR ''.'' else ch)
      else ch)"

definition noise_char :: "bool \<Rightarrow> nat \<Rightarrow> nat \<Rightarrow> u64 \<Rightarrow> char \<Rightarrow> char" where
  "noise_char noise_overlay x y tick ch =
     (if noise_overlay
      then (let seed = sat_add (sat_add (sat_mul (of_nat x) 97) (sat_mul (of_nat y) 67)) (sat_mul tick 41) mod 101 in
        if seed \<ge> 98 then CHR ''@'' else if seed \<ge> 95 then CHR ''#'' else if seed \<ge> 91 then CHR ''.'' else ch)
      else ch)"

record ascii_effects =
  ae_glitch :: bool
  ae_datamosh :: bool
  ae_noise_overlay :: bool
  ae_edge_enhance :: bool
  ae_rain_overlay :: bool

definition ascii_char :: "ascii_video_frame \<Rightarrow> string \<Rightarrow> ascii_effects \<Rightarrow> u16 \<Rightarrow> u64 \<Rightarrow> nat \<Rightarrow> nat \<Rightarrow> char" where
  "ascii_char frame shades e luma_boost tick y x =
     (let src_w = unat (av_width frame); src_h = unat (av_height frame);
          sy = y * src_h div 18;
          sx_base = x * src_w div 64;
          sx = (if src_w > 0 then nat ((int sx_base + mosh_shift (ae_datamosh e) src_w y tick) mod int src_w) else sx_base);
          px = pixel_or (av_luma frame) (sy * src_w + sx) 0;
          mapped = (if ae_edge_enhance e then edge_mapped frame sx sy px else px);
          boosted = min (mapped * unat luma_boost div 1000) 255 in
      noise_char (ae_noise_overlay e) x y tick (rain_char (ae_rain_overlay e) x y tick
        (shades ! shade_index (ae_glitch e) (max (length shades) 2) x y tick boosted)))"

definition ascii_lines_from_luma :: "ascii_video_frame \<Rightarrow> string \<Rightarrow> ascii_effects \<Rightarrow> u16 \<Rightarrow> u64 \<Rightarrow> string list" where
  "ascii_lines_from_luma frame shades e luma_boost tick =
     map (\<lambda>y. map (ascii_char frame shades e luma_boost tick y) [0..<64]) [0..<18]"

definition matrix_glyphs :: string where
  "matrix_glyphs = '' .'' @ [CHR 0x60, CHR 0x5E, CHR 0x22] @ '',:;Il!i~+_-?][}{1)(|'' @ [CHR 0x5C] @
     ''/*tfjrxnuvczXYUJCLQ0OZmwqpdbkhao*#MW&8%B@$''"

definition matrix_char :: "u64 \<Rightarrow> nat \<Rightarrow> nat \<Rightarrow> char" where
  "matrix_char tick y x =
     (let xw = of_nat x :: u64; yw = of_nat y :: u64;
          value = unat (sat_add (sat_add (sat_add (sat_mul xw 31) (sat_mul yw 17)) (sat_mul tick 13))
            (sat_mul (xor xw yw) 9) mod 100) in
      if value > 96 then matrix_glyphs ! (value mod length matrix_glyphs)
      else if value > 90 \<and> row_tick (x + y) tick mod 2 = 0 then CHR ''|''
      else if value > 80 then CHR ''.'' else CHR '' '')"

definition matrix_idle_lines :: "nat \<Rightarrow> nat \<Rightarrow> u64 \<Rightarrow> string list" where
  "matrix_idle_lines width height tick = map (\<lambda>y. map (matrix_char tick y) [0..<width]) [0..<height]"

definition generate_synthetic_luma :: "u16 \<Rightarrow> u16 \<Rightarrow> u64 \<Rightarrow> bool \<Rightarrow> u8 list" where
  \<comment> \<open>the test picture the conference sends; plain sums on \<open>u64\<close> wrap\<close>
  "generate_synthetic_luma width height tick share =
     concat (map (\<lambda>y. map (\<lambda>x.
       let v = of_nat (unat ((of_nat x * 7 + of_nat y * 13 + tick * 9 :: u64) mod 255)) :: u8;
           v = (if share then sat_add v (of_nat (unat (((of_nat y + tick) mod 16) * 8 :: u64))) else v) in
       if x mod 12 = 0 \<or> y mod 8 = 0 then sat_add v 24 else v) [0..<unat width]) [0..<unat height])"

section \<open>Colours and screens\<close>

definition paint :: "rgb \<Rightarrow> string \<Rightarrow> string" where
  \<comment> \<open>a line in a colour, with its line break\<close>
  "paint c body = (case c of (r, g, b) \<Rightarrow>
     [CHR 0x1B] @ ''[38;2;'' @ dec (unat r) @ '';'' @ dec (unat g) @ '';'' @ dec (unat b) @ ''m'' @ body @
     [CHR 0x1B] @ ''[0m'' @ [CHR 0x0A])"

definition clear_screen :: string where
  "clear_screen = [CHR 0x1B] @ ''[2J'' @ [CHR 0x1B] @ ''[H''"

definition ruler :: string where
  "ruler = ''+'' @ replicate 80 (CHR ''-'') @ ''+''"

definition paint_rows :: "rgb \<Rightarrow> rgb \<Rightarrow> string list \<Rightarrow> string" where
  \<comment> \<open>rows in two colours by turns\<close>
  "paint_rows even_row odd_row rows =
     concat (map (\<lambda>(i, row). paint (if i mod 2 = 0 then even_row else odd_row) row) (enumerate 0 rows))"

definition boot_screen :: "dashboard_theme_colors \<Rightarrow> nat \<Rightarrow> string" where
  \<comment> \<open>one step of \<open>render_tui_boot_sequence\<close>\<close>
  "boot_screen theme step =
     (let pulse = \<bar>int (step mod 8) - 4\<bar>;
          head = pulse_rgb (th_head theme) (4 - pulse) 8;
          hud = pulse_rgb (th_hud theme) (4 - pulse) 5;
          progress = dec (step * 100 div 12) in
      clear_screen @ paint head (''KAIGI ASCII LIVE :: NEON LINK INIT ['' @ th_label theme @ '']'') @
      paint hud (''booting stream core ... '' @ replicate (3 - length progress) (CHR '' '') @ progress @ [CHR 0x25]) @
      paint hud (render_boot_bar 40 (step * 40 div 12)) @
      paint hud (''entropy='' @ dec (320 + step * 9) @ ''kHz  jitter-scan='' @ dec (16 - step div 2) @
        ''ms  route=stable''))"

definition render_tui_boot_sequence :: "nat \<Rightarrow> string list" where
  "render_tui_boot_sequence theme_idx = map (boot_screen (dashboard_theme theme_idx)) [0..<13]"

definition effects_text :: "ascii_effects \<Rightarrow> string" where
  "effects_text e = '' glitch='' @ dec_bool (ae_glitch e) @ '' mosh='' @ dec_bool (ae_datamosh e) @ '' noise='' @
     dec_bool (ae_noise_overlay e) @ '' edge='' @ dec_bool (ae_edge_enhance e) @ '' rain='' @ dec_bool (ae_rain_overlay e)"

definition density_text :: "nat \<Rightarrow> u8 \<Rightarrow> string" where
  "density_text density luma_boost_level =
     '' density='' @ dec density @ ''('' @ density_label density @ '') boost='' @ luma_boost_label luma_boost_level"

definition render_ascii_play_frame ::
    "ascii_video_frame \<Rightarrow> nat \<Rightarrow> string \<Rightarrow> ascii_effects \<Rightarrow> bool \<Rightarrow> u8 \<Rightarrow> string \<Rightarrow> u64 \<Rightarrow> u16 \<Rightarrow> nat \<Rightarrow> bool \<Rightarrow> bool
      \<Rightarrow> string" where
  "render_ascii_play_frame frame theme_idx shades e auto_theme luma_boost_level source frame_no fps density looping paused =
     (let theme = dashboard_theme theme_idx;
          tick = frame_no div 2;
          pulse = int (unat (tick mod 10));
          pulse = (if pulse > 5 then 10 - pulse else pulse);
          hud = pulse_rgb (th_hud theme) pulse 5;
          hud_dim = pulse_rgb (th_hud_dim theme) pulse 4 in
      clear_screen @
      paint (pulse_rgb (th_head theme) pulse 8) (''KAIGI ASCII PLAY // '' @ th_label theme @ '' // frame='' @
        dec64 frame_no @ '' fps='' @ dec (unat fps)) @
      paint hud ruler @
      paint hud_dim (''| src='' @ source @ '' dim='' @ dec (unat (av_width frame)) @ ''x'' @ dec (unat (av_height frame)) @
        density_text density luma_boost_level @ effects_text e @ '' auto-theme='' @ dec_bool auto_theme @ '' loop='' @
        dec_bool looping @ '' pause='' @ dec_bool paused @ '' |'') @
      paint hud_dim (''| keys: c theme  t auto-theme  d density  b boost  +/- density  g glitch  j mosh  n noise  '' @
        ''e edge  r rain  k snap  p pause  q quit |'') @
      paint hud ruler @
      paint_rows (th_feed_row_even theme) (th_feed_row_odd theme)
        (ascii_lines_from_luma frame shades e (luma_boost_permille luma_boost_level) tick) @
      paint hud ruler)"

section \<open>The dashboard\<close>

record conference_audio_stat =
  cs_rms :: u16
  cs_updated_at_ms :: u64

definition effects_of :: "conference_controls \<Rightarrow> ascii_effects" where
  "effects_of c = \<lparr>ae_glitch = cc_glitch c, ae_datamosh = cc_datamosh c, ae_noise_overlay = cc_noise_overlay c,
     ae_edge_enhance = cc_edge_enhance c, ae_rain_overlay = cc_rain_overlay c\<rparr>"

definition focused_feeds ::
    "conference_controls \<Rightarrow> (string, ascii_video_frame) hmap \<Rightarrow> (string, participant_media_telemetry) hmap \<Rightarrow> u64
      \<Rightarrow> string list" where
  \<comment> \<open>the ids of the feeds, rotated to the one in focus\<close>
  "focused_feeds c frames stats now =
     (let ids = sorted_feed_ids frames stats (cc_sort_worst_first c) now in
      if ids = [] then [] else rotate (cc_focus_idx c mod length ids) ids)"

definition or_default :: "'a::zero \<Rightarrow> 'a \<Rightarrow> 'a" where
  \<comment> \<open>a setting that is 0 before the media sender has run\<close>
  "or_default x d = (if x = 0 then d else x)"

definition status_lines :: "conference_controls \<Rightarrow> dashboard_theme_colors \<Rightarrow> rgb \<Rightarrow> rgb \<Rightarrow> nat \<Rightarrow> string" where
  \<comment> \<open>the lines of the controls\<close>
  "status_lines c theme hud hud_dim feeds =
     paint hud (''| MIC='' @ dec_bool (cc_mic_enabled c) @ '' VIDEO='' @ dec_bool (cc_camera_enabled c) @ '' SHARE='' @
       dec_bool (cc_share_enabled c) @ '' PAUSE='' @ dec_bool (cc_paused c) @ '' GLITCH='' @ dec_bool (cc_glitch c) @
       '' MOSH='' @ dec_bool (cc_datamosh c) @ '' NOISE='' @ dec_bool (cc_noise_overlay c) @ '' DENSITY='' @
       density_label (cc_density_idx c) @ '' BOOST='' @ luma_boost_label (cc_luma_boost_level c) @ '' EDGE='' @
       dec_bool (cc_edge_enhance c) @ '' RAIN='' @ dec_bool (cc_rain_overlay c) @ '' ADV='' @ dec_bool (cc_advanced c) @
       '' THEME='' @ th_label theme @ '' AUTO-THEME='' @ dec_bool (cc_auto_theme c) @ '' |'') @
     paint hud_dim (''| feeds='' @ dec feeds @ '' sort='' @ sort_mode_label (cc_sort_worst_first c) @
       '' | controls: m v s p a 0..4 c t d b g j n e r w x k +/- arrows tab h q End |'')"

definition network_lines :: "conference_telemetry \<Rightarrow> rgb \<Rightarrow> bool \<Rightarrow> u64 \<Rightarrow> string" where
  "network_lines t hud_dim has_feed now =
     paint hud_dim (''| quality='' @ classify_conference_quality now t has_feed @ '' | rtt='' @ render_rtt t @
       '' | adapt='' @ adaptive_mode_label (ct_adaptive_level t) @ ''('' @
       (if ct_adaptive_manual t then ''MANUAL'' else ''AUTO'') @ '') v'' @
       dec64 (or_default (ct_adaptive_video_interval_ms t) 100) @ ''ms q'' @
       dec (unat (or_default (ct_adaptive_video_quantizer t) 20)) @ '' a'' @
       dec64 (or_default (ct_adaptive_audio_interval_ms t) 100) @ ''ms g'' @
       dec (unat (or_default (ct_adaptive_audio_gain_permille t) 1000 div 10)) @ [CHR 0x25] @ '' | rx[v:'' @
       dec (unat (fl_rate_per_sec (ct_rx_video t))) @ ''fps a:'' @ dec (unat (fl_rate_per_sec (ct_rx_audio t))) @
       ''pps age:'' @ render_flow_age (flow_age_ms (ct_rx_video t) now) @ ''] tx[v:'' @
       dec (unat (fl_rate_per_sec (ct_tx_video t))) @ ''fps a:'' @ dec (unat (fl_rate_per_sec (ct_tx_audio t))) @
       ''pps age:'' @ render_flow_age (flow_age_ms (ct_tx_video t) now) @ ''] |'') @
     paint hud_dim (''| net loss[v:'' @ render_loss_percent (ct_rx_video t) @ '' a:'' @
       render_loss_percent (ct_rx_audio t) @ ''] jitter[v:'' @ render_jitter_ms (ct_rx_video t) @ '' a:'' @
       render_jitter_ms (ct_rx_audio t) @ ''] ui:'' @ dec (unat (fl_rate_per_sec (ct_ui_render t))) @ ''fps'' @
       replicate 34 (CHR '' '') @ ''|'')"

definition help_lines :: "rgb \<Rightarrow> string" where
  "help_lines hud_dim =
     paint hud_dim ''| help m/v/s/p media  a cycle-adapt  0..4 set adapt  c theme  t auto-theme  d density |'' @
     paint hud_dim ''| help b boost  g glitch  j mosh  n noise  e edge  r rain  w sort  x reset  k snapshot |'' @
     paint hud_dim ''| help arrows focus  +/- density  tab advanced  h help  q quit  End end         |''"

definition advanced_lines ::
    "conference_controls \<Rightarrow> (string, ascii_video_frame) hmap \<Rightarrow> (string, participant_media_telemetry) hmap
      \<Rightarrow> conference_telemetry \<Rightarrow> dashboard_theme_colors \<Rightarrow> rgb \<Rightarrow> u64 \<Rightarrow> string" where
  "advanced_lines c frames stats t theme hud_dim now =
     paint hud_dim (''| adv override='' @ adaptive_override_label (cc_adaptive_override c) @ '' sort='' @
       sort_mode_label (cc_sort_worst_first c) @ '' boost='' @ luma_boost_label (cc_luma_boost_level c) @ '' mosh='' @
       dec_bool (cc_datamosh c) @ '' noise='' @ dec_bool (cc_noise_overlay c) @ '' edge='' @
       dec_bool (cc_edge_enhance c) @ '' rain='' @ dec_bool (cc_rain_overlay c) @ '' theme='' @ th_label theme @
       '' auto-theme='' @ dec_bool (cc_auto_theme c) @ '' cycle:AUTO->BOOST->WARM->BAL->SAFE->AUTO |'') @
     paint hud_dim (''| adv totals rx[v:'' @ dec64 (fl_total (ct_rx_video t)) @ '' a:'' @
       dec64 (fl_total (ct_rx_audio t)) @ ''] tx[v:'' @ dec64 (fl_total (ct_tx_video t)) @ '' a:'' @
       dec64 (fl_total (ct_tx_audio t)) @ ''] ping_samples:'' @ dec64 (ct_rtt_samples t) @ '' (x reset)'' @
       replicate 16 (CHR '' '') @ ''|'') @
     paint hud_dim (''| adv trend ['' @ render_quality_history (ct_quality_history t) 48 @ '']'' @
       replicate 45 (CHR '' '') @ ''|'') @
     paint hud_dim (''| adv worst '' @ top_worst_peers frames stats now 3 @ replicate 50 (CHR '' '') @ ''|'')"

definition feed_block ::
    "conference_controls \<Rightarrow> (string, ascii_video_frame) hmap \<Rightarrow> (string, conference_audio_stat) hmap
      \<Rightarrow> (string, participant_media_telemetry) hmap \<Rightarrow> dashboard_theme_colors \<Rightarrow> u64 \<Rightarrow> string \<Rightarrow> string" where
  \<comment> \<open>the header and the picture of one feed\<close>
  "feed_block c frames audio stats theme now participant_id = (case hm_get frames participant_id of
     None \<Rightarrow> []
   | Some frame \<Rightarrow>
       let age = sat_sub now (av_updated_at_ms frame);
           (rms, audio_age) = (case hm_get audio participant_id of
             None \<Rightarrow> (0, 0) | Some v \<Rightarrow> (cs_rms v, sat_sub now (cs_updated_at_ms v)));
           p = unwrap_or (hm_get stats participant_id) participant_media_default;
           score = participant_quality_score now p age in
       paint (th_feed_header theme) (''+ '' @ participant_id @ '' | '' @ quality_label score @ '' '' @
         render_quality_bar score @ '' '' @ dec (unat (av_width frame)) @ ''x'' @ dec (unat (av_height frame)) @ '' | v:'' @
         dec (unat (fl_rate_per_sec (pm_video p))) @ ''fps loss:'' @ render_loss_percent (pm_video p) @ '' jit:'' @
         render_jitter_ms (pm_video p) @ '' | age='' @ dec64 age @ ''ms | rms='' @ dec (unat rms) @ '' '' @
         render_audio_meter rms 26 @ '' ('' @ dec64 audio_age @ ''ms) +'') @
       paint_rows (th_feed_row_even theme) (th_feed_row_odd theme)
         (ascii_lines_from_luma frame (ascii_density_shades (cc_density_idx c)) (effects_of c)
           (luma_boost_permille (cc_luma_boost_level c)) (now div 120)))"

definition render_ascii_dashboard ::
    "u64 \<Rightarrow> conference_controls \<Rightarrow> (string, ascii_video_frame) hmap \<Rightarrow> (string, conference_audio_stat) hmap
      \<Rightarrow> conference_telemetry \<Rightarrow> (string, participant_media_telemetry) hmap \<Rightarrow> string" where
  "render_ascii_dashboard now c frames audio t stats =
     (let tick = now div 120;
          ids = take 4 (focused_feeds c frames stats now);
          pulse = int (unat (tick mod 12));
          pulse = (if pulse > 6 then 12 - pulse else pulse);
          theme = dashboard_theme (resolve_theme_index (cc_theme_idx c) (cc_auto_theme c) tick);
          hud = pulse_rgb (th_hud theme) pulse 6;
          hud_dim = pulse_rgb (th_hud_dim theme) pulse 4 in
      clear_screen @
      paint (pulse_rgb (th_head theme) pulse 9) (''KAIGI ASCII LIVE // CYBERPUNK '' @ th_label theme @ '' // t='' @ dec64 tick) @
      paint hud ruler @
      status_lines c theme hud hud_dim (length ids) @
      network_lines t hud_dim (ids \<noteq> []) now @
      (if cc_help_overlay c then help_lines hud_dim else []) @
      (if cc_advanced c then advanced_lines c frames stats t theme hud_dim now else []) @
      paint hud ruler @
      (if ids = []
       then paint_rows (th_idle_row_even theme) (th_idle_row_odd theme) (matrix_idle_lines 80 24 tick)
       else concat (map (feed_block c frames audio stats theme now) ids)))"

end
