(* ===== verification/Net_Addr.thy ===== *)
theory Net_Addr
  imports Prelude
begin

text \<open>
  The text form of a socket address (\<open>std::net::SocketAddr\<close>, its \<open>Display\<close> and \<open>FromStr\<close>), which a join link
  carries: dotted IPv4, IPv6 with the longest run of zeros compressed, an embedded IPv4 address where it is
  mapped, the zone of a scoped address. Every address of the program comes from such a text, so its flow label
  is zero and not kept.
\<close>

section \<open>Numbers\<close>

definition digit_char :: "nat \<Rightarrow> char" where
  "digit_char n = (if n < 10 then char_of (48 + n) else char_of (87 + n))"

definition to_digit :: "nat \<Rightarrow> char \<Rightarrow> nat option" where
  \<comment> \<open>\<open>char::to_digit(radix)\<close>\<close>
  "to_digit radix c =
     (let n = byte_of c;
          d = (if 48 \<le> n \<and> n \<le> 57 then n - 48
               else if 97 \<le> n \<and> n \<le> 122 then n - 87
               else if 65 \<le> n \<and> n \<le> 90 then n - 55
               else radix) in
      if d < radix then Some d else None)"

definition is_digit_in :: "nat \<Rightarrow> char \<Rightarrow> bool" where
  "is_digit_in radix c \<longleftrightarrow> to_digit radix c \<noteq> None"

definition digits_value :: "nat \<Rightarrow> string \<Rightarrow> nat" where
  "digits_value radix ds = foldl (\<lambda>n c. n * radix + (case to_digit radix c of Some d \<Rightarrow> d | None \<Rightarrow> 0)) 0 ds"

function num_str :: "nat \<Rightarrow> nat \<Rightarrow> string" where
  \<comment> \<open>formatting without padding, in radix 10 or 16\<close>
  "num_str radix n =
     (if n < radix \<or> radix < 2 then [digit_char n] else num_str radix (n div radix) @ [digit_char (n mod radix)])"
  by pat_completeness auto
termination
  by (relation "measure snd") (auto intro!: div_less_dividend)

declare num_str.simps [simp del]

definition read_number :: "nat \<Rightarrow> nat option \<Rightarrow> bool \<Rightarrow> nat \<Rightarrow> string \<Rightarrow> (nat \<times> string) option" where
  \<comment> \<open>all digits that follow; not too many of them, no overflow, no leading zero unless allowed\<close>
  "read_number radix max_digits allow_zero_prefix max_value s =
     (let ds = takeWhile (is_digit_in radix) s; v = digits_value radix ds in
      if ds = [] \<or> (case max_digits of Some k \<Rightarrow> k < length ds | None \<Rightarrow> False) \<or> max_value < v
         \<or> (\<not> allow_zero_prefix \<and> hd ds = CHR ''0'' \<and> 1 < length ds)
      then None
      else Some (v, dropWhile (is_digit_in radix) s))"

fun read_char :: "char \<Rightarrow> string \<Rightarrow> string option" where
  "read_char c [] = None"
| "read_char c (x # s) = (if x = c then Some s else None)"

definition read_separator :: "char \<Rightarrow> bool \<Rightarrow> (string \<Rightarrow> ('a \<times> string) option) \<Rightarrow> string \<Rightarrow> ('a \<times> string) option" where
  \<comment> \<open>no separator before the first item\<close>
  "read_separator sep first inner s =
     (if first then inner s else case read_char sep s of None \<Rightarrow> None | Some s' \<Rightarrow> inner s')"

section \<open>Addresses\<close>

datatype socket_addr =
    Addr_V4 "u8 \<times> u8 \<times> u8 \<times> u8" u16
  | Addr_V6 "u16 \<times> u16 \<times> u16 \<times> u16 \<times> u16 \<times> u16 \<times> u16 \<times> u16" u32 u16

definition octet :: "string \<Rightarrow> (nat \<times> string) option" where
  "octet s = read_number 10 (Some 3) False 255 s"

definition read_ipv4 :: "string \<Rightarrow> ((nat \<times> nat \<times> nat \<times> nat) \<times> string) option" where
  "read_ipv4 s =
     (case read_separator CHR ''.'' True octet s of None \<Rightarrow> None | Some (a, s) \<Rightarrow>
      case read_separator CHR ''.'' False octet s of None \<Rightarrow> None | Some (b, s) \<Rightarrow>
      case read_separator CHR ''.'' False octet s of None \<Rightarrow> None | Some (c, s) \<Rightarrow>
      case read_separator CHR ''.'' False octet s of None \<Rightarrow> None | Some (d, s) \<Rightarrow> Some ((a, b, c, d), s))"

definition read_group :: "string \<Rightarrow> (nat \<times> string) option" where
  "read_group s = read_number 16 (Some 4) True 65535 s"

fun read_groups :: "nat \<Rightarrow> bool \<Rightarrow> string \<Rightarrow> nat list \<times> bool \<times> string" where
  \<comment> \<open>up to so many groups; an embedded IPv4 address counts as the last two\<close>
  "read_groups 0 first s = ([], False, s)"
| "read_groups (Suc n) first s =
     (case (if 0 < n then read_separator CHR '':'' first read_ipv4 s else None) of
        Some ((a, b, c, d), s') \<Rightarrow> ([a * 256 + b, c * 256 + d], True, s')
      | None \<Rightarrow>
          (case read_separator CHR '':'' first read_group s of
             None \<Rightarrow> ([], False, s)
           | Some (g, s') \<Rightarrow> (case read_groups n False s' of (gs, v4, s'') \<Rightarrow> (g # gs, v4, s''))))"

definition read_ipv6 :: "string \<Rightarrow> (nat list \<times> string) option" where
  "read_ipv6 s =
     (case read_groups 8 True s of (head, head_ipv4, s) \<Rightarrow>
        if length head = 8 then Some (head, s)
        else if head_ipv4 then None
        else case read_char CHR '':'' s of None \<Rightarrow> None | Some s \<Rightarrow>
             case read_char CHR '':'' s of None \<Rightarrow> None | Some s \<Rightarrow>
             case read_groups (8 - (length head + 1)) True s of (tail, _, s) \<Rightarrow>
               Some (head @ replicate (8 - length head - length tail) 0 @ tail, s))"

definition read_port :: "string \<Rightarrow> (nat \<times> string) option" where
  "read_port s = (case read_char CHR '':'' s of None \<Rightarrow> None | Some s \<Rightarrow> read_number 10 None True 65535 s)"

definition read_scope_id :: "string \<Rightarrow> nat \<times> string" where
  \<comment> \<open>\<open>read_scope_id().unwrap_or(0)\<close>\<close>
  "read_scope_id s =
     (case read_char CHR 0x25 s of None \<Rightarrow> (0, s) | Some s' \<Rightarrow>
      case read_number 10 None True (2 ^ 32 - 1) s' of None \<Rightarrow> (0, s) | Some r \<Rightarrow> r)"

definition read_socket_v4 :: "string \<Rightarrow> (socket_addr \<times> string) option" where
  "read_socket_v4 s =
     (case read_ipv4 s of None \<Rightarrow> None | Some ((a, b, c, d), s) \<Rightarrow>
      case read_port s of None \<Rightarrow> None | Some (port, s) \<Rightarrow>
        Some (Addr_V4 (of_nat a, of_nat b, of_nat c, of_nat d) (of_nat port), s))"

definition segs_of :: "nat list \<Rightarrow> u16 \<times> u16 \<times> u16 \<times> u16 \<times> u16 \<times> u16 \<times> u16 \<times> u16" where
  \<comment> \<open>of a list of eight\<close>
  "segs_of gs = (let w = \<lambda>i. of_nat (gs ! i) in (w 0, w 1, w 2, w 3, w 4, w 5, w 6, w 7))"

definition read_socket_v6 :: "string \<Rightarrow> (socket_addr \<times> string) option" where
  "read_socket_v6 s =
     (case read_char CHR ''['' s of None \<Rightarrow> None | Some s \<Rightarrow>
      case read_ipv6 s of None \<Rightarrow> None | Some (gs, s) \<Rightarrow>
      case read_scope_id s of (scope, s) \<Rightarrow>
      case read_char CHR '']'' s of None \<Rightarrow> None | Some s \<Rightarrow>
      case read_port s of None \<Rightarrow> None | Some (port, s) \<Rightarrow>
        Some (Addr_V6 (segs_of gs) (of_nat scope) (of_nat port), s))"

definition parse_socket_addr :: "string \<Rightarrow> socket_addr option" where
  "parse_socket_addr s =
     (case (case read_socket_v4 s of Some r \<Rightarrow> Some r | None \<Rightarrow> read_socket_v6 s) of
        Some (addr, []) \<Rightarrow> Some addr
      | _ \<Rightarrow> None)"

section \<open>Display\<close>

definition show_ipv4 :: "nat \<Rightarrow> nat \<Rightarrow> nat \<Rightarrow> nat \<Rightarrow> string" where
  "show_ipv4 a b c d = num_str 10 a @ ''.'' @ num_str 10 b @ ''.'' @ num_str 10 c @ ''.'' @ num_str 10 d"

definition zeros_step :: "(nat \<times> nat) \<times> (nat \<times> nat) \<times> nat \<Rightarrow> nat \<Rightarrow> (nat \<times> nat) \<times> (nat \<times> nat) \<times> nat" where
  "zeros_step st g = (case st of ((ls, ll), (cs, cl), i) \<Rightarrow>
     if g = 0
     then (let c = (if cl = 0 then i else cs, cl + 1) in (if ll < snd c then c else (ls, ll), c, i + 1))
     else ((ls, ll), (0, 0), i + 1))"

definition longest_zeros :: "nat list \<Rightarrow> nat \<times> nat" where
  \<comment> \<open>start and length of the first longest run of zeros\<close>
  "longest_zeros gs = fst (foldl zeros_step ((0, 0), (0, 0), 0) gs)"

definition show_groups :: "nat list \<Rightarrow> string" where
  "show_groups gs = join '':'' (map (num_str 16) gs)"

definition show_ipv6 :: "nat list \<Rightarrow> string" where
  "show_ipv6 gs =
     (if take 6 gs = [0, 0, 0, 0, 0, 65535]
      then ''::ffff:'' @ show_ipv4 (gs ! 6 div 256) (gs ! 6 mod 256) (gs ! 7 div 256) (gs ! 7 mod 256)
      else case longest_zeros gs of (start, len) \<Rightarrow>
        if 1 < len
        then show_groups (take start gs) @ ''::'' @ show_groups (drop (start + len) gs)
        else show_groups gs)"

definition show_socket_addr :: "socket_addr \<Rightarrow> string" where
  "show_socket_addr addr = (case addr of
     Addr_V4 (a, b, c, d) port \<Rightarrow> show_ipv4 (unat a) (unat b) (unat c) (unat d) @ '':'' @ num_str 10 (unat port)
   | Addr_V6 (a, b, c, d, e, f, g, h) scope port \<Rightarrow>
       ''['' @ show_ipv6 (map unat [a, b, c, d, e, f, g, h])
         @ (if scope = 0 then [] else CHR 0x25 # num_str 10 (unat scope)) @ '']:'' @ num_str 10 (unat port))"

section \<open>Round trip\<close>

lemma byte_of_digit_char: "n < 16 \<Longrightarrow> byte_of (digit_char n) = (if n < 10 then 48 + n else 87 + n)"
  by (simp add: digit_char_def byte_of_def)

lemma to_digit_char: "n < radix \<Longrightarrow> radix \<le> 16 \<Longrightarrow> to_digit radix (digit_char n) = Some n"
  by (simp add: to_digit_def byte_of_digit_char Let_def)

lemma digits_value_snoc: "digits_value radix (ds @ [c]) =
    digits_value radix ds * radix + (case to_digit radix c of Some d \<Rightarrow> d | None \<Rightarrow> 0)"
  by (simp add: digits_value_def)

lemma num_str_nonempty: "num_str radix n \<noteq> []"
  by (subst num_str.simps) simp

lemma num_str_digits:
  "2 \<le> radix \<Longrightarrow> radix \<le> 16 \<Longrightarrow> list_all (is_digit_in radix) (num_str radix n) \<and> digits_value radix (num_str radix n) = n"
proof (induction radix n rule: num_str.induct)
  case (1 radix n)
  show ?case
  proof (cases "n < radix")
    case True
    then show ?thesis
      using 1 by (simp add: num_str.simps [of radix n] is_digit_in_def to_digit_char digits_value_def)
  next
    case False
    then have "list_all (is_digit_in radix) (num_str radix (n div radix))"
      "digits_value radix (num_str radix (n div radix)) = n div radix"
      using 1 by auto
    then show ?thesis
      using False 1 by (simp add: num_str.simps [of radix n] is_digit_in_def to_digit_char digits_value_snoc)
  qed
qed

lemma num_str_hd:
  "2 \<le> radix \<Longrightarrow> radix \<le> 16 \<Longrightarrow> hd (num_str radix n) = CHR ''0'' \<Longrightarrow> n = 0"
proof (induction radix n rule: num_str.induct)
  case (1 radix n)
  show ?case
  proof (cases "n < radix")
    case True
    have "byte_of (digit_char n) = byte_of CHR ''0''"
      using 1 True by (simp add: num_str.simps [of radix n])
    moreover have "byte_of CHR ''0'' = 48"
      by (simp add: byte_of_def)
    ultimately show ?thesis
      using 1 True byte_of_digit_char [of n] by (auto split: if_splits)
  next
    case False
    then show ?thesis
      using 1 num_str_nonempty [of radix "n div radix"]
      by (auto simp: num_str.simps [of radix n] div_eq_0_iff)
  qed
qed

lemma num_str_length:
  "2 \<le> radix \<Longrightarrow> n < radix ^ Suc k \<Longrightarrow> length (num_str radix n) \<le> Suc k"
proof (induction k arbitrary: n)
  case 0
  then show ?case by (simp add: num_str.simps [of radix n])
next
  case (Suc k)
  have "n div radix < radix ^ Suc k"
    using Suc.prems by (simp add: less_mult_imp_div_less mult.commute)
  then show ?case
    using Suc by (cases "n < radix") (auto simp: num_str.simps [of radix n])
qed

definition ends_number :: "nat \<Rightarrow> string \<Rightarrow> bool" where
  \<comment> \<open>no digit follows\<close>
  "ends_number radix rest \<longleftrightarrow> rest = [] \<or> \<not> is_digit_in radix (hd rest)"

lemma take_digits:
  "list_all (is_digit_in radix) ds \<Longrightarrow> ends_number radix rest \<Longrightarrow>
     takeWhile (is_digit_in radix) (ds @ rest) = ds \<and> dropWhile (is_digit_in radix) (ds @ rest) = rest"
  by (induction ds) (cases rest; simp add: ends_number_def)+

lemma read_number_num_str:
  assumes "2 \<le> radix" "radix \<le> 16" "ends_number radix rest" "n \<le> max_value"
    and "case max_digits of Some k \<Rightarrow> length (num_str radix n) \<le> k | None \<Rightarrow> True"
  shows "read_number radix max_digits allow max_value (num_str radix n @ rest) = Some (n, rest)"
proof -
  have "takeWhile (is_digit_in radix) (num_str radix n @ rest) = num_str radix n"
    "dropWhile (is_digit_in radix) (num_str radix n @ rest) = rest"
    using take_digits num_str_digits assms by blast+
  moreover have "\<not> (hd (num_str radix n) = CHR ''0'' \<and> 1 < length (num_str radix n))"
    using num_str_hd [of radix n] assms by (auto simp: num_str.simps [of radix 0])
  ultimately show ?thesis
    using num_str_nonempty [of radix n] num_str_digits [of radix n] assms
    by (auto simp: read_number_def Let_def split: option.splits)
qed

lemma octet_num_str: "n < 256 \<Longrightarrow> ends_number 10 rest \<Longrightarrow> octet (num_str 10 n @ rest) = Some (n, rest)"
  using num_str_length [of 10 n 2] by (simp add: octet_def read_number_num_str)

lemma group_num_str: "n < 65536 \<Longrightarrow> ends_number 16 rest \<Longrightarrow> read_group (num_str 16 n @ rest) = Some (n, rest)"
  using num_str_length [of 16 n 3] by (simp add: read_group_def read_number_num_str)

lemma ends_number_punct [simp]:
  "ends_number radix []"
  "radix \<le> 16 \<Longrightarrow> c \<in> {CHR ''.'', CHR '':'', CHR '']'', CHR 0x25} \<Longrightarrow> ends_number radix (c # rest)"
  by (auto simp: ends_number_def is_digit_in_def to_digit_def byte_of_def)

lemma read_ipv4_show:
  "a < 256 \<Longrightarrow> b < 256 \<Longrightarrow> c < 256 \<Longrightarrow> d < 256 \<Longrightarrow> ends_number 10 rest \<Longrightarrow>
     read_ipv4 (show_ipv4 a b c d @ rest) = Some ((a, b, c, d), rest)"
  by (simp add: read_ipv4_def show_ipv4_def read_separator_def octet_num_str)

lemma read_port_show:
  "n < 65536 \<Longrightarrow> read_port (CHR '':'' # num_str 10 n) = Some (n, [])"
  using read_number_num_str [of 10 "[]" n 65535 None True] by (simp add: read_port_def)

text \<open>IPv6 groups.\<close>

definition tail_str :: "nat list \<Rightarrow> string" where
  "tail_str gs = concat (map (\<lambda>g. CHR '':'' # num_str 16 g) gs)"

lemma show_groups_Cons: "show_groups (g # gs) = num_str 16 g @ tail_str gs"
  by (induction gs arbitrary: g) (simp_all add: show_groups_def tail_str_def)

definition stops :: "string \<Rightarrow> bool" where
  \<comment> \<open>what may follow a list of groups\<close>
  "stops rest \<longleftrightarrow> rest \<noteq> [] \<and> (hd rest = CHR '']'' \<or> hd rest = CHR 0x25 \<or> take 2 rest = ''::'')"

lemma stops_cases:
  assumes "stops rest"
  obtains r where "rest = CHR '']'' # r" | r where "rest = CHR 0x25 # r" | r where "rest = ''::'' @ r"
proof (cases rest)
  case (Cons c r)
  then show thesis
    using assms that by (cases r) (auto simp: stops_def)
qed (use assms in \<open>simp add: stops_def\<close>)

lemma no_number [simp]:
  "radix \<le> 16 \<Longrightarrow> c \<in> {CHR ''.'', CHR '':'', CHR '']'', CHR 0x25} \<Longrightarrow> read_number radix k z m (c # rest) = None"
  by (auto simp: read_number_def is_digit_in_def to_digit_def byte_of_def)

lemma dot_not_digit: "\<not> is_digit_in 16 CHR ''.''"
  by (simp add: is_digit_in_def to_digit_def byte_of_def)

lemma read_char_dropWhile:
  "CHR ''.'' \<notin> set xs \<Longrightarrow> ys = [] \<or> hd ys \<noteq> CHR ''.'' \<and> \<not> P (hd ys) \<Longrightarrow>
     read_char CHR ''.'' (dropWhile P (xs @ ys)) = None"
  by (induction xs) (cases ys; auto)+

lemma ipv4_fails:
  assumes "ends_number 16 rest" and "rest = [] \<or> hd rest \<noteq> CHR ''.''"
  shows "read_ipv4 (num_str 16 g @ rest) = None"
proof -
  have "CHR ''.'' \<notin> set (num_str 16 g)"
    using num_str_digits [of 16 g] dot_not_digit by (auto simp: list_all_iff)
  moreover have "is_digit_in 10 c \<Longrightarrow> is_digit_in 16 c" for c
    by (auto simp: is_digit_in_def to_digit_def Let_def split: if_splits)
  ultimately have "read_char CHR ''.'' (dropWhile (is_digit_in 10) (num_str 16 g @ rest)) = None"
    using assms by (intro read_char_dropWhile) (auto simp: ends_number_def)
  then show ?thesis
    by (simp add: read_ipv4_def read_separator_def octet_def read_number_def Let_def)
qed

lemma ends_tail: "stops rest \<Longrightarrow> ends_number 16 (tail_str gs @ rest) \<and> hd (tail_str gs @ rest) \<noteq> CHR ''.''"
  by (erule stops_cases) (cases gs; simp add: tail_str_def)+

lemma read_groups_stop: "stops rest \<Longrightarrow> read_groups n first rest = ([], False, rest)"
  by (erule stops_cases)
    (cases n; cases first; simp add: read_separator_def read_ipv4_def octet_def read_group_def)+

lemma read_groups_tail:
  "stops rest \<Longrightarrow> list_all (\<lambda>g. g < 65536) gs \<Longrightarrow> length gs \<le> n \<Longrightarrow>
     read_groups n False (tail_str gs @ rest) = (gs, False, rest)"
proof (induction gs arbitrary: n)
  case Nil
  then show ?case by (simp add: tail_str_def read_groups_stop)
next
  case (Cons g gs)
  then obtain m where n: "n = Suc m" by (cases n) auto
  have s: "tail_str (g # gs) @ rest = CHR '':'' # num_str 16 g @ (tail_str gs @ rest)"
    by (simp add: tail_str_def)
  show ?case
    unfolding n s using Cons ends_tail [of rest gs]
    by (auto simp: n read_separator_def ipv4_fails group_num_str tail_str_def)
qed

lemma read_groups_show:
  "stops rest \<Longrightarrow> list_all (\<lambda>g. g < 65536) gs \<Longrightarrow> length gs \<le> n \<Longrightarrow>
     read_groups n True (show_groups gs @ rest) = (gs, False, rest)"
proof (cases gs)
  case Nil
  assume "stops rest"
  then show ?thesis by (simp add: Nil show_groups_def read_groups_stop)
next
  case (Cons g gs')
  assume *: "stops rest" "list_all (\<lambda>g. g < 65536) gs" "length gs \<le> n"
  then obtain m where n: "n = Suc m" using Cons by (cases n) auto
  show ?thesis
    unfolding n Cons show_groups_Cons append_assoc using * ends_tail [of rest gs'] read_groups_tail [of rest gs' m]
    by (auto simp: Cons n read_separator_def ipv4_fails group_num_str tail_str_def)
qed

lemma zeros_step_run:
  "case foldl zeros_step ((0, 0), (0, 0), 0) xs of ((ls, ll), (cs, cl), i) \<Rightarrow>
     i = length xs \<and> ls + ll \<le> i \<and> (\<forall>j. ls \<le> j \<and> j < ls + ll \<longrightarrow> xs ! j = 0)
   \<and> (0 < cl \<longrightarrow> cs + cl = i) \<and> (\<forall>j. cs \<le> j \<and> j < cs + cl \<longrightarrow> xs ! j = 0)"
proof (induction xs rule: rev_induct)
  case Nil
  then show ?case by simp
next
  case (snoc x xs)
  then show ?case
    by (auto simp: zeros_step_def Let_def nth_append split: prod.splits if_splits)
qed

lemma longest_zeros_run:
  "longest_zeros gs = (s, l) \<Longrightarrow>
     s + l \<le> length gs \<and> take s gs @ replicate l 0 @ drop (s + l) gs = gs"
proof -
  assume *: "longest_zeros gs = (s, l)"
  then have le: "s + l \<le> length gs" and z: "\<And>j. s \<le> j \<Longrightarrow> j < s + l \<Longrightarrow> gs ! j = 0"
    using zeros_step_run [of gs] by (auto simp: longest_zeros_def split: prod.splits)
  have "take l (drop s gs) = replicate l 0"
    using le z by (intro nth_equalityI) auto
  then have "take s gs @ replicate l 0 @ drop l (drop s gs) = gs"
    by (metis append_take_drop_id)
  then show ?thesis
    using le by (simp add: add.commute)
qed

lemma read_mapped:
  assumes "a < 256" "b < 256" "c < 256" "d < 256" "ends_number 10 rest"
  shows "read_groups 7 True (''ffff:'' @ show_ipv4 a b c d @ rest) = ([65535, a * 256 + b, c * 256 + d], True, rest)"
proof -
  have hex: "''ffff'' = num_str 16 65535"
    by code_simp
  have six: "6 = Suc 5" and seven: "7 = Suc 6" by simp_all
  let ?tl = "CHR '':'' # show_ipv4 a b c d @ rest"
  have s: "''ffff:'' @ show_ipv4 a b c d @ rest = num_str 16 65535 @ ?tl"
    by (simp add: hex [symmetric])
  have "read_ipv4 (num_str 16 65535 @ ?tl) = None"
    by (rule ipv4_fails) simp_all
  moreover have "read_group (num_str 16 65535 @ ?tl) = Some (65535, ?tl)"
    by (simp add: group_num_str)
  moreover have "read_groups 6 False ?tl = ([a * 256 + b, c * 256 + d], True, rest)"
    unfolding six read_groups.simps using read_ipv4_show [OF assms] by (simp add: read_separator_def)
  ultimately show ?thesis
    unfolding seven s read_groups.simps by (simp add: read_separator_def)
qed

lemma read_ipv6_compressed:
  "read_groups 7 True s = (ts, v4, rest) \<Longrightarrow> length ts = 3 \<Longrightarrow>
     read_ipv6 (''::'' @ s) = Some (replicate 5 0 @ ts, rest)"
  using read_groups_stop [of "''::'' @ s" 8 True] by (simp add: read_ipv6_def stops_def)

lemma read_show_mapped:
  assumes gs: "gs = [0, 0, 0, 0, 0, 65535, x, y]" and "x < 65536" "y < 65536" "ends_number 10 rest"
  shows "read_ipv6 (show_ipv6 gs @ rest) = Some (gs, rest)"
proof -
  let ?ip = "show_ipv4 (x div 256) (x mod 256) (y div 256) (y mod 256)"
  have lt: "x div 256 < 256" "y div 256 < 256" "x mod 256 < 256" "y mod 256 < 256"
    using assms(2,3) by linarith+
  have "read_groups 7 True (''ffff:'' @ ?ip @ rest)
      = ([65535, x div 256 * 256 + x mod 256, y div 256 * 256 + y mod 256], True, rest)"
    by (rule read_mapped [OF lt(1,3,2,4) assms(4)])
  then have "read_groups 7 True (''ffff:'' @ ?ip @ rest) = ([65535, x, y], True, rest)"
    by (simp only: div_mult_mod_eq)
  then have "read_ipv6 (''::'' @ ''ffff:'' @ ?ip @ rest) = Some (replicate 5 0 @ [65535, x, y], rest)"
    by (rule read_ipv6_compressed) simp
  moreover have "show_ipv6 gs = ''::'' @ ''ffff:'' @ ?ip"
    unfolding gs show_ipv6_def by simp
  moreover have "replicate 5 (0::nat) = [0, 0, 0, 0, 0]"
    by (simp add: numeral_eq_Suc)
  ultimately show ?thesis
    by (simp add: gs)
qed

lemma read_show_run:
  assumes "length gs = 8" "list_all (\<lambda>g. g < 65536) gs" "stops rest"
    and zeros: "longest_zeros gs = (s, l)" "1 < l"
  shows "read_ipv6 (show_groups (take s gs) @ ''::'' @ show_groups (drop (s + l) gs) @ rest) = Some (gs, rest)"
proof -
  have le: "s + l \<le> 8" and gs: "take s gs @ replicate l 0 @ drop (s + l) gs = gs"
    using longest_zeros_run [OF zeros(1)] assms(1) by simp_all
  have small: "list_all (\<lambda>g. g < 65536) (take s gs)" "list_all (\<lambda>g. g < 65536) (drop (s + l) gs)"
    using assms(2) by (auto simp: list_all_iff dest: in_set_takeD in_set_dropD)
  have head: "length (take s gs) = s" and tail: "length (drop (s + l) gs) = 8 - (s + l)"
    using assms(1) le by simp_all
  have "read_groups 8 True (show_groups (take s gs) @ ''::'' @ show_groups (drop (s + l) gs) @ rest)
      = (take s gs, False, ''::'' @ show_groups (drop (s + l) gs) @ rest)"
    using small le by (intro read_groups_show) (simp_all add: stops_def head)
  moreover have "read_groups (8 - (s + 1)) True (show_groups (drop (s + l) gs) @ rest) = (drop (s + l) gs, False, rest)"
    using small assms(3) zeros(2) tail by (intro read_groups_show) simp_all
  moreover have "8 - s - (8 - (s + l)) = l" "s \<noteq> 8"
    using le zeros(2) by simp_all
  ultimately show ?thesis
    using gs by (simp add: read_ipv6_def head tail del: length_take length_drop)
qed

lemma read_ipv6_show:
  assumes "length gs = 8" and "list_all (\<lambda>g. g < 65536) gs" and "stops rest" and "ends_number 10 rest"
  shows "read_ipv6 (show_ipv6 gs @ rest) = Some (gs, rest)"
proof -
  obtain s l where zeros: "longest_zeros gs = (s, l)"
    by (cases "longest_zeros gs")
  consider (mapped) "take 6 gs = [0, 0, 0, 0, 0, 65535]"
    | (run) "take 6 gs \<noteq> [0, 0, 0, 0, 0, 65535]" "1 < l"
    | (plain) "take 6 gs \<noteq> [0, 0, 0, 0, 0, 65535]" "\<not> 1 < l"
    by blast
  then show ?thesis
  proof cases
    case mapped
    have "length (drop 6 gs) = 2"
      using assms(1) by simp
    then obtain x y where xy: "drop 6 gs = [x, y]"
      by (auto simp: numeral_2_eq_2 length_Suc_conv simp del: length_drop)
    have "gs = [0, 0, 0, 0, 0, 65535] @ [x, y]"
      using append_take_drop_id [of 6 gs] unfolding mapped xy by (rule sym)
    moreover have "x < 65536" "y < 65536"
      using assms(2) unfolding \<open>gs = _\<close> by simp_all
    ultimately show ?thesis
      using assms(4) by (intro read_show_mapped [of gs x y]) simp_all
  next
    case run
    then show ?thesis
      using read_show_run [OF assms(1-3) zeros] unfolding show_ipv6_def zeros by simp
  next
    case plain
    have "read_groups 8 True (show_groups gs @ rest) = (gs, False, rest)"
      using assms by (intro read_groups_show) simp_all
    then show ?thesis
      using plain assms(1) unfolding show_ipv6_def zeros by (simp add: read_ipv6_def)
  qed
qed

lemma u16_nat: "unat (x :: u16) < 65536" "of_nat (unat x) = x"
  using unat_lt2p [of x] by simp_all

lemma u8_nat: "unat (x :: u8) < 256" "of_nat (unat x) = x"
  using unat_lt2p [of x] by simp_all

text \<open>Every address is read back from its text.\<close>

lemma socket_addr_roundtrip: "parse_socket_addr (show_socket_addr addr) = Some addr"
proof (cases addr)
  case (Addr_V4 ip port)
  obtain a b c d where ip: "ip = (a, b, c, d)" by (cases ip)
  show ?thesis
    by (simp add: Addr_V4 ip show_socket_addr_def parse_socket_addr_def read_socket_v4_def read_ipv4_show
        read_port_show u8_nat u16_nat)
next
  case (Addr_V6 ip scope port)
  obtain a b c d e f g h where ip: "ip = (a, b, c, d, e, f, g, h)" by (metis surj_pair)
  let ?gs = "map unat [a, b, c, d, e, f, g, h]"
  let ?tail = "'']:'' @ num_str 10 (unat port)"
  let ?scope = "if scope = 0 then [] else CHR 0x25 # num_str 10 (unat scope)"
  have "read_socket_v4 (CHR ''['' # r) = None" for r
    by (simp add: read_socket_v4_def read_ipv4_def read_separator_def octet_def read_number_def is_digit_in_def
        to_digit_def byte_of_def)
  moreover have "read_ipv6 (show_ipv6 ?gs @ ?scope @ ?tail) = Some (?gs, ?scope @ ?tail)"
    by (rule read_ipv6_show) (simp_all add: u16_nat stops_def)
  moreover have "read_scope_id (?scope @ ?tail) = (unat scope, ?tail)"
    using read_number_num_str [of 10 ?tail "unat scope" "2 ^ 32 - 1" None True] u32_lt [of scope]
    by (auto simp: read_scope_id_def)
  ultimately show ?thesis
    by (simp add: Addr_V6 ip show_socket_addr_def parse_socket_addr_def read_socket_v6_def read_port_show
        segs_of_def u16_nat Let_def)
qed

end
