(* ===== verification/Cli_Args.thy ===== *)
theory Cli_Args
  imports Wire_Types Net_Addr Soranet Platform
begin

text \<open>
  The arguments of the command line client (\<^verbatim>\<open>crates/kaigi-cli/src/main.rs\<close>) and their checks: hex and
  privacy-mode arguments, the anonymous escrow settings with their price quote, the pricing of a ledger call,
  the defaults taken from the environment. A check is an error message or \<open>None\<close>; clap's own parsing is not
  modelled. Hex decoding is the library's (\<^typ>\<open>ext\<close>).
\<close>

section \<open>Arguments of room-chat\<close>

record room_chat_args =
  ra_relay :: "socket_addr option"
  ra_join_link :: "string option"
  ra_server_name :: "string option"
  ra_insecure :: bool
  ra_ca_cert_pem_path :: "string option"
  ra_torii :: "string option"
  ra_allow_local_handshake :: bool
  ra_descriptor_commit_hex :: "string option"
  ra_client_capabilities_hex :: "string option"
  ra_relay_capabilities_hex :: "string option"
  ra_kem_id :: "u8 option"
  ra_sig_id :: "u8 option"
  ra_resume_hash_hex :: "string option"
  ra_handshake_prelude_hex :: "string option"
  ra_channel :: "string option"
  ra_authenticated :: bool
  ra_participant_id :: "string option"
  ra_display_name :: "string option"
  ra_hdr_display :: bool
  ra_hdr_capture :: bool
  ra_no_hdr_auto :: bool
  ra_pay_rate_per_minute_nano :: u64
  ra_pay_auto :: bool
  ra_no_pay_auto :: bool
  ra_pay_interval_secs :: u64
  ra_pay_iroha_bin :: "string option"
  ra_pay_iroha_config :: "string option"
  ra_pay_from :: "string option"
  ra_pay_to :: "string option"
  ra_pay_asset_def :: string
  ra_pay_blocking :: bool
  ra_allow_unsettled_payments :: bool
  ra_kaigi_iroha_bin :: "string option"
  ra_kaigi_iroha_config :: "string option"
  ra_kaigi_domain :: "string option"
  ra_kaigi_call_name :: "string option"
  ra_kaigi_privacy_mode :: "string option"
  ra_kaigi_participant :: "string option"
  ra_kaigi_join_commitment_hex :: "string option"
  ra_kaigi_join_commitment_alias :: "string option"
  ra_kaigi_join_nullifier_hex :: "string option"
  ra_kaigi_leave_commitment_hex :: "string option"
  ra_kaigi_leave_nullifier_hex :: "string option"
  ra_kaigi_nullifier_issued_at_ms :: "u64 option"
  ra_kaigi_roster_root_hex :: "string option"
  ra_kaigi_join_proof_hex :: "string option"
  ra_kaigi_leave_proof_hex :: "string option"
  ra_kaigi_record_usage :: bool
  ra_kaigi_billed_gas :: u64
  ra_kaigi_usage_commitment_hex :: "string option"
  ra_kaigi_usage_proof_hex :: "string option"
  ra_anon_escrow_prepay_nano :: u64
  ra_anon_zk_extra_fee_per_minute_nano :: u64
  ra_anon_expected_duration_secs :: u64
  ra_anon_escrow_proof_interval_secs :: u64
  ra_anon_escrow_id :: "string option"
  ra_anon_escrow_proof_hex :: "string option"
  ra_anon_unshield_on_exit :: bool
  ra_anon_unshield_to :: "string option"
  ra_anon_unshield_inputs :: "string option"
  ra_anon_unshield_proof_json :: "string option"
  ra_anon_unshield_root_hint_hex :: "string option"
  ra_tui :: bool
  ra_legacy_ui :: bool

section \<open>Switches and modes\<close>

definition parse_boolish :: "string \<Rightarrow> bool option" where
  "parse_boolish raw =
     (let t = to_ascii_lowercase (str_trim raw) in
      if t \<in> {''1'', ''true'', ''yes'', ''on''} then Some True
      else if t \<in> {''0'', ''false'', ''no'', ''off''} then Some False
      else None)"

definition parse_on_off :: "string \<Rightarrow> string + bool" where
  "parse_on_off value =
     (if value \<in> {''on'', ''true'', ''1''} then Inr True
      else if value \<in> {''off'', ''false'', ''0''} then Inr False
      else Inl ''expected on|off'')"

definition is_pay_auto_enabled :: "room_chat_args \<Rightarrow> bool" where
  "is_pay_auto_enabled args \<longleftrightarrow> ra_pay_auto args \<or> \<not> ra_no_pay_auto args"

definition normalized_mode :: "string \<Rightarrow> string" where
  \<comment> \<open>\<open>trim().to_ascii_lowercase().replace('-', "_")\<close>\<close>
  "normalized_mode raw = replace_char CHR ''-'' CHR ''_'' (to_ascii_lowercase (str_trim raw))"

definition validate_privacy_mode_arg :: "string option \<Rightarrow> string option" where
  "validate_privacy_mode_arg mode = (case mode of None \<Rightarrow> None | Some mode \<Rightarrow>
     (let normalized = normalized_mode mode in
      if normalized \<noteq> ''transparent'' \<and> normalized \<noteq> ''zk'' \<and> normalized \<noteq> ''zk_roster_v1''
      then Some (''unsupported privacy mode `'' @ mode @ ''`; expected transparent|zk|zk_roster_v1|zk-roster-v1'')
      else None))"

definition normalize_privacy_mode :: "string option \<Rightarrow> string option" where
  "normalize_privacy_mode mode = Option.bind mode (\<lambda>raw.
     let normalized = normalized_mode raw in
     if normalized = [] then None
     else if normalized = ''zk_roster_v1'' then Some ''zk''
     else Some normalized)"

definition is_anonymous_mode_enabled :: "string option \<Rightarrow> bool" where
  "is_anonymous_mode_enabled mode \<longleftrightarrow> normalize_privacy_mode mode = Some ''zk''"

definition normalize_room_policy_arg :: "string \<Rightarrow> string + string" where
  "normalize_room_policy_arg room_policy =
     (let normalized = to_ascii_lowercase (str_trim room_policy) in
      if normalized = ''public'' then Inr normalized
      else if normalized = ''authenticated'' \<or> normalized = ''auth'' then Inr ''authenticated''
      else Inl (''unsupported room policy `'' @ room_policy @ ''`; expected public|authenticated|auth''))"

definition parse_target_platform :: "string \<Rightarrow> string + target_platform" where
  "parse_target_platform raw =
     (let normalized = replace_char CHR ''_'' CHR ''-'' (to_ascii_lowercase (str_trim raw)) in
      if normalized = ''web-chromium'' \<or> normalized = ''chromium'' then Inr WebChromium
      else if normalized = ''web-safari'' \<or> normalized = ''safari'' then Inr WebSafari
      else if normalized = ''web-firefox'' \<or> normalized = ''firefox'' then Inr WebFirefox
      else if normalized = ''macos'' \<or> normalized = ''mac-os'' then Inr MacOS
      else if normalized = ''ios'' then Inr IOS
      else if normalized = ''ipados'' \<or> normalized = ''ipad-os'' \<or> normalized = ''ipad'' then Inr IPadOS
      else if normalized = ''visionos'' \<or> normalized = ''vision-os'' \<or> normalized = ''vision'' then Inr VisionOS
      else if normalized = ''windows'' \<or> normalized = ''win'' then Inr Windows
      else if normalized = ''android'' then Inr Android
      else if normalized = ''linux'' then Inr Linux
      else Inl (''unsupported --platform value `'' @ raw @ ''`; expected one of web-chromium, web-safari, '' @
        ''web-firefox, macos, ios, ipados, visionos, windows, android, linux''))"

definition validate_nexus_routing_requirement :: "bool \<Rightarrow> string option \<Rightarrow> string option" where
  "validate_nexus_routing_requirement allow_local_handshake torii =
     (if allow_local_handshake \<or> torii \<noteq> None then None
      else Some (''--torii (or a --join-link containing torii=...) is required for Nexus-routed calls; pass '' @
        ''--allow-local-handshake only for local dev harness''))"

definition validate_join_link_call_metadata :: "string option \<Rightarrow> string option \<Rightarrow> string option" where
  "validate_join_link_call_metadata kaigi_domain kaigi_call_name =
     (if (kaigi_domain = None) \<noteq> (kaigi_call_name = None)
      then Some (''--kaigi-domain and --kaigi-call-name must be set together when '' @ ''embedding lifecycle metadata'')
      else None)"

section \<open>Hex arguments\<close>

fun cli_strip_hex_prefix :: "string \<Rightarrow> string" where
  "cli_strip_hex_prefix (a # b # s) =
     (if a = CHR ''0'' \<and> (b = CHR ''x'' \<or> b = CHR ''X'') then s else a # b # s)"
| "cli_strip_hex_prefix s = s"

definition normalize_hex_arg :: "string \<Rightarrow> string" where
  "normalize_hex_arg value = to_ascii_lowercase (cli_strip_hex_prefix (str_trim value))"

definition validate_hex_32_arg :: "ext \<Rightarrow> string \<Rightarrow> string \<Rightarrow> string option" where
  "validate_hex_32_arg X value arg_name =
     (let normalized = cli_strip_hex_prefix (str_trim value) in
      if length normalized \<noteq> 64 \<or> hex_decode X normalized = None
      then Some (arg_name @ '' must be 32-byte hex'') else None)"

definition validate_anon_proof_hex :: "ext \<Rightarrow> string \<Rightarrow> string \<Rightarrow> string option" where
  "validate_anon_proof_hex X value arg_name =
     (let normalized = cli_strip_hex_prefix (str_trim value) in
      if length normalized > MAX_ESCROW_PROOF_HEX_LEN
      then Some (arg_name @ '' too long: max '' @ dec MAX_ESCROW_PROOF_HEX_LEN @ '' hex chars'')
      else if normalized = [] \<or> odd (length normalized) \<or> hex_decode X normalized = None
      then Some (arg_name @ '' must be valid non-empty hex'') else None)"

definition validate_optional_hex_arg :: "ext \<Rightarrow> string option \<Rightarrow> string \<Rightarrow> string option" where
  "validate_optional_hex_arg X value arg_name = (case value of None \<Rightarrow> None | Some value \<Rightarrow>
     (let normalized = cli_strip_hex_prefix (str_trim value) in
      if normalized = [] \<or> odd (length normalized) \<or> hex_decode X normalized = None
      then Some (arg_name @ '' must be valid non-empty hex'') else None))"

definition normalize_optional_hex_owned :: "string option \<Rightarrow> string option" where
  "normalize_optional_hex_owned value = map_option normalize_hex_arg value"

definition validate_commitment_alias_dependency ::
    "string option \<Rightarrow> string option \<Rightarrow> string \<Rightarrow> string \<Rightarrow> string option" where
  "validate_commitment_alias_dependency commitment_hex commitment_alias commitment_arg alias_arg =
     (if commitment_alias \<noteq> None \<and> commitment_hex = None
      then Some (alias_arg @ '' requires '' @ commitment_arg) else None)"

definition validate_nullifier_timestamp_dependency ::
    "string option \<Rightarrow> u64 option \<Rightarrow> string \<Rightarrow> string \<Rightarrow> string option" where
  "validate_nullifier_timestamp_dependency nullifier_hex issued_at_ms nullifier_arg issued_at_ms_arg =
     (if issued_at_ms \<noteq> None \<and> nullifier_hex = None
      then Some (issued_at_ms_arg @ '' requires '' @ nullifier_arg) else None)"

definition MAX_ANON_UNSHIELD_INPUTS :: nat where
  "MAX_ANON_UNSHIELD_INPUTS = 256"

fun unshield_inputs_loop :: "ext \<Rightarrow> nat \<Rightarrow> string list \<Rightarrow> string list \<Rightarrow> string option" where
  \<comment> \<open>the loop over the tokens, with the index and the set \<open>seen\<close>\<close>
  "unshield_inputs_loop X idx seen [] = None"
| "unshield_inputs_loop X idx seen (token # tokens) =
     (if idx \<ge> MAX_ANON_UNSHIELD_INPUTS
      then Some (''--anon-unshield-inputs has too many entries: max '' @ dec MAX_ANON_UNSHIELD_INPUTS)
      else
        let normalized = normalize_hex_arg (str_trim token) in
        if validate_hex_32_arg X normalized ''--anon-unshield-inputs'' \<noteq> None
        then Some (''--anon-unshield-inputs item '' @ dec (idx + 1) @ '' must be 32-byte hex'')
        else case hs_insert seen normalized of (is_new, seen) \<Rightarrow>
          if \<not> is_new
          then Some (''--anon-unshield-inputs item '' @ dec (idx + 1) @ '' duplicates a previous nullifier'')
          else unshield_inputs_loop X (idx + 1) seen tokens)"

definition validate_unshield_inputs_arg :: "ext \<Rightarrow> string \<Rightarrow> string option" where
  "validate_unshield_inputs_arg X value = unshield_inputs_loop X 0 [] (split_on CHR '','' value)"

definition normalize_hex32_csv :: "ext \<Rightarrow> string \<Rightarrow> string + string" where
  "normalize_hex32_csv X value = (case validate_unshield_inputs_arg X value of
     Some e \<Rightarrow> Inl e
   | None \<Rightarrow> Inr (join '','' (map (\<lambda>token. normalize_hex_arg (str_trim token)) (split_on CHR '','' value))))"

section \<open>Names of anonymous participants and escrows\<close>

definition has_space_or_control :: "string \<Rightarrow> bool" where
  "has_space_or_control value = list_ex (\<lambda>ch. is_whitespace ch \<or> is_control ch) (chars value)"

definition validate_anon_escrow_id :: "string \<Rightarrow> string option" where
  "validate_anon_escrow_id value =
     (let normalized = str_trim value in
      if normalized = [] then Some ''--anon-escrow-id must be non-empty''
      else if \<not> is_ascii value then Some ''--anon-escrow-id must be ASCII''
      else if contains_at value then Some (''--anon-escrow-id must not contain '' @ quoted_at)
      else if has_space_or_control value
      then Some ''--anon-escrow-id must not contain whitespace/control chars''
      else if length normalized > MAX_ESCROW_ID_LEN
      then Some (''--anon-escrow-id too long: max '' @ dec MAX_ESCROW_ID_LEN @ '' chars'')
      else None)"

definition validate_anonymous_participant_handle :: "string \<Rightarrow> string option" where
  "validate_anonymous_participant_handle value =
     (if trim_is_empty value then Some ''--participant-id must be non-empty in anonymous mode''
      else if \<not> is_ascii value then Some ''--participant-id must be ASCII in anonymous mode''
      else if contains_at value
      then Some (''--participant-id must not contain '' @ quoted_at @ '' in anonymous mode'')
      else if has_space_or_control value
      then Some ''--participant-id must not contain whitespace/control chars in anonymous mode''
      else if length value > MAX_ANON_PARTICIPANT_HANDLE_LEN
      then Some (''--participant-id too long in anonymous mode: max '' @ dec MAX_ANON_PARTICIPANT_HANDLE_LEN @ '' chars'')
      else None)"

section \<open>Prices\<close>

definition quote_anon_escrow_total_nano_checked :: "room_chat_args \<Rightarrow> string + u64" where
  "quote_anon_escrow_total_nano_checked args =
     (let zk_minutes = (unat (ra_anon_expected_duration_secs args) + 59) div 60;
          zk_extra = sat_mul128 (unat (ra_anon_zk_extra_fee_per_minute_nano args)) zk_minutes;
          total_amount = sat_add128 (unat (ra_anon_escrow_prepay_nano args)) zk_extra in
      if total_amount < 2 ^ 64 then Inr (of_nat total_amount)
      else Inl ''anonymous escrow quote overflow: total amount exceeds u64 nano-XOR'')"

definition resolve_lifecycle_create_pricing :: "string \<Rightarrow> u64 \<Rightarrow> u64 \<Rightarrow> string + (string \<times> u64)" where
  "resolve_lifecycle_create_pricing privacy_mode gas_rate_per_minute zk_extra_fee_per_minute_nano =
     (let unsupported = (\<lambda>mode. ''unsupported privacy mode `'' @ mode @
            ''`; expected transparent|zk|zk_roster_v1|zk-roster-v1'') in
      if trim_is_empty privacy_mode then Inl (unsupported privacy_mode)
      else
        let privacy_mode = unwrap_or (normalize_privacy_mode (Some privacy_mode)) ''transparent'' in
        if privacy_mode \<noteq> ''transparent'' \<and> privacy_mode \<noteq> ''zk'' then Inl (unsupported privacy_mode)
        else if privacy_mode \<noteq> ''zk'' \<and> zk_extra_fee_per_minute_nano > 0
        then Inl ''--zk-extra-fee-per-minute-nano requires --privacy-mode zk''
        else if privacy_mode = ''zk''
        then (case checked_add gas_rate_per_minute zk_extra_fee_per_minute_nano of
                None \<Rightarrow> Inl (''lifecycle create pricing overflow: --gas-rate-per-minute + '' @
                  ''--zk-extra-fee-per-minute-nano exceeds u64'')
              | Some effective_gas_rate \<Rightarrow> Inr (privacy_mode, effective_gas_rate))
        else Inr (privacy_mode, gas_rate_per_minute))"

section \<open>Anonymous escrow settings\<close>

definition has_anonymous_escrow_overrides :: "room_chat_args \<Rightarrow> bool" where
  "has_anonymous_escrow_overrides args \<longleftrightarrow>
     ra_anon_escrow_prepay_nano args > 0
   \<or> ra_anon_zk_extra_fee_per_minute_nano args > 0
   \<or> ra_anon_expected_duration_secs args \<noteq> 60
   \<or> ra_anon_escrow_proof_interval_secs args \<noteq> 20
   \<or> ra_anon_escrow_id args \<noteq> None
   \<or> ra_anon_escrow_proof_hex args \<noteq> None
   \<or> ra_anon_unshield_on_exit args
   \<or> ra_anon_unshield_to args \<noteq> None
   \<or> ra_anon_unshield_inputs args \<noteq> None
   \<or> ra_anon_unshield_proof_json args \<noteq> None
   \<or> ra_anon_unshield_root_hint_hex args \<noteq> None"

definition check_some :: "'a option \<Rightarrow> ('a \<Rightarrow> string option) \<Rightarrow> string option" where
  \<comment> \<open>\<open>if let Some(value) = x { check(value)?; }\<close>\<close>
  "check_some x check = (case x of None \<Rightarrow> None | Some value \<Rightarrow> check value)"

definition err_if :: "bool \<Rightarrow> string \<Rightarrow> string option" where
  "err_if b e = (if b then Some e else None)"

definition validate_unshield_settings :: "ext \<Rightarrow> room_chat_args \<Rightarrow> string option" where
  \<comment> \<open>the block \<open>if args.anon_unshield_on_exit\<close>\<close>
  "validate_unshield_settings X args = first_error [
     err_if (ra_anon_escrow_prepay_nano args = 0)
       ''--anon-unshield-on-exit requires --anon-escrow-prepay-nano > 0'',
     err_if (ra_pay_iroha_config args = None) ''--anon-unshield-on-exit requires --pay-iroha-config'',
     err_if (ra_anon_unshield_to args = None \<or> ra_anon_unshield_inputs args = None
         \<or> ra_anon_unshield_proof_json args = None)
       (''--anon-unshield-on-exit requires --anon-unshield-to '' @
        ''--anon-unshield-inputs --anon-unshield-proof-json''),
     check_some (ra_anon_unshield_inputs args) (validate_unshield_inputs_arg X),
     check_some (ra_anon_unshield_root_hint_hex args)
       (\<lambda>root_hint. validate_hex_32_arg X root_hint ''--anon-unshield-root-hint-hex'')]"

definition validate_anonymous_escrow_settings :: "ext \<Rightarrow> room_chat_args \<Rightarrow> bool \<Rightarrow> string option" where
  "validate_anonymous_escrow_settings X args anonymous_mode =
     (if \<not> anonymous_mode \<and> has_anonymous_escrow_overrides args
      then Some ''anonymous escrow flags require --kaigi-privacy-mode zk''
      else if \<not> anonymous_mode then None
      else first_error [
        check_some (ra_participant_id args) validate_anonymous_participant_handle,
        check_some (ra_anon_escrow_id args) validate_anon_escrow_id,
        check_some (ra_anon_escrow_proof_hex args)
          (\<lambda>proof_hex. validate_anon_proof_hex X proof_hex ''--anon-escrow-proof-hex''),
        err_if (ra_anon_zk_extra_fee_per_minute_nano args > 0 \<and> ra_anon_escrow_prepay_nano args = 0)
          ''--anon-zk-extra-fee-per-minute-nano requires --anon-escrow-prepay-nano > 0'',
        err_if (ra_pay_rate_per_minute_nano args > 0)
          (''--pay-rate-per-minute-nano is unsupported in anonymous mode; '' @
           ''use escrow proof + prepay options instead''),
        err_if (ra_pay_auto args \<or> ra_no_pay_auto args)
          ''--pay-auto/--no-pay-auto are unsupported in anonymous mode'',
        err_if (ra_allow_unsettled_payments args)
          ''--allow-unsettled-payments is unsupported in anonymous mode'',
        err_if (ra_anon_zk_extra_fee_per_minute_nano args > 0 \<and> ra_anon_expected_duration_secs args = 0)
          ''--anon-zk-extra-fee-per-minute-nano requires --anon-expected-duration-secs > 0'',
        err_if (ra_anon_escrow_prepay_nano args > 0 \<and> (ra_pay_iroha_config args = None \<or> ra_pay_from args = None))
          ''--anon-escrow-prepay-nano requires --pay-iroha-config and --pay-from'',
        err_if ((ra_anon_unshield_to args \<noteq> None \<or> ra_anon_unshield_inputs args \<noteq> None
            \<or> ra_anon_unshield_proof_json args \<noteq> None \<or> ra_anon_unshield_root_hint_hex args \<noteq> None)
            \<and> \<not> ra_anon_unshield_on_exit args)
          (''--anon-unshield-to/--anon-unshield-inputs/--anon-unshield-proof-json/'' @
           ''--anon-unshield-root-hint-hex require --anon-unshield-on-exit''),
        (if ra_anon_unshield_on_exit args then validate_unshield_settings X args else None),
        (if ra_anon_escrow_prepay_nano args > 0 \<or> ra_anon_unshield_on_exit args
         then (case quote_anon_escrow_total_nano_checked args of Inl e \<Rightarrow> Some e | Inr _ \<Rightarrow> None)
         else None)])"

section \<open>Defaults\<close>

definition env_trimmed :: "(string \<Rightarrow> string option) \<Rightarrow> string \<Rightarrow> string option" where
  \<comment> \<open>\<open>env\<close> is the process environment\<close>
  "env_trimmed env key = Option.bind (env key) (\<lambda>v. let v = str_trim v in if v = [] then None else Some v)"

definition env_pathbuf :: "(string \<Rightarrow> string option) \<Rightarrow> string \<Rightarrow> string option" where
  "env_pathbuf env key = env_trimmed env key"

definition apply_room_chat_env_defaults :: "(string \<Rightarrow> string option) \<Rightarrow> room_chat_args \<Rightarrow> room_chat_args" where
  "apply_room_chat_env_defaults env args = args\<lparr>
     ra_torii := or_else (ra_torii args) (env_trimmed env ''KAIGI_TORII''),
     ra_pay_iroha_config := or_else (ra_pay_iroha_config args)
       (or_else (env_pathbuf env ''KAIGI_PAY_IROHA_CONFIG'') (env_pathbuf env ''IROHA_CONFIG'')),
     ra_pay_to := or_else (ra_pay_to args) (env_trimmed env ''KAIGI_PAY_TO''),
     ra_kaigi_iroha_config := or_else (ra_kaigi_iroha_config args)
       (env_pathbuf env ''KAIGI_LIFECYCLE_IROHA_CONFIG''),
     ra_kaigi_domain := or_else (ra_kaigi_domain args) (env_trimmed env ''KAIGI_DOMAIN''),
     ra_kaigi_call_name := or_else (ra_kaigi_call_name args) (env_trimmed env ''KAIGI_CALL_NAME''),
     ra_kaigi_privacy_mode := or_else (ra_kaigi_privacy_mode args) (env_trimmed env ''KAIGI_PRIVACY_MODE''),
     ra_kaigi_participant := or_else (ra_kaigi_participant args) (env_trimmed env ''KAIGI_PARTICIPANT'')\<rparr>"

end
