(* ===== verification/Cli_Ledger.thy ===== *)
theory Cli_Ledger
  imports Cli_Args Json_Values
begin

text \<open>
  What the command line client asks of the ledger (\<^verbatim>\<open>crates/kaigi-cli/src/main.rs\<close>): every request is a run of
  the external \<^verbatim>\<open>iroha\<close> program. The program is a parameter that takes its arguments and the state of the world
  and returns its outcome (or nothing, if it could not be started) and the new state; what is modelled is the
  argument lists, the order of the runs, and what is made of their outcomes.
\<close>

section \<open>Running the ledger program\<close>

record process_output =
  po_success :: bool
  po_code :: "int option"
  po_stdout :: string
  po_stderr :: string

type_synonym 'w spawn = "string \<Rightarrow> string list \<Rightarrow> 'w \<Rightarrow> process_output option \<times> 'w"

definition show_code :: "int option \<Rightarrow> string" where
  \<comment> \<open>\<open>{:?}\<close> of the exit code\<close>
  "show_code c = (case c of None \<Rightarrow> ''None'' | Some i \<Rightarrow> ''Some('' @ show_int i @ '')'')"

definition default_iroha_bin :: string where
  "default_iroha_bin = ''../iroha/target/release/iroha''"

definition run_iroha_json_cli ::
    "'w spawn \<Rightarrow> string \<Rightarrow> string \<Rightarrow> string list \<Rightarrow> 'w \<Rightarrow> (string + string) \<times> 'w" where
  "run_iroha_json_cli spawn iroha_bin iroha_config args w =
     (case spawn iroha_bin ([''-c'', iroha_config, ''--output-format'', ''json''] @ args) w of
        (None, w) \<Rightarrow> (Inl (''spawn iroha cli ('' @ iroha_bin @ '')''), w)
      | (Some out, w) \<Rightarrow>
          if \<not> po_success out
          then (Inl (''iroha cli command failed (exit='' @ show_code (po_code out) @ ''): '' @
            str_trim (po_stderr out)), w)
          else (Inr (str_trim (po_stdout out)), w))"

definition opt_arg :: "string \<Rightarrow> string option \<Rightarrow> string list" where
  \<comment> \<open>\<open>if let Some(value) = x { args.extend([flag, value]) }\<close>\<close>
  "opt_arg flag x = (case x of None \<Rightarrow> [] | Some v \<Rightarrow> [flag, v])"

section \<open>The kaigi-lifecycle command\<close>

datatype kaigi_lifecycle_command =
    Lc_Create (lc_domain: string) (lc_call_name: string) (lc_host: string) (lc_room_policy: string)
      (lc_privacy_mode: string) (lc_gas_rate: u64) (lc_zk_extra_fee: u64)
  | Lc_Join (lc_domain: string) (lc_call_name: string) (lc_participant: string) (lc_commitment: "string option")
      (lc_alias: "string option") (lc_nullifier: "string option") (lc_issued_at: "u64 option")
      (lc_roster_root: "string option") (lc_proof: "string option")
  | Lc_Leave (lc_domain: string) (lc_call_name: string) (lc_participant: string) (lc_commitment: "string option")
      (lc_nullifier: "string option") (lc_issued_at: "u64 option") (lc_roster_root: "string option")
      (lc_proof: "string option")
  | Lc_End (lc_domain: string) (lc_call_name: string) (lc_ended_at: "u64 option")
  | Lc_Record_Usage (lc_domain: string) (lc_call_name: string) (lc_duration: u64) (lc_billed_gas: u64)
      (lc_commitment: "string option") (lc_proof: "string option")

definition call_args :: "string \<Rightarrow> string \<Rightarrow> string \<Rightarrow> string list" where
  "call_args verb domain call_name =
     [''app'', ''kaigi'', verb, ''--domain'', domain, ''--call-name'', call_name]"

definition create_cli_args :: "kaigi_lifecycle_command \<Rightarrow> string + string list" where
  \<comment> \<open>the arm of \<open>Create\<close>\<close>
  "create_cli_args cmd = try_bind (normalize_room_policy_arg (lc_room_policy cmd)) (\<lambda>room_policy.
     try_bind (resolve_lifecycle_create_pricing (lc_privacy_mode cmd) (lc_gas_rate cmd) (lc_zk_extra_fee cmd))
       (\<lambda>(privacy_mode, effective_gas_rate).
     Inr (call_args ''create'' (lc_domain cmd) (lc_call_name cmd) @
       [''--host'', lc_host cmd, ''--room-policy'', room_policy, ''--privacy-mode'', privacy_mode,
        ''--gas-rate-per-minute'', dec64 effective_gas_rate])))"

definition join_cli_args :: "ext \<Rightarrow> kaigi_lifecycle_command \<Rightarrow> string + string list" where
  \<comment> \<open>the arm of \<open>Join\<close>\<close>
  "join_cli_args X cmd = (case first_error [
       validate_commitment_alias_dependency (lc_commitment cmd) (lc_alias cmd) ''--commitment-hex'' ''--commitment-alias'',
       validate_nullifier_timestamp_dependency (lc_nullifier cmd) (lc_issued_at cmd) ''--nullifier-hex''
         ''--nullifier-issued-at-ms'',
       validate_optional_hex_arg X (lc_commitment cmd) ''--commitment-hex'',
       validate_optional_hex_arg X (lc_nullifier cmd) ''--nullifier-hex'',
       validate_optional_hex_arg X (lc_roster_root cmd) ''--roster-root-hex'',
       validate_optional_hex_arg X (lc_proof cmd) ''--proof-hex''] of
     Some e \<Rightarrow> Inl e
   | None \<Rightarrow> Inr (call_args ''join'' (lc_domain cmd) (lc_call_name cmd) @ [''--participant'', lc_participant cmd] @
       opt_arg ''--commitment-hex'' (normalize_optional_hex_owned (lc_commitment cmd)) @
       opt_arg ''--commitment-alias'' (lc_alias cmd) @
       opt_arg ''--nullifier-hex'' (normalize_optional_hex_owned (lc_nullifier cmd)) @
       opt_arg ''--nullifier-issued-at-ms'' (map_option dec64 (lc_issued_at cmd)) @
       opt_arg ''--roster-root-hex'' (normalize_optional_hex_owned (lc_roster_root cmd)) @
       opt_arg ''--proof-hex'' (normalize_optional_hex_owned (lc_proof cmd))))"

definition leave_cli_args :: "ext \<Rightarrow> kaigi_lifecycle_command \<Rightarrow> string + string list" where
  \<comment> \<open>the arm of \<open>Leave\<close>\<close>
  "leave_cli_args X cmd = (case first_error [
       validate_nullifier_timestamp_dependency (lc_nullifier cmd) (lc_issued_at cmd) ''--nullifier-hex''
         ''--nullifier-issued-at-ms'',
       validate_optional_hex_arg X (lc_commitment cmd) ''--commitment-hex'',
       validate_optional_hex_arg X (lc_nullifier cmd) ''--nullifier-hex'',
       validate_optional_hex_arg X (lc_roster_root cmd) ''--roster-root-hex'',
       validate_optional_hex_arg X (lc_proof cmd) ''--proof-hex''] of
     Some e \<Rightarrow> Inl e
   | None \<Rightarrow> Inr (call_args ''leave'' (lc_domain cmd) (lc_call_name cmd) @ [''--participant'', lc_participant cmd] @
       opt_arg ''--commitment-hex'' (normalize_optional_hex_owned (lc_commitment cmd)) @
       opt_arg ''--nullifier-hex'' (normalize_optional_hex_owned (lc_nullifier cmd)) @
       opt_arg ''--nullifier-issued-at-ms'' (map_option dec64 (lc_issued_at cmd)) @
       opt_arg ''--roster-root-hex'' (normalize_optional_hex_owned (lc_roster_root cmd)) @
       opt_arg ''--proof-hex'' (normalize_optional_hex_owned (lc_proof cmd))))"

definition record_usage_cli_args :: "ext \<Rightarrow> kaigi_lifecycle_command \<Rightarrow> string + string list" where
  \<comment> \<open>the arm of \<open>RecordUsage\<close>\<close>
  "record_usage_cli_args X cmd = (case first_error [
       validate_optional_hex_arg X (lc_commitment cmd) ''--usage-commitment-hex'',
       validate_optional_hex_arg X (lc_proof cmd) ''--proof-hex''] of
     Some e \<Rightarrow> Inl e
   | None \<Rightarrow> Inr (call_args ''record-usage'' (lc_domain cmd) (lc_call_name cmd) @
       [''--duration-ms'', dec64 (lc_duration cmd), ''--billed-gas'', dec64 (lc_billed_gas cmd)] @
       opt_arg ''--usage-commitment-hex'' (normalize_optional_hex_owned (lc_commitment cmd)) @
       opt_arg ''--proof-hex'' (normalize_optional_hex_owned (lc_proof cmd))))"

definition build_kaigi_lifecycle_cli_args :: "ext \<Rightarrow> kaigi_lifecycle_command \<Rightarrow> string + string list" where
  "build_kaigi_lifecycle_cli_args X cmd = (case cmd of
     Lc_Create _ _ _ _ _ _ _ \<Rightarrow> create_cli_args cmd
   | Lc_Join _ _ _ _ _ _ _ _ _ \<Rightarrow> join_cli_args X cmd
   | Lc_Leave _ _ _ _ _ _ _ _ \<Rightarrow> leave_cli_args X cmd
   | Lc_End domain call_name ended_at \<Rightarrow>
       Inr (call_args ''end'' domain call_name @ opt_arg ''--ended-at-ms'' (map_option dec64 ended_at))
   | Lc_Record_Usage _ _ _ _ _ _ \<Rightarrow> record_usage_cli_args X cmd)"

definition kaigi_lifecycle ::
    "ext \<Rightarrow> 'w spawn \<Rightarrow> string option \<Rightarrow> string \<Rightarrow> kaigi_lifecycle_command \<Rightarrow> 'w \<Rightarrow> (string + string) \<times> 'w" where
  \<comment> \<open>the result is the line printed\<close>
  "kaigi_lifecycle X spawn iroha_bin iroha_config cmd w = (case build_kaigi_lifecycle_cli_args X cmd of
     Inl e \<Rightarrow> (Inl e, w)
   | Inr args \<Rightarrow> run_iroha_json_cli spawn (unwrap_or iroha_bin default_iroha_bin) iroha_config args w)"

section \<open>Mirroring a call on the ledger\<close>

record auto_kaigi_lifecycle =
  al_iroha_bin :: string
  al_iroha_config :: string
  al_domain :: string
  al_call_name :: string
  al_participant :: string
  al_join_commitment_hex :: "string option"
  al_join_commitment_alias :: "string option"
  al_join_nullifier_hex :: "string option"
  al_leave_commitment_hex :: "string option"
  al_leave_nullifier_hex :: "string option"
  al_nullifier_issued_at_ms :: "u64 option"
  al_roster_root_hex :: "string option"
  al_join_proof_hex :: "string option"
  al_leave_proof_hex :: "string option"
  al_record_usage :: bool
  al_billed_gas :: u64
  al_usage_commitment_hex :: "string option"
  al_usage_proof_hex :: "string option"

definition has_auto_kaigi_lifecycle_overrides :: "room_chat_args \<Rightarrow> bool" where
  "has_auto_kaigi_lifecycle_overrides args \<longleftrightarrow>
     ra_kaigi_iroha_bin args \<noteq> None \<or> ra_kaigi_participant args \<noteq> None
   \<or> ra_kaigi_join_commitment_hex args \<noteq> None \<or> ra_kaigi_join_commitment_alias args \<noteq> None
   \<or> ra_kaigi_join_nullifier_hex args \<noteq> None \<or> ra_kaigi_leave_commitment_hex args \<noteq> None
   \<or> ra_kaigi_leave_nullifier_hex args \<noteq> None \<or> ra_kaigi_nullifier_issued_at_ms args \<noteq> None
   \<or> ra_kaigi_roster_root_hex args \<noteq> None \<or> ra_kaigi_join_proof_hex args \<noteq> None
   \<or> ra_kaigi_leave_proof_hex args \<noteq> None \<or> ra_kaigi_record_usage args \<or> ra_kaigi_billed_gas args > 0
   \<or> ra_kaigi_usage_commitment_hex args \<noteq> None \<or> ra_kaigi_usage_proof_hex args \<noteq> None"

definition auto_lifecycle_checks :: "ext \<Rightarrow> room_chat_args \<Rightarrow> string option" where
  \<comment> \<open>the checks of \<open>build_auto_kaigi_lifecycle\<close> once the call is named\<close>
  "auto_lifecycle_checks X args = first_error [
     validate_commitment_alias_dependency (ra_kaigi_join_commitment_hex args) (ra_kaigi_join_commitment_alias args)
       ''--kaigi-join-commitment-hex'' ''--kaigi-join-commitment-alias'',
     validate_optional_hex_arg X (ra_kaigi_join_commitment_hex args) ''--kaigi-join-commitment-hex'',
     validate_optional_hex_arg X (ra_kaigi_join_nullifier_hex args) ''--kaigi-join-nullifier-hex'',
     validate_optional_hex_arg X (ra_kaigi_leave_commitment_hex args) ''--kaigi-leave-commitment-hex'',
     validate_optional_hex_arg X (ra_kaigi_leave_nullifier_hex args) ''--kaigi-leave-nullifier-hex'',
     validate_optional_hex_arg X (ra_kaigi_roster_root_hex args) ''--kaigi-roster-root-hex'',
     validate_optional_hex_arg X (ra_kaigi_join_proof_hex args) ''--kaigi-join-proof-hex'',
     validate_optional_hex_arg X (ra_kaigi_leave_proof_hex args) ''--kaigi-leave-proof-hex'',
     validate_optional_hex_arg X (ra_kaigi_usage_commitment_hex args) ''--kaigi-usage-commitment-hex'',
     validate_optional_hex_arg X (ra_kaigi_usage_proof_hex args) ''--kaigi-usage-proof-hex'',
     err_if (ra_kaigi_nullifier_issued_at_ms args \<noteq> None \<and> ra_kaigi_join_nullifier_hex args = None
         \<and> ra_kaigi_leave_nullifier_hex args = None)
       (''--kaigi-nullifier-issued-at-ms requires --kaigi-join-nullifier-hex '' @ ''or --kaigi-leave-nullifier-hex''),
     err_if (\<not> ra_kaigi_record_usage args \<and> (ra_kaigi_billed_gas args > 0
         \<or> ra_kaigi_usage_commitment_hex args \<noteq> None \<or> ra_kaigi_usage_proof_hex args \<noteq> None))
       (''--kaigi-billed-gas/--kaigi-usage-commitment-hex/--kaigi-usage-proof-hex '' @ ''require --kaigi-record-usage'')]"

definition build_auto_kaigi_lifecycle :: "ext \<Rightarrow> room_chat_args \<Rightarrow> string + auto_kaigi_lifecycle option" where
  "build_auto_kaigi_lifecycle X args = (case ra_kaigi_iroha_config args of
     None \<Rightarrow>
       if has_auto_kaigi_lifecycle_overrides args
       then Inl ''--kaigi-iroha-config is required when using Kaigi lifecycle mirroring flags''
       else Inr None
   | Some config \<Rightarrow> (case (ra_kaigi_domain args, ra_kaigi_call_name args, ra_kaigi_participant args) of
       (Some domain, Some call_name, Some participant) \<Rightarrow> (case auto_lifecycle_checks X args of
          Some e \<Rightarrow> Inl e
        | None \<Rightarrow> Inr (Some \<lparr>
            al_iroha_bin = unwrap_or (ra_kaigi_iroha_bin args) default_iroha_bin,
            al_iroha_config = config, al_domain = domain, al_call_name = call_name, al_participant = participant,
            al_join_commitment_hex = normalize_optional_hex_owned (ra_kaigi_join_commitment_hex args),
            al_join_commitment_alias = ra_kaigi_join_commitment_alias args,
            al_join_nullifier_hex = normalize_optional_hex_owned (ra_kaigi_join_nullifier_hex args),
            al_leave_commitment_hex = normalize_optional_hex_owned (ra_kaigi_leave_commitment_hex args),
            al_leave_nullifier_hex = normalize_optional_hex_owned (ra_kaigi_leave_nullifier_hex args),
            al_nullifier_issued_at_ms = ra_kaigi_nullifier_issued_at_ms args,
            al_roster_root_hex = normalize_optional_hex_owned (ra_kaigi_roster_root_hex args),
            al_join_proof_hex = normalize_optional_hex_owned (ra_kaigi_join_proof_hex args),
            al_leave_proof_hex = normalize_optional_hex_owned (ra_kaigi_leave_proof_hex args),
            al_record_usage = ra_kaigi_record_usage args,
            al_billed_gas = ra_kaigi_billed_gas args,
            al_usage_commitment_hex = normalize_optional_hex_owned (ra_kaigi_usage_commitment_hex args),
            al_usage_proof_hex = normalize_optional_hex_owned (ra_kaigi_usage_proof_hex args)\<rparr>))
     | _ \<Rightarrow> Inl (''for Kaigi lifecycle mirroring, set all of: --kaigi-iroha-config '' @
         ''--kaigi-domain --kaigi-call-name --kaigi-participant'')))"

definition auto_join_args :: "auto_kaigi_lifecycle \<Rightarrow> string list" where
  "auto_join_args lc = call_args ''join'' (al_domain lc) (al_call_name lc) @ [''--participant'', al_participant lc] @
     opt_arg ''--commitment-hex'' (al_join_commitment_hex lc) @
     opt_arg ''--commitment-alias'' (al_join_commitment_alias lc) @
     opt_arg ''--nullifier-hex'' (al_join_nullifier_hex lc) @
     (if al_join_nullifier_hex lc \<noteq> None
      then opt_arg ''--nullifier-issued-at-ms'' (map_option dec64 (al_nullifier_issued_at_ms lc)) else []) @
     opt_arg ''--roster-root-hex'' (al_roster_root_hex lc) @
     opt_arg ''--proof-hex'' (al_join_proof_hex lc)"

definition run_auto_kaigi_join :: "'w spawn \<Rightarrow> auto_kaigi_lifecycle \<Rightarrow> 'w \<Rightarrow> (string + string) \<times> 'w" where
  "run_auto_kaigi_join spawn lc = run_iroha_json_cli spawn (al_iroha_bin lc) (al_iroha_config lc) (auto_join_args lc)"

definition auto_leave_args :: "auto_kaigi_lifecycle \<Rightarrow> string list" where
  "auto_leave_args lc = call_args ''leave'' (al_domain lc) (al_call_name lc) @ [''--participant'', al_participant lc] @
     opt_arg ''--commitment-hex'' (al_leave_commitment_hex lc) @
     opt_arg ''--nullifier-hex'' (al_leave_nullifier_hex lc) @
     (if al_leave_nullifier_hex lc \<noteq> None
      then opt_arg ''--nullifier-issued-at-ms'' (map_option dec64 (al_nullifier_issued_at_ms lc)) else []) @
     opt_arg ''--roster-root-hex'' (al_roster_root_hex lc) @
     opt_arg ''--proof-hex'' (al_leave_proof_hex lc)"

definition run_auto_kaigi_leave :: "'w spawn \<Rightarrow> auto_kaigi_lifecycle \<Rightarrow> 'w \<Rightarrow> (string + string) \<times> 'w" where
  "run_auto_kaigi_leave spawn lc = run_iroha_json_cli spawn (al_iroha_bin lc) (al_iroha_config lc) (auto_leave_args lc)"

definition run_auto_kaigi_end :: "'w spawn \<Rightarrow> auto_kaigi_lifecycle \<Rightarrow> u64 \<Rightarrow> 'w \<Rightarrow> (string + string) \<times> 'w" where
  "run_auto_kaigi_end spawn lc ended_at_ms = run_iroha_json_cli spawn (al_iroha_bin lc) (al_iroha_config lc)
     (call_args ''end'' (al_domain lc) (al_call_name lc) @ [''--ended-at-ms'', dec64 ended_at_ms])"

definition run_auto_kaigi_record_usage ::
    "'w spawn \<Rightarrow> auto_kaigi_lifecycle \<Rightarrow> u64 \<Rightarrow> 'w \<Rightarrow> (string + string) \<times> 'w" where
  "run_auto_kaigi_record_usage spawn lc duration_ms =
     run_iroha_json_cli spawn (al_iroha_bin lc) (al_iroha_config lc)
       (call_args ''record-usage'' (al_domain lc) (al_call_name lc) @
        [''--duration-ms'', dec64 duration_ms, ''--billed-gas'', dec64 (al_billed_gas lc)] @
        opt_arg ''--usage-commitment-hex'' (al_usage_commitment_hex lc) @
        opt_arg ''--proof-hex'' (al_usage_proof_hex lc))"

definition should_skip_leave_after_end :: "bool \<Rightarrow> bool \<Rightarrow> bool" where
  "should_skip_leave_after_end end_requested end_succeeded \<longleftrightarrow> end_requested \<and> end_succeeded"

datatype console = Out string | Err string

definition report :: "string \<Rightarrow> string \<Rightarrow> string + string \<Rightarrow> console" where
  "report key what r = (case r of
     Inr payload \<Rightarrow> Out (key @ ''='' @ payload)
   | Inl err \<Rightarrow> Err (''kaigi lifecycle '' @ what @ '' failed: '' @ err))"

definition finalize_auto_kaigi_lifecycle ::
    "'w spawn \<Rightarrow> u64 \<Rightarrow> u64 \<Rightarrow> auto_kaigi_lifecycle option \<Rightarrow> bool \<Rightarrow> u64 \<Rightarrow> 'w \<Rightarrow> console list \<times> 'w" where
  \<comment> \<open>\<open>now\<close> and \<open>ended_at_ms\<close> are the two clock readings; the runs are awaited, none of the tasks panics\<close>
  "finalize_auto_kaigi_lifecycle spawn now ended_at_ms auto_lc end_requested session_started_at_ms w = (case auto_lc of
     None \<Rightarrow> ([], w)
   | Some lc \<Rightarrow>
       let duration_ms = sat_sub now session_started_at_ms;
           (end_lines, ended_call, w) = (if end_requested
             then (case run_auto_kaigi_end spawn lc ended_at_ms w of
                     (r, w) \<Rightarrow> ([report ''kaigi_end'' ''end'' r], \<not> isl r, w))
             else ([], False, w));
           (leave_lines, w) = (if \<not> should_skip_leave_after_end end_requested ended_call
             then (case run_auto_kaigi_leave spawn lc w of (r, w) \<Rightarrow> ([report ''kaigi_leave'' ''leave'' r], w))
             else ([], w));
           (usage_lines, w) = (if al_record_usage lc
             then (case run_auto_kaigi_record_usage spawn lc duration_ms w of
                     (r, w) \<Rightarrow> ([report ''kaigi_record_usage'' ''record-usage'' r], w))
             else ([], w)) in
       (end_lines @ leave_lines @ usage_lines, w))"

section \<open>Transfers\<close>

definition pad9 :: "nat \<Rightarrow> string" where
  \<comment> \<open>\<open>{:09}\<close>\<close>
  "pad9 n = (let s = dec n in replicate (9 - length s) (CHR ''0'') @ s)"

definition nano_xor_to_decimal :: "u64 \<Rightarrow> string" where
  "nano_xor_to_decimal amount_nano_xor =
     (let whole = unat amount_nano_xor div 1000000000; frac = unat amount_nano_xor mod 1000000000 in
      dec whole @ ''.'' @ pad9 frac)"

definition trim_matches :: "char \<Rightarrow> string \<Rightarrow> string" where
  \<comment> \<open>\<open>s.trim_matches(c)\<close>\<close>
  "trim_matches c s = rev (dropWhile (\<lambda>x. x = c) (rev (dropWhile (\<lambda>x. x = c) s)))"

fun config_loop :: "string list \<Rightarrow> bool \<Rightarrow> string option \<Rightarrow> string option \<Rightarrow> string option \<times> string option" where
  \<comment> \<open>the loop over the lines, with \<open>in_account\<close>, \<open>domain\<close> and \<open>public_key\<close>\<close>
  "config_loop [] in_account domain public_key = (domain, public_key)"
| "config_loop (line # lines) in_account domain public_key =
     (let line = str_trim line in
      if line = [] \<or> starts_with line ''#'' then config_loop lines in_account domain public_key
      else
        let line = str_trim (hd (split_on CHR ''#'' line)) in
        if line = [] then config_loop lines in_account domain public_key
        else if starts_with line ''['' \<and> last line = CHR '']''
        then config_loop lines (line = ''[account]'') domain public_key
        else if \<not> in_account then config_loop lines in_account domain public_key
        else case split_once CHR ''='' line of
          None \<Rightarrow> config_loop lines in_account domain public_key
        | Some (k, v) \<Rightarrow>
            let key = str_trim k;
                val = trim_matches (CHR 0x27) (trim_matches (CHR 0x22) (str_trim v));
                domain = (if key = ''domain'' then Some val else domain);
                public_key = (if key = ''public_key'' then Some val else public_key) in
            if domain \<noteq> None \<and> public_key \<noteq> None then (domain, public_key)
            else config_loop lines in_account domain public_key)"

definition infer_account_id :: "string \<Rightarrow> string + string" where
  \<comment> \<open>\<open>infer_account_id_from_config\<close>, on the text of the file\<close>
  "infer_account_id raw = (case config_loop (str_lines raw) False None None of
     (None, _) \<Rightarrow> Inl ''missing [account].domain in config''
   | (Some domain, None) \<Rightarrow> Inl ''missing [account].public_key in config''
   | (Some domain, Some public_key) \<Rightarrow> Inr (public_key @ ''@'' @ domain))"

definition infer_account_id_from_config :: "(string \<Rightarrow> string option) \<Rightarrow> string \<Rightarrow> string + string" where
  \<comment> \<open>\<open>read_file\<close> is the file system\<close>
  "infer_account_id_from_config read_file path = (case read_file path of
     None \<Rightarrow> Inl (''read iroha config '' @ path)
   | Some raw \<Rightarrow> infer_account_id raw)"

definition find_string :: "json_object \<Rightarrow> string list \<Rightarrow> string option" where
  \<comment> \<open>the loop over the keys of a hash object\<close>
  "find_string obj keys =
     fold (\<lambda>k r. or_else r (Option.bind (map_of obj k) value_as_str)) keys None"

definition extract_hash :: "json_ext \<Rightarrow> json \<Rightarrow> string + string" where
  \<comment> \<open>\<open>Value::to_string\<close> prints a value; it does not fail on one\<close>
  "extract_hash J v = (case Option.bind (as_object v) (\<lambda>obj. map_of obj ''hash'') of
     None \<Rightarrow> Inl ''iroha cli output missing `hash` field''
   | Some hash_val \<Rightarrow> (case value_as_str hash_val of
       Some s \<Rightarrow> Inr s
     | None \<Rightarrow>
         (case Option.bind (as_object hash_val) (\<lambda>obj. find_string obj [''value'', ''hash'', ''hex'', ''bytes'']) of
            Some s \<Rightarrow> Inr s
          | None \<Rightarrow> json_print J hash_val)))"

definition transfer_xor_nano_via_cli ::
    "json_ext \<Rightarrow> (string \<Rightarrow> string option) \<Rightarrow> 'w spawn \<Rightarrow> string \<Rightarrow> string \<Rightarrow> string option \<Rightarrow> string \<Rightarrow> u64
      \<Rightarrow> string \<Rightarrow> 'w \<Rightarrow> (string + string) \<times> 'w" where
  "transfer_xor_nano_via_cli J read_file spawn iroha_bin config from_account_id_override to amount_nano_xor asset_def w =
     (case (case from_account_id_override of
              Some account \<Rightarrow> Inr account
            | None \<Rightarrow> infer_account_id_from_config read_file config) of
        Inl e \<Rightarrow> (Inl e, w)
      | Inr from_account \<Rightarrow>
          (case spawn iroha_bin [''-c'', config, ''--output-format'', ''json'', ''ledger'', ''asset'', ''transfer'', ''--id'',
               asset_def @ ''#'' @ from_account, ''--to'', to, ''--quantity'', nano_xor_to_decimal amount_nano_xor] w of
             (None, w) \<Rightarrow> (Inl (''spawn iroha cli ('' @ iroha_bin @ '')''), w)
           | (Some out, w) \<Rightarrow>
               (if \<not> po_success out
                then Inl (''iroha cli transfer failed (exit='' @ show_code (po_code out) @ ''): '' @
                  str_trim (po_stderr out))
                else case json_parse J (str_trim (po_stdout out)) of
                       Inl _ \<Rightarrow> Inl ''parse iroha cli json output''
                     | Inr v \<Rightarrow> (case extract_hash J v of
                         Inl _ \<Rightarrow> Inl ''extract tx hash''
                       | Inr hash \<Rightarrow> Inr hash), w)))"

record xor_transfer_args =
  xt_iroha_bin :: "string option"
  xt_iroha_config :: string
  xt_from :: "string option"
  xt_to :: string
  xt_amount_nano_xor :: u64
  xt_asset_def :: string
  xt_blocking :: bool

definition xor_transfer ::
    "json_ext \<Rightarrow> (string \<Rightarrow> string option) \<Rightarrow> 'w spawn \<Rightarrow> xor_transfer_args \<Rightarrow> 'w \<Rightarrow> (string + string) \<times> 'w" where
  \<comment> \<open>the result is the line printed; \<open>blocking\<close> is passed on and ignored\<close>
  "xor_transfer J read_file spawn args w =
     (case transfer_xor_nano_via_cli J read_file spawn (unwrap_or (xt_iroha_bin args) default_iroha_bin)
        (xt_iroha_config args) (xt_from args) (xt_to args) (xt_amount_nano_xor args) (xt_asset_def args) w of
        (r, w) \<Rightarrow> (map_sum id (\<lambda>tx_hash. ''tx_hash='' @ tx_hash) r, w))"

section \<open>Anonymous escrow\<close>

record prepay_random =
  \<comment> \<open>the random values of one shield request: 32, 32, 24 and 64 bytes\<close>
  pr_note_commitment :: bytes
  pr_ephemeral_pubkey :: bytes
  pr_nonce :: bytes
  pr_ciphertext :: bytes

definition run_anon_escrow_prepay ::
    "ext \<Rightarrow> (bytes \<Rightarrow> string) \<Rightarrow> 'w spawn \<Rightarrow> prepay_random \<Rightarrow> room_chat_args \<Rightarrow> 'w \<Rightarrow> (string + string) \<times> console list \<times> 'w" where
  \<comment> \<open>the second argument is the library's base64 encoding\<close>
  "run_anon_escrow_prepay X base64 spawn rnd args w =
     (case ra_pay_iroha_config args of
        None \<Rightarrow> (Inl ''--pay-iroha-config is required for --anon-escrow-prepay-nano'', [], w)
      | Some iroha_config \<Rightarrow> (case ra_pay_from args of
          None \<Rightarrow> (Inl ''--pay-from is required for --anon-escrow-prepay-nano'', [], w)
        | Some payer \<Rightarrow> (case quote_anon_escrow_total_nano_checked args of
            Inl e \<Rightarrow> (Inl e, [], w)
          | Inr total_amount \<Rightarrow>
              let zk_extra = sat_sub total_amount (ra_anon_escrow_prepay_nano args);
                  cmd = [''app'', ''zk'', ''shield'', ''--asset'', ra_pay_asset_def args, ''--from'', payer,
                    ''--amount'', dec64 total_amount, ''--note-commitment'', hex_encode X (pr_note_commitment rnd),
                    ''--ephemeral-pubkey'', hex_encode X (pr_ephemeral_pubkey rnd),
                    ''--nonce-hex'', hex_encode X (pr_nonce rnd), ''--ciphertext-b64'', base64 (pr_ciphertext rnd)];
                  line = ''anon_escrow_quote base_nano='' @ dec64 (ra_anon_escrow_prepay_nano args) @
                    '' zk_extra_nano='' @ dec64 zk_extra @ '' total_nano='' @ dec64 total_amount @
                    '' expected_duration_secs='' @ dec64 (ra_anon_expected_duration_secs args) in
              (case run_iroha_json_cli spawn (unwrap_or (ra_pay_iroha_bin args) default_iroha_bin) iroha_config cmd w of
                 (r, w) \<Rightarrow> (r, [Out line], w)))))"

definition unshield_cli_args :: "ext \<Rightarrow> room_chat_args \<Rightarrow> string \<Rightarrow> string \<Rightarrow> string \<Rightarrow> string + string list" where
  \<comment> \<open>the amount, the inputs and the arguments of \<open>run_anon_escrow_unshield\<close>\<close>
  "unshield_cli_args X args to inputs proof_json =
     try_bind (quote_anon_escrow_total_nano_checked args) (\<lambda>total_amount.
     try_bind (normalize_hex32_csv X inputs) (\<lambda>normalized_inputs.
       let cmd = [''app'', ''zk'', ''unshield'', ''--asset'', ra_pay_asset_def args, ''--to'', to,
             ''--amount'', dec64 total_amount, ''--inputs'', normalized_inputs, ''--proof-json'', proof_json] in
       (case ra_anon_unshield_root_hint_hex args of
          None \<Rightarrow> Inr cmd
        | Some root_hint \<Rightarrow> (case validate_hex_32_arg X root_hint ''--anon-unshield-root-hint-hex'' of
            Some e \<Rightarrow> Inl e
          | None \<Rightarrow> Inr (cmd @ [''--root-hint'', normalize_hex_arg root_hint])))))"

definition run_anon_escrow_unshield ::
    "ext \<Rightarrow> 'w spawn \<Rightarrow> room_chat_args \<Rightarrow> 'w \<Rightarrow> (string + string) \<times> 'w" where
  "run_anon_escrow_unshield X spawn args w =
     (case ra_pay_iroha_config args of
        None \<Rightarrow> (Inl ''--pay-iroha-config is required for anonymous unshield'', w)
      | Some iroha_config \<Rightarrow> (case ra_anon_unshield_to args of
          None \<Rightarrow> (Inl ''--anon-unshield-to is required'', w)
        | Some to \<Rightarrow> (case ra_anon_unshield_inputs args of
            None \<Rightarrow> (Inl ''--anon-unshield-inputs is required'', w)
          | Some inputs \<Rightarrow> (case ra_anon_unshield_proof_json args of
              None \<Rightarrow> (Inl ''--anon-unshield-proof-json is required'', w)
            | Some proof_json \<Rightarrow> (case unshield_cli_args X args to inputs proof_json of
                Inl e \<Rightarrow> (Inl e, w)
              | Inr cmd \<Rightarrow> run_iroha_json_cli spawn (unwrap_or (ra_pay_iroha_bin args) default_iroha_bin)
                  iroha_config cmd w)))))"

end
