(* ===== verification/Cli_Play.thy ===== *)
theory Cli_Play
  imports Cli_View Cli_Ledger
begin

text \<open>
  The keys of the terminal interface, snapshots of a picture, and \<open>ascii-play\<close>, the player of
  \<^verbatim>\<open>crates/kaigi-cli/src/main.rs\<close>: a round of its loop takes the keys that are pressed and then reads a frame from
  \<open>ffmpeg\<close>. The terminal, the process and the clock are inputs; a run is a list of rounds.
\<close>

section \<open>Keys\<close>

datatype key_code = Key_Char nat | Key_Left | Key_Right | Key_Up | Key_Down | Key_Tab | Key_BackTab | Key_Esc | Key_End
  | Key_F nat | Key_Other
  \<comment> \<open>a character with its code point\<close>

record key_event =
  ke_release :: bool
  ke_control :: bool
  ke_code :: key_code

definition same_keys :: string where
  \<comment> \<open>the letters and digits that stand for themselves\<close>
  "same_keys = ''01234cmvspgjnerbktdawxh''"

definition map_tui_key_to_control_input :: "key_event \<Rightarrow> string option" where
  "map_tui_key_to_control_input key =
     (if ke_release key then None
      else if ke_control key \<and> (ke_code key = Key_Char 99 \<or> ke_code key = Key_Char 100) then Some ''/quit''
      else case ke_code key of
        Key_Char n \<Rightarrow>
          (let ch = (if 65 \<le> n \<and> n \<le> 90 then n + 32 else n) in
           if n = 32 then Some ''p'' else if n = 43 \<or> n = 61 then Some ''+'' else if n = 45 then Some ''-''
           else if n = 63 then Some ''h''
           else if ch < 128 \<and> char_of ch \<in> set same_keys then Some [char_of ch]
           else if ch = 113 then Some ''/quit'' else None)
      | Key_Left \<Rightarrow> Some ''left'' | Key_Right \<Rightarrow> Some ''right'' | Key_Up \<Rightarrow> Some ''up'' | Key_Down \<Rightarrow> Some ''down''
      | Key_Tab \<Rightarrow> Some ''tab'' | Key_BackTab \<Rightarrow> Some ''tab'' | Key_Esc \<Rightarrow> Some ''/quit'' | Key_End \<Rightarrow> Some ''/end''
      | Key_F n \<Rightarrow> if n = 1 then Some ''h'' else None
      | Key_Other \<Rightarrow> None)"

section \<open>Snapshots\<close>

type_synonym 'w write_file = "string \<Rightarrow> string \<Rightarrow> 'w \<Rightarrow> (string + unit) \<times> 'w"
  \<comment> \<open>a path and a content; the directory is made if it is missing\<close>

definition write_ascii_snapshot ::
    "'w write_file \<Rightarrow> u64 \<Rightarrow> string \<Rightarrow> string \<Rightarrow> string list \<Rightarrow> 'w \<Rightarrow> (string + string) \<times> 'w" where
  \<comment> \<open>the path that was written\<close>
  "write_ascii_snapshot write_file now label header rows w =
     (let path = ''ascii-snapshots/'' @ dec64 now @ ''-'' @ sanitize_snapshot_label label @ ''.txt'';
          payload = header @ [CHR 0x0A] @ concat (map (\<lambda>row. row @ [CHR 0x0A]) rows) in
      case write_file path payload w of
        (Inl e, w) \<Rightarrow> (Inl e, w)
      | (Inr _, w) \<Rightarrow> (Inr path, w))"

definition capture_conference_snapshot ::
    "'w write_file \<Rightarrow> u64 \<Rightarrow> u64 \<Rightarrow> conference_controls \<Rightarrow> (string, ascii_video_frame) hmap
      \<Rightarrow> (string, participant_media_telemetry) hmap \<Rightarrow> 'w \<Rightarrow> (string + string option) \<times> 'w" where
  \<comment> \<open>of the feed in focus, if there is one; the second clock reading is the one of the file name\<close>
  "capture_conference_snapshot write_file now now2 c frames stats w =
     (case focused_feeds c frames stats now of
        [] \<Rightarrow> (Inr None, w)
      | participant_id # _ \<Rightarrow> (case hm_get frames participant_id of
          None \<Rightarrow> (Inr None, w)
        | Some frame \<Rightarrow>
            let tick = now div 120;
                rows = ascii_lines_from_luma frame (ascii_density_shades (cc_density_idx c)) (effects_of c)
                  (luma_boost_permille (cc_luma_boost_level c)) tick;
                header = ''mode=ascii-live participant='' @ participant_id @ '' theme='' @
                  dashboard_theme_label (resolve_theme_index (cc_theme_idx c) (cc_auto_theme c) tick) @ '' auto_theme='' @
                  dec_bool (cc_auto_theme c) @ density_text (cc_density_idx c) (cc_luma_boost_level c) @
                  effects_text (effects_of c) in
            (case write_ascii_snapshot write_file now2 (''live-'' @ participant_id) header rows w of
               (r, w) \<Rightarrow> (map_sum id Some r, w))))"

section \<open>The player\<close>

record ascii_play_args =
  pa_input_name :: "string option"
  pa_input :: string
  pa_width :: u16
  pa_height :: u16
  pa_fps :: u16
  pa_density :: nat
  pa_theme :: nat
  pa_loop_playback :: bool
  pa_glitch :: bool
  \<comment> \<open>the input with its file name, if that is text; the name of the \<open>ffmpeg\<close> binary is left out\<close>

definition play_check :: "ascii_play_args \<Rightarrow> string option" where
  "play_check args =
     (if pa_width args < 8 \<or> pa_height args < 8 then Some ''--width/--height must be at least 8''
      else if pa_fps args = 0 then Some ''--fps must be >= 1''
      else None)"

definition play_source :: "ascii_play_args \<Rightarrow> string" where
  "play_source args = unwrap_or (pa_input_name args) ''video''"

definition frame_bytes :: "ascii_play_args \<Rightarrow> nat" where
  "frame_bytes args = unat (pa_width args) * unat (pa_height args)"

definition frame_sleep_ms :: "ascii_play_args \<Rightarrow> nat" where
  "frame_sleep_ms args = max (1000 div max (unat (pa_fps args)) 1) 1"

definition ffmpeg_args :: "ascii_play_args \<Rightarrow> string list" where
  "ffmpeg_args args = (if pa_loop_playback args then [''-stream_loop'', ''-1''] else []) @
     [''-hide_banner'', ''-loglevel'', ''error'', ''-i'', pa_input args, ''-an'', ''-sn'', ''-dn'', ''-vf'',
      ''fps='' @ dec (unat (pa_fps args)) @ '',scale='' @ dec (unat (pa_width args)) @ '':'' @ dec (unat (pa_height args)) @
      '':flags=fast_bilinear,format=gray'',
      ''-f'', ''rawvideo'', ''-pix_fmt'', ''gray'', ''pipe:1'']"

record play_state =
  ps_frame_no :: u64
  ps_density :: nat
  ps_theme_idx :: nat
  ps_auto_theme :: bool
  ps_luma_boost_level :: u8
  ps_effects :: ascii_effects
  ps_paused :: bool
  ps_quit_requested :: bool
  ps_last_frame :: "ascii_video_frame option"

definition play_state_new :: "ascii_play_args \<Rightarrow> play_state" where
  "play_state_new args = \<lparr>ps_frame_no = 0, ps_density = min (pa_density args) 4, ps_theme_idx = pa_theme args,
     ps_auto_theme = False, ps_luma_boost_level = 1,
     ps_effects = \<lparr>ae_glitch = pa_glitch args, ae_datamosh = False, ae_noise_overlay = False, ae_edge_enhance = True,
       ae_rain_overlay = True\<rparr>,
     ps_paused = False, ps_quit_requested = False, ps_last_frame = None\<rparr>"

definition play_snapshot ::
    "'w write_file \<Rightarrow> u64 \<Rightarrow> ascii_play_args \<Rightarrow> play_state \<Rightarrow> 'w \<Rightarrow> console list \<times> 'w" where
  "play_snapshot write_file now args p w = (case ps_last_frame p of
     None \<Rightarrow> ([], w)
   | Some frame \<Rightarrow>
       let tick = ps_frame_no p div 2;
           rows = ascii_lines_from_luma frame (ascii_density_shades (ps_density p)) (ps_effects p)
             (luma_boost_permille (ps_luma_boost_level p)) tick;
           header = ''mode=ascii-play source='' @ play_source args @ '' frame='' @ dec64 (ps_frame_no p) @ '' theme='' @
             dashboard_theme_label (resolve_theme_index (ps_theme_idx p) (ps_auto_theme p) tick) @ '' auto_theme='' @
             dec_bool (ps_auto_theme p) @ density_text (ps_density p) (ps_luma_boost_level p) @
             effects_text (ps_effects p) in
       (case write_ascii_snapshot write_file now (''play-'' @ play_source args) header rows w of
          (Inr path, w) \<Rightarrow> ([Out (''snapshot saved -> '' @ path)], w)
        | (Inl err, w) \<Rightarrow> ([Err (''snapshot failed: '' @ err)], w)))"

definition toggle_effect :: "string \<Rightarrow> ascii_effects \<Rightarrow> ascii_effects" where
  "toggle_effect input e =
     (if input = ''j'' then e\<lparr>ae_datamosh := \<not> ae_datamosh e\<rparr>
      else if input = ''n'' then e\<lparr>ae_noise_overlay := \<not> ae_noise_overlay e\<rparr>
      else if input = ''g'' then e\<lparr>ae_glitch := \<not> ae_glitch e\<rparr>
      else if input = ''e'' then e\<lparr>ae_edge_enhance := \<not> ae_edge_enhance e\<rparr>
      else if input = ''r'' then e\<lparr>ae_rain_overlay := \<not> ae_rain_overlay e\<rparr>
      else e)"

definition play_key ::
    "'w write_file \<Rightarrow> u64 \<Rightarrow> ascii_play_args \<Rightarrow> key_event \<Rightarrow> play_state \<times> console list \<times> 'w
      \<Rightarrow> play_state \<times> console list \<times> 'w" where
  "play_key write_file now args key s = (case s of (p, out, w) \<Rightarrow>
     (case map_tui_key_to_control_input key of
        None \<Rightarrow> s
      | Some input \<Rightarrow>
          if input = ''/quit'' then (p\<lparr>ps_quit_requested := True\<rparr>, out, w)
          else if input = ''c'' then (p\<lparr>ps_theme_idx := cycle_dashboard_theme (ps_theme_idx p)\<rparr>, out, w)
          else if input = ''t'' then (p\<lparr>ps_auto_theme := \<not> ps_auto_theme p\<rparr>, out, w)
          else if input = ''d'' then (p\<lparr>ps_density := cycle_density_idx (ps_density p)\<rparr>, out, w)
          else if input = ''b'' then (p\<lparr>ps_luma_boost_level := cycle_luma_boost_level (ps_luma_boost_level p)\<rparr>, out, w)
          else if input = ''+'' then (p\<lparr>ps_density := min (ps_density p + 1) 4\<rparr>, out, w)
          else if input = ''-'' then (p\<lparr>ps_density := ps_density p - 1\<rparr>, out, w)
          else if input = ''p'' then (p\<lparr>ps_paused := \<not> ps_paused p\<rparr>, out, w)
          else if input = ''k''
          then (case play_snapshot write_file now args p w of (lines, w) \<Rightarrow> (p, out @ lines, w))
          else (p\<lparr>ps_effects := toggle_effect input (ps_effects p)\<rparr>, out, w)))"

datatype read_result = Read_Frame "u8 list" | Read_Eof | Read_Failed string

datatype play_status = Playing | Play_Ended | Play_Error string

definition play_screen :: "ascii_play_args \<Rightarrow> play_state \<Rightarrow> ascii_video_frame \<Rightarrow> string" where
  "play_screen args p frame = render_ascii_play_frame frame
     (resolve_theme_index (ps_theme_idx p) (ps_auto_theme p) (ps_frame_no p div 2)) (ascii_density_shades (ps_density p))
     (ps_effects p) (ps_auto_theme p) (ps_luma_boost_level p) (play_source args) (ps_frame_no p) (pa_fps args)
     (ps_density p) (pa_loop_playback args) (ps_paused p)"

record 'w play_run =
  pr_state :: play_state
  pr_out :: "console list"
  pr_world :: 'w
  pr_status :: play_status

definition play_round ::
    "'w write_file \<Rightarrow> ascii_play_args \<Rightarrow> (u64 \<times> key_event list \<times> read_result) \<Rightarrow> 'w play_run \<Rightarrow> 'w play_run" where
  \<comment> \<open>one round of the loop: the clock, the keys that wait, and the result of the read, if one is made\<close>
  "play_round write_file args round r = (if pr_status r \<noteq> Playing then r else case round of (now, keys, result) \<Rightarrow>
     (case fold (play_key write_file now args) keys (pr_state r, pr_out r, pr_world r) of (p, out, w) \<Rightarrow>
        if ps_quit_requested p then \<lparr>pr_state = p, pr_out = out, pr_world = w, pr_status = Play_Ended\<rparr>
        else if ps_paused p
        then \<lparr>pr_state = p,
               pr_out = out @ (case ps_last_frame p of None \<Rightarrow> [] | Some frame \<Rightarrow> [Out (play_screen args p frame)]),
               pr_world = w, pr_status = Playing\<rparr>
        else (case result of
          Read_Frame luma \<Rightarrow>
            let frame = \<lparr>av_width = pa_width args, av_height = pa_height args, av_luma = luma, av_updated_at_ms = now\<rparr>;
                p = p\<lparr>ps_frame_no := sat_add (ps_frame_no p) 1, ps_last_frame := Some frame\<rparr> in
            \<lparr>pr_state = p, pr_out = out @ [Out (play_screen args p frame)], pr_world = w, pr_status = Playing\<rparr>
        | Read_Eof \<Rightarrow> \<lparr>pr_state = p, pr_out = out, pr_world = w, pr_status = Play_Ended\<rparr>
        | Read_Failed err \<Rightarrow> \<lparr>pr_state = p, pr_out = out, pr_world = w,
            pr_status = Play_Error (''read ffmpeg output failed: '' @ err)\<rparr>)))"

definition play_rounds ::
    "'w write_file \<Rightarrow> ascii_play_args \<Rightarrow> (u64 \<times> key_event list \<times> read_result) list \<Rightarrow> 'w play_run \<Rightarrow> 'w play_run" where
  "play_rounds write_file args rounds r = fold (play_round write_file args) rounds r"

definition play_result :: "bool \<Rightarrow> string \<Rightarrow> 'w play_run \<Rightarrow> string option" where
  \<comment> \<open>the error of the whole run, with the exit status of \<open>ffmpeg\<close>\<close>
  "play_result success status r = (case pr_status r of
     Play_Error e \<Rightarrow> Some e
   | _ \<Rightarrow> if \<not> success \<and> \<not> ps_quit_requested (pr_state r) then Some (''ffmpeg exited with status '' @ status) else None)"

end
