(* ===== verification/Cli_Play_Safety.thy ===== *)
theory Cli_Play_Safety
  imports Cli_Play
begin

text \<open>
  What the drawing part of the command line client guarantees: the shape of a picture, the place of a snapshot, and the
  settings and the end of the player.
\<close>

section \<open>Pictures\<close>

lemma shade_in_range: "boosted \<le> 255 \<Longrightarrow> 2 \<le> n \<Longrightarrow> shade_index glitch n x y tick boosted < n"
proof -
  assume b: "boosted \<le> 255" and n: "2 \<le> n"
  have "boosted * (n - 1) \<le> (n - 1) * 255" using b by (simp add: mult.commute)
  then have "boosted * (n - 1) div 255 \<le> (n - 1) * 255 div 255" by (rule div_le_mono)
  then show ?thesis using n by (auto simp: shade_index_def Let_def min_def)
qed

text \<open>A picture is always 18 lines of 64 characters, each a shade or a mark of the rain or the noise: whatever the frame's
  size and data, no shade is looked up outside the table.\<close>

theorem ascii_picture_shape:
  assumes "2 \<le> length shades"
  shows "length (ascii_lines_from_luma frame shades e boost tick) = 18
    \<and> list_all (\<lambda>row. length row = 64 \<and> set row \<subseteq> set shades \<union> set ''|.@#'') (ascii_lines_from_luma frame shades e boost tick)"
proof -
  have "ascii_char frame shades e boost tick y x \<in> set shades \<union> set ''|.@#''" for x y
  proof -
    have "shades ! shade_index (ae_glitch e) (max (length shades) 2) x y tick (min b 255) \<in> set shades" for b
      using assms by (intro nth_mem) (simp add: max_absorb1 shade_in_range)
    then show ?thesis
      by (auto simp: ascii_char_def Let_def noise_char_def rain_char_def)
  qed
  then show ?thesis by (auto simp: ascii_lines_from_luma_def list_all_iff)
qed

lemma shades_long: "10 \<le> length (ascii_density_shades i)"
  by (simp add: ascii_density_shades_def)

section \<open>Snapshots\<close>

definition safe_char :: "char \<Rightarrow> bool" where
  "safe_char c \<longleftrightarrow> (let n = byte_of c in 48 \<le> n \<and> n \<le> 57 \<or> 97 \<le> n \<and> n \<le> 122) \<or> c = CHR ''-'' \<or> c = CHR ''_''"

lemma sanitized_safe: "sanitize_snapshot_label label \<noteq> [] \<and> list_all safe_char (sanitize_snapshot_label label)"
proof -
  have lower: "safe_char (ascii_lower c)" if "48 \<le> byte_of c \<and> byte_of c \<le> 57 \<or> 65 \<le> byte_of c \<and> byte_of c \<le> 90
      \<or> 97 \<le> byte_of c \<and> byte_of c \<le> 122 \<or> c = CHR ''-'' \<or> c = CHR ''_''" for c
    using that by (auto simp: safe_char_def ascii_lower_def byte_of_def Let_def)
  have "list_all safe_char ''snapshot''" by (simp add: safe_char_def byte_of_def)
  moreover have "safe_char (CHR ''-'')" by (simp add: safe_char_def)
  ultimately show ?thesis
    using lower by (auto simp: sanitize_snapshot_label_def Let_def list_all_iff split: if_splits)
qed

text \<open>A snapshot stays in its directory, whatever a participant calls itself: the file's name is made of lower-case letters,
  digits and dashes.\<close>

theorem snapshot_stays_in_directory:
  "\<exists>name. list_all safe_char name \<and> snd (write_ascii_snapshot (\<lambda>path content log. (Inr (), log @ [path])) now label header rows log)
     = log @ [''ascii-snapshots/'' @ name @ ''.txt'']"
proof -
  have "list_all safe_char (dec n)" for n
  proof (induction n rule: less_induct)
    case (less n)
    have digit: "m < (10 :: nat) \<Longrightarrow> safe_char (char_of (48 + m))" for m
      by (simp add: safe_char_def byte_of_def Let_def)
    show ?case using less.IH [of "n div 10"] by (subst dec.simps) (simp add: digit)
  qed
  then show ?thesis
    using sanitized_safe [of label]
    by (intro exI [of _ "dec64 now @ ''-'' @ sanitize_snapshot_label label"]) (simp add: write_ascii_snapshot_def safe_char_def Let_def)
qed

section \<open>The player\<close>

definition play_ok :: "play_state \<Rightarrow> bool" where
  "play_ok p \<longleftrightarrow> ps_density p \<le> 4 \<and> ps_luma_boost_level p \<le> 3 \<and> (ps_last_frame p = None) = (ps_frame_no p = 0)"


lemma play_key_ok: "play_ok (fst s) \<Longrightarrow> play_ok (fst (play_key wfile now args key s))"
  by (cases s) (auto simp: play_key_def play_ok_def cycle_density_idx_def cycle_luma_boost_level_def case_prod_beta
      split: option.split)

lemma play_keys_ok: "play_ok (fst s) \<Longrightarrow> play_ok (fst (fold (play_key wfile now args) keys s))"
  by (induction keys arbitrary: s) (simp_all add: play_key_ok)

lemma sat_add_1_pos: "sat_add x 1 \<noteq> (0 :: u64)"
  using unat_sat_add [of x 1] by auto

lemma play_round_ok: "play_ok (pr_state r) \<Longrightarrow> play_ok (pr_state (play_round wfile args round r))"
  using play_keys_ok [of "(pr_state r, pr_out r, pr_world r)" wfile "fst round" args "fst (snd round)"]
  by (cases round) (auto simp: play_round_def Let_def play_ok_def sat_add_1_pos split: prod.split read_result.split)

text \<open>The player's settings stay within their tables, and it has a last picture once it has read one.\<close>

theorem play_settings_valid:
  "let p = pr_state (play_rounds write_file args rounds \<lparr>pr_state = play_state_new args, pr_out = [], pr_world = w,
       pr_status = Playing\<rparr>) in
   ps_density p \<le> 4 \<and> ps_luma_boost_level p \<le> 3 \<and> (ps_last_frame p = None) = (ps_frame_no p = 0)"
proof -
  have run: "play_ok (pr_state r) \<Longrightarrow> play_ok (pr_state (play_rounds write_file args rounds r))" for r
    unfolding play_rounds_def by (induction rounds arbitrary: r) (simp_all add: play_round_ok)
  have "play_ok (play_state_new args)" by (simp add: play_ok_def play_state_new_def)
  then show ?thesis using run by (simp add: play_ok_def Let_def)
qed

lemma quit_stays: "ps_quit_requested (fst s) \<Longrightarrow> ps_quit_requested (fst (fold (play_key wfile now args) keys s))"
proof (induction keys arbitrary: s)
  case (Cons key keys)
  have "ps_quit_requested (fst (play_key wfile now args key s))"
    using Cons.prems by (cases s) (auto simp: play_key_def case_prod_beta split: option.split)
  then show ?case by (simp add: Cons.IH)
qed simp

lemma quit_key:
  assumes "list_ex (\<lambda>key. map_tui_key_to_control_input key = Some ''/quit'') keys"
  shows "ps_quit_requested (fst (fold (play_key wfile now args) keys s))"
  using assms
proof (induction keys arbitrary: s)
  case (Cons key keys)
  show ?case
  proof (cases "map_tui_key_to_control_input key = Some ''/quit''")
    case True
    then have "ps_quit_requested (fst (play_key wfile now args key s))"
      by (simp add: play_key_def case_prod_beta)
    then show ?thesis by (simp add: quit_stays)
  qed (use Cons in simp)
qed simp

text \<open>C40. The key to quit ends the player in the round in which it is read, without an error, whatever other keys come with it,
  whatever is read from \<open>ffmpeg\<close> and however that process exits.\<close>

theorem quit_ends_player:
  assumes "pr_status r = Playing" "list_ex (\<lambda>key. map_tui_key_to_control_input key = Some ''/quit'') keys"
  shows "let f = play_rounds write_file args ((now, keys, result) # rounds) r in
     pr_status f = Play_Ended \<and> play_result success status f = None"
proof -
  let ?r = "play_round write_file args (now, keys, result) r"
  obtain p out w where keys: "fold (play_key write_file now args) keys (pr_state r, pr_out r, pr_world r) = (p, out, w)"
    by (metis prod_cases3)
  then have "ps_quit_requested p" using quit_key [OF assms(2), of write_file now args "(pr_state r, pr_out r, pr_world r)"] by simp
  then have r: "pr_status ?r = Play_Ended" "ps_quit_requested (pr_state ?r)"
    using assms(1) by (simp_all add: play_round_def keys)
  have "pr_status q \<noteq> Playing \<Longrightarrow> fold (play_round write_file args) rounds q = q" for q
    by (induction rounds) (simp_all add: play_round_def)
  then show ?thesis using r by (simp add: play_rounds_def play_result_def)
qed

definition demo_play :: ascii_play_args where
  "demo_play = \<lparr>pa_input_name = None, pa_input = ''v.mp4'', pa_width = 8, pa_height = 8, pa_fps = 10, pa_density = 2,
     pa_theme = 0, pa_loop_playback = True, pa_glitch = True\<rparr>"

lemma quit_ends_player_witness:
  "pr_status (play_rounds (\<lambda>_ _ w. (Inr (), w)) demo_play
     [(5, [\<lparr>ke_release = False, ke_control = False, ke_code = Key_Esc\<rparr>], Read_Eof)]
     \<lparr>pr_state = play_state_new demo_play, pr_out = [], pr_world = (), pr_status = Playing\<rparr>) = Play_Ended"
proof -
  have "list_ex (\<lambda>key. map_tui_key_to_control_input key = Some ''/quit'') [\<lparr>ke_release = False, ke_control = False, ke_code = Key_Esc\<rparr>]"
    by (simp add: map_tui_key_to_control_input_def)
  from quit_ends_player [OF _ this, of "\<lparr>pr_state = play_state_new demo_play, pr_out = [], pr_world = (), pr_status = Playing\<rparr>"
      "\<lambda>_ _ w. (Inr (), w)" demo_play 5 Read_Eof "[]"] show ?thesis by (simp add: Let_def)
qed

lemma ascii_picture_shape_witness:
  "length (ascii_lines_from_luma \<lparr>av_width = 0, av_height = 9, av_luma = [1], av_updated_at_ms = 0\<rparr> ''ab''
     \<lparr>ae_glitch = True, ae_datamosh = True, ae_noise_overlay = True, ae_edge_enhance = True, ae_rain_overlay = True\<rparr> 900 7) = 18"
  by (rule conjunct1 [OF ascii_picture_shape]) simp

end
