(* ===== verification/Cli_Link.thy ===== *)
theory Cli_Link
  imports Cli_Args
begin

text \<open>
  Join links (\<^verbatim>\<open>crates/kaigi-cli/src/main.rs\<close>): \<open>make_join_link\<close>, the rendered text with its percent
  encoding, the parser, the security fields of a version 2 link (expiry, nonce, signature) and the cache that
  refuses a nonce for the second time. The clock reading and the random nonce are arguments.
\<close>

section \<open>Payload\<close>

record join_link_payload =
  jl_version :: u8
  jl_relay :: socket_addr
  jl_channel :: bytes
  jl_authenticated :: bool
  jl_insecure :: bool
  jl_server_name :: "string option"
  jl_torii :: "string option"
  jl_pay_to :: "string option"
  jl_kaigi_domain :: "string option"
  jl_kaigi_call_name :: "string option"
  jl_kaigi_privacy_mode :: "string option"
  jl_expires_at_ms :: "u64 option"
  jl_nonce_hex :: "string option"
  jl_signature_hex :: "string option"

definition JOIN_LINK_VERSION_LEGACY :: u8 where
  "JOIN_LINK_VERSION_LEGACY = 1"

definition JOIN_LINK_VERSION_SIGNED :: u8 where
  "JOIN_LINK_VERSION_SIGNED = 2"

definition JOIN_LINK_NONCE_BYTES :: nat where
  "JOIN_LINK_NONCE_BYTES = 16"

definition MAX_JOIN_LINK_EXPIRES_IN_SECS :: u64 where
  "MAX_JOIN_LINK_EXPIRES_IN_SECS = 7 * 24 * 3600"

definition MAX_JOIN_LINK_NONCE_CACHE_ENTRIES :: nat where
  "MAX_JOIN_LINK_NONCE_CACHE_ENTRIES = 4096"

section \<open>Percent encoding\<close>

definition is_unreserved :: "char \<Rightarrow> bool" where
  "is_unreserved c \<longleftrightarrow> (let n = byte_of c in
     48 \<le> n \<and> n \<le> 57 \<or> 65 \<le> n \<and> n \<le> 90 \<or> 97 \<le> n \<and> n \<le> 122 \<or> n \<in> {45, 95, 46, 126})"

definition upper_hex :: "nat \<Rightarrow> char" where
  "upper_hex n = (if n < 10 then char_of (48 + n) else char_of (55 + n))"

definition pct_encode :: "string \<Rightarrow> string" where
  "pct_encode input = concat (map (\<lambda>b.
     if is_unreserved b then [b]
     else [CHR 0x25, upper_hex (byte_of b div 16), upper_hex (byte_of b mod 16)]) input)"

definition hex_nibble :: "char \<Rightarrow> nat option" where
  "hex_nibble c = (let n = byte_of c in
     if 48 \<le> n \<and> n \<le> 57 then Some (n - 48)
     else if 97 \<le> n \<and> n \<le> 102 then Some (n - 87)
     else if 65 \<le> n \<and> n \<le> 70 then Some (n - 55)
     else None)"

fun pct_bytes :: "string \<Rightarrow> string + string" where
  \<comment> \<open>the loop of \<open>pct_decode\<close>\<close>
  "pct_bytes [] = Inr []"
| "pct_bytes (b # rest) =
     (if b = CHR 0x25
      then (case rest of
              hi # lo # rest' \<Rightarrow>
                (case (hex_nibble hi, hex_nibble lo) of
                   (Some h, Some l) \<Rightarrow> map_sum id (Cons (char_of (h * 16 + l))) (pct_bytes rest')
                 | _ \<Rightarrow> Inl ''invalid percent-encoding'')
            | _ \<Rightarrow> Inl ''truncated percent-encoding'')
      else if b = CHR ''+'' then map_sum id (Cons CHR '' '') (pct_bytes rest)
      else map_sum id (Cons b) (pct_bytes rest))"

definition cont_byte :: "nat \<Rightarrow> bool" where
  "cont_byte n \<longleftrightarrow> 128 \<le> n \<and> n \<le> 191"

fun utf8_valid :: "nat list \<Rightarrow> bool" where
  \<comment> \<open>well-formed UTF-8, as \<open>String::from_utf8\<close> checks it\<close>
  "utf8_valid [] = True"
| "utf8_valid (a # as) =
     (if a < 128 then utf8_valid as
      else if 194 \<le> a \<and> a \<le> 223
      then (case as of b # bs \<Rightarrow> cont_byte b \<and> utf8_valid bs | _ \<Rightarrow> False)
      else if 224 \<le> a \<and> a \<le> 239
      then (case as of b # c # cs \<Rightarrow>
          cont_byte b \<and> (a = 224 \<longrightarrow> 160 \<le> b) \<and> (a = 237 \<longrightarrow> b \<le> 159) \<and> cont_byte c \<and> utf8_valid cs
        | _ \<Rightarrow> False)
      else if 240 \<le> a \<and> a \<le> 244
      then (case as of b # c # d # ds \<Rightarrow>
          cont_byte b \<and> (a = 240 \<longrightarrow> 144 \<le> b) \<and> (a = 244 \<longrightarrow> b \<le> 143) \<and> cont_byte c \<and> cont_byte d
          \<and> utf8_valid ds
        | _ \<Rightarrow> False)
      else False)"

definition is_utf8 :: "string \<Rightarrow> bool" where
  \<comment> \<open>what every \<open>String\<close> of the program satisfies\<close>
  "is_utf8 s = utf8_valid (map byte_of s)"

definition pct_decode :: "string \<Rightarrow> string + string" where
  "pct_decode input = try_bind (pct_bytes input) (\<lambda>out.
     if is_utf8 out then Inr out else Inl ''join link percent-decoded bytes are not UTF-8'')"

section \<open>Rendering\<close>

definition flag :: "bool \<Rightarrow> string" where
  "flag b = (if b then ''1'' else ''0'')"

definition opt_param :: "string \<Rightarrow> string option \<Rightarrow> (string \<times> string) list" where
  "opt_param key x = (case x of None \<Rightarrow> [] | Some v \<Rightarrow> [(key, v)])"

definition join_link_params :: "ext \<Rightarrow> join_link_payload \<Rightarrow> (string \<times> string) list" where
  "join_link_params X p =
     [(''v'', dec (unat (jl_version p))), (''relay'', show_socket_addr (jl_relay p)),
      (''channel'', hex_encode X (jl_channel p)), (''authenticated'', flag (jl_authenticated p)),
      (''insecure'', flag (jl_insecure p))]
     @ opt_param ''sni'' (jl_server_name p) @ opt_param ''torii'' (jl_torii p) @ opt_param ''pay_to'' (jl_pay_to p)
     @ opt_param ''kaigi_domain'' (jl_kaigi_domain p) @ opt_param ''kaigi_call_name'' (jl_kaigi_call_name p)
     @ opt_param ''kaigi_privacy_mode'' (jl_kaigi_privacy_mode p)
     @ opt_param ''exp'' (map_option dec64 (jl_expires_at_ms p))
     @ opt_param ''nonce'' (jl_nonce_hex p) @ opt_param ''sig'' (jl_signature_hex p)"

definition render_join_link :: "ext \<Rightarrow> join_link_payload \<Rightarrow> string" where
  "render_join_link X p = ''kaigi://join?'' @
     join ''&'' (map (\<lambda>(k, v). pct_encode k @ ''='' @ pct_encode v) (join_link_params X p))"

section \<open>Security fields\<close>

definition cli_deterministic_signature_hex :: "ext \<Rightarrow> string \<Rightarrow> string \<Rightarrow> string" where
  "cli_deterministic_signature_hex X tag payload = hex_encode X (blake3 X (str_bytes tag @ str_bytes payload))"

definition join_link_signature_payload :: "ext \<Rightarrow> join_link_payload \<Rightarrow> string + string" where
  "join_link_signature_payload X p = (case jl_expires_at_ms p of
       None \<Rightarrow> Inl ''join link v2 missing exp''
     | Some expires_at_ms \<Rightarrow> (case jl_nonce_hex p of
         None \<Rightarrow> Inl ''join link v2 missing nonce''
       | Some nonce_hex \<Rightarrow> Inr (join ''|''
           [dec (unat (jl_version p)), show_socket_addr (jl_relay p), hex_encode X (jl_channel p),
            flag (jl_authenticated p), flag (jl_insecure p), unwrap_or (jl_server_name p) [],
            unwrap_or (jl_torii p) [], unwrap_or (jl_pay_to p) [], unwrap_or (jl_kaigi_domain p) [],
            unwrap_or (jl_kaigi_call_name p) [], unwrap_or (jl_kaigi_privacy_mode p) [],
            dec64 expires_at_ms, normalize_hex_arg nonce_hex])))"

definition join_link_signature_hex :: "ext \<Rightarrow> join_link_payload \<Rightarrow> string + string" where
  "join_link_signature_hex X p = try_bind (join_link_signature_payload X p) (\<lambda>canonical.
     Inr (cli_deterministic_signature_hex X ''join_link_v2'' canonical))"

definition populate_join_link_security_fields ::
    "ext \<Rightarrow> u64 \<Rightarrow> bytes \<Rightarrow> join_link_payload \<Rightarrow> u64 \<Rightarrow> string + join_link_payload" where
  \<comment> \<open>\<open>now\<close> is the clock reading, \<open>nonce\<close> the random bytes; the payload is returned changed\<close>
  "populate_join_link_security_fields X now nonce p expires_in_secs =
     (if jl_version p \<noteq> JOIN_LINK_VERSION_SIGNED then Inr p
      else if expires_in_secs = 0 then Inl ''--expires-in-secs must be >= 1''
      else if expires_in_secs > MAX_JOIN_LINK_EXPIRES_IN_SECS
      then Inl (''--expires-in-secs must be <= '' @ dec64 MAX_JOIN_LINK_EXPIRES_IN_SECS)
      else if unat expires_in_secs * 1000 \<ge> 2 ^ 64 then Inl ''--expires-in-secs overflow''
      else case checked_add now (expires_in_secs * 1000) of
             None \<Rightarrow> Inl ''join link expiration overflow''
           | Some expires_at_ms \<Rightarrow>
               let p = p\<lparr>jl_expires_at_ms := Some expires_at_ms, jl_nonce_hex := Some (hex_encode X nonce)\<rparr> in
               try_bind (join_link_signature_hex X p) (\<lambda>sig_hex. Inr (p\<lparr>jl_signature_hex := Some sig_hex\<rparr>)))"

type_synonym nonce_cache = "(string, u64) hmap"

definition register_join_link_nonce_once :: "u64 \<Rightarrow> string \<Rightarrow> u64 \<Rightarrow> nonce_cache \<Rightarrow> string option \<times> nonce_cache" where
  "register_join_link_nonce_once now nonce_hex expires_at_ms cache =
     (let cache = filter (\<lambda>(_, exp_ms). exp_ms > now) cache;
          normalized = normalize_hex_arg nonce_hex in
      if hm_get cache normalized \<noteq> None then (Some ''join link replay detected'', cache)
      else if length cache \<ge> MAX_JOIN_LINK_NONCE_CACHE_ENTRIES
      then (Some (''join link nonce cache is full (max '' @ dec MAX_JOIN_LINK_NONCE_CACHE_ENTRIES @
        ''), retry after active links expire''), cache)
      else (None, hm_insert cache normalized expires_at_ms))"

definition validate_join_link_v2 ::
    "ext \<Rightarrow> u64 \<Rightarrow> join_link_payload \<Rightarrow> bool \<Rightarrow> nonce_cache \<Rightarrow> string option \<times> nonce_cache" where
  \<comment> \<open>the arm of the signed version; the second clock reading, in the registration, is \<open>now\<close> again\<close>
  "validate_join_link_v2 X now p consume_nonce_replay cache =
     (case jl_expires_at_ms p of None \<Rightarrow> (Some ''join link v2 missing exp'', cache) | Some expires_at_ms \<Rightarrow>
      case jl_nonce_hex p of None \<Rightarrow> (Some ''join link v2 missing nonce'', cache) | Some nonce_hex \<Rightarrow>
      case jl_signature_hex p of None \<Rightarrow> (Some ''join link v2 missing sig'', cache) | Some signature_hex \<Rightarrow>
        if expires_at_ms \<le> now then (Some ''join link expired'', cache)
        else if expires_at_ms > sat_add now (MAX_JOIN_LINK_EXPIRES_IN_SECS * 1000)
        then (Some (''join link exp exceeds max future window ('' @ dec64 MAX_JOIN_LINK_EXPIRES_IN_SECS @ '' seconds)''),
          cache)
        else if length (cli_strip_hex_prefix nonce_hex) \<noteq> JOIN_LINK_NONCE_BYTES * 2
             \<or> hex_decode X (cli_strip_hex_prefix nonce_hex) = None
        then (Some (''join link nonce must be '' @ dec JOIN_LINK_NONCE_BYTES @ ''-byte hex''), cache)
        else if length (cli_strip_hex_prefix signature_hex) \<noteq> 64
             \<or> hex_decode X (cli_strip_hex_prefix signature_hex) = None
        then (Some ''join link sig must be 32-byte hex'', cache)
        else case join_link_signature_hex X p of
               Inl e \<Rightarrow> (Some e, cache)
             | Inr expected \<Rightarrow>
                 if expected \<noteq> normalize_hex_arg signature_hex
                 then (Some ''join link signature verification failed'', cache)
                 else if consume_nonce_replay
                 then register_join_link_nonce_once now nonce_hex expires_at_ms cache
                 else (None, cache))"

definition validate_join_link_security ::
    "ext \<Rightarrow> u64 \<Rightarrow> join_link_payload \<Rightarrow> bool \<Rightarrow> nonce_cache \<Rightarrow> string option \<times> nonce_cache" where
  "validate_join_link_security X now p consume_nonce_replay cache =
     (if jl_version p = JOIN_LINK_VERSION_LEGACY
      then (if jl_expires_at_ms p \<noteq> None \<or> jl_nonce_hex p \<noteq> None \<or> jl_signature_hex p \<noteq> None
            then (Some ''join link v1 must not include exp/nonce/sig fields'', cache) else (None, cache))
      else if jl_version p = JOIN_LINK_VERSION_SIGNED
      then validate_join_link_v2 X now p consume_nonce_replay cache
      else (Some (''unsupported join link version: '' @ dec (unat (jl_version p))), cache))"

section \<open>Parsing\<close>

definition parse_uint :: "nat \<Rightarrow> string \<Rightarrow> nat option" where
  \<comment> \<open>\<open>str::parse\<close> of an unsigned integer up to \<open>max_value\<close>: an optional plus sign, then digits\<close>
  "parse_uint max_value s =
     (let ds = (if s \<noteq> [] \<and> hd s = CHR ''+'' then tl s else s) in
      if ds = [] \<or> \<not> list_all (is_digit_in 10) ds \<or> max_value < digits_value 10 ds then None
      else Some (digits_value 10 ds))"

record link_fields =
  \<comment> \<open>the mutable variables of the parser\<close>
  lf_relay :: "socket_addr option"
  lf_channel :: "bytes option"
  lf_authenticated :: bool
  lf_insecure :: bool
  lf_server_name :: "string option"
  lf_torii :: "string option"
  lf_pay_to :: "string option"
  lf_kaigi_domain :: "string option"
  lf_kaigi_call_name :: "string option"
  lf_kaigi_privacy_mode :: "string option"
  lf_expires_at_ms :: "u64 option"
  lf_nonce_hex :: "string option"
  lf_signature_hex :: "string option"
  lf_version :: u8

definition no_fields :: link_fields where
  "no_fields = \<lparr>lf_relay = None, lf_channel = None, lf_authenticated = False, lf_insecure = False,
     lf_server_name = None, lf_torii = None, lf_pay_to = None, lf_kaigi_domain = None,
     lf_kaigi_call_name = None, lf_kaigi_privacy_mode = None, lf_expires_at_ms = None, lf_nonce_hex = None,
     lf_signature_hex = None, lf_version = JOIN_LINK_VERSION_LEGACY\<rparr>"

definition hex_error_text :: "soranet_error \<Rightarrow> string" where
  "hex_error_text e = (case e of
     Hex_Wrong_Length n \<Rightarrow> ''expected 32 bytes, got '' @ dec n
   | _ \<Rightarrow> ''decode hex'')"

definition unless_empty :: "string \<Rightarrow> string option \<Rightarrow> string option" where
  \<comment> \<open>\<open>if !value.is_empty() { x = Some(value); }\<close>\<close>
  "unless_empty v old = (if v = [] then old else Some v)"

definition set_field :: "ext \<Rightarrow> string \<Rightarrow> string \<Rightarrow> link_fields \<Rightarrow> string + link_fields" where
  \<comment> \<open>the \<open>match\<close> on the key\<close>
  "set_field X key v f =
     (if key = ''v'' then (case parse_uint 255 v of
          None \<Rightarrow> Inl ''invalid join link version in join link''
        | Some n \<Rightarrow> Inr (f\<lparr>lf_version := of_nat n\<rparr>))
      else if key = ''relay'' then (case parse_socket_addr v of
          None \<Rightarrow> Inl ''invalid relay socket address in join link''
        | Some addr \<Rightarrow> Inr (f\<lparr>lf_relay := Some addr\<rparr>))
      else if key = ''channel'' then (case hex_32_with (hex_decode X) v of
          Inl e \<Rightarrow> Inl (hex_error_text e)
        | Inr bs \<Rightarrow> Inr (f\<lparr>lf_channel := Some bs\<rparr>))
      else if key = ''authenticated'' then (case parse_boolish v of
          None \<Rightarrow> Inl ''invalid authenticated flag in join link''
        | Some b \<Rightarrow> Inr (f\<lparr>lf_authenticated := b\<rparr>))
      else if key = ''insecure'' then (case parse_boolish v of
          None \<Rightarrow> Inl ''invalid insecure flag in join link''
        | Some b \<Rightarrow> Inr (f\<lparr>lf_insecure := b\<rparr>))
      else if key = ''sni'' then Inr (f\<lparr>lf_server_name := unless_empty v (lf_server_name f)\<rparr>)
      else if key = ''torii'' then Inr (f\<lparr>lf_torii := unless_empty v (lf_torii f)\<rparr>)
      else if key = ''pay_to'' then Inr (f\<lparr>lf_pay_to := unless_empty v (lf_pay_to f)\<rparr>)
      else if key = ''kaigi_domain'' then Inr (f\<lparr>lf_kaigi_domain := unless_empty v (lf_kaigi_domain f)\<rparr>)
      else if key = ''kaigi_call_name'' then Inr (f\<lparr>lf_kaigi_call_name := unless_empty v (lf_kaigi_call_name f)\<rparr>)
      else if key = ''kaigi_privacy_mode''
      then Inr (f\<lparr>lf_kaigi_privacy_mode := unless_empty v (lf_kaigi_privacy_mode f)\<rparr>)
      else if key = ''exp'' then
        (if v = [] then Inr f
         else case parse_uint (2 ^ 64 - 1) v of
            None \<Rightarrow> Inl ''invalid exp in join link''
          | Some n \<Rightarrow> Inr (f\<lparr>lf_expires_at_ms := Some (of_nat n)\<rparr>))
      else if key = ''nonce'' then Inr (f\<lparr>lf_nonce_hex := unless_empty v (lf_nonce_hex f)\<rparr>)
      else if key = ''sig'' then Inr (f\<lparr>lf_signature_hex := unless_empty v (lf_signature_hex f)\<rparr>)
      else Inr f)"

fun link_loop :: "ext \<Rightarrow> string list \<Rightarrow> link_fields \<Rightarrow> string + link_fields" where
  "link_loop X [] f = Inr f"
| "link_loop X (pair # pairs) f =
     (if pair = [] then link_loop X pairs f
      else case (case split_once CHR ''='' pair of Some kv \<Rightarrow> kv | None \<Rightarrow> (pair, [])) of (raw_key, raw_value) \<Rightarrow>
        try_bind (pct_decode raw_key) (\<lambda>key.
        try_bind (pct_decode raw_value) (\<lambda>v.
        try_bind (set_field X key v f) (link_loop X pairs))))"

definition eq_ignore_ascii_case :: "string \<Rightarrow> string \<Rightarrow> bool" where
  "eq_ignore_ascii_case a b \<longleftrightarrow> to_ascii_lowercase a = to_ascii_lowercase b"

definition link_payload :: "link_fields \<Rightarrow> string + join_link_payload" where
  \<comment> \<open>from the variables to the payload\<close>
  "link_payload f =
     (if (lf_kaigi_domain f = None) \<noteq> (lf_kaigi_call_name f = None)
      then Inl (''join link must include both kaigi_domain and kaigi_call_name '' @ ''(or neither)'')
      else case validate_privacy_mode_arg (lf_kaigi_privacy_mode f) of Some e \<Rightarrow> Inl e | None \<Rightarrow>
           case lf_relay f of None \<Rightarrow> Inl ''join link missing relay'' | Some relay \<Rightarrow>
           case lf_channel f of None \<Rightarrow> Inl ''join link missing channel'' | Some channel \<Rightarrow>
             Inr \<lparr>jl_version = lf_version f, jl_relay = relay, jl_channel = channel,
               jl_authenticated = lf_authenticated f, jl_insecure = lf_insecure f,
               jl_server_name = lf_server_name f, jl_torii = lf_torii f, jl_pay_to = lf_pay_to f,
               jl_kaigi_domain = lf_kaigi_domain f, jl_kaigi_call_name = lf_kaigi_call_name f,
               jl_kaigi_privacy_mode = normalize_privacy_mode (lf_kaigi_privacy_mode f),
               jl_expires_at_ms = lf_expires_at_ms f,
               jl_nonce_hex = map_option normalize_hex_arg (lf_nonce_hex f),
               jl_signature_hex = map_option normalize_hex_arg (lf_signature_hex f)\<rparr>)"

definition link_text_payload :: "ext \<Rightarrow> string \<Rightarrow> string + join_link_payload" where
  \<comment> \<open>\<open>parse_join_link_with_mode\<close> up to the security checks\<close>
  "link_text_payload X link =
     (case split_once CHR ''?'' (str_trim link) of
        None \<Rightarrow> Inl ''join link must contain query params''
      | Some (scheme, query) \<Rightarrow>
          if \<not> eq_ignore_ascii_case scheme ''kaigi://join''
          then Inl (''unsupported join link scheme: '' @ scheme)
          else try_bind (link_loop X (split_on CHR ''&'' query) no_fields) link_payload)"

definition parse_join_link_with_mode ::
    "ext \<Rightarrow> u64 \<Rightarrow> string \<Rightarrow> bool \<Rightarrow> nonce_cache \<Rightarrow> (string + join_link_payload) \<times> nonce_cache" where
  "parse_join_link_with_mode X now link consume_nonce_replay cache =
     (case link_text_payload X link of
        Inl e \<Rightarrow> (Inl e, cache)
      | Inr p \<Rightarrow> (case validate_join_link_security X now p consume_nonce_replay cache of
            (Some e, cache) \<Rightarrow> (Inl e, cache)
          | (None, cache) \<Rightarrow> (Inr p, cache)))"

definition parse_join_link :: "ext \<Rightarrow> u64 \<Rightarrow> string \<Rightarrow> nonce_cache \<Rightarrow> (string + join_link_payload) \<times> nonce_cache" where
  "parse_join_link X now link cache = parse_join_link_with_mode X now link True cache"

definition parse_join_link_for_inspection ::
    "ext \<Rightarrow> u64 \<Rightarrow> string \<Rightarrow> nonce_cache \<Rightarrow> (string + join_link_payload) \<times> nonce_cache" where
  "parse_join_link_for_inspection X now link cache = parse_join_link_with_mode X now link False cache"

section \<open>make-join-link and the defaults of room-chat\<close>

record make_join_link_args =
  ma_relay :: socket_addr
  ma_channel :: string
  ma_server_name :: "string option"
  ma_authenticated :: bool
  ma_insecure :: bool
  ma_torii :: "string option"
  ma_pay_to :: "string option"
  ma_kaigi_domain :: "string option"
  ma_kaigi_call_name :: "string option"
  ma_kaigi_privacy_mode :: "string option"
  ma_expires_in_secs :: u64
  ma_legacy_v1 :: bool
  ma_allow_local_handshake :: bool

definition make_join_link_payload :: "ext \<Rightarrow> u64 \<Rightarrow> bytes \<Rightarrow> make_join_link_args \<Rightarrow> string + join_link_payload" where
  "make_join_link_payload X now nonce args =
     (case first_error [
         validate_nexus_routing_requirement (ma_allow_local_handshake args) (ma_torii args),
         validate_join_link_call_metadata (ma_kaigi_domain args) (ma_kaigi_call_name args),
         validate_privacy_mode_arg (ma_kaigi_privacy_mode args)] of
        Some e \<Rightarrow> Inl e
      | None \<Rightarrow> (case hex_32_with (hex_decode X) (ma_channel args) of
          Inl e \<Rightarrow> Inl (hex_error_text e)
        | Inr channel \<Rightarrow>
            let p = \<lparr>jl_version = (if ma_legacy_v1 args then JOIN_LINK_VERSION_LEGACY else JOIN_LINK_VERSION_SIGNED),
                  jl_relay = ma_relay args, jl_channel = channel, jl_authenticated = ma_authenticated args,
                  jl_insecure = ma_insecure args, jl_server_name = ma_server_name args, jl_torii = ma_torii args,
                  jl_pay_to = ma_pay_to args, jl_kaigi_domain = ma_kaigi_domain args,
                  jl_kaigi_call_name = ma_kaigi_call_name args,
                  jl_kaigi_privacy_mode = normalize_privacy_mode (ma_kaigi_privacy_mode args),
                  jl_expires_at_ms = None, jl_nonce_hex = None, jl_signature_hex = None\<rparr> in
            if jl_version p = JOIN_LINK_VERSION_SIGNED
            then populate_join_link_security_fields X now nonce p (ma_expires_in_secs args)
            else Inr p))"

definition make_join_link :: "ext \<Rightarrow> u64 \<Rightarrow> bytes \<Rightarrow> make_join_link_args \<Rightarrow> string + string" where
  \<comment> \<open>the line printed\<close>
  "make_join_link X now nonce args =
     try_bind (make_join_link_payload X now nonce args) (\<lambda>p. Inr (render_join_link X p))"

definition apply_room_chat_join_link_defaults ::
    "ext \<Rightarrow> room_chat_args \<Rightarrow> join_link_payload option \<Rightarrow> room_chat_args" where
  "apply_room_chat_join_link_defaults X args join_link = (case join_link of None \<Rightarrow> args | Some p \<Rightarrow> args\<lparr>
     ra_relay := or_else (ra_relay args) (Some (jl_relay p)),
     ra_channel := or_else (ra_channel args) (Some (hex_encode X (jl_channel p))),
     ra_server_name := or_else (ra_server_name args) (jl_server_name p),
     ra_authenticated := (jl_authenticated p \<or> ra_authenticated args),
     ra_insecure := (jl_insecure p \<or> ra_insecure args),
     ra_torii := or_else (ra_torii args) (jl_torii p),
     ra_pay_to := or_else (ra_pay_to args) (jl_pay_to p),
     ra_kaigi_domain := or_else (ra_kaigi_domain args) (jl_kaigi_domain p),
     ra_kaigi_call_name := or_else (ra_kaigi_call_name args) (jl_kaigi_call_name p),
     ra_kaigi_privacy_mode := or_else (ra_kaigi_privacy_mode args) (jl_kaigi_privacy_mode p)\<rparr>)"

end
