(* ===== verification/Cli_Anon.thy ===== *)
theory Cli_Anon
  imports Cli_Ledger Cli_Link
begin

text \<open>
  The anonymous mode of the command line client (\<^verbatim>\<open>crates/kaigi-cli/src/main.rs\<close>): key derivation and the two
  envelopes (one ciphertext per recipient, one per group), the frames of the join, and the room as a machine
  driven by incoming frames and typed lines. X25519 and XChaCha20-Poly1305 are parameters, as are the random
  bytes a step draws. The reader task and the input loop share the local state and the peers under locks; a
  step of the machine is what one frame or one line does.
\<close>

section \<open>Cryptography\<close>

record crypto =
  cr_public :: "bytes \<Rightarrow> bytes"
  cr_dh :: "bytes \<Rightarrow> bytes \<Rightarrow> bytes"
  cr_seal :: "bytes \<Rightarrow> bytes \<Rightarrow> bytes \<Rightarrow> bytes \<Rightarrow> bytes option"
  cr_open :: "bytes \<Rightarrow> bytes \<Rightarrow> bytes \<Rightarrow> bytes \<Rightarrow> bytes option"

definition le_bytes8 :: "u64 \<Rightarrow> bytes" where
  \<comment> \<open>\<open>to_le_bytes\<close>\<close>
  "le_bytes8 n = rev (be_bytes 8 (unat n))"

definition hex_vec_with :: "ext \<Rightarrow> string \<Rightarrow> string + bytes" where
  \<comment> \<open>\<open>decode_hex_vec\<close> of the SoraNet client, with the error as it is shown\<close>
  "hex_vec_with X s = (case hex_decode X (str_trim s) of None \<Rightarrow> Inl ''decode hex'' | Some bs \<Rightarrow> Inr bs)"

definition parse_x25519_pubkey_hex :: "ext \<Rightarrow> string \<Rightarrow> string + bytes" where
  "parse_x25519_pubkey_hex X s = map_sum hex_error_text id (hex_32_with (hex_decode X) s)"

definition encrypted_kind_tag :: "encrypted_control_kind \<Rightarrow> string" where
  "encrypted_kind_tag kind = (case kind of
     Ctl_Chat \<Rightarrow> ''chat''
   | Ctl_ParticipantState \<Rightarrow> ''participant_state''
   | Ctl_Moderation \<Rightarrow> ''moderation''
   | Ctl_Command \<Rightarrow> ''command''
   | Ctl_EscrowHeartbeat \<Rightarrow> ''escrow_heartbeat'')"

definition derive_pairwise_key ::
    "ext \<Rightarrow> crypto \<Rightarrow> bytes \<Rightarrow> bytes \<Rightarrow> string \<Rightarrow> string \<Rightarrow> u64 \<Rightarrow> encrypted_control_kind \<Rightarrow> bytes" where
  "derive_pairwise_key X C local_secret peer_public sender_handle recipient_handle epoch kind = blake3 X
     (str_bytes ''kaigi:anon:pairwise:v1'' @ cr_dh C local_secret peer_public @ str_bytes sender_handle @
      str_bytes recipient_handle @ le_bytes8 epoch @ str_bytes (encrypted_kind_tag kind))"

definition encrypt_for_recipient ::
    "ext \<Rightarrow> crypto \<Rightarrow> bytes \<Rightarrow> bytes \<Rightarrow> bytes \<Rightarrow> string \<Rightarrow> string \<Rightarrow> u64 \<Rightarrow> encrypted_control_kind \<Rightarrow> bytes
      \<Rightarrow> string + encrypted_recipient_payload" where
  \<comment> \<open>\<open>nonce\<close>: the 24 random bytes\<close>
  "encrypt_for_recipient X C nonce local_secret peer_public sender_handle recipient_handle epoch kind plaintext =
     (case cr_seal C (derive_pairwise_key X C local_secret peer_public sender_handle recipient_handle epoch kind) nonce
         (str_bytes ''kaigi-anon-control'') plaintext of
        None \<Rightarrow> Inl ''failed to encrypt anonymous payload''
      | Some ciphertext \<Rightarrow> Inr \<lparr>erp_recipient_handle = recipient_handle, erp_nonce_hex = hex_encode X nonce,
          erp_ciphertext_hex = hex_encode X ciphertext\<rparr>)"

definition decrypt_from_sender ::
    "ext \<Rightarrow> crypto \<Rightarrow> bytes \<Rightarrow> bytes \<Rightarrow> string \<Rightarrow> string \<Rightarrow> u64 \<Rightarrow> encrypted_control_kind
      \<Rightarrow> encrypted_recipient_payload \<Rightarrow> string + bytes" where
  "decrypt_from_sender X C local_secret sender_public sender_handle recipient_handle epoch kind payload =
     try_bind (hex_vec_with X (erp_nonce_hex payload)) (\<lambda>nonce.
       if length nonce \<noteq> 24 then Inl ''nonce must be 24 bytes''
       else try_bind (hex_vec_with X (erp_ciphertext_hex payload)) (\<lambda>ciphertext.
         case cr_open C (derive_pairwise_key X C local_secret sender_public sender_handle recipient_handle epoch kind)
             nonce (str_bytes ''kaigi-anon-control'') ciphertext of
           None \<Rightarrow> Inl ''failed to decrypt anonymous payload''
         | Some plaintext \<Rightarrow> Inr plaintext))"

definition derive_anon_group_key :: "ext \<Rightarrow> string \<Rightarrow> string + bytes" where
  "derive_anon_group_key X key_wrap_hex = try_bind (hex_vec_with X key_wrap_hex) (\<lambda>bs.
     Inr (blake3 X (str_bytes ''kaigi-anon-group-media-v1'' @ bs)))"

definition anon_payload_kind_tag :: "anonymous_payload_kind \<Rightarrow> string" where
  "anon_payload_kind_tag kind =
     (case kind of Anon_Control \<Rightarrow> ''control'' | Anon_VideoSegment \<Rightarrow> ''video'' | Anon_AudioPacket \<Rightarrow> ''audio'')"

definition group_aad :: "string \<Rightarrow> u64 \<Rightarrow> anonymous_payload_kind \<Rightarrow> bytes" where
  \<comment> \<open>the associated data both sides build\<close>
  "group_aad sender_handle epoch kind = str_bytes ''kaigi-anon-group-envelope-v1'' @ str_bytes sender_handle @
     le_bytes8 epoch @ str_bytes (anon_payload_kind_tag kind)"

definition encrypt_anon_group_payload ::
    "ext \<Rightarrow> crypto \<Rightarrow> u64 \<Rightarrow> bytes \<Rightarrow> bytes \<Rightarrow> string \<Rightarrow> u64 \<Rightarrow> anonymous_payload_kind \<Rightarrow> bytes
      \<Rightarrow> string + anon_encrypted_payload_frame" where
  "encrypt_anon_group_payload X C now nonce key sender_handle epoch kind plaintext =
     (case cr_seal C key nonce (group_aad sender_handle epoch kind) plaintext of
        None \<Rightarrow> Inl ''encrypt anonymous group payload''
      | Some ciphertext \<Rightarrow> Inr \<lparr>ae_sent_at_ms = now, ae_sender_handle = sender_handle, ae_epoch = epoch, ae_kind = kind,
          ae_nonce_hex = hex_encode X nonce, ae_ciphertext_hex = hex_encode X ciphertext\<rparr>)"

definition decrypt_anon_group_payload ::
    "ext \<Rightarrow> crypto \<Rightarrow> bytes \<Rightarrow> string \<Rightarrow> anon_encrypted_payload_frame \<Rightarrow> string + bytes" where
  "decrypt_anon_group_payload X C key sender_handle frame =
     try_bind (hex_vec_with X (ae_nonce_hex frame)) (\<lambda>nonce.
       if length nonce \<noteq> 24 then Inl ''anonymous payload nonce must be 24 bytes''
       else try_bind (hex_vec_with X (ae_ciphertext_hex frame)) (\<lambda>ciphertext.
         case cr_open C key nonce (group_aad sender_handle (ae_epoch frame) (ae_kind frame)) ciphertext of
           None \<Rightarrow> Inl ''decrypt anonymous group payload''
         | Some plaintext \<Rightarrow> Inr plaintext))"

section \<open>Text of a payload\<close>

fun utf8_step :: "nat list \<Rightarrow> bool \<times> nat" where
  \<comment> \<open>whether the bytes begin with a well-formed character, and the length of it or of the part to replace\<close>
  "utf8_step [] = (True, 0)"
| "utf8_step (a # as) =
     (let cont = (\<lambda>n. 128 \<le> n \<and> n \<le> 191);
          at = (\<lambda>i. if i < length as then as ! i else 0) in
      if a < 128 then (True, 1)
      else if 194 \<le> a \<and> a \<le> 223 then (if cont (at 0) then (True, 2) else (False, 1))
      else if 224 \<le> a \<and> a \<le> 239
      then (if cont (at 0) \<and> (a = 224 \<longrightarrow> 160 \<le> at 0) \<and> (a = 237 \<longrightarrow> at 0 \<le> 159)
            then (if cont (at 1) then (True, 3) else (False, 2)) else (False, 1))
      else if 240 \<le> a \<and> a \<le> 244
      then (if cont (at 0) \<and> (a = 240 \<longrightarrow> 144 \<le> at 0) \<and> (a = 244 \<longrightarrow> at 0 \<le> 143)
            then (if cont (at 1) then (if cont (at 2) then (True, 4) else (False, 3)) else (False, 2)) else (False, 1))
      else (False, 1))"

function utf8_lossy :: "nat list \<Rightarrow> nat list" where
  \<comment> \<open>\<open>String::from_utf8_lossy\<close>: each ill-formed part becomes U+FFFD\<close>
  "utf8_lossy [] = []"
| "utf8_lossy (a # as) = (case utf8_step (a # as) of (ok, n) \<Rightarrow>
     (if ok then take n (a # as) else [239, 191, 189]) @ utf8_lossy (drop (max 1 n) (a # as)))"
  by pat_completeness auto
termination
  by (relation "measure length") auto

definition lossy_text :: "bytes \<Rightarrow> string" where
  "lossy_text bs = map char_of (utf8_lossy (map unat bs))"

section \<open>Joining\<close>

definition random_anon_handle :: "ext \<Rightarrow> bytes \<Rightarrow> string" where
  \<comment> \<open>of 8 random bytes\<close>
  "random_anon_handle X bs = ''anon-'' @ hex_encode X bs"

definition build_initial_anon_join_frames :: "string \<Rightarrow> string \<Rightarrow> kaigi_frame list" where
  "build_initial_anon_join_frames participant_handle x25519_pubkey_hex =
     [K_AnonHello \<lparr>ah_protocol_version = PROTOCOL_VERSION, ah_participant_handle = participant_handle,
        ah_x25519_pubkey_hex = x25519_pubkey_hex\<rparr>]"

record anon_room =
  \<comment> \<open>\<open>AnonLocalState\<close> and the map of the peers' keys\<close>
  an_handle :: string
  an_secret :: bytes
  an_public :: bytes
  an_epoch :: u64
  an_peers :: "(string, bytes) hmap"

definition anon_room_new :: "crypto \<Rightarrow> string \<Rightarrow> bytes \<Rightarrow> anon_room" where
  "anon_room_new C handle secret = \<lparr>an_handle = handle, an_secret = secret, an_public = cr_public C secret, an_epoch = 1,
     an_peers = [(handle, cr_public C secret)]\<rparr>"

record anon_escrow =
  es_id :: string
  es_proof_hex :: string

definition anon_escrow_of :: "ext \<Rightarrow> bytes \<Rightarrow> bytes \<Rightarrow> room_chat_args \<Rightarrow> anon_escrow" where
  \<comment> \<open>the given id and proof, or random ones of 8 and 32 bytes\<close>
  "anon_escrow_of X rnd8 rnd32 args = \<lparr>
     es_id = (case ra_anon_escrow_id args of Some v \<Rightarrow> str_trim v | None \<Rightarrow> ''escrow-'' @ hex_encode X rnd8),
     es_proof_hex = (case ra_anon_escrow_proof_hex args of Some v \<Rightarrow> str_trim v | None \<Rightarrow> hex_encode X rnd32)\<rparr>"

definition escrow_frame :: "anon_room \<Rightarrow> anon_escrow \<Rightarrow> u64 \<Rightarrow> string \<Rightarrow> kaigi_frame" where
  "escrow_frame room escrow now proof_hex = K_EscrowProof \<lparr>ep_sent_at_ms = now, ep_payer_handle = an_handle room,
     ep_escrow_id = es_id escrow, ep_proof_hex = proof_hex\<rparr>"

definition anon_start ::
    "ext \<Rightarrow> (bytes \<Rightarrow> string) \<Rightarrow> 'w spawn \<Rightarrow> prepay_random \<Rightarrow> room_chat_args \<Rightarrow> anon_room \<Rightarrow> anon_escrow \<Rightarrow> u64
      \<Rightarrow> bool \<Rightarrow> 'w \<Rightarrow> (string option \<times> kaigi_frame list \<times> console list) \<times> 'w" where
  \<comment> \<open>up to the first escrow proof: an error (the function returns), the frames sent, the lines. \<open>taken\<close>: the writer
      still takes frames when the proof is sent; the hello is its first\<close>
  "anon_start X base64 spawn rnd args room escrow now taken w =
     (let hello = build_initial_anon_join_frames (an_handle room) (hex_encode X (an_public room));
          proof = escrow_frame room escrow now (es_proof_hex escrow);
          send_proof = (\<lambda>lines. if taken then (None, hello @ [proof], lines)
            else (Some ''send channel closed'', hello, lines)) in
      if ra_anon_escrow_prepay_nano args > 0
      then (case run_anon_escrow_prepay X base64 spawn rnd args w of
              (Inl e, lines, w) \<Rightarrow> ((Some e, hello, lines), w)
            | (Inr r, lines, w) \<Rightarrow> (send_proof (lines @ [Out (''anon_escrow_prepay='' @ r)]), w))
      else (send_proof [], w))"

definition escrow_tick :: "room_chat_args \<Rightarrow> anon_room \<Rightarrow> anon_escrow \<Rightarrow> u64 \<Rightarrow> kaigi_frame list" where
  \<comment> \<open>one round of the proof task; the task is there only with an interval\<close>
  "escrow_tick args room escrow now =
     (if ra_anon_escrow_proof_interval_secs args > 0 then [escrow_frame room escrow now (es_proof_hex escrow)] else [])"

section \<open>Incoming frames\<close>

definition anon_roster_peers :: "ext \<Rightarrow> anon_room \<Rightarrow> anon_roster_frame \<Rightarrow> (string, bytes) hmap" where
  "anon_roster_peers X room roster =
     hm_insert (fold (\<lambda>p m. case parse_x25519_pubkey_hex X (are_x25519_pubkey_hex p) of
         Inl _ \<Rightarrow> m | Inr pk \<Rightarrow> hm_insert m (are_participant_handle p) pk) (ar_participants roster) [])
       (an_handle room) (an_public room)"

definition control_line :: "string \<Rightarrow> bytes \<Rightarrow> string" where
  "control_line sender bs = (let text = lossy_text bs in
     case strip_prefix text ''chat:'' of
       Some msg \<Rightarrow> ''[anon '' @ sender @ ''] '' @ msg
     | None \<Rightarrow> (case strip_prefix text ''cmd:'' of
         Some cmd \<Rightarrow> ''anon_command from='' @ sender @ '' cmd='' @ cmd
       | None \<Rightarrow> ''[anon '' @ sender @ ''] '' @ text))"

definition receive_control :: "ext \<Rightarrow> crypto \<Rightarrow> anon_room \<Rightarrow> encrypted_control_frame \<Rightarrow> console list" where
  "receive_control X C room enc = (case find (\<lambda>p. erp_recipient_handle p = an_handle room) (ec_payloads enc) of
     None \<Rightarrow> []
   | Some payload \<Rightarrow> (case hm_get (an_peers room) (ec_sender_handle enc) of
       None \<Rightarrow> []
     | Some sender_pub \<Rightarrow> (case decrypt_from_sender X C (an_secret room) sender_pub (ec_sender_handle enc)
           (an_handle room) (ec_epoch enc) (ec_kind enc) payload of
         Inr bs \<Rightarrow> [Out (control_line (ec_sender_handle enc) bs)]
       | Inl err \<Rightarrow> [Err (''failed to decrypt payload from '' @ ec_sender_handle enc @ '': '' @ err)])))"

definition anon_receive ::
    "ext \<Rightarrow> crypto \<Rightarrow> (kaigi_frame \<Rightarrow> string) \<Rightarrow> kaigi_frame \<Rightarrow> anon_room \<Rightarrow> console list \<times> anon_room" where
  \<comment> \<open>\<open>debug\<close>: the text of \<open>{:?}\<close>\<close>
  "anon_receive X C debug frame room = (case frame of
     K_AnonRoster roster \<Rightarrow>
       let peers = anon_roster_peers X room roster in
       ([Out (''anon_roster peers='' @ dec (length peers))], room\<lparr>an_peers := peers\<rparr>)
   | K_GroupKeyUpdate update \<Rightarrow>
       if gk_x25519_pubkey_hex update = []
       then ([Out (''peer_left handle='' @ gk_participant_handle update)],
             room\<lparr>an_peers := hm_remove (an_peers room) (gk_participant_handle update)\<rparr>)
       else (case parse_x25519_pubkey_hex X (gk_x25519_pubkey_hex update) of
          Inl _ \<Rightarrow> ([], room)
        | Inr pk \<Rightarrow> ([Out (''group_key_update handle='' @ gk_participant_handle update @ '' epoch='' @
              dec64 (gk_epoch update))],
            room\<lparr>an_peers := hm_insert (an_peers room) (gk_participant_handle update) pk\<rparr>))
   | K_EncryptedControl enc \<Rightarrow> (receive_control X C room enc, room)
   | K_EscrowAck ack \<Rightarrow> ([Out (''escrow_ack id='' @ ea_escrow_id ack @ '' accepted='' @ dec_bool (ea_accepted ack) @
       '' reason='' @ unwrap_or (ea_reason ack) ''<none>'')], room)
   | K_Error err \<Rightarrow> ([Out (''error: '' @ err_message err)], room)
   | other \<Rightarrow> ([Out (''frame='' @ debug other)], room))"

section \<open>Typed lines\<close>

datatype run_end = Returns "string option" | Waits
  \<comment> \<open>what a function has come to: it has returned, with or without an error; or it still waits for one of its tasks\<close>

datatype reader_end = Reader_Fails string | Reader_Ends | Reader_Open
  \<comment> \<open>what has become of the reader task: it ended with an error, or when the hub closed the stream, or it still reads\<close>

datatype room_status = Running | Left_Room bool | Failed string
  \<comment> \<open>the loop goes on; it has ended, with or without asking for the end of the call; the function returned an error\<close>

definition anon_rekey :: "ext \<Rightarrow> crypto \<Rightarrow> bytes \<Rightarrow> u64 \<Rightarrow> anon_room \<Rightarrow> (string + kaigi_frame) \<times> anon_room" where
  "anon_rekey X C secret now room =
     (let room = room\<lparr>an_secret := secret, an_public := cr_public C secret, an_epoch := sat_add (an_epoch room) 1\<rparr>;
          pub_hex = hex_encode X (an_public room) in
      case parse_x25519_pubkey_hex X pub_hex of
        Inl e \<Rightarrow> (Inl e, room)
      | Inr pk \<Rightarrow> (Inr (K_GroupKeyUpdate \<lparr>gk_sent_at_ms = now, gk_participant_handle = an_handle room,
            gk_x25519_pubkey_hex = pub_hex, gk_epoch = an_epoch room\<rparr>),
          room\<lparr>an_peers := hm_insert (an_peers room) (an_handle room) pk\<rparr>))"

fun seal_for_all ::
    "ext \<Rightarrow> crypto \<Rightarrow> (string \<Rightarrow> bytes) \<Rightarrow> anon_room \<Rightarrow> encrypted_control_kind \<Rightarrow> bytes \<Rightarrow> (string, bytes) hmap
      \<Rightarrow> string + encrypted_recipient_payload list" where
  \<comment> \<open>\<open>nonces\<close> gives the random bytes drawn for a recipient\<close>
  "seal_for_all X C nonces room kind body [] = Inr []"
| "seal_for_all X C nonces room kind body ((recipient, pubkey) # peers) =
     try_bind (encrypt_for_recipient X C (nonces recipient) (an_secret room) pubkey (an_handle room) recipient
         (an_epoch room) kind body) (\<lambda>payload.
     try_bind (seal_for_all X C nonces room kind body peers) (\<lambda>payloads. Inr (payload # payloads)))"

definition anon_say ::
    "ext \<Rightarrow> crypto \<Rightarrow> (string \<Rightarrow> bytes) \<Rightarrow> u64 \<Rightarrow> string \<Rightarrow> anon_room \<Rightarrow> string + kaigi_frame option" where
  \<comment> \<open>the last part of the loop: a chat line or \<open>/end\<close>; nothing is sent to nobody\<close>
  "anon_say X C nonces now input room =
     (let kind = (if input = ''/end'' then Ctl_Command else Ctl_Chat);
          body = (if input = ''/end'' then ''cmd:end'' else ''chat:'' @ input) in
      if an_peers room = [] then Inr None
      else try_bind (seal_for_all X C nonces room kind (str_bytes body) (an_peers room)) (\<lambda>payloads.
        Inr (Some (K_EncryptedControl \<lparr>ec_sent_at_ms = now, ec_sender_handle = an_handle room, ec_epoch = an_epoch room,
          ec_kind = kind, ec_payloads = payloads\<rparr>))))"

record anon_out =
  ao_frames :: "kaigi_frame list"
  ao_lines :: "console list"
  ao_status :: room_status

definition out_of :: "kaigi_frame list \<Rightarrow> console list \<Rightarrow> room_status \<Rightarrow> anon_out" where
  "out_of frames lines status = \<lparr>ao_frames = frames, ao_lines = lines, ao_status = status\<rparr>"

definition anon_line ::
    "ext \<Rightarrow> crypto \<Rightarrow> bytes \<Rightarrow> (string \<Rightarrow> bytes) \<Rightarrow> anon_escrow \<Rightarrow> u64 \<Rightarrow> string \<Rightarrow> anon_room \<Rightarrow> anon_out \<times> anon_room" where
  \<comment> \<open>one round of the input loop, with the channel to the writer open\<close>
  "anon_line X C secret nonces escrow now line room =
     (let input = str_trim line in
      if input = [] then (out_of [] [] Running, room)
      else if input = ''/quit'' then (out_of [] [] (Left_Room False), room)
      else if input = ''/rekey'' then (case anon_rekey X C secret now room of
          (Inl e, room) \<Rightarrow> (out_of [] [] (Failed e), room)
        | (Inr frame, room) \<Rightarrow> (out_of [frame] [] Running, room))
      else case strip_prefix input ''/escrow-proof '' of
        Some v \<Rightarrow>
          let proof_hex = str_trim v in
          (case validate_anon_proof_hex X proof_hex ''/escrow-proof'' of
             Some err \<Rightarrow> (out_of [] [Err err] Running, room)
           | None \<Rightarrow> (out_of [escrow_frame room escrow now proof_hex] [] Running, room))
      | None \<Rightarrow> (case anon_say X C nonces now input room of
          Inl e \<Rightarrow> (out_of [] [] (Failed e), room)
        | Inr None \<Rightarrow> (out_of [] [] Running, room)
        | Inr (Some frame) \<Rightarrow>
            (out_of [frame] [] (if input = ''/end'' then Left_Room True else Running), room)))"

definition anon_exit :: "ext \<Rightarrow> 'w spawn \<Rightarrow> room_chat_args \<Rightarrow> 'w \<Rightarrow> console list \<times> 'w" where
  \<comment> \<open>after the loop\<close>
  "anon_exit X spawn args w =
     (if ra_anon_unshield_on_exit args
      then (case run_anon_escrow_unshield X spawn args w of
              (Inr payload, w) \<Rightarrow> ([Out (''anon_escrow_unshield='' @ payload)], w)
            | (Inl err, w) \<Rightarrow> ([Err (''anon escrow unshield failed: '' @ err)], w))
      else ([], w))"

end
