(* ===== verification/Soranet_Connect.thy ===== *)
theory Soranet_Connect
  imports Soranet Net_Addr
begin

text \<open>
  How the relay client of \<^verbatim>\<open>crates/kaigi-soranet-client/src/lib.rs\<close> opens a connection: the options of the
  caller, the choice of what the TLS handshake trusts, and the connection followed by the handshake of
  theory \<open>Soranet\<close>. The QUIC endpoint (\<^verbatim>\<open>quinn\<close>), the TLS library (\<^verbatim>\<open>rustls\<close>), the PEM parser and the
  file system are the fields of \<open>connect_ext\<close>.
\<close>

section \<open>What the client is given\<close>

type_synonym certificate = bytes

text \<open>What a server shows in the TLS handshake: its certificate, the ones in between, and the signature
  it makes on the messages of the handshake.\<close>

record server_proof =
  sp_certificate :: certificate
  sp_intermediates :: "certificate list"
  sp_message :: bytes
  sp_signature :: bytes

datatype server_verifier =
    Any_Certificate \<comment> \<open>\<open>SkipServerVerification\<close>\<close>
  | Trusted_Roots "certificate list" \<comment> \<open>the verifier of the library on a root store\<close>

record tls_config =
  tc_verifier :: server_verifier
  tc_early_data :: bool

record 'w connect_ext =
  cx_default_descriptor_commit :: bytes
  cx_default_client_capabilities :: bytes
  cx_default_relay_capabilities :: bytes
  cx_bind :: "socket_addr \<Rightarrow> 'w \<Rightarrow> unit option \<times> 'w"
  cx_read_file :: "string \<Rightarrow> 'w \<Rightarrow> bytes option \<times> 'w"
  cx_pem_certificates :: "bytes \<Rightarrow> certificate option list"
  cx_add_root :: "certificate \<Rightarrow> bool"
  cx_chain_ok :: "certificate list \<Rightarrow> certificate \<Rightarrow> certificate list \<Rightarrow> string \<Rightarrow> bool"
  cx_signature_ok :: "certificate \<Rightarrow> bytes \<Rightarrow> bytes \<Rightarrow> bool"
  cx_quic_config :: "tls_config \<Rightarrow> bool"
  cx_connect :: "tls_config \<Rightarrow> socket_addr \<Rightarrow> string \<Rightarrow> 'w \<Rightarrow> unit option \<times> 'w"
  cx_established :: "'w \<Rightarrow> unit option \<times> 'w"

datatype tls_error =
    No_Ca_Path
  | Unreadable_Ca string
  | Bad_Pem
  | Root_Refused
  | Empty_Bundle
  | Quic_Refused

datatype connect_error =
    Endpoint_Failed
  | Quic_Config_Failed tls_error
  | Connect_Refused socket_addr string
  | Connection_Failed
  | Handshake_Failed soranet_error

definition fixture_defaults :: "'w connect_ext \<Rightarrow> handshake_params" where
  "fixture_defaults C = \<lparr>hp_descriptor_commit = cx_default_descriptor_commit C,
     hp_client_capabilities = cx_default_client_capabilities C,
     hp_relay_capabilities = cx_default_relay_capabilities C, hp_kem_id = 1, hp_sig_id = 1, hp_resume_hash = None\<rparr>"

record relay_connect_options =
  ro_relay_addr :: socket_addr
  ro_server_name :: string
  ro_insecure :: bool
  ro_ca_cert_pem_path :: "string option"
  ro_handshake_prelude_frame :: "bytes option"
  ro_handshake :: handshake_params

section \<open>Errors with context\<close>

primrec map_error :: "('e \<Rightarrow> 'f) \<Rightarrow> ('w, 'e, 'a) prog \<Rightarrow> ('w, 'f, 'a) prog" where
  \<comment> \<open>\<open>p.context(h)?\<close>\<close>
  "map_error h (Return x) = Return x"
| "map_error h (Fail e) = Fail (h e)"
| "map_error h (Atomic f) = Atomic (map_prod (map_error h) id \<circ> f)"

lemma map_error_Atomic: "map_error h (Atomic f) = Atomic (\<lambda>w. (map_error h (fst (f w)), snd (f w)))"
  by (simp add: fun_eq_iff map_prod_def case_prod_beta)

lemma run_map_error [run_simps]: "run (map_error h p) w = map_prod (map_sum h id) id (run p w)"
proof (induction p arbitrary: w)
  case (Atomic f)
  show ?case
    using Atomic [of w "snd (f w)"] by (simp add: run_Atomic map_error_Atomic del: run.simps map_error.simps)
qed simp_all

lemma run_map_error_Inr: "run (map_error h p) w = (Inr x, w') \<longleftrightarrow> run p w = (Inr x, w')"
  by (cases "run p w"; cases "fst (run p w)") (auto simp: run_map_error)

lemma run_await [run_simps]:
  "run (await e f) w = (case f w of (None, w') \<Rightarrow> (Inl e, w') | (Some x, w') \<Rightarrow> (Inr x, w'))"
  by (simp add: await_def run_atomic_try)

section \<open>What the TLS handshake trusts\<close>

definition server_accepted :: "'w connect_ext \<Rightarrow> server_verifier \<Rightarrow> string \<Rightarrow> server_proof \<Rightarrow> bool" where
  \<comment> \<open>\<open>verify_server_cert\<close> and \<open>verify_tls13_signature\<close>: the latter is checked in either case\<close>
  "server_accepted C verifier name p \<longleftrightarrow>
     (case verifier of
        Any_Certificate \<Rightarrow> True
      | Trusted_Roots roots \<Rightarrow> cx_chain_ok C roots (sp_certificate p) (sp_intermediates p) name)
     \<and> cx_signature_ok C (sp_certificate p) (sp_message p) (sp_signature p)"

definition insecure_rustls_config :: tls_config where
  "insecure_rustls_config = \<lparr>tc_verifier = Any_Certificate, tc_early_data = False\<rparr>"

fun load_roots :: "'w connect_ext \<Rightarrow> certificate option list \<Rightarrow> certificate list \<Rightarrow> tls_error + certificate list" where
  \<comment> \<open>every entry of the bundle is parsed and added; the first failure refuses the bundle\<close>
  "load_roots C [] store = Inr store"
| "load_roots C (None # entries) store = Inl Bad_Pem"
| "load_roots C (Some cert # entries) store =
     (if cx_add_root C cert then load_roots C entries (store @ [cert]) else Inl Root_Refused)"

definition rustls_config_with_ca :: "'w connect_ext \<Rightarrow> string option \<Rightarrow> ('w, tls_error, tls_config) prog" where
  "rustls_config_with_ca C ca_cert_path =
     (case ca_cert_path of
        None \<Rightarrow> Fail No_Ca_Path
      | Some path \<Rightarrow>
          bind_prog (await (Unreadable_Ca path) (cx_read_file C path)) (\<lambda>data.
          case load_roots C (cx_pem_certificates C data) [] of
            Inl e \<Rightarrow> Fail e
          | Inr root_store \<Rightarrow>
              if root_store = [] then Fail Empty_Bundle
              else Return \<lparr>tc_verifier = Trusted_Roots root_store, tc_early_data = False\<rparr>))"

definition build_quic_client_config ::
    "'w connect_ext \<Rightarrow> bool \<Rightarrow> string option \<Rightarrow> ('w, tls_error, tls_config) prog" where
  "build_quic_client_config C insecure ca_cert_path =
     bind_prog (if insecure then Return insecure_rustls_config else rustls_config_with_ca C ca_cert_path) (\<lambda>crypto.
     let crypto = crypto\<lparr>tc_early_data := True\<rparr> in
     if cx_quic_config C crypto then Return crypto else Fail Quic_Refused)"

section \<open>The connection\<close>

fun unspecified_like :: "socket_addr \<Rightarrow> socket_addr" where
  \<comment> \<open>where the client's own socket is bound: any address of the relay's family, any port\<close>
  "unspecified_like (Addr_V4 _ _) = Addr_V4 (0, 0, 0, 0) 0"
| "unspecified_like (Addr_V6 _ _ _) = Addr_V6 (0, 0, 0, 0, 0, 0, 0, 0) 0 0"

definition connect_and_handshake ::
    "('w, 'st, 'key, 'sec) soranet_ext \<Rightarrow> 'w connect_ext \<Rightarrow> relay_connect_options \<Rightarrow> ('w, connect_error, 'sec) prog" where
  "connect_and_handshake N C opts =
     seq_prog (await Endpoint_Failed (cx_bind C (unspecified_like (ro_relay_addr opts))))
     (bind_prog (map_error Quic_Config_Failed
        (build_quic_client_config C (ro_insecure opts) (ro_ca_cert_pem_path opts))) (\<lambda>client_config.
      seq_prog (await (Connect_Refused (ro_relay_addr opts) (ro_server_name opts))
        (cx_connect C client_config (ro_relay_addr opts) (ro_server_name opts)))
      (seq_prog (await Connection_Failed (cx_established C))
      (map_error Handshake_Failed
        (perform_soranet_handshake N (ro_handshake opts) (ro_handshake_prelude_frame opts))))))"

section \<open>The configuration of the network\<close>

definition trim_end_char :: "char \<Rightarrow> string \<Rightarrow> string" where
  "trim_end_char c s = rev (dropWhile (\<lambda>x. x = c) (rev s))"

definition config_url :: "string \<Rightarrow> string" where
  "config_url torii_url = trim_end_char CHR ''/'' torii_url @ ''/v1/config''"

datatype config_error =
    Config_Request_Failed
  | Config_Status_Failed
  | Config_Undecodable
  | Config_Field_Invalid soranet_error

record 'w http_ext =
  ht_get :: "string \<Rightarrow> 'w \<Rightarrow> (nat \<times> bytes) option \<times> 'w"
  ht_json_config :: "bytes \<Rightarrow> soranet_handshake_dto option"

definition fetch_handshake_params_from_torii ::
    "('w, 'st, 'key, 'sec) soranet_ext \<Rightarrow> 'w http_ext \<Rightarrow> string \<Rightarrow> ('w, config_error, handshake_params) prog" where
  \<comment> \<open>\<open>error_for_status\<close> refuses the codes from 400 to 599\<close>
  "fetch_handshake_params_from_torii N H torii_url =
     bind_prog (await Config_Request_Failed (ht_get H (config_url torii_url))) (\<lambda>(status, body).
     if 400 \<le> status \<and> status < 600 then Fail Config_Status_Failed
     else case ht_json_config H body of
       None \<Rightarrow> Fail Config_Undecodable
     | Some dto \<Rightarrow> (case handshake_params_of_dto N dto of
         Inl e \<Rightarrow> Fail (Config_Field_Invalid e)
       | Inr params \<Rightarrow> Return params))"

section \<open>Facts about the configuration\<close>

lemma load_roots_sound:
  "load_roots C entries store = Inr roots \<Longrightarrow>
     \<exists>certs. entries = map Some certs \<and> roots = store @ certs \<and> list_all (cx_add_root C) certs"
proof (induction C entries store rule: load_roots.induct)
  case (3 C cert entries store)
  then obtain certs where "entries = map Some certs" and "roots = (store @ [cert]) @ certs"
      and "list_all (cx_add_root C) certs" and "cx_add_root C cert"
    by (auto split: if_splits)
  then show ?case by (intro exI [of _ "cert # certs"]) simp
qed simp_all

lemma load_roots_complete:
  "list_all (cx_add_root C) certs \<Longrightarrow> load_roots C (map Some certs) store = Inr (store @ certs)"
  by (induction certs arbitrary: store) simp_all

lemma rustls_config_with_ca_Inr:
  assumes "run (rustls_config_with_ca C ca) w = (Inr cfg, w')"
  shows "\<exists>path data roots. ca = Some path \<and> cx_read_file C path w = (Some data, w')
     \<and> cx_pem_certificates C data = map Some roots \<and> roots \<noteq> [] \<and> tc_verifier cfg = Trusted_Roots roots"
proof -
  obtain path where ca: "ca = Some path"
    using assms by (cases ca) (auto simp: rustls_config_with_ca_def)
  obtain data v where read: "cx_read_file C path w = (Some data, v)"
    using assms by (cases "cx_read_file C path w"; cases "fst (cx_read_file C path w)")
      (auto simp: rustls_config_with_ca_def ca run_simps)
  obtain roots where roots: "load_roots C (cx_pem_certificates C data) [] = Inr roots" "roots \<noteq> []"
      and "cfg = \<lparr>tc_verifier = Trusted_Roots roots, tc_early_data = False\<rparr>" and "v = w'"
    using assms by (auto simp: rustls_config_with_ca_def ca run_simps read split: sum.splits if_splits)
  then show ?thesis
    using ca read load_roots_sound [OF roots(1)] by auto
qed

lemma build_config_Inr:
  assumes "run (build_quic_client_config C insecure ca) w = (Inr cfg, w')" and "\<not> insecure"
  shows "\<exists>path data roots. ca = Some path \<and> cx_read_file C path w = (Some data, w')
     \<and> cx_pem_certificates C data = map Some roots \<and> roots \<noteq> [] \<and> tc_verifier cfg = Trusted_Roots roots"
proof -
  obtain crypto where built: "run (rustls_config_with_ca C ca) w = (Inr crypto, w')"
      and "cfg = crypto\<lparr>tc_early_data := True\<rparr>"
    using assms by (auto simp: build_quic_client_config_def run_bind_Inr Let_def split: if_splits)
  then show ?thesis
    using rustls_config_with_ca_Inr [OF built] by simp
qed

lemma config_url_slashes: "config_url (u @ replicate n CHR ''/'') = config_url u"
  by (induction n) (simp_all add: config_url_def trim_end_char_def replicate_append_same [symmetric]
      del: replicate.simps, simp_all)

section \<open>Who is at the other end\<close>

text \<open>
  What \<^verbatim>\<open>rustls\<close> and \<^verbatim>\<open>quinn\<close> promise: a connection is established only with a server whose proof the
  verifier of the configuration has accepted for the name asked for. \<open>peer w\<close> is the proof of the server
  of the connection.
\<close>

definition checks_server :: "'w connect_ext \<Rightarrow> ('w \<Rightarrow> server_proof) \<Rightarrow> bool" where
  "checks_server C peer \<longleftrightarrow> (\<forall>cfg addr name w w1 w2.
     cx_connect C cfg addr name w = (Some (), w1) \<longrightarrow> cx_established C w1 = (Some (), w2) \<longrightarrow>
     server_accepted C (tc_verifier cfg) name (peer w2))"

text \<open>C11. Unless the caller has asked for an insecure connection, no handshake is made with a server that has not
  proved itself: when \<open>connect_and_handshake\<close> succeeds, the handshake ran on a connection whose server
  showed a certificate chain for the configured name that leads to a certificate of the configured PEM
  bundle, and a signature by that certificate's key. Every entry of the bundle was a certificate, and
  there was one.\<close>

theorem relay_is_verified:
  assumes "checks_server C peer" and "\<not> ro_insecure opts"
    and "run (connect_and_handshake N C opts) w = (Inr secrets, w')"
  shows "\<exists>path v v' data roots u. ro_ca_cert_pem_path opts = Some path
     \<and> cx_read_file C path v = (Some data, v') \<and> cx_pem_certificates C data = map Some roots \<and> roots \<noteq> []
     \<and> cx_chain_ok C roots (sp_certificate (peer u)) (sp_intermediates (peer u)) (ro_server_name opts)
     \<and> cx_signature_ok C (sp_certificate (peer u)) (sp_message (peer u)) (sp_signature (peer u))
     \<and> run (perform_soranet_handshake N (ro_handshake opts) (ro_handshake_prelude_frame opts)) u = (Inr secrets, w')"
proof -
  obtain v cfg v' u1 u where
      cfg: "run (build_quic_client_config C (ro_insecure opts) (ro_ca_cert_pem_path opts)) v = (Inr cfg, v')"
    and conn: "cx_connect C cfg (ro_relay_addr opts) (ro_server_name opts) v' = (Some (), u1)"
    and est: "cx_established C u1 = (Some (), u)"
    and hs: "run (perform_soranet_handshake N (ro_handshake opts) (ro_handshake_prelude_frame opts)) u
          = (Inr secrets, w')"
    using assms(3)
    by (auto simp: connect_and_handshake_def run_bind_Inr run_seq_Inr run_await_Inr run_map_error_Inr)
  have "server_accepted C (tc_verifier cfg) (ro_server_name opts) (peer u)"
    using assms(1) conn est unfolding checks_server_def by blast
  moreover obtain path data roots where "ro_ca_cert_pem_path opts = Some path"
      and "cx_read_file C path v = (Some data, v')" and "cx_pem_certificates C data = map Some roots"
      and "roots \<noteq> []" and "tc_verifier cfg = Trusted_Roots roots"
    using build_config_Inr [OF cfg assms(2)] by blast
  ultimately show ?thesis
    using hs by (intro exI [of _ path] exI [of _ v] exI [of _ v'] exI [of _ data] exI [of _ roots] exI [of _ u])
      (simp add: server_accepted_def)
qed

text \<open>A connection that is neither insecure nor given a bundle ends before anything is sent: of the network only the
  client's own socket has been bound.\<close>

theorem no_bundle_no_traffic:
  assumes "\<not> ro_insecure opts" and "ro_ca_cert_pem_path opts = None"
  shows "\<exists>e. run (connect_and_handshake N C opts) w
     = (Inl e, snd (cx_bind C (unspecified_like (ro_relay_addr opts)) w))
     \<and> e \<in> {Endpoint_Failed, Quic_Config_Failed No_Ca_Path}"
  using assms by (auto simp: connect_and_handshake_def run_simps build_quic_client_config_def
      rustls_config_with_ca_def split: prod.splits option.splits)

section \<open>An example\<close>

definition local_net :: "(bytes \<times> bytes) connect_ext" where
  \<comment> \<open>a bundle with one certificate per byte, a server whose certificate is its own root\<close>
  "local_net = \<lparr>cx_default_descriptor_commit = replicate 32 0, cx_default_client_capabilities = [],
     cx_default_relay_capabilities = [], cx_bind = (\<lambda>_ w. (Some (), w)),
     cx_read_file = (\<lambda>path w. (if path = ''ca.pem'' then Some [9] else None, w)),
     cx_pem_certificates = (\<lambda>data. map (\<lambda>b. Some [b]) data), cx_add_root = (\<lambda>_. True),
     cx_chain_ok = (\<lambda>roots cert inter name. name = ''relay'' \<and> cert \<in> set roots),
     cx_signature_ok = (\<lambda>cert m sig. sig = cert @ m), cx_quic_config = (\<lambda>_. True),
     cx_connect = (\<lambda>cfg addr name w.
       (if name = ''relay'' \<and> (case tc_verifier cfg of Any_Certificate \<Rightarrow> True | Trusted_Roots rs \<Rightarrow> [9] \<in> set rs)
        then Some () else None, w)),
     cx_established = (\<lambda>w. (Some (), w))\<rparr>"

definition local_peer :: "bytes \<times> bytes \<Rightarrow> server_proof" where
  "local_peer w = \<lparr>sp_certificate = [9], sp_intermediates = [], sp_message = [1], sp_signature = [9, 1]\<rparr>"

definition local_options :: relay_connect_options where
  "local_options = \<lparr>ro_relay_addr = Addr_V4 (127, 0, 0, 1) 5000, ro_server_name = ''relay'', ro_insecure = False,
     ro_ca_cert_pem_path = Some ''ca.pem'', ro_handshake_prelude_frame = Some [5], ro_handshake = loopback_params\<rparr>"

lemma local_net_checks: "checks_server local_net local_peer"
  by (auto simp: checks_server_def local_net_def server_accepted_def local_peer_def
      split: server_verifier.split if_splits)

lemma relay_is_verified_witness:
  "\<exists>path v v' data roots u. ro_ca_cert_pem_path local_options = Some path
     \<and> cx_read_file local_net path v = (Some data, v') \<and> cx_pem_certificates local_net data = map Some roots
     \<and> roots \<noteq> []
     \<and> cx_chain_ok local_net roots (sp_certificate (local_peer u)) (sp_intermediates (local_peer u))
         (ro_server_name local_options)
     \<and> cx_signature_ok local_net (sp_certificate (local_peer u)) (sp_message (local_peer u)) (sp_signature (local_peer u))
     \<and> run (perform_soranet_handshake loopback (ro_handshake local_options) (ro_handshake_prelude_frame local_options)) u
         = (Inr [8], snd (run (connect_and_handshake loopback local_net local_options) ([], [0, 1, 8])))"
proof (rule relay_is_verified [OF local_net_checks])
  have "fst (run (connect_and_handshake loopback local_net local_options) ([], [0, 1, 8])) = Inr [8]"
    by (simp add: connect_and_handshake_def build_quic_client_config_def rustls_config_with_ca_def local_net_def
        local_options_def run_simps await_def perform_soranet_handshake_def loopback_def write_handshake_frame_def
        read_handshake_frame_def be_value_def)
  then show "run (connect_and_handshake loopback local_net local_options) ([], [0, 1, 8])
      = (Inr [8], snd (run (connect_and_handshake loopback local_net local_options) ([], [0, 1, 8])))"
    by (metis prod.collapse)
qed (simp add: local_options_def)

lemma no_bundle_no_traffic_witness:
  "\<exists>e. run (connect_and_handshake loopback local_net (local_options\<lparr>ro_ca_cert_pem_path := None\<rparr>)) ([], [0, 1, 8])
     = (Inl e, snd (cx_bind local_net (Addr_V4 (0, 0, 0, 0) 0) ([], [0, 1, 8])))
     \<and> e \<in> {Endpoint_Failed, Quic_Config_Failed No_Ca_Path}"
  using no_bundle_no_traffic [of "local_options\<lparr>ro_ca_cert_pem_path := None\<rparr>" loopback local_net "([], [0, 1, 8])"]
  by (simp add: local_options_def)

end
