(* ===== verification/Cli_Setup.thy ===== *)
theory Cli_Setup
  imports Cli_Anon Soranet_Connect
begin

text \<open>
  How both interfaces of \<open>room-chat\<close> begin (\<open>room_chat\<close> and \<open>room_chat_conference\<close> in
  \<^verbatim>\<open>crates/kaigi-cli/src/main.rs\<close> share these lines): the join link and the environment fill in the arguments,
  the arguments are checked, the link is used up, and the options of the relay connection are put together.
\<close>

section \<open>Arguments\<close>

definition checked :: "string option \<Rightarrow> string + unit" where
  \<comment> \<open>a check followed by \<open>?\<close>\<close>
  "checked e = (case e of None \<Rightarrow> Inr () | Some e \<Rightarrow> Inl e)"

definition required :: "'a option \<Rightarrow> string \<Rightarrow> string + 'a" where
  \<comment> \<open>\<open>ok_or_else\<close>\<close>
  "required x e = (case x of None \<Rightarrow> Inl e | Some v \<Rightarrow> Inr v)"

record room_settings =
  rs_args :: room_chat_args
  rs_anonymous_mode :: bool
  rs_lifecycle :: "auto_kaigi_lifecycle option"
  rs_relay_addr :: socket_addr
  rs_channel_hex :: string
  rs_server_name :: string

definition check_settings :: "ext \<Rightarrow> room_chat_args \<Rightarrow> string + room_settings" where
  \<comment> \<open>from the privacy mode to the routing requirement, on arguments with their defaults\<close>
  "check_settings X args =
     (let args = args\<lparr>ra_kaigi_privacy_mode := normalize_privacy_mode (ra_kaigi_privacy_mode args)\<rparr> in
      try_bind (checked (validate_privacy_mode_arg (ra_kaigi_privacy_mode args))) (\<lambda>_.
      let anonymous_mode = is_anonymous_mode_enabled (ra_kaigi_privacy_mode args) in
      try_bind (checked (validate_anonymous_escrow_settings X args anonymous_mode)) (\<lambda>_.
      try_bind (build_auto_kaigi_lifecycle X args) (\<lambda>lifecycle.
      try_bind (required (ra_relay args) ''--relay is required unless --join-link is provided'') (\<lambda>relay_addr.
      try_bind (required (ra_channel args) ''--channel is required unless --join-link is provided'') (\<lambda>channel_hex.
      try_bind (checked (validate_nexus_routing_requirement (ra_allow_local_handshake args) (ra_torii args))) (\<lambda>_.
        Inr \<lparr>rs_args = args, rs_anonymous_mode = anonymous_mode, rs_lifecycle = lifecycle, rs_relay_addr = relay_addr,
          rs_channel_hex = channel_hex, rs_server_name = unwrap_or (ra_server_name args) ''localhost''\<rparr>)))))))"

definition room_settings_of ::
    "ext \<Rightarrow> (string \<Rightarrow> string option) \<Rightarrow> u64 \<Rightarrow> u64 \<Rightarrow> room_chat_args \<Rightarrow> nonce_cache
      \<Rightarrow> (string + room_settings) \<times> nonce_cache" where
  \<comment> \<open>up to the use of the link; the two clock readings are those of the two readings of the link\<close>
  "room_settings_of X env now1 now2 args cache =
     (let link = (case ra_join_link args of
            None \<Rightarrow> Inr None
          | Some link \<Rightarrow> map_sum id Some (fst (parse_join_link_for_inspection X now1 link cache)));
          settings = try_bind link (\<lambda>link.
            check_settings X (apply_room_chat_env_defaults env (apply_room_chat_join_link_defaults X args link))) in
      case settings of
        Inl e \<Rightarrow> (Inl e, cache)
      | Inr s \<Rightarrow> (case ra_join_link args of
            None \<Rightarrow> (Inr s, cache)
          | Some link \<Rightarrow> (case parse_join_link X now2 link cache of
                (Inl e, cache) \<Rightarrow> (Inl e, cache)
              | (Inr _, cache) \<Rightarrow> (Inr s, cache))))"

section \<open>The relay connection\<close>

definition hex_of :: "ext \<Rightarrow> string \<Rightarrow> string + bytes" where
  \<comment> \<open>\<open>decode_hex_32\<close>\<close>
  "hex_of X s = map_sum hex_error_text id (hex_32_with (hex_decode X) s)"

definition opt_hex_vec :: "ext \<Rightarrow> string option \<Rightarrow> string + bytes option" where
  \<comment> \<open>\<open>as_deref().map(decode_hex_vec).transpose()\<close>\<close>
  "opt_hex_vec X s = (case s of None \<Rightarrow> Inr None | Some s \<Rightarrow> map_sum id Some (hex_vec_with X s))"

record handshake_flags =
  \<comment> \<open>the options of a command that say how the relay is greeted\<close>
  hf_torii :: "string option"
  hf_descriptor_commit_hex :: "string option"
  hf_client_capabilities_hex :: "string option"
  hf_relay_capabilities_hex :: "string option"
  hf_kem_id :: "u8 option"
  hf_sig_id :: "u8 option"
  hf_resume_hash_hex :: "string option"
  hf_handshake_prelude_hex :: "string option"

definition handshake_flags_of :: "room_chat_args \<Rightarrow> handshake_flags" where
  "handshake_flags_of args = \<lparr>hf_torii = ra_torii args, hf_descriptor_commit_hex = ra_descriptor_commit_hex args,
     hf_client_capabilities_hex = ra_client_capabilities_hex args,
     hf_relay_capabilities_hex = ra_relay_capabilities_hex args, hf_kem_id = ra_kem_id args, hf_sig_id = ra_sig_id args,
     hf_resume_hash_hex = ra_resume_hash_hex args, hf_handshake_prelude_hex = ra_handshake_prelude_hex args\<rparr>"

definition any_handshake_flag :: "handshake_flags \<Rightarrow> bool" where
  "any_handshake_flag f \<longleftrightarrow> hf_descriptor_commit_hex f \<noteq> None \<or> hf_client_capabilities_hex f \<noteq> None
     \<or> hf_relay_capabilities_hex f \<noteq> None \<or> hf_kem_id f \<noteq> None \<or> hf_sig_id f \<noteq> None
     \<or> hf_resume_hash_hex f \<noteq> None"

definition handshake_of_flags :: "ext \<Rightarrow> handshake_flags \<Rightarrow> string + handshake_params" where
  "handshake_of_flags X f =
     try_bind (required (hf_descriptor_commit_hex f) ''--descriptor-commit-hex is required'') (\<lambda>commit_hex.
     try_bind (required (hf_client_capabilities_hex f) ''--client-capabilities-hex is required'') (\<lambda>client_hex.
     try_bind (required (hf_relay_capabilities_hex f) ''--relay-capabilities-hex is required'') (\<lambda>relay_hex.
     try_bind (required (hf_kem_id f) ''--kem-id is required'') (\<lambda>kem.
     try_bind (required (hf_sig_id f) ''--sig-id is required'') (\<lambda>sig.
     try_bind (hex_of X commit_hex) (\<lambda>commit.
     try_bind (hex_vec_with X client_hex) (\<lambda>client_capabilities.
     try_bind (hex_vec_with X relay_hex) (\<lambda>relay_capabilities.
     try_bind (opt_hex_vec X (hf_resume_hash_hex f)) (\<lambda>resume_hash.
       Inr \<lparr>hp_descriptor_commit = commit, hp_client_capabilities = client_capabilities,
         hp_relay_capabilities = relay_capabilities, hp_kem_id = kem, hp_sig_id = sig,
         hp_resume_hash = resume_hash\<rparr>)))))))))"

definition choose_handshake ::
    "ext \<Rightarrow> (string \<Rightarrow> 'w \<Rightarrow> (string + handshake_params) \<times> 'w) \<Rightarrow> handshake_params \<Rightarrow> handshake_flags \<Rightarrow> 'w
      \<Rightarrow> (string + handshake_params) \<times> 'w" where
  \<comment> \<open>\<open>fetch\<close>: \<open>fetch_handshake_params_from_torii\<close>; \<open>fixture\<close>: \<open>HandshakeParams::fixture_defaults()\<close>, both of theory
      \<open>Soranet_Connect\<close>\<close>
  "choose_handshake X fetch fixture f w = (case hf_torii f of
     Some torii \<Rightarrow> fetch torii w
   | None \<Rightarrow> if any_handshake_flag f then (handshake_of_flags X f, w) else (Inr fixture, w))"

definition connect_options ::
    "ext \<Rightarrow> (string \<Rightarrow> 'w \<Rightarrow> (string + handshake_params) \<times> 'w) \<Rightarrow> handshake_params \<Rightarrow> handshake_flags
      \<Rightarrow> socket_addr \<Rightarrow> string \<Rightarrow> bool \<Rightarrow> string option \<Rightarrow> 'w \<Rightarrow> (string + relay_connect_options) \<times> 'w" where
  "connect_options X fetch fixture f relay_addr server_name insecure ca_cert_pem_path w =
     (case choose_handshake X fetch fixture f w of
        (Inl e, w) \<Rightarrow> (Inl e, w)
      | (Inr handshake, w) \<Rightarrow>
          (try_bind (opt_hex_vec X (hf_handshake_prelude_hex f)) (\<lambda>prelude.
             Inr \<lparr>ro_relay_addr = relay_addr, ro_server_name = server_name, ro_insecure = insecure,
               ro_ca_cert_pem_path = ca_cert_pem_path, ro_handshake_prelude_frame = prelude,
               ro_handshake = handshake\<rparr>), w))"

definition relay_options ::
    "ext \<Rightarrow> (string \<Rightarrow> 'w \<Rightarrow> (string + handshake_params) \<times> 'w) \<Rightarrow> handshake_params \<Rightarrow> room_settings \<Rightarrow> 'w
      \<Rightarrow> (string + relay_connect_options) \<times> 'w" where
  "relay_options X fetch fixture s =
     connect_options X fetch fixture (handshake_flags_of (rs_args s)) (rs_relay_addr s) (rs_server_name s)
       (ra_insecure (rs_args s)) (ra_ca_cert_pem_path (rs_args s))"

section \<open>Names\<close>

definition random_participant_id :: "ext \<Rightarrow> bytes \<Rightarrow> string" where
  \<comment> \<open>of 8 random bytes\<close>
  "random_participant_id X bs = ''p-'' @ hex_encode X bs"

definition local_id_of :: "ext \<Rightarrow> bytes \<Rightarrow> room_settings \<Rightarrow> string + string" where
  \<comment> \<open>the id, once the stream is open; an anonymous one is checked again\<close>
  "local_id_of X rnd s =
     (if rs_anonymous_mode s
      then (let handle = unwrap_or (ra_participant_id (rs_args s)) (random_anon_handle X rnd) in
        try_bind (checked (validate_anonymous_participant_handle handle)) (\<lambda>_. Inr handle))
      else Inr (unwrap_or (ra_participant_id (rs_args s)) (random_participant_id X rnd)))"

definition auto_hdr_display :: "(string \<Rightarrow> string option) \<Rightarrow> room_chat_args \<Rightarrow> bool" where
  \<comment> \<open>\<open>detect_hdr_display\<close> outside macOS, unless it is switched off\<close>
  "auto_hdr_display env args = (\<not> ra_no_hdr_auto args
     \<and> (case Option.bind (env ''KAIGI_HDR_DISPLAY'') parse_boolish of Some b \<Rightarrow> b | None \<Rightarrow> False))"

definition hello_of :: "(string \<Rightarrow> string option) \<Rightarrow> room_chat_args \<Rightarrow> string \<Rightarrow> kaigi_frame" where
  "hello_of env args participant_id = K_Hello \<lparr>he_protocol_version = PROTOCOL_VERSION, he_participant_id = participant_id,
     he_display_name = ra_display_name args, he_mic_enabled = False, he_video_enabled = False,
     he_screen_share_enabled = False, he_hdr_display = ra_hdr_display args \<or> auto_hdr_display env args,
     he_hdr_capture = ra_hdr_capture args\<rparr>"

end
