(* ===== verification/Cli_Conference.thy ===== *)
theory Cli_Conference
  imports Cli_Setup Cli_Play
begin

text \<open>
  The conference interface of the command line client (\<open>room_chat_conference\<close> in
  \<^verbatim>\<open>crates/kaigi-cli/src/main.rs\<close>): the first frames, what the reader does with a frame, one tick of the media
  sender, the ping, the control keys and the end. The media codecs and the encoding of frames (crates of the Norito
  workspace) are the fields of \<open>media_ext\<close>; the encoders are part of its world. Every task is a step on the shared
  state; the tasks run between each other in any order.
\<close>

section \<open>Libraries\<close>

datatype audio_layout = Layout_Mono | Layout_Stereo | Layout_FirstOrderAmbisonics

record ('a, 'w) media_ext =
  mx_video_frames :: "bytes \<Rightarrow> string + (u16 \<times> u16 \<times> bytes list)"
  mx_audio_frame :: "bytes \<Rightarrow> string + 'a"
  mx_pcm :: "u32 \<Rightarrow> u16 \<Rightarrow> audio_layout \<Rightarrow> 'a \<Rightarrow> string + 16 word list"
  mx_video_of_bytes :: "bytes \<Rightarrow> video_segment_frame option"
  mx_audio_of_bytes :: "bytes \<Rightarrow> audio_packet_frame option"
  mx_video_to_bytes :: "video_segment_frame \<Rightarrow> string + bytes"
  mx_audio_to_bytes :: "audio_packet_frame \<Rightarrow> string + bytes"
  mx_new_encoder :: "u32 \<Rightarrow> u8 \<Rightarrow> 'w \<Rightarrow> 'w"
  mx_encode_video :: "u32 \<Rightarrow> u64 \<Rightarrow> u64 \<Rightarrow> bytes \<Rightarrow> 'w \<Rightarrow> (string + bytes) \<times> 'w"
  mx_tone :: "u16 \<Rightarrow> 'w \<Rightarrow> 16 word list \<times> 'w"
  mx_encode_audio :: "u64 \<Rightarrow> u64 \<Rightarrow> 16 word list \<Rightarrow> 'w \<Rightarrow> (string + bytes) \<times> 'w"
  \<comment> \<open>a segment's size and pictures; an audio frame and its samples; the frames as bytes; a new video encoder with its
      frame duration and quantizer; a segment with its duration, number and time; the samples of the test tone with
      their gain, a sine in \<open>f32\<close> whose phase is kept; a coded audio frame\<close>

definition decode_ascii_video_segment ::
    "('a, 'w) media_ext \<Rightarrow> u64 \<Rightarrow> video_segment_frame \<Rightarrow> string + ascii_video_frame option" where
  "decode_ascii_video_segment M now segment = try_bind (mx_video_frames M (vs_payload segment)) (\<lambda>(w, h, frames).
     case frames of
       [] \<Rightarrow> Inr None
     | luma # _ \<Rightarrow> Inr (Some \<lparr>av_width = w, av_height = h, av_luma = luma, av_updated_at_ms = now\<rparr>))"

definition audio_layout_of :: "u8 \<Rightarrow> audio_layout option" where
  "audio_layout_of channels =
     (if channels = 1 then Some Layout_Mono else if channels = 2 then Some Layout_Stereo
      else if channels = 4 then Some Layout_FirstOrderAmbisonics else None)"

definition unsigned_abs :: "16 word \<Rightarrow> u64" where
  "unsigned_abs v = of_int \<bar>sint v\<bar>"

definition decode_audio_level :: "('a, 'w) media_ext \<Rightarrow> audio_packet_frame \<Rightarrow> string + u16 option" where
  "decode_audio_level M packet = try_bind (mx_audio_frame M (ap_payload packet)) (\<lambda>frame.
     case audio_layout_of (ap_channels packet) of
       None \<Rightarrow> Inr None
     | Some layout \<Rightarrow> try_bind (mx_pcm M (ap_sample_rate packet) (ap_frame_samples packet) layout frame) (\<lambda>pcm.
         if pcm = [] then Inr None
         else Inr (Some (of_nat (unat (min (sum_list (map unsigned_abs pcm) div of_nat (length pcm)) 65535))))))"

section \<open>The shared state\<close>

record conference =
  cf_controls :: conference_controls
  cf_frames :: "(string, ascii_video_frame) hmap"
  cf_audio :: "(string, conference_audio_stat) hmap"
  cf_participants :: "(string, participant_media_telemetry) hmap"
  cf_group_epoch :: u64
  cf_group_key :: "bytes option"
  cf_telemetry :: conference_telemetry

definition controls_new :: conference_controls where
  "controls_new = \<lparr>cc_mic_enabled = False, cc_camera_enabled = False, cc_share_enabled = False, cc_paused = False,
     cc_glitch = True, cc_datamosh = False, cc_noise_overlay = False, cc_edge_enhance = True, cc_rain_overlay = True,
     cc_luma_boost_level = 1, cc_advanced = False, cc_help_overlay = False, cc_density_idx = 2, cc_theme_idx = 0,
     cc_auto_theme = False, cc_focus_idx = 0, cc_adaptive_override = None, cc_sort_worst_first = False\<rparr>"

definition conference_new :: conference where
  "conference_new = \<lparr>cf_controls = controls_new, cf_frames = [], cf_audio = [], cf_participants = [],
     cf_group_epoch = 0, cf_group_key = None, cf_telemetry = conference_telemetry_default\<rparr>"

definition conference_first_frames ::
    "ext \<Rightarrow> (string \<Rightarrow> string option) \<Rightarrow> room_settings \<Rightarrow> string \<Rightarrow> bytes \<Rightarrow> u64 \<Rightarrow> kaigi_frame list" where
  \<comment> \<open>\<open>public\<close>: the key drawn; its secret half is dropped at once\<close>
  "conference_first_frames X env s local_id public now =
     (if rs_anonymous_mode s
      then [K_AnonHello \<lparr>ah_protocol_version = PROTOCOL_VERSION, ah_participant_handle = local_id,
              ah_x25519_pubkey_hex = hex_encode X public\<rparr>,
            K_GroupKeyUpdate \<lparr>gk_sent_at_ms = now, gk_participant_handle = local_id,
              gk_x25519_pubkey_hex = hex_encode X public, gk_epoch = 1\<rparr>]
      else [hello_of env (rs_args s) local_id,
            K_MediaCapability \<lparr>mc_reported_at_ms = now, mc_participant_id = local_id, mc_max_video_width = 1280,
              mc_max_video_height = 720, mc_max_video_fps = 30, mc_video_codecs = [Codec_NoritoBaseline],
              mc_audio_codecs = [Audio_NoritoNative], mc_audio_sample_rate = 48000, mc_audio_channels = 2\<rparr>])"

section \<open>The reader\<close>

definition note_video :: "u64 \<Rightarrow> video_segment_frame \<Rightarrow> ascii_video_frame \<Rightarrow> conference \<Rightarrow> conference" where
  "note_video at_ms segment decoded cf =
     (let pid = vs_participant_id segment; t = cf_telemetry cf;
          entry = unwrap_or (hm_get (cf_participants cf) pid) participant_media_default;
          note = record_rx_sequence_telemetry (vs_segment_number segment) at_ms 100 in
      cf\<lparr>cf_frames := hm_insert (cf_frames cf) pid decoded,
         cf_telemetry := t\<lparr>ct_rx_video := note (ct_rx_video t)\<rparr>,
         cf_participants := hm_insert (cf_participants cf) pid (entry\<lparr>pm_video := note (pm_video entry)\<rparr>)\<rparr>)"

definition note_audio :: "u64 \<Rightarrow> audio_packet_frame \<Rightarrow> u16 \<Rightarrow> conference \<Rightarrow> conference" where
  "note_audio at_ms packet level cf =
     (let pid = ap_participant_id packet; t = cf_telemetry cf;
          entry = unwrap_or (hm_get (cf_participants cf) pid) participant_media_default;
          note = record_rx_sequence_telemetry (ap_sequence packet) at_ms 100 in
      cf\<lparr>cf_audio := hm_insert (cf_audio cf) pid \<lparr>cs_rms = level, cs_updated_at_ms = at_ms\<rparr>,
         cf_telemetry := t\<lparr>ct_rx_audio := note (ct_rx_audio t)\<rparr>,
         cf_participants := hm_insert (cf_participants cf) pid (entry\<lparr>pm_audio := note (pm_audio entry)\<rparr>)\<rparr>)"

definition receive_video :: "('a, 'w) media_ext \<Rightarrow> u64 \<Rightarrow> video_segment_frame \<Rightarrow> conference \<Rightarrow> string + conference" where
  "receive_video M now segment cf = try_bind (decode_ascii_video_segment M now segment) (\<lambda>decoded.
     Inr (case decoded of None \<Rightarrow> cf | Some frame \<Rightarrow> note_video now segment frame cf))"

definition receive_audio :: "('a, 'w) media_ext \<Rightarrow> u64 \<Rightarrow> audio_packet_frame \<Rightarrow> conference \<Rightarrow> string + conference" where
  "receive_audio M now packet cf = try_bind (decode_audio_level M packet) (\<lambda>level.
     Inr (case level of None \<Rightarrow> cf | Some level \<Rightarrow> note_audio now packet level cf))"

definition receive_envelope ::
    "ext \<Rightarrow> crypto \<Rightarrow> ('a, 'w) media_ext \<Rightarrow> u64 \<Rightarrow> anon_encrypted_payload_frame \<Rightarrow> conference \<Rightarrow> string + conference" where
  "receive_envelope X C M now enc cf = (case cf_group_key cf of
     None \<Rightarrow> Inr cf
   | Some key \<Rightarrow>
       if cf_group_epoch cf = 0 \<or> ae_epoch enc = 0 \<or> ae_epoch enc < cf_group_epoch cf then Inr cf
       else try_bind (decrypt_anon_group_payload X C key (ae_sender_handle enc) enc) (\<lambda>plaintext.
         case ae_kind enc of
           Anon_VideoSegment \<Rightarrow> (case mx_video_of_bytes M plaintext of
               None \<Rightarrow> Inr cf | Some segment \<Rightarrow> receive_video M now segment cf)
         | Anon_AudioPacket \<Rightarrow> (case mx_audio_of_bytes M plaintext of
               None \<Rightarrow> Inr cf | Some packet \<Rightarrow> receive_audio M now packet cf)
         | Anon_Control \<Rightarrow> Inr cf))"

definition track_label :: "media_track_kind \<Rightarrow> string" where
  \<comment> \<open>\<open>{:?}\<close>\<close>
  "track_label k = (case k of Track_Camera \<Rightarrow> ''Camera'' | Track_ScreenShare \<Rightarrow> ''ScreenShare'')"

definition conference_receive ::
    "ext \<Rightarrow> crypto \<Rightarrow> ('a, 'w) media_ext \<Rightarrow> u64 \<Rightarrow> kaigi_frame \<Rightarrow> conference \<Rightarrow> string + (console list \<times> conference)" where
  \<comment> \<open>one frame; an error ends the reader\<close>
  "conference_receive X C M now frame cf = (let quiet = map_sum id (\<lambda>cf. ([], cf)) in case frame of
     K_Roster roster \<Rightarrow> Inr ([Out (''roster count='' @ dec (length (ro_participants roster)))], cf)
   | K_Event (Ev_Left left) \<Rightarrow> Inr ([], cf\<lparr>cf_frames := hm_remove (cf_frames cf) (lf_participant_id left),
       cf_audio := hm_remove (cf_audio cf) (lf_participant_id left),
       cf_participants := hm_remove (cf_participants cf) (lf_participant_id left)\<rparr>)
   | K_MediaTrackState track \<Rightarrow> Inr ([Out (''track participant='' @ mt_participant_id track @ '' mic='' @
       dec_bool (mt_mic_enabled track) @ '' camera='' @ dec_bool (mt_camera_enabled track) @ '' share='' @
       dec_bool (mt_screen_share_enabled track) @ '' active='' @ track_label (mt_active_video_track track))], cf)
   | K_VideoSegment segment \<Rightarrow> quiet (receive_video M now segment cf)
   | K_AudioPacket packet \<Rightarrow> quiet (receive_audio M now packet cf)
   | K_AnonGroupKeyRotate update \<Rightarrow> try_bind (derive_anon_group_key X (kr_key_wrap_hex update)) (\<lambda>key.
       Inr ([Out (''anon group key rotated epoch='' @ dec64 (kr_epoch update) @ '' members='' @
           dec (length (kr_member_handles update)))],
         cf\<lparr>cf_group_epoch := kr_epoch update, cf_group_key := Some key\<rparr>))
   | K_AnonEncryptedPayload enc \<Rightarrow> quiet (receive_envelope X C M now enc cf)
   | K_Pong pong \<Rightarrow>
       let sample = sat_sub now (pong_nonce pong) in
       Inr ([], if pong_nonce pong \<le> now \<and> sample \<le> 60000
         then cf\<lparr>cf_telemetry := record_rtt_sample sample (cf_telemetry cf)\<rparr> else cf)
   | K_Error err \<Rightarrow> Inr ([Out (''error: '' @ err_message err)], cf)
   | K_Chat chat \<Rightarrow> Inr ([Out (''['' @ ch_from_participant_id chat @ ''] '' @ ch_text chat)], cf)
   | _ \<Rightarrow> Inr ([], cf))"

section \<open>The media sender\<close>

record 'w media_sender =
  md_frame_duration_ns :: u32
  md_video_interval_ms :: u64
  md_video_quantizer :: u8
  md_video_seq :: u64
  md_audio_seq :: u64
  md_last_video_sent_ms :: u64
  md_last_audio_sent_ms :: u64
  md_world :: 'w

definition media_sender_new :: "('a, 'w) media_ext \<Rightarrow> 'w \<Rightarrow> 'w media_sender" where
  "media_sender_new M w = \<lparr>md_frame_duration_ns = 100000000, md_video_interval_ms = 100, md_video_quantizer = 20,
     md_video_seq = 0, md_audio_seq = 0, md_last_video_sent_ms = 0, md_last_audio_sent_ms = 0,
     md_world = mx_new_encoder M 100000000 20 w\<rparr>"

definition sender_profile :: "conference \<Rightarrow> u64 \<times> u8 \<times> u8" where
  "sender_profile cf = (case cc_adaptive_override (cf_controls cf) of
     Some level \<Rightarrow> adaptive_profile_for_level level
   | None \<Rightarrow> choose_adaptive_video_profile (cf_telemetry cf))"

definition media_adapt :: "conference \<Rightarrow> conference" where
  \<comment> \<open>the profile goes to the telemetry\<close>
  "media_adapt cf = (case sender_profile cf of (interval, quantizer, level) \<Rightarrow>
     (case adaptive_audio_profile_for_level level of (audio_interval, gain) \<Rightarrow>
        cf\<lparr>cf_telemetry := (cf_telemetry cf)\<lparr>ct_adaptive_video_interval_ms := interval,
          ct_adaptive_video_quantizer := quantizer, ct_adaptive_audio_interval_ms := audio_interval,
          ct_adaptive_audio_gain_permille := gain, ct_adaptive_level := level,
          ct_adaptive_manual := (cc_adaptive_override (cf_controls cf) \<noteq> None)\<rparr>\<rparr>))"

definition media_retune ::
    "('a, 'w) media_ext \<Rightarrow> conference_telemetry \<Rightarrow> 'w media_sender \<Rightarrow> console list \<times> 'w media_sender" where
  \<comment> \<open>a new encoder when the profile has changed\<close>
  "media_retune M t md =
     (let interval = ct_adaptive_video_interval_ms t; quantizer = ct_adaptive_video_quantizer t in
      if interval \<noteq> md_video_interval_ms md \<or> quantizer \<noteq> md_video_quantizer md
      then (let duration = of_nat (min (unat (sat_mul interval 1000000)) (2 ^ 32 - 1)) in
        ([Out (''adaptive mode '' @ adaptive_mode_label (ct_adaptive_level t) @
            (if ct_adaptive_manual t then ''(manual): interval='' else ''(auto): interval='') @ dec64 interval @ ''ms q'' @
            dec (unat quantizer))],
         md\<lparr>md_video_interval_ms := interval, md_video_quantizer := quantizer, md_frame_duration_ns := duration,
            md_world := mx_new_encoder M duration quantizer (md_world md)\<rparr>))
      else ([], md))"

definition media_envelope ::
    "ext \<Rightarrow> crypto \<Rightarrow> bool \<Rightarrow> string \<Rightarrow> u64 \<Rightarrow> bytes \<Rightarrow> conference \<Rightarrow> anonymous_payload_kind \<Rightarrow> string + bytes \<Rightarrow> kaigi_frame
      \<Rightarrow> string + kaigi_frame option" where
  \<comment> \<open>what is sent for a packet: itself, or sealed with the group key, or nothing while there is no key. \<open>now\<close> and
      \<open>nonce\<close> are the clock reading and the random bytes of the seal.\<close>
  "media_envelope X C anonymous_mode local_id now nonce cf kind plaintext packet =
     (if anonymous_mode
      then (case cf_group_key cf of
              Some key \<Rightarrow>
                if cf_group_epoch cf > 0
                then try_bind plaintext (\<lambda>plaintext.
                  map_sum id (\<lambda>wrapped. Some (K_AnonEncryptedPayload wrapped))
                    (encrypt_anon_group_payload X C now nonce key local_id (cf_group_epoch cf) kind plaintext))
                else Inr None
            | None \<Rightarrow> Inr None)
      else Inr (Some packet))"

type_synonym 'w media_result = "string + (kaigi_frame option \<times> conference \<times> 'w media_sender)"

definition send_due :: "bool \<Rightarrow> u64 \<Rightarrow> u64 \<Rightarrow> u64 \<Rightarrow> bool" where
  \<comment> \<open>the source is on, and its interval is over or it has not begun\<close>
  "send_due on now last_ms interval_ms \<longleftrightarrow> on \<and> (last_ms = 0 \<or> sat_sub now last_ms \<ge> interval_ms)"

definition media_send_video ::
    "ext \<Rightarrow> crypto \<Rightarrow> ('a, 'w) media_ext \<Rightarrow> bool \<Rightarrow> string \<Rightarrow> u64 \<Rightarrow> bytes \<Rightarrow> conference_controls \<Rightarrow> conference
      \<Rightarrow> 'w media_sender \<Rightarrow> 'w media_result" where
  "media_send_video X C M anonymous_mode local_id now nonce current cf md =
     (if \<not> send_due (cc_camera_enabled current \<or> cc_share_enabled current) now (md_last_video_sent_ms md)
          (md_video_interval_ms md)
      then Inr (None, cf, md)
      else
        let seq = sat_add (md_video_seq md) 1;
            luma = generate_synthetic_luma 96 54 seq (cc_share_enabled current) in
        (case mx_encode_video M (md_frame_duration_ns md) seq (sat_mul now 1000000) luma (md_world md) of
           (Inl e, _) \<Rightarrow> Inl e
         | (Inr payload, w) \<Rightarrow>
             let packet = \<lparr>vs_sent_at_ms = now, vs_participant_id = local_id, vs_segment_number = seq,
                   vs_frame_width = 96, vs_frame_height = 54, vs_frame_duration_ns = md_frame_duration_ns md,
                   vs_payload = payload\<rparr>;
                 md = md\<lparr>md_video_seq := seq, md_last_video_sent_ms := now, md_world := w\<rparr>;
                 t = cf_telemetry cf in
             try_bind (media_envelope X C anonymous_mode local_id now nonce cf Anon_VideoSegment
                 (mx_video_to_bytes M packet) (K_VideoSegment packet)) (\<lambda>sent.
               Inr (sent, (if sent = None then cf
                 else cf\<lparr>cf_telemetry := t\<lparr>ct_tx_video := record_flow_telemetry now (ct_tx_video t)\<rparr>\<rparr>), md))))"

definition media_send_audio ::
    "ext \<Rightarrow> crypto \<Rightarrow> ('a, 'w) media_ext \<Rightarrow> bool \<Rightarrow> string \<Rightarrow> u64 \<Rightarrow> bytes \<Rightarrow> conference_controls \<Rightarrow> conference
      \<Rightarrow> 'w media_sender \<Rightarrow> 'w media_result" where
  "media_send_audio X C M anonymous_mode local_id now nonce current cf md =
     (let t = cf_telemetry cf in
      if \<not> send_due (cc_mic_enabled current) now (md_last_audio_sent_ms md) (ct_adaptive_audio_interval_ms t)
      then Inr (None, cf, md)
      else (case mx_tone M (ct_adaptive_audio_gain_permille t) (md_world md) of (pcm, w) \<Rightarrow>
        (case mx_encode_audio M (md_audio_seq md) (sat_mul now 1000000) pcm w of
           (Inl e, _) \<Rightarrow> Inl e
         | (Inr payload, w) \<Rightarrow>
             let packet = \<lparr>ap_sent_at_ms = now, ap_participant_id = local_id, ap_sequence = md_audio_seq md,
                   ap_sample_rate = 48000, ap_channels = 2, ap_frame_samples = 240, ap_payload = payload\<rparr>;
                 md = md\<lparr>md_audio_seq := sat_add (md_audio_seq md) 1, md_last_audio_sent_ms := now, md_world := w\<rparr> in
             try_bind (media_envelope X C anonymous_mode local_id now nonce cf Anon_AudioPacket
                 (mx_audio_to_bytes M packet) (K_AudioPacket packet)) (\<lambda>sent.
               Inr (sent, (if sent = None then cf
                 else cf\<lparr>cf_telemetry := t\<lparr>ct_tx_audio := record_flow_telemetry now (ct_tx_audio t)\<rparr>\<rparr>), md)))))"

definition media_tick ::
    "ext \<Rightarrow> crypto \<Rightarrow> ('a, 'w) media_ext \<Rightarrow> bool \<Rightarrow> string \<Rightarrow> u64 \<Rightarrow> bytes \<Rightarrow> bytes \<Rightarrow> conference \<Rightarrow> 'w media_sender
      \<Rightarrow> string + (kaigi_frame list \<times> console list \<times> conference \<times> 'w media_sender)" where
  \<comment> \<open>one round of the loop, with the channel to the writer open; an error ends the sender. The two nonces are the
      random bytes for the two packets.\<close>
  "media_tick X C M anonymous_mode local_id now nonce1 nonce2 cf md =
     (let current = cf_controls cf; cf = media_adapt cf in
      case media_retune M (cf_telemetry cf) md of (lines, md) \<Rightarrow>
        if cc_paused current then Inr ([], lines, cf, md)
        else try_bind (media_send_video X C M anonymous_mode local_id now nonce1 current cf md) (\<lambda>(video, cf, md).
          try_bind (media_send_audio X C M anonymous_mode local_id now nonce2 current cf md) (\<lambda>(audio, cf, md).
            Inr (case_option [] (\<lambda>f. [f]) video @ case_option [] (\<lambda>f. [f]) audio, lines, cf, md))))"

definition ping_frame_at :: "u64 \<Rightarrow> kaigi_frame" where
  \<comment> \<open>sent every two seconds\<close>
  "ping_frame_at now = K_Ping \<lparr>ping_nonce = now\<rparr>"

definition render_tick :: "u64 \<Rightarrow> conference \<Rightarrow> string \<times> conference" where
  \<comment> \<open>one round of the render task\<close>
  "render_tick now cf =
     (let t = cf_telemetry cf;
          t = t\<lparr>ct_ui_render := record_flow_telemetry now (ct_ui_render t)\<rparr>;
          label = classify_conference_quality now t (cf_frames cf \<noteq> []);
          t = record_quality_history_sample now (quality_level_from_label label) t in
      (render_ascii_dashboard now (cf_controls cf) (cf_frames cf) (cf_audio cf) t (cf_participants cf),
       cf\<lparr>cf_telemetry := t\<rparr>))"

section \<open>The control keys\<close>

record control_result =
  co_controls :: conference_controls
  co_lines :: "console list"
  co_state_changed :: bool
  co_reset :: bool
  co_snapshot :: bool

definition control_of :: "conference_controls \<Rightarrow> console list \<Rightarrow> control_result" where
  "control_of c lines = \<lparr>co_controls = c, co_lines = lines, co_state_changed = False, co_reset = False,
     co_snapshot = False\<rparr>"

definition media_changed :: "conference_controls \<Rightarrow> control_result" where
  "media_changed c = (control_of c [])\<lparr>co_state_changed := True\<rparr>"

definition on_off_line :: "string \<Rightarrow> bool \<Rightarrow> console list" where
  "on_off_line what b = [Out (what @ '' -> '' @ (if b then ''ON'' else ''OFF''))]"

definition media_control :: "string \<Rightarrow> conference_controls \<Rightarrow> control_result option" where
  \<comment> \<open>the keys that change what is sent\<close>
  "media_control input c =
     (if input = ''m'' \<or> input = ''/mic'' then Some (media_changed (c\<lparr>cc_mic_enabled := \<not> cc_mic_enabled c\<rparr>))
      else if input = ''v'' \<or> input = ''/video''
      then (let c = c\<lparr>cc_camera_enabled := \<not> cc_camera_enabled c\<rparr> in
        Some (media_changed (if cc_camera_enabled c then c\<lparr>cc_share_enabled := False\<rparr> else c)))
      else if input = ''s'' \<or> input = ''/share''
      then (let c = c\<lparr>cc_share_enabled := \<not> cc_share_enabled c\<rparr> in
        Some (media_changed (if cc_share_enabled c then c\<lparr>cc_camera_enabled := False\<rparr> else c)))
      else if input = ''space'' \<or> input = ''p'' then Some (control_of (c\<lparr>cc_paused := \<not> cc_paused c\<rparr>) [])
      else if input = ''a''
      then (let c = c\<lparr>cc_adaptive_override := cycle_adaptive_override (cc_adaptive_override c)\<rparr> in
        Some (control_of c [Out (''adaptive override -> '' @ adaptive_override_label (cc_adaptive_override c))]))
      else if input \<in> {''0'', ''1'', ''2'', ''3'', ''4''}
      then (case adaptive_override_from_shortcut input of
              None \<Rightarrow> Some (control_of c [])
            | Some level \<Rightarrow> Some (control_of (c\<lparr>cc_adaptive_override := level\<rparr>)
                [Out (''adaptive override -> '' @ adaptive_override_label level)]))
      else None)"

definition effect_control :: "string \<Rightarrow> conference_controls \<Rightarrow> control_result option" where
  \<comment> \<open>the keys of the picture's effects\<close>
  "effect_control input c =
     (if input = ''g'' then Some (control_of (c\<lparr>cc_glitch := \<not> cc_glitch c\<rparr>) [])
      else if input = ''j''
      then Some (control_of (c\<lparr>cc_datamosh := \<not> cc_datamosh c\<rparr>) (on_off_line ''datamosh'' (\<not> cc_datamosh c)))
      else if input = ''n''
      then Some (control_of (c\<lparr>cc_noise_overlay := \<not> cc_noise_overlay c\<rparr>)
        (on_off_line ''noise overlay'' (\<not> cc_noise_overlay c)))
      else if input = ''e''
      then Some (control_of (c\<lparr>cc_edge_enhance := \<not> cc_edge_enhance c\<rparr>)
        (on_off_line ''edge enhance'' (\<not> cc_edge_enhance c)))
      else if input = ''r''
      then Some (control_of (c\<lparr>cc_rain_overlay := \<not> cc_rain_overlay c\<rparr>)
        (on_off_line ''rain overlay'' (\<not> cc_rain_overlay c)))
      else None)"

definition view_control :: "string \<Rightarrow> conference_controls \<Rightarrow> control_result option" where
  \<comment> \<open>the keys of the view\<close>
  "view_control input c =
     (if input = ''+'' then Some (control_of (c\<lparr>cc_density_idx := min (cc_density_idx c + 1) 4\<rparr>) [])
      else if input = ''-'' then Some (control_of (c\<lparr>cc_density_idx := cc_density_idx c - 1\<rparr>) [])
      else if input = ''c''
      then (let idx = cycle_dashboard_theme (cc_theme_idx c) in
        Some (control_of (c\<lparr>cc_theme_idx := idx\<rparr>) [Out (''theme -> '' @ dashboard_theme_label idx)]))
      else if input = ''t''
      then Some (control_of (c\<lparr>cc_auto_theme := \<not> cc_auto_theme c\<rparr>) (on_off_line ''auto theme'' (\<not> cc_auto_theme c)))
      else if input = ''d''
      then (let idx = cycle_density_idx (cc_density_idx c) in
        Some (control_of (c\<lparr>cc_density_idx := idx\<rparr>)
          [Out (''density -> '' @ dec idx @ '' ('' @ density_label idx @ '')'')]))
      else if input = ''b''
      then (let level = cycle_luma_boost_level (cc_luma_boost_level c) in
        Some (control_of (c\<lparr>cc_luma_boost_level := level\<rparr>) [Out (''luma boost -> '' @ luma_boost_label level)]))
      else if input = ''w''
      then Some (control_of (c\<lparr>cc_sort_worst_first := \<not> cc_sort_worst_first c\<rparr>)
        [Out (''feed sort -> '' @ sort_mode_label (\<not> cc_sort_worst_first c))])
      else if input = ''x'' then Some ((control_of c [Out ''telemetry counters reset''])\<lparr>co_reset := True\<rparr>)
      else if input = ''k'' then Some ((control_of c [])\<lparr>co_snapshot := True\<rparr>)
      else if input = ''left'' \<or> input = ''up'' then Some (control_of (c\<lparr>cc_focus_idx := cc_focus_idx c - 1\<rparr>) [])
      else if input = ''right'' \<or> input = ''down''
      then Some (control_of (c\<lparr>cc_focus_idx := min usize_max (cc_focus_idx c + 1)\<rparr>) [])
      else if input = ''tab'' then Some (control_of (c\<lparr>cc_advanced := \<not> cc_advanced c\<rparr>) [])
      else if input = ''h'' \<or> input = ''help'' \<or> input = ''/help''
      then Some (control_of (c\<lparr>cc_help_overlay := \<not> cc_help_overlay c\<rparr>)
        (on_off_line ''help overlay'' (\<not> cc_help_overlay c) @ [Out (''theme -> '' @ dashboard_theme_label (cc_theme_idx c))]))
      else None)"

definition conference_control :: "string \<Rightarrow> conference_controls \<Rightarrow> control_result" where
  \<comment> \<open>the \<open>match\<close> on the input, without \<open>/end\<close>\<close>
  "conference_control input c =
     (case or_else (media_control input c) (or_else (effect_control input c) (view_control input c)) of
        Some r \<Rightarrow> r
      | None \<Rightarrow> control_of c [Out (''unknown control '' @ [CHR 0x60] @ input @ [CHR 0x60])])"

definition state_frames :: "string \<Rightarrow> u64 \<Rightarrow> conference_controls \<Rightarrow> kaigi_frame list" where
  \<comment> \<open>what a transparent conference tells the room\<close>
  "state_frames local_id now c =
     [K_ParticipantState \<lparr>psf_updated_at_ms = now, psf_mic_enabled = Some (cc_mic_enabled c),
        psf_video_enabled = Some (cc_camera_enabled c), psf_screen_share_enabled = Some (cc_share_enabled c)\<rparr>,
      K_MediaTrackState \<lparr>mt_updated_at_ms = now, mt_participant_id = local_id, mt_mic_enabled = cc_mic_enabled c,
        mt_camera_enabled = cc_camera_enabled c, mt_screen_share_enabled = cc_share_enabled c,
        mt_active_video_track = (if cc_share_enabled c then Track_ScreenShare else Track_Camera)\<rparr>]"

record 'w conference_run =
  cr_state :: conference
  cr_files :: 'w
  cr_sent :: "kaigi_frame list"
  cr_lines :: "console list"
  cr_status :: room_status

definition conference_input ::
    "'w write_file \<Rightarrow> bool \<Rightarrow> string \<Rightarrow> u64 \<Rightarrow> string \<Rightarrow> 'w conference_run \<Rightarrow> 'w conference_run" where
  \<comment> \<open>one round of the input loop, on a key's word or a typed line in lower case\<close>
  "conference_input write_file anonymous_mode local_id now input r =
     (if cr_status r \<noteq> Running \<or> input = [] then r
      else if input = ''q'' \<or> input = ''/quit'' then r\<lparr>cr_status := Left_Room False\<rparr>
      else if input = ''/end'' then r\<lparr>cr_status := Left_Room True\<rparr>
      else
        let cf = cr_state r;
            res = conference_control input (cf_controls cf);
            cf = cf\<lparr>cf_controls := co_controls res\<rparr>;
            cf = (if co_reset res then cf\<lparr>cf_telemetry := conference_telemetry_default, cf_participants := []\<rparr> else cf);
            (lines, w) = (if co_snapshot res
              then (case capture_conference_snapshot write_file now now (cf_controls cf) (cf_frames cf)
                      (cf_participants cf) (cr_files r) of
                  (Inr (Some path), w) \<Rightarrow> ([Out (''snapshot saved -> '' @ path)], w)
                | (Inr None, w) \<Rightarrow> ([Out ''snapshot skipped (no active video feeds)''], w)
                | (Inl err, w) \<Rightarrow> ([Err (''snapshot failed: '' @ err)], w))
              else ([], cr_files r)) in
        r\<lparr>cr_state := cf, cr_files := w, cr_lines := cr_lines r @ co_lines res @ lines,
          cr_sent := cr_sent r @ (if co_state_changed res \<and> \<not> anonymous_mode
            then state_frames local_id now (cf_controls cf) else [])\<rparr>)"

definition conference_end ::
    "'w spawn \<Rightarrow> u64 \<Rightarrow> u64 \<Rightarrow> auto_kaigi_lifecycle option \<Rightarrow> u64 \<Rightarrow> bool \<Rightarrow> 'w \<Rightarrow> console list \<times> 'w" where
  \<comment> \<open>after the loop, whatever became of the writer and the reader, unless a task panicked\<close>
  "conference_end spawn now ended_at lc started end_requested w =
     finalize_auto_kaigi_lifecycle spawn now ended_at lc end_requested started w"

end
