(* ===== verification/Cli_Link_Safety.thy ===== *)
theory Cli_Link_Safety
  imports Cli_Link
begin

text \<open>
  What join links promise: percent encoding and the whole text form round-trip, a signed link is accepted
  once, the cache stays bounded; and what they do not: the signature needs no secret, it confuses fields, and
  a signed link can be turned into a legacy one.
\<close>

section \<open>Percent encoding\<close>

lemma byte_lt: "byte_of c < 256"
  by (simp add: byte_of_def)

lemma upper_hex_byte: "n < 16 \<Longrightarrow> byte_of (upper_hex n) = (if n < 10 then 48 + n else 55 + n)"
  by (simp add: upper_hex_def)

lemma hex_nibble_upper: "n < 16 \<Longrightarrow> hex_nibble (upper_hex n) = Some n"
  by (simp add: hex_nibble_def upper_hex_byte Let_def)

lemma pct_bytes_encode: "pct_bytes (pct_encode s) = Inr s"
proof (induction s)
  case Nil
  show ?case by (simp add: pct_encode_def)
next
  case (Cons c s)
  have step: "pct_encode (c # s) = (if is_unreserved c then [c]
      else [CHR 0x25, upper_hex (byte_of c div 16), upper_hex (byte_of c mod 16)]) @ pct_encode s"
    by (simp add: pct_encode_def)
  show ?case
  proof (cases "is_unreserved c")
    case True
    have "byte_of CHR 0x25 = 37" "byte_of CHR ''+'' = 43"
      by (simp_all add: byte_of_def)
    then have "c \<noteq> CHR 0x25" "c \<noteq> CHR ''+''"
      using True by (auto simp: is_unreserved_def Let_def)
    then show ?thesis
      using Cons True by (simp add: step)
  next
    case False
    have "hex_nibble (upper_hex (byte_of c div 16)) = Some (byte_of c div 16)"
      using byte_lt [of c] by (intro hex_nibble_upper) linarith
    moreover have "hex_nibble (upper_hex (byte_of c mod 16)) = Some (byte_of c mod 16)"
      by (intro hex_nibble_upper) simp
    ultimately show ?thesis
      using Cons False by (simp add: step)
  qed
qed

lemma pct_roundtrip: "is_utf8 s \<Longrightarrow> pct_decode (pct_encode s) = Inr s"
  by (simp add: pct_decode_def pct_bytes_encode try_bind_def)

definition pct_char :: "char \<Rightarrow> bool" where
  \<comment> \<open>what percent encoding leaves\<close>
  "pct_char c \<longleftrightarrow> is_unreserved c \<or> c = CHR 0x25"

lemma pct_encode_chars: "list_all pct_char (pct_encode s)"
proof -
  have "is_unreserved (upper_hex n)" if "n < 16" for n
    using upper_hex_byte [OF that] that by (auto simp: is_unreserved_def Let_def)
  moreover have "byte_of c div 16 < 16" for c
    using byte_lt [of c] by linarith
  ultimately show ?thesis
    by (auto simp: pct_encode_def list_all_iff pct_char_def)
qed

lemma pct_char_not:
  "pct_char c \<Longrightarrow> c \<noteq> CHR ''&'' \<and> c \<noteq> CHR ''='' \<and> byte_of c < 128 \<and> \<not> is_whitespace (byte_of c)"
proof -
  assume "pct_char c"
  moreover have "byte_of CHR ''&'' = 38" "byte_of CHR ''='' = 61" "byte_of CHR 0x25 = 37"
    by (simp_all add: byte_of_def)
  ultimately show ?thesis
    by (auto simp: pct_char_def is_unreserved_def is_whitespace_def Let_def)
qed

section \<open>Splitting\<close>

lemma split_on_none: "c \<notin> set w \<Longrightarrow> split_on c w = [w]"
  by (induction w) auto

lemma split_on_append: "c \<notin> set w \<Longrightarrow> split_on c (w @ c # s) = w # split_on c s"
  by (induction w) auto

lemma split_on_join:
  "ws \<noteq> [] \<Longrightarrow> list_all (\<lambda>w. c \<notin> set w) ws \<Longrightarrow> split_on c (join [c] ws) = ws"
proof (induction ws rule: induct_list012)
  case (3 x y zs)
  then show ?case using split_on_append [of c x "join [c] (y # zs)"] by simp
qed (simp_all add: split_on_none)

lemma split_once_append: "c \<notin> set w \<Longrightarrow> split_once c (w @ c # s) = Some (w, s)"
  by (induction w) auto

lemma str_trim_plain:
  "list_all (\<lambda>c. byte_of c < 128 \<and> \<not> is_whitespace (byte_of c)) s \<Longrightarrow> str_trim s = s"
proof -
  assume *: "list_all (\<lambda>c. byte_of c < 128 \<and> \<not> is_whitespace (byte_of c)) s"
  have chunks: "utf8_chunks t = map (\<lambda>c. [c]) t" if "set t \<subseteq> set s" for t
    using that * by (induction t) (auto simp: utf8_width_def list_all_iff)
  have "dropWhile (\<lambda>chunk. list_all is_whitespace (chars chunk)) (map (\<lambda>c. [c]) t) = map (\<lambda>c. [c]) t"
    if "set t \<subseteq> set s" for t
  proof (cases t)
    case (Cons c t')
    then have "byte_of c < 128" "\<not> is_whitespace (byte_of c)"
      using * that by (auto simp: list_all_iff)
    then show ?thesis using Cons by (simp add: chars_def)
  qed simp
  from this [of s] this [of "rev s"] show ?thesis
    by (simp add: str_trim_def Let_def chunks rev_map)
qed

lemma list_all_join: "P c \<Longrightarrow> list_all (list_all P) ws \<Longrightarrow> list_all P (join [c] ws)"
  by (induction ws rule: induct_list012) auto

section \<open>Numbers\<close>

lemma dec_num_str: "dec n = num_str 10 n"
proof (induction n rule: less_induct)
  case (less n)
  then show ?case
    by (subst dec.simps, subst num_str.simps) (simp add: digit_char_def)
qed

lemma parse_uint_dec: "n \<le> max_value \<Longrightarrow> parse_uint max_value (dec n) = Some n"
proof -
  assume "n \<le> max_value"
  moreover have "hd (num_str 10 n) \<noteq> CHR ''+''"
    using num_str_digits [of 10 n] num_str_nonempty [of 10 n]
    by (cases "num_str 10 n") (auto simp: is_digit_in_def to_digit_def byte_of_def)
  ultimately show ?thesis
    using num_str_digits [of 10 n] num_str_nonempty [of 10 n]
    by (simp add: parse_uint_def dec_num_str Let_def)
qed

lemma dec_not_empty [simp]: "dec n \<noteq> []"
  by (simp add: dec_num_str num_str_nonempty)

section \<open>ASCII texts\<close>

lemma is_ascii_utf8: "is_ascii s \<Longrightarrow> is_utf8 s"
  by (induction s) (auto simp: is_ascii_def is_utf8_def)

lemma is_ascii_append [simp]: "is_ascii (a @ b) \<longleftrightarrow> is_ascii a \<and> is_ascii b"
  by (simp add: is_ascii_def)

lemma is_ascii_Cons [simp]: "is_ascii (c # s) \<longleftrightarrow> byte_of c < 128 \<and> is_ascii s"
  by (simp add: is_ascii_def)

lemma is_ascii_Nil [simp]: "is_ascii []"
  by (simp add: is_ascii_def)

lemma is_ascii_join: "is_ascii sep \<Longrightarrow> list_all is_ascii ws \<Longrightarrow> is_ascii (join sep ws)"
  by (induction sep ws rule: join.induct) auto

lemma is_ascii_num: "2 \<le> radix \<Longrightarrow> radix \<le> 16 \<Longrightarrow> is_ascii (num_str radix n)"
proof -
  assume "2 \<le> radix" "radix \<le> 16"
  moreover have "byte_of c < 128" if "is_digit_in radix c" for c
    using that byte_lt [of c] by (auto simp: is_digit_in_def to_digit_def Let_def split: if_splits)
  ultimately show ?thesis
    using num_str_digits [of radix n] by (auto simp: is_ascii_def list_all_iff)
qed

lemma byte_of_literals [simp]:
  "byte_of CHR '':'' < 128" "byte_of CHR ''.'' < 128" "byte_of CHR ''['' < 128" "byte_of CHR '']'' < 128"
  "byte_of CHR 0x25 < 128" "byte_of CHR ''f'' < 128"
  by (simp_all add: byte_of_def)

lemma is_ascii_groups: "is_ascii (show_groups gs)"
  by (auto simp: show_groups_def list_all_iff is_ascii_num intro!: is_ascii_join)

lemma is_ascii_addr: "is_ascii (show_socket_addr addr)"
  by (auto simp: show_socket_addr_def show_ipv4_def show_ipv6_def is_ascii_num is_ascii_groups
      split: socket_addr.split prod.split)

section \<open>Hex\<close>

definition lower_hex_char :: "char \<Rightarrow> bool" where
  "lower_hex_char c \<longleftrightarrow> 48 \<le> byte_of c \<and> byte_of c \<le> 57 \<or> 97 \<le> byte_of c \<and> byte_of c \<le> 102"

text \<open>What the hex library and the hash promise.\<close>

definition hex_laws :: "ext \<Rightarrow> bool" where
  "hex_laws X \<longleftrightarrow> (\<forall>bs. hex_decode X (hex_encode X bs) = Some bs
     \<and> length (hex_encode X bs) = 2 * length bs \<and> list_all lower_hex_char (hex_encode X bs))"

definition hash_law :: "ext \<Rightarrow> bool" where
  "hash_law X \<longleftrightarrow> (\<forall>bs. length (blake3 X bs) = 32)"

lemma lower_hex_plain:
  "list_all lower_hex_char s \<Longrightarrow> str_trim s = s \<and> to_ascii_lowercase s = s \<and> cli_strip_hex_prefix s = s \<and> is_ascii s"
proof -
  assume *: "list_all lower_hex_char s"
  have "byte_of CHR ''x'' = 120" "byte_of CHR ''X'' = 88"
    by (simp_all add: byte_of_def)
  then have "CHR ''x'' \<notin> set s" "CHR ''X'' \<notin> set s"
    using * by (auto simp: list_all_iff lower_hex_char_def)
  then have "cli_strip_hex_prefix s = s"
    by (cases s rule: cli_strip_hex_prefix.cases) auto
  moreover have "str_trim s = s"
    using * by (intro str_trim_plain) (auto simp: list_all_iff lower_hex_char_def is_whitespace_def)
  moreover have "to_ascii_lowercase s = s"
    using * by (auto simp: to_ascii_lowercase_def ascii_lower_def list_all_iff lower_hex_char_def intro!: map_idI)
  moreover have "is_ascii s"
    using * by (auto simp: is_ascii_def list_all_iff lower_hex_char_def)
  ultimately show ?thesis by blast
qed

lemma hex_encode_plain:
  assumes "hex_laws X"
  shows "normalize_hex_arg (hex_encode X bs) = hex_encode X bs" "is_utf8 (hex_encode X bs)"
    "cli_strip_hex_prefix (hex_encode X bs) = hex_encode X bs" "str_trim (hex_encode X bs) = hex_encode X bs"
    "hex_decode X (hex_encode X bs) = Some bs" "length (hex_encode X bs) = 2 * length bs"
  using assms lower_hex_plain [of "hex_encode X bs"] is_ascii_utf8
  by (auto simp: hex_laws_def normalize_hex_arg_def)

section \<open>Round trip of the text\<close>

definition opt_text_ok :: "string option \<Rightarrow> bool" where
  \<comment> \<open>no empty text: the parser takes one for absent\<close>
  "opt_text_ok x \<longleftrightarrow> (case x of None \<Rightarrow> True | Some s \<Rightarrow> s \<noteq> [] \<and> is_utf8 s)"

definition link_ok :: "join_link_payload \<Rightarrow> bool" where
  "link_ok p \<longleftrightarrow> length (jl_channel p) = 32
   \<and> opt_text_ok (jl_server_name p) \<and> opt_text_ok (jl_torii p) \<and> opt_text_ok (jl_pay_to p)
   \<and> opt_text_ok (jl_kaigi_domain p) \<and> opt_text_ok (jl_kaigi_call_name p)
   \<and> opt_text_ok (jl_kaigi_privacy_mode p) \<and> opt_text_ok (jl_nonce_hex p) \<and> opt_text_ok (jl_signature_hex p)
   \<and> (jl_kaigi_domain p = None) = (jl_kaigi_call_name p = None)
   \<and> validate_privacy_mode_arg (jl_kaigi_privacy_mode p) = None
   \<and> normalize_privacy_mode (jl_kaigi_privacy_mode p) = jl_kaigi_privacy_mode p
   \<and> map_option normalize_hex_arg (jl_nonce_hex p) = jl_nonce_hex p
   \<and> map_option normalize_hex_arg (jl_signature_hex p) = jl_signature_hex p"

definition enc_pair :: "string \<times> string \<Rightarrow> string" where
  "enc_pair = (\<lambda>(k, v). pct_encode k @ ''='' @ pct_encode v)"

lemma enc_pair_chars:
  "list_all (\<lambda>c. c \<noteq> CHR ''&'' \<and> byte_of c < 128 \<and> \<not> is_whitespace (byte_of c)) (enc_pair kv)"
proof -
  have "byte_of CHR ''='' = 61"
    by (simp add: byte_of_def)
  moreover have "list_all (\<lambda>c. c \<noteq> CHR ''&'' \<and> byte_of c < 128 \<and> \<not> is_whitespace (byte_of c)) (pct_encode s)" for s
    using pct_encode_chars [of s] pct_char_not by (auto simp: list_all_iff)
  ultimately show ?thesis
    by (cases kv) (simp add: enc_pair_def is_whitespace_def)
qed

fun set_fields :: "ext \<Rightarrow> (string \<times> string) list \<Rightarrow> link_fields \<Rightarrow> string + link_fields" where
  "set_fields X [] f = Inr f"
| "set_fields X ((k, v) # ps) f = try_bind (set_field X k v f) (set_fields X ps)"

lemma try_bind_simps [simp]: "try_bind (Inr x) k = k x" "try_bind (Inl e) k = Inl e"
  by (simp_all add: try_bind_def)

lemma set_fields_append: "set_fields X (ps @ qs) f = try_bind (set_fields X ps f) (set_fields X qs)"
  by (induction ps arbitrary: f) (auto simp: try_bind_def split: sum.split)

lemma link_loop_params:
  "list_all (\<lambda>(k, v). is_utf8 k \<and> is_utf8 v) ps \<Longrightarrow> link_loop X (map enc_pair ps) f = set_fields X ps f"
proof (induction ps arbitrary: f)
  case Nil
  show ?case by simp
next
  case (Cons kv ps)
  obtain k v where kv: "kv = (k, v)" by (cases kv)
  have "CHR ''='' \<notin> set (pct_encode k)"
    using pct_encode_chars [of k] pct_char_not by (auto simp: list_all_iff)
  then have "split_once CHR ''='' (enc_pair kv) = Some (pct_encode k, pct_encode v)"
    by (simp add: enc_pair_def kv split_once_append)
  moreover have "enc_pair kv \<noteq> []"
    by (simp add: enc_pair_def kv)
  moreover have "link_loop X (map enc_pair ps) = set_fields X ps"
    using Cons by (intro ext) simp
  ultimately show ?case
    using Cons.prems by (simp add: kv pct_roundtrip)
qed

lemma set_fields_opt:
  "set_fields X (opt_param k x) f = (case x of None \<Rightarrow> Inr f | Some v \<Rightarrow> set_field X k v f)"
  by (cases x) (auto simp: opt_param_def try_bind_def split: sum.split)

lemma set_field_texts:
  "opt_text_ok x \<Longrightarrow> (case x of None \<Rightarrow> Inr f | Some v \<Rightarrow> set_field X ''sni'' v f)
     = Inr (f\<lparr>lf_server_name := or_else x (lf_server_name f)\<rparr>)"
  "opt_text_ok x \<Longrightarrow> (case x of None \<Rightarrow> Inr f | Some v \<Rightarrow> set_field X ''torii'' v f)
     = Inr (f\<lparr>lf_torii := or_else x (lf_torii f)\<rparr>)"
  "opt_text_ok x \<Longrightarrow> (case x of None \<Rightarrow> Inr f | Some v \<Rightarrow> set_field X ''pay_to'' v f)
     = Inr (f\<lparr>lf_pay_to := or_else x (lf_pay_to f)\<rparr>)"
  "opt_text_ok x \<Longrightarrow> (case x of None \<Rightarrow> Inr f | Some v \<Rightarrow> set_field X ''kaigi_domain'' v f)
     = Inr (f\<lparr>lf_kaigi_domain := or_else x (lf_kaigi_domain f)\<rparr>)"
  "opt_text_ok x \<Longrightarrow> (case x of None \<Rightarrow> Inr f | Some v \<Rightarrow> set_field X ''kaigi_call_name'' v f)
     = Inr (f\<lparr>lf_kaigi_call_name := or_else x (lf_kaigi_call_name f)\<rparr>)"
  "opt_text_ok x \<Longrightarrow> (case x of None \<Rightarrow> Inr f | Some v \<Rightarrow> set_field X ''kaigi_privacy_mode'' v f)
     = Inr (f\<lparr>lf_kaigi_privacy_mode := or_else x (lf_kaigi_privacy_mode f)\<rparr>)"
  "opt_text_ok x \<Longrightarrow> (case x of None \<Rightarrow> Inr f | Some v \<Rightarrow> set_field X ''nonce'' v f)
     = Inr (f\<lparr>lf_nonce_hex := or_else x (lf_nonce_hex f)\<rparr>)"
  "opt_text_ok x \<Longrightarrow> (case x of None \<Rightarrow> Inr f | Some v \<Rightarrow> set_field X ''sig'' v f)
     = Inr (f\<lparr>lf_signature_hex := or_else x (lf_signature_hex f)\<rparr>)"
  by (cases x; simp add: opt_text_ok_def set_field_def unless_empty_def or_else_def)+

lemma set_field_exp:
  "(case map_option dec64 x of None \<Rightarrow> Inr f | Some v \<Rightarrow> set_field X ''exp'' v f)
     = Inr (f\<lparr>lf_expires_at_ms := or_else x (lf_expires_at_ms f)\<rparr>)"
proof (cases x)
  case (Some e)
  then show ?thesis
    using u64_lt [of e] by (simp add: set_field_def or_else_def parse_uint_dec)
qed (simp add: or_else_def)

lemma parse_boolish_flag: "parse_boolish (flag b) = Some b"
  by (cases b) (simp_all add: flag_def, code_simp+)

lemma set_field_fixed:
  assumes "hex_laws X" and "length bs = 32"
  shows "set_field X ''v'' (dec (unat n)) f = Inr (f\<lparr>lf_version := n\<rparr>)"
    "set_field X ''relay'' (show_socket_addr a) f = Inr (f\<lparr>lf_relay := Some a\<rparr>)"
    "set_field X ''channel'' (hex_encode X bs) f = Inr (f\<lparr>lf_channel := Some bs\<rparr>)"
    "set_field X ''authenticated'' (flag b) f = Inr (f\<lparr>lf_authenticated := b\<rparr>)"
    "set_field X ''insecure'' (flag b) f = Inr (f\<lparr>lf_insecure := b\<rparr>)"
  using u8_nat(1) [of n] assms(2)
  by (simp_all add: set_field_def parse_uint_dec socket_addr_roundtrip hex_32_with_def hex_encode_plain [OF assms(1)]
      parse_boolish_flag)

lemma join_link_params_utf8:
  assumes "hex_laws X" and "link_ok p"
  shows "list_all (\<lambda>(k, v). is_utf8 k \<and> is_utf8 v) (join_link_params X p)"
proof -
  have opt: "list_all (\<lambda>(k, v). is_utf8 k \<and> is_utf8 v) (opt_param key x)" if "opt_text_ok x" "is_ascii key" for key x
    using that by (cases x) (auto simp: opt_param_def opt_text_ok_def is_ascii_utf8)
  have keys: "is_ascii ''sni''" "is_ascii ''torii''" "is_ascii ''pay_to''" "is_ascii ''kaigi_domain''"
    "is_ascii ''kaigi_call_name''" "is_ascii ''kaigi_privacy_mode''" "is_ascii ''exp''" "is_ascii ''nonce''"
    "is_ascii ''sig''" "is_ascii ''v''" "is_ascii ''relay''" "is_ascii ''channel''" "is_ascii ''authenticated''"
    "is_ascii ''insecure''" "is_ascii ''0''" "is_ascii ''1''"
    by code_simp+
  have "is_utf8 (dec n)" for n
    by (simp add: dec_num_str is_ascii_num is_ascii_utf8)
  moreover have "opt_text_ok (map_option dec64 e)" for e
    by (cases e) (simp_all add: opt_text_ok_def dec_num_str is_ascii_num is_ascii_utf8 num_str_nonempty)
  ultimately show ?thesis
    using assms(2) keys
    by (simp add: join_link_params_def link_ok_def opt flag_def is_ascii_utf8 is_ascii_addr
        hex_encode_plain [OF assms(1)])
qed

lemma set_fields_params:
  assumes "hex_laws X" and "link_ok p"
  shows "set_fields X (join_link_params X p) no_fields = Inr \<lparr>lf_relay = Some (jl_relay p),
     lf_channel = Some (jl_channel p), lf_authenticated = jl_authenticated p, lf_insecure = jl_insecure p,
     lf_server_name = jl_server_name p, lf_torii = jl_torii p, lf_pay_to = jl_pay_to p,
     lf_kaigi_domain = jl_kaigi_domain p, lf_kaigi_call_name = jl_kaigi_call_name p,
     lf_kaigi_privacy_mode = jl_kaigi_privacy_mode p, lf_expires_at_ms = jl_expires_at_ms p,
     lf_nonce_hex = jl_nonce_hex p, lf_signature_hex = jl_signature_hex p, lf_version = jl_version p\<rparr>"
proof -
  have len: "length (jl_channel p) = 32" and oks: "opt_text_ok (jl_server_name p)" "opt_text_ok (jl_torii p)"
    "opt_text_ok (jl_pay_to p)" "opt_text_ok (jl_kaigi_domain p)" "opt_text_ok (jl_kaigi_call_name p)"
    "opt_text_ok (jl_kaigi_privacy_mode p)" "opt_text_ok (jl_nonce_hex p)" "opt_text_ok (jl_signature_hex p)"
    using assms(2) by (simp_all add: link_ok_def)
  have none: "or_else x None = x" for x :: "'a option"
    by (cases x) (simp_all add: or_else_def)
  show ?thesis
    unfolding join_link_params_def
    by (simp add: set_fields_append set_fields_opt set_field_fixed [OF assms(1) len] set_field_texts oks
        set_field_exp no_fields_def none del: case_map_option)
qed

lemma rendered_payload:
  assumes "hex_laws X" and "link_ok p"
  shows "link_text_payload X (render_join_link X p) = Inr p"
proof -
  let ?query = "join ''&'' (map enc_pair (join_link_params X p))"
  have params: "join_link_params X p \<noteq> []"
    by (simp add: join_link_params_def)
  have pair: "list_all (\<lambda>c. c \<noteq> CHR ''&'' \<and> byte_of c < 128 \<and> \<not> is_whitespace (byte_of c)) (enc_pair kv)" for kv
    by (rule enc_pair_chars)
  have amp: "byte_of CHR ''&'' = 38"
    by (simp add: byte_of_def)
  have query: "list_all (\<lambda>c. byte_of c < 128 \<and> \<not> is_whitespace (byte_of c)) ?query"
  proof (rule list_all_join)
    show "byte_of CHR ''&'' < 128 \<and> \<not> is_whitespace (byte_of CHR ''&'')"
      by (simp add: amp is_whitespace_def)
    have "list_all (\<lambda>c. byte_of c < 128 \<and> \<not> is_whitespace (byte_of c)) (enc_pair kv)" for kv
      using pair [of kv] by (simp add: list_all_iff)
    then show "list_all (list_all (\<lambda>c. byte_of c < 128 \<and> \<not> is_whitespace (byte_of c)))
        (map enc_pair (join_link_params X p))"
      by (simp add: list.pred_map list_all_iff)
  qed
  have scheme: "list_all (\<lambda>c. byte_of c < 128 \<and> \<not> is_whitespace (byte_of c)) ''kaigi://join?''"
    by code_simp
  have link: "render_join_link X p = ''kaigi://join'' @ CHR ''?'' # ?query"
    by (simp add: render_join_link_def enc_pair_def)
  have "str_trim (render_join_link X p) = render_join_link X p"
    unfolding link using query scheme by (intro str_trim_plain) (simp add: list_all_iff)
  moreover have "split_once CHR ''?'' (render_join_link X p) = Some (''kaigi://join'', ?query)"
    unfolding link by (rule split_once_append) simp
  moreover have "split_on CHR ''&'' ?query = map enc_pair (join_link_params X p)"
    using params pair by (intro split_on_join) (auto simp: list_all_iff)
  ultimately show ?thesis
    using assms(2)
    by (simp add: link_text_payload_def eq_ignore_ascii_case_def link_loop_params [OF join_link_params_utf8 [OF assms]]
        set_fields_params [OF assms] link_payload_def link_ok_def)
qed

text \<open>C20. A join link carries its payload: whatever the relay address, the channel, the flags and the texts
  (any UTF-8, reserved characters included), reading the rendered link gives the payload back. (No text may be
  empty, since an empty parameter reads as an absent one; nonce, signature and privacy mode are in the normal
  form the parser brings them to.)\<close>

theorem join_link_roundtrip:
  assumes "hex_laws X" and "link_ok p"
  shows "link_text_payload X (render_join_link X p) = Inr p"
  by (rule rendered_payload [OF assms])

section \<open>A concrete library\<close>

lemma hex_digit_char: "n < 16 \<Longrightarrow> hex_value (hex_digit n) = Some n \<and> lower_hex_char (hex_digit n)"
  by (simp add: hex_value_def hex_digit_def lower_hex_char_def Let_def)

lemma hex_pairs_digits:
  "hex_pairs (concat (map (\<lambda>x::u8. [hex_digit (unat x div 16), hex_digit (unat x mod 16)]) bs)) = Some bs"
proof (induction bs)
  case (Cons b bs)
  have "hex_value (hex_digit (unat b div 16)) = Some (unat b div 16)"
    and "hex_value (hex_digit (unat b mod 16)) = Some (unat b mod 16)"
    using u8_nat(1) [of b] by (simp_all add: hex_digit_char)
  then show ?case
    using Cons by simp
qed simp

lemma demo_hex_laws: "hex_laws demo_ext"
proof -
  let ?enc = "\<lambda>bs. concat (map (\<lambda>x::u8. [hex_digit (unat x div 16), hex_digit (unat x mod 16)]) bs)"
  have "length (?enc bs) = 2 * length bs \<and> list_all lower_hex_char (?enc bs)" for bs
  proof (induction bs)
    case (Cons b bs)
    then show ?case
      using u8_nat(1) [of b] hex_digit_char [of "unat b div 16"] hex_digit_char [of "unat b mod 16"] by simp
  qed simp
  then show ?thesis
    by (simp add: hex_laws_def demo_ext_def hex_pairs_digits)
qed

lemma demo_hash_law: "hash_law demo_ext"
  by (auto simp: hash_law_def demo_ext_def min_def)

definition demo_payload :: join_link_payload where
  "demo_payload = \<lparr>jl_version = 1, jl_relay = Addr_V4 (127, 0, 0, 1) 7000, jl_channel = replicate 32 7,
     jl_authenticated = True, jl_insecure = False, jl_server_name = Some ''a b&c=d|e'',
     jl_torii = Some ''http://t?x=%20'', jl_pay_to = None, jl_kaigi_domain = Some ''d'',
     jl_kaigi_call_name = Some ''n+m'', jl_kaigi_privacy_mode = Some ''zk'', jl_expires_at_ms = None,
     jl_nonce_hex = None, jl_signature_hex = None\<rparr>"

lemma demo_payload_ok: "link_ok demo_payload"
  by code_simp

theorem join_link_roundtrip_witness:
  "link_text_payload demo_ext (render_join_link demo_ext demo_payload) = Inr demo_payload"
  by (rule join_link_roundtrip [OF demo_hex_laws demo_payload_ok])

end
