(* ===== verification/Cli_Anon_Safety.thy ===== *)
theory Cli_Anon_Safety
  imports Cli_Anon Cli_Link_Safety
begin

text \<open>
  What the anonymous mode promises: both envelopes open for whom they are meant, so a line typed by one member
  is printed by the other; and where the derivation of a key leaves two conversations the same key.
\<close>

section \<open>The libraries\<close>

text \<open>What the cryptographic libraries promise: a key agreement gives both sides the same secret, and a sealed
  message is opened with what it was sealed with.\<close>

definition crypto_laws :: "crypto \<Rightarrow> bool" where
  "crypto_laws C \<longleftrightarrow> (\<forall>a b. cr_dh C a (cr_public C b) = cr_dh C b (cr_public C a))
     \<and> (\<forall>k n a m c. cr_seal C k n a m = Some c \<longrightarrow> cr_open C k n a c = Some m)"

definition demo_crypto :: crypto where
  "demo_crypto = \<lparr>cr_public = (\<lambda>s. s), cr_dh = (\<lambda>a b. map2 (+) a b), cr_seal = (\<lambda>k n a m. Some (m @ replicate 16 0)),
     cr_open = (\<lambda>k n a c. Some (take (length c - 16) c))\<rparr>"

lemma demo_crypto_laws: "crypto_laws demo_crypto"
proof -
  have "map2 (+) a b = map2 (+) b a" for a b :: bytes
    by (auto simp: list_eq_iff_nth_eq)
  then show ?thesis
    by (auto simp: crypto_laws_def demo_crypto_def)
qed

section \<open>Envelopes\<close>

lemma hex_vec_encode: "hex_laws X \<Longrightarrow> hex_vec_with X (hex_encode X bs) = Inr bs"
  using hex_encode_plain [of X bs] by (simp add: hex_vec_with_def)

lemma pairwise_opens:
  assumes "hex_laws X" and "crypto_laws C" and "length nonce = 24"
    and "encrypt_for_recipient X C nonce s (cr_public C r) a b e kind msg = Inr payload"
  shows "decrypt_from_sender X C r (cr_public C s) a b e kind payload = Inr msg \<and> erp_recipient_handle payload = b"
proof -
  obtain c where seal: "cr_seal C (derive_pairwise_key X C s (cr_public C r) a b e kind) nonce
      (str_bytes ''kaigi-anon-control'') msg = Some c"
    and payload: "payload = \<lparr>erp_recipient_handle = b, erp_nonce_hex = hex_encode X nonce,
      erp_ciphertext_hex = hex_encode X c\<rparr>"
    using assms(4) by (auto simp: encrypt_for_recipient_def split: option.splits)
  have "cr_open C (derive_pairwise_key X C r (cr_public C s) a b e kind) nonce (str_bytes ''kaigi-anon-control'') c
    = Some msg"
    using seal assms(2) by (simp add: derive_pairwise_key_def crypto_laws_def)
  then show ?thesis
    using assms(3) by (simp add: payload decrypt_from_sender_def hex_vec_encode [OF assms(1)])
qed

text \<open>A group envelope opens: whoever holds the group key gets back the media packet that was put in, with any
  sender, epoch and kind.\<close>

theorem group_envelope_opens:
  assumes "hex_laws X" and "crypto_laws C" and "length nonce = 24"
    and "encrypt_anon_group_payload X C now nonce key sender epoch kind msg = Inr frame"
  shows "decrypt_anon_group_payload X C key (ae_sender_handle frame) frame = Inr msg"
  using assms(2-4)
  by (auto simp: encrypt_anon_group_payload_def decrypt_anon_group_payload_def hex_vec_encode [OF assms(1)]
      crypto_laws_def split: option.splits)

theorem group_envelope_opens_witness:
  "\<exists>frame. encrypt_anon_group_payload demo_ext demo_crypto 5 (replicate 24 1) [9] ''s'' 2 Anon_VideoSegment [1, 2] = Inr frame
     \<and> decrypt_anon_group_payload demo_ext demo_crypto [9] (ae_sender_handle frame) frame = Inr [1, 2]"
proof -
  obtain frame where frame:
    "encrypt_anon_group_payload demo_ext demo_crypto 5 (replicate 24 1) [9] ''s'' 2 Anon_VideoSegment [1, 2] = Inr frame"
    by (simp add: encrypt_anon_group_payload_def demo_crypto_def)
  then show ?thesis
    using group_envelope_opens [OF demo_hex_laws demo_crypto_laws _ frame] by simp
qed

text \<open>The pairwise key does not separate the two names it is derived from: moving characters from the end of
  the sender's handle to the front of the recipient's gives the same key.\<close>

theorem pairwise_key_confuses_handles:
  "derive_pairwise_key X C s p (a @ b) c epoch kind = derive_pairwise_key X C s p a (b @ c) epoch kind"
  by (simp add: derive_pairwise_key_def str_bytes_def)

section \<open>Text\<close>

lemma utf8_step_valid:
  "utf8_valid (a # as) \<Longrightarrow> fst (utf8_step (a # as)) \<and> 0 < snd (utf8_step (a # as))
     \<and> utf8_valid (drop (snd (utf8_step (a # as))) (a # as))"
proof -
  assume valid: "utf8_valid (a # as)"
  consider "a < 128" | "194 \<le> a \<and> a \<le> 223" | "224 \<le> a \<and> a \<le> 239" | "240 \<le> a \<and> a \<le> 244"
    using valid by (auto split: if_splits)
  then show ?thesis
  proof cases
    case 2
    then obtain b bs where "as = b # bs" using valid by (cases as) auto
    with 2 valid show ?thesis by (simp add: Let_def cont_byte_def)
  next
    case 3
    then obtain b c cs where "as = b # c # cs" using valid by (auto split: list.splits)
    with 3 valid show ?thesis by (simp add: Let_def cont_byte_def)
  next
    case 4
    then obtain b c d ds where "as = b # c # d # ds" using valid by (auto split: list.splits)
    with 4 valid show ?thesis by (simp add: Let_def cont_byte_def)
  qed (use valid in simp)
qed

lemma utf8_lossy_valid: "utf8_valid as \<Longrightarrow> utf8_lossy as = as"
proof (induction as rule: utf8_lossy.induct)
  case (2 a as)
  obtain n where step: "utf8_step (a # as) = (True, n)" "0 < n" "utf8_valid (drop n (a # as))"
    using utf8_step_valid [OF 2(2)] by (metis prod.collapse)
  then have "max 1 n = n" by simp
  then have "utf8_lossy (drop n (a # as)) = drop n (a # as)"
    using 2(1) step by simp
  then show ?case
    using step \<open>max 1 n = n\<close> by (simp del: drop_Cons take_Cons append_take_drop_id)
      (metis append_take_drop_id)
qed simp

lemma unat_of_char: "unat (of_char c :: u8) = byte_of c"
proof -
  have "(of_char c :: u8) = of_nat (of_char c)"
    by (simp only: of_nat_of_char)
  then have "unat (of_char c :: u8) = of_char c mod 256"
    by (simp only: unat_of_nat) simp
  then show ?thesis
    by (simp only: mod_less nat_of_char_less_256 byte_of_def)
qed

lemma lossy_str: "is_utf8 s \<Longrightarrow> lossy_text (str_bytes s) = s"
  by (simp add: lossy_text_def str_bytes_def is_utf8_def comp_def unat_of_char utf8_lossy_valid)

lemma strip_prefix_append [simp]: "strip_prefix (p @ s) p = Some s"
  by (simp add: strip_prefix_def starts_with_def)

lemma is_utf8_ascii_append: "is_ascii a \<Longrightarrow> is_utf8 s \<Longrightarrow> is_utf8 (a @ s)"
  by (induction a) (auto simp: is_utf8_def)

section \<open>From member to member\<close>

definition keys_current :: "crypto \<Rightarrow> anon_room \<Rightarrow> bool" where
  "keys_current C room \<longleftrightarrow> an_public room = cr_public C (an_secret room)"

lemma keys_current_new: "keys_current C (anon_room_new C handle secret)"
  by (simp add: keys_current_def anon_room_new_def)

lemma keys_current_receive: "keys_current C room \<Longrightarrow> keys_current C (snd (anon_receive X C debug frame room))"
  by (auto simp: keys_current_def anon_receive_def Let_def split: kaigi_frame.split sum.split)

lemma keys_current_line: "keys_current C room \<Longrightarrow> keys_current C (snd (anon_line X C secret nonces escrow now line room))"
  by (auto simp: keys_current_def anon_line_def anon_rekey_def Let_def split: sum.split option.split)

lemma seal_for_all_find:
  assumes "seal_for_all X C nonces room kind body peers = Inr payloads" and "distinct (map fst peers)"
    and "map_of peers h = Some pk"
  shows "\<exists>payload. find (\<lambda>p. erp_recipient_handle p = h) payloads = Some payload
    \<and> encrypt_for_recipient X C (nonces h) (an_secret room) pk (an_handle room) h (an_epoch room) kind body = Inr payload"
  using assms
proof (induction peers arbitrary: payloads)
  case (Cons peer peers)
  obtain r k where peer: "peer = (r, k)" by (cases peer)
  obtain p ps where payloads: "payloads = p # ps"
    and p: "encrypt_for_recipient X C (nonces r) (an_secret room) k (an_handle room) r (an_epoch room) kind body = Inr p"
    and ps: "seal_for_all X C nonces room kind body peers = Inr ps"
    using Cons.prems(1) by (auto simp: peer try_bind_def split: sum.splits)
  have "erp_recipient_handle p = r"
    using p by (auto simp: encrypt_for_recipient_def split: option.splits)
  then show ?case
    using Cons.IH [OF ps] Cons.prems(2,3) p by (auto simp: payloads peer)
qed simp

text \<open>C18. A line reaches the other member: if both know each other's current key and the sender's map of peers
  has each handle once, then what one types, any text, is printed by the other with the sender's handle, and
  \<open>/end\<close> is printed as the command; nothing else changes at the receiver.\<close>

theorem line_reaches_member:
  assumes "hex_laws X" and "crypto_laws C" and "\<And>h. length (nonces h) = 24"
    and "keys_current C S" and "keys_current C R" and "hm_ok (an_peers S)"
    and "hm_get (an_peers S) (an_handle R) = Some (an_public R)"
    and "hm_get (an_peers R) (an_handle S) = Some (an_public S)"
    and "is_utf8 input" and "anon_say X C nonces now input S = Inr (Some frame)"
  shows "anon_receive X C debug frame R =
    ([Out (if input = ''/end'' then ''anon_command from='' @ an_handle S @ '' cmd=end''
           else ''[anon '' @ an_handle S @ ''] '' @ input)], R)"
proof -
  let ?kind = "if input = ''/end'' then Ctl_Command else Ctl_Chat"
  let ?body = "if input = ''/end'' then ''cmd:end'' else ''chat:'' @ input"
  obtain payloads where sealed: "seal_for_all X C nonces S ?kind (str_bytes ?body) (an_peers S) = Inr payloads"
    and frame: "frame = K_EncryptedControl \<lparr>ec_sent_at_ms = now, ec_sender_handle = an_handle S,
      ec_epoch = an_epoch S, ec_kind = ?kind, ec_payloads = payloads\<rparr>"
    using assms(10) by (auto simp: anon_say_def Let_def try_bind_def split: if_splits sum.splits)
  obtain payload where find: "find (\<lambda>p. erp_recipient_handle p = an_handle R) payloads = Some payload"
    and enc: "encrypt_for_recipient X C (nonces (an_handle R)) (an_secret S) (cr_public C (an_secret R)) (an_handle S)
      (an_handle R) (an_epoch S) ?kind (str_bytes ?body) = Inr payload"
    using seal_for_all_find [OF sealed, of "an_handle R" "an_public R"] assms(5,6,7)
    by (auto simp: hm_ok_def hm_keys_def hm_get_def keys_current_def)
  have "decrypt_from_sender X C (an_secret R) (an_public S) (an_handle S) (an_handle R) (an_epoch S) ?kind payload
    = Inr (str_bytes ?body)"
    using pairwise_opens [OF assms(1,2,3) enc] assms(4) by (simp add: keys_current_def)
  moreover have "is_utf8 ?body"
  proof -
    have "is_ascii ''chat:''" "is_utf8 ''cmd:end''" by code_simp+
    then show ?thesis using is_utf8_ascii_append [of "''chat:''", OF _ assms(9)] by simp
  qed
  moreover have "strip_prefix ''cmd:end'' ''chat:'' = None" "strip_prefix ''cmd:end'' ''cmd:'' = Some ''end''"
    by code_simp+
  ultimately show ?thesis
    using assms(8) find strip_prefix_append [of "''chat:''" input]
    by (auto simp: anon_receive_def receive_control_def frame control_line_def Let_def lossy_str
        simp del: strip_prefix_append)
qed

definition demo_anon_room :: "string \<Rightarrow> bytes \<Rightarrow> anon_room" where
  "demo_anon_room h secret = (anon_room_new demo_crypto h secret)\<lparr>an_peers := [(''a'', [1, 2]), (''b'', [3, 4])]\<rparr>"

theorem line_reaches_member_witness:
  "\<exists>frame. anon_say demo_ext demo_crypto (\<lambda>h. replicate 24 7) 5 ''hi'' (demo_anon_room ''a'' [1, 2]) = Inr (Some frame)
     \<and> anon_receive demo_ext demo_crypto (\<lambda>f. []) frame (demo_anon_room ''b'' [3, 4])
       = ([Out ''[anon a] hi''], demo_anon_room ''b'' [3, 4])"
proof -
  obtain frame where frame:
    "anon_say demo_ext demo_crypto (\<lambda>h. replicate 24 7) 5 ''hi'' (demo_anon_room ''a'' [1, 2]) = Inr (Some frame)"
    by (simp add: anon_say_def demo_anon_room_def encrypt_for_recipient_def demo_crypto_def try_bind_def Let_def)
  have "is_utf8 ''hi''"
    by code_simp
  then have "anon_receive demo_ext demo_crypto (\<lambda>f. []) frame (demo_anon_room ''b'' [3, 4])
    = ([Out (if ''hi'' = ''/end'' then ''anon_command from='' @ an_handle (demo_anon_room ''a'' [1, 2]) @ '' cmd=end''
        else ''[anon '' @ an_handle (demo_anon_room ''a'' [1, 2]) @ ''] '' @ ''hi'')], demo_anon_room ''b'' [3, 4])"
    by (intro line_reaches_member [OF demo_hex_laws demo_crypto_laws _ _ _ _ _ _ _ frame])
      (simp_all add: demo_anon_room_def anon_room_new_def keys_current_def demo_crypto_def hm_ok_def hm_keys_def hm_get_def)
  then show ?thesis
    using frame by (simp add: demo_anon_room_def anon_room_new_def)
qed

text \<open>A key update from outside can displace a member's own key in its own map: after an update that names the
  member itself, the key it holds for itself is the one in the update.\<close>

theorem own_key_displaced:
  fixes room :: anon_room
  assumes "parse_x25519_pubkey_hex X k = Inr pk" and "k \<noteq> []"
  shows "hm_get (an_peers (snd (anon_receive X C debug (K_GroupKeyUpdate \<lparr>gk_sent_at_ms = t,
    gk_participant_handle = an_handle room, gk_x25519_pubkey_hex = k, gk_epoch = e\<rparr>) room))) (an_handle room) = Some pk"
  using assms by (simp add: anon_receive_def hm_get_def hm_insert_def update_conv')

theorem own_key_displaced_witness:
  "hm_get (an_peers (snd (anon_receive demo_ext demo_crypto (\<lambda>f. []) (K_GroupKeyUpdate \<lparr>gk_sent_at_ms = 0,
    gk_participant_handle = an_handle (demo_anon_room ''a'' [1, 2]), gk_x25519_pubkey_hex = replicate 64 (CHR ''7''),
    gk_epoch = 1\<rparr>) (demo_anon_room ''a'' [1, 2])))) (an_handle (demo_anon_room ''a'' [1, 2])) = Some (replicate 32 119)"
proof (rule own_key_displaced)
  show "parse_x25519_pubkey_hex demo_ext (replicate 64 (CHR ''7'')) = Inr (replicate 32 119)"
    by code_simp
qed simp

end
