(* ===== verification/Cli_Room.thy ===== *)
theory Cli_Room
  imports Cli_Anon
begin

text \<open>
  The transparent room of the command line client with its line interface (\<open>room_chat\<close> with
  \<^verbatim>\<open>--legacy-ui\<close> in \<^verbatim>\<open>crates/kaigi-cli/src/main.rs\<close>): the signed frames it builds, the commands, what incoming
  frames change, the payment loop, and the session as a run over lines, frames, rounds of the
  payment loop and the failure of the writer, with its end. Lines of output are modelled
  where they depend on the state, not the dumps of frames.
\<close>

section \<open>Signed frames\<close>

record local_session_policy_state =
  lp_room_lock :: bool
  lp_waiting_room_enabled :: bool
  lp_guest_join_allowed :: bool
  lp_local_recording_allowed :: bool
  lp_e2ee_required :: bool
  lp_max_participants :: u32
  lp_policy_epoch :: u64

definition DEFAULT_POLICY_MAX_PARTICIPANTS :: u32 where
  "DEFAULT_POLICY_MAX_PARTICIPANTS = 500"

definition local_session_policy_default :: local_session_policy_state where
  "local_session_policy_default = \<lparr>lp_room_lock = False, lp_waiting_room_enabled = False, lp_guest_join_allowed = True,
     lp_local_recording_allowed = True, lp_e2ee_required = True, lp_max_participants = DEFAULT_POLICY_MAX_PARTICIPANTS,
     lp_policy_epoch = 0\<rparr>"

definition session_policy_signature_hex :: "ext \<Rightarrow> string \<Rightarrow> local_session_policy_state \<Rightarrow> u64 \<Rightarrow> string" where
  "session_policy_signature_hex X updated_by state updated_at_ms =
     cli_deterministic_signature_hex X ''session_policy'' (join ''|''
       [updated_by, dec_bool (lp_room_lock state), dec_bool (lp_waiting_room_enabled state),
        dec_bool (lp_guest_join_allowed state), dec_bool (lp_local_recording_allowed state),
        dec_bool (lp_e2ee_required state), dec (unat (lp_max_participants state)), dec64 (lp_policy_epoch state),
        dec64 updated_at_ms])"

definition cli_moderation_action_token :: "moderation_action \<Rightarrow> string" where
  "cli_moderation_action_token action = (case action of
     Action_DisableMic \<Rightarrow> ''disable_mic''
   | Action_DisableVideo \<Rightarrow> ''disable_video''
   | Action_DisableScreenShare \<Rightarrow> ''disable_screen_share''
   | Action_Kick \<Rightarrow> ''kick''
   | Action_AdmitFromWaiting \<Rightarrow> ''admit_from_waiting''
   | Action_DenyFromWaiting \<Rightarrow> ''deny_from_waiting'')"

definition cli_moderation_target_token :: "moderation_target \<Rightarrow> string" where
  "cli_moderation_target_token target = (case target of
     Target_All \<Rightarrow> ''all''
   | Target_Participant participant_id \<Rightarrow> ''participant:'' @ participant_id)"

definition signed_moderation_frame :: "ext \<Rightarrow> string \<Rightarrow> u64 \<Rightarrow> moderation_target \<Rightarrow> moderation_action \<Rightarrow> kaigi_frame" where
  "signed_moderation_frame X issued_by sent_at_ms target action = K_ModerationSigned \<lparr>ms_sent_at_ms = sent_at_ms,
     ms_target = target, ms_action = action, ms_issued_by = issued_by,
     ms_signature_hex = cli_deterministic_signature_hex X ''moderation'' (join ''|''
       [issued_by, cli_moderation_target_token target, cli_moderation_action_token action, dec64 sent_at_ms])\<rparr>"

section \<open>The session\<close>

datatype host_state = Host_Unknown | Host_Self | Host_Other
  \<comment> \<open>\<open>HOST_STATE_UNKNOWN\<close>, \<open>HOST_STATE_SELF\<close>, \<open>HOST_STATE_OTHER\<close>\<close>

definition classify_host_state :: "string option \<Rightarrow> string \<Rightarrow> host_state" where
  "classify_host_state host_participant_id local_participant_id = (case host_participant_id of
     Some host_id \<Rightarrow> if host_id = local_participant_id then Host_Self else Host_Other
   | None \<Rightarrow> Host_Unknown)"

definition host_state_label :: "host_state \<Rightarrow> string" where
  "host_state_label state =
     (case state of Host_Self \<Rightarrow> ''host'' | Host_Other \<Rightarrow> ''participant'' | Host_Unknown \<Rightarrow> ''unknown'')"

definition end_command_gate_message :: "host_state \<Rightarrow> string option" where
  "end_command_gate_message state = (case state of
     Host_Self \<Rightarrow> None
   | Host_Other \<Rightarrow> Some ''error: /end is host-only''
   | Host_Unknown \<Rightarrow> Some ''error: host role unknown; wait for room_config before /end'')"

record pay_ledger_cli =
  pl_iroha_bin :: string
  pl_iroha_config :: string
  pl_from :: "string option"
  pl_to :: string
  pl_asset_def :: string

record room_context =
  \<comment> \<open>what does not change while the room is open\<close>
  rx_participant_id :: string
  rx_display_name :: "string option"
  rx_hdr_capture :: bool
  rx_hdr_display :: bool
  rx_pay_ledger :: "pay_ledger_cli option"
  rx_pay_auto :: bool
  rx_fixed_rate :: bool

record room_local =
  \<comment> \<open>the variables the reader, the input loop and the payment loop share\<close>
  rl_policy :: local_session_policy_state
  rl_host_state :: host_state
  rl_rate_per_minute_nano :: u64
  rl_media_profile_epoch :: u64
  rl_e2ee_epoch :: u64

definition room_local_new :: "u64 \<Rightarrow> room_local" where
  "room_local_new rate = \<lparr>rl_policy = local_session_policy_default, rl_host_state = Host_Unknown,
     rl_rate_per_minute_nano = rate, rl_media_profile_epoch = 0, rl_e2ee_epoch = 0\<rparr>"

definition pay_loop_enabled :: "room_chat_args \<Rightarrow> bool" where
  "pay_loop_enabled args = (ra_pay_rate_per_minute_nano args > 0 \<or> is_pay_auto_enabled args)"

definition payment_settings :: "room_chat_args \<Rightarrow> string + pay_ledger_cli option" where
  \<comment> \<open>the checks of the payment flags and the ledger settings\<close>
  "payment_settings args =
     (if is_pay_auto_enabled args \<and> ra_pay_rate_per_minute_nano args > 0
      then Inl (''automatic pay-rate tracking requires --pay-rate-per-minute-nano to be 0; '' @
        ''use --no-pay-auto for fixed-rate mode'')
      else case (ra_pay_iroha_config args, ra_pay_to args) of
        (None, None) \<Rightarrow>
          if pay_loop_enabled args \<and> \<not> ra_allow_unsettled_payments args
          then Inl (''ledger-backed XOR payments are required: set --pay-iroha-config and --pay-to, or pass '' @
            ''--allow-unsettled-payments for dev-only frame signalling'')
          else Inr None
      | (Some config, Some to) \<Rightarrow>
          if \<not> pay_loop_enabled args
          then Inl ''--pay-rate-per-minute-nano or --pay-auto is required when using ledger payments''
          else Inr (Some \<lparr>pl_iroha_bin = unwrap_or (ra_pay_iroha_bin args) default_iroha_bin, pl_iroha_config = config,
            pl_from = ra_pay_from args, pl_to = to, pl_asset_def = ra_pay_asset_def args\<rparr>)
      | _ \<Rightarrow> Inl ''--pay-iroha-config and --pay-to must be set together'')"

type_synonym 'w transfer = "pay_ledger_cli \<Rightarrow> u64 \<Rightarrow> 'w \<Rightarrow> (string + string) \<times> 'w"

definition ledger_transfer :: "json_ext \<Rightarrow> (string \<Rightarrow> string option) \<Rightarrow> 'w spawn \<Rightarrow> 'w transfer" where
  \<comment> \<open>the call of \<open>transfer_xor_nano_via_cli\<close> with the settings\<close>
  "ledger_transfer J read_file spawn cfg amount w =
     transfer_xor_nano_via_cli J read_file spawn (pl_iroha_bin cfg) (pl_iroha_config cfg) (pl_from cfg) (pl_to cfg)
       amount (pl_asset_def cfg) w"

section \<open>Commands\<close>

type_synonym command_result = "(string + kaigi_frame \<times> room_local) option"
  \<comment> \<open>no match; or the error with which the function returns; or the frame to send\<close>

definition argument_of :: "string \<Rightarrow> string \<Rightarrow> string" where
  \<comment> \<open>\<open>cmd.strip_prefix(p).unwrap_or("").trim()\<close>\<close>
  "argument_of cmd p = str_trim (unwrap_or (strip_prefix cmd p) [])"

definition send_now :: "room_local \<Rightarrow> kaigi_frame \<Rightarrow> command_result" where
  "send_now st frame = Some (Inr (frame, st))"

definition media_command :: "u64 \<Rightarrow> string \<Rightarrow> room_local \<Rightarrow> command_result" where
  \<comment> \<open>\<open>/mic\<close> to \<open>/maxshare\<close>\<close>
  "media_command at_ms cmd st =
     (let state = (\<lambda>mic video share. K_ParticipantState \<lparr>psf_updated_at_ms = at_ms, psf_mic_enabled = mic,
            psf_video_enabled = video, psf_screen_share_enabled = share\<rparr>);
          config = (\<lambda>rate shares. K_RoomConfigUpdate \<lparr>rcu_updated_at_ms = at_ms, rcu_rate_per_minute_nano = rate,
            rcu_max_screen_shares = shares\<rparr>);
          result = (\<lambda>r. Some (map_sum id (\<lambda>frame. (frame, st)) r)) in
      if starts_with cmd ''/mic ''
      then result (map_sum id (\<lambda>b. state (Some b) None None) (parse_on_off (argument_of cmd ''/mic '')))
      else if starts_with cmd ''/video '' \<or> starts_with cmd ''/cam ''
      then result (map_sum id (\<lambda>b. state None (Some b) None)
        (parse_on_off (argument_of cmd (if starts_with cmd ''/video '' then ''/video '' else ''/cam ''))))
      else if starts_with cmd ''/share ''
      then result (map_sum id (\<lambda>b. state None None (Some b)) (parse_on_off (argument_of cmd ''/share '')))
      else if starts_with cmd ''/rate ''
      then (case parse_uint (2 ^ 64 - 1) (argument_of cmd ''/rate '') of
              None \<Rightarrow> Some (Inl ''expected /rate <u64 nano-xor-per-minute>'')
            | Some n \<Rightarrow> send_now st (config (Some (of_nat n)) None))
      else if starts_with cmd ''/maxshare ''
      then (case parse_uint 255 (argument_of cmd ''/maxshare '') of
              None \<Rightarrow> Some (Inl ''expected /maxshare <u8>'')
            | Some n \<Rightarrow> send_now st (config None (Some (of_nat n))))
      else None)"

definition target_command ::
    "string \<Rightarrow> string \<Rightarrow> (string \<Rightarrow> kaigi_frame) \<Rightarrow> room_local \<Rightarrow> command_result" where
  \<comment> \<open>\<open>/name <participant_id>\<close>\<close>
  "target_command cmd name frame st =
     (if starts_with cmd (name @ '' '')
      then (let target = argument_of cmd (name @ '' '') in
        if target = [] then Some (Inl (''expected '' @ name @ '' <participant_id>''))
        else send_now st (frame target))
      else None)"

definition moderation_command :: "ext \<Rightarrow> string \<Rightarrow> u64 \<Rightarrow> string \<Rightarrow> room_local \<Rightarrow> command_result" where
  \<comment> \<open>\<open>/muteall\<close> to \<open>/deny\<close>\<close>
  "moderation_command X pid at_ms cmd st =
     (let one = (\<lambda>name action. target_command cmd name
            (\<lambda>target. signed_moderation_frame X pid at_ms (Target_Participant target) action) st) in
      if cmd = ''/muteall'' then send_now st (signed_moderation_frame X pid at_ms Target_All Action_DisableMic)
      else or_else (one ''/mute'' Action_DisableMic) (or_else (one ''/videooff'' Action_DisableVideo)
        (or_else (one ''/shareoff'' Action_DisableScreenShare) (or_else (one ''/kick'' Action_Kick)
        (or_else (one ''/admit'' Action_AdmitFromWaiting) (one ''/deny'' Action_DenyFromWaiting))))))"

definition role_command :: "ext \<Rightarrow> string \<Rightarrow> u64 \<Rightarrow> string \<Rightarrow> room_local \<Rightarrow> command_result" where
  \<comment> \<open>\<open>/cohost\<close>, \<open>/host\<close>, \<open>/uncohost\<close>\<close>
  "role_command X pid at_ms cmd st =
     (let signature = (\<lambda>tag target role. cli_deterministic_signature_hex X tag
            (join ''|'' [pid, target, role, dec64 at_ms]));
          grant = (\<lambda>name role token. target_command cmd name (\<lambda>target. K_RoleGrant \<lparr>rg_issued_at_ms = at_ms,
            rg_target_participant_id = target, rg_role = role, rg_granted_by = pid,
            rg_signature_hex = signature ''role_grant'' target token\<rparr>) st) in
      or_else (grant ''/cohost'' Role_CoHost ''cohost'') (or_else (grant ''/host'' Role_Host ''host'')
        (target_command cmd ''/uncohost'' (\<lambda>target. K_RoleRevoke \<lparr>rr_issued_at_ms = at_ms,
          rr_target_participant_id = target, rr_role = Role_CoHost, rr_revoked_by = pid,
          rr_signature_hex = signature ''role_revoke'' target ''cohost''\<rparr>) st)))"

definition policy_frame :: "ext \<Rightarrow> string \<Rightarrow> u64 \<Rightarrow> local_session_policy_state \<Rightarrow> kaigi_frame" where
  "policy_frame X pid at_ms state = K_SessionPolicy \<lparr>sp_updated_at_ms = at_ms, sp_room_lock = lp_room_lock state,
     sp_waiting_room_enabled = lp_waiting_room_enabled state, sp_guest_join_allowed = lp_guest_join_allowed state,
     sp_local_recording_allowed = lp_local_recording_allowed state, sp_e2ee_required = lp_e2ee_required state,
     sp_max_participants = lp_max_participants state, sp_policy_epoch = lp_policy_epoch state, sp_updated_by = pid,
     sp_signature_hex = session_policy_signature_hex X pid state at_ms\<rparr>"

definition send_policy ::
    "ext \<Rightarrow> string \<Rightarrow> u64 \<Rightarrow> (local_session_policy_state \<Rightarrow> local_session_policy_state) \<Rightarrow> room_local
      \<Rightarrow> kaigi_frame \<times> room_local" where
  \<comment> \<open>the block under the lock of \<open>policy_state\<close>\<close>
  "send_policy X pid at_ms change st =
     (let state = change (rl_policy st);
          state = state\<lparr>lp_policy_epoch := sat_add (lp_policy_epoch state) 1\<rparr> in
      (policy_frame X pid at_ms state, st\<lparr>rl_policy := state\<rparr>))"

definition policy_switch ::
    "ext \<Rightarrow> string \<Rightarrow> u64 \<Rightarrow> string \<Rightarrow> string \<Rightarrow> (bool \<Rightarrow> local_session_policy_state \<Rightarrow> local_session_policy_state)
      \<Rightarrow> room_local \<Rightarrow> command_result" where
  "policy_switch X pid at_ms cmd name change st =
     (if starts_with cmd (name @ '' '')
      then Some (map_sum id (\<lambda>enabled. send_policy X pid at_ms (change enabled) st)
        (parse_on_off (argument_of cmd (name @ '' ''))))
      else None)"

definition policy_command :: "ext \<Rightarrow> string \<Rightarrow> u64 \<Rightarrow> string \<Rightarrow> room_local \<Rightarrow> command_result" where
  \<comment> \<open>\<open>/lock\<close> to \<open>/maxparticipants\<close>\<close>
  "policy_command X pid at_ms cmd st =
     (let switch = (\<lambda>name change. policy_switch X pid at_ms cmd name change st) in
      or_else (switch ''/lock'' (\<lambda>b. lp_room_lock_update (\<lambda>_. b)))
      (or_else (switch ''/waiting'' (\<lambda>b. lp_waiting_room_enabled_update (\<lambda>_. b)))
      (or_else (switch ''/guests'' (\<lambda>b. lp_guest_join_allowed_update (\<lambda>_. b)))
      (or_else (switch ''/recordlocal'' (\<lambda>b. lp_local_recording_allowed_update (\<lambda>_. b)))
      (or_else (switch ''/e2eerequired'' (\<lambda>b. lp_e2ee_required_update (\<lambda>_. b)))
      (if starts_with cmd ''/maxparticipants ''
       then (case parse_uint (2 ^ 32 - 1) (argument_of cmd ''/maxparticipants '') of
               None \<Rightarrow> Some (Inl ''expected /maxparticipants <u32>'')
             | Some n \<Rightarrow>
                 if n = 0 then Some (Inl ''expected /maxparticipants >= 1'')
                 else Some (Inr (send_policy X pid at_ms (lp_max_participants_update (\<lambda>_. of_nat n)) st)))
       else None))))))"

definition recording_frame :: "string \<Rightarrow> u64 \<Rightarrow> recording_state \<Rightarrow> kaigi_frame" where
  "recording_frame pid at_ms state = K_RecordingNotice \<lparr>rn_at_ms = at_ms, rn_participant_id = pid, rn_state = state,
     rn_local_recording = True, rn_policy_basis = Some ''local-user-action'', rn_issued_by = pid\<rparr>"

definition device_command :: "room_context \<Rightarrow> u64 \<Rightarrow> string \<Rightarrow> room_local \<Rightarrow> command_result" where
  \<comment> \<open>\<open>/devicecap\<close> to \<open>/recordstop\<close>\<close>
  "device_command c at_ms cmd st =
     (if cmd = ''/devicecap'' then send_now st (K_DeviceCapability \<lparr>dc_reported_at_ms = at_ms,
        dc_participant_id = rx_participant_id c, dc_codecs = [''av1'', ''h265''], dc_hdr_capture = rx_hdr_capture c,
        dc_hdr_render = rx_hdr_display c, dc_max_video_streams = 4\<rparr>)
      else if starts_with cmd ''/profile ''
      then (let v = argument_of cmd ''/profile '' in
        if v \<noteq> ''sdr'' \<and> v \<noteq> ''hdr'' then Some (Inl ''expected /profile sdr|hdr'')
        else
          let profile = (if v = ''sdr'' then Profile_Sdr else Profile_Hdr);
              st = st\<lparr>rl_media_profile_epoch := sat_add (rl_media_profile_epoch st) 1\<rparr> in
          send_now st (K_MediaProfileNegotiation \<lparr>mp_at_ms = at_ms, mp_participant_id = rx_participant_id c,
            mp_requested_profile = profile, mp_negotiated_profile = profile, mp_codec = ''av1'',
            mp_epoch = rl_media_profile_epoch st\<rparr>))
      else if cmd = ''/recordstart'' then send_now st (recording_frame (rx_participant_id c) at_ms Recording_Started)
      else if cmd = ''/recordstop'' then send_now st (recording_frame (rx_participant_id c) at_ms Recording_Stopped)
      else None)"

definition e2ee_command :: "ext \<Rightarrow> string \<Rightarrow> u64 \<Rightarrow> string \<Rightarrow> room_local \<Rightarrow> command_result" where
  \<comment> \<open>\<open>/e2eekey\<close> and \<open>/e2eeack\<close>\<close>
  "e2ee_command X pid at_ms cmd st =
     (if starts_with cmd ''/e2eekey ''
      then (case parse_uint (2 ^ 64 - 1) (argument_of cmd ''/e2eekey '') of
              None \<Rightarrow> Some (Inl ''expected /e2eekey <epoch>'')
            | Some n \<Rightarrow>
                if n = 0 then Some (Inl ''expected /e2eekey <epoch>=1..'')
                else send_now (st\<lparr>rl_e2ee_epoch := max (of_nat n) (rl_e2ee_epoch st)\<rparr>)
                  (K_E2EEKeyEpoch \<lparr>ke_sent_at_ms = at_ms, ke_participant_id = pid, ke_epoch = of_nat n,
                    ke_public_key_hex = cli_deterministic_signature_hex X ''e2ee_public_key'' (join ''|'' [pid, dec n]),
                    ke_signature_hex = cli_deterministic_signature_hex X ''e2ee_key_epoch''
                      (join ''|'' [pid, dec n, dec64 at_ms])\<rparr>))
      else if starts_with cmd ''/e2eeack ''
      then (case parse_uint (2 ^ 64 - 1) (argument_of cmd ''/e2eeack '') of
              None \<Rightarrow> Some (Inl ''expected /e2eeack <epoch>'')
            | Some n \<Rightarrow>
                if n = 0 then Some (Inl ''expected /e2eeack <epoch>=1..'')
                else if rl_e2ee_epoch st > 0 \<and> of_nat n > rl_e2ee_epoch st
                then Some (Inl (''cannot ack future epoch: local='' @ dec64 (rl_e2ee_epoch st) @ '' requested='' @ dec n))
                else send_now st (K_KeyRotationAck \<lparr>ka_received_at_ms = at_ms, ka_participant_id = pid,
                  ka_ack_epoch = of_nat n\<rparr>))
      else None)"

definition pay_command ::
    "'w transfer \<Rightarrow> room_context \<Rightarrow> u64 \<Rightarrow> u64 \<Rightarrow> 'w \<Rightarrow> kaigi_frame \<times> console list \<times> 'w" where
  \<comment> \<open>\<open>/pay\<close> with its amount: the transfer, if the ledger is set up, and the frame in any case\<close>
  "pay_command transfer c at_ms amount w =
     (let frame = (\<lambda>hash. K_Payment \<lparr>pay_sent_at_ms = at_ms, pay_amount_nano_xor = amount, pay_tx_hash_hex = hash\<rparr>) in
      case rx_pay_ledger c of
        None \<Rightarrow> (frame None, [], w)
      | Some cfg \<Rightarrow> (case transfer cfg amount w of
          (Inr hash, w) \<Rightarrow> (frame (Some hash), [], w)
        | (Inl err, w) \<Rightarrow> (frame None, [Err (''payment transfer failed: '' @ err)], w)))"

definition chat_frame_of :: "room_context \<Rightarrow> u64 \<Rightarrow> string \<Rightarrow> kaigi_frame" where
  "chat_frame_of c at_ms text = K_Chat \<lparr>ch_sent_at_ms = at_ms, ch_from_participant_id = rx_participant_id c,
     ch_from_display_name = rx_display_name c, ch_text = text\<rparr>"

definition room_command ::
    "ext \<Rightarrow> 'w transfer \<Rightarrow> room_context \<Rightarrow> u64 \<Rightarrow> string \<Rightarrow> room_local \<Rightarrow> 'w
      \<Rightarrow> (string + kaigi_frame \<times> room_local) \<times> console list \<times> 'w" where
  \<comment> \<open>the \<open>match\<close> on the input\<close>
  "room_command X transfer c at_ms cmd st w =
     (let pid = rx_participant_id c;
          plain = or_else (media_command at_ms cmd st) (or_else (moderation_command X pid at_ms cmd st)
            (or_else (role_command X pid at_ms cmd st) (or_else (policy_command X pid at_ms cmd st)
            (or_else (device_command c at_ms cmd st) (e2ee_command X pid at_ms cmd st))))) in
      case plain of
        Some r \<Rightarrow> (r, [], w)
      | None \<Rightarrow>
          if cmd = ''/end'' then (Inr (signed_moderation_frame X pid at_ms Target_All Action_Kick, st), [], w)
          else if starts_with cmd ''/pay ''
          then (case parse_uint (2 ^ 64 - 1) (argument_of cmd ''/pay '') of
                  None \<Rightarrow> (Inl ''expected /pay <u64 nano-xor>'', [], w)
                | Some n \<Rightarrow> (case pay_command transfer c at_ms (of_nat n) w of
                    (frame, lines, w) \<Rightarrow> (Inr (frame, st), lines, w)))
          else (Inr (chat_frame_of c at_ms cmd, st), [], w))"

section \<open>Incoming frames\<close>

definition room_receive :: "room_context \<Rightarrow> kaigi_frame \<Rightarrow> room_local \<Rightarrow> console list \<times> room_local" where
  \<comment> \<open>what the reader changes, with the lines that tell of a change\<close>
  "room_receive c frame st = (case frame of
     K_RoomConfig cfg \<Rightarrow>
       let follow = (rx_pay_auto c \<and> \<not> rx_fixed_rate c);
           rate_lines = (if follow \<and> rl_rate_per_minute_nano st \<noteq> rc_rate_per_minute_nano cfg
             then [Out (''pay_rate updated: '' @ dec64 (rl_rate_per_minute_nano st) @ '' -> '' @
               dec64 (rc_rate_per_minute_nano cfg) @ '' (nano-xor/min)'')] else []);
           new_host = classify_host_state (rc_host_participant_id cfg) (rx_participant_id c);
           host_lines = (if rl_host_state st \<noteq> new_host then [Out (''local_role='' @ host_state_label new_host)] else []) in
       (rate_lines @ host_lines, st\<lparr>
          rl_rate_per_minute_nano := (if follow then rc_rate_per_minute_nano cfg else rl_rate_per_minute_nano st),
          rl_host_state := new_host\<rparr>)
   | K_SessionPolicy policy \<Rightarrow> ([], st\<lparr>rl_policy := \<lparr>lp_room_lock = sp_room_lock policy,
       lp_waiting_room_enabled = sp_waiting_room_enabled policy, lp_guest_join_allowed = sp_guest_join_allowed policy,
       lp_local_recording_allowed = sp_local_recording_allowed policy, lp_e2ee_required = sp_e2ee_required policy,
       lp_max_participants = sp_max_participants policy, lp_policy_epoch = sp_policy_epoch policy\<rparr>\<rparr>)
   | _ \<Rightarrow> ([], st))"

section \<open>The payment loop\<close>

record pay_state =
  py_last_ms :: u64
  py_remainder :: nat
  py_total_billed :: nat
  py_total_paid :: nat

definition pay_state_new :: "u64 \<Rightarrow> pay_state" where
  "pay_state_new now = \<lparr>py_last_ms = now, py_remainder = 0, py_total_billed = 0, py_total_paid = 0\<rparr>"

definition pay_bill :: "u64 \<Rightarrow> u64 \<Rightarrow> pay_state \<Rightarrow> pay_state" where
  \<comment> \<open>the first half of a round: what has become due\<close>
  "pay_bill now rate p =
     (let elapsed_ms = sat_sub now (py_last_ms p);
          numerator = sat_add128 (sat_mul128 (unat rate) (unat elapsed_ms)) (py_remainder p) in
      p\<lparr>py_last_ms := now, py_remainder := numerator mod 60000,
        py_total_billed := sat_add128 (py_total_billed p) (numerator div 60000)\<rparr>)"

datatype pay_outcome =
    Pay_Idle
  | Pay_Sent payment_frame
  | Pay_Closed payment_frame
  \<comment> \<open>nothing is due or the transfer failed, and the loop goes on; the frame went to the writer; the writer takes no
      more frames, and the loop ends\<close>

definition pay_round ::
    "'w transfer \<Rightarrow> pay_ledger_cli option \<Rightarrow> bool \<Rightarrow> u64 \<Rightarrow> u64 \<Rightarrow> pay_state \<Rightarrow> 'w
      \<Rightarrow> pay_outcome \<times> console list \<times> pay_state \<times> 'w" where
  \<comment> \<open>one round of the loop; \<open>taken\<close>: the writer takes frames. The transfer is made before the frame is sent, and
      the amount is counted as paid only after.\<close>
  "pay_round transfer ledger taken now rate p w =
     (let p = pay_bill now rate p in
      if py_total_billed p > py_total_paid p
      then
        let delta = of_nat (min (py_total_billed p - py_total_paid p) (2 ^ 64 - 1)) :: u64;
            send = (\<lambda>hash w.
              let frame = \<lparr>pay_sent_at_ms = now, pay_amount_nano_xor = delta, pay_tx_hash_hex = hash\<rparr> in
              if \<not> taken then (Pay_Closed frame, [], p, w)
              else (Pay_Sent frame, [], p\<lparr>py_total_paid := sat_add128 (py_total_paid p) (unat delta)\<rparr>, w)) in
        (case ledger of
           None \<Rightarrow> send None w
         | Some cfg \<Rightarrow> (case transfer cfg delta w of
             (Inr hash, w) \<Rightarrow> send (Some hash) w
           | (Inl err, w) \<Rightarrow> (Pay_Idle, [Err (''payment transfer failed: '' @ err)], p, w)))
      else (Pay_Idle, [], p, w))"

section \<open>A session\<close>

datatype room_event =
    Typed u64 string
  | Arrived kaigi_frame
  | Pay_Due u64
  | Writer_Fails string
  \<comment> \<open>a line with the clock reading; a frame from the hub; a round of the payment loop; the writer ends with an error
      and takes no more frames\<close>

record 'w room_run =
  rr_local :: room_local
  rr_world :: 'w
  rr_sent :: "kaigi_frame list"
  rr_lines :: "console list"
  rr_status :: room_status
  rr_pay :: "pay_state option"
  rr_writer :: "string option"
  \<comment> \<open>the payment loop, while it runs; the error the writer has ended with\<close>

definition returned :: "'w room_run \<Rightarrow> bool" where
  \<comment> \<open>an error has left the function, from the loop or from the writer it waits for after the loop\<close>
  "returned r = (case rr_status r of Failed e \<Rightarrow> True | Left_Room b \<Rightarrow> rr_writer r \<noteq> None | Running \<Rightarrow> False)"

definition sent_line :: "string \<Rightarrow> kaigi_frame \<Rightarrow> 'w room_run \<Rightarrow> 'w room_run" where
  \<comment> \<open>the frame of a line goes to the writer, if the writer still takes frames\<close>
  "sent_line input frame r =
     (if rr_writer r \<noteq> None then r\<lparr>rr_status := Left_Room False\<rparr>
      else r\<lparr>rr_sent := rr_sent r @ [frame],
             rr_status := (if input = ''/end'' then Left_Room True else Running)\<rparr>)"

definition type_line ::
    "ext \<Rightarrow> 'w transfer \<Rightarrow> room_context \<Rightarrow> u64 \<Rightarrow> string \<Rightarrow> 'w room_run \<Rightarrow> 'w room_run" where
  \<comment> \<open>one round of the input loop\<close>
  "type_line X transfer c at_ms line r =
     (let input = str_trim line; gate = end_command_gate_message (rl_host_state (rr_local r)) in
      if input = [] then r
      else if input = ''/quit'' then r\<lparr>rr_status := Left_Room False\<rparr>
      else if input = ''/end'' \<and> gate \<noteq> None then r\<lparr>rr_lines := rr_lines r @ [Out (unwrap_or gate [])]\<rparr>
      else case room_command X transfer c at_ms input (rr_local r) (rr_world r) of
        (Inl e, lines, w) \<Rightarrow> r\<lparr>rr_lines := rr_lines r @ lines, rr_world := w, rr_status := Failed e\<rparr>
      | (Inr (frame, st), lines, w) \<Rightarrow>
          sent_line input frame (r\<lparr>rr_local := st, rr_world := w, rr_lines := rr_lines r @ lines\<rparr>))"

definition pay_turn :: "'w transfer \<Rightarrow> room_context \<Rightarrow> u64 \<Rightarrow> 'w room_run \<Rightarrow> 'w room_run" where
  \<comment> \<open>one round of the payment loop, at the rate the reader has last seen\<close>
  "pay_turn transfer c now r = (case rr_pay r of
     None \<Rightarrow> r
   | Some p \<Rightarrow>
       (case pay_round transfer (rx_pay_ledger c) (rr_writer r = None) now (rl_rate_per_minute_nano (rr_local r)) p
            (rr_world r) of
          (outcome, lines, p, w) \<Rightarrow> r\<lparr>rr_world := w, rr_lines := rr_lines r @ lines,
            rr_sent := rr_sent r @ (case outcome of Pay_Sent frame \<Rightarrow> [K_Payment frame] | _ \<Rightarrow> []),
            rr_pay := (case outcome of Pay_Closed _ \<Rightarrow> None | _ \<Rightarrow> Some p)\<rparr>))"

definition room_event_step ::
    "ext \<Rightarrow> 'w transfer \<Rightarrow> room_context \<Rightarrow> room_event \<Rightarrow> 'w room_run \<Rightarrow> 'w room_run" where
  \<comment> \<open>once the loop has ended nobody reads the lines, but the tasks go on\<close>
  "room_event_step X transfer c ev r = (if returned r then r else case ev of
     Typed at_ms line \<Rightarrow> if rr_status r = Running then type_line X transfer c at_ms line r else r
   | Arrived frame \<Rightarrow> (case room_receive c frame (rr_local r) of
       (lines, st) \<Rightarrow> r\<lparr>rr_local := st, rr_lines := rr_lines r @ lines\<rparr>)
   | Pay_Due now \<Rightarrow> pay_turn transfer c now r
   | Writer_Fails e \<Rightarrow> if rr_writer r = None then r\<lparr>rr_writer := Some e\<rparr> else r)"

definition room_events ::
    "ext \<Rightarrow> 'w transfer \<Rightarrow> room_context \<Rightarrow> room_event list \<Rightarrow> 'w room_run \<Rightarrow> 'w room_run" where
  "room_events X transfer c evs r = fold (room_event_step X transfer c) evs r"

definition room_chat_end ::
    "'w spawn \<Rightarrow> u64 \<Rightarrow> u64 \<Rightarrow> auto_kaigi_lifecycle option \<Rightarrow> u64 \<Rightarrow> reader_end \<Rightarrow> 'w room_run
      \<Rightarrow> (run_end \<times> console list) \<times> 'w" where
  \<comment> \<open>when an error has left the loop, or after it: \<open>drop(out_tx); writer.await??; reader.await??\<close>, then the end on the
      ledger. The writer ends without an error only when nobody holds a sender any more, and the payment loop holds
      one as long as it runs. The end of the input counts as leaving.\<close>
  "room_chat_end spawn now ended_at lc started reader r = (case rr_status r of
     Failed e \<Rightarrow> ((Returns (Some e), []), rr_world r)
   | status \<Rightarrow> (case rr_writer r of
       Some e \<Rightarrow> ((Returns (Some e), []), rr_world r)
     | None \<Rightarrow>
         if rr_pay r \<noteq> None then ((Waits, []), rr_world r)
         else (case reader of
           Reader_Open \<Rightarrow> ((Waits, []), rr_world r)
         | Reader_Fails e \<Rightarrow> ((Returns (Some e), []), rr_world r)
         | Reader_Ends \<Rightarrow>
             (case finalize_auto_kaigi_lifecycle spawn now ended_at lc (status = Left_Room True) started (rr_world r) of
                (lines, w) \<Rightarrow> ((Returns None, lines), w)))))"

end
