(* ===== verification/Cli_Ledger_Safety.thy ===== *)
theory Cli_Ledger_Safety
  imports Cli_Ledger Cli_Link_Safety
begin

text \<open>
  What holds of the client's requests to the ledger: amounts are written exactly, the escrow quote is exact or
  refused, the mirrored calls are those of the explicit commands, and a call that was joined is closed.
\<close>

section \<open>Amounts\<close>

definition decimal_nano :: "string \<Rightarrow> nat option" where
  \<comment> \<open>the number of billionths a decimal with nine places stands for\<close>
  "decimal_nano s = (case split_once CHR ''.'' s of
     Some (w, f) \<Rightarrow> if length f = 9 then Some (digits_value 10 w * 10 ^ 9 + digits_value 10 f) else None
   | None \<Rightarrow> None)"

lemma digits_value_zeros: "digits_value 10 (replicate k (CHR ''0'') @ s) = digits_value 10 s"
proof (induction k)
  case (Suc k)
  have "to_digit 10 (CHR ''0'') = Some 0"
    by code_simp
  then show ?case
    using Suc by (simp add: digits_value_def)
qed simp

lemma pad9_value: "n < 10 ^ 9 \<Longrightarrow> length (pad9 n) = 9 \<and> digits_value 10 (pad9 n) = n"
  using num_str_length [of 10 n 8] num_str_digits [of 10 n]
  by (simp add: pad9_def dec_num_str Let_def digits_value_zeros)

text \<open>An amount is written without loss: read as a decimal with nine places, the text sent to the ledger
  stands for exactly the billionths asked for, for every 64-bit amount.\<close>

theorem nano_xor_exact: "decimal_nano (nano_xor_to_decimal n) = Some (unat n)"
proof -
  have "byte_of CHR ''.'' = 46" by (simp add: byte_of_def)
  then have "CHR ''.'' \<notin> set (dec m)" for m
    using num_str_digits [of 10 m] by (auto simp: dec_num_str list_all_iff is_digit_in_def to_digit_def Let_def)
  then have "split_once CHR ''.'' (nano_xor_to_decimal n)
    = Some (dec (unat n div 1000000000), pad9 (unat n mod 1000000000))"
    using split_once_append [of "CHR ''.''"] by (simp add: nano_xor_to_decimal_def Let_def)
  moreover have "digits_value 10 (dec m) = m" for m
    using num_str_digits [of 10 m] by (simp add: dec_num_str)
  ultimately show ?thesis
    using pad9_value [of "unat n mod 1000000000"] by (simp add: decimal_nano_def)
qed

text \<open>The escrow quote is the exact sum, base plus the surcharge for every begun minute, and it is given
  exactly when that sum fits into 64 bits: neither the saturating 128-bit arithmetic nor a wrap-around shows.\<close>

theorem escrow_quote_exact:
  "quote_anon_escrow_total_nano_checked args = Inr amount \<longleftrightarrow>
     unat amount = unat (ra_anon_escrow_prepay_nano args)
       + unat (ra_anon_zk_extra_fee_per_minute_nano args) * ((unat (ra_anon_expected_duration_secs args) + 59) div 60)"
proof -
  let ?base = "unat (ra_anon_escrow_prepay_nano args)" and ?fee = "unat (ra_anon_zk_extra_fee_per_minute_nano args)"
  let ?mins = "(unat (ra_anon_expected_duration_secs args) + 59) div 60"
  have lt: "?base < 2 ^ 64" "?fee < 2 ^ 64" "?mins < 2 ^ 63"
    using u64_lt [of "ra_anon_escrow_prepay_nano args"] u64_lt [of "ra_anon_zk_extra_fee_per_minute_nano args"]
      u64_lt [of "ra_anon_expected_duration_secs args"] by auto
  then have "?fee * ?mins \<le> 2 ^ 64 * 2 ^ 63"
    by (intro mult_le_mono) auto
  then have "sat_add128 ?base (sat_mul128 ?fee ?mins) = ?base + ?fee * ?mins"
    using lt by (simp add: sat_add128_def sat_mul128_def u128_max_def)
  then have "quote_anon_escrow_total_nano_checked args = Inr amount \<longleftrightarrow>
      ?base + ?fee * ?mins < 2 ^ 64 \<and> of_nat (?base + ?fee * ?mins) = amount"
    by (simp only: quote_anon_escrow_total_nano_checked_def Let_def) auto
  moreover have "n < 2 ^ 64 \<and> of_nat n = amount \<longleftrightarrow> unat amount = n" for n
    using u64_lt [of amount] by (auto simp: unat_of_nat)
  ultimately show ?thesis
    by blast
qed

section \<open>Hex arguments\<close>

definition is_hex_char :: "char \<Rightarrow> bool" where
  "is_hex_char c \<longleftrightarrow> (let n = byte_of c in 48 \<le> n \<and> n \<le> 57 \<or> 97 \<le> n \<and> n \<le> 102 \<or> 65 \<le> n \<and> n \<le> 70)"

text \<open>What the hex library accepts: pairs of hex digits of either case.\<close>

definition hex_accepts :: "ext \<Rightarrow> bool" where
  "hex_accepts X \<longleftrightarrow> (\<forall>s. (hex_decode X s \<noteq> None) = (even (length s) \<and> list_all is_hex_char s))"

lemma demo_hex_accepts: "hex_accepts demo_ext"
proof -
  have char: "hex_value c \<noteq> None \<longleftrightarrow> is_hex_char c" for c
    by (auto simp: hex_value_def is_hex_char_def Let_def)
  have "hex_pairs s \<noteq> None \<longleftrightarrow> even (length s) \<and> list_all is_hex_char s" for s
    by (induction s rule: hex_pairs.induct) (auto simp: char [symmetric] split: option.splits)
  then show ?thesis
    by (simp add: hex_accepts_def demo_ext_def)
qed

section \<open>The mirrored call\<close>

text \<open>The explicit commands that take the values of the flags of \<^verbatim>\<open>room-chat\<close> as they were given.\<close>

definition explicit_join :: "auto_kaigi_lifecycle \<Rightarrow> room_chat_args \<Rightarrow> kaigi_lifecycle_command" where
  "explicit_join lc args = Lc_Join (al_domain lc) (al_call_name lc) (al_participant lc)
     (ra_kaigi_join_commitment_hex args) (ra_kaigi_join_commitment_alias args) (ra_kaigi_join_nullifier_hex args)
     (ra_kaigi_nullifier_issued_at_ms args) (ra_kaigi_roster_root_hex args) (ra_kaigi_join_proof_hex args)"

definition explicit_leave :: "auto_kaigi_lifecycle \<Rightarrow> room_chat_args \<Rightarrow> kaigi_lifecycle_command" where
  "explicit_leave lc args = Lc_Leave (al_domain lc) (al_call_name lc) (al_participant lc)
     (ra_kaigi_leave_commitment_hex args) (ra_kaigi_leave_nullifier_hex args) (ra_kaigi_nullifier_issued_at_ms args)
     (ra_kaigi_roster_root_hex args) (ra_kaigi_leave_proof_hex args)"

definition explicit_usage :: "auto_kaigi_lifecycle \<Rightarrow> room_chat_args \<Rightarrow> u64 \<Rightarrow> kaigi_lifecycle_command" where
  "explicit_usage lc args duration_ms = Lc_Record_Usage (al_domain lc) (al_call_name lc) duration_ms
     (ra_kaigi_billed_gas args) (ra_kaigi_usage_commitment_hex args) (ra_kaigi_usage_proof_hex args)"

lemma built_lifecycle:
  assumes "build_auto_kaigi_lifecycle X args = Inr (Some lc)"
  shows "auto_lifecycle_checks X args = None"
    and "ra_kaigi_domain args = Some (al_domain lc)" and "ra_kaigi_call_name args = Some (al_call_name lc)"
    and "ra_kaigi_participant args = Some (al_participant lc)"
    and "ra_kaigi_iroha_config args = Some (al_iroha_config lc)"
    and "al_iroha_bin lc = unwrap_or (ra_kaigi_iroha_bin args) default_iroha_bin"
    and "al_join_commitment_hex lc = normalize_optional_hex_owned (ra_kaigi_join_commitment_hex args)"
    and "al_join_commitment_alias lc = ra_kaigi_join_commitment_alias args"
    and "al_join_nullifier_hex lc = normalize_optional_hex_owned (ra_kaigi_join_nullifier_hex args)"
    and "al_leave_commitment_hex lc = normalize_optional_hex_owned (ra_kaigi_leave_commitment_hex args)"
    and "al_leave_nullifier_hex lc = normalize_optional_hex_owned (ra_kaigi_leave_nullifier_hex args)"
    and "al_nullifier_issued_at_ms lc = ra_kaigi_nullifier_issued_at_ms args"
    and "al_roster_root_hex lc = normalize_optional_hex_owned (ra_kaigi_roster_root_hex args)"
    and "al_join_proof_hex lc = normalize_optional_hex_owned (ra_kaigi_join_proof_hex args)"
    and "al_leave_proof_hex lc = normalize_optional_hex_owned (ra_kaigi_leave_proof_hex args)"
    and "al_billed_gas lc = ra_kaigi_billed_gas args"
    and "al_usage_commitment_hex lc = normalize_optional_hex_owned (ra_kaigi_usage_commitment_hex args)"
    and "al_usage_proof_hex lc = normalize_optional_hex_owned (ra_kaigi_usage_proof_hex args)"
  using assms by (auto simp: build_auto_kaigi_lifecycle_def split: option.splits prod.splits if_splits)

lemma optional_hex_name: "validate_optional_hex_arg X v a = None \<Longrightarrow> validate_optional_hex_arg X v b = None"
  by (cases v) (simp_all add: validate_optional_hex_arg_def Let_def split: if_splits)

lemma normalize_None [simp]: "normalize_optional_hex_owned v = None \<longleftrightarrow> v = None"
  by (simp add: normalize_optional_hex_owned_def)


definition demo_room_args :: room_chat_args where
  \<comment> \<open>the defaults of the arguments, with the ledger call of a member\<close>
  "demo_room_args = \<lparr>ra_relay = None, ra_join_link = None, ra_server_name = None, ra_insecure = False,
     ra_ca_cert_pem_path = None, ra_torii = None, ra_allow_local_handshake = True, ra_descriptor_commit_hex = None,
     ra_client_capabilities_hex = None, ra_relay_capabilities_hex = None, ra_kem_id = None, ra_sig_id = None,
     ra_resume_hash_hex = None, ra_handshake_prelude_hex = None, ra_channel = None, ra_authenticated = True,
     ra_participant_id = Some ''p@d'', ra_display_name = None, ra_hdr_display = False, ra_hdr_capture = False,
     ra_no_hdr_auto = False, ra_pay_rate_per_minute_nano = 0, ra_pay_auto = False, ra_no_pay_auto = False,
     ra_pay_interval_secs = 60, ra_pay_iroha_bin = None, ra_pay_iroha_config = None, ra_pay_from = None,
     ra_pay_to = None, ra_pay_asset_def = ''xor#sora'', ra_pay_blocking = False, ra_allow_unsettled_payments = False,
     ra_kaigi_iroha_bin = None, ra_kaigi_iroha_config = Some ''client.toml'', ra_kaigi_domain = Some ''d'',
     ra_kaigi_call_name = Some ''n'', ra_kaigi_privacy_mode = None, ra_kaigi_participant = Some ''p@d'',
     ra_kaigi_join_commitment_hex = Some '' 0xAB '', ra_kaigi_join_commitment_alias = Some ''a'',
     ra_kaigi_join_nullifier_hex = Some ''0Xcd'', ra_kaigi_leave_commitment_hex = None,
     ra_kaigi_leave_nullifier_hex = None, ra_kaigi_nullifier_issued_at_ms = Some 7, ra_kaigi_roster_root_hex = None,
     ra_kaigi_join_proof_hex = None, ra_kaigi_leave_proof_hex = None, ra_kaigi_record_usage = True,
     ra_kaigi_billed_gas = 3, ra_kaigi_usage_commitment_hex = None, ra_kaigi_usage_proof_hex = None,
     ra_anon_escrow_prepay_nano = 0, ra_anon_zk_extra_fee_per_minute_nano = 0, ra_anon_expected_duration_secs = 60,
     ra_anon_escrow_proof_interval_secs = 20, ra_anon_escrow_id = None, ra_anon_escrow_proof_hex = None,
     ra_anon_unshield_on_exit = False, ra_anon_unshield_to = None, ra_anon_unshield_inputs = None,
     ra_anon_unshield_proof_json = None, ra_anon_unshield_root_hint_hex = None, ra_tui = False, ra_legacy_ui = False\<rparr>"

definition demo_lifecycle :: auto_kaigi_lifecycle where
  "demo_lifecycle = \<lparr>al_iroha_bin = default_iroha_bin, al_iroha_config = ''client.toml'', al_domain = ''d'',
     al_call_name = ''n'', al_participant = ''p@d'', al_join_commitment_hex = Some ''ab'',
     al_join_commitment_alias = Some ''a'', al_join_nullifier_hex = Some ''cd'', al_leave_commitment_hex = None,
     al_leave_nullifier_hex = None, al_nullifier_issued_at_ms = Some 7, al_roster_root_hex = None,
     al_join_proof_hex = None, al_leave_proof_hex = None, al_record_usage = True, al_billed_gas = 3,
     al_usage_commitment_hex = None, al_usage_proof_hex = None\<rparr>"

lemma demo_lifecycle_built: "build_auto_kaigi_lifecycle demo_ext demo_room_args = Inr (Some demo_lifecycle)"
  by code_simp


section \<open>Leaving\<close>

definition logged :: "(string \<Rightarrow> string list \<Rightarrow> string list list \<Rightarrow> process_output option) \<Rightarrow> string list list spawn" where
  \<comment> \<open>a ledger program whose answers depend in any way on the requests it has seen\<close>
  "logged answer bin args log = (answer bin args log, log @ [args])"

definition succeeds :: "process_output option \<Rightarrow> bool" where
  "succeeds out = (case out of None \<Rightarrow> False | Some out \<Rightarrow> po_success out)"

definition request :: "auto_kaigi_lifecycle \<Rightarrow> string list \<Rightarrow> string list" where
  "request lc args = [''-c'', al_iroha_config lc, ''--output-format'', ''json''] @ args"

lemma run_logged:
  "snd (run_iroha_json_cli (logged answer) bin config args log) = log @ [[''-c'', config, ''--output-format'', ''json''] @ args]"
  "isl (fst (run_iroha_json_cli (logged answer) bin config args log))
     = (\<not> succeeds (answer bin ([''-c'', config, ''--output-format'', ''json''] @ args) log))"
  by (auto simp: run_iroha_json_cli_def logged_def succeeds_def split: option.split)

text \<open>A mirrored call is closed exactly once: whatever the ledger answers, leaving sends the end of the call
  if it was asked for, the leave unless that end succeeded, and then the usage if it is to be recorded, each
  once and in this order.\<close>

theorem finalize_requests:
  "snd (finalize_auto_kaigi_lifecycle (logged answer) now ended_at (Some lc) end_requested started log) =
     (let end_cmd = request lc (call_args ''end'' (al_domain lc) (al_call_name lc) @ [''--ended-at-ms'', dec64 ended_at]);
          ended = (end_requested \<and> succeeds (answer (al_iroha_bin lc) end_cmd log));
          usage = call_args ''record-usage'' (al_domain lc) (al_call_name lc) @
            [''--duration-ms'', dec64 (sat_sub now started), ''--billed-gas'', dec64 (al_billed_gas lc)] @
            opt_arg ''--usage-commitment-hex'' (al_usage_commitment_hex lc) @
            opt_arg ''--proof-hex'' (al_usage_proof_hex lc) in
      log @ (if end_requested then [end_cmd] else []) @ (if ended then [] else [request lc (auto_leave_args lc)]) @
        (if al_record_usage lc then [request lc usage] else []))"
  by (cases end_requested; cases "al_record_usage lc")
    (simp_all add: finalize_auto_kaigi_lifecycle_def run_auto_kaigi_end_def run_auto_kaigi_leave_def
      run_auto_kaigi_record_usage_def should_skip_leave_after_end_def request_def Let_def case_prod_beta run_logged
      del: append.simps)

section \<open>Nullifiers to unshield\<close>

definition nullifier_of :: "string \<Rightarrow> string" where
  "nullifier_of token = normalize_hex_arg (str_trim token)"

lemma unshield_loop_None:
  "unshield_inputs_loop X idx seen tokens = None \<longleftrightarrow>
     (tokens = [] \<or> idx + length tokens \<le> MAX_ANON_UNSHIELD_INPUTS)
   \<and> list_all (\<lambda>t. validate_hex_32_arg X (nullifier_of t) ''--anon-unshield-inputs'' = None) tokens
   \<and> distinct (map nullifier_of tokens) \<and> set (map nullifier_of tokens) \<inter> set seen = {}"
proof (induction tokens arbitrary: idx seen)
  case (Cons t tokens)
  have "Suc idx \<le> MAX_ANON_UNSHIELD_INPUTS \<and> tokens = [] \<or> Suc idx + length tokens \<le> MAX_ANON_UNSHIELD_INPUTS
    \<longleftrightarrow> Suc (idx + length tokens) \<le> MAX_ANON_UNSHIELD_INPUTS"
    by auto
  then show ?case
    using Cons [of "Suc idx" "snd (hs_insert seen (nullifier_of t))"]
    by (auto simp: Let_def nullifier_of_def [symmetric] hs_insert_def not_le)
qed simp

text \<open>The nullifiers to unshield are accepted exactly when there are at most 256 of them, each is the hex of
  32 bytes, and no two are the same text once the spaces, one hex prefix and the letter case are taken away.\<close>

theorem unshield_inputs_accepted:
  "validate_unshield_inputs_arg X value = None \<longleftrightarrow>
     (let tokens = split_on CHR '','' value in
        length tokens \<le> MAX_ANON_UNSHIELD_INPUTS
      \<and> list_all (\<lambda>t. validate_hex_32_arg X (nullifier_of t) ''--anon-unshield-inputs'' = None) tokens
      \<and> distinct (map nullifier_of tokens))"
  by (auto simp: validate_unshield_inputs_arg_def unshield_loop_None Let_def)

text \<open>Two spellings of one nullifier get through: normalising takes one hex prefix away and the check takes
  another, so a nullifier written a second time behind two prefixes is not seen as a duplicate, and the list
  that is sent names it twice.\<close>

theorem doubled_nullifier_accepted:
  assumes "hex_accepts X" and "list_all lower_hex_char t" and "length t = 64"
  shows "normalize_hex32_csv X (t @ '','' @ ''0x0x'' @ t) = Inr (t @ '','' @ ''0x'' @ t)"
proof -
  have bytes: "byte_of CHR ''0'' = 48" "byte_of CHR ''x'' = 120" "byte_of CHR '','' = 44"
    by (simp_all add: byte_of_def)
  have chars: "byte_of c < 128 \<and> \<not> is_whitespace (byte_of c) \<and> c \<noteq> CHR '','' \<and> c \<noteq> CHR ''x'' \<and> is_hex_char c"
    if "c \<in> set t" for c
    using that assms(2) bytes
    by (auto simp: list_all_iff lower_hex_char_def is_whitespace_def is_hex_char_def Let_def)
  note plain = lower_hex_plain [OF assms(2)]
  have zero: "byte_of CHR ''0'' < 128 \<and> \<not> is_whitespace (byte_of CHR ''0'')"
    "byte_of CHR ''x'' < 128 \<and> \<not> is_whitespace (byte_of CHR ''x'')"
    by (simp_all add: bytes is_whitespace_def)
  have prefixed: "str_trim (''0x'' @ t) = ''0x'' @ t" "str_trim (''0x0x'' @ t) = ''0x0x'' @ t"
    using chars zero by (auto intro!: str_trim_plain simp: list_all_iff)
  have lower: "to_ascii_lowercase (''0x'' @ t) = ''0x'' @ t"
    using plain bytes by (simp add: to_ascii_lowercase_def ascii_lower_def)
  have tokens: "split_on CHR '','' (t @ '','' @ ''0x0x'' @ t) = [t, ''0x0x'' @ t]"
    using split_on_join [of "[t, ''0x0x'' @ t]" "CHR '',''"] chars by auto
  have nulls: "nullifier_of t = t" "nullifier_of (''0x0x'' @ t) = ''0x'' @ t"
    using plain prefixed lower by (simp_all add: nullifier_of_def normalize_hex_arg_def)
  have "hex_decode X t \<noteq> None"
    using assms(1,3) chars by (auto simp: hex_accepts_def list_all_iff)
  then have "validate_hex_32_arg X t a = None" "validate_hex_32_arg X (''0x'' @ t) a = None" for a
    using plain prefixed assms(3) by (simp_all add: validate_hex_32_arg_def Let_def)
  then have "validate_unshield_inputs_arg X (t @ '','' @ ''0x0x'' @ t) = None"
    unfolding validate_unshield_inputs_arg_def tokens unshield_loop_None
    using nulls by (auto simp: MAX_ANON_UNSHIELD_INPUTS_def dest: arg_cong [where f = length])
  then show ?thesis
    unfolding normalize_hex32_csv_def tokens
    using nulls by (simp add: nullifier_of_def)
qed

theorem doubled_nullifier_accepted_witness:
  "normalize_hex32_csv demo_ext (replicate 64 (CHR ''7'') @ '','' @ ''0x0x'' @ replicate 64 (CHR ''7''))
     = Inr (replicate 64 (CHR ''7'') @ '','' @ ''0x'' @ replicate 64 (CHR ''7''))"
  by (rule doubled_nullifier_accepted [OF demo_hex_accepts]) code_simp+

end
