(* ===== verification/Cli_Room_Safety.thy ===== *)
theory Cli_Room_Safety
  imports Cli_Room Cli_Ledger_Safety
begin

text \<open>
  What the line interface of the command line client guarantees: the payment loop bills to the nano-XOR and never
  announces more than it has billed, only the host ends a call, what leaving asks of the ledger, and that a session
  whose payment loop runs never leaves.
\<close>

section \<open>The payment loop\<close>

fun pay_rounds ::
    "'w transfer \<Rightarrow> pay_ledger_cli option \<Rightarrow> (u64 \<times> u64 \<times> bool) list \<Rightarrow> pay_state \<Rightarrow> 'w
      \<Rightarrow> payment_frame list \<times> payment_frame option \<times> pay_state \<times> 'w" where
  \<comment> \<open>rounds with the clock reading, the rate and the state of the channel each of them finds, up to the one that finds
      the channel closed: the frames sent and the frame that could not be sent\<close>
  "pay_rounds transfer ledger [] p w = ([], None, p, w)"
| "pay_rounds transfer ledger ((now, rate, taken) # rest) p w = (case pay_round transfer ledger taken now rate p w of
     (Pay_Idle, _, p, w) \<Rightarrow> pay_rounds transfer ledger rest p w
   | (Pay_Sent f, _, p, w) \<Rightarrow> (case pay_rounds transfer ledger rest p w of (fs, lost, p, w) \<Rightarrow> (f # fs, lost, p, w))
   | (Pay_Closed f, _, p, w) \<Rightarrow> ([], Some f, p, w))"

fun due :: "u64 \<Rightarrow> (u64 \<times> u64 \<times> bool) list \<Rightarrow> nat" where
  \<comment> \<open>reference: 60000 times the price, in nano-XOR, of the time since the loop began\<close>
  "due since [] = 0"
| "due since ((now, rate, _) # rest) = unat rate * (unat now - unat since) + due now rest"

definition recorded :: "'w transfer \<Rightarrow> ('w \<times> u64 list) transfer" where
  \<comment> \<open>a transfer, with the amounts it has moved\<close>
  "recorded transfer cfg amount s = (case transfer cfg amount (fst s) of
     (Inr hash, w) \<Rightarrow> (Inr hash, (w, snd s @ [amount]))
   | (Inl e, w) \<Rightarrow> (Inl e, (w, snd s)))"

lemma price_fits: "unat (rate :: u64) * unat (t :: u64) + 60000 \<le> u128_max"
proof -
  have "unat rate * unat t \<le> (2 ^ 64 - 1) * (2 ^ 64 - 1)"
    using unat_lt2p [of rate] unat_lt2p [of t] by (intro mult_mono) auto
  then show ?thesis by (simp add: u128_max_def)
qed

lemma pay_bill_exact:
  assumes "py_remainder p < 60000"
  shows "py_remainder (pay_bill now rate p) = (unat rate * (unat now - unat (py_last_ms p)) + py_remainder p) mod 60000"
    "py_total_billed (pay_bill now rate p) = min u128_max (py_total_billed p
       + (unat rate * (unat now - unat (py_last_ms p)) + py_remainder p) div 60000)"
    "py_last_ms (pay_bill now rate p) = now" "py_total_paid (pay_bill now rate p) = py_total_paid p"
  using assms price_fits [of rate "sat_sub now (py_last_ms p)"]
  by (simp_all add: pay_bill_def Let_def sat_add128_def sat_mul128_def unat_sat_sub min_def)

definition pay_ok :: "pay_state \<Rightarrow> bool" where
  "pay_ok p \<longleftrightarrow> py_remainder p < 60000 \<and> py_total_paid p \<le> py_total_billed p \<and> py_total_billed p \<le> u128_max"


lemma pay_ok_remainder: "pay_ok p \<Longrightarrow> py_remainder p < 60000"
  by (simp add: pay_ok_def)

lemma pay_bill_ok: "pay_ok p \<Longrightarrow> pay_ok (pay_bill now rate p)"
  by (auto simp: pay_ok_def pay_bill_exact)

definition outstanding :: "pay_state \<Rightarrow> nat" where
  "outstanding p = py_total_billed p - py_total_paid p"

lemma pay_round_effect:
  assumes ok: "pay_ok p" and round: "pay_round t l taken now rate p w = (outcome, lines, p', w')"
  shows "case outcome of
       Pay_Idle \<Rightarrow> p' = pay_bill now rate p
     | Pay_Closed f \<Rightarrow> \<not> taken \<and> p' = pay_bill now rate p
         \<and> unat (pay_amount_nano_xor f) = min (outstanding (pay_bill now rate p)) (2 ^ 64 - 1)
     | Pay_Sent f \<Rightarrow> taken \<and> p' = (pay_bill now rate p)\<lparr>py_total_paid := py_total_paid p + unat (pay_amount_nano_xor f)\<rparr>
         \<and> unat (pay_amount_nano_xor f) = min (outstanding (pay_bill now rate p)) (2 ^ 64 - 1)"
proof -
  let ?b = "pay_bill now rate p"
  let ?d = "min (outstanding ?b) 18446744073709551615"
  have b: "pay_ok ?b" "py_total_paid ?b = py_total_paid p"
    using pay_bill_ok [OF ok] ok by (simp_all add: pay_ok_def pay_bill_exact)
  have d: "unat (of_nat ?d :: u64) = ?d" by (simp add: unat_of_nat)
  have fits: "sat_add128 (py_total_paid ?b) ?d = py_total_paid p + ?d"
    using b by (auto simp: sat_add128_def outstanding_def pay_ok_def)
  show ?thesis
    using round by (auto simp: pay_round_def Let_def d fits outstanding_def [symmetric]
        split: if_splits option.splits prod.splits sum.splits)
qed

fun announced :: "pay_outcome \<Rightarrow> payment_frame list" where
  "announced (Pay_Sent f) = [f]"
| "announced _ = []"

fun moved_by :: "pay_outcome \<Rightarrow> payment_frame list" where
  "moved_by Pay_Idle = []"
| "moved_by (Pay_Sent f) = [f]"
| "moved_by (Pay_Closed f) = [f]"

lemma pay_round_step:
  assumes ok: "pay_ok p" and round: "pay_round t l taken now rate p w = (outcome, lines, q, w')"
  shows "pay_ok q" "py_last_ms q = now" "py_remainder q = py_remainder (pay_bill now rate p)"
    "py_total_billed q = py_total_billed (pay_bill now rate p)"
    "py_total_paid q = py_total_paid p + (\<Sum>f\<leftarrow>announced outcome. unat (pay_amount_nano_xor f))"
    "py_total_paid p + (\<Sum>f\<leftarrow>moved_by outcome. unat (pay_amount_nano_xor f)) \<le> py_total_billed q"
proof -
  note bill = pay_bill_exact [OF pay_ok_remainder [OF ok]] and b = pay_bill_ok [OF ok, of now rate]
  have "pay_ok q \<and> py_last_ms q = now \<and> py_remainder q = py_remainder (pay_bill now rate p)
    \<and> py_total_billed q = py_total_billed (pay_bill now rate p)
    \<and> py_total_paid q = py_total_paid p + (\<Sum>f\<leftarrow>announced outcome. unat (pay_amount_nano_xor f))
    \<and> py_total_paid p + (\<Sum>f\<leftarrow>moved_by outcome. unat (pay_amount_nano_xor f)) \<le> py_total_billed q"
    using pay_round_effect [OF ok round] b bill(3,4)
    by (cases outcome) (auto simp: pay_ok_def outstanding_def min_def)
  then show "pay_ok q" "py_last_ms q = now" "py_remainder q = py_remainder (pay_bill now rate p)"
    "py_total_billed q = py_total_billed (pay_bill now rate p)"
    "py_total_paid q = py_total_paid p + (\<Sum>f\<leftarrow>announced outcome. unat (pay_amount_nano_xor f))"
    "py_total_paid p + (\<Sum>f\<leftarrow>moved_by outcome. unat (pay_amount_nano_xor f)) \<le> py_total_billed q" by blast+
qed

lemma recorded_Inr: "recorded t cfg n s = (Inr hash, s') \<Longrightarrow> snd s' = snd s @ [n]"
  and recorded_Inl: "recorded t cfg n s = (Inl e, s') \<Longrightarrow> snd s' = snd s"
  by (auto simp: recorded_def split: prod.splits sum.splits)

lemma pay_round_moves:
  assumes "pay_round (recorded t) l taken now rate p s = (outcome, lines, p', s')"
  shows "snd s' = snd s @ (if l = None then [] else map pay_amount_nano_xor (moved_by outcome))"
proof (cases l)
  case None
  then show ?thesis using assms by (auto simp: pay_round_def Let_def split: if_splits)
next
  case (Some cfg)
  let ?b = "pay_bill now rate p"
  let ?d = "of_nat (min (py_total_billed ?b - py_total_paid ?b) (2 ^ 64 - 1)) :: u64"
  obtain r s1 where "recorded t cfg ?d s = (r, s1)" by (rule prod.exhaust)
  then show ?thesis
    using assms Some by (cases r) (auto simp: pay_round_def Let_def recorded_Inr recorded_Inl split: if_splits)
qed

lemma price_carry: "0 < m \<Longrightarrow> (x + n mod m) div m + n div m = (x + n) div (m :: nat)"
proof -
  assume "0 < m"
  have "x + n = (x + n mod m) + n div m * m" by simp
  then show ?thesis using \<open>0 < m\<close> by (metis div_mult_self1 add.commute less_irrefl)
qed

lemma min_twice: "min m (min m (b + k) + c) = min m (b + (c + k) :: nat)"
  by (auto simp: min_def)

definition billed_for :: "(u64 \<times> u64 \<times> bool) list \<Rightarrow> pay_state \<Rightarrow> pay_state \<Rightarrow> bool" where
  \<comment> \<open>between the two states exactly these rounds were billed\<close>
  "billed_for rounds p q \<longleftrightarrow>
     py_total_billed q = min u128_max (py_total_billed p + (due (py_last_ms p) rounds + py_remainder p) div 60000)
     \<and> py_remainder q = (due (py_last_ms p) rounds + py_remainder p) mod 60000"

lemma billed_for_Nil: "pay_ok p \<Longrightarrow> billed_for [] p p"
  by (auto simp: billed_for_def pay_ok_def)

lemma billed_for_Cons:
  assumes ok: "pay_ok p" and round: "pay_round t l taken now rate p w = (outcome, lines, q, w')"
    and rest: "billed_for rounds q q'"
  shows "billed_for ((now, rate, taken) # rounds) p q'"
proof -
  note step = pay_round_step [OF ok round]
  let ?n = "unat rate * (unat now - unat (py_last_ms p)) + py_remainder p"
  have bill: "py_remainder q = ?n mod 60000" "py_total_billed q = min u128_max (py_total_billed p + ?n div 60000)"
    unfolding step(3,4) by (simp_all add: pay_bill_exact pay_ok_remainder [OF ok])
  let ?m = "60000 :: nat" and ?d = "due now rounds"
  have "py_total_billed q' = min u128_max (min u128_max (py_total_billed p + ?n div ?m) + (?d + ?n mod ?m) div ?m)"
    using rest by (simp only: billed_for_def bill step(2))
  also have "\<dots> = min u128_max (py_total_billed p + ((?d + ?n mod ?m) div ?m + ?n div ?m))" by (rule min_twice)
  also have "(?d + ?n mod ?m) div ?m + ?n div ?m = (due (py_last_ms p) ((now, rate, taken) # rounds) + py_remainder p) div ?m"
    by (subst price_carry) (simp_all add: ac_simps)
  finally have "py_total_billed q' = min u128_max (py_total_billed p
      + (due (py_last_ms p) ((now, rate, taken) # rounds) + py_remainder p) div ?m)" .
  moreover have "py_remainder q' = (due (py_last_ms p) ((now, rate, taken) # rounds) + py_remainder p) mod 60000"
    using rest by (simp add: billed_for_def bill step(2) ac_simps mod_add_right_eq)
  ultimately show ?thesis by (simp add: billed_for_def)
qed

lemma pay_rounds_inv:
  assumes "pay_ok p" "pay_rounds (recorded t) l rounds p s = (frames, lost, p', s')"
  shows "pay_ok p' \<and> (\<exists>done rest. rounds = done @ rest \<and> billed_for done p p' \<and> (case lost of
         None \<Rightarrow> rest = []
       | Some f \<Rightarrow> (\<exists>before now rate. done = before @ [(now, rate, False)])
           \<and> py_total_paid p' + unat (pay_amount_nano_xor f) \<le> py_total_billed p'))
    \<and> py_total_paid p' = py_total_paid p + (\<Sum>f\<leftarrow>frames. unat (pay_amount_nano_xor f))
    \<and> snd s' = snd s @ (if l = None then [] else map pay_amount_nano_xor (frames @ case_option [] (\<lambda>f. [f]) lost))"
  using assms
proof (induction rounds arbitrary: p s frames)
  case Nil
  then show ?case using billed_for_Nil [OF Nil.prems(1)] by auto
next
  case (Cons r rounds)
  obtain now rate taken where r: "r = (now, rate, taken)" by (metis prod_cases3)
  obtain outcome lines q s1 where round: "pay_round (recorded t) l taken now rate p s = (outcome, lines, q, s1)"
    by (metis prod_cases4)
  note step = pay_round_step [OF Cons.prems(1) round] and moves = pay_round_moves [OF round]
  note more = billed_for_Cons [OF Cons.prems(1) round]
  show ?case
  proof (cases "\<exists>f. outcome = Pay_Closed f")
    case True
    then obtain f where f: "outcome = Pay_Closed f" by blast
    have "\<not> taken" using pay_round_effect [OF Cons.prems(1) round] by (simp add: f)
    moreover have "frames = []" "lost = Some f" "p' = q" "s' = s1"
      using Cons.prems(2) by (simp_all add: r round f)
    moreover have "\<exists>done rest. r # rounds = done @ rest \<and> billed_for done p q
        \<and> (\<exists>before now rate. done = before @ [(now, rate, False)])"
      using more [OF billed_for_Nil [OF step(1)]] \<open>\<not> taken\<close>
      by (intro exI [of _ "[r]"] exI [of "\<lambda>rest. _ # _ = _ @ rest \<and> _" rounds]) (simp add: r)
    ultimately show ?thesis
      using step moves by (auto simp: f)
  next
    case False
    obtain fs where rest: "pay_rounds (recorded t) l rounds q s1 = (fs, lost, p', s')"
      and frames: "frames = announced outcome @ fs" and same: "moved_by outcome = announced outcome"
      using Cons.prems(2) False by (cases outcome) (auto simp: r round split: prod.splits)
    note IH = Cons.IH [OF step(1) rest]
    obtain "done" remains where split: "rounds = done @ remains" and billed: "billed_for done q p'"
      and lost: "case lost of None \<Rightarrow> remains = [] | Some f \<Rightarrow> (\<exists>before now rate. done = before @ [(now, rate, False)])
           \<and> py_total_paid p' + unat (pay_amount_nano_xor f) \<le> py_total_billed p'"
      using IH by blast
    have "r # rounds = (r # done) @ remains" by (simp add: split)
    moreover have "billed_for (r # done) p p'" using more [OF billed] by (simp add: r)
    moreover have "case lost of None \<Rightarrow> remains = [] | Some f \<Rightarrow> (\<exists>before now rate. r # done = before @ [(now, rate, False)])
           \<and> py_total_paid p' + unat (pay_amount_nano_xor f) \<le> py_total_billed p'"
      using lost by (auto split: option.splits intro: exI [of _ "r # _"])
    moreover have "py_total_paid p' = py_total_paid p + (\<Sum>f\<leftarrow>frames. unat (pay_amount_nano_xor f))"
      using IH step(5) by (simp add: frames)
    moreover have "snd s' = snd s @ (if l = None then [] else map pay_amount_nano_xor (frames @ case_option [] (\<lambda>f. [f]) lost))"
      using IH moves by (simp add: frames same)
    ultimately show ?thesis using IH by blast
  qed
qed

text \<open>C13. The payment loop is exact. However often it runs and however the rate changes, it has billed what the time
  since it began costs, rounded down to a nano-XOR with the rest kept, up to its last round; it has counted as paid
  what it has announced, which is no more than it has billed; and with a ledger the amounts announced are the amounts
  the ledger has moved, up to one: when a round finds that the writer takes no more frames, the loop ends with a last
  amount that the ledger has moved and that is neither announced nor counted.\<close>

theorem pay_loop_exact:
  "case pay_rounds (recorded transfer) ledger rounds (pay_state_new start) (w, []) of (frames, lost, p, _, moved) \<Rightarrow>
     (\<exists>done rest. rounds = done @ rest
        \<and> py_total_billed p = min u128_max (due start done div 60000) \<and> py_remainder p = due start done mod 60000
        \<and> (case lost of
             None \<Rightarrow> rest = []
           | Some f \<Rightarrow> (\<exists>before now rate. done = before @ [(now, rate, False)])
               \<and> py_total_paid p + unat (pay_amount_nano_xor f) \<le> py_total_billed p))
     \<and> py_total_paid p = (\<Sum>f\<leftarrow>frames. unat (pay_amount_nano_xor f)) \<and> py_total_paid p \<le> py_total_billed p
     \<and> moved = (if ledger = None then [] else
          map pay_amount_nano_xor (frames @ (case lost of None \<Rightarrow> [] | Some f \<Rightarrow> [f])))"
proof -
  obtain frames lost p w' moved
    where run: "pay_rounds (recorded transfer) ledger rounds (pay_state_new start) (w, []) = (frames, lost, p, w', moved)"
    by (metis prod_cases5)
  have "pay_ok (pay_state_new start)" by (simp add: pay_ok_def pay_state_new_def)
  from pay_rounds_inv [OF this run] show ?thesis
    unfolding run by (simp add: pay_state_new_def pay_ok_def billed_for_def)
qed

text \<open>So money can move that nobody hears of: with the channel closed, a round that pays moves the amount on the ledger
  and ends the loop.\<close>

lemma unheard_payment:
  "pay_rounds (recorded (\<lambda>_ _ w. (Inr ''tx'', w))) (Some cfg) [(60000, 5, False)] (pay_state_new 0) ((), [])
     = ([], Some \<lparr>pay_sent_at_ms = 60000, pay_amount_nano_xor = 5, pay_tx_hash_hex = Some ''tx''\<rparr>,
        pay_bill 60000 5 (pay_state_new 0), ((), [5]))"
  by code_simp

text \<open>A round that pays leaves nothing open, unless more than a 64-bit amount was open.\<close>

theorem pay_round_settles:
  assumes "py_remainder p < 60000" "py_total_paid p \<le> py_total_billed p" "py_total_billed p \<le> u128_max"
    and "pay_round transfer ledger taken now rate p w = (Pay_Sent frame, lines, q, w')"
    and "py_total_billed q - py_total_paid p < 2 ^ 64"
  shows "py_total_paid q = py_total_billed q"
proof -
  have ok: "pay_ok p" using assms(1-3) by (simp add: pay_ok_def)
  show ?thesis
    using pay_round_effect [OF ok assms(4)] assms(5) pay_round_step(1) [OF ok assms(4)] pay_bill_exact(4) [OF assms(1)]
    by (auto simp: outstanding_def pay_ok_def pay_round_step(4) [OF ok assms(4)])
qed

lemma pay_round_settles_witness:
  "py_total_paid (pay_bill 60000 5 (pay_state_new 0)\<lparr>py_total_paid := 5\<rparr>)
    = py_total_billed (pay_bill 60000 5 (pay_state_new 0)\<lparr>py_total_paid := 5\<rparr>)"
  by (rule pay_round_settles [of "pay_state_new 0" "\<lambda>_ _ w. (Inl [], w)" None True 60000 5 "()"
      "\<lparr>pay_sent_at_ms = 60000, pay_amount_nano_xor = 5, pay_tx_hash_hex = None\<rparr>" "[]" _ "()"]; code_simp)

section \<open>Commands\<close>

lemma starts_with_append [simp]: "starts_with (p @ s) p"
  by (simp add: starts_with_def)

lemma starts_with_Cons [simp]:
  "starts_with (a # s) (b # p) \<longleftrightarrow> a = b \<and> starts_with s p" "starts_with s []" "\<not> starts_with [] (b # p)"
  by (auto simp: starts_with_def)

lemma strip_prefix_typed [simp]: "strip_prefix (p @ s) p = Some s"
  by (simp add: strip_prefix_def)

lemma or_else_None [simp]: "or_else None b = b" "or_else (Some x) b = Some x"
  by (simp_all add: or_else_def)

lemmas commands = media_command_def target_command_def moderation_command_def role_command_def policy_switch_def
  policy_command_def device_command_def e2ee_command_def Let_def

lemma chat_command:
  assumes "cmd \<noteq> []" "hd cmd \<noteq> CHR ''/''"
  shows "room_command X transfer c at_ms cmd st w = (Inr (chat_frame_of c at_ms cmd, st), [], w)"
  using assms by (cases cmd) (auto simp: room_command_def commands)

lemma end_command:
  "room_command X transfer c at_ms ''/end'' st w
     = (Inr (signed_moderation_frame X (rx_participant_id c) at_ms Target_All Action_Kick, st), [], w)"
  by (simp add: room_command_def commands)

lemma pay_line:
  "room_command X transfer c at_ms (''/pay '' @ v) st w = (case parse_uint (2 ^ 64 - 1) (str_trim v) of
     None \<Rightarrow> (Inl ''expected /pay <u64 nano-xor>'', [], w)
   | Some n \<Rightarrow> (case pay_command transfer c at_ms (of_nat n) w of (frame, lines, w) \<Rightarrow> (Inr (frame, st), lines, w)))"
proof -
  have "argument_of (''/pay '' @ v) ''/pay '' = str_trim v" by (simp add: argument_of_def unwrap_or_def del: append.simps)
  then show ?thesis by (simp add: room_command_def commands)
qed


text \<open>What is typed without a leading slash is sent as chat, word for word, and changes nothing.\<close>

theorem chat_line:
  assumes "rr_status r = Running" "rr_writer r = None" "str_trim line \<noteq> []" "hd (str_trim line) \<noteq> CHR ''/''"
  shows "room_event_step X transfer c (Typed at_ms line) r =
    r\<lparr>rr_sent := rr_sent r @ [K_Chat \<lparr>ch_sent_at_ms = at_ms, ch_from_participant_id = rx_participant_id c,
       ch_from_display_name = rx_display_name c, ch_text = str_trim line\<rparr>]\<rparr>"
proof -
  have "str_trim line \<noteq> ''/quit''" "str_trim line \<noteq> ''/end''" using assms(4) by auto
  then show ?thesis using assms by (simp add: room_event_step_def returned_def type_line_def sent_line_def Let_def chat_command chat_frame_of_def)
qed

definition demo_context :: room_context where
  "demo_context = \<lparr>rx_participant_id = ''h'', rx_display_name = None, rx_hdr_capture = False, rx_hdr_display = False,
     rx_pay_ledger = Some \<lparr>pl_iroha_bin = ''iroha'', pl_iroha_config = ''c'', pl_from = None, pl_to = ''t'',
       pl_asset_def = ''xor''\<rparr>, rx_pay_auto = False, rx_fixed_rate = True\<rparr>"

definition demo_run :: "string list list room_run" where
  "demo_run = \<lparr>rr_local = (room_local_new 0)\<lparr>rl_host_state := Host_Self\<rparr>, rr_world = [], rr_sent = [], rr_lines = [],
     rr_status = Running, rr_pay = None, rr_writer = None\<rparr>"

definition refuses :: "'w transfer" where
  "refuses cfg amount w = (Inl ''no funds'', w)"

lemma chat_line_witness:
  "room_event_step demo_ext refuses demo_context (Typed 7 '' hi '') demo_run =
    demo_run\<lparr>rr_sent := rr_sent demo_run @ [K_Chat \<lparr>ch_sent_at_ms = 7, ch_from_participant_id = ''h'',
       ch_from_display_name = None, ch_text = ''hi''\<rparr>]\<rparr>"
proof -
  have trim: "str_trim '' hi '' = ''hi''" by code_simp
  show ?thesis using chat_line [of demo_run "'' hi ''" demo_ext refuses demo_context 7]
    by (simp add: trim demo_run_def demo_context_def)
qed

text \<open>A manual payment whose transfer fails is announced to the room all the same, with its full amount and no
  transaction hash.\<close>

theorem failed_pay_still_announced:
  assumes "rx_pay_ledger c = Some cfg" "parse_uint (2 ^ 64 - 1) (str_trim v) = Some (unat amount)"
    and "transfer cfg amount w = (Inl e, w')"
  shows "room_command X transfer c at_ms (''/pay '' @ v) st w =
    (Inr (K_Payment \<lparr>pay_sent_at_ms = at_ms, pay_amount_nano_xor = amount, pay_tx_hash_hex = None\<rparr>, st),
     [Err (''payment transfer failed: '' @ e)], w')"
  using assms by (simp add: pay_line pay_command_def del: append.simps)

lemma failed_pay_still_announced_witness:
  "room_command demo_ext refuses demo_context 7 (''/pay '' @ ''12'') (room_local_new 0) () =
    (Inr (K_Payment \<lparr>pay_sent_at_ms = 7, pay_amount_nano_xor = 12, pay_tx_hash_hex = None\<rparr>, room_local_new 0),
     [Err (''payment transfer failed: '' @ ''no funds'')], ())"
proof -
  have number: "parse_uint (2 ^ 64 - 1) (str_trim ''12'') = Some (unat (12 :: u64))" by code_simp
  show ?thesis
    by (rule failed_pay_still_announced [OF _ number]) (simp_all add: demo_context_def refuses_def)
qed

section \<open>The end of a session\<close>

definition kick_all :: "ext \<Rightarrow> room_context \<Rightarrow> u64 \<Rightarrow> kaigi_frame" where
  "kick_all X c at_ms = signed_moderation_frame X (rx_participant_id c) at_ms Target_All Action_Kick"

lemma pay_turn_fields [simp]:
  "rr_status (pay_turn transfer c now r) = rr_status r" "rr_local (pay_turn transfer c now r) = rr_local r"
  "rr_writer (pay_turn transfer c now r) = rr_writer r"
  by (simp_all add: pay_turn_def split: option.split prod.split)

lemma pay_turn_sent: "\<exists>payments. rr_sent (pay_turn transfer c now r) = rr_sent r @ map K_Payment payments"
  by (auto simp: pay_turn_def split: option.split prod.split pay_outcome.split)
    (rule exI [of _ "[_]"], simp)

text \<open>What a step does to a run whose loop has ended.\<close>

lemma step_after_loop:
  assumes "rr_status r \<noteq> Running"
  shows "rr_status (room_event_step X transfer c ev r) = rr_status r"
    "\<exists>payments. rr_sent (room_event_step X transfer c ev r) = rr_sent r @ map K_Payment payments"
  using assms pay_turn_sent [of transfer c _ r]
  by (auto simp: room_event_step_def split: room_event.split prod.split)

definition ended_by_host :: "ext \<Rightarrow> 'w transfer \<Rightarrow> room_context \<Rightarrow> room_event list \<Rightarrow> 'w room_run \<Rightarrow> bool" where
  \<comment> \<open>the line \<open>/end\<close> of the participant the hub then named host last; it kicks everybody, and after that only payments
      are sent\<close>
  "ended_by_host X transfer c evs r \<longleftrightarrow> (\<exists>before at_ms line after payments. evs = before @ Typed at_ms line # after
     \<and> str_trim line = ''/end'' \<and> rl_host_state (rr_local (room_events X transfer c before r)) = Host_Self
     \<and> rr_sent (room_events X transfer c evs r) = rr_sent (room_events X transfer c before r) @
         [kick_all X c at_ms] @ map K_Payment payments)"

lemma end_needs_host:
  assumes "rr_status r = Running" and "rr_status (type_line X transfer c at_ms line r) = Left_Room True"
  shows "str_trim line = ''/end'' \<and> rl_host_state (rr_local r) = Host_Self
    \<and> rr_sent (type_line X transfer c at_ms line r) = rr_sent r @ [kick_all X c at_ms]"
proof -
  have input: "str_trim line = ''/end''"
    using assms by (auto simp: type_line_def sent_line_def Let_def split: if_splits prod.splits sum.splits)
  moreover have "rl_host_state (rr_local r) = Host_Self"
    using assms by (cases "rl_host_state (rr_local r)") (auto simp: type_line_def sent_line_def input end_command_gate_message_def)
  ultimately show ?thesis
    using assms by (auto simp: type_line_def sent_line_def end_command_gate_message_def end_command kick_all_def Let_def
        split: if_splits)
qed

lemma room_events_snoc [simp]:
  "room_events X transfer c (evs @ [ev]) r = room_event_step X transfer c ev (room_events X transfer c evs r)"
  by (simp add: room_events_def)

lemma room_events_end:
  assumes "rr_status r = Running" and "rr_status (room_events X transfer c evs r) = Left_Room True"
  shows "ended_by_host X transfer c evs r"
  using assms(2)
proof (induction evs rule: rev_induct)
  case Nil
  then show ?case using assms(1) by (simp add: room_events_def)
next
  case (snoc ev evs)
  let ?q = "room_events X transfer c evs r"
  show ?case
  proof (cases "rr_status ?q = Running")
    case True
    then obtain at_ms line where ev: "ev = Typed at_ms line" and run: "rr_status (type_line X transfer c at_ms line ?q) = Left_Room True"
      using snoc.prems by (cases ev) (auto simp: room_event_step_def returned_def split: prod.splits if_splits)
    from end_needs_host [OF True run] show ?thesis
      using True unfolding ended_by_host_def
      by (intro exI [of _ evs] exI [of _ at_ms] exI [of _ line] exI [of _ "[]"])
        (simp add: ev room_event_step_def returned_def)
  next
    case False
    note step = step_after_loop [OF False, of X transfer c ev]
    obtain more where more: "rr_sent (room_event_step X transfer c ev ?q) = rr_sent ?q @ map K_Payment more"
      using step(2) by blast
    obtain before at_ms line after payments where "evs = before @ Typed at_ms line # after" "str_trim line = ''/end''"
      "rl_host_state (rr_local (room_events X transfer c before r)) = Host_Self"
      "rr_sent ?q = rr_sent (room_events X transfer c before r) @ [kick_all X c at_ms] @ map K_Payment payments"
      using snoc.IH snoc.prems step(1) unfolding ended_by_host_def by auto
    moreover from this have "evs @ [ev] = before @ Typed at_ms line # (after @ [ev])" by simp
    moreover have "rr_sent (room_events X transfer c (evs @ [ev]) r) = rr_sent (room_events X transfer c before r) @
        [kick_all X c at_ms] @ map K_Payment (payments @ more)"
      using more calculation(4) by (simp only: room_events_snoc map_append append_assoc)
    ultimately show ?thesis
      unfolding ended_by_host_def by blast
  qed
qed

text \<open>The payment loop ends only when the writer has.\<close>

lemma step_paying:
  "rr_pay r \<noteq> None \<or> rr_writer r \<noteq> None \<Longrightarrow>
     rr_pay (room_event_step X transfer c ev r) \<noteq> None \<or> rr_writer (room_event_step X transfer c ev r) \<noteq> None"
proof -
  have "rr_pay (pay_turn transfer c now r) \<noteq> None" if "rr_pay r \<noteq> None" "rr_writer r = None" for now
    using that by (auto simp: pay_turn_def pay_round_def Let_def split: prod.splits option.splits sum.splits if_splits)
  then show "rr_pay r \<noteq> None \<or> rr_writer r \<noteq> None \<Longrightarrow> ?thesis"
    by (cases ev; cases "rr_writer r")
      (auto simp: room_event_step_def type_line_def sent_line_def Let_def case_prod_beta split: sum.split)
qed

lemma room_events_paying:
  "rr_pay r \<noteq> None \<or> rr_writer r \<noteq> None \<Longrightarrow>
     rr_pay (room_events X transfer c evs r) \<noteq> None \<or> rr_writer (room_events X transfer c evs r) \<noteq> None"
  unfolding room_events_def by (induction evs arbitrary: r) (simp, simp only: fold.simps o_apply step_paying)

definition closing_requests ::
    "(string \<Rightarrow> string list \<Rightarrow> string list list \<Rightarrow> process_output option) \<Rightarrow> auto_kaigi_lifecycle \<Rightarrow> u64 \<Rightarrow> u64 \<Rightarrow> u64
      \<Rightarrow> bool \<Rightarrow> string list list \<Rightarrow> string list list" where
  \<comment> \<open>the end of the call if it was asked for, the leave unless that end succeeded, then the usage\<close>
  "closing_requests answer lc now ended_at started end_requested log =
     (let end_cmd = request lc (call_args ''end'' (al_domain lc) (al_call_name lc) @ [''--ended-at-ms'', dec64 ended_at]);
          ended = (end_requested \<and> succeeds (answer (al_iroha_bin lc) end_cmd log));
          usage = call_args ''record-usage'' (al_domain lc) (al_call_name lc) @
            [''--duration-ms'', dec64 (sat_sub now started), ''--billed-gas'', dec64 (al_billed_gas lc)] @
            opt_arg ''--usage-commitment-hex'' (al_usage_commitment_hex lc) @
            opt_arg ''--proof-hex'' (al_usage_proof_hex lc) in
      (if end_requested then [end_cmd] else []) @ (if ended then [] else [request lc (auto_leave_args lc)]) @
        (if al_record_usage lc then [request lc usage] else []))"

text \<open>Only the participant the hub named host last ends the call from the line interface, and then by kicking
  everybody. A session that returns without an error asks the ledger to end the call exactly in that case, to leave it
  otherwise or when that fails, and to record the usage if wanted. But a session that an invalid command or a broken
  connection stops, or that waits for its payment loop, asks for nothing, so that the ledger keeps the participant in
  the call.\<close>

theorem session_closing:
  assumes "rr_status r = Running" "room_events X transfer c evs r = f"
    and "room_chat_end (logged answer) now ended_at (Some lc) started reader f = ((e, lines), log)"
  shows "log = rr_world f @ (if e = Returns None
       then closing_requests answer lc now ended_at started (rr_status f = Left_Room True) (rr_world f) else [])
    \<and> (e = Returns None \<longleftrightarrow>
         \<not> (\<exists>err. rr_status f = Failed err) \<and> rr_writer f = None \<and> rr_pay f = None \<and> reader = Reader_Ends)
    \<and> (rr_status f = Left_Room True \<longrightarrow> ended_by_host X transfer c evs r)"
proof -
  have "ended_by_host X transfer c evs r" if "rr_status f = Left_Room True"
    using room_events_end [OF assms(1)] assms(2) that by simp
  moreover have "snd (finalize_auto_kaigi_lifecycle (logged answer) now ended_at (Some lc) e started log)
      = log @ closing_requests answer lc now ended_at started e log" for e log
    unfolding finalize_requests closing_requests_def Let_def by simp
  ultimately show ?thesis
    using assms(3) by (cases "rr_status f"; cases reader; cases "rr_writer f")
      (auto simp: room_chat_end_def case_prod_beta split: if_splits)
qed

lemma session_closing_witness:
  "\<exists>f lines. rr_status f = Left_Room True \<and> ended_by_host demo_ext refuses demo_context [Typed 7 ''/end''] demo_run
    \<and> room_chat_end (logged (\<lambda>_ _ _. None)) 60 50 (Some demo_lifecycle) 0 Reader_Ends f
      = ((Returns None, lines), rr_world f @ closing_requests (\<lambda>_ _ _. None) demo_lifecycle 60 50 0 True (rr_world f))"
proof -
  let ?f = "room_events demo_ext refuses demo_context [Typed 7 ''/end''] demo_run"
  have "str_trim ''/end'' = ''/end''" by code_simp
  then have left: "rr_status ?f = Left_Room True" "rr_writer ?f = None" "rr_pay ?f = None"
    by (simp_all add: room_events_def room_event_step_def returned_def type_line_def sent_line_def demo_run_def
        end_command_gate_message_def end_command Let_def)
  obtain e lines log where out: "room_chat_end (logged (\<lambda>_ _ _. None)) 60 50 (Some demo_lifecycle) 0 Reader_Ends ?f
      = ((e, lines), log)" by (metis prod_cases3 surj_pair)
  have "rr_status demo_run = Running" by (simp add: demo_run_def)
  from session_closing [OF this refl out] left show ?thesis
    using out by (intro exI [of _ ?f] exI [of _ lines]) simp
qed

text \<open>Once the payment loop runs, no session returns without an error, whatever is typed and whatever happens: the
  writer it waits for ends only with an error. So \<open>/quit\<close> and \<open>/end\<close> never close the mirrored call.\<close>

lemma paying_session_never_ends:
  assumes "rr_pay r \<noteq> None"
  shows "fst (fst (room_chat_end spawn now ended_at lc started reader (room_events X transfer c evs r))) \<noteq> Returns None"
proof -
  let ?f = "room_events X transfer c evs r"
  have "rr_pay ?f \<noteq> None \<or> rr_writer ?f \<noteq> None"
    using room_events_paying assms by blast
  then show ?thesis
    by (auto simp: room_chat_end_def split: room_status.split option.split)
qed

theorem paying_session_never_closes:
  assumes "rr_pay r \<noteq> None"
  shows "fst (fst (room_chat_end spawn now ended_at lc started reader (room_events X transfer c evs r))) \<noteq> Returns None"
  by (rule paying_session_never_ends [OF assms])

lemma paying_session_never_closes_witness:
  "fst (fst (room_chat_end (logged (\<lambda>_ _ _. None)) 60 50 (Some demo_lifecycle) 0 Reader_Ends
     (room_events demo_ext refuses demo_context [Typed 7 ''/quit''] (demo_run\<lparr>rr_pay := Some (pay_state_new 0)\<rparr>)))) \<noteq> Returns None"
  by (rule paying_session_never_closes) simp

text \<open>A word that is neither on nor off, say, stops the session so.\<close>

theorem bad_argument_leaves_call_open:
  assumes "rr_status r = Running" "str_trim line = ''/mic '' @ v"
    and "str_trim v \<notin> {''on'', ''true'', ''1'', ''off'', ''false'', ''0''}"
  shows "room_chat_end spawn now ended_at lc started reader (room_events X transfer c (Typed at_ms line # evs) r)
    = ((Returns (Some ''expected on|off''), []), rr_world r)"
proof -
  have arg: "argument_of (''/mic '' @ v) ''/mic '' = str_trim v" by (simp add: argument_of_def unwrap_or_def del: append.simps)
  have "room_command X transfer c at_ms (''/mic '' @ v) st w = (Inl ''expected on|off'', [], w)" for st w
    using assms(3) arg by (simp add: room_command_def media_command_def Let_def parse_on_off_def)
  then have step: "room_event_step X transfer c (Typed at_ms line) r = r\<lparr>rr_status := Failed ''expected on|off''\<rparr>"
    using assms(1,2) by (simp add: room_event_step_def returned_def type_line_def sent_line_def Let_def)
  have "returned q \<Longrightarrow> room_events X transfer c evs q = q" for q
    unfolding room_events_def by (induction evs) (simp_all add: room_event_step_def)
  then show ?thesis by (simp add: room_events_def step room_chat_end_def returned_def)
qed

lemma bad_argument_leaves_call_open_witness:
  "room_chat_end (logged (\<lambda>_ _ _. None)) 60 50 (Some demo_lifecycle) 0 Reader_Open
     (room_events demo_ext refuses demo_context [Typed 7 ''/mic maybe''] demo_run) = ((Returns (Some ''expected on|off''), []), [])"
proof -
  have trim: "str_trim ''/mic maybe'' = ''/mic '' @ ''maybe''" "str_trim ''maybe'' = ''maybe''" by code_simp+
  show ?thesis
    using bad_argument_leaves_call_open [OF _ trim(1), of demo_run "logged (\<lambda>_ _ _. None)" 60 50 "Some demo_lifecycle" 0
        Reader_Open demo_ext refuses demo_context 7 "[]"] trim(2)
    by (simp add: demo_run_def)
qed

end
