(* ===== verification/Cli_Conference_Safety.thy ===== *)
theory Cli_Conference_Safety
  imports Cli_Conference Cli_Anon_Safety Cli_Room_Safety
begin

text \<open>
  What the conference interface of the command line client guarantees: its settings stay valid, media leave an
  anonymous room's member only sealed and reach the others, packets are numbered without a gap, and what ends the
  reader; and that ending the call is open to everybody there.
\<close>

section \<open>The controls\<close>

definition controls_ok :: "conference_controls \<Rightarrow> bool" where
  \<comment> \<open>what the tables of the view and the profiles need, and at most one video source\<close>
  "controls_ok c \<longleftrightarrow> cc_density_idx c \<le> 4 \<and> cc_theme_idx c < length DASHBOARD_THEMES \<and> cc_luma_boost_level c \<le> 3
     \<and> (\<forall>level. cc_adaptive_override c = Some level \<longrightarrow> level \<le> 3) \<and> \<not> (cc_camera_enabled c \<and> cc_share_enabled c)
     \<and> cc_focus_idx c \<le> usize_max"

lemma control_of_simps [simp]: "co_controls (control_of c l) = c" "co_controls (media_changed c) = c"
  by (simp_all add: control_of_def media_changed_def)

lemma cycled_ok [simp]:
  "cycle_density_idx i \<le> 4" "cycle_dashboard_theme i < length DASHBOARD_THEMES" "cycle_luma_boost_level b \<le> 3"
  by (simp_all add: cycle_density_idx_def cycle_dashboard_theme_def DASHBOARD_THEMES_def cycle_luma_boost_level_def)

lemma cycle_override_ok: "cycle_adaptive_override x = Some level \<Longrightarrow> level \<le> 3"
  by (simp add: cycle_adaptive_override_def split: if_splits)

lemma shortcut_ok: "adaptive_override_from_shortcut s = Some (Some level) \<Longrightarrow> level \<le> 3"
  unfolding adaptive_override_from_shortcut_def by (simp split: if_splits)

definition result_ok :: "control_result option \<Rightarrow> bool" where
  "result_ok r \<longleftrightarrow> (case r of None \<Rightarrow> True | Some r \<Rightarrow> controls_ok (co_controls r))"

lemma result_ok_if: "result_ok x \<Longrightarrow> result_ok y \<Longrightarrow> result_ok (if b then x else y)"
  and result_ok_Some: "controls_ok (co_controls r) \<Longrightarrow> result_ok (Some r)"
  and result_ok_None: "result_ok None"
  by (simp_all add: result_ok_def)

lemmas result_oks = result_ok_if result_ok_Some result_ok_None

lemma media_control_ok: "controls_ok c \<Longrightarrow> result_ok (media_control input c)"
  unfolding media_control_def Let_def
  by (intro result_oks) (auto simp: controls_ok_def result_ok_def dest: cycle_override_ok shortcut_ok split: option.split)

lemma effect_control_ok: "controls_ok c \<Longrightarrow> result_ok (effect_control input c)"
  unfolding effect_control_def by (intro result_oks) (simp_all add: controls_ok_def)

lemma view_control_ok: "controls_ok c \<Longrightarrow> result_ok (view_control input c)"
  unfolding view_control_def Let_def by (intro result_oks) (auto simp: controls_ok_def control_of_def intro: order_trans [OF diff_le_self])

lemma conference_control_ok: "controls_ok c \<Longrightarrow> controls_ok (co_controls (conference_control input c))"
  using media_control_ok [of c input] effect_control_ok [of c input] view_control_ok [of c input]
  by (auto simp: conference_control_def or_else_def result_ok_def split: option.splits)

definition conference_inputs ::
    "'w write_file \<Rightarrow> bool \<Rightarrow> string \<Rightarrow> (u64 \<times> string) list \<Rightarrow> 'w conference_run \<Rightarrow> 'w conference_run" where
  "conference_inputs write_file anonymous_mode local_id inputs r =
     fold (\<lambda>(now, input). conference_input write_file anonymous_mode local_id now input) inputs r"

lemma conference_input_controls:
  "cf_controls (cr_state (conference_input wfile anon i now input r)) =
     (if cr_status r \<noteq> Running \<or> input \<in> {[], ''q'', ''/quit'', ''/end''} then cf_controls (cr_state r)
      else co_controls (conference_control input (cf_controls (cr_state r))))"
  by (simp add: conference_input_def Let_def case_prod_beta)

text \<open>Whatever is typed or pressed, the settings stay valid: density, theme, boost and profile stay in their tables, and
  the camera and the screen share are never on together.\<close>

theorem controls_stay_valid:
  "let c = cf_controls (cr_state (conference_inputs write_file anonymous_mode local_id inputs
       \<lparr>cr_state = conference_new, cr_files = w, cr_sent = [], cr_lines = [], cr_status = Running\<rparr>)) in
   cc_density_idx c \<le> 4 \<and> cc_theme_idx c < length DASHBOARD_THEMES \<and> cc_luma_boost_level c \<le> 3
   \<and> (case cc_adaptive_override c of None \<Rightarrow> True | Some level \<Rightarrow> level \<le> 3)
   \<and> \<not> (cc_camera_enabled c \<and> cc_share_enabled c)"
proof -
  have step: "controls_ok (cf_controls (cr_state r)) \<Longrightarrow>
      controls_ok (cf_controls (cr_state (conference_inputs write_file anonymous_mode local_id inputs r)))" for r
    unfolding conference_inputs_def
    by (induction inputs arbitrary: r) (auto simp: conference_input_controls conference_control_ok)
  have "controls_ok (cf_controls conference_new)"
    by (simp add: controls_ok_def conference_new_def controls_new_def DASHBOARD_THEMES_def usize_max_def)
  then show ?thesis
    using step [of "\<lparr>cr_state = conference_new, cr_files = w, cr_sent = [], cr_lines = [], cr_status = Running\<rparr>"]
    by (auto simp: controls_ok_def Let_def split: option.split)
qed


text \<open>Ending: unlike the line interface, the conference lets any participant end the call: the key ends the session with
  the request to end the call on the ledger, whoever is host, and tells the hub nothing.\<close>

theorem conference_end_ungated:
  assumes "cr_status r = Running"
  shows "conference_input write_file anonymous_mode local_id now ''/end'' r = r\<lparr>cr_status := Left_Room True\<rparr>
    \<and> request lc (call_args ''end'' (al_domain lc) (al_call_name lc) @ [''--ended-at-ms'', dec64 ended_at])
      \<in> set (snd (conference_end (logged answer) later ended_at (Some lc) started True log))"
  using assms by (simp add: conference_input_def conference_end_def finalize_requests Let_def)

section \<open>The media sender\<close>

definition packet_bytes :: "('a, 'w) media_ext \<Rightarrow> string \<Rightarrow> anonymous_payload_kind \<Rightarrow> bytes \<Rightarrow> bool" where
  \<comment> \<open>the encoding of a picture or of a sound of this sender\<close>
  "packet_bytes M local_id kind plaintext \<longleftrightarrow> (case kind of
     Anon_VideoSegment \<Rightarrow> (\<exists>packet. vs_participant_id packet = local_id \<and> mx_video_to_bytes M packet = Inr plaintext)
   | Anon_AudioPacket \<Rightarrow> (\<exists>packet. ap_participant_id packet = local_id \<and> mx_audio_to_bytes M packet = Inr plaintext)
   | Anon_Control \<Rightarrow> False)"

definition sealed_for ::
    "ext \<Rightarrow> crypto \<Rightarrow> ('a, 'w) media_ext \<Rightarrow> string \<Rightarrow> u64 \<Rightarrow> bytes \<Rightarrow> conference \<Rightarrow> anonymous_payload_kind \<Rightarrow> kaigi_frame \<Rightarrow> bool" where
  \<comment> \<open>an envelope of this sender that holds a packet of the kind, sealed with the group key of the state and the nonce; the
      handle, the epoch and the kind are bound to it\<close>
  "sealed_for X C M local_id now nonce cf kind f \<longleftrightarrow> (\<exists>key plaintext ciphertext.
     cf_group_key cf = Some key \<and> 0 < cf_group_epoch cf \<and> packet_bytes M local_id kind plaintext
     \<and> cr_seal C key nonce (group_aad local_id (cf_group_epoch cf) kind) plaintext = Some ciphertext
     \<and> f = K_AnonEncryptedPayload \<lparr>ae_sent_at_ms = now, ae_sender_handle = local_id, ae_epoch = cf_group_epoch cf,
         ae_kind = kind, ae_nonce_hex = hex_encode X nonce, ae_ciphertext_hex = hex_encode X ciphertext\<rparr>)"

lemma media_envelope_sealed:
  assumes "media_envelope X C True local_id now nonce cf kind encoded packet = Inr (Some f)"
    and "\<And>plaintext. encoded = Inr plaintext \<Longrightarrow> packet_bytes M local_id kind plaintext"
  shows "sealed_for X C M local_id now nonce cf kind f"
  using assms
  by (auto simp: media_envelope_def try_bind_def encrypt_anon_group_payload_def map_sum_def sealed_for_def
      split: option.splits if_splits sum.splits)

lemma media_adapt_group [simp]:
  "cf_group_key (media_adapt cf) = cf_group_key cf" "cf_group_epoch (media_adapt cf) = cf_group_epoch cf"
  by (simp_all add: media_adapt_def case_prod_beta)

lemma media_send_video_result:
  assumes "media_send_video X C M anon local_id now nonce current cf md = Inr (sent, cf', md')"
  shows "cf_group_key cf' = cf_group_key cf \<and> cf_group_epoch cf' = cf_group_epoch cf \<and> md_audio_seq md' = md_audio_seq md
    \<and> (sent = None \<and> md' = md \<or> (\<exists>packet. vs_segment_number packet = sat_add (md_video_seq md) 1
      \<and> vs_participant_id packet = local_id \<and> md_video_seq md' = sat_add (md_video_seq md) 1
      \<and> media_envelope X C anon local_id now nonce cf Anon_VideoSegment (mx_video_to_bytes M packet) (K_VideoSegment packet)
        = Inr sent))"
  using assms
  by (auto simp: media_send_video_def Let_def try_bind_def split: if_splits prod.splits sum.splits)


lemma media_send_audio_result:
  assumes "media_send_audio X C M anon local_id now nonce current cf md = Inr (sent, cf', md')"
  shows "md_video_seq md' = md_video_seq md
    \<and> (sent = None \<and> md' = md \<or> (\<exists>packet. ap_sequence packet = md_audio_seq md
      \<and> ap_participant_id packet = local_id \<and> md_audio_seq md' = sat_add (md_audio_seq md) 1
      \<and> media_envelope X C anon local_id now nonce cf Anon_AudioPacket (mx_audio_to_bytes M packet) (K_AudioPacket packet)
        = Inr sent))"
  using assms
  by (auto simp: media_send_audio_def Let_def try_bind_def split: if_splits prod.splits sum.splits)

lemma media_tick_parts:
  assumes "media_tick X C M anon local_id now nonce1 nonce2 cf md = Inr (frames, lines, cf', md')"
  obtains (paused) "frames = []" "md_video_seq md' = md_video_seq md" "md_audio_seq md' = md_audio_seq md"
  | (sent) video audio cf1 md0 md1 where "frames = case_option [] (\<lambda>f. [f]) video @ case_option [] (\<lambda>f. [f]) audio"
      "md_video_seq md0 = md_video_seq md" "md_audio_seq md0 = md_audio_seq md"
      "media_send_video X C M anon local_id now nonce1 (cf_controls cf) (media_adapt cf) md0 = Inr (video, cf1, md1)"
      "media_send_audio X C M anon local_id now nonce2 (cf_controls cf) cf1 md1 = Inr (audio, cf', md')"
proof -
  obtain l md0 where tune: "media_retune M (cf_telemetry (media_adapt cf)) md = (l, md0)" by fastforce
  have seqs: "md_video_seq md0 = md_video_seq md" "md_audio_seq md0 = md_audio_seq md"
    using tune by (auto simp: media_retune_def Let_def split: if_splits)
  show thesis
  proof (cases "cc_paused (cf_controls cf)")
    case True
    then show thesis using assms tune seqs paused by (auto simp: media_tick_def Let_def)
  next
    case False
    then show thesis using assms tune seqs sent
      by (auto simp: media_tick_def Let_def try_bind_def split: sum.splits prod.splits)
  qed
qed

text \<open>C27. In an anonymous room no picture and no sound leaves in the clear: whatever the state, a tick of the media sender
  sends at most a picture and a sound, each as an envelope under the sender's own handle, epoch and kind whose ciphertext
  is the encoded packet sealed with the current group key under the fresh nonce of that packet; and nothing before there
  is a key and an epoch.\<close>

theorem anonymous_media_sealed:
  assumes "media_tick X C M True local_id now nonce1 nonce2 cf md = Inr (frames, lines, cf', md')"
  shows "\<exists>video audio. frames = case_option [] (\<lambda>f. [f]) video @ case_option [] (\<lambda>f. [f]) audio
    \<and> (\<forall>f \<in> set_option video. sealed_for X C M local_id now nonce1 cf Anon_VideoSegment f)
    \<and> (\<forall>f \<in> set_option audio. sealed_for X C M local_id now nonce2 cf Anon_AudioPacket f)"
  using assms
proof (cases rule: media_tick_parts)
  case paused
  then show ?thesis by (auto intro!: exI [of _ None])
next
  case (sent video audio cf1 md0 md1)
  note v = media_send_video_result [OF sent(4)] and a = media_send_audio_result [OF sent(5)]
  have "sealed_for X C M local_id now nonce1 (media_adapt cf) Anon_VideoSegment f" if "video = Some f" for f
    using v that by (auto simp: packet_bytes_def elim!: media_envelope_sealed)
  moreover have "sealed_for X C M local_id now nonce2 cf1 Anon_AudioPacket f" if "audio = Some f" for f
    using a that by (auto simp: packet_bytes_def elim!: media_envelope_sealed)
  moreover have "sealed_for X C M i now n cf1 kind f = sealed_for X C M i now n cf kind f"
    "sealed_for X C M i now n (media_adapt cf) kind f = sealed_for X C M i now n cf kind f" for i n kind f
    using v by (simp_all add: sealed_for_def)
  ultimately have "\<forall>f \<in> set_option video. sealed_for X C M local_id now nonce1 cf Anon_VideoSegment f"
    "\<forall>f \<in> set_option audio. sealed_for X C M local_id now nonce2 cf Anon_AudioPacket f"
    by auto
  then show ?thesis using sent(1) by blast
qed

section \<open>Numbers\<close>

fun media_run ::
    "ext \<Rightarrow> crypto \<Rightarrow> ('a, 'w) media_ext \<Rightarrow> string \<Rightarrow> (u64 \<times> conference) list \<Rightarrow> 'w media_sender \<Rightarrow> kaigi_frame list" where
  \<comment> \<open>the frames of a transparent sender over ticks, each with its clock and the shared state it finds, up to an error\<close>
  "media_run X C M local_id [] md = []"
| "media_run X C M local_id ((now, cf) # ticks) md = (case media_tick X C M False local_id now [] [] cf md of
     Inl _ \<Rightarrow> []
   | Inr (frames, _, _, md) \<Rightarrow> frames @ media_run X C M local_id ticks md)"

definition video_numbers :: "kaigi_frame list \<Rightarrow> u64 list" where
  "video_numbers = List.map_filter (\<lambda>f. case f of K_VideoSegment s \<Rightarrow> Some (vs_segment_number s) | _ \<Rightarrow> None)"

definition audio_numbers :: "kaigi_frame list \<Rightarrow> u64 list" where
  "audio_numbers = List.map_filter (\<lambda>f. case f of K_AudioPacket p \<Rightarrow> Some (ap_sequence p) | _ \<Rightarrow> None)"

lemma numbers_simps [simp]:
  "video_numbers [] = []" "audio_numbers [] = []"
  "video_numbers (xs @ ys) = video_numbers xs @ video_numbers ys" "audio_numbers (xs @ ys) = audio_numbers xs @ audio_numbers ys"
  "video_numbers [K_VideoSegment s] = [vs_segment_number s]" "video_numbers [K_AudioPacket p] = []"
  "audio_numbers [K_AudioPacket p] = [ap_sequence p]" "audio_numbers [K_VideoSegment s] = []"
  by (simp_all add: video_numbers_def audio_numbers_def List.map_filter_def)

lemma media_tick_numbers:
  assumes "media_tick X C M False local_id now nonce1 nonce2 cf md = Inr (frames, lines, cf', md')"
  shows "(video_numbers frames = [] \<and> md_video_seq md' = md_video_seq md
      \<or> video_numbers frames = [sat_add (md_video_seq md) 1] \<and> md_video_seq md' = sat_add (md_video_seq md) 1)
    \<and> (audio_numbers frames = [] \<and> md_audio_seq md' = md_audio_seq md
      \<or> audio_numbers frames = [md_audio_seq md] \<and> md_audio_seq md' = sat_add (md_audio_seq md) 1)"
  using assms
proof (cases rule: media_tick_parts)
  case (sent video audio cf1 md0 md1)
  show ?thesis
    using media_send_video_result [OF sent(4)] media_send_audio_result [OF sent(5)]
    by (auto simp: sent(1-3) media_envelope_def)
qed simp


definition counts_from :: "nat \<Rightarrow> u64 list \<Rightarrow> bool" where
  \<comment> \<open>the numbers are \<open>m\<close>, \<open>m + 1\<close> and so on\<close>
  "counts_from m xs \<longleftrightarrow> (map unat xs = [m..<m + length xs])"

lemma counts_from_Nil [simp]: "counts_from m []"
  by (simp add: counts_from_def)

lemma counts_from_Cons: "unat x = m \<Longrightarrow> counts_from (Suc m) xs \<Longrightarrow> counts_from m (x # xs)"
  by (simp add: counts_from_def upt_conv_Cons del: upt_Suc)

lemma media_run_numbers:
  assumes "unat (md_video_seq md) + length ticks < 2 ^ 64" "unat (md_audio_seq md) + length ticks < 2 ^ 64"
  shows "counts_from (Suc (unat (md_video_seq md))) (video_numbers (media_run X C M local_id ticks md))
    \<and> counts_from (unat (md_audio_seq md)) (audio_numbers (media_run X C M local_id ticks md))"
  using assms
proof (induction ticks arbitrary: md)
  case Nil
  then show ?case by simp
next
  case (Cons tick ticks)
  obtain now cf where tick: "tick = (now, cf)" by force
  show ?case
  proof (cases "media_tick X C M False local_id now [] [] cf md")
    case (Inl e)
    then show ?thesis by (simp add: tick)
  next
    case (Inr r)
    obtain frames lines cf' md' where r: "r = (frames, lines, cf', md')" by (metis prod_cases4)
    note numbers = media_tick_numbers [OF Inr [unfolded r]]
    have next_seq: "unat (sat_add x 1) = Suc (unat x)" if "unat x + length (tick # ticks) < 2 ^ 64" for x :: u64
      using that by (simp add: unat_sat_add)
    note next_video = next_seq [OF Cons.prems(1)] and next_audio = next_seq [OF Cons.prems(2)]
    have bounds: "unat (md_video_seq md') + length ticks < 2 ^ 64" "unat (md_audio_seq md') + length ticks < 2 ^ 64"
      using numbers next_video next_audio Cons.prems by auto
    have run: "media_run X C M local_id (tick # ticks) md = frames @ media_run X C M local_id ticks md'"
      by (simp add: tick Inr r)
    show ?thesis
      using numbers Cons.IH [OF bounds] next_video next_audio by (auto simp: run intro!: counts_from_Cons)
  qed
qed

text \<open>C34. A transparent sender numbers its pictures 1, 2, 3 and so on and its sounds 0, 1, 2 and so on, without a gap, however
  its sources are switched and its profile changes.\<close>

theorem media_numbers_consecutive:
  assumes "length ticks < 2 ^ 64"
  shows "counts_from 1 (video_numbers (media_run X C M local_id ticks (media_sender_new M w)))
    \<and> counts_from 0 (audio_numbers (media_run X C M local_id ticks (media_sender_new M w)))"
  using media_run_numbers [of "media_sender_new M w" ticks X C M local_id] assms by (simp add: media_sender_new_def)

section \<open>The reader\<close>

definition undecodable :: "('a, 'w) media_ext \<Rightarrow> u64 \<Rightarrow> kaigi_frame \<Rightarrow> bool" where
  "undecodable M now frame \<longleftrightarrow> (case frame of
     K_VideoSegment s \<Rightarrow> isl (decode_ascii_video_segment M now s)
   | K_AudioPacket p \<Rightarrow> isl (decode_audio_level M p)
   | _ \<Rightarrow> False)"

definition envelope_content :: "('a, 'w) media_ext \<Rightarrow> anonymous_payload_kind \<Rightarrow> bytes \<Rightarrow> kaigi_frame option" where
  "envelope_content M kind plaintext = (case kind of
     Anon_VideoSegment \<Rightarrow> map_option K_VideoSegment (mx_video_of_bytes M plaintext)
   | Anon_AudioPacket \<Rightarrow> map_option K_AudioPacket (mx_audio_of_bytes M plaintext)
   | Anon_Control \<Rightarrow> None)"

lemma isl_try_Inr: "isl (try_bind x (\<lambda>a. Inr (f a))) = isl x"
  by (cases x) (simp_all add: try_bind_def)

lemma isl_map_sum: "isl (map_sum f g x) = isl x"
  by (cases x) simp_all

text \<open>C35. What ends the reader: only a picture or a sound that does not decode, in the clear or in an envelope of the current
  or a later epoch, an envelope of these that does not open, and a group key that is not hex.\<close>

theorem reader_ends_iff:
  "isl (conference_receive X C M now frame cf) \<longleftrightarrow> undecodable M now frame \<or> (case frame of
     K_AnonGroupKeyRotate update \<Rightarrow> isl (hex_vec_with X (kr_key_wrap_hex update))
   | K_AnonEncryptedPayload enc \<Rightarrow> (case cf_group_key cf of
         None \<Rightarrow> False
       | Some key \<Rightarrow> cf_group_epoch cf \<noteq> 0 \<and> ae_epoch enc \<noteq> 0 \<and> cf_group_epoch cf \<le> ae_epoch enc
           \<and> (case decrypt_anon_group_payload X C key (ae_sender_handle enc) enc of
               Inl _ \<Rightarrow> True
             | Inr plaintext \<Rightarrow> (case envelope_content M (ae_kind enc) plaintext of
                 None \<Rightarrow> False | Some content \<Rightarrow> undecodable M now content)))
   | _ \<Rightarrow> False)"
proof (cases frame)
  case (K_AnonEncryptedPayload enc)
  show ?thesis
  proof (cases "cf_group_key cf")
    case None
    then show ?thesis by (simp add: K_AnonEncryptedPayload conference_receive_def receive_envelope_def undecodable_def)
  next
    case (Some key)
    show ?thesis
      by (cases "decrypt_anon_group_payload X C key (ae_sender_handle enc) enc"; cases "ae_kind enc")
        (auto simp: K_AnonEncryptedPayload Some conference_receive_def receive_envelope_def undecodable_def isl_map_sum
          try_bind_def [of "Inl _"] try_bind_def [of "Inr _"] envelope_content_def receive_video_def receive_audio_def isl_try_Inr
          not_less split: option.split)
  qed
qed (auto simp: conference_receive_def undecodable_def Let_def isl_map_sum isl_try_Inr receive_video_def receive_audio_def
    derive_anon_group_key_def split: room_event_frame.split)


text \<open>In particular an envelope that does not open ends the reader of every member that has the group key, though any
  member may send one: the frames that follow are not read.\<close>

fun conference_reads ::
    "ext \<Rightarrow> crypto \<Rightarrow> ('a, 'w) media_ext \<Rightarrow> (u64 \<times> kaigi_frame) list \<Rightarrow> conference
      \<Rightarrow> (string option \<times> console list) \<times> conference" where
  \<comment> \<open>the loop of the reader over frames with their clock\<close>
  "conference_reads X C M [] cf = ((None, []), cf)"
| "conference_reads X C M ((now, frame) # frames) cf = (case conference_receive X C M now frame cf of
     Inl e \<Rightarrow> ((Some e, []), cf)
   | Inr (lines, cf) \<Rightarrow> (case conference_reads X C M frames cf of ((e, rest), cf) \<Rightarrow> ((e, lines @ rest), cf)))"

theorem bad_envelope_ends_reader:
  assumes "cf_group_key cf = Some key" "cf_group_epoch cf \<noteq> 0" "cf_group_epoch cf \<le> ae_epoch enc"
    and "hex_decode X (str_trim (ae_nonce_hex enc)) = None"
  shows "conference_reads X C M ((now, K_AnonEncryptedPayload enc) # frames) cf = ((Some ''decode hex'', []), cf)"
proof -
  have "ae_epoch enc \<noteq> 0" using assms(2,3) by (metis word_le_0_iff)
  then have "conference_receive X C M now (K_AnonEncryptedPayload enc) cf = Inl ''decode hex''"
    using assms by (simp add: conference_receive_def Let_def receive_envelope_def decrypt_anon_group_payload_def
        hex_vec_with_def try_bind_def not_less)
  then show ?thesis by simp
qed

section \<open>Media from member to member\<close>

definition codec_law :: "('a, 'w) media_ext \<Rightarrow> bool" where
  \<comment> \<open>what the encoding promises: a packet is decoded to itself\<close>
  "codec_law M \<longleftrightarrow> (\<forall>p b. mx_video_to_bytes M p = Inr b \<longrightarrow> mx_video_of_bytes M b = Some p)
     \<and> (\<forall>p b. mx_audio_to_bytes M p = Inr b \<longrightarrow> mx_audio_of_bytes M b = Some p)"

lemma sealed_opens:
  assumes "hex_laws X" "crypto_laws C" "length nonce = 24" "cf_group_key cf = Some key" "cf_group_epoch cf \<noteq> 0"
    and "encrypt_anon_group_payload X C sent_at nonce key i (cf_group_epoch cf) kind plaintext = Inr wrapped"
  shows "decrypt_anon_group_payload X C key (ae_sender_handle wrapped) wrapped = Inr plaintext"
    "ae_kind wrapped = kind" "ae_epoch wrapped = cf_group_epoch cf"
  using group_envelope_opens [OF assms(1-3) assms(6)] assms(6)
  by (auto simp: encrypt_anon_group_payload_def split: option.splits)

lemma envelope_of_packet:
  assumes "media_envelope X C True i sent_at nonce cf kind encoded packet = Inr (Some frame)"
  obtains key plaintext wrapped where "cf_group_key cf = Some key" "cf_group_epoch cf \<noteq> 0" "encoded = Inr plaintext"
    "encrypt_anon_group_payload X C sent_at nonce key i (cf_group_epoch cf) kind plaintext = Inr wrapped"
    "frame = K_AnonEncryptedPayload wrapped"
  using assms by (fastforce simp: media_envelope_def try_bind_def map_sum_def split: option.splits if_splits sum.splits)

lemma envelope_received:
  assumes "hex_laws X" "crypto_laws C" "length nonce = 24"
    and "cf_group_key cf = cf_group_key peer" "cf_group_epoch cf = cf_group_epoch peer"
    and "media_envelope X C True i sent_at nonce cf kind encoded packet = Inr (Some frame)"
  obtains plaintext wrapped where "encoded = Inr plaintext" "frame = K_AnonEncryptedPayload wrapped"
    "receive_envelope X C M now wrapped peer = (case kind of
       Anon_VideoSegment \<Rightarrow> (case mx_video_of_bytes M plaintext of
           None \<Rightarrow> Inr peer | Some segment \<Rightarrow> receive_video M now segment peer)
     | Anon_AudioPacket \<Rightarrow> (case mx_audio_of_bytes M plaintext of
           None \<Rightarrow> Inr peer | Some packet \<Rightarrow> receive_audio M now packet peer)
     | Anon_Control \<Rightarrow> Inr peer)"
proof -
  obtain key plaintext wrapped where key: "cf_group_key cf = Some key" "cf_group_epoch cf \<noteq> 0"
    and plain: "encoded = Inr plaintext" and frame: "frame = K_AnonEncryptedPayload wrapped"
    and wrapped: "encrypt_anon_group_payload X C sent_at nonce key i (cf_group_epoch cf) kind plaintext = Inr wrapped"
    using envelope_of_packet [OF assms(6)] by metis
  note sealed = sealed_opens [OF assms(1-3) key wrapped]
  show thesis
    by (rule that [OF plain frame]) (use sealed key assms(4,5) in \<open>simp add: receive_envelope_def try_bind_def\<close>)
qed

text \<open>C28. Media reach the members: to a member that has the sender's group key and epoch, the envelope of a picture is what
  the picture itself would be to it in a transparent room, and the envelope of a sound what the sound itself would be.\<close>

theorem media_reaches_member:
  assumes "hex_laws X" "crypto_laws C" "codec_law M" "length nonce = 24"
    and "cf_group_key cf = cf_group_key peer" "cf_group_epoch cf = cf_group_epoch peer"
  shows "(media_envelope X C True i sent_at nonce cf Anon_VideoSegment (mx_video_to_bytes M segment) (K_VideoSegment segment)
        = Inr (Some frame)
      \<longrightarrow> conference_receive X C M now frame peer = conference_receive X C M now (K_VideoSegment segment) peer)
    \<and> (media_envelope X C True i sent_at nonce cf Anon_AudioPacket (mx_audio_to_bytes M packet) (K_AudioPacket packet)
        = Inr (Some frame)
      \<longrightarrow> conference_receive X C M now frame peer = conference_receive X C M now (K_AudioPacket packet) peer)"
proof (intro conjI impI)
  note received = envelope_received [OF assms(1,2,4-6), of i sent_at _ _ _ frame M now]
  show "conference_receive X C M now frame peer = conference_receive X C M now (K_VideoSegment segment) peer"
    if "media_envelope X C True i sent_at nonce cf Anon_VideoSegment (mx_video_to_bytes M segment) (K_VideoSegment segment)
        = Inr (Some frame)"
    by (rule received [OF that]) (use assms(3) in \<open>auto simp: conference_receive_def codec_law_def\<close>)
  show "conference_receive X C M now frame peer = conference_receive X C M now (K_AudioPacket packet) peer"
    if "media_envelope X C True i sent_at nonce cf Anon_AudioPacket (mx_audio_to_bytes M packet) (K_AudioPacket packet)
        = Inr (Some frame)"
    by (rule received [OF that]) (use assms(3) in \<open>auto simp: conference_receive_def codec_law_def\<close>)
qed

section \<open>Concrete runs\<close>

definition demo_media :: "(unit, unit) media_ext" where
  \<comment> \<open>one picture for every segment; packets are encoded by their number\<close>
  "demo_media = \<lparr>mx_video_frames = (\<lambda>bs. if bs = [] then Inl ''empty'' else Inr (2, 2, [bs])), mx_audio_frame = (\<lambda>_. Inr ()),
     mx_pcm = (\<lambda>_ _ _ _. Inr [3]), mx_video_of_bytes = (\<lambda>_. None), mx_audio_of_bytes = (\<lambda>_. None),
     mx_video_to_bytes = (\<lambda>_. Inl ''closed''), mx_audio_to_bytes = (\<lambda>_. Inl ''closed''), mx_new_encoder = (\<lambda>_ _ w. w),
     mx_encode_video = (\<lambda>_ _ _ _ w. (Inr [1], w)), mx_tone = (\<lambda>_ w. ([3], w)), mx_encode_audio = (\<lambda>_ _ _ w. (Inr [2], w))\<rparr>"

definition demo_packet :: video_segment_frame where
  "demo_packet = \<lparr>vs_sent_at_ms = 9, vs_participant_id = ''ann'', vs_segment_number = 4, vs_frame_width = 2,
     vs_frame_height = 2, vs_frame_duration_ns = 1, vs_payload = [7]\<rparr>"

definition demo_sound :: audio_packet_frame where
  "demo_sound = \<lparr>ap_sent_at_ms = 9, ap_participant_id = ''ann'', ap_sequence = 2, ap_sample_rate = 48000, ap_channels = 2,
     ap_frame_samples = 240, ap_payload = [8]\<rparr>"

definition demo_codec :: "(unit, unit) media_ext" where
  \<comment> \<open>an encoding of one picture and of one sound\<close>
  "demo_codec = demo_media\<lparr>mx_video_to_bytes := \<lambda>p. if p = demo_packet then Inr [1] else Inl ''too large'',
     mx_video_of_bytes := \<lambda>b. if b = [1] then Some demo_packet else None,
     mx_audio_to_bytes := \<lambda>p. if p = demo_sound then Inr [2] else Inl ''too large'',
     mx_audio_of_bytes := \<lambda>b. if b = [2] then Some demo_sound else None\<rparr>"

definition demo_group :: conference where
  "demo_group = conference_new\<lparr>cf_group_epoch := 3, cf_group_key := Some [9],
     cf_controls := controls_new\<lparr>cc_mic_enabled := True, cc_camera_enabled := True\<rparr>\<rparr>"

lemma conference_end_ungated_witness:
  "conference_input (\<lambda>_ _ w. (Inl [], w)) False ''p'' 5 ''/end''
      \<lparr>cr_state = conference_new, cr_files = (), cr_sent = [], cr_lines = [], cr_status = Running\<rparr>
    = \<lparr>cr_state = conference_new, cr_files = (), cr_sent = [], cr_lines = [], cr_status = Left_Room True\<rparr>"
  using conference_end_ungated [of "\<lparr>cr_state = conference_new, cr_files = (), cr_sent = [], cr_lines = [], cr_status = Running\<rparr>"
      "\<lambda>_ _ w. (Inl [], w)" False "''p''" 5] by simp

lemma bad_envelope_ends_reader_witness:
  "conference_reads demo_ext demo_crypto demo_media [(5, K_AnonEncryptedPayload \<lparr>ae_sent_at_ms = 5, ae_sender_handle = ''m'',
      ae_epoch = 3, ae_kind = Anon_Control, ae_nonce_hex = ''zz'', ae_ciphertext_hex = []\<rparr>)] demo_group
    = ((Some ''decode hex'', []), demo_group)"
proof -
  have "hex_decode demo_ext (str_trim ''zz'') = None" by code_simp
  then show ?thesis
    by (intro bad_envelope_ends_reader [where key = "[9]"]) (simp_all add: demo_group_def)
qed

lemma media_reaches_member_witness:
  "(\<exists>frame. media_envelope demo_ext demo_crypto True ''ann'' 9 (replicate 24 0) demo_group Anon_VideoSegment
      (mx_video_to_bytes demo_codec demo_packet) (K_VideoSegment demo_packet) = Inr (Some frame)
    \<and> conference_receive demo_ext demo_crypto demo_codec 9 frame demo_group
      = conference_receive demo_ext demo_crypto demo_codec 9 (K_VideoSegment demo_packet) demo_group)
  \<and> (\<exists>frame. media_envelope demo_ext demo_crypto True ''ann'' 9 (replicate 24 0) demo_group Anon_AudioPacket
      (mx_audio_to_bytes demo_codec demo_sound) (K_AudioPacket demo_sound) = Inr (Some frame)
    \<and> conference_receive demo_ext demo_crypto demo_codec 9 frame demo_group
      = conference_receive demo_ext demo_crypto demo_codec 9 (K_AudioPacket demo_sound) demo_group)"
proof -
  obtain frame where frame: "media_envelope demo_ext demo_crypto True ''ann'' 9 (replicate 24 0) demo_group Anon_VideoSegment
      (mx_video_to_bytes demo_codec demo_packet) (K_VideoSegment demo_packet) = Inr (Some frame)"
    by (simp add: media_envelope_def demo_group_def demo_codec_def encrypt_anon_group_payload_def demo_crypto_def try_bind_def)
  obtain frame' where frame': "media_envelope demo_ext demo_crypto True ''ann'' 9 (replicate 24 0) demo_group Anon_AudioPacket
      (mx_audio_to_bytes demo_codec demo_sound) (K_AudioPacket demo_sound) = Inr (Some frame')"
    by (simp add: media_envelope_def demo_group_def demo_codec_def encrypt_anon_group_payload_def demo_crypto_def try_bind_def)
  have "codec_law demo_codec" by (simp add: codec_law_def demo_codec_def)
  note reaches = media_reaches_member [OF demo_hex_laws demo_crypto_laws this, of "replicate 24 0" demo_group demo_group]
  show ?thesis
    using reaches [of "''ann''" 9 demo_packet frame] reaches [of "''ann''" 9 _ frame' 9 demo_sound] frame frame' by auto
qed

lemma anonymous_media_sealed_witness:
  "\<exists>video audio cf' md'. media_tick demo_ext demo_crypto
      (demo_media\<lparr>mx_video_to_bytes := \<lambda>_. Inr [1], mx_audio_to_bytes := \<lambda>_. Inr [2]\<rparr>)
      True ''ann'' 9 (replicate 24 1) (replicate 24 2) demo_group (media_sender_new demo_media ()) = Inr ([video, audio], [], cf', md')
    \<and> sealed_for demo_ext demo_crypto (demo_media\<lparr>mx_video_to_bytes := \<lambda>_. Inr [1], mx_audio_to_bytes := \<lambda>_. Inr [2]\<rparr>)
        ''ann'' 9 (replicate 24 1) demo_group Anon_VideoSegment video"
proof -
  let ?M = "demo_media\<lparr>mx_video_to_bytes := \<lambda>_. Inr [1], mx_audio_to_bytes := \<lambda>_. Inr [2]\<rparr>"
  obtain f g cf' md' where tick: "media_tick demo_ext demo_crypto ?M True ''ann'' 9 (replicate 24 1) (replicate 24 2) demo_group
      (media_sender_new demo_media ()) = Inr ([f, g], [], cf', md')"
    by (simp add: media_tick_def media_adapt_def sender_profile_def demo_group_def conference_new_def controls_new_def
        choose_adaptive_video_profile_def adaptive_profile_for_level_def adaptive_audio_profile_for_level_def
        conference_telemetry_default_def flow_default_def loss_share_def media_retune_def media_sender_new_def Let_def
        media_send_video_def media_send_audio_def send_due_def demo_media_def media_envelope_def try_bind_def
        encrypt_anon_group_payload_def demo_crypto_def sat_add_def)
  have "sealed_for demo_ext demo_crypto ?M ''ann'' 9 (replicate 24 1) demo_group Anon_VideoSegment f"
    using anonymous_media_sealed [OF tick] by (auto split: option.splits)
  with tick show ?thesis by blast
qed

lemma media_numbers_consecutive_witness:
  "counts_from 1 (video_numbers (media_run demo_ext demo_crypto demo_media ''p'' [(100, demo_group), (200, demo_group)]
     (media_sender_new demo_media ())))"
  by (rule conjunct1 [OF media_numbers_consecutive]) simp

end
