(* ===== verification/Cli_Routes.thy ===== *)
theory Cli_Routes
  imports Cli_Setup "HOL-Library.Product_Lexorder" "HOL-Library.List_Lexorder" "HOL-Library.Char_ord"
begin

text \<open>
  The smaller commands of the command line client (\<^verbatim>\<open>crates/kaigi-cli/src/main.rs\<close>): \<open>write-route-update\<close> and
  \<open>list-routes\<close>, which keep the routes of a relay as files of a spool directory, \<open>relay-echo\<close>, \<open>decode-join-link\<close>
  and \<open>fetch-handshake\<close>. The file system and the encoding of a route (a crate of Iroha) are parameters.
\<close>

section \<open>Routes\<close>

datatype access_kind = Access_ReadOnly | Access_Authenticated

definition access_label :: "access_kind \<Rightarrow> string" where
  \<comment> \<open>\<open>{:?}\<close>\<close>
  "access_label k = (case k of Access_ReadOnly \<Rightarrow> ''ReadOnly'' | Access_Authenticated \<Rightarrow> ''Authenticated'')"

record soranet_route =
  sr_channel_id :: bytes
  sr_exit_multiaddr :: string
  sr_padding_budget_ms :: "u16 option"
  sr_access_kind :: access_kind
  sr_stream_tag :: string
  \<comment> \<open>the tag by its \<open>{:?}\<close>\<close>

record privacy_route_update =
  pu_route_id :: bytes
  pu_stream_id :: bytes
  pu_content_key_id :: nat
  pu_valid_from_segment :: u64
  pu_valid_until_segment :: u64
  pu_exit_token :: bytes
  pu_soranet :: "soranet_route option"

record write_route_update_args =
  wr_spool_dir :: string
  wr_relay_id :: string
  wr_channel :: "string option"
  wr_exit_multiaddr :: string
  wr_relay :: "socket_addr option"
  wr_server_name :: "string option"
  wr_insecure :: bool
  wr_torii :: "string option"
  wr_pay_to :: "string option"
  wr_kaigi_domain :: "string option"
  wr_kaigi_call_name :: "string option"
  wr_kaigi_privacy_mode :: "string option"
  wr_join_link_expires_in_secs :: u64
  wr_join_link_legacy_v1 :: bool
  wr_allow_local_handshake :: bool
  wr_access_kind :: string
  wr_padding_budget_ms :: "u16 option"
  wr_valid_from_segment :: u64
  wr_valid_until_segment :: u64

record route_random =
  rn_channel :: bytes
  rn_route_id :: bytes
  rn_stream_id :: bytes
  rn_exit_token :: bytes
  rn_nonce :: bytes

definition room_id_of :: "ext \<Rightarrow> bytes \<Rightarrow> bytes \<Rightarrow> bytes \<Rightarrow> bytes" where
  \<comment> \<open>\<open>derive_kaigi_room_id\<close> on the BLAKE3 of this program\<close>
  "room_id_of X channel_id route_id stream_id = blake3 X (KAIGI_ROOM_DOMAIN_TAG @ channel_id @ route_id @ stream_id)"

definition access_kind_of :: "string \<Rightarrow> string + access_kind" where
  "access_kind_of s =
     (if s = ''public'' then Inr Access_ReadOnly else if s = ''authenticated'' then Inr Access_Authenticated
      else Inl (''unknown access_kind: '' @ s))"

definition route_update ::
    "ext \<Rightarrow> route_random \<Rightarrow> write_route_update_args \<Rightarrow> string + (bytes \<times> bytes \<times> access_kind \<times> privacy_route_update)" where
  \<comment> \<open>the relay id, the channel id, the access and the update that is written\<close>
  "route_update X rnd args =
     try_bind (hex_of X (wr_relay_id args)) (\<lambda>relay_id.
     try_bind (case wr_channel args of None \<Rightarrow> Inr (rn_channel rnd) | Some h \<Rightarrow> hex_of X h) (\<lambda>channel_id.
     try_bind (access_kind_of (wr_access_kind args)) (\<lambda>access_kind.
       Inr (relay_id, channel_id, access_kind,
         \<lparr>pu_route_id = rn_route_id rnd, pu_stream_id = rn_stream_id rnd, pu_content_key_id = 0,
           pu_valid_from_segment = wr_valid_from_segment args, pu_valid_until_segment = wr_valid_until_segment args,
           pu_exit_token = rn_exit_token rnd,
           pu_soranet = Some \<lparr>sr_channel_id = channel_id, sr_exit_multiaddr = wr_exit_multiaddr args,
             sr_padding_budget_ms = wr_padding_budget_ms args, sr_access_kind = access_kind, sr_stream_tag = ''Kaigi''\<rparr>\<rparr>))))"

definition path_join :: "string \<Rightarrow> string \<Rightarrow> string" where
  \<comment> \<open>\<open>join\<close> with a relative name\<close>
  "path_join dir name = dir @ ''/'' @ name"

definition relay_dir :: "ext \<Rightarrow> string \<Rightarrow> bytes \<Rightarrow> string" where
  "relay_dir X spool_dir relay_id = path_join (path_join spool_dir (''exit-'' @ hex_encode X relay_id)) ''kaigi-stream''"

definition route_file_name :: "ext \<Rightarrow> u64 \<Rightarrow> bytes \<Rightarrow> string" where
  "route_file_name X valid_from stream_id =
     ''kaigi-route-'' @ dec64 valid_from @ ''-'' @ hex_encode X (take 8 stream_id) @ ''.norito''"

definition route_link :: "ext \<Rightarrow> u64 \<Rightarrow> bytes \<Rightarrow> write_route_update_args \<Rightarrow> bytes \<Rightarrow> access_kind \<Rightarrow> socket_addr \<Rightarrow> string + string" where
  \<comment> \<open>the join link, once the file is there\<close>
  "route_link X now nonce args channel_id access_kind relay =
     (case first_error [
         validate_nexus_routing_requirement (wr_allow_local_handshake args) (wr_torii args),
         validate_join_link_call_metadata (wr_kaigi_domain args) (wr_kaigi_call_name args),
         validate_privacy_mode_arg (wr_kaigi_privacy_mode args)] of
        Some e \<Rightarrow> Inl e
      | None \<Rightarrow>
          let p = \<lparr>jl_version = (if wr_join_link_legacy_v1 args then JOIN_LINK_VERSION_LEGACY else JOIN_LINK_VERSION_SIGNED),
                jl_relay = relay, jl_channel = channel_id, jl_authenticated = (access_kind = Access_Authenticated),
                jl_insecure = wr_insecure args, jl_server_name = Some (unwrap_or (wr_server_name args) ''localhost''),
                jl_torii = wr_torii args, jl_pay_to = wr_pay_to args, jl_kaigi_domain = wr_kaigi_domain args,
                jl_kaigi_call_name = wr_kaigi_call_name args,
                jl_kaigi_privacy_mode = normalize_privacy_mode (wr_kaigi_privacy_mode args),
                jl_expires_at_ms = None, jl_nonce_hex = None, jl_signature_hex = None\<rparr> in
          try_bind (if jl_version p = JOIN_LINK_VERSION_SIGNED
              then populate_join_link_security_fields X now nonce p (wr_join_link_expires_in_secs args) else Inr p)
            (\<lambda>p. Inr (render_join_link X p)))"

definition write_route_update ::
    "ext \<Rightarrow> (privacy_route_update \<Rightarrow> string + bytes) \<Rightarrow> (string \<Rightarrow> 'w \<Rightarrow> (string + unit) \<times> 'w)
      \<Rightarrow> (string \<Rightarrow> bytes \<Rightarrow> 'w \<Rightarrow> (string + unit) \<times> 'w) \<Rightarrow> u64 \<Rightarrow> route_random \<Rightarrow> write_route_update_args \<Rightarrow> 'w
      \<Rightarrow> (string option \<times> string list) \<times> 'w" where
  \<comment> \<open>the error, the lines; \<open>create_dirs\<close> and \<open>write_bytes\<close> are the calls of the file system\<close>
  "write_route_update X to_bytes create_dirs write_bytes now rnd args w =
     (case try_bind (route_update X rnd args) (\<lambda>(relay_id, channel_id, access_kind, update).
         try_bind (to_bytes update) (\<lambda>bs. Inr (relay_id, channel_id, access_kind, bs))) of
        Inl e \<Rightarrow> ((Some e, []), w)
      | Inr (relay_id, channel_id, access_kind, bs) \<Rightarrow>
          let dir = relay_dir X (wr_spool_dir args) relay_id;
              path = path_join dir (route_file_name X (wr_valid_from_segment args) (rn_stream_id rnd)) in
          (case create_dirs dir w of (Inl e, w) \<Rightarrow> ((Some e, []), w) | (Inr _, w) \<Rightarrow>
            (case write_bytes path bs w of (Inl e, w) \<Rightarrow> ((Some e, []), w) | (Inr _, w) \<Rightarrow>
              let lines = [''wrote='' @ path, ''relay_id_hex='' @ hex_encode X relay_id,
                    ''channel_id_hex='' @ hex_encode X channel_id, ''route_id_hex='' @ hex_encode X (rn_route_id rnd),
                    ''stream_id_hex='' @ hex_encode X (rn_stream_id rnd),
                    ''room_id_hex='' @ hex_encode X (room_id_of X channel_id (rn_route_id rnd) (rn_stream_id rnd)),
                    ''access_kind='' @ wr_access_kind args, ''exit_multiaddr='' @ wr_exit_multiaddr args] in
              (case wr_relay args of
                 None \<Rightarrow> ((None, lines), w)
               | Some relay \<Rightarrow> (case route_link X now (rn_nonce rnd) args channel_id access_kind relay of
                   Inl e \<Rightarrow> ((Some e, lines), w)
                 | Inr link \<Rightarrow> ((None, lines @ [''join_link='' @ link]), w))))))"

section \<open>The list of routes\<close>

record route_fs =
  fs_is_dir :: "string \<Rightarrow> bool"
  fs_entries :: "string \<Rightarrow> string + string list"
  fs_modified :: "string \<Rightarrow> string + int option"
  fs_read :: "string \<Rightarrow> string + bytes"
  \<comment> \<open>the names in a directory; the time of the last change, if the metadata can be read and has one\<close>

record list_routes_args =
  lr_spool_dir :: string
  lr_relay_id :: "string option"
  lr_limit :: nat

definition route_dirs :: "ext \<Rightarrow> route_fs \<Rightarrow> list_routes_args \<Rightarrow> string + string list" where
  "route_dirs X fs args = (case lr_relay_id args of
     Some relay_id_hex \<Rightarrow> map_sum id (\<lambda>relay_id. [relay_dir X (lr_spool_dir args) relay_id]) (hex_of X relay_id_hex)
   | None \<Rightarrow>
       if \<not> fs_is_dir fs (lr_spool_dir args) then Inl (''spool_dir is not a directory: '' @ lr_spool_dir args)
       else map_sum id (\<lambda>names. map (\<lambda>name. path_join (path_join (lr_spool_dir args) name) ''kaigi-stream'')
           (filter (\<lambda>name. fs_is_dir fs (path_join (lr_spool_dir args) name) \<and> is_utf8 name \<and> starts_with name ''exit-'')
             names))
         (fs_entries fs (lr_spool_dir args)))"

definition is_norito :: "string \<Rightarrow> bool" where
  \<comment> \<open>the extension is \<open>norito\<close>\<close>
  "is_norito name \<longleftrightarrow> length name > 7 \<and> drop (length name - 7) name = ''.norito''"

fun timed_files :: "route_fs \<Rightarrow> string \<Rightarrow> string list \<Rightarrow> string + (int \<times> string) list" where
  "timed_files fs dir [] = Inr []"
| "timed_files fs dir (name # names) =
     (let path = path_join dir name in
      if \<not> is_norito name then timed_files fs dir names
      else try_bind (fs_modified fs path) (\<lambda>mtime. try_bind (timed_files fs dir names) (\<lambda>files.
        Inr ((unwrap_or mtime 0, path) # files))))"

fun route_files :: "route_fs \<Rightarrow> string list \<Rightarrow> string + (int \<times> string) list" where
  "route_files fs [] = Inr []"
| "route_files fs (dir # dirs) =
     (if \<not> fs_is_dir fs dir then route_files fs dirs
      else try_bind (fs_entries fs dir) (\<lambda>names. try_bind (timed_files fs dir names) (\<lambda>files.
        try_bind (route_files fs dirs) (\<lambda>rest. Inr (files @ rest)))))"

definition newest_first :: "(int \<times> string) list \<Rightarrow> (int \<times> string) list" where
  \<comment> \<open>by time, and then by path, component by component\<close>
  "newest_first files = sort_key (\<lambda>(mtime, path). (- mtime, split_on CHR ''/'' path)) files"

definition route_lines :: "ext \<Rightarrow> string \<Rightarrow> privacy_route_update \<Rightarrow> string list" where
  "route_lines X path u =
     (let none = ''<none>'';
          (channel_hex, access, multiaddr, tag, authenticated) = (case pu_soranet u of
            None \<Rightarrow> (none, none, none, none, False)
          | Some s \<Rightarrow> (hex_encode X (sr_channel_id s), access_label (sr_access_kind s), sr_exit_multiaddr s,
              sr_stream_tag s, sr_access_kind s = Access_Authenticated));
          room_id = (case pu_soranet u of None \<Rightarrow> replicate 32 0
            | Some s \<Rightarrow> room_id_of X (sr_channel_id s) (pu_route_id u) (pu_stream_id u)) in
      [''file='' @ path,
       ''  channel_id_hex='' @ channel_hex @ '' room_id_hex='' @ hex_encode X room_id @ '' access_kind='' @ access @
         '' stream_tag='' @ tag,
       ''  route_id_hex='' @ hex_encode X (pu_route_id u) @ '' stream_id_hex='' @ hex_encode X (pu_stream_id u) @
         '' valid_from_segment='' @ dec64 (pu_valid_from_segment u) @ '' valid_until_segment='' @
         dec64 (pu_valid_until_segment u) @ '' exit_multiaddr='' @ multiaddr @ '' exit_token_len='' @
         dec (length (pu_exit_token u))] @
      (if channel_hex \<noteq> none
       then [''  join_link_template=kaigi://join?v=1&relay=<relay-host:port>&channel='' @ channel_hex @
         ''&authenticated='' @ (if authenticated then ''1'' else ''0'') @
         ''&insecure=<0|1>&sni=<server-name>&torii=<torii-base-url>&pay_to=<billing-account-id>&kaigi_domain=<domain>'' @
         ''&kaigi_call_name=<call-name>&kaigi_privacy_mode=<transparent|zk|zk_roster_v1|zk-roster-v1>'']
       else []))"

fun print_routes ::
    "ext \<Rightarrow> (bytes \<Rightarrow> string + privacy_route_update) \<Rightarrow> route_fs \<Rightarrow> (int \<times> string) list \<Rightarrow> string option \<times> string list" where
  "print_routes X from_bytes fs [] = (None, [])"
| "print_routes X from_bytes fs ((_, path) # files) =
     (case try_bind (fs_read fs path) from_bytes of
        Inl e \<Rightarrow> (Some e, [])
      | Inr u \<Rightarrow> (case print_routes X from_bytes fs files of (e, lines) \<Rightarrow> (e, route_lines X path u @ lines)))"

definition list_routes ::
    "ext \<Rightarrow> (bytes \<Rightarrow> string + privacy_route_update) \<Rightarrow> route_fs \<Rightarrow> list_routes_args \<Rightarrow> string option \<times> string list" where
  "list_routes X from_bytes fs args =
     (case try_bind (route_dirs X fs args) (route_files fs) of
        Inl e \<Rightarrow> (Some e, [])
      | Inr files \<Rightarrow>
          let files = take (max 1 (min (lr_limit args) 10000)) (newest_first files) in
          if files = [] then (None, [''no kaigi route updates found under '' @ lr_spool_dir args])
          else print_routes X from_bytes fs files)"

section \<open>Other commands\<close>

definition decode_join_link :: "ext \<Rightarrow> u64 \<Rightarrow> string \<Rightarrow> nonce_cache \<Rightarrow> string + string list" where
  "decode_join_link X now link cache = try_bind (fst (parse_join_link_for_inspection X now link cache)) (\<lambda>p.
     let shown = (\<lambda>v. unwrap_or v ''<none>'') in
     Inr [''version='' @ dec (unat (jl_version p)), ''relay='' @ show_socket_addr (jl_relay p),
       ''channel_id_hex='' @ hex_encode X (jl_channel p), ''authenticated='' @ dec_bool (jl_authenticated p),
       ''insecure='' @ dec_bool (jl_insecure p), ''server_name='' @ shown (jl_server_name p),
       ''torii='' @ shown (jl_torii p), ''pay_to='' @ shown (jl_pay_to p), ''kaigi_domain='' @ shown (jl_kaigi_domain p),
       ''kaigi_call_name='' @ shown (jl_kaigi_call_name p), ''kaigi_privacy_mode='' @ shown (jl_kaigi_privacy_mode p),
       ''expires_at_ms='' @ shown (map_option (\<lambda>n. dec64 n) (jl_expires_at_ms p)),
       ''nonce_hex='' @ shown (jl_nonce_hex p), ''signature_hex='' @ shown (jl_signature_hex p),
       ''normalized_link='' @ render_join_link X p])"

definition print_handshake :: "ext \<Rightarrow> handshake_params \<Rightarrow> string list" where
  "print_handshake X h =
     [''descriptor_commit_hex='' @ hex_encode X (hp_descriptor_commit h),
      ''client_capabilities_hex='' @ hex_encode X (hp_client_capabilities h),
      ''relay_capabilities_hex='' @ hex_encode X (hp_relay_capabilities h),
      ''kem_id='' @ dec (unat (hp_kem_id h)), ''sig_id='' @ dec (unat (hp_sig_id h)),
      ''resume_hash_hex='' @ (case hp_resume_hash h of None \<Rightarrow> ''<none>'' | Some r \<Rightarrow> hex_encode X r)]"

definition relay_echo_text :: "ext \<Rightarrow> string option \<Rightarrow> string option \<Rightarrow> string + string" where
  \<comment> \<open>from \<open>--message-hex\<close> and \<open>--message\<close>\<close>
  "relay_echo_text X message_hex message = (case message_hex of
     Some h \<Rightarrow> try_bind (hex_vec_with X h) (\<lambda>bs.
       let s = map (\<lambda>b. char_of (unat b)) bs in
       Inr (if is_utf8 s then s else ''0x'' @ h))
   | None \<Rightarrow> Inr (unwrap_or message ''ping''))"

definition relay_echo_frames ::
    "ext \<Rightarrow> bytes \<Rightarrow> u64 \<Rightarrow> u64 \<Rightarrow> string option \<Rightarrow> string option \<Rightarrow> string + kaigi_frame list" where
  \<comment> \<open>what is sent, with the random bytes of the name and the clock at the message and at the ping\<close>
  "relay_echo_frames X rnd chat_ms ping_ms message_hex message = try_bind (relay_echo_text X message_hex message) (\<lambda>said.
     let pid = ''echo-'' @ hex_encode X rnd in
     Inr ([K_Hello \<lparr>he_protocol_version = PROTOCOL_VERSION, he_participant_id = pid, he_display_name = Some ''relay-echo'',
         he_mic_enabled = False, he_video_enabled = False, he_screen_share_enabled = False, he_hdr_display = False,
         he_hdr_capture = False\<rparr>] @
       (if said = [] then [] else [K_Chat \<lparr>ch_sent_at_ms = chat_ms, ch_from_participant_id = pid,
         ch_from_display_name = Some ''relay-echo'', ch_text = said\<rparr>]) @
       [K_Ping \<lparr>ping_nonce = ping_ms\<rparr>]))"

datatype contract_report = One_Contract contract | All_Contracts "contract list"
  \<comment> \<open>the \<open>contract\<close> or the \<open>contracts\<close> of the printed object\<close>

definition print_platform_contract :: "string option \<Rightarrow> string + contract_report" where
  "print_platform_contract platform = (case platform of
     Some requested \<Rightarrow> try_bind (parse_target_platform requested) (\<lambda>p. Inr (One_Contract (platform_contract p)))
   | None \<Rightarrow> Inr (All_Contracts all_platform_contracts))"

end
