(* ===== verification/Cli_Nonces.thy ===== *)
theory Cli_Nonces
  imports Cli_Link_Safety
begin

text \<open>
  The security checks of a join link: the nonce cache as a guard that admits a key once, what a signed link
  is good for, and how the checks can be got round.
\<close>

section \<open>Guards that admit once\<close>

locale once_guard =
  fixes admit :: "u64 \<Rightarrow> string \<Rightarrow> u64 \<Rightarrow> 'c \<Rightarrow> string option \<times> 'c"
    and remembers :: "'c \<Rightarrow> string \<Rightarrow> u64 \<Rightarrow> bool"
  assumes admitted: "admit now k e c = (None, c') \<Longrightarrow> remembers c' k e"
    and refused: "remembers c k e \<Longrightarrow> now < e \<Longrightarrow> fst (admit now k e' c) \<noteq> None"
    and kept: "remembers c k e \<Longrightarrow> now < e \<Longrightarrow> remembers (snd (admit now k' e' c)) k e"
begin

lemma kept_run:
  "remembers c k e \<Longrightarrow> list_all (\<lambda>(now, _). now < e) reqs \<Longrightarrow>
     remembers (fold (\<lambda>(now, k', e') c. snd (admit now k' e' c)) reqs c) k e"
  by (induction reqs arbitrary: c) (auto simp: kept)

lemma refused_run:
  assumes "admit t k e c = (None, c')" and "list_all (\<lambda>(now, _). now < e) reqs" and "now < e"
  shows "fst (admit now k e' (fold (\<lambda>(now, k', e') c. snd (admit now k' e' c)) reqs c')) \<noteq> None"
  using refused kept_run admitted assms by blast

end

definition remembers_nonce :: "nonce_cache \<Rightarrow> string \<Rightarrow> u64 \<Rightarrow> bool" where
  "remembers_nonce cache nonce_hex e \<longleftrightarrow> hm_get cache (normalize_hex_arg nonce_hex) = Some e"

lemma hm_get_filter: "hm_get m k = Some v \<Longrightarrow> P (k, v) \<Longrightarrow> hm_get (filter P m) k = Some v"
  by (induction m) (auto simp: hm_get_def split: if_splits)

interpretation nonces: once_guard register_join_link_nonce_once remembers_nonce
proof
  show "remembers_nonce c' k e" if "register_join_link_nonce_once now k e c = (None, c')" for now k e c c'
    using that by (auto simp: register_join_link_nonce_once_def remembers_nonce_def Let_def hm_simps split: if_splits)
  show "fst (register_join_link_nonce_once now k e' c) \<noteq> None" if "remembers_nonce c k e" "now < e" for c k e now e'
    using that hm_get_filter [of c "normalize_hex_arg k" e "\<lambda>(_, exp_ms). exp_ms > now"]
    by (simp add: register_join_link_nonce_once_def remembers_nonce_def Let_def)
  show "remembers_nonce (snd (register_join_link_nonce_once now k' e' c)) k e"
    if "remembers_nonce c k e" "now < e" for c k e now k' e'
    using that hm_get_filter [of c "normalize_hex_arg k" e "\<lambda>(_, exp_ms). exp_ms > now"]
    by (auto simp: register_join_link_nonce_once_def remembers_nonce_def Let_def hm_simps)
qed

text \<open>The cache never holds more than its bound.\<close>

lemma nonce_cache_bound:
  "length cache \<le> MAX_JOIN_LINK_NONCE_CACHE_ENTRIES \<Longrightarrow>
     length (snd (register_join_link_nonce_once now k e cache)) \<le> MAX_JOIN_LINK_NONCE_CACHE_ENTRIES"
proof -
  assume "length cache \<le> MAX_JOIN_LINK_NONCE_CACHE_ENTRIES"
  then have 1: "length (filter P cache) \<le> MAX_JOIN_LINK_NONCE_CACHE_ENTRIES" for P
    using length_filter_le le_trans by blast
  have 2: "length (hm_insert m k v) \<le> Suc (length m)" for m :: nonce_cache and k v
    by (induction m) (auto simp: hm_insert_def)
  show ?thesis
    using 1 by (auto simp: register_join_link_nonce_once_def Let_def not_le intro: le_trans [OF 2 Suc_leI])
qed

section \<open>Signed links\<close>

definition link_runs :: "ext \<Rightarrow> (u64 \<times> string) list \<Rightarrow> nonce_cache \<Rightarrow> nonce_cache" where
  \<comment> \<open>the cache after links have been opened, each at its time\<close>
  "link_runs X reqs cache = fold (\<lambda>(now, link) cache. snd (parse_join_link X now link cache)) reqs cache"

lemma parse_cache:
  "snd (parse_join_link X now link cache) = cache
   \<or> (\<exists>k e. snd (parse_join_link X now link cache) = snd (register_join_link_nonce_once now k e cache))"
proof -
  have "snd (validate_join_link_v2 X now p True cache) = cache
    \<or> (\<exists>k e. snd (validate_join_link_v2 X now p True cache) = snd (register_join_link_nonce_once now k e cache))" for p
    by (auto simp: validate_join_link_v2_def split: option.splits sum.splits)
  then have "snd (validate_join_link_security X now p True cache) = cache
    \<or> (\<exists>k e. snd (validate_join_link_security X now p True cache) = snd (register_join_link_nonce_once now k e cache))" for p
    by (auto simp: validate_join_link_security_def)
  moreover have "snd (parse_join_link X now link cache) = (case link_text_payload X link of Inl _ \<Rightarrow> cache
    | Inr p \<Rightarrow> snd (validate_join_link_security X now p True cache))"
    by (simp add: parse_join_link_def parse_join_link_with_mode_def split: sum.split prod.split option.split)
  ultimately show ?thesis
    by (cases "link_text_payload X link") auto
qed

lemma link_runs_remember:
  "remembers_nonce cache k e \<Longrightarrow> list_all (\<lambda>(now, _). now < e) reqs \<Longrightarrow> remembers_nonce (link_runs X reqs cache) k e"
proof (induction reqs arbitrary: cache)
  case Nil
  then show ?case by (simp add: link_runs_def)
next
  case (Cons o1 reqs)
  obtain now link where o1: "o1 = (now, link)" by (cases o1)
  then have "remembers_nonce (snd (parse_join_link X now link cache)) k e"
    using Cons.prems nonces.kept parse_cache [of X now link cache] by auto
  then show ?case
    using Cons by (simp add: o1 link_runs_def)
qed

lemma accepted_signed:
  assumes "parse_join_link X now link cache = (Inr p, cache')" and "jl_version p = JOIN_LINK_VERSION_SIGNED"
  shows "link_text_payload X link = Inr p
    \<and> (\<exists>k e. jl_nonce_hex p = Some k \<and> jl_expires_at_ms p = Some e \<and> now < e
         \<and> e \<le> sat_add now (MAX_JOIN_LINK_EXPIRES_IN_SECS * 1000)
         \<and> register_join_link_nonce_once now k e cache = (None, cache'))"
proof -
  have "JOIN_LINK_VERSION_SIGNED \<noteq> JOIN_LINK_VERSION_LEGACY"
    by (simp add: JOIN_LINK_VERSION_SIGNED_def JOIN_LINK_VERSION_LEGACY_def)
  then show ?thesis
    using assms by (auto simp: parse_join_link_def parse_join_link_with_mode_def validate_join_link_security_def
        validate_join_link_v2_def not_le split: sum.splits prod.splits option.splits if_splits)
qed

text \<open>C19. A signed join link opens once: after it has been accepted, and whatever other links (or the same
  one) are opened meanwhile, it is refused at every later time, first as a replay and then as expired.\<close>

theorem signed_link_opens_once:
  assumes "parse_join_link X t1 link cache = (Inr p, cache')" and "jl_version p = JOIN_LINK_VERSION_SIGNED"
    and "list_all (\<lambda>(now, _). now \<le> t2) reqs"
  shows "\<exists>e. fst (parse_join_link X t2 link (link_runs X reqs cache')) = Inl e"
proof -
  obtain k e where payload: "link_text_payload X link = Inr p" and p: "jl_nonce_hex p = Some k" "jl_expires_at_ms p = Some e"
    and reg: "register_join_link_nonce_once t1 k e cache = (None, cache')"
    using accepted_signed [OF assms(1,2)] by blast
  let ?cache = "link_runs X reqs cache'"
  have version: "jl_version p \<noteq> JOIN_LINK_VERSION_LEGACY"
    using assms(2) by (simp add: JOIN_LINK_VERSION_SIGNED_def JOIN_LINK_VERSION_LEGACY_def)
  have "fst (validate_join_link_v2 X t2 p True ?cache) \<noteq> None"
  proof (cases "e \<le> t2")
    case True
    then show ?thesis
      by (simp add: validate_join_link_v2_def p split: option.split)
  next
    case False
    have "list_all (\<lambda>(now, _). now < e) reqs"
      using assms(3) False by (auto simp: list_all_iff)
    then have "remembers_nonce ?cache k e"
      using nonces.admitted [OF reg] link_runs_remember by blast
    then have "fst (register_join_link_nonce_once t2 k e ?cache) \<noteq> None"
      using nonces.refused False by auto
    then show ?thesis
      by (simp add: validate_join_link_v2_def p split: option.split sum.split)
  qed
  then show ?thesis
    using payload version assms(2)
    by (auto simp: parse_join_link_def parse_join_link_with_mode_def validate_join_link_security_def
        split: prod.split option.split)
qed

lemma populated:
  assumes "populate_join_link_security_fields X now nonce q secs = Inr p"
    and "jl_version q = JOIN_LINK_VERSION_SIGNED"
  shows "\<exists>e sig. 0 < secs \<and> secs \<le> MAX_JOIN_LINK_EXPIRES_IN_SECS \<and> checked_add now (secs * 1000) = Some e
    \<and> p = q\<lparr>jl_expires_at_ms := Some e, jl_nonce_hex := Some (hex_encode X nonce), jl_signature_hex := Some sig\<rparr>
    \<and> join_link_signature_hex X (q\<lparr>jl_expires_at_ms := Some e, jl_nonce_hex := Some (hex_encode X nonce)\<rparr>) = Inr sig"
  using assms
  by (auto simp: populate_join_link_security_fields_def Let_def try_bind_def word_neq_0_conv not_less not_le
      split: if_splits option.splits sum.splits)

lemma signature_ignores_itself: "join_link_signature_hex X (p\<lparr>jl_signature_hex := s\<rparr>) = join_link_signature_hex X p"
  by (simp add: join_link_signature_hex_def join_link_signature_payload_def cong: option.case_cong)

lemma signature_is_hex:
  "join_link_signature_hex X p = Inr sig \<Longrightarrow> \<exists>bs. sig = hex_encode X (blake3 X bs)"
  by (auto simp: join_link_signature_hex_def cli_deterministic_signature_hex_def try_bind_def split: sum.splits)

lemma secs_window:
  assumes "0 < secs" and "secs \<le> MAX_JOIN_LINK_EXPIRES_IN_SECS" and "checked_add now (secs * 1000) = Some e"
  shows "now < e \<and> e \<le> sat_add now (MAX_JOIN_LINK_EXPIRES_IN_SECS * 1000)"
proof -
  have max: "unat MAX_JOIN_LINK_EXPIRES_IN_SECS = 604800" "unat (MAX_JOIN_LINK_EXPIRES_IN_SECS * 1000) = 604800000"
    by (simp_all add: MAX_JOIN_LINK_EXPIRES_IN_SECS_def)
  have secs: "0 < unat secs" "unat secs \<le> 604800"
    using assms(1,2) max(1) by (simp_all add: word_less_nat_alt word_le_nat_alt)
  then have "unat secs * 1000 < 2 ^ 64"
    by simp
  then have "unat (secs * 1000) = unat secs * 1000"
    by (simp add: unat_word_ariths)
  then have "unat e = unat now + unat secs * 1000"
    using assms(3) by (simp add: checked_add_Some unat_add_no_overflow)
  then show ?thesis
    using secs unat_lt2p [of e] by (simp add: word_less_nat_alt word_le_nat_alt unat_sat_add max(2))
qed

lemma privacy_mode_normal:
  assumes "validate_privacy_mode_arg m = None"
  shows "normalize_privacy_mode m \<in> {None, Some ''transparent'', Some ''zk''}"
  using assms by (auto simp: validate_privacy_mode_arg_def normalize_privacy_mode_def Let_def split: option.splits if_splits)

lemma normal_mode_texts:
  "opt_text_ok (Some ''transparent'') \<and> validate_privacy_mode_arg (Some ''transparent'') = None
     \<and> normalize_privacy_mode (Some ''transparent'') = Some ''transparent''"
  "opt_text_ok (Some ''zk'') \<and> validate_privacy_mode_arg (Some ''zk'') = None
     \<and> normalize_privacy_mode (Some ''zk'') = Some ''zk''"
  "opt_text_ok None \<and> validate_privacy_mode_arg None = None \<and> normalize_privacy_mode None = None"
  by code_simp+

lemma normal_modes:
  "m \<in> {None, Some ''transparent'', Some ''zk''} \<Longrightarrow>
     opt_text_ok m \<and> validate_privacy_mode_arg m = None \<and> normalize_privacy_mode m = m"
  by (elim insertE emptyE; hypsubst; rule normal_mode_texts)

definition args_texts_ok :: "make_join_link_args \<Rightarrow> bool" where
  \<comment> \<open>the texts given are UTF-8 and not empty\<close>
  "args_texts_ok args \<longleftrightarrow> opt_text_ok (ma_server_name args) \<and> opt_text_ok (ma_torii args)
     \<and> opt_text_ok (ma_pay_to args) \<and> opt_text_ok (ma_kaigi_domain args) \<and> opt_text_ok (ma_kaigi_call_name args)"

definition base_payload :: "make_join_link_args \<Rightarrow> bytes \<Rightarrow> join_link_payload" where
  \<comment> \<open>the payload before its security fields are filled in\<close>
  "base_payload args channel = \<lparr>
     jl_version = (if ma_legacy_v1 args then JOIN_LINK_VERSION_LEGACY else JOIN_LINK_VERSION_SIGNED),
     jl_relay = ma_relay args, jl_channel = channel, jl_authenticated = ma_authenticated args,
     jl_insecure = ma_insecure args, jl_server_name = ma_server_name args, jl_torii = ma_torii args,
     jl_pay_to = ma_pay_to args, jl_kaigi_domain = ma_kaigi_domain args, jl_kaigi_call_name = ma_kaigi_call_name args,
     jl_kaigi_privacy_mode = normalize_privacy_mode (ma_kaigi_privacy_mode args),
     jl_expires_at_ms = None, jl_nonce_hex = None, jl_signature_hex = None\<rparr>"

lemma versions [simp]: "JOIN_LINK_VERSION_LEGACY \<noteq> JOIN_LINK_VERSION_SIGNED" "JOIN_LINK_VERSION_SIGNED \<noteq> JOIN_LINK_VERSION_LEGACY"
  by (simp_all add: JOIN_LINK_VERSION_SIGNED_def JOIN_LINK_VERSION_LEGACY_def)

lemma make_join_link_payload_alt:
  "make_join_link_payload X now nonce args =
     (case first_error [
         validate_nexus_routing_requirement (ma_allow_local_handshake args) (ma_torii args),
         validate_join_link_call_metadata (ma_kaigi_domain args) (ma_kaigi_call_name args),
         validate_privacy_mode_arg (ma_kaigi_privacy_mode args)] of
        Some e \<Rightarrow> Inl e
      | None \<Rightarrow> (case hex_32_with (hex_decode X) (ma_channel args) of
          Inl e \<Rightarrow> Inl (hex_error_text e)
        | Inr channel \<Rightarrow> if ma_legacy_v1 args then Inr (base_payload args channel)
            else populate_join_link_security_fields X now nonce (base_payload args channel) (ma_expires_in_secs args)))"
  by (cases "ma_legacy_v1 args")
    (simp_all add: make_join_link_payload_def base_payload_def Let_def cong: option.case_cong sum.case_cong)

lemma make_join_link_payload_Inr:
  "make_join_link_payload X now nonce args = Inr p \<Longrightarrow> \<exists>channel.
     validate_join_link_call_metadata (ma_kaigi_domain args) (ma_kaigi_call_name args) = None
   \<and> validate_privacy_mode_arg (ma_kaigi_privacy_mode args) = None
   \<and> hex_32_with (hex_decode X) (ma_channel args) = Inr channel
   \<and> (if ma_legacy_v1 args then p = base_payload args channel
      else populate_join_link_security_fields X now nonce (base_payload args channel) (ma_expires_in_secs args) = Inr p)"
  by (simp add: make_join_link_payload_alt split: option.splits sum.splits if_splits)

lemma base_payload_ok:
  assumes "args_texts_ok args" and "validate_join_link_call_metadata (ma_kaigi_domain args) (ma_kaigi_call_name args) = None"
    and "validate_privacy_mode_arg (ma_kaigi_privacy_mode args) = None"
    and "hex_32_with (hex_decode X) (ma_channel args) = Inr channel"
  shows "link_ok (base_payload args channel)"
proof -
  have "length channel = 32"
    using assms(4) by (simp add: hex_32_with_def split: option.splits if_splits)
  moreover have "(ma_kaigi_domain args = None) = (ma_kaigi_call_name args = None)"
    using assms(2) by (simp add: validate_join_link_call_metadata_def split: if_splits)
  moreover note normal_modes [OF privacy_mode_normal [OF assms(3)]]
  moreover have "opt_text_ok None"
    by (simp add: opt_text_ok_def)
  ultimately show ?thesis
    using assms(1) by (simp add: link_ok_def args_texts_ok_def base_payload_def)
qed

lemma hex_text: "hex_laws X \<Longrightarrow> bs \<noteq> [] \<Longrightarrow> opt_text_ok (Some (hex_encode X bs))"
  using hex_encode_plain(2,6) [of X bs] by (auto simp: opt_text_ok_def)

lemma made_legacy:
  assumes "make_join_link_payload X now nonce args = Inr p" and "args_texts_ok args" and "ma_legacy_v1 args"
  shows "link_ok p \<and> jl_version p = JOIN_LINK_VERSION_LEGACY \<and> jl_expires_at_ms p = None
    \<and> jl_nonce_hex p = None \<and> jl_signature_hex p = None"
  using make_join_link_payload_Inr [OF assms(1)] base_payload_ok [OF assms(2)] assms(3)
  by (auto simp: base_payload_def)

lemma made_signed:
  assumes "make_join_link_payload X now nonce args = Inr p" and "args_texts_ok args" and "\<not> ma_legacy_v1 args"
    and "hex_laws X" and "hash_law X" and "length nonce = JOIN_LINK_NONCE_BYTES"
  shows "\<exists>e bs. link_ok p \<and> jl_version p = JOIN_LINK_VERSION_SIGNED
      \<and> now < e \<and> e \<le> sat_add now (MAX_JOIN_LINK_EXPIRES_IN_SECS * 1000) \<and> jl_expires_at_ms p = Some e
      \<and> jl_nonce_hex p = Some (hex_encode X nonce) \<and> jl_signature_hex p = Some (hex_encode X (blake3 X bs))
      \<and> join_link_signature_hex X p = Inr (hex_encode X (blake3 X bs))"
proof -
  obtain channel where "link_ok (base_payload args channel)" and
    pop: "populate_join_link_security_fields X now nonce (base_payload args channel) (ma_expires_in_secs args) = Inr p"
    using make_join_link_payload_Inr [OF assms(1)] base_payload_ok [OF assms(2)] assms(3) by auto
  let ?q = "base_payload args channel"
  have version: "jl_version ?q = JOIN_LINK_VERSION_SIGNED"
    using assms(3) by (simp add: base_payload_def)
  obtain e sig where window: "now < e \<and> e \<le> sat_add now (MAX_JOIN_LINK_EXPIRES_IN_SECS * 1000)"
    and p: "p = ?q\<lparr>jl_expires_at_ms := Some e, jl_nonce_hex := Some (hex_encode X nonce), jl_signature_hex := Some sig\<rparr>"
    and sig: "join_link_signature_hex X (?q\<lparr>jl_expires_at_ms := Some e, jl_nonce_hex := Some (hex_encode X nonce)\<rparr>) = Inr sig"
    using populated [OF pop version] secs_window by blast
  obtain bs where bs: "sig = hex_encode X (blake3 X bs)"
    using signature_is_hex [OF sig] by blast
  have "nonce \<noteq> []" "blake3 X bs \<noteq> []"
    using assms(5,6) by (auto simp: JOIN_LINK_NONCE_BYTES_def hash_law_def dest: spec [of _ bs])
  then have "opt_text_ok (jl_nonce_hex p)" "opt_text_ok (jl_signature_hex p)"
    using hex_text [OF assms(4)] by (simp_all add: p bs)
  moreover have "map_option normalize_hex_arg (jl_nonce_hex p) = jl_nonce_hex p"
    "map_option normalize_hex_arg (jl_signature_hex p) = jl_signature_hex p"
    using hex_encode_plain(1) [OF assms(4)] by (simp_all add: p bs)
  ultimately have "link_ok p"
    using \<open>link_ok ?q\<close> by (simp add: link_ok_def p)
  moreover have "join_link_signature_hex X p = Inr sig"
    using sig by (simp add: p signature_ignores_itself)
  ultimately show ?thesis
    using window version by (auto simp: p bs)
qed

lemma sat_add_mono: "a \<le> b \<Longrightarrow> sat_add a c \<le> sat_add b (c :: 'a::len word)"
  by (simp add: word_le_nat_alt unat_sat_add)

lemma register_fresh:
  assumes "hm_get cache (normalize_hex_arg k) = None" and "length cache < MAX_JOIN_LINK_NONCE_CACHE_ENTRIES"
  shows "fst (register_join_link_nonce_once now k e cache) = None"
proof -
  have "hm_get (filter P cache) (normalize_hex_arg k) = None" for P
    using assms(1) by (induction cache) (auto simp: hm_get_def split: if_splits)
  moreover have "length (filter P cache) < MAX_JOIN_LINK_NONCE_CACHE_ENTRIES" for P
    using assms(2) length_filter_le le_less_trans by blast
  ultimately show ?thesis
    by (simp add: register_join_link_nonce_once_def Let_def not_le)
qed

definition link_fresh :: "ext \<Rightarrow> bytes \<Rightarrow> nonce_cache \<Rightarrow> bool" where
  \<comment> \<open>the reader has not seen the nonce and has room for it\<close>
  "link_fresh X nonce cache \<longleftrightarrow> hm_get cache (hex_encode X nonce) = None
     \<and> length cache < MAX_JOIN_LINK_NONCE_CACHE_ENTRIES"

lemma signed_passes:
  assumes "make_join_link_payload X t1 nonce args = Inr p" and "args_texts_ok args" and "\<not> ma_legacy_v1 args"
    and "hex_laws X" and "hash_law X" and "length nonce = JOIN_LINK_NONCE_BYTES"
    and "case jl_expires_at_ms p of None \<Rightarrow> True | Some e \<Rightarrow> t1 \<le> t2 \<and> t2 < e" and "link_fresh X nonce cache"
  shows "fst (validate_join_link_v2 X t2 p True cache) = None"
proof -
  obtain e bs where p: "jl_version p = JOIN_LINK_VERSION_SIGNED" "jl_expires_at_ms p = Some e"
    "jl_nonce_hex p = Some (hex_encode X nonce)" "jl_signature_hex p = Some (hex_encode X (blake3 X bs))"
    "join_link_signature_hex X p = Inr (hex_encode X (blake3 X bs))"
    and window: "e \<le> sat_add t1 (MAX_JOIN_LINK_EXPIRES_IN_SECS * 1000)"
    using made_signed [OF assms(1-6)] by blast
  have times: "t1 \<le> t2" "t2 < e"
    using assms(7) by (simp_all add: p)
  have "length (blake3 X bs) = 32"
    using assms(5) by (simp add: hash_law_def)
  moreover have "e \<le> sat_add t2 (MAX_JOIN_LINK_EXPIRES_IN_SECS * 1000)"
    using window sat_add_mono [OF times(1)] order_trans by blast
  moreover have "fst (register_join_link_nonce_once t2 (hex_encode X nonce) e cache) = None"
    using assms(8) by (intro register_fresh) (simp_all add: link_fresh_def hex_encode_plain [OF assms(4)])
  ultimately show ?thesis
    using times assms(6)
    by (simp add: validate_join_link_v2_def p hex_encode_plain [OF assms(4)] not_le not_less)
qed

lemma made_link_parses:
  assumes "make_join_link_payload X t1 nonce args = Inr p" and "args_texts_ok args"
    and "hex_laws X" and "hash_law X" and "length nonce = JOIN_LINK_NONCE_BYTES"
    and "case jl_expires_at_ms p of None \<Rightarrow> True | Some e \<Rightarrow> t1 \<le> t2 \<and> t2 < e" and "link_fresh X nonce cache"
  shows "fst (parse_join_link X t2 (render_join_link X p) cache) = Inr p"
proof (cases "ma_legacy_v1 args")
  case True
  then show ?thesis
    using made_legacy [OF assms(1,2)] rendered_payload [OF assms(3), of p]
    by (simp add: parse_join_link_def parse_join_link_with_mode_def validate_join_link_security_def)
next
  case False
  then have "link_ok p" "jl_version p = JOIN_LINK_VERSION_SIGNED"
    using made_signed [OF assms(1,2) _ assms(3-5)] by blast+
  then show ?thesis
    using signed_passes [OF assms(1,2) False assms(3-7)] rendered_payload [OF assms(3), of p]
    by (auto simp: parse_join_link_def parse_join_link_with_mode_def validate_join_link_security_def split: prod.split option.split)
qed

text \<open>A link that \<open>make-join-link\<close> prints is accepted: with any relay, channel, flags and non-empty texts,
  signed or legacy, any reader that has not seen its nonce opens it at any time before it expires and gets the
  payload that was put in.\<close>

theorem made_link_opens:
  assumes "make_join_link_payload X t1 nonce args = Inr p" and "args_texts_ok args"
    and "hex_laws X" and "hash_law X" and "length nonce = JOIN_LINK_NONCE_BYTES"
    and "case jl_expires_at_ms p of None \<Rightarrow> True | Some e \<Rightarrow> t1 \<le> t2 \<and> t2 < e" and "link_fresh X nonce cache"
  shows "\<exists>link. make_join_link X t1 nonce args = Inr link \<and> fst (parse_join_link X t2 link cache) = Inr p"
  using made_link_parses [OF assms] assms(1) by (simp add: make_join_link_def)

section \<open>Getting round the signature\<close>

definition downgraded :: "join_link_payload \<Rightarrow> join_link_payload" where
  "downgraded p = p\<lparr>jl_version := JOIN_LINK_VERSION_LEGACY, jl_expires_at_ms := None, jl_nonce_hex := None,
     jl_signature_hex := None\<rparr>"

text \<open>The security fields protect nothing that is not asked for: whatever payload a signed link carries,
  the same payload written as a version 1 link, with the expiry, the nonce and the signature left out, is
  accepted at any time, by any reader, any number of times.\<close>

theorem downgrade_opens:
  assumes "hex_laws X" and "link_ok p"
  shows "parse_join_link X now (render_join_link X (downgraded p)) cache = (Inr (downgraded p), cache)"
proof -
  have "link_ok (downgraded p)"
    using assms(2) by (simp add: link_ok_def downgraded_def opt_text_ok_def)
  then show ?thesis
    using rendered_payload [OF assms(1), of "downgraded p"]
    by (simp add: parse_join_link_def parse_join_link_with_mode_def validate_join_link_security_def downgraded_def)
qed

text \<open>The signed text does not separate its fields: with a bar in the server name, the part behind it can
  move to the front of the Torii address without changing what is signed, so the verdict on the two links is
  the same.\<close>

theorem signature_confuses_fields:
  "join_link_signature_hex X (p\<lparr>jl_server_name := Some (a @ ''|'' @ b), jl_torii := Some c\<rparr>)
   = join_link_signature_hex X (p\<lparr>jl_server_name := Some a, jl_torii := Some (b @ ''|'' @ c)\<rparr>)"
  by (simp add: join_link_signature_hex_def join_link_signature_payload_def unwrap_or_def cong: option.case_cong)

section \<open>Concrete links\<close>

definition demo_make_args :: make_join_link_args where
  "demo_make_args = \<lparr>ma_relay = Addr_V4 (127, 0, 0, 1) 7000, ma_channel = replicate 64 (CHR ''7''),
     ma_server_name = Some ''a|b c'', ma_authenticated = True, ma_insecure = False, ma_torii = Some ''http://t?x=%20'',
     ma_pay_to = None, ma_kaigi_domain = Some ''d'', ma_kaigi_call_name = Some ''n'',
     ma_kaigi_privacy_mode = Some ''zk-roster-v1'', ma_expires_in_secs = 60, ma_legacy_v1 = False,
     ma_allow_local_handshake = False\<rparr>"

definition demo_signed :: join_link_payload where
  "demo_signed = (case make_join_link_payload demo_ext 1000 (replicate 16 1) demo_make_args of
     Inr p \<Rightarrow> p | Inl _ \<Rightarrow> demo_payload)"

lemma demo_checks:
  "args_texts_ok demo_make_args" "length (replicate 16 (1::u8)) = JOIN_LINK_NONCE_BYTES"
  "link_fresh demo_ext (replicate 16 1) []"
  "hex_32_with (hex_decode demo_ext) (ma_channel demo_make_args) = Inr (replicate 32 119)"
  "first_error [
     validate_nexus_routing_requirement (ma_allow_local_handshake demo_make_args) (ma_torii demo_make_args),
     validate_join_link_call_metadata (ma_kaigi_domain demo_make_args) (ma_kaigi_call_name demo_make_args),
     validate_privacy_mode_arg (ma_kaigi_privacy_mode demo_make_args)] = None"
  "checked_add (1000::u64) 60000 = Some 61000"
  by code_simp+

lemma demo_signed_made:
  "make_join_link_payload demo_ext 1000 (replicate 16 1) demo_make_args = Inr demo_signed"
  "jl_expires_at_ms demo_signed = Some 61000" "jl_version demo_signed = JOIN_LINK_VERSION_SIGNED"
proof -
  have "\<exists>p. make_join_link_payload demo_ext 1000 (replicate 16 1) demo_make_args = Inr p
      \<and> jl_expires_at_ms p = Some 61000 \<and> jl_version p = JOIN_LINK_VERSION_SIGNED"
    unfolding make_join_link_payload_alt demo_checks(4,5)
    using demo_checks(6)
    by (simp add: populate_join_link_security_fields_def base_payload_def
        join_link_signature_hex_def join_link_signature_payload_def demo_make_args_def Let_def
        MAX_JOIN_LINK_EXPIRES_IN_SECS_def)
  then show "make_join_link_payload demo_ext 1000 (replicate 16 1) demo_make_args = Inr demo_signed"
    "jl_expires_at_ms demo_signed = Some 61000" "jl_version demo_signed = JOIN_LINK_VERSION_SIGNED"
    by (auto simp: demo_signed_def)
qed

lemmas demo_made = demo_signed_made(1) demo_checks(1) demo_hex_laws demo_hash_law demo_checks(2)

lemma demo_link_ok: "link_ok demo_signed"
  using made_signed [OF demo_signed_made(1) demo_checks(1) _ demo_hex_laws demo_hash_law demo_checks(2)]
  by (simp add: demo_make_args_def)

theorem made_link_opens_witness:
  "\<exists>link. make_join_link demo_ext 1000 (replicate 16 1) demo_make_args = Inr link
     \<and> fst (parse_join_link demo_ext 30000 link []) = Inr demo_signed"
  by (rule made_link_opens [OF demo_made _ demo_checks(3)]) (simp add: demo_signed_made(2))

theorem signed_link_opens_once_witness:
  "\<exists>e. fst (parse_join_link demo_ext 40000 (render_join_link demo_ext demo_signed)
     (link_runs demo_ext [(35000, ''kaigi://join?v=1'')]
       (snd (parse_join_link demo_ext 30000 (render_join_link demo_ext demo_signed) [])))) = Inl e"
proof (rule signed_link_opens_once)
  have "fst (parse_join_link demo_ext 30000 (render_join_link demo_ext demo_signed) []) = Inr demo_signed"
    by (rule made_link_parses [OF demo_made _ demo_checks(3)]) (simp add: demo_signed_made(2))
  then show "parse_join_link demo_ext 30000 (render_join_link demo_ext demo_signed) []
    = (Inr demo_signed, snd (parse_join_link demo_ext 30000 (render_join_link demo_ext demo_signed) []))"
    by (simp add: prod_eq_iff)
qed (simp_all add: demo_signed_made(3))

theorem downgrade_opens_witness:
  "parse_join_link demo_ext 99999999 (render_join_link demo_ext (downgraded demo_signed)) []
     = (Inr (downgraded demo_signed), [])"
  by (rule downgrade_opens [OF demo_hex_laws demo_link_ok])
end
