(* ===== verification/Cli_Routes_Safety.thy ===== *)
theory Cli_Routes_Safety
  imports Cli_Routes Cli_Nonces Cli_Ledger_Safety
begin

text \<open>
  What the spool directory and the start of a session keep of what they were given: the route written last is
  the first one listed, a refused join link leaves its route behind, and the set of used nonces ends with the
  process.
\<close>

section \<open>The spool directory\<close>

definition spool_dirs :: "string \<Rightarrow> (string \<times> bytes) list \<Rightarrow> (string + unit) \<times> (string \<times> bytes) list" where
  \<comment> \<open>a file system on which every call succeeds; its state is the list of files written\<close>
  "spool_dirs dir w = (Inr (), w)"

definition spool_write :: "string \<Rightarrow> bytes \<Rightarrow> (string \<times> bytes) list \<Rightarrow> (string + unit) \<times> (string \<times> bytes) list" where
  "spool_write path bs w = (Inr (), w @ [(path, bs)])"

definition shows_newest :: "route_fs \<Rightarrow> string \<Rightarrow> string \<Rightarrow> bytes \<Rightarrow> bool" where
  \<comment> \<open>the directory has the file with these bytes, and whatever other routes it has are older\<close>
  "shows_newest fs dir name bs \<longleftrightarrow> fs_is_dir fs dir \<and> fs_read fs (path_join dir name) = Inr bs \<and>
     (\<exists>names mtime t. fs_entries fs dir = Inr names \<and> name \<in> set names \<and> mtime name = Some t
        \<and> (\<forall>n\<in>set names. fs_modified fs (path_join dir n) = Inr (mtime n))
        \<and> (\<forall>n\<in>set names - {name}. unwrap_or (mtime n) 0 < t))"

lemma least_sorts_first:
  assumes "x \<in> set xs" and "\<forall>y\<in>set xs. y \<noteq> x \<longrightarrow> f x < f y"
  shows "\<exists>rest. sort_key f xs = x # rest"
proof (cases "sort_key f xs")
  case Nil
  then show ?thesis
    using assms(1) set_sort [of f xs] by simp
next
  case (Cons y rest)
  have "y \<in> set xs" and "f y \<le> f x"
    using set_sort [of f xs] sorted_sort_key [of f xs] assms(1) unfolding Cons by auto
  then show ?thesis
    using assms(2) Cons leD by fastforce
qed

lemma timed_files_known:
  "(\<forall>n\<in>set names. fs_modified fs (path_join dir n) = Inr (mtime n)) \<Longrightarrow>
   timed_files fs dir names = Inr (map (\<lambda>n. (unwrap_or (mtime n) 0, path_join dir n)) (filter is_norito names))"
  by (induction names) (simp_all add: try_bind_def)

lemma route_file_is_norito: "is_norito (route_file_name X segment stream_id)"
  by (simp add: is_norito_def route_file_name_def)

lemma list_newest:
  assumes "shows_newest fs dir name bs" and "is_norito name" and "route_dirs X fs args = Inr [dir]"
    and "from_bytes bs = Inr u"
  shows "\<exists>err rest. list_routes X from_bytes fs args = (err, route_lines X (path_join dir name) u @ rest)"
proof -
  obtain names mtime t where dir: "fs_is_dir fs dir" "fs_entries fs dir = Inr names" "name \<in> set names" "mtime name = Some t"
    "fs_read fs (path_join dir name) = Inr bs" and mtime: "\<forall>n\<in>set names. fs_modified fs (path_join dir n) = Inr (mtime n)"
    and older: "\<forall>n\<in>set names - {name}. unwrap_or (mtime n) 0 < t"
    using assms(1) by (auto simp: shows_newest_def)
  let ?files = "map (\<lambda>n. (unwrap_or (mtime n) 0, path_join dir n)) (filter is_norito names)"
  have "(t, path_join dir name) \<in> set ?files"
    using dir(3,4) assms(2) by (force simp: unwrap_or_def)
  moreover have "\<forall>y\<in>set ?files. y \<noteq> (t, path_join dir name) \<longrightarrow> fst y < t"
    using older dir(4) by (fastforce simp: unwrap_or_def)
  ultimately obtain rest where "newest_first ?files = (t, path_join dir name) # rest"
    unfolding newest_first_def
    using least_sorts_first [of "(t, path_join dir name)" ?files "\<lambda>(m, p). (- m, split_on CHR ''/'' p)"] by fastforce
  moreover have "max 1 (min (lr_limit args) 10000) = Suc (max 1 (min (lr_limit args) 10000) - 1)"
    by simp
  ultimately show ?thesis
    using assms(3,4) dir timed_files_known [OF mtime]
    by (auto simp: list_routes_def try_bind_def Let_def take_Cons' split: prod.split)
qed

lemma route_relay: "route_update X rnd args = Inr (relay_id, channel_id, access, u) \<Longrightarrow> hex_of X (wr_relay_id args) = Inr relay_id"
  by (auto simp: route_update_def try_bind_def split: sum.splits)

lemma written_route:
  assumes "write_route_update X to_bytes spool_dirs spool_write now rnd args [] = (out, [(path, bs)])"
  shows "\<exists>relay_id channel_id access u. route_update X rnd args = Inr (relay_id, channel_id, access, u) \<and> to_bytes u = Inr bs
     \<and> hex_of X (wr_relay_id args) = Inr relay_id \<and> path = path_join (relay_dir X (wr_spool_dir args) relay_id)
        (route_file_name X (wr_valid_from_segment args) (rn_stream_id rnd))"
proof (cases "route_update X rnd args")
  case (Inl e)
  then show ?thesis
    using assms by (simp add: write_route_update_def)
next
  case (Inr r)
  obtain relay_id channel_id access u where r: "r = (relay_id, channel_id, access, u)"
    by (cases r)
  show ?thesis
  proof (cases "to_bytes u")
    case (Inl e)
    then show ?thesis
      using assms Inr by (simp add: write_route_update_def r)
  next
    case (Inr bytes)
    have "path = path_join (relay_dir X (wr_spool_dir args) relay_id)
        (route_file_name X (wr_valid_from_segment args) (rn_stream_id rnd)) \<and> bytes = bs"
      using assms \<open>route_update X rnd args = Inr r\<close> Inr
      by (simp add: write_route_update_def r spool_dirs_def spool_write_def Let_def split: option.splits sum.splits)
    then show ?thesis
      using \<open>route_update X rnd args = Inr r\<close> Inr route_relay r by auto
  qed
qed

text \<open>The route written last is the first one listed: once \<open>write-route-update\<close> has written its file,
  \<open>list-routes\<close> for the same relay begins with that route, exactly as it was written, whatever older files the
  directory holds (also files that cannot be decoded) and whatever the limit.\<close>

theorem written_route_listed_first:
  assumes "write_route_update X to_bytes spool_dirs spool_write now rnd args [] = (out, [(path, bs)])"
    and "\<forall>u. to_bytes u = Inr bs \<longrightarrow> from_bytes bs = Inr u"
    and "hex_of X (wr_relay_id args) = Inr relay_id"
    and "shows_newest fs (relay_dir X (wr_spool_dir args) relay_id)
      (route_file_name X (wr_valid_from_segment args) (rn_stream_id rnd)) bs"
    and "lr_spool_dir largs = wr_spool_dir args" and "lr_relay_id largs = Some (wr_relay_id args)"
  shows "\<exists>channel_id access u err rest. route_update X rnd args = Inr (relay_id, channel_id, access, u)
     \<and> list_routes X from_bytes fs largs = (err, route_lines X path u @ rest)"
proof -
  let ?dir = "relay_dir X (wr_spool_dir args) relay_id"
  let ?name = "route_file_name X (wr_valid_from_segment args) (rn_stream_id rnd)"
  obtain channel_id access u where u: "route_update X rnd args = Inr (relay_id, channel_id, access, u)" "to_bytes u = Inr bs"
    and path: "path = path_join ?dir ?name"
    using written_route [OF assms(1)] assms(3) by auto
  have "route_dirs X fs largs = Inr [?dir]"
    using assms(3,5,6) by (simp add: route_dirs_def)
  then show ?thesis
    using list_newest [OF assms(4) route_file_is_norito, of X largs from_bytes u] assms(2) u path by auto
qed

text \<open>The route is written before the options of the join link are checked: when a check refuses them, the
  command reports the error, but the route is in the spool directory, where a relay serves it.\<close>

theorem refused_link_leaves_route:
  assumes "route_update X rnd args = Inr (relay_id, channel_id, access, u)" and "to_bytes u = Inr bs"
    and "wr_relay args = Some relay" and "route_link X now (rn_nonce rnd) args channel_id access relay = Inl e"
  shows "\<exists>lines. write_route_update X to_bytes spool_dirs spool_write now rnd args [] = ((Some e, lines),
     [(path_join (relay_dir X (wr_spool_dir args) relay_id)
        (route_file_name X (wr_valid_from_segment args) (rn_stream_id rnd)), bs)])"
  using assms by (simp add: write_route_update_def try_bind_def spool_dirs_def spool_write_def Let_def)

section \<open>Used links\<close>

lemma check_repeats:
  assumes "fst (validate_join_link_security X t1 p True cache) = None"
    and "case jl_expires_at_ms p of None \<Rightarrow> True | Some e \<Rightarrow> t1 \<le> t2 \<and> t2 < e"
  shows "fst (validate_join_link_security X t2 p consume []) = None"
proof (cases "jl_version p = JOIN_LINK_VERSION_LEGACY")
  case True
  then show ?thesis
    using assms(1) by (simp add: validate_join_link_security_def split: if_splits)
next
  case False
  then have v2: "fst (validate_join_link_v2 X t1 p True cache) = None" "jl_version p = JOIN_LINK_VERSION_SIGNED"
    using assms(1) by (auto simp: validate_join_link_security_def split: if_splits)
  obtain e where e: "jl_expires_at_ms p = Some e"
    using v2(1) by (cases "jl_expires_at_ms p") (simp_all add: validate_join_link_v2_def)
  obtain k where k: "jl_nonce_hex p = Some k"
    using v2(1) e by (cases "jl_nonce_hex p") (simp_all add: validate_join_link_v2_def)
  obtain sig where "jl_signature_hex p = Some sig"
    using v2(1) e k by (cases "jl_signature_hex p") (simp_all add: validate_join_link_v2_def)
  note p = e k this
  let ?window = "MAX_JOIN_LINK_EXPIRES_IN_SECS * 1000"
  have "t1 \<le> t2" and "\<not> e \<le> t2"
    using assms(2) p(1) by auto
  have "\<not> sat_add t1 ?window < e"
    using v2(1) by (simp add: validate_join_link_v2_def p split: if_splits)
  then have "\<not> sat_add t2 ?window < e"
    using sat_add_mono [OF \<open>t1 \<le> t2\<close>, of ?window] less_le_trans by (blast intro: le_less_trans)
  moreover have "fst (register_join_link_nonce_once t2 k e []) = None"
    by (rule register_fresh) (simp_all add: hm_get_def MAX_JOIN_LINK_NONCE_CACHE_ENTRIES_def)
  ultimately have "fst (validate_join_link_v2 X t2 p consume []) = None"
    using v2(1) \<open>\<not> e \<le> t2\<close> by (simp add: validate_join_link_v2_def p split: if_splits sum.splits)
  then show ?thesis
    using v2(2) by (simp add: validate_join_link_security_def)
qed

lemma parse_checked:
  assumes "link_text_payload X link = Inr p"
  shows "fst (parse_join_link_with_mode X now link consume cache)
    = (case fst (validate_join_link_security X now p consume cache) of Some e \<Rightarrow> Inl e | None \<Rightarrow> Inr p)"
  using assms by (simp add: parse_join_link_with_mode_def split: prod.split option.split)

text \<open>C36. The nonces are remembered by the process only: the same command line, started again in a new process
  before its link expires, is accepted again, with the same settings.\<close>

theorem link_opens_in_each_process:
  assumes "fst (room_settings_of X env t0 t1 args cache) = Inr s" and "ra_join_link args = Some link"
    and "link_text_payload X link = Inr p"
    and "case jl_expires_at_ms p of None \<Rightarrow> True | Some e \<Rightarrow> t1 \<le> t2 \<and> t2 \<le> t3 \<and> t3 < e"
  shows "fst (room_settings_of X env t2 t3 args []) = Inr s"
proof -
  have ok: "fst (validate_join_link_security X t1 p True cache) = None"
    and first: "fst (parse_join_link_with_mode X t0 link False cache) = Inr p"
    and settings: "check_settings X (apply_room_chat_env_defaults env (apply_room_chat_join_link_defaults X args (Some p))) = Inr s"
    using assms(1) parse_checked [OF assms(3), of t0 False cache] parse_checked [OF assms(3), of t1 True cache]
    by (auto simp: room_settings_of_def parse_join_link_def parse_join_link_for_inspection_def assms(2) try_bind_def Let_def
        split: sum.splits prod.splits option.splits)
  have "case jl_expires_at_ms p of None \<Rightarrow> True | Some e \<Rightarrow> t1 \<le> t2 \<and> t2 < e"
    and "case jl_expires_at_ms p of None \<Rightarrow> True | Some e \<Rightarrow> t1 \<le> t3 \<and> t3 < e"
    using assms(4) by (auto split: option.splits)
  then have "fst (parse_join_link_with_mode X t2 link False []) = Inr p"
    and "fst (parse_join_link_with_mode X t3 link True []) = Inr p"
    using check_repeats [OF ok] parse_checked [OF assms(3)] by simp_all
  then show ?thesis
    using settings
    by (auto simp: room_settings_of_def parse_join_link_def parse_join_link_for_inspection_def assms(2) try_bind_def Let_def
        split: sum.split prod.split)
qed

section \<open>Concrete inputs\<close>

definition demo_route_args :: write_route_update_args where
  "demo_route_args = \<lparr>wr_spool_dir = ''spool'', wr_relay_id = replicate 64 (CHR ''7''), wr_channel = Some (replicate 64 (CHR ''8'')),
     wr_exit_multiaddr = ''/ip4/127.0.0.1/tcp/9000/ws'', wr_relay = Some (Addr_V4 (127, 0, 0, 1) 7000), wr_server_name = None,
     wr_insecure = False, wr_torii = None, wr_pay_to = None, wr_kaigi_domain = None, wr_kaigi_call_name = None,
     wr_kaigi_privacy_mode = None, wr_join_link_expires_in_secs = 60, wr_join_link_legacy_v1 = False,
     wr_allow_local_handshake = False, wr_access_kind = ''authenticated'', wr_padding_budget_ms = None,
     wr_valid_from_segment = 5, wr_valid_until_segment = 9\<rparr>"

definition demo_random :: route_random where
  "demo_random = \<lparr>rn_channel = [], rn_route_id = [1], rn_stream_id = [2], rn_exit_token = [3], rn_nonce = replicate 16 1\<rparr>"

definition demo_update :: privacy_route_update where
  "demo_update = \<lparr>pu_route_id = [1], pu_stream_id = [2], pu_content_key_id = 0, pu_valid_from_segment = 5,
     pu_valid_until_segment = 9, pu_exit_token = [3],
     pu_soranet = Some \<lparr>sr_channel_id = replicate 32 136, sr_exit_multiaddr = ''/ip4/127.0.0.1/tcp/9000/ws'',
       sr_padding_budget_ms = None, sr_access_kind = Access_Authenticated, sr_stream_tag = ''Kaigi''\<rparr>\<rparr>"

definition demo_to_bytes :: "privacy_route_update \<Rightarrow> string + bytes" where
  "demo_to_bytes u = (if u = demo_update then Inr [1] else Inl ''encode PrivacyRouteUpdate (norito)'')"

definition demo_from_bytes :: "bytes \<Rightarrow> string + privacy_route_update" where
  "demo_from_bytes bs = (if bs = [1] then Inr demo_update else Inl ''decode PrivacyRouteUpdate (norito)'')"

definition demo_name :: string where
  "demo_name = route_file_name demo_ext 5 [2]"

definition demo_relay_dir :: string where
  "demo_relay_dir = relay_dir demo_ext ''spool'' (replicate 32 119)"

definition demo_fs :: route_fs where
  \<comment> \<open>with an older file that cannot be decoded\<close>
  "demo_fs = \<lparr>fs_is_dir = \<lambda>_. True, fs_entries = \<lambda>_. Inr [''old.norito'', demo_name],
     fs_modified = \<lambda>path. Inr (Some (if path = path_join demo_relay_dir ''old.norito'' then 3 else 8)),
     fs_read = \<lambda>path. Inr (if path = path_join demo_relay_dir ''old.norito'' then [] else [1])\<rparr>"

definition torii_needed :: string where
  "torii_needed = ''--torii (or a --join-link containing torii=...) is required for Nexus-routed calls; pass '' @
     ''--allow-local-handshake only for local dev harness''"

definition demo_link_args :: room_chat_args where
  \<comment> \<open>with a signed link of \<open>make-join-link\<close> that expires at 61000\<close>
  "demo_link_args = demo_room_args\<lparr>ra_join_link := Some (''kaigi://join?v=2&relay=127.0.0.1%3A7000&channel='' @
       replicate 64 (CHR ''7'') @ ''&authenticated=1&insecure=0&torii=http%3A%2F%2Ft%3Fx%3D%2520&exp=61000&nonce='' @
       concat (replicate 16 ''01'') @ ''&sig='' @ concat (replicate 16 ''3130'')),
     ra_kaigi_iroha_config := None, ra_kaigi_domain := None, ra_kaigi_call_name := None,
     ra_kaigi_participant := None, ra_kaigi_join_commitment_hex := None, ra_kaigi_join_commitment_alias := None,
     ra_kaigi_join_nullifier_hex := None, ra_kaigi_nullifier_issued_at_ms := None, ra_kaigi_record_usage := False,
     ra_kaigi_billed_gas := 0\<rparr>"

definition demo_linked :: join_link_payload where
  "demo_linked = \<lparr>jl_version = 2, jl_relay = Addr_V4 (127, 0, 0, 1) 7000, jl_channel = replicate 32 119,
     jl_authenticated = True, jl_insecure = False, jl_server_name = None, jl_torii = Some ''http://t?x=%20'',
     jl_pay_to = None, jl_kaigi_domain = None, jl_kaigi_call_name = None, jl_kaigi_privacy_mode = None,
     jl_expires_at_ms = Some 61000, jl_nonce_hex = Some (concat (replicate 16 ''01'')),
     jl_signature_hex = Some (concat (replicate 16 ''3130''))\<rparr>"

lemma demo_link_text: "link_text_payload demo_ext (the (ra_join_link demo_link_args)) = Inr demo_linked"
  by code_simp

lemma first_use_checks:
  "fst (validate_join_link_security X now p True []) = fst (validate_join_link_security X now p False [])"
proof -
  have "fst (register_join_link_nonce_once now n e []) = None" for n e
    by (simp add: register_join_link_nonce_once_def MAX_JOIN_LINK_NONCE_CACHE_ENTRIES_def hm_get_def)
  then show ?thesis
    unfolding validate_join_link_security_def validate_join_link_v2_def
    by (auto split: option.split sum.split)
qed

lemma demo_hash_tail: "length (str_bytes t) = 32 \<Longrightarrow> blake3 demo_ext (str_bytes s @ str_bytes (u @ t)) = rev (str_bytes t)"
  by (simp add: demo_ext_def str_bytes_def)

lemma payload_ends_in_nonce:
  assumes "jl_expires_at_ms p = Some e" and "jl_nonce_hex p = Some n"
  shows "\<exists>u. join_link_signature_payload X p = Inr (u @ normalize_hex_arg n)"
  by (simp add: join_link_signature_payload_def assms del: append_assoc)

lemma demo_nonce_digest:
  "length (str_bytes (concat (replicate n ''01''))) = 2 * n"
  "hex_encode demo_ext (rev (str_bytes (concat (replicate n ''01'')))) = concat (replicate n ''3130'')"
proof -
  have bytes: "str_bytes (concat (replicate n ''01'')) = concat (replicate n [48, 49])"
    by (induction n) (simp_all add: str_bytes_def)
  then show "length (str_bytes (concat (replicate n ''01''))) = 2 * n"
    by (simp add: length_concat sum_list_replicate)
  have "char_of (49 :: nat) = CHR ''1''" "char_of (51 :: nat) = CHR ''3''" "char_of (48 :: nat) = CHR ''0''"
    by code_simp+
  then have "hex_encode demo_ext (concat (replicate n [49, 48])) = concat (replicate n ''3130'')"
    by (induction n) (simp_all add: demo_ext_def hex_digit_def)
  then show "hex_encode demo_ext (rev (str_bytes (concat (replicate n ''01'')))) = concat (replicate n ''3130'')"
    by (simp add: bytes rev_concat)
qed

lemma demo_nonce_normal: "normalize_hex_arg (concat (replicate 16 ''01'')) = concat (replicate 16 ''01'')"
  by code_simp

lemma demo_link_signed:
  "join_link_signature_hex demo_ext demo_linked = Inr (concat (replicate 16 ''3130''))"
proof -
  obtain u where "join_link_signature_payload demo_ext demo_linked = Inr (u @ concat (replicate 16 ''01''))"
    using payload_ends_in_nonce [of demo_linked 61000 "concat (replicate 16 ''01'')" demo_ext]
    unfolding demo_nonce_normal by (auto simp: demo_linked_def simp del: replicate.simps)
  moreover have "length (str_bytes (concat (replicate 16 ''01''))) = 32"
    by (rule trans [OF demo_nonce_digest(1)]) simp
  ultimately show ?thesis
    by (simp only: join_link_signature_hex_def try_bind_def sum.case cli_deterministic_signature_hex_def
        demo_hash_tail demo_nonce_digest(2))
qed

lemma demo_link_hex:
  "hex_decode demo_ext (cli_strip_hex_prefix (concat (replicate 16 ''01''))) \<noteq> None"
  "hex_decode demo_ext (cli_strip_hex_prefix (concat (replicate 16 ''3130''))) \<noteq> None"
  by code_simp+

lemma demo_link_lengths:
  "length (cli_strip_hex_prefix (concat (replicate 16 ''01''))) = 32"
  "length (cli_strip_hex_prefix (concat (replicate 16 ''3130''))) = 64"
  by code_simp+

lemma demo_link_normal: "normalize_hex_arg (concat (replicate 16 ''3130'')) = concat (replicate 16 ''3130'')"
  by code_simp

lemma demo_link_inspected: "fst (validate_join_link_security demo_ext 2000 demo_linked False []) = None"
proof -
  have fields: "jl_version demo_linked = JOIN_LINK_VERSION_SIGNED" "jl_expires_at_ms demo_linked = Some 61000"
    "jl_nonce_hex demo_linked = Some (concat (replicate 16 ''01''))"
    "jl_signature_hex demo_linked = Some (concat (replicate 16 ''3130''))"
    by (simp_all add: demo_linked_def JOIN_LINK_VERSION_SIGNED_def del: replicate.simps)
  have window: "\<not> (61000 :: u64) \<le> 2000" "\<not> (61000 :: u64) > sat_add 2000 (MAX_JOIN_LINK_EXPIRES_IN_SECS * 1000)"
    by code_simp+
  show ?thesis
    unfolding validate_join_link_security_def validate_join_link_v2_def
    by (simp only: fields window demo_link_signed demo_link_hex demo_link_lengths demo_link_normal
        JOIN_LINK_VERSION_LEGACY_def JOIN_LINK_VERSION_SIGNED_def JOIN_LINK_NONCE_BYTES_def option.case sum.case if_False)
      simp
qed

lemma demo_link_used: "fst (validate_join_link_security demo_ext 3000 demo_linked True []) = None"
  using check_repeats [OF trans [OF first_use_checks demo_link_inspected], of 3000 True]
  by (simp add: demo_linked_def)

lemma demo_link_settings:
  "case check_settings demo_ext (apply_room_chat_env_defaults (\<lambda>_. None)
       (apply_room_chat_join_link_defaults demo_ext demo_link_args (Some demo_linked))) of Inr _ \<Rightarrow> True | _ \<Rightarrow> False"
  by code_simp

lemma settings_with_link:
  assumes "ra_join_link args = Some link" and "link_text_payload X link = Inr p"
    and "fst (validate_join_link_security X t0 p False cache) = None"
    and "fst (validate_join_link_security X t1 p True cache) = None"
  shows "fst (room_settings_of X env t0 t1 args cache)
    = check_settings X (apply_room_chat_env_defaults env (apply_room_chat_join_link_defaults X args (Some p)))"
proof -
  have "fst (parse_join_link_with_mode X t0 link False cache) = Inr p"
    and "fst (parse_join_link_with_mode X t1 link True cache) = Inr p"
    using parse_checked [OF assms(2)] assms(3,4) by simp_all
  then show ?thesis
    by (cases "parse_join_link_with_mode X t1 link True cache")
      (simp add: room_settings_of_def parse_join_link_def parse_join_link_for_inspection_def assms(1) try_bind_def
        split: sum.split)
qed

lemma demo_route:
  "route_update demo_ext demo_random demo_route_args
    = Inr (replicate 32 119, replicate 32 136, Access_Authenticated, demo_update)"
  "hex_of demo_ext (wr_relay_id demo_route_args) = Inr (replicate 32 119)"
  "route_link demo_ext 1000 (rn_nonce demo_random) demo_route_args (replicate 32 136) Access_Authenticated
    (Addr_V4 (127, 0, 0, 1) 7000) = Inl torii_needed"
  "demo_name \<noteq> ''old.norito''" "demo_to_bytes demo_update = Inr [1]"
  by code_simp+

theorem refused_link_leaves_route_witness:
  "\<exists>lines. write_route_update demo_ext demo_to_bytes spool_dirs spool_write 1000 demo_random demo_route_args []
     = ((Some torii_needed, lines), [(path_join (relay_dir demo_ext (wr_spool_dir demo_route_args) (replicate 32 119))
        (route_file_name demo_ext (wr_valid_from_segment demo_route_args) (rn_stream_id demo_random)), [1])])"
proof (rule refused_link_leaves_route)
  show "wr_relay demo_route_args = Some (Addr_V4 (127, 0, 0, 1) 7000)"
    by (simp add: demo_route_args_def)
qed (rule demo_route)+

theorem written_route_listed_first_witness:
  "\<exists>channel_id access u err rest. route_update demo_ext demo_random (demo_route_args\<lparr>wr_relay := None\<rparr>)
       = Inr (replicate 32 119, channel_id, access, u)
     \<and> list_routes demo_ext demo_from_bytes demo_fs \<lparr>lr_spool_dir = ''spool'', lr_relay_id = Some (replicate 64 (CHR ''7'')),
         lr_limit = 0\<rparr>
       = (err, route_lines demo_ext (path_join demo_relay_dir demo_name) u @ rest)"
proof (rule written_route_listed_first)
  have "route_update demo_ext demo_random (demo_route_args\<lparr>wr_relay := None\<rparr>)
      = route_update demo_ext demo_random demo_route_args"
    by (simp add: route_update_def cong: option.case_cong)
  then show "write_route_update demo_ext demo_to_bytes spool_dirs spool_write 1000 demo_random (demo_route_args\<lparr>wr_relay := None\<rparr>) []
    = (fst (write_route_update demo_ext demo_to_bytes spool_dirs spool_write 1000 demo_random (demo_route_args\<lparr>wr_relay := None\<rparr>) []),
       [(path_join demo_relay_dir demo_name, [1])])"
    by (simp add: write_route_update_def demo_route(1,5) try_bind_def spool_dirs_def spool_write_def Let_def demo_relay_dir_def
        demo_name_def) (simp add: demo_route_args_def demo_random_def)
  have "path_join demo_relay_dir demo_name \<noteq> path_join demo_relay_dir ''old.norito''"
    using demo_route(4) by (simp add: path_join_def)
  then have "shows_newest demo_fs demo_relay_dir demo_name [1]"
    unfolding shows_newest_def
    by (auto simp: demo_fs_def unwrap_or_def demo_route(4) [symmetric]
        intro!: exI [of _ "\<lambda>n. Some (if n = ''old.norito'' then 3 else 8)"])
  then show "shows_newest demo_fs (relay_dir demo_ext (wr_spool_dir (demo_route_args\<lparr>wr_relay := None\<rparr>)) (replicate 32 119))
     (route_file_name demo_ext (wr_valid_from_segment (demo_route_args\<lparr>wr_relay := None\<rparr>)) (rn_stream_id demo_random)) [1]"
    by (simp add: demo_relay_dir_def demo_name_def demo_route_args_def demo_random_def)
  show "hex_of demo_ext (wr_relay_id (demo_route_args\<lparr>wr_relay := None\<rparr>)) = Inr (replicate 32 119)"
    using demo_route(2) by simp
qed (simp_all add: demo_route_args_def demo_to_bytes_def demo_from_bytes_def)

theorem link_opens_in_each_process_witness:
  "\<exists>s. fst (room_settings_of demo_ext (\<lambda>_. None) 50000 60000 demo_link_args []) = Inr s"
proof -
  have link: "ra_join_link demo_link_args = Some (the (ra_join_link demo_link_args))"
    by (simp add: demo_link_args_def)
  obtain s where s: "fst (room_settings_of demo_ext (\<lambda>_. None) 2000 3000 demo_link_args []) = Inr s"
    using demo_link_settings
    unfolding settings_with_link [OF link demo_link_text demo_link_inspected demo_link_used] by (auto split: sum.splits)
  have "fst (room_settings_of demo_ext (\<lambda>_. None) 50000 60000 demo_link_args []) = Inr s"
  proof (rule link_opens_in_each_process [OF s])
    show "ra_join_link demo_link_args = Some (the (ra_join_link demo_link_args))"
      by (rule link)
  qed (simp_all add: demo_link_text, simp add: demo_linked_def)
  then show ?thesis ..
qed

end
