(* ===== verification/Hub_Participants.thy ===== *)
theory Hub_Participants
  imports Hub_Epochs
begin

text \<open>
  What a participant's record can and cannot become. \<open>steady_at\<close> relates two states of a room for one connection
  that stays in it: the totals billed and paid and the two key epochs only grow, the billing remainder stays below a
  minute's worth of milliseconds, and a handle stays well formed and keeps a valid key. Every section is such a step
  for every connection, except the one that enters the connection, which starts a new record.
\<close>

definition key_ok :: "ext \<Rightarrow> participant_state \<Rightarrow> bool" where
  "key_ok X st \<longleftrightarrow> (case p_participant_handle st of
     None \<Rightarrow> True
   | Some handle \<Rightarrow> handle_syntax handle \<and>
       (case p_x25519_pubkey_hex st of None \<Rightarrow> False | Some pubkey \<Rightarrow> is_valid_hex_len X pubkey 32))"

definition evolves :: "ext \<Rightarrow> participant_state \<Rightarrow> participant_state \<Rightarrow> bool" where
  "evolves X st st' \<longleftrightarrow> p_billed_nano_xor st \<le> p_billed_nano_xor st' \<and> p_paid_nano_xor st \<le> p_paid_nano_xor st'
     \<and> (billing_ok st \<longrightarrow> billing_ok st') \<and> (key_ok X st \<longrightarrow> key_ok X st')"

definition steady_at :: "ext \<Rightarrow> conn_id \<Rightarrow> room_state \<Rightarrow> room_state \<Rightarrow> bool" where
  "steady_at X c room room' \<longleftrightarrow> (\<forall>q. get_p room' c = Some q \<longrightarrow>
     (\<exists>p. get_p room c = Some p \<and> evolves X (p_state p) (p_state q))
     \<and> key_epoch_of room c \<le> key_epoch_of room' c \<and> ack_epoch_of room c \<le> ack_epoch_of room' c)"

named_theorems steady \<open>rules that extend a steady history by one update\<close>

lemma evolves_refl [simp]: "evolves X st st"
  by (simp add: evolves_def)

lemma evolves_fields:
  assumes "p_participant_handle st' = p_participant_handle st" and "p_x25519_pubkey_hex st' = p_x25519_pubkey_hex st"
    and "p_billed_nano_xor st \<le> p_billed_nano_xor st'" and "p_paid_nano_xor st \<le> p_paid_nano_xor st'"
    and "billing_ok st \<Longrightarrow> billing_ok st'"
  shows "evolves X st st'"
  using assms by (simp add: evolves_def key_ok_def split: option.split)

lemma evolves_same:
  assumes "p_participant_handle st' = p_participant_handle st" and "p_x25519_pubkey_hex st' = p_x25519_pubkey_hex st"
    and "p_billed_nano_xor st' = p_billed_nano_xor st" and "p_paid_nano_xor st' = p_paid_nano_xor st"
    and "p_billing_remainder_mod_60k st' = p_billing_remainder_mod_60k st"
  shows "evolves X st st'"
  using assms by (intro evolves_fields) (simp_all add: billing_ok_def)

lemma evolves_trans: "evolves X a b \<Longrightarrow> evolves X b c \<Longrightarrow> evolves X a c"
  unfolding evolves_def by (blast intro: order_trans)

lemma steady_refl [steady]: "steady_at X c room room"
  by (simp add: steady_at_def)

lemma steady_trans: "steady_at X c room1 room2 \<Longrightarrow> steady_at X c room2 room3 \<Longrightarrow> steady_at X c room1 room3"
  unfolding steady_at_def by (meson evolves_trans order_trans)

lemmas epoch_defs = key_epoch_of_def ack_epoch_of_def hm_get_or0_def

lemma steady_same:
  assumes "steady_at X c a room" and "r_participants room' = r_participants room"
    and "r_e2ee_epochs room' = r_e2ee_epochs room"
    and "r_key_rotation_ack_epochs room' = r_key_rotation_ack_epochs room"
  shows "steady_at X c a room'"
  using assms by (simp add: steady_at_def epoch_defs)

lemma steady_fields [steady]:
  "steady_at X c a room \<Longrightarrow> steady_at X c a (room\<lparr>r_host_conn_id := x1\<rparr>)"
  "steady_at X c a room \<Longrightarrow> steady_at X c a (room\<lparr>r_host_role_owner := x2\<rparr>)"
  "steady_at X c a room \<Longrightarrow> steady_at X c a (room\<lparr>r_co_host_conn_ids := x3\<rparr>)"
  "steady_at X c a room \<Longrightarrow> steady_at X c a (room\<lparr>r_co_host_role_owners := x4\<rparr>)"
  "steady_at X c a room \<Longrightarrow> steady_at X c a (room\<lparr>r_device_caps_by_conn := x5\<rparr>)"
  "steady_at X c a room \<Longrightarrow> steady_at X c a (room\<lparr>r_signed_action_clock_by_signer := x6\<rparr>)"
  "steady_at X c a room \<Longrightarrow> steady_at X c a (room\<lparr>r_anonymous_mode := x7\<rparr>)"
  "steady_at X c a room \<Longrightarrow> steady_at X c a (room\<lparr>r_rate_per_minute_nano := x8\<rparr>)"
  "steady_at X c a room \<Longrightarrow> steady_at X c a (room\<lparr>r_max_screen_shares := x9\<rparr>)"
  by (rule steady_same, assumption, simp_all)+

lemma steady_bump [steady]:
  "steady_at X c a room \<Longrightarrow> steady_at X c a (bump_permissions room)"
  "steady_at X c a room \<Longrightarrow> steady_at X c a (bump_presence room)"
  by (rule steady_same, assumption, simp_all add: bump_permissions_def bump_presence_def)+

lemma steady_sync [steady]: "steady_at X c a room \<Longrightarrow> steady_at X c a (snd (sync_active_co_host_bindings room))"
  by (subst sync_frame) (rule steady)

lemma steady_clock [steady]:
  "steady_at X c a room \<Longrightarrow> steady_at X c a (snd (enforce_signed_action_clock room tag signer label t))"
  unfolding clock_room by (simp add: steady split: sum.split)

lemma steady_clockD: "enforce_signed_action_clock room tag signer label t = (r, room') \<Longrightarrow> steady_at X c room room'"
  using steady_clock [OF steady_refl, of X c room tag signer label t] by simp

lemma steady_if [steady]: "steady_at X c a x \<Longrightarrow> steady_at X c a y \<Longrightarrow> steady_at X c a (if b then x else y)"
  by simp

lemma steady_set:
  assumes "steady_at X c a room" and "get_p room d = Some p" and "evolves X (p_state p) st"
  shows "steady_at X c a (set_pstate room d st)"
proof (rule steady_trans [OF assms(1)])
  show "steady_at X c room (set_pstate room d st)"
    using assms(2,3) by (auto simp: steady_at_def epoch_defs)
qed

lemma steady_entry [steady]:
  "steady_at X c a room \<Longrightarrow> steady_at X c a (room\<lparr>r_e2ee_epochs := hm_entry_or (r_e2ee_epochs room) d 0\<rparr>)"
  by (rule steady_trans, assumption) (auto simp: steady_at_def epoch_defs hm_simps split: option.split)

text \<open>Removing a connection forgets its record and its epochs together.\<close>

lemma steady_gone:
  assumes "r_participants room' = hm_remove (r_participants room) d"
    and "r_e2ee_epochs room' = hm_remove (r_e2ee_epochs room) d"
    and "r_key_rotation_ack_epochs room' = hm_remove (r_key_rotation_ack_epochs room) d"
  shows "steady_at X c room room'"
  using assms by (simp add: steady_at_def epoch_defs hm_simps)

section \<open>The sections are steady\<close>

lemma evolves_billing: "evolves X st (advance_billing st rate now)"
  by (rule evolves_fields) (simp_all add: advance_billing_ok, simp add: advance_billing_def Let_def sat_add_ge)

lemma steady_bill_everyone: "steady_at X c room (bill_everyone room now)"
  by (auto simp: steady_at_def bill_everyone_def hm_simps epoch_defs evolves_billing)

lemma steady_restore [steady]:
  "steady_at X c a room \<Longrightarrow> steady_at X c a (snd (restore_reserved_roles_on_join room d i))"
  unfolding restore_reserved_roles_on_join_def Let_def case_prod_beta snd_conv by (intro steady)

lemma steady_admit: "steady_at X c a room \<Longrightarrow> steady_at X c a (snd (admit_waiting_participant at_ms room d))"
proof -
  assume a: "steady_at X c a room"
  have set: "steady_at X c a (set_pstate room d st)" if "get_p room d = Some p"
    and "st = (p_state p)\<lparr>p_waiting_room_pending := False, p_hello_seen := True,
        p_mic_enabled := False, p_video_enabled := False, p_screen_share_enabled := False\<rparr>" for p st
    unfolding that(2) by (rule steady_set [OF a that(1) evolves_same]) simp_all
  have entry: "steady_at X c a (set_pstate room d st\<lparr>r_e2ee_epochs := hm_entry_or (r_e2ee_epochs room) d 0\<rparr>)"
    if "steady_at X c a (set_pstate room d st)" for st
    using steady_entry [OF that, of d] by simp
  show ?thesis
    using a set entry by (simp add: admit_waiting_participant_def Let_def case_prod_beta steady split: option.split)
qed

lemma steady_deny: "steady_at X c a room \<Longrightarrow> steady_at X c a (snd (deny_waiting_participant room d))"
proof (rule steady_trans, assumption)
  have "steady_at X c room (room\<lparr>r_participants := hm_remove (r_participants room) d, r_co_host_conn_ids := ids,
      r_e2ee_epochs := hm_remove (r_e2ee_epochs room) d,
      r_key_rotation_ack_epochs := hm_remove (r_key_rotation_ack_epochs room) d\<rparr>)" for ids
    by (rule steady_gone) simp_all
  then show "steady_at X c room (snd (deny_waiting_participant room d))"
    unfolding deny_waiting_participant_def Let_def by (simp add: steady split: option.split)
qed

lemma steady_moderate_target:
  assumes "steady_at X c a room"
  shows "steady_at X c a (snd (moderate_target action now at_ms room target eff))"
proof -
  have "steady_at X c a (snd (disable_target f now room d eff))" if "\<And>st. evolves X st (f st)" for f d
    using assms steady_set [OF assms] that by (simp add: disable_target_def Let_def split: option.split)
  moreover have "evolves X st (st\<lparr>p_mic_enabled := False\<rparr>)" "evolves X st (st\<lparr>p_video_enabled := False\<rparr>)"
    "evolves X st (st\<lparr>p_screen_share_enabled := False\<rparr>)" for st
    by (rule evolves_same; simp)+
  ultimately show ?thesis
    using assms steady_admit [OF assms] steady_deny [OF assms]
    by (cases action) (simp_all add: moderate_target_def case_prod_beta split: sum.split prod.split)
qed

lemma steady_moderation: "steady_at X c room (snd (moderation_section d mo now t room))"
  by (rule moderation_closed [of "steady_at X c room"]) (rule steady steady_moderate_target, assumption?)+

lemma steady_reassign [steady]: "steady_at X c a room \<Longrightarrow> steady_at X c a (reassign_host room d)"
  unfolding reassign_host_def by (intro steady)

lemma steady_leave: "steady_at X c room (snd (disconnect_section d t room))"
proof -
  have "steady_at X c room (forget_conn room d)"
    by (rule steady_gone) (simp_all add: forget_conn_def)
  then show ?thesis by (simp add: disconnect_section_def Let_def steady)
qed

lemma steady_claim [steady]: "steady_at X c a room \<Longrightarrow> steady_at X c a (claim_free_host room d i)"
proof -
  assume "steady_at X c a room"
  from steady_fields(2) [OF steady_fields(1) [OF this]]
  have "steady_at X c a (room\<lparr>r_host_conn_id := Some d, r_host_role_owner := Some i\<rparr>)" by simp
  with \<open>steady_at X c a room\<close> show ?thesis
    unfolding claim_free_host_def by (intro steady)
qed

lemma steady_hello_joined [steady]: "steady_at X c a room \<Longrightarrow> steady_at X c a (hello_joined_room room d i)"
  unfolding hello_joined_room_def Let_def case_prod_beta by (intro steady)

lemma evolves_hello: "evolves X st (hello_state st he w)"
  by (simp add: evolves_def hello_state_def billing_ok_def key_ok_def)

lemma steady_hello: "steady_at X c room (snd (hello_section d he t room))"
proof -
  have "steady_at X c room (set_pstate (claim_free_host room d i) d (hello_state (p_state p) he w))"
    if "get_p room d = Some p" for i p w
    using that evolves_hello by (intro steady_set [OF steady_claim [OF steady_refl]]) simp_all
  then show ?thesis
    unfolding hello_section_room Let_def by (simp add: steady split: option.split)
qed

lemma handle_accepted: "validate_anon_participant_handle room c h = None \<Longrightarrow> handle_syntax h"
  by (auto simp: validate_anon_participant_handle_def handle_syntax_iff split: if_splits)

lemma evolves_anon_hello:
  assumes "apply_anon_hello_state st ah now = Inr st'" and "handle_syntax (ah_participant_handle ah)"
    and "is_valid_hex_len X (ah_x25519_pubkey_hex ah) 32"
  shows "evolves X st st'"
proof -
  have "key_ok X st'" and "p_billed_nano_xor st' = p_billed_nano_xor st" and "p_paid_nano_xor st' = p_paid_nano_xor st"
    and "p_billing_remainder_mod_60k st' = p_billing_remainder_mod_60k st"
    using assms by (auto simp: apply_anon_hello_state_def Let_def key_ok_def split: if_split_asm)
  then show ?thesis by (simp add: evolves_def billing_ok_def)
qed

lemma steady_anon_hello:
  assumes "is_valid_hex_len X (ah_x25519_pubkey_hex ah) 32"
  shows "steady_at X c room (snd (anon_hello_section X cfg d ah t room))"
proof -
  have rejected: "steady_at X c room (snd (record_anon_admission_rejection room))"
    by (rule steady_same [OF steady_refl]) (simp_all add: record_anon_admission_rejection_def Let_def)
  have "steady_at X c room (snd (anon_admit X t room d ah rate))" if "handle_syntax (ah_participant_handle ah)" for rate
  proof -
    have "steady_at X c room (set_pstate room d st\<lparr>r_rate_per_minute_nano := rate, r_anonymous_mode := True\<rparr>)"
      if "get_p room d = Some p" and "apply_anon_hello_state (p_state p) ah now = Inr st" for p st now
      using steady_fields(7) [OF steady_fields(8) [OF steady_set [OF steady_refl that(1)
        evolves_anon_hello [OF that(2) \<open>handle_syntax _\<close> assms]]]] by simp
    then show ?thesis
      by (simp add: anon_admit_def build_anon_group_key_rotate_frame_def Let_def steady split: option.split sum.split)
  qed
  then show ?thesis
    using rejected handle_accepted
    by (simp add: anon_hello_section_def steady_refl split: option.split sum.split)
qed

lemma steady_group_key: "steady_at X c room (snd (group_key_section X d gk t room))"
proof -
  have "evolves X st (st\<lparr>p_x25519_pubkey_hex := Some (gk_x25519_pubkey_hex gk), p_x25519_epoch := gk_epoch gk\<rparr>)"
    if "validate_group_key_update_frame X gk = None" for st
  proof -
    have "is_valid_hex_len X (gk_x25519_pubkey_hex gk) 32"
      using that by (auto simp: validate_group_key_update_frame_def split: if_splits)
    then show ?thesis by (simp add: evolves_def billing_ok_def key_ok_def split: option.split)
  qed
  then show ?thesis
    unfolding group_key_section_def Let_def
    by (auto intro!: steady_refl steady_set split: option.split sum.split bool.split)
qed

lemma steady_states:
  "steady_at X c room (snd (escrow_section X d ep t room))"
  "steady_at X c room (snd (participant_state_section d psf at_ms room))"
  unfolding escrow_section_def participant_state_section_def Let_def
  by (auto intro!: steady_refl steady_set evolves_same split: option.split prod.split)

lemma steady_media_track: "steady_at X c room (snd (media_track_section d mt at_ms room))"
proof -
  have "evolves X st (track_state st mt)" for st
    by (rule evolves_same) (simp_all add: track_state_def Let_def split: media_track_kind.split)
  then show ?thesis
    unfolding media_track_section_def Let_def by (auto intro!: steady_refl steady_set split: option.split)
qed

lemma steady_payment: "steady_at X c room (snd (payment_section X cfg d pay at_ms room))"
proof -
  have paid: "evolves X st (st\<lparr>p_paid_nano_xor := sat_add (p_paid_nano_xor st) amount, p_last_payment_at_ms := at\<rparr>)"
    and moved: "evolves X st (st\<lparr>p_last_billed_at_ms := now\<rparr>)" for st amount at now
    by (rule evolves_fields; simp add: billing_ok_def sat_add_ge)+
  show ?thesis
    unfolding payment_section_def Let_def
    using evolves_trans [OF evolves_billing paid] moved evolves_billing
    by (auto intro!: steady_refl steady_set split: option.split)
qed

lemma steady_billing: "steady_at X c room (snd (billing_section b d at_ms room))"
proof -
  have "evolves X st (st\<lparr>p_last_billed_at_ms := now\<rparr>)" for st now
    by (rule evolves_same) simp_all
  then show ?thesis
    unfolding billing_section_def Let_def
    by (auto intro!: steady_refl steady_set evolves_billing split: option.split)
qed

lemma steady_room_config: "steady_at X c room (snd (room_config_section cfg d rcu now room))"
proof -
  have "steady_at X c room (bill_everyone room now\<lparr>r_rate_per_minute_nano := rate, r_max_screen_shares := shares\<rparr>)"
    for rate shares
    using steady_fields(9) [OF steady_fields(8) [OF steady_bill_everyone]] by simp
  then show ?thesis
    by (simp add: room_config_section_def Let_def steady_refl split: option.split)
qed

lemma steady_role_delta [steady]: "steady_at X c a room \<Longrightarrow> steady_at X c a (snd (role_delta t room rc))"
  by (simp add: role_delta_def Let_def steady split: option.split)

lemma steady_grant_effect: "steady_at X c a room \<Longrightarrow> steady_at X c a (snd (grant_effect room d rg))"
  by (cases "rg_role rg") (simp_all add: grant_effect_def Let_def case_prod_beta steady)

lemma steady_revoke_effect: "steady_at X c a room \<Longrightarrow> steady_at X c a (snd (revoke_effect room d rr))"
proof -
  assume "steady_at X c a room"
  from steady_fields(3) [OF steady_fields(4) [OF this]]
  have "steady_at X c a (room\<lparr>r_co_host_role_owners := owners, r_co_host_conn_ids := ids\<rparr>)" for ids owners by simp
  then show ?thesis
    by (simp add: revoke_effect_def Let_def case_prod_beta steady)
qed

lemma steady_role_grant: "steady_at X c room (snd (role_grant_section X d rg t room))"
proof -
  obtain r room' where eq: "apply_role_grant X room d rg = (r, room')" by fastforce
  then show ?thesis
  proof (cases rule: apply_role_grant_cases)
    case (2 oc room1 target sender)
    have "steady_at X c room room'"
      using steady_grant_effect [OF steady_clockD [OF 2(3)], of X c target rg] 2(2) by simp
    then show ?thesis using eq 2(1) by (simp add: role_grant_section_def case_prod_beta steady)
  qed (use eq in \<open>simp add: role_grant_section_def steady_refl\<close>)
qed

lemma steady_role_revoke: "steady_at X c room (snd (role_revoke_section X d rr t room))"
proof -
  obtain r room' where eq: "apply_role_revoke X room d rr = (r, room')" by fastforce
  then show ?thesis
  proof (cases rule: apply_role_revoke_cases)
    case (2 oc room1 target sender)
    have "steady_at X c room room'"
      using steady_revoke_effect [OF steady_clockD [OF 2(3)], of X c target rr] 2(2) by simp
    then show ?thesis using eq 2(1) by (simp add: role_revoke_section_def case_prod_beta steady)
  qed (use eq in \<open>simp add: role_revoke_section_def steady_refl\<close>)
qed

lemma steady_session_policy: "steady_at X c room (snd (session_policy_section X d sp t room))"
proof -
  have "steady_at X c room (policy_effect room1 sp)" if "steady_at X c room room1" for room1
    by (rule steady_same [OF that]) (simp_all add: policy_effect_def)
  then show ?thesis
    by (simp add: session_policy_section_def apply_session_policy_update_def steady_refl steady_clockD
        split: option.split sum.split prod.split)
qed

lemma steady_e2ee: "steady_at X c room (snd (e2ee_epoch_section X d ke t room))"
proof -
  have "steady_at X c room (room1\<lparr>r_e2ee_epochs := hm_insert (r_e2ee_epochs room1) d (ke_epoch ke)\<rparr>)"
    if "enforce_signed_action_clock room tag signer label time = (r, room1)"
      and "\<not> ke_epoch ke \<le> hm_get_or0 (r_e2ee_epochs room) d" for tag signer label time r room1
  proof (rule steady_trans [OF steady_clockD [OF that(1)]])
    have "\<not> ke_epoch ke \<le> hm_get_or0 (r_e2ee_epochs room1) d"
      using that clock_policy_epoch(2) [of room tag signer label time] by simp
    then show "steady_at X c room1 (room1\<lparr>r_e2ee_epochs := hm_insert (r_e2ee_epochs room1) d (ke_epoch ke)\<rparr>)"
      by (simp add: steady_at_def key_epoch_of_def ack_epoch_of_def) (simp add: hm_get_or0_def hm_simps not_le less_imp_le)
  qed
  then show ?thesis
    unfolding e2ee_epoch_section_def Let_def
    by (cases "get_p room d")
      (auto simp: steady_refl steady_clockD first_error_def split: option.split sum.split prod.split if_splits)
qed

lemma steady_key_ack: "steady_at X c room (snd (key_ack_section d ka t room))"
proof -
  have "steady_at X c room (room1\<lparr>r_key_rotation_ack_epochs :=
      hm_insert (r_key_rotation_ack_epochs room1) d (ka_ack_epoch ka)\<rparr>)"
    if "enforce_signed_action_clock room tag signer label time = (r, room1)"
      and "key_ack_error d ka room st = None" for tag signer label time r room1 st
  proof (rule steady_trans [OF steady_clockD [OF that(1)]])
    have "ack_epoch_of room1 d < ka_ack_epoch ka"
      using that key_ack_error_None [OF that(2)] clock_policy_epoch(3) [of room tag signer label time]
      by (simp add: ack_epoch_of_def)
    then show "steady_at X c room1 (room1\<lparr>r_key_rotation_ack_epochs :=
        hm_insert (r_key_rotation_ack_epochs room1) d (ka_ack_epoch ka)\<rparr>)"
      by (simp add: steady_at_def key_epoch_of_def ack_epoch_of_def) (auto simp: hm_get_or0_def hm_simps)
  qed
  then show ?thesis
    unfolding key_ack_section_def
    by (simp add: steady_refl steady_clockD split: option.split sum.split prod.split)
qed

lemma steady_quiet:
  "steady_at X c room (snd (rotate_section X' t room))"
  "steady_at X c room (snd (device_capability_section d dc t room))"
  "steady_at X c room (snd (backpressure_section n t room))"
  by (rule steady_same [OF steady_refl];
      simp add: rotate_section_def build_anon_group_key_rotate_frame_def bump_permissions_def
        device_capability_section_def backpressure_section_def Let_def)+

text \<open>Every step is steady for every connection but one that it enters.\<close>

lemma steady_step:
  assumes "room_step X cfg room room'"
  shows "steady_at X c room room' \<or> (\<exists>at_ms. room' = join_section c at_ms room)"
  using assms
proof cases
  case (step_join d at_ms)
  then show ?thesis
    by (cases "d = c") (auto simp: join_section_def steady_at_def hm_simps epoch_defs)
qed (simp_all add: steady_leave steady_anon_hello steady_group_key steady_states steady_quiet steady_hello
    steady_media_track steady_room_config steady_role_grant steady_role_revoke steady_session_policy steady_e2ee
    steady_key_ack steady_payment steady_moderation steady_billing)

section \<open>Properties\<close>

definition records_ok :: "ext \<Rightarrow> room_state \<Rightarrow> bool" where
  "records_ok X room \<longleftrightarrow> (\<forall>c p. get_p room c = Some p \<longrightarrow> billing_ok (p_state p) \<and> key_ok X (p_state p))"

interpretation records: room_contract X cfg "records_ok X" for X cfg
proof unfold_locales
  show "records_ok X (new_room (default_rate_per_minute_nano (billing cfg)))"
    by (simp add: records_ok_def new_room_def hm_simps)
next
  fix room room'
  assume step: "room_step X cfg room room'" and ok: "records_ok X room"
  show "records_ok X room'"
    unfolding records_ok_def
  proof (intro allI impI)
    fix c q
    assume q: "get_p room' c = Some q"
    consider "steady_at X c room room'" | at_ms where "room' = join_section c at_ms room"
      using steady_step [OF step] by blast
    then show "billing_ok (p_state q) \<and> key_ok X (p_state q)"
    proof cases
      case 1
      then show ?thesis using ok q unfolding steady_at_def evolves_def records_ok_def by blast
    next
      case 2
      then show ?thesis
        using q by (auto simp: join_section_def hm_simps new_participant_def new_participant_state_def
            billing_ok_def key_ok_def)
    qed
  qed
qed

text \<open>C5. In every reachable room the handles of anonymous participants are pairwise distinct, each is well formed
  and comes with a public key of 32 bytes in hexadecimal, at most \<open>anon_max_participants\<close> anonymous participants have
  joined, and a transparent room holds no anonymous handle at all.\<close>

theorem anonymous_handles_sound:
  assumes "hub_reachable X cfg w" and "hm_get (h_rooms w) rid = Some room"
  shows "distinct (List.map_filter p_participant_handle (p_states room))
     \<and> list_all (\<lambda>st. case p_participant_handle st of
          None \<Rightarrow> True
        | Some handle \<Rightarrow> handle_syntax handle \<and> (case p_x25519_pubkey_hex st of
            None \<Rightarrow> False
          | Some pubkey \<Rightarrow> is_valid_hex_len X pubkey 32)) (p_states room)
     \<and> active_anon room \<le> anon_max_participants cfg
     \<and> (r_anonymous_mode room \<or> list_all (\<lambda>st. p_participant_handle st = None) (p_states room))"
proof (intro conjI)
  note reached = reachable_members [OF assms]
  note ok = members_okD [OF reached]
  show "distinct (List.map_filter p_participant_handle (p_states room))"
    by (rule handles_distinct [OF reached])
  show "list_all (\<lambda>st. case p_participant_handle st of
      None \<Rightarrow> True
    | Some handle \<Rightarrow> handle_syntax handle \<and> (case p_x25519_pubkey_hex st of
        None \<Rightarrow> False
      | Some pubkey \<Rightarrow> is_valid_hex_len X pubkey 32)) (p_states room)"
    using records.reachable_inv [OF assms] entry_get [OF ok(1)]
    by (fastforce simp: list_all_iff records_ok_def key_ok_def)
  show "active_anon room \<le> anon_max_participants cfg"
    by (rule active_anon_reached [OF assms])
  show "r_anonymous_mode room \<or> list_all (\<lambda>st. p_participant_handle st = None) (p_states room)"
    using modes_okD [OF ok(5)] entry_get [OF ok(1)] by (fastforce simp: list_all_iff)
qed

lemma anonymous_handles_sound_witness:
  "distinct (List.map_filter p_participant_handle (p_states demo_anon_pair))
     \<and> active_anon demo_anon_pair \<le> anon_max_participants demo_cfg \<and> handle_syntax ''ann'' \<and> handle_syntax ''bob''"
proof -
  obtain p q where "r_participants demo_anon_pair = [(1, p), (2, q)]"
      "p_participant_handle (p_state p) = Some ''ann''" "p_participant_handle (p_state q) = Some ''bob''"
    using demo_anon_pair_facts(2) by (auto simp: map_eq_Cons_conv)
  then show ?thesis
    using anonymous_handles_sound [OF demo_reachable demo_anon_pair_reached] by (simp add: list_all_iff)
qed

definition stays_joined :: "ext \<Rightarrow> hub_config \<Rightarrow> conn_id \<Rightarrow> room_state \<Rightarrow> room_state \<Rightarrow> bool" where
  \<comment> \<open>steps of the room during which the connection stays joined\<close>
  "stays_joined X cfg c = (\<lambda>room room'. room_step X cfg room room' \<and> joined_in room' c)\<^sup>*\<^sup>*"

lemma stays_joined_steady: "stays_joined X cfg c room room' \<Longrightarrow> steady_at X c room room'"
  unfolding stays_joined_def
proof (induction rule: rtranclp_induct)
  case (step room1 room2)
  have "room2 \<noteq> join_section c at_ms room1" for at_ms
    using step(2) by (auto simp: joined_in_def join_section_def hm_simps new_participant_def new_participant_state_def)
  then show ?case
    using step steady_step steady_trans by blast
qed (rule steady_refl)

text \<open>C22. Between any two states in a room's life the permissions epoch, the presence sequence, the policy epoch, the
  counts of rejected anonymous admissions and of dropped messages and the clock of every signer never decrease, and an
  anonymous room stays anonymous. As long as a connection stays joined, its key epoch, its acknowledged key epoch and
  the totals it was billed and has paid never decrease either.\<close>

theorem counters_never_decrease:
  assumes "(room_step X cfg)\<^sup>*\<^sup>* room room'"
  shows "r_permissions_epoch room \<le> r_permissions_epoch room'
     \<and> r_presence_sequence room \<le> r_presence_sequence room'
     \<and> r_policy_epoch room \<le> r_policy_epoch room'
     \<and> r_anon_admission_rejections room \<le> r_anon_admission_rejections room'
     \<and> r_backpressure_dropped_messages room \<le> r_backpressure_dropped_messages room'
     \<and> r_anonymous_mode room \<le> r_anonymous_mode room'
     \<and> (\<forall>signer. hm_get_or0 (r_signed_action_clock_by_signer room) signer
          \<le> hm_get_or0 (r_signed_action_clock_by_signer room') signer)
     \<and> (\<forall>c p q. stays_joined X cfg c room room' \<and> get_p room c = Some p \<and> get_p room' c = Some q \<longrightarrow>
          hm_get_or0 (r_e2ee_epochs room) c \<le> hm_get_or0 (r_e2ee_epochs room') c
          \<and> hm_get_or0 (r_key_rotation_ack_epochs room) c \<le> hm_get_or0 (r_key_rotation_ack_epochs room') c
          \<and> p_billed_nano_xor (p_state p) \<le> p_billed_nano_xor (p_state q)
          \<and> p_paid_nano_xor (p_state p) \<le> p_paid_nano_xor (p_state q))"
proof -
  have "\<forall>c p q. stays_joined X cfg c room room' \<and> get_p room c = Some p \<and> get_p room' c = Some q \<longrightarrow>
      key_epoch_of room c \<le> key_epoch_of room' c \<and> ack_epoch_of room c \<le> ack_epoch_of room' c
      \<and> p_billed_nano_xor (p_state p) \<le> p_billed_nano_xor (p_state q)
      \<and> p_paid_nano_xor (p_state p) \<le> p_paid_nano_xor (p_state q)"
    using stays_joined_steady unfolding steady_at_def evolves_def by fastforce
  then show ?thesis
    using history.room_steps_rel [OF assms]
    by (simp add: advances_def counters_grow_def clocks_grow_def clock_of_def key_epoch_of_def ack_epoch_of_def le_bool_def)
qed

definition demo_paid_room :: room_state where
  \<comment> \<open>the first of two members has paid 7\<close>
  "demo_paid_room = snd (payment_section demo_ext (demo_cfg\<lparr>require_payment_tx_hash := False\<rparr>) 1
     \<lparr>pay_sent_at_ms = 0, pay_amount_nano_xor = 7, pay_tx_hash_hex = None\<rparr> 5000 demo_pair)"

lemma demo_paid:
  "map_option (\<lambda>p. (p_hello_seen (p_state p), p_paid_nano_xor (p_state p))) (get_p demo_pair 1) = Some (True, 0)"
  "map_option (\<lambda>p. (p_hello_seen (p_state p), p_paid_nano_xor (p_state p))) (get_p demo_paid_room 1) = Some (True, 7)"
  by code_simp+

lemma counters_never_decrease_witness:
  "\<exists>p q. get_p demo_pair 1 = Some p \<and> get_p demo_paid_room 1 = Some q \<and> p_paid_nano_xor (p_state q) = 7
     \<and> p_paid_nano_xor (p_state p) \<le> p_paid_nano_xor (p_state q) \<and> p_billed_nano_xor (p_state p) \<le> p_billed_nano_xor (p_state q)"
proof -
  obtain p q where p: "get_p demo_pair 1 = Some p" "get_p demo_paid_room 1 = Some q"
    and q: "p_hello_seen (p_state q)" "p_paid_nano_xor (p_state q) = 7"
    using demo_paid by (auto split: option.splits)
  have step: "room_step demo_ext (demo_cfg\<lparr>require_payment_tx_hash := False\<rparr>) demo_pair demo_paid_room"
    unfolding demo_paid_room_def by (rule step_payment)
  moreover have "stays_joined demo_ext (demo_cfg\<lparr>require_payment_tx_hash := False\<rparr>) 1 demo_pair demo_paid_room"
    unfolding stays_joined_def using step p(2) q(1) by (intro r_into_rtranclp) (simp add: joined_in_def)
  ultimately show ?thesis
    using counters_never_decrease [of demo_ext "demo_cfg\<lparr>require_payment_tx_hash := False\<rparr>" demo_pair demo_paid_room] p q(2) by blast
qed

text \<open>C23. In every reachable room no connection has acknowledged a key epoch that it has not published, at least one
  screen share is allowed, every billing remainder is below 60000 (a minute in milliseconds, so no whole nano-XOR is
  carried over), and, when the hub was started with a rate that its command line accepts, the rate is positive unless
  free calls are allowed.\<close>

theorem reachable_in_bounds:
  assumes "hub_reachable X cfg w" and "hm_get (h_rooms w) rid = Some room"
    and "normalize_initial_rate rate (allow_free_calls cfg) = Inr (default_rate_per_minute_nano (billing cfg))"
  shows "hm_get_or0 (r_key_rotation_ack_epochs room) c \<le> hm_get_or0 (r_e2ee_epochs room) c
     \<and> 1 \<le> r_max_screen_shares room \<and> (allow_free_calls cfg \<or> 1 \<le> r_rate_per_minute_nano room)
     \<and> list_all (\<lambda>st. p_billing_remainder_mod_60k st < 60000) (p_states room)"
proof -
  have "hm_get_or0 (r_key_rotation_ack_epochs room) c \<le> hm_get_or0 (r_e2ee_epochs room) c
     \<and> 1 \<le> r_max_screen_shares room \<and> (allow_free_calls cfg \<or> 1 \<le> r_rate_per_minute_nano room)"
    using assms(3) by (intro bounds_reached [OF assms(1,2)])
      (auto simp: normalize_initial_rate_def normalize_rate_for_policy_def max_def split: if_splits)
  moreover have "list_all (\<lambda>st. p_billing_remainder_mod_60k st < 60000) (p_states room)"
    using records.reachable_inv [OF assms(1,2)] entry_get [OF members_okD(1) [OF reachable_members [OF assms(1,2)]]]
    by (fastforce simp: list_all_iff records_ok_def billing_ok_def word_less_nat_alt)
  ultimately show ?thesis by blast
qed

lemma reachable_in_bounds_witness:
  "1 \<le> r_max_screen_shares demo_pair \<and> 1 \<le> r_rate_per_minute_nano demo_pair
     \<and> list_all (\<lambda>st. p_billing_remainder_mod_60k st < 60000) (p_states demo_pair)"
proof -
  have "normalize_initial_rate 1000000 (allow_free_calls demo_cfg)
      = Inr (default_rate_per_minute_nano (billing demo_cfg))" and "\<not> allow_free_calls demo_cfg"
    by (simp_all add: demo_cfg_def normalize_initial_rate_def normalize_rate_for_policy_def)
  then show ?thesis
    using reachable_in_bounds [OF demo_reachable demo_pair_reached] by blast
qed

end
