(* ===== verification/Hub_Start.thy ===== *)
theory Hub_Start
  imports Hub_Epochs Net_Addr
begin

text \<open>
  The process of the hub (\<open>main\<close> of \<^verbatim>\<open>crates/kaigi-hub-echo/src/main.rs\<close>): its command line, the
  configuration and the empty hub it builds from it, and the loop that turns every accepted connection into a
  task. The theorems about reachable hubs are carried over to the hub a command line starts.
\<close>

section \<open>The command line\<close>

record hub_args =
  ag_listen :: socket_addr
  ag_log_level :: string
  ag_xor_rate_per_minute_nano :: u64
  ag_allow_free_calls :: bool
  ag_allow_unhashed_payments :: bool
  ag_billing_grace_secs :: u64
  ag_billing_check_interval_secs :: u64
  ag_anon_escrow_proof_max_stale_secs :: u64
  ag_anon_max_participants :: nat
  ag_anon_zk_extra_fee_per_minute_nano :: u64

definition default_args :: hub_args where
  \<comment> \<open>a command line without options\<close>
  "default_args = \<lparr>ag_listen = Addr_V4 (127, 0, 0, 1) 9000, ag_log_level = ''info'',
     ag_xor_rate_per_minute_nano = DEFAULT_XOR_RATE_PER_MINUTE_NANO, ag_allow_free_calls = False,
     ag_allow_unhashed_payments = False, ag_billing_grace_secs = 30, ag_billing_check_interval_secs = 5,
     ag_anon_escrow_proof_max_stale_secs = 90, ag_anon_max_participants = DEFAULT_ANON_MAX_PARTICIPANTS,
     ag_anon_zk_extra_fee_per_minute_nano = 0\<rparr>"

section \<open>The start\<close>

text \<open>The operating system and the logging library: whether the environment holds a log filter, which levels are
  filters, which addresses can be bound, and the clock.\<close>

record hub_os =
  os_env_filter :: bool
  os_is_filter :: "string \<Rightarrow> bool"
  os_bind :: "socket_addr \<Rightarrow> bool"
  os_clock :: "nat \<Rightarrow> int"

definition init_tracing :: "hub_os \<Rightarrow> string \<Rightarrow> string + unit" where
  "init_tracing os level =
     (if os_env_filter os \<or> os_is_filter os level then Inr () else Inl ''parse log filter'')"

definition start_warnings :: "hub_args \<Rightarrow> string list" where
  "start_warnings args =
     (if should_warn_high_anon_capacity (normalize_anon_max_participants (ag_anon_max_participants args))
      then [''high anonymous participant cap configured; expect increased roster and broadcast cost''] else []) @
     (if is_anon_escrow_stale_enforcement_disabled (ag_anon_escrow_proof_max_stale_secs args)
      then [''anonymous escrow stale enforcement disabled (--anon-escrow-proof-max-stale-secs=0)''] else []) @
     (if should_warn_high_anon_escrow_stale_secs (ag_anon_escrow_proof_max_stale_secs args)
      then [''high escrow-proof stale window configured; stale participants may linger longer than expected'']
      else [])"

record hub_process =
  hp_config :: hub_config
  hp_hub :: hub
  hp_warnings :: "string list"

definition config_of_args :: "hub_args \<Rightarrow> u64 \<Rightarrow> hub_config" where
  "config_of_args args initial_rate = \<lparr>
     billing = \<lparr>default_rate_per_minute_nano = initial_rate,
       anon_zk_extra_fee_per_minute_nano = ag_anon_zk_extra_fee_per_minute_nano args,
       grace_secs = ag_billing_grace_secs args, check_interval_secs = ag_billing_check_interval_secs args,
       anon_escrow_proof_max_stale_secs = ag_anon_escrow_proof_max_stale_secs args\<rparr>,
     anon_max_participants = normalize_anon_max_participants (ag_anon_max_participants args),
     allow_free_calls = ag_allow_free_calls args,
     require_payment_tx_hash = (\<not> ag_allow_unhashed_payments args)\<rparr>"

definition new_hub :: "(nat \<Rightarrow> int) \<Rightarrow> hub" where
  "new_hub clock = \<lparr>h_rooms = [], h_next_conn_id = 1, h_chans = [], h_time = clock, h_ticks = 0\<rparr>"

definition start_hub :: "hub_os \<Rightarrow> hub_args \<Rightarrow> string + hub_process" where
  \<comment> \<open>\<open>main\<close> up to the accept loop\<close>
  "start_hub os args =
     (case init_tracing os (ag_log_level args) of Inl e \<Rightarrow> Inl e | Inr _ \<Rightarrow>
      case normalize_initial_rate (ag_xor_rate_per_minute_nano args) (ag_allow_free_calls args) of
        Inl e \<Rightarrow> Inl e
      | Inr initial_rate \<Rightarrow>
          if \<not> os_bind os (ag_listen args) then Inl (''bind '' @ show_socket_addr (ag_listen args))
          else Inr \<lparr>hp_config = config_of_args args initial_rate, hp_hub = new_hub (os_clock os),
                 hp_warnings = start_warnings args\<rparr>)"

section \<open>The accept loop\<close>

record stream_open =
  so_channel_id :: bytes
  so_route_id :: bytes
  so_stream_id :: bytes
  so_room_id :: room_id
  so_authenticated :: bool
  so_access_kind :: nat
  so_exit_token :: bytes
  so_exit_multiaddr :: string

fun accept_loop ::
    "ext \<Rightarrow> hub_config \<Rightarrow> (bytes \<Rightarrow> stream_open option) \<Rightarrow> ws_event list option list
      \<Rightarrow> unit hub_prog list \<times> string option" where
  \<comment> \<open>the tasks spawned for the connections accepted so far, and the error of an \<open>accept\<close> that failed\<close>
  "accept_loop X cfg decode_open [] = ([], None)"
| "accept_loop X cfg decode_open (None # accepted) = ([], Some ''accept'')"
| "accept_loop X cfg decode_open (Some events # accepted) =
     apfst (\<lambda>tasks. handle_conn X cfg (map_option so_room_id \<circ> decode_open) events # tasks)
       (accept_loop X cfg decode_open accepted)"

lemma accept_loop_tasks: "set (fst (accept_loop X cfg decode_open accepted)) \<subseteq> hub_tasks X cfg"
  by (induction X cfg decode_open accepted rule: accept_loop.induct) (auto simp: hub_tasks_def)

section \<open>What a start promises\<close>

lemma initial_rate_Inr:
  assumes "normalize_initial_rate r free = Inr i"
  shows "i = r" and "free \<or> i \<noteq> 0"
proof -
  have "1 \<le> r" if "r \<noteq> 0"
    using that by (metis linorder_not_le word_less_1)
  then show "i = r" and "free \<or> i \<noteq> 0"
    using assms by (auto simp: normalize_initial_rate_def normalize_rate_for_policy_def max_absorb1 split: if_splits)
qed

lemma start_hub_Inr:
  assumes "start_hub os args = Inr p"
  shows "h_rooms (hp_hub p) = []" and "allow_free_calls (hp_config p) = ag_allow_free_calls args"
    and "ag_allow_free_calls args \<or> default_rate_per_minute_nano (billing (hp_config p)) \<noteq> 0"
    and "anon_max_participants (hp_config p) = max 1 (ag_anon_max_participants args)"
    and "require_payment_tx_hash (hp_config p) \<longleftrightarrow> \<not> ag_allow_unhashed_payments args"
    and "default_rate_per_minute_nano (billing (hp_config p)) = ag_xor_rate_per_minute_nano args"
  using assms
  by (auto simp: start_hub_def new_hub_def config_of_args_def normalize_anon_max_participants_def max.commute
      dest: initial_rate_Inr split: sum.splits if_splits)

definition hub_runs_to :: "ext \<Rightarrow> hub_process \<Rightarrow> hub \<Rightarrow> bool" where
  \<comment> \<open>the process has come to \<open>w\<close> by some interleaving of its tasks\<close>
  "hub_runs_to X p w \<longleftrightarrow> (\<exists>ps. (pool_step (hub_tasks X (hp_config p)))\<^sup>*\<^sup>* ([], hp_hub p) (ps, w))"

lemma started_reachable: "start_hub os args = Inr p \<Longrightarrow> hub_runs_to X p w \<Longrightarrow> hub_reachable X (hp_config p) w"
  unfolding hub_runs_to_def hub_reachable_def using start_hub_Inr(1) by blast

text \<open>C12. What the command line of the hub promises holds in every room the process ever has, whatever its
  connections do and in whatever order: unless free calls are allowed, the rate of every room is positive; no
  more anonymous participants have joined a room than the option allows (one, if it says none); at least
  one screen share is allowed.\<close>

theorem started_hub_keeps_options:
  assumes "start_hub os args = Inr p" and "hub_runs_to X p w" and "hm_get (h_rooms w) rid = Some room"
  shows "(ag_allow_free_calls args \<or> 1 \<le> r_rate_per_minute_nano room)
     \<and> active_anon room \<le> max 1 (ag_anon_max_participants args) \<and> 1 \<le> r_max_screen_shares room"
  using bounds_reached [OF started_reachable [OF assms(1,2)] assms(3)]
    active_anon_reached [OF started_reachable [OF assms(1,2)] assms(3)] start_hub_Inr [OF assms(1)]
  by simp

text \<open>A start is refused for one of three reasons only, and the default options are accepted.\<close>

theorem start_hub_refused_iff:
  "(\<exists>e. start_hub os args = Inl e) \<longleftrightarrow>
     \<not> (os_env_filter os \<or> os_is_filter os (ag_log_level args))
     \<or> ag_xor_rate_per_minute_nano args = 0 \<and> \<not> ag_allow_free_calls args
     \<or> \<not> os_bind os (ag_listen args)"
  by (auto simp: start_hub_def init_tracing_def normalize_initial_rate_def split: sum.splits)

definition demo_os :: hub_os where
  "demo_os = \<lparr>os_env_filter = False, os_is_filter = (\<lambda>s. s = ''info''), os_bind = (\<lambda>_. True),
     os_clock = (\<lambda>n. 1000 + int n)\<rparr>"

lemma default_start: "\<exists>p. start_hub demo_os default_args = Inr p \<and> hp_warnings p = []"
  by (simp add: start_hub_def demo_os_def default_args_def init_tracing_def normalize_initial_rate_def
      DEFAULT_XOR_RATE_PER_MINUTE_NANO_def DEFAULT_ANON_MAX_PARTICIPANTS_def start_warnings_def
      should_warn_high_anon_capacity_def normalize_anon_max_participants_def WARN_ANON_MAX_PARTICIPANTS_THRESHOLD_def
      is_anon_escrow_stale_enforcement_disabled_def should_warn_high_anon_escrow_stale_secs_def
      WARN_ANON_ESCROW_PROOF_STALE_SECS_THRESHOLD_def)

text \<open>The command line of the demonstration hub.\<close>

definition demo_args :: hub_args where
  "demo_args = default_args\<lparr>ag_anon_max_participants := 2, ag_anon_escrow_proof_max_stale_secs := 180\<rparr>"

lemma demo_start: "start_hub demo_os demo_args = Inr \<lparr>hp_config = demo_cfg, hp_hub = empty_hub, hp_warnings = []\<rparr>"
  by (simp add: start_hub_def demo_os_def demo_args_def default_args_def init_tracing_def normalize_initial_rate_def
      DEFAULT_XOR_RATE_PER_MINUTE_NANO_def DEFAULT_ANON_MAX_PARTICIPANTS_def start_warnings_def
      should_warn_high_anon_capacity_def normalize_anon_max_participants_def WARN_ANON_MAX_PARTICIPANTS_THRESHOLD_def
      is_anon_escrow_stale_enforcement_disabled_def should_warn_high_anon_escrow_stale_secs_def config_of_args_def
      WARN_ANON_ESCROW_PROOF_STALE_SECS_THRESHOLD_def normalize_rate_for_policy_def demo_cfg_def empty_hub_def new_hub_def)

lemma started_hub_keeps_options_witness:
  "(ag_allow_free_calls demo_args \<or> 1 \<le> r_rate_per_minute_nano demo_anon_pair)
     \<and> active_anon demo_anon_pair \<le> max 1 (ag_anon_max_participants demo_args)
     \<and> 1 \<le> r_max_screen_shares demo_anon_pair"
proof (rule started_hub_keeps_options [OF demo_start])
  show "hub_runs_to hub_ext \<lparr>hp_config = demo_cfg, hp_hub = empty_hub, hp_warnings = []\<rparr> (demo_hub [3, 4])"
    using demo_runs by (simp add: hub_runs_to_def)
qed (rule demo_anon_pair_reached)

end
