(* ===== verification/Hub_Stream.thy ===== *)
theory Hub_Stream
  imports Hub_Lifecycle
begin

text \<open>
  The connection of the hub refined to its frames: the receive loop, which is woken for every chunk of the
  transport, decodes while it can and keeps what is left of a frame, is the same program as handling the
  frames of the byte stream one after the other. Programs are compared as programs, so a refined
  connection takes the same atomic steps, between the same steps of other connections.
\<close>

section \<open>Programs in sequence\<close>

lemma seq_Return [simp]: "seq_prog (Return x) p = p"
  by (simp add: seq_prog_def)

lemma bind_Return [simp]: "bind_prog p Return = p"
  by (induction p) (simp_all add: bind_Atomic del: bind_prog.simps(3))

lemma seq_assoc: "seq_prog (seq_prog p q) r = seq_prog p (seq_prog q r)"
  by (simp add: seq_prog_def bind_assoc)

lemma bind_seq: "bind_prog (seq_prog p q) k = seq_prog p (bind_prog q k)"
  by (simp add: seq_prog_def bind_assoc)

lemma for_each_append: "for_each (xs @ ys) f = seq_prog (for_each xs f) (for_each ys f)"
  by (induction xs) (simp_all add: seq_assoc)

lemmas prog_seq = seq_assoc bind_seq for_each_append

section \<open>A chunk\<close>

abbreviation handle_all :: "ext \<Rightarrow> hub_config \<Rightarrow> room_id \<Rightarrow> conn_id \<Rightarrow> kaigi_frame list \<Rightarrow> unit hub_prog" where
  "handle_all X cfg rid c frames \<equiv> for_each frames (handle_frame X cfg rid c)"

lemma pump_frames_drain:
  "pump_frames X cfg rid c d = (case drain X d of
     (frames, e, d') \<Rightarrow> seq_prog (handle_all X cfg rid c frames)
        (case e of None \<Rightarrow> Return d' | Some e \<Rightarrow> Fail (Wire_Failed e)))"
proof (induction X d rule: drain.induct)
  case (1 X d)
  obtain r d1 where t: "try_next X d = (r, d1)"
    by (cases "try_next X d")
  show ?case
  proof (cases r)
    case (Inl e)
    then show ?thesis by (simp add: pump_frames.simps [of X cfg rid c d] drain.simps [of X d] t)
  next
    case (Inr next_frame)
    show ?thesis
    proof (cases next_frame)
      case None
      then show ?thesis using Inr by (simp add: pump_frames.simps [of X cfg rid c d] drain.simps [of X d] t)
    next
      case (Some f)
      have IH: "pump_frames X cfg rid c d1 = (case drain X d1 of
          (frames, e, d') \<Rightarrow> seq_prog (handle_all X cfg rid c frames)
            (case e of None \<Rightarrow> Return d' | Some e \<Rightarrow> Fail (Wire_Failed e)))"
        using "1.IH" t Inr Some by fastforce
      show ?thesis
        by (simp add: pump_frames.simps [of X cfg rid c d] drain.simps [of X d] t Inr Some IH prog_seq
            split: prod.split)
    qed
  qed
qed

section \<open>The stream\<close>

definition binary_messages :: "bytes list \<Rightarrow> ws_event list" where
  "binary_messages chunks = map (\<lambda>chunk. Ws_Message (Msg_Binary chunk)) chunks"

lemma stream_refined:
  "receive_loop X cfg rid c d (binary_messages chunks @ events) =
     (case receive X d chunks of
        (frames, None, d') \<Rightarrow> seq_prog (handle_all X cfg rid c frames) (receive_loop X cfg rid c d' events)
      | (frames, Some e, _) \<Rightarrow> seq_prog (handle_all X cfg rid c frames) (Fail (Wire_Failed e)))"
proof (induction chunks arbitrary: d)
  case Nil
  show ?case by (simp add: binary_messages_def)
next
  case (Cons chunk chunks)
  then show ?case
    by (simp add: binary_messages_def pump_frames_drain prog_seq split: prod.split option.split)
qed

text \<open>C8. The receive loop of a connection implements the handling of its frames: fed with the chunks of a byte
  stream and then with anything else, it is the program that handles the decoded frames in their order and
  goes on with the rest of the buffer, or, when the stream does not decode, the program that handles the
  frames before the error and fails with it. As this is an equation between programs it holds under every
  interleaving with the other connections.\<close>

theorem connection_refines_stream:
  "receive_loop X cfg rid c d (binary_messages chunks @ events) =
     (case receive X d chunks of
        (frames, None, d') \<Rightarrow> seq_prog (for_each frames (handle_frame X cfg rid c)) (receive_loop X cfg rid c d' events)
      | (frames, Some e, _) \<Rightarrow> seq_prog (for_each frames (handle_frame X cfg rid c)) (Fail (Wire_Failed e)))"
  by (rule stream_refined)

text \<open>The way the transport cuts the stream into messages changes nothing of what the connection does.\<close>

theorem hub_ignores_chunking:
  assumes "concat chunks = concat chunks'"
  shows "receive_loop X cfg rid c decoder_new (binary_messages chunks)
    = receive_loop X cfg rid c decoder_new (binary_messages chunks')"
proof -
  have loop: "receive_loop X cfg rid c decoder_new (binary_messages cs) =
      (case drain X \<lparr>buf = concat cs\<rparr> of (frames, e, _) \<Rightarrow>
         seq_prog (handle_all X cfg rid c frames) (case e of None \<Rightarrow> Return () | Some e \<Rightarrow> Fail (Wire_Failed e)))" for cs
    using stream_refined [of X cfg rid c decoder_new cs "[]"] receive_drain [of X cs]
    by (cases "receive X decoder_new cs"; cases "drain X \<lparr>buf = concat cs\<rparr>") (auto split: option.split)
  show ?thesis
    unfolding loop assms ..
qed

lemma hub_ignores_chunking_witness:
  "receive_loop demo_ext demo_cfg [7] 1 decoder_new (binary_messages [[0, 0, 0, 2, 1, 7]])
    = receive_loop demo_ext demo_cfg [7] 1 decoder_new (binary_messages [[0], [0, 0, 2], [1, 7]])"
  by (rule hub_ignores_chunking) simp

text \<open>A connection that is sent encoded frames handles these frames.\<close>

lemma connection_handles_sent:
  assumes "norito_roundtrip X" and "norito_nonempty X"
    and "list_all2 (\<lambda>f bs. encode_framed X f = Inr bs) frames bss" and "concat chunks = concat bss"
  shows "receive_loop X cfg rid c decoder_new (binary_messages chunks @ events)
    = seq_prog (handle_all X cfg rid c frames) (receive_loop X cfg rid c decoder_new events)"
  by (simp add: stream_refined receive_encoded [OF assms])

end
