(* ===== verification/Cli_Hub.thy ===== *)
theory Cli_Hub
  imports Hub_Epochs Cli_Anon_Safety Cli_Room_Safety
begin

text \<open>
  The command line client against the hub: what the client builds, the hub's own checks accept. The theorems join
  the definitions of the two programs, which share only the frames.
\<close>

section \<open>Signatures\<close>

lemma strip_hex_prefix_same: "cli_strip_hex_prefix s = strip_hex_prefix s"
  by (cases s rule: cli_strip_hex_prefix.cases) simp_all

lemma signature_same: "cli_deterministic_signature_hex X tag payload = deterministic_signature_hex X tag payload"
  by (simp add: cli_deterministic_signature_hex_def deterministic_signature_hex_def)

lemma encoded_lower: "hex_laws X \<Longrightarrow> to_ascii_lowercase (hex_encode X bs) = hex_encode X bs"
  by (simp add: hex_laws_def lower_hex_plain)

lemma encoded_len: "hex_laws X \<Longrightarrow> is_valid_hex_len X (hex_encode X bs) (length bs)"
  by (simp add: is_valid_hex_len_def hex_encode_plain strip_hex_prefix_same [symmetric])

lemma encoded_hex: "hex_laws X \<Longrightarrow> bs \<noteq> [] \<Longrightarrow> is_valid_hex X (hex_encode X bs)"
proof -
  assume laws: "hex_laws X" and "bs \<noteq> []"
  then have "hex_encode X bs \<noteq> []" using hex_encode_plain(6) [OF laws, of bs] by (cases "hex_encode X bs") auto
  then show ?thesis using hex_encode_plain [OF laws, of bs]
    by (simp add: is_valid_hex_def Let_def strip_hex_prefix_same [symmetric])
qed

lemma signature_ok:
  assumes "hex_laws X" "hash_law X"
  shows "to_ascii_lowercase (cli_deterministic_signature_hex X tag payload) = deterministic_signature_hex X tag payload"
    "is_valid_hex_len X (cli_deterministic_signature_hex X tag payload) 32"
  using assms encoded_len [OF assms(1), of "blake3 X (str_bytes tag @ str_bytes payload)"]
  by (simp_all add: signature_same deterministic_signature_hex_def encoded_lower hash_law_def)

lemma tokens_same: "cli_moderation_action_token = moderation_action_token" "cli_moderation_target_token = moderation_target_token"
  by (auto simp: cli_moderation_action_token_def cli_moderation_target_token_def split: moderation_action.split moderation_target.split)

section \<open>Typed frames\<close>

definition frame_passes :: "ext \<Rightarrow> string \<Rightarrow> kaigi_frame \<Rightarrow> bool" where
  \<comment> \<open>the checks of the hub that do not look at its state, and the sender in its own name\<close>
  "frame_passes X pid frame \<longleftrightarrow> (case frame of
     K_ModerationSigned m \<Rightarrow> ms_issued_by m = pid \<and> is_valid_hex_len X (ms_signature_hex m) 32
       \<and> moderation_signed_signature_is_valid X m
   | K_RoleGrant g \<Rightarrow> rg_granted_by g = pid \<and> is_valid_hex_len X (rg_signature_hex g) 32
       \<and> role_grant_signature_is_valid X g
   | K_RoleRevoke g \<Rightarrow> rr_revoked_by g = pid \<and> is_valid_hex_len X (rr_signature_hex g) 32
       \<and> role_revoke_signature_is_valid X g
   | K_SessionPolicy p \<Rightarrow> sp_updated_by p = pid \<and> is_valid_hex_len X (sp_signature_hex p) 32
       \<and> session_policy_signature_is_valid X p
   | K_DeviceCapability d \<Rightarrow> dc_participant_id d = pid \<and> validate_device_capability_frame d = None
   | K_MediaProfileNegotiation p \<Rightarrow> mp_participant_id p = pid \<and> validate_media_profile_negotiation_frame p = None
   | K_RecordingNotice n \<Rightarrow> rn_participant_id n = pid \<and> rn_issued_by n = pid \<and> validate_recording_notice_frame n = None
   | K_E2EEKeyEpoch k \<Rightarrow> ke_participant_id k = pid \<and> validate_e2ee_key_epoch_frame X k = None
   | K_KeyRotationAck a \<Rightarrow> ka_participant_id a = pid \<and> ka_ack_epoch a \<noteq> 0
   | K_ParticipantState _ \<Rightarrow> True | K_RoomConfigUpdate _ \<Rightarrow> True | K_Payment _ \<Rightarrow> True
   | K_Chat m \<Rightarrow> ch_from_participant_id m = pid
   | _ \<Rightarrow> False)"

lemma moderation_passes:
  assumes "hex_laws X" "hash_law X"
  shows "frame_passes X pid (signed_moderation_frame X pid at_ms target action)"
  by (simp add: frame_passes_def signed_moderation_frame_def moderation_signed_signature_is_valid_def
      signature_ok [OF assms] tokens_same)

lemma policy_passes:
  assumes "hex_laws X" "hash_law X"
  shows "frame_passes X pid (policy_frame X pid at_ms state)"
  by (simp add: frame_passes_def policy_frame_def session_policy_signature_hex_def session_policy_signature_is_valid_def
      signature_ok [OF assms])

lemma of_nat_pos: "n \<noteq> 0 \<Longrightarrow> n < 2 ^ LENGTH('a) \<Longrightarrow> (of_nat n :: 'a::len word) \<noteq> 0"
  by (metis mod_less unat_0 unat_of_nat)

lemma parse_uint_le: "parse_uint m s = Some n \<Longrightarrow> n \<le> m"
  by (auto simp: parse_uint_def Let_def split: if_splits option.splits)

lemma media_passes: "media_command at_ms cmd st = Some (Inr (frame, st')) \<Longrightarrow> frame_passes X pid frame"
  by (auto simp: media_command_def Let_def send_now_def frame_passes_def map_sum_def split: if_splits option.splits sum.splits)


lemma target_passes:
  assumes "target_command cmd name mk st = Some (Inr (frame, st'))" "\<And>t. frame_passes X pid (mk t)"
  shows "frame_passes X pid frame"
  using assms by (auto simp: target_command_def Let_def send_now_def split: if_splits)

lemma or_else_Some: "or_else a b = Some r \<Longrightarrow> (a = Some r \<Longrightarrow> P) \<Longrightarrow> (b = Some r \<Longrightarrow> P) \<Longrightarrow> P"
  by (cases a) (auto simp: or_else_def)

lemma moderation_command_passes:
  assumes "hex_laws X" "hash_law X" "moderation_command X pid at_ms cmd st = Some (Inr (frame, st'))"
  shows "frame_passes X pid frame"
  using assms(3) unfolding moderation_command_def Let_def
  by (auto simp: send_now_def moderation_passes [OF assms(1,2)] elim!: or_else_Some target_passes split: if_splits)

lemma role_command_passes:
  assumes "hex_laws X" "hash_law X" "role_command X pid at_ms cmd st = Some (Inr (frame, st'))"
  shows "frame_passes X pid frame"
  using assms(3) unfolding role_command_def Let_def
  by (elim or_else_Some target_passes) (simp_all add: frame_passes_def role_grant_signature_is_valid_def
      role_revoke_signature_is_valid_def signature_ok [OF assms(1,2)])

lemma policy_switch_passes:
  assumes "hex_laws X" "hash_law X" "policy_switch X pid at_ms cmd name change st = Some (Inr (frame, st'))"
  shows "frame_passes X pid frame"
  using assms(3)
  by (auto simp: policy_switch_def send_policy_def Let_def policy_passes [OF assms(1,2)] map_sum_def
      split: if_splits sum.splits)

lemma policy_command_passes:
  assumes "hex_laws X" "hash_law X" "policy_command X pid at_ms cmd st = Some (Inr (frame, st'))"
  shows "frame_passes X pid frame"
  using assms(3) unfolding policy_command_def Let_def
  by (auto simp: send_policy_def Let_def policy_passes [OF assms(1,2)] elim!: or_else_Some
      policy_switch_passes [OF assms(1,2)] split: if_splits option.splits)

lemma sat_add_1: "sat_add x 1 \<noteq> (0 :: u64)"
  using unat_sat_add [of x 1] by auto

lemma device_command_passes:
  assumes "\<not> trim_is_empty (rx_participant_id c)" "device_command c at_ms cmd st = Some (Inr (frame, st'))"
  shows "frame_passes X (rx_participant_id c) frame"
proof -
  have names: "\<not> trim_is_empty ''av1''" "\<not> trim_is_empty ''h265''" by code_simp+
  show ?thesis
    using assms(2) unfolding device_command_def Let_def
    by (auto simp: send_now_def frame_passes_def assms(1) names recording_frame_def validate_device_capability_frame_def
        validate_media_profile_negotiation_frame_def validate_recording_notice_frame_def sat_add_1 split: if_splits)
qed

lemma e2ee_command_passes:
  assumes "hex_laws X" "hash_law X" "\<not> trim_is_empty pid" "e2ee_command X pid at_ms cmd st = Some (Inr (frame, st'))"
  shows "frame_passes X pid frame"
proof -
  have epoch: "n \<le> 18446744073709551615 \<Longrightarrow> dec64 (of_nat n) = dec n" for n
    by (simp add: unat_of_nat)
  show ?thesis
    using assms(4) unfolding e2ee_command_def Let_def
    by (auto simp: send_now_def frame_passes_def assms(3) signature_ok [OF assms(1,2)] validate_e2ee_key_epoch_frame_def
        e2ee_public_key_is_valid_def e2ee_signature_is_valid_def of_nat_pos epoch dest!: parse_uint_le split: if_splits option.splits)
qed


text \<open>C16. Whatever the user types, a frame that leaves passes the checks the hub makes before it looks at its state, and
  names the participant who sent it: signatures the client computes are the ones the hub computes.\<close>

theorem typed_frames_pass:
  assumes "hex_laws X" "hash_law X" "\<not> trim_is_empty (rx_participant_id c)"
    and "room_command X transfer c at_ms cmd st w = (Inr (frame, st'), lines, w')"
  shows "frame_passes X (rx_participant_id c) frame"
proof -
  define plain where "plain = or_else (media_command at_ms cmd st)
    (or_else (moderation_command X (rx_participant_id c) at_ms cmd st)
    (or_else (role_command X (rx_participant_id c) at_ms cmd st) (or_else (policy_command X (rx_participant_id c) at_ms cmd st)
    (or_else (device_command c at_ms cmd st) (e2ee_command X (rx_participant_id c) at_ms cmd st)))))"
  note run = assms(4) [unfolded room_command_def Let_def, folded plain_def]
  show ?thesis
  proof (cases plain)
    case (Some r)
    then have "plain = Some (Inr (frame, st'))" using run by simp
    then show ?thesis unfolding plain_def
      by (elim or_else_Some media_passes moderation_command_passes [OF assms(1,2)] role_command_passes [OF assms(1,2)]
          policy_command_passes [OF assms(1,2)] device_command_passes [OF assms(3)] e2ee_command_passes [OF assms(1-3)])
  next
    case None
    have pay: "pay_command transfer c at_ms n w = (f, l, w2) \<Longrightarrow> frame_passes X (rx_participant_id c) f" for n f l w2
      by (auto simp: pay_command_def frame_passes_def Let_def split: option.splits prod.splits sum.splits)
    have chat: "frame_passes X (rx_participant_id c) (chat_frame_of c at_ms cmd)"
      by (simp add: chat_frame_of_def frame_passes_def)
    show ?thesis
      using run None chat moderation_passes [OF assms(1,2)] by (auto dest: pay split: if_splits option.splits prod.splits)
  qed
qed


lemma typed_frames_pass_witness:
  "\<exists>frame. room_command demo_ext refuses demo_context 7 ''/mute p'' (room_local_new 0) () = (Inr (frame, room_local_new 0), [], ())
    \<and> frame_passes demo_ext ''h'' frame"
proof -
  have arg: "str_trim ''p'' = ''p''" by code_simp
  then have run: "room_command demo_ext refuses demo_context 7 ''/mute p'' (room_local_new 0) () = (Inr (signed_moderation_frame
      demo_ext ''h'' 7 (Target_Participant ''p'') Action_DisableMic, room_local_new 0), [], ())"
    by (simp add: room_command_def commands argument_of_def strip_prefix_def unwrap_or_def send_now_def demo_context_def)
  have "\<not> trim_is_empty (rx_participant_id demo_context)" by code_simp
  then show ?thesis
    using typed_frames_pass [OF demo_hex_laws demo_hash_law _ run] run by (auto simp: demo_context_def)
qed

section \<open>The session policy\<close>

definition in_step :: "room_local \<Rightarrow> room_state \<Rightarrow> bool" where
  \<comment> \<open>the client's copy of the policy is the one of the room\<close>
  "in_step st room \<longleftrightarrow> rl_policy st = \<lparr>lp_room_lock = r_room_lock room,
     lp_waiting_room_enabled = r_waiting_room_enabled room, lp_guest_join_allowed = r_guest_join_allowed room,
     lp_local_recording_allowed = r_local_recording_allowed room, lp_e2ee_required = r_e2ee_required room,
     lp_max_participants = r_max_participants room, lp_policy_epoch = r_policy_epoch room\<rparr>"

lemma in_step_receive: "in_step (snd (room_receive c (K_SessionPolicy (session_policy_of room)) st)) room"
  by (simp add: in_step_def room_receive_def session_policy_of_def)

lemma sat_add_above: "x < - 1 \<Longrightarrow> x < sat_add x (1 :: u64)"
  using unat_sat_add [of x 1] unat_lt2p [of x] by (auto simp: word_less_nat_alt unat_max_word)

text \<open>C17. A host whose copy of the policy is the room's may change the policy from the command line: the hub accepts the
  frame, and afterwards the copy is the room's again. The clock must have moved on since the host's last change.\<close>

theorem policy_change_accepted:
  assumes "hex_laws X" "hash_law X" "in_step st room" "joined_in room conn" "r_host_conn_id room = Some conn"
    and "map_option (\<lambda>p. p_participant_id (p_state p)) (get_p room conn) = Some pid"
    and "r_policy_epoch room < - 1" "0 < lp_max_participants (change (rl_policy st))"
    and "lp_policy_epoch (change (rl_policy st)) = lp_policy_epoch (rl_policy st)"
    and "clock_of room (signed_action_clock_key ''session_policy'' pid) < at_ms"
    and "send_policy X pid at_ms change st = (K_SessionPolicy policy, st')"
  shows "\<exists>room'. apply_session_policy_update X room conn policy = (Inr (), room')
    \<and> in_step st' room' \<and> r_participants room' = r_participants room"
proof -
  let ?state = "(change (rl_policy st))\<lparr>lp_policy_epoch := sat_add (r_policy_epoch room) 1\<rparr>"
  have st: "rl_policy st = \<lparr>lp_room_lock = r_room_lock room,
     lp_waiting_room_enabled = r_waiting_room_enabled room, lp_guest_join_allowed = r_guest_join_allowed room,
     lp_local_recording_allowed = r_local_recording_allowed room, lp_e2ee_required = r_e2ee_required room,
     lp_max_participants = r_max_participants room, lp_policy_epoch = r_policy_epoch room\<rparr>"
    using assms(3) by (simp add: in_step_def)
  have frame: "K_SessionPolicy policy = policy_frame X pid at_ms ?state" and st': "st' = st\<lparr>rl_policy := ?state\<rparr>"
    using assms(9,11) by (auto simp: send_policy_def Let_def st)
  have policy: "sp_updated_by policy = pid" "sp_updated_at_ms policy = at_ms"
    "sp_policy_epoch policy = sat_add (r_policy_epoch room) 1" "sp_max_participants policy = lp_max_participants ?state"
    "sp_room_lock policy = lp_room_lock ?state" "sp_waiting_room_enabled policy = lp_waiting_room_enabled ?state"
    "sp_guest_join_allowed policy = lp_guest_join_allowed ?state"
    "sp_local_recording_allowed policy = lp_local_recording_allowed ?state" "sp_e2ee_required policy = lp_e2ee_required ?state"
    using frame by (simp_all add: policy_frame_def)
  have passes: "is_valid_hex_len X (sp_signature_hex policy) 32" "session_policy_signature_is_valid X policy"
    using policy_passes [OF assms(1,2), of pid at_ms ?state] by (simp_all add: frame [symmetric] frame_passes_def)
  obtain p where p: "get_p room conn = Some p" "p_participant_id (p_state p) = pid" "p_hello_seen (p_state p)"
    using assms(4,6) by (auto simp: joined_in_def split: option.splits)
  obtain room1 where clock: "enforce_signed_action_clock room ''session_policy'' pid ''updated_at_ms'' at_ms = (Inr (), room1)"
    using assms(10) order.strict_trans1 [OF word_zero_le assms(10)] by (auto simp: clock_accepts clock_of_def hm_get_or0_def word_gt_0 split: option.splits)
  have "apply_session_policy_update X room conn policy = (Inr (), policy_effect room1 policy)"
    using assms(5,8) sat_add_above [OF assms(7)] passes
    by (simp add: apply_session_policy_update_def p can_manage_roles_and_policy_def policy clock word_gt_0)
  moreover have "r_participants room1 = r_participants room" using clock by (auto simp: clock_accepts)
  ultimately show ?thesis
    by (simp add: policy_effect_def in_step_def st' policy)
qed

lemma policy_change_accepted_witness:
  "\<exists>policy st' room'. send_policy demo_ext ''a@x'' 9 (lp_room_lock_update (\<lambda>_. True)) (snd (room_receive demo_context
      (K_SessionPolicy (session_policy_of demo_pair)) (room_local_new 0))) = (K_SessionPolicy policy, st')
    \<and> apply_session_policy_update demo_ext demo_pair 1 policy = (Inr (), room') \<and> in_step st' room' \<and> r_room_lock room'"
proof -
  let ?st = "snd (room_receive demo_context (K_SessionPolicy (session_policy_of demo_pair)) (room_local_new 0))"
  obtain policy st' where send: "send_policy demo_ext ''a@x'' 9 (lp_room_lock_update (\<lambda>_. True)) ?st = (K_SessionPolicy policy, st')"
    by (simp add: send_policy_def policy_frame_def Let_def)
  have "let room = demo_pair in joined_in room 1 \<and> r_host_conn_id room = Some 1
      \<and> map_option (\<lambda>p. p_participant_id (p_state p)) (get_p room 1) = Some ''a@x'' \<and> r_policy_epoch room < - 1
      \<and> 0 < r_max_participants room \<and> clock_of room (signed_action_clock_key ''session_policy'' ''a@x'') < 9"
    by code_simp
  then have room: "joined_in demo_pair 1" "r_host_conn_id demo_pair = Some 1"
    "map_option (\<lambda>p. p_participant_id (p_state p)) (get_p demo_pair 1) = Some ''a@x''" "r_policy_epoch demo_pair < - 1"
    "0 < lp_max_participants (lp_room_lock_update (\<lambda>_. True) (rl_policy ?st))"
    "clock_of demo_pair (signed_action_clock_key ''session_policy'' ''a@x'') < 9"
    by (simp_all add: Let_def room_receive_def session_policy_of_def)
  obtain room' where accepted: "apply_session_policy_update demo_ext demo_pair 1 policy = (Inr (), room')" "in_step st' room'"
    using policy_change_accepted [OF demo_hex_laws demo_hash_law in_step_receive room(1-5) _ room(6) send] by auto
  have "lp_room_lock (rl_policy st')" using send by (auto simp: send_policy_def Let_def)
  then have "r_room_lock room'" using accepted(2) by (simp add: in_step_def)
  then show ?thesis using send accepted by blast
qed

section \<open>Payments\<close>

text \<open>C37. A manual payment that failed on the ledger is credited by a hub that does not ask for transaction hashes, in full.\<close>

theorem failed_pay_credited:
  assumes "rx_pay_ledger c = Some ledger" "parse_uint (2 ^ 64 - 1) (str_trim v) = Some (unat amount)"
    and "transfer ledger amount w = (Inl e, w')" "\<not> require_payment_tx_hash cfg"
    and "get_p room conn = Some p" "p_hello_seen (p_state p)"
  shows "case room_command X transfer c at_ms (''/pay '' @ v) st w of
      (Inr (K_Payment payment, _), _) \<Rightarrow> (case payment_section X cfg conn payment now room of
          (Pay_Accepted paid _, _) \<Rightarrow> unat paid = min (2 ^ 64 - 1) (unat (p_paid_nano_xor (p_state p)) + unat amount)
        | _ \<Rightarrow> False)
    | _ \<Rightarrow> False"
  using assms
  by (simp add: pay_line pay_command_def payment_section_def Let_def unat_sat_add advance_billing_def del: append.simps)

lemma failed_pay_credited_witness:
  "case room_command demo_ext refuses demo_context 7 (''/pay '' @ ''12'') (room_local_new 0) () of
      (Inr (K_Payment payment, _), _) \<Rightarrow> (case payment_section demo_ext (demo_cfg\<lparr>require_payment_tx_hash := False\<rparr>) 1
            payment 9 demo_pair of
          (Pay_Accepted paid _, _) \<Rightarrow> unat paid = min (2 ^ 64 - 1) (unat (0 :: u64) + unat (12 :: u64))
        | _ \<Rightarrow> False)
    | _ \<Rightarrow> False"
proof -
  have number: "parse_uint (2 ^ 64 - 1) (str_trim ''12'') = Some (unat (12 :: u64))" by code_simp
  have p: "case get_p demo_pair 1 of Some p \<Rightarrow> p_hello_seen (p_state p) \<and> p_paid_nano_xor (p_state p) = 0 | None \<Rightarrow> False"
    by code_simp
  then obtain p where p: "get_p demo_pair 1 = Some p" "p_hello_seen (p_state p)" "p_paid_nano_xor (p_state p) = 0"
    by (auto split: option.splits)
  have ledger: "rx_pay_ledger demo_context = Some (the (rx_pay_ledger demo_context))" by (simp add: demo_context_def)
  have fails: "refuses (the (rx_pay_ledger demo_context)) 12 () = (Inl ''no funds'', ())" by (simp add: refuses_def)
  show ?thesis
    by (rule failed_pay_credited [where transfer = refuses, OF ledger number fails _ p(1,2), unfolded p(3)]) simp
qed


section \<open>Anonymous rooms\<close>

lemma handle_checks: "validate_anonymous_participant_handle h = None \<longleftrightarrow> handle_syntax h"
  by (simp add: validate_anonymous_participant_handle_def handle_syntax_iff has_forbidden_anon_handle_symbol_def
      has_disallowed_anon_handle_chars_def has_space_or_control_def not_less)

text \<open>The client and the hub agree on what an anonymous handle is: the hub refuses a handle the client lets through
  only because another member of the room has it or the connection has another.\<close>

theorem handle_checks_agree:
  "validate_anon_participant_handle room conn h = None \<longleftrightarrow> validate_anonymous_participant_handle h = None
     \<and> \<not> list_ex (\<lambda>(c, p). c \<noteq> conn \<and> p_anonymous_mode (p_state p) \<and> p_participant_handle (p_state p) = Some h)
         (r_participants room)
     \<and> Option.bind (get_p room conn) (\<lambda>p. p_participant_handle (p_state p)) \<in> {None, Some h}"
  by (auto simp: validate_anon_participant_handle_def handle_checks handle_syntax_iff not_less split: option.split)

lemma escrow_id_checks: "validate_anon_escrow_id v = None \<longleftrightarrow> handle_syntax v"
  and escrow_id_trim: "handle_syntax v \<Longrightarrow> str_trim v = v"
proof -
  have plain: "str_trim v = v" if "is_ascii v" "\<not> has_space_or_control v"
    using that by (intro str_trim_plain)
      (auto simp: is_ascii_def has_space_or_control_def chars_ascii list_all_iff list_ex_iff)
  have "str_trim v = v" if "handle_syntax v"
    using that plain by (simp add: handle_syntax_iff has_disallowed_anon_handle_chars_def has_space_or_control_def)
  moreover have "handle_syntax v" if "is_ascii v" "\<not> has_space_or_control v" "str_trim v \<noteq> []" "\<not> contains_at v"
      "length (str_trim v) \<le> MAX_ESCROW_ID_LEN"
  proof -
    have "v \<noteq> []" using plain [OF that(1,2)] that(3) by auto
    then have "hd v \<in> set v" "\<not> is_whitespace (byte_of (hd v))"
      using that(2) by (auto simp: has_space_or_control_def chars_ascii [OF that(1)] list_ex_iff)
    then have "\<not> trim_is_empty v" by (auto simp: trim_is_empty_ascii [OF that(1)])
    then show ?thesis using that plain [OF that(1,2)]
      by (simp add: handle_syntax_iff has_disallowed_anon_handle_chars_def has_space_or_control_def
          has_forbidden_anon_handle_symbol_def MAX_ESCROW_ID_LEN_def MAX_ANON_PARTICIPANT_HANDLE_LEN_def)
  qed
  moreover have "v \<noteq> []" if "handle_syntax v" using that by (simp add: handle_syntax_def)
  moreover have "validate_anon_escrow_id v = None \<longleftrightarrow> str_trim v \<noteq> [] \<and> is_ascii v \<and> \<not> contains_at v
      \<and> \<not> has_space_or_control v \<and> length (str_trim v) \<le> MAX_ESCROW_ID_LEN"
    by (simp add: validate_anon_escrow_id_def Let_def not_less)
  moreover have "is_ascii v \<and> \<not> contains_at v \<and> \<not> has_space_or_control v \<and> length v \<le> MAX_ESCROW_ID_LEN"
    if "handle_syntax v"
    using that by (simp add: handle_syntax_iff has_disallowed_anon_handle_chars_def has_space_or_control_def
        has_forbidden_anon_handle_symbol_def MAX_ESCROW_ID_LEN_def MAX_ANON_PARTICIPANT_HANDLE_LEN_def)
  ultimately show "validate_anon_escrow_id v = None \<longleftrightarrow> handle_syntax v" "handle_syntax v \<Longrightarrow> str_trim v = v"
    by metis+
qed

lemma escrow_frame_checks:
  "validate_escrow_proof_frame X proof = None \<longleftrightarrow> handle_syntax (ep_payer_handle proof) \<and> handle_syntax (ep_escrow_id proof)
     \<and> length (strip_hex_prefix (ep_proof_hex proof)) \<le> MAX_ESCROW_PROOF_HEX_LEN \<and> is_valid_hex X (ep_proof_hex proof)"
  by (auto simp: validate_escrow_proof_frame_def handle_syntax_iff has_disallowed_anon_handle_chars_def
      has_forbidden_anon_handle_symbol_def MAX_ESCROW_ID_LEN_def MAX_ANON_PARTICIPANT_HANDLE_LEN_def not_less split: if_splits)

lemma proof_checks:
  "validate_anon_proof_hex X v arg = None \<longleftrightarrow> length (strip_hex_prefix (str_trim v)) \<le> MAX_ESCROW_PROOF_HEX_LEN
     \<and> is_valid_hex X (str_trim v)"
  by (auto simp: validate_anon_proof_hex_def is_valid_hex_def Let_def strip_hex_prefix_same not_less)


lemma hex_handle: "hex_laws X \<Longrightarrow> length bs \<le> 32 \<Longrightarrow> handle_syntax (''anon-'' @ hex_encode X bs)
    \<and> handle_syntax (''escrow-'' @ hex_encode X bs)"
proof -
  assume laws: "hex_laws X" and "length bs \<le> 32"
  moreover have "\<forall>c \<in> set (hex_encode X bs). 33 \<le> byte_of c \<and> byte_of c \<le> 126 \<and> c \<noteq> CHR ''@''"
  proof
    fix c assume "c \<in> set (hex_encode X bs)"
    then have "lower_hex_char c" using laws by (simp add: hex_laws_def list_all_iff)
    moreover have "byte_of CHR ''@'' = 64" by (simp add: byte_of_def)
    ultimately show "33 \<le> byte_of c \<and> byte_of c \<le> 126 \<and> c \<noteq> CHR ''@''" by (auto simp: lower_hex_char_def)
  qed
  ultimately show ?thesis
    using hex_encode_plain(6) [OF laws, of bs] by (simp add: handle_syntax_def byte_of_def)
qed

text \<open>Every escrow proof an anonymous client sends, the first one, the ones of the timer and the ones the user types,
  is well-formed for the hub, whether the settings name an escrow and a proof or the client draws them.\<close>

theorem escrow_proofs_accepted:
  assumes "hex_laws X" "length rnd8 = 8" "length rnd32 = 32" "handle_syntax (an_handle room)"
    and "validate_anonymous_escrow_settings X args True = None"
    and "proof_hex = es_proof_hex (anon_escrow_of X rnd8 rnd32 args)
      \<or> validate_anon_proof_hex X typed ''/escrow-proof'' = None \<and> proof_hex = str_trim typed"
  shows "case escrow_frame room (anon_escrow_of X rnd8 rnd32 args) now proof_hex of
      K_EscrowProof p \<Rightarrow> validate_escrow_proof_frame X p = None | _ \<Rightarrow> False"
proof -
  let ?e = "anon_escrow_of X rnd8 rnd32 args"
  have settings: "check_some (ra_anon_escrow_id args) validate_anon_escrow_id = None"
    "check_some (ra_anon_escrow_proof_hex args) (\<lambda>p. validate_anon_proof_hex X p ''--anon-escrow-proof-hex'') = None"
    using assms(5) by (auto simp: validate_anonymous_escrow_settings_def first_error_def split: option.splits)
  have "handle_syntax (es_id ?e)"
    using settings(1) hex_handle [OF assms(1), of rnd8] assms(2)
    by (auto simp: anon_escrow_of_def check_some_def escrow_id_checks escrow_id_trim split: option.splits)
  moreover have "length (strip_hex_prefix proof_hex) \<le> MAX_ESCROW_PROOF_HEX_LEN \<and> is_valid_hex X proof_hex"
  proof -
    have drawn: "is_valid_hex X (hex_encode X rnd32)" using encoded_hex [OF assms(1), of rnd32] assms(3)
      by (metis list.size(3) zero_neq_numeral)
    have "length (strip_hex_prefix (es_proof_hex ?e)) \<le> MAX_ESCROW_PROOF_HEX_LEN \<and> is_valid_hex X (es_proof_hex ?e)"
      using settings(2) hex_encode_plain(3,6) [OF assms(1), of rnd32] drawn assms(3)
      by (auto simp: anon_escrow_of_def check_some_def proof_checks MAX_ESCROW_PROOF_HEX_LEN_def
          strip_hex_prefix_same [symmetric] split: option.splits)
    then show ?thesis using assms(6) by (auto simp: proof_checks)
  qed
  ultimately show ?thesis
    using assms(4) by (simp add: escrow_frame_def escrow_frame_checks)
qed


lemma escrow_proofs_accepted_witness:
  "case escrow_frame (anon_room_new demo_crypto ''ann'' [1]) (anon_escrow_of demo_ext (replicate 8 1) (replicate 32 2)
      (demo_room_args\<lparr>ra_participant_id := None\<rparr>)) 7 (str_trim ''0xab'') of
      K_EscrowProof p \<Rightarrow> validate_escrow_proof_frame demo_ext p = None | _ \<Rightarrow> False"
proof -
  have "handle_syntax ''ann''" by (simp add: handle_syntax_def byte_of_def)
  moreover have "validate_anonymous_escrow_settings demo_ext (demo_room_args\<lparr>ra_participant_id := None\<rparr>) True = None" by code_simp
  moreover have "validate_anon_proof_hex demo_ext ''0xab'' ''/escrow-proof'' = None" by code_simp
  ultimately show ?thesis
    by (intro escrow_proofs_accepted [where typed = "''0xab''", OF demo_hex_laws]) (simp_all add: anon_room_new_def)
qed

text \<open>What the library that seals promises on lengths: a tag of 16 bytes.\<close>

definition seal_length_law :: "crypto \<Rightarrow> bool" where
  "seal_length_law C \<longleftrightarrow> (\<forall>k n a m c. cr_seal C k n a m = Some c \<longrightarrow> length c = length m + 16)"

lemma sealed_payloads:
  assumes "hex_laws X" "seal_length_law C" "\<And>h. length (nonces h) = 24" "length body \<le> 32752"
    and "seal_for_all X C nonces room kind body peers = Inr ps" "\<forall>(h, _) \<in> set peers. handle_syntax h"
  shows "map erp_recipient_handle ps = map fst peers \<and> (\<forall>p \<in> set ps. handle_syntax (erp_recipient_handle p)
    \<and> is_valid_hex_len X (erp_nonce_hex p) 24 \<and> is_valid_hex X (erp_ciphertext_hex p)
    \<and> length (strip_hex_prefix (erp_ciphertext_hex p)) \<in> {32..65536})"
  using assms(5,6)
proof (induction peers arbitrary: ps)
  case (Cons peer peers)
  obtain h k where peer: "peer = (h, k)" by fastforce
  let ?key = "derive_pairwise_key X C (an_secret room) k (an_handle room) h (an_epoch room) kind"
  obtain c qs where c: "cr_seal C ?key (nonces h) (str_bytes ''kaigi-anon-control'') body = Some c"
    and qs: "seal_for_all X C nonces room kind body peers = Inr qs"
    and ps: "ps = \<lparr>erp_recipient_handle = h, erp_nonce_hex = hex_encode X (nonces h), erp_ciphertext_hex = hex_encode X c\<rparr> # qs"
    using Cons.prems(1) by (auto simp: peer encrypt_for_recipient_def try_bind_def split: option.splits sum.splits)
  have len: "length c = length body + 16" using assms(2) c unfolding seal_length_law_def by blast
  then have "c \<noteq> []" by auto
  then show ?case
    using Cons.IH [OF qs] Cons.prems(2) encoded_len [OF assms(1), of "nonces h"] encoded_hex [OF assms(1), of c]
      hex_encode_plain(3,6) [OF assms(1), of c] assms(3,4) len
    by (simp add: peer ps strip_hex_prefix_same [symmetric])
qed simp

text \<open>What the hub and the client must agree on: the connection has joined the anonymous room under the client's handle, with
  the epoch of the client's key, and the members the client knows are in the room.\<close>

definition anon_in_step :: "conn_id \<Rightarrow> room_state \<Rightarrow> anon_room \<Rightarrow> bool" where
  "anon_in_step conn_id hub_room room \<longleftrightarrow> r_anonymous_mode hub_room
     \<and> (case get_p hub_room conn_id of
          None \<Rightarrow> False
        | Some participant \<Rightarrow> let st = p_state participant in p_hello_seen st \<and> p_anonymous_mode st
            \<and> p_participant_handle st = Some (an_handle room) \<and> p_x25519_epoch st = an_epoch room)
     \<and> set (map fst (an_peers room)) \<subseteq> set (anon_roster_handles hub_room)"

text \<open>C29. A chat line of an anonymous member is accepted by the hub: the frame is well-formed and addresses every member the
  client knows once, and in a room where the hub and the client agree on the sender's handle and key epoch and on the
  members, the section of the hub's handler that checks all of this finds no error and lets the frame out. The bounds
  are the hub's: 256 recipients and 65536 hex digits of ciphertext.\<close>

theorem anonymous_chat_accepted:
  assumes "hex_laws X" "seal_length_law C" "\<And>h. length (nonces h) = 24" "length input + 5 \<le> 32752"
    and "an_epoch room \<noteq> 0" "handle_syntax (an_handle room)" "length (an_peers room) \<le> 256" "hm_ok (an_peers room)"
    and "\<forall>(h, _) \<in> set (an_peers room). handle_syntax h"
    and "anon_say X C nonces now input room = Inr (Some frame)"
    and "anon_in_step conn_id hub_room room"
  shows "case frame of K_EncryptedControl enc \<Rightarrow> validate_encrypted_control_frame X enc = None
     \<and> set (map erp_recipient_handle (ec_payloads enc)) = set (map fst (an_peers room))
     \<and> encrypted_control_check X conn_id enc hub_room = (None, True) | _ \<Rightarrow> False"
proof -
  let ?body = "str_bytes (if input = ''/end'' then ''cmd:end'' else ''chat:'' @ input)"
  obtain kind ps where ps: "seal_for_all X C nonces room kind ?body (an_peers room) = Inr ps" "an_peers room \<noteq> []"
    and frame: "frame = K_EncryptedControl \<lparr>ec_sent_at_ms = now, ec_sender_handle = an_handle room, ec_epoch = an_epoch room,
          ec_kind = kind, ec_payloads = ps\<rparr>" (is "_ = K_EncryptedControl ?enc")
    using assms(10) by (auto simp: anon_say_def Let_def try_bind_def split: if_splits sum.splits)
  have len: "length ?body \<le> 32752" using assms(4) by (simp add: str_bytes_def)
  note sealed = sealed_payloads [OF assms(1-3) len ps(1) assms(9)]
  have "length ps = length (an_peers room)" using sealed by (metis length_map)
  moreover have "distinct (map erp_recipient_handle ps)" using sealed assms(8) by (simp add: hm_ok_def hm_keys_def)
  moreover have "ps \<noteq> []" using ps(2) sealed by auto
  ultimately have valid: "validate_encrypted_control_frame X ?enc = None"
    using sealed assms(5-7)
    by (simp add: validate_encrypted_control_frame_def validate_encrypted_payloads_None handle_syntax_iff
        MAX_ENCRYPTED_RECIPIENTS_PER_FRAME_def)
  have "set (map erp_recipient_handle ps) \<subseteq> set (anon_roster_handles hub_room)"
    using sealed assms(11) by (simp add: anon_in_step_def)
  then have "find (\<lambda>payload. erp_recipient_handle payload \<notin> set (anon_roster_handles hub_room)) ps = None"
    by (auto simp: find_None_iff)
  then have "encrypted_control_check X conn_id ?enc hub_room = (None, True)"
    using assms(5,11) valid
    by (auto simp: encrypted_control_check_def anon_in_step_def validate_encrypted_control_epoch_def
        validate_encrypted_control_room_recipients_def Let_def split: option.splits)
  with sealed valid show ?thesis by (simp add: frame)
qed

lemma demo_seal_length: "seal_length_law demo_crypto"
  by (auto simp: seal_length_law_def demo_crypto_def)

lemma anonymous_chat_accepted_witness:
  "\<exists>enc. anon_say demo_ext demo_crypto (\<lambda>_. replicate 24 0) 7 ''hi''
        ((anon_room_new demo_crypto ''ann'' [1])\<lparr>an_peers := [(''ann'', [1]), (''bob'', [2])]\<rparr>)
      = Inr (Some (K_EncryptedControl enc)) \<and> encrypted_control_check demo_ext 1 enc demo_anon_pair = (None, True)"
proof -
  let ?room = "(anon_room_new demo_crypto ''ann'' [1])\<lparr>an_peers := [(''ann'', [1]), (''bob'', [2])]\<rparr>"
  obtain enc where enc: "anon_say demo_ext demo_crypto (\<lambda>_. replicate 24 0) 7 ''hi'' ?room = Inr (Some (K_EncryptedControl enc))"
    by (simp add: anon_say_def anon_room_new_def encrypt_for_recipient_def demo_crypto_def Let_def)
  have handle: "handle_syntax ''ann''" "handle_syntax ''bob''" by (simp_all add: handle_syntax_def byte_of_def)
  obtain p q where "r_participants demo_anon_pair = [(1, p), (2, q)]"
    using demo_anon_pair_facts(2) by (auto simp: map_eq_Cons_conv)
  then have "anon_in_step 1 demo_anon_pair ?room"
    using demo_anon_pair_epochs demo_anon_pair_facts
    by (simp add: anon_in_step_def anon_room_new_def hm_get_def anon_roster_handles_def List.map_filter_def hm_values_def)
  then show ?thesis
    using anonymous_chat_accepted [OF demo_hex_laws demo_seal_length _ _ _ _ _ _ _ enc] enc handle
    by (simp add: anon_room_new_def hm_ok_def hm_keys_def)
qed

text \<open>So is the new key after \<open>/rekey\<close>: the frame is well-formed and its epoch is above the one the room has.\<close>

theorem rekey_accepted:
  assumes "hex_laws X" "\<And>k. length (cr_public C k) = 32" "handle_syntax (an_handle room)" "an_epoch room < - 1"
  shows "case anon_rekey X C secret now room of
      (Inr (K_GroupKeyUpdate u), room') \<Rightarrow> validate_group_key_update_frame X u = None
        \<and> should_apply_group_key_update (an_epoch room) current (gk_epoch u) (gk_x25519_pubkey_hex u) = Inr True
        \<and> gk_epoch u = an_epoch room' \<and> hm_get (an_peers room') (an_handle room) = Some (an_public room')
    | _ \<Rightarrow> False"
proof -
  have pk: "parse_x25519_pubkey_hex X (hex_encode X (cr_public C secret)) = Inr (cr_public C secret)"
    using assms(2) by (simp add: parse_x25519_pubkey_hex_def hex_32_with_def hex_encode_plain [OF assms(1)])
  have "is_valid_hex_len X (hex_encode X (cr_public C secret)) 32"
    using encoded_len [OF assms(1), of "cr_public C secret"] assms(2) by simp
  moreover have "sat_add (an_epoch room) 1 \<noteq> an_epoch room" "\<not> sat_add (an_epoch room) 1 < an_epoch room"
    using sat_add_above [OF assms(4)] by auto
  ultimately show ?thesis
    using assms(3) sat_add_1 [of "an_epoch room"]
    by (simp add: anon_rekey_def Let_def pk validate_group_key_update_frame_def handle_syntax_iff hm_simps
        should_apply_group_key_update_def)
qed

lemma rekey_accepted_witness:
  "case anon_rekey demo_ext (demo_crypto\<lparr>cr_public := \<lambda>_. replicate 32 5\<rparr>) [3] 7 (anon_room_new demo_crypto ''ann'' [1]) of
      (Inr (K_GroupKeyUpdate u), room') \<Rightarrow> validate_group_key_update_frame demo_ext u = None
        \<and> should_apply_group_key_update (an_epoch (anon_room_new demo_crypto ''ann'' [1])) None (gk_epoch u)
            (gk_x25519_pubkey_hex u) = Inr True
        \<and> gk_epoch u = an_epoch room'
        \<and> hm_get (an_peers room') (an_handle (anon_room_new demo_crypto ''ann'' [1])) = Some (an_public room')
    | _ \<Rightarrow> False"
proof -
  have "handle_syntax ''ann''" by (simp add: handle_syntax_def byte_of_def)
  moreover have "(1 :: u64) < - 1" by (simp add: word_less_nat_alt unat_max_word)
  ultimately show ?thesis
    by (intro rekey_accepted [OF demo_hex_laws]) (simp_all add: anon_room_new_def)
qed

end
