(* ===== verification/Cli_Report.thy ===== *)
theory Cli_Report
  imports Cli_Room
begin

text \<open>
  What the reader of the transparent room prints of each incoming frame (\<open>room_chat\<close> in
  \<^verbatim>\<open>crates/kaigi-cli/src/main.rs\<close>), besides the lines of \<open>Cli_Room\<close> that tell of a change. The derived \<open>Debug\<close>
  texts of enumerations without fields are written out; those of strings, events and whole frames are parameters.
\<close>

record debug_text =
  dbg_str :: "string \<Rightarrow> string"
  dbg_event :: "room_event_frame \<Rightarrow> string"
  dbg_frame :: "kaigi_frame \<Rightarrow> string"

definition dbg_action :: "moderation_action \<Rightarrow> string" where
  "dbg_action action = (case action of
     Action_Kick \<Rightarrow> ''Kick''
   | Action_DisableMic \<Rightarrow> ''DisableMic''
   | Action_DisableVideo \<Rightarrow> ''DisableVideo''
   | Action_DisableScreenShare \<Rightarrow> ''DisableScreenShare''
   | Action_AdmitFromWaiting \<Rightarrow> ''AdmitFromWaiting''
   | Action_DenyFromWaiting \<Rightarrow> ''DenyFromWaiting'')"

definition dbg_target :: "debug_text \<Rightarrow> moderation_target \<Rightarrow> string" where
  "dbg_target D target = (case target of
     Target_All \<Rightarrow> ''All''
   | Target_Participant pid \<Rightarrow> ''Participant('' @ dbg_str D pid @ '')'')"

definition dbg_role :: "role_kind \<Rightarrow> string" where
  "dbg_role role = (case role of Role_Host \<Rightarrow> ''Host'' | Role_CoHost \<Rightarrow> ''CoHost'' | Role_Participant \<Rightarrow> ''Participant'')"

definition dbg_profile :: "media_profile_kind \<Rightarrow> string" where
  "dbg_profile profile = (case profile of Profile_Sdr \<Rightarrow> ''Sdr'' | Profile_Hdr \<Rightarrow> ''Hdr'')"

definition dbg_recording :: "recording_state \<Rightarrow> string" where
  "dbg_recording state = (case state of Recording_Started \<Rightarrow> ''Started'' | Recording_Stopped \<Rightarrow> ''Stopped'')"

definition dbg_list :: "debug_text \<Rightarrow> string list \<Rightarrow> string" where
  "dbg_list D ss = ''['' @ join '', '' (map (dbg_str D) ss) @ '']''"

definition fields_line :: "string \<Rightarrow> (string \<times> string) list \<Rightarrow> string" where
  \<comment> \<open>a name, and then \<open>key=value\<close> pairs\<close>
  "fields_line name kvs = join '' '' (name # map (\<lambda>(k, v). k @ ''='' @ v) kvs)"

definition roster_lines :: "roster_frame \<Rightarrow> string list" where
  "roster_lines roster =
     fields_line ''roster'' [(''at_ms'', dec64 (ro_at_ms roster)), (''count'', dec (length (ro_participants roster)))] #
     map (\<lambda>p. ''  '' @ roe_participant_id p @ '' ('' @ unwrap_or (roe_display_name p) [] @ '') mic='' @
         dec_bool (roe_mic_enabled p) @ '' video='' @ dec_bool (roe_video_enabled p) @ '' share='' @
         dec_bool (roe_screen_share_enabled p)) (ro_participants roster)"

definition room_report :: "debug_text \<Rightarrow> kaigi_frame \<Rightarrow> string list" where
  "room_report D frame = (case frame of
     K_Roster roster \<Rightarrow> roster_lines roster
   | K_Event ev \<Rightarrow> [''event='' @ dbg_event D ev]
   | K_Chat chat \<Rightarrow> [''['' @ ch_from_participant_id chat @ '' '' @ unwrap_or (ch_from_display_name chat) [] @ ''] '' @ ch_text chat]
   | K_RoomConfig cfg \<Rightarrow> [fields_line ''room_config'' [(''updated_at_ms'', dec64 (rc_updated_at_ms cfg)),
       (''host'', unwrap_or (rc_host_participant_id cfg) []), (''rate_per_minute_nano'', dec64 (rc_rate_per_minute_nano cfg)),
       (''grace_secs'', dec64 (rc_billing_grace_secs cfg)), (''max_screen_shares'', dec (unat (rc_max_screen_shares cfg)))]]
   | K_SessionPolicy policy \<Rightarrow> [fields_line ''session_policy'' [(''updated_at_ms'', dec64 (sp_updated_at_ms policy)),
       (''lock'', dec_bool (sp_room_lock policy)), (''waiting'', dec_bool (sp_waiting_room_enabled policy)),
       (''guests'', dec_bool (sp_guest_join_allowed policy)), (''local_record'', dec_bool (sp_local_recording_allowed policy)),
       (''e2ee_required'', dec_bool (sp_e2ee_required policy)), (''max_participants'', dec (unat (sp_max_participants policy))),
       (''epoch'', dec64 (sp_policy_epoch policy)), (''updated_by'', sp_updated_by policy)]]
   | K_PermissionsSnapshot perm \<Rightarrow> [fields_line ''permissions'' [(''participant'', perm_participant_id perm),
       (''host'', dec_bool (perm_host perm)), (''co_host'', dec_bool (perm_co_host perm)),
       (''moderate'', dec_bool (perm_can_moderate perm)), (''record_local'', dec_bool (perm_can_record_local perm)),
       (''epoch'', dec64 (perm_epoch perm))]]
   | K_ModerationSigned m \<Rightarrow> [fields_line ''moderation_signed'' [(''target'', dbg_target D (ms_target m)),
       (''action'', dbg_action (ms_action m)), (''issued_by'', ms_issued_by m), (''sent_at_ms'', dec64 (ms_sent_at_ms m))]]
   | K_Moderation m \<Rightarrow> [fields_line ''moderation'' [(''target'', dbg_target D (mo_target m)),
       (''action'', dbg_action (mo_action m)), (''sent_at_ms'', dec64 (mo_sent_at_ms m))]]
   | K_RoleGrant grant \<Rightarrow> [fields_line ''role_grant'' [(''target'', rg_target_participant_id grant),
       (''role'', dbg_role (rg_role grant)), (''granted_by'', rg_granted_by grant),
       (''issued_at_ms'', dec64 (rg_issued_at_ms grant))]]
   | K_RoleRevoke revoke \<Rightarrow> [fields_line ''role_revoke'' [(''target'', rr_target_participant_id revoke),
       (''role'', dbg_role (rr_role revoke)), (''revoked_by'', rr_revoked_by revoke),
       (''issued_at_ms'', dec64 (rr_issued_at_ms revoke))]]
   | K_DeviceCapability cap \<Rightarrow> [fields_line ''device_capability'' [(''participant'', dc_participant_id cap),
       (''codecs'', dbg_list D (dc_codecs cap)), (''hdr_capture'', dec_bool (dc_hdr_capture cap)),
       (''hdr_render'', dec_bool (dc_hdr_render cap)), (''max_streams'', dec (unat (dc_max_video_streams cap))),
       (''reported_at_ms'', dec64 (dc_reported_at_ms cap))]]
   | K_MediaProfileNegotiation profile \<Rightarrow> [fields_line ''media_profile'' [(''participant'', mp_participant_id profile),
       (''requested'', dbg_profile (mp_requested_profile profile)), (''negotiated'', dbg_profile (mp_negotiated_profile profile)),
       (''codec'', mp_codec profile), (''epoch'', dec64 (mp_epoch profile)), (''at_ms'', dec64 (mp_at_ms profile))]]
   | K_RecordingNotice notice \<Rightarrow> [fields_line ''recording_notice'' [(''participant'', rn_participant_id notice),
       (''state'', dbg_recording (rn_state notice)), (''local'', dec_bool (rn_local_recording notice)),
       (''issued_by'', rn_issued_by notice), (''at_ms'', dec64 (rn_at_ms notice))]]
   | K_E2EEKeyEpoch epoch \<Rightarrow> [fields_line ''e2ee_key_epoch'' [(''participant'', ke_participant_id epoch),
       (''epoch'', dec64 (ke_epoch epoch)), (''sent_at_ms'', dec64 (ke_sent_at_ms epoch))]]
   | K_KeyRotationAck ack \<Rightarrow> [fields_line ''key_rotation_ack'' [(''participant'', ka_participant_id ack),
       (''ack_epoch'', dec64 (ka_ack_epoch ack)), (''received_at_ms'', dec64 (ka_received_at_ms ack))]]
   | K_ParticipantPresenceDelta delta \<Rightarrow> [fields_line ''presence_delta'' [(''seq'', dec64 (pd_sequence delta)),
       (''joined'', dec (length (pd_joined delta))), (''left'', dec (length (pd_left delta))),
       (''role_changes'', dec (length (pd_role_changes delta)))]]
   | K_Error err \<Rightarrow> [''error: '' @ err_message err]
   | K_PaymentAck ack \<Rightarrow> [fields_line ''payment_ack'' [(''received_at_ms'', dec64 (pa_received_at_ms ack)),
       (''amount_nano_xor'', dec64 (pa_amount_nano_xor ack)), (''total_paid_nano_xor'', dec64 (pa_total_paid_nano_xor ack)),
       (''total_billed_nano_xor'', dec64 (pa_total_billed_nano_xor ack))]]
   | _ \<Rightarrow> [''frame='' @ dbg_frame D frame])"

definition room_reads :: "debug_text \<Rightarrow> room_context \<Rightarrow> kaigi_frame \<Rightarrow> room_local \<Rightarrow> console list \<times> room_local" where
  \<comment> \<open>one frame in the reader: what it prints and what it changes\<close>
  "room_reads D c frame st = (case room_receive c frame st of (lines, st) \<Rightarrow> (map Out (room_report D frame) @ lines, st))"

end
