(* ===== verification/End_To_End.thy ===== *)
theory End_To_End
  imports Hub_Stream Cli_Hub Cli_Report
begin

text \<open>
  One line of chat from keyboard to screen: the input loop of the sender's \<open>room-chat\<close>
  (theory \<open>Cli_Room\<close>), the framing codec and a transport that cuts the bytes anywhere, the hub's connection and
  its handler, the queues of the room, and the reader of another participant (theory \<open>Cli_Report\<close>).
\<close>

section \<open>The hub's part\<close>

text \<open>A participant may speak in plaintext: the room is transparent, they have joined, and they have published a
  key epoch where the room asks for it.\<close>

definition may_speak :: "room_state \<Rightarrow> conn_id \<Rightarrow> participant \<Rightarrow> bool" where
  "may_speak room c p \<longleftrightarrow> get_p room c = Some p \<and> \<not> r_anonymous_mode room \<and> p_hello_seen (p_state p)
     \<and> (r_e2ee_required room \<longrightarrow> hm_get_or0 (r_e2ee_epochs room) c \<noteq> 0)"

definition relayed_chat :: "participant \<Rightarrow> u64 \<Rightarrow> string \<Rightarrow> kaigi_frame" where
  "relayed_chat p at_ms said = K_Chat \<lparr>ch_sent_at_ms = at_ms, ch_from_participant_id = p_participant_id (p_state p),
     ch_from_display_name = p_display_name (p_state p), ch_text = said\<rparr>"

lemma chat_handler_run:
  assumes "hm_get (h_rooms w) rid = Some room" and "may_speak room c p"
  shows "run (handle_frame X cfg rid c (K_Chat f)) w
    = run (broadcast_frame X rid (relayed_chat p (reading w 0) (ch_text f))) (w\<lparr>h_ticks := h_ticks w + 1\<rparr>)"
  using assms
  by (simp add: handle_frame_def handle_chat_def reject_anonymous_def pass_e2ee_gate_def validate_plaintext_e2ee_gate_def
      e2ee_gate_def room_is_anonymous_def hello_seen_def participant_identity_def run_bind_fst run_read_room
      run_now_ms relayed_chat_def may_speak_def)

lemma can_send_ticks [simp]: "can_send (w\<lparr>h_ticks := n\<rparr>) = can_send w"
  by (simp add: can_send_def fun_eq_iff)

lemma chat_relayed:
  assumes "hm_get (h_rooms w) rid = Some room" and "may_speak room c p"
    and "distinct (room_txs room)" and "list_all (can_send w) (room_txs room)"
    and "encode_framed X (relayed_chat p (reading w 0) (ch_text f)) = Inr out"
    and "run (handle_frame X cfg rid c (K_Chat f)) w = (res, w')"
  shows "res = Inr () \<and> h_rooms w' = h_rooms w
     \<and> queue_of w' d = queue_of w d @ (if d \<in> set (room_txs room) then [Msg_Binary out] else [])"
  using broadcast_run [OF assms(5), of "w\<lparr>h_ticks := h_ticks w + 1\<rparr>" rid room res w' d] assms(1-4,6)
  by (simp add: chat_handler_run)

section \<open>From keyboard to screen\<close>

lemma chat_line_sent:
  assumes "rr_status r = Running" and "rr_writer r = None"
    and "str_trim line \<noteq> []" and "hd (str_trim line) \<noteq> CHR ''/''"
  shows "rr_sent (room_event_step X transfer me (Typed at_ms line) r)
    = rr_sent r @ [chat_frame_of me at_ms (str_trim line)]"
proof -
  have "str_trim line \<noteq> ''/quit''" "str_trim line \<noteq> ''/end''" using assms(4) by auto
  then show ?thesis
    using assms by (simp add: room_event_step_def returned_def type_line_def sent_line_def Let_def chat_command)
qed

text \<open>C2. A line of chat reaches every screen of the room: what the sender types is sent as one frame; however
  the transport cuts its encoding, the hub appends one message to the queue of every participant and changes no
  room; and however that message is cut on its way, the reader of any participant decodes one frame and prints
  the line, word for word, under the name that the hub knows for the connection - whatever name the sender's
  client claims. (The Norito codec inverts itself and has no empty encodings; the queues have room.)\<close>

theorem chat_reaches_screens:
  assumes "norito_roundtrip X" and "norito_nonempty X"
    and "rr_status r = Running \<and> rr_writer r = None" and "str_trim line \<noteq> []" and "hd (str_trim line) \<noteq> CHR ''/''"
    and "rr_sent (room_event_step X transfer me (Typed at_ms line) r) = rr_sent r @ frames"
    and "list_all2 (\<lambda>f bs. encode_framed X f = Inr bs) frames bss" and "concat up = concat bss"
    and "hm_get (h_rooms w) rid = Some room" and "may_speak room c p"
    and "distinct (room_txs room)" and "list_all (can_send w) (room_txs room)"
    and "encode_framed X (relayed_chat p (reading w 0) (str_trim line)) = Inr out"
    and "run (receive_loop X cfg rid c decoder_new (binary_messages up)) w = (res, w')"
    and "d \<in> set (room_txs room)" and "concat down = out"
  shows "res = Inr () \<and> h_rooms w' = h_rooms w \<and> queue_of w' d = queue_of w d @ [Msg_Binary out]
     \<and> (case receive X decoder_new down of (received, e, _) \<Rightarrow> e = None
         \<and> concat (map (room_report D) received)
           = [''['' @ p_participant_id (p_state p) @ '' '' @ unwrap_or (p_display_name (p_state p)) [] @ ''] ''
              @ str_trim line])"
proof -
  have frames: "frames = [chat_frame_of me at_ms (str_trim line)]"
    using assms(6) chat_line_sent [OF conjunct1 [OF assms(3)] conjunct2 [OF assms(3)] assms(4,5), of X transfer me at_ms]
    by simp
  have loop: "receive_loop X cfg rid c decoder_new (binary_messages up)
      = seq_prog (handle_all X cfg rid c frames) (Return ())"
    using connection_handles_sent [OF assms(1,2,7,8), of cfg rid c "[]"] by simp
  have "run (handle_frame X cfg rid c (chat_frame_of me at_ms (str_trim line))) w = (res, w')"
    using assms(14) by (cases "run (handle_frame X cfg rid c (chat_frame_of me at_ms (str_trim line))) w")
      (auto simp: loop frames run_seq split: sum.splits)
  moreover obtain f where f: "chat_frame_of me at_ms (str_trim line) = K_Chat f" "ch_text f = str_trim line"
    by (simp add: chat_frame_of_def)
  ultimately have hub: "res = Inr () \<and> h_rooms w' = h_rooms w \<and> queue_of w' d = queue_of w d @ [Msg_Binary out]"
    using chat_relayed [OF assms(9-12), of X f out cfg res w' d] assms(13,15) by simp
  have "receive X decoder_new down = ([relayed_chat p (reading w 0) (str_trim line)], None, decoder_new)"
    using receive_encoded [OF assms(1,2), of "[relayed_chat p (reading w 0) (str_trim line)]" "[out]" down] assms(13,16)
    by simp
  with hub show ?thesis
    by (simp add: room_report_def relayed_chat_def)
qed

section \<open>An example\<close>

text \<open>In the demonstration room the participant \<open>a\@x\<close> has published a key epoch; the sender's client claims to be
  \<open>h\<close>. The codec knows the frame that is sent and the frame that is relayed.\<close>

definition talk_room :: room_state where
  "talk_room = demo_pair\<lparr>r_e2ee_epochs := [(1, 1)]\<rparr>"

definition talk_hub :: hub where
  "talk_hub = demo_listeners\<lparr>h_rooms := [([7], talk_room)]\<rparr>"

definition said_frame :: kaigi_frame where
  "said_frame = K_Chat \<lparr>ch_sent_at_ms = 7, ch_from_participant_id = ''h'', ch_from_display_name = None, ch_text = ''hi''\<rparr>"

definition heard_frame :: kaigi_frame where
  "heard_frame = K_Chat \<lparr>ch_sent_at_ms = 1000, ch_from_participant_id = ''a@x'', ch_from_display_name = None,
     ch_text = ''hi''\<rparr>"

definition talk_ext :: ext where
  "talk_ext = demo_ext\<lparr>
     norito_to_bytes := (\<lambda>f. if f = said_frame then Some [1] else if f = heard_frame then Some [2] else None),
     norito_decode := (\<lambda>b. if b = [1] then Some said_frame else if b = [2] then Some heard_frame else None)\<rparr>"

lemma talk_ext_laws: "norito_roundtrip talk_ext" "norito_nonempty talk_ext"
  by (auto simp: norito_roundtrip_def norito_nonempty_def talk_ext_def split: if_splits)

lemma talk_encodes:
  "encode_framed talk_ext said_frame = Inr [0, 0, 0, 1, 1]" "encode_framed talk_ext heard_frame = Inr [0, 0, 0, 1, 2]"
proof -
  have "heard_frame \<noteq> said_frame" by (simp add: heard_frame_def said_frame_def)
  moreover have "u32_be_bytes 1 = [0, 0, 0, 1]" by code_simp
  ultimately show "encode_framed talk_ext said_frame = Inr [0, 0, 0, 1, 1]"
    and "encode_framed talk_ext heard_frame = Inr [0, 0, 0, 1, 2]"
    by (simp_all add: encode_framed_def talk_ext_def MAX_FRAME_LEN_def)
qed

lemma talk_speaker:
  "\<exists>p. may_speak talk_room 1 p \<and> p_participant_id (p_state p) = ''a@x'' \<and> p_display_name (p_state p) = None"
proof -
  have "map_option (\<lambda>p. (p_participant_id (p_state p), p_display_name (p_state p), p_hello_seen (p_state p)))
      (get_p talk_room 1) = Some (''a@x'', None, True)" by code_simp
  moreover have "\<not> r_anonymous_mode talk_room" "hm_get_or0 (r_e2ee_epochs talk_room) 1 = 1" by code_simp+
  ultimately show ?thesis by (auto simp: may_speak_def)
qed

lemma talk_listening:
  "room_txs talk_room = [1, 2]" "can_send talk_hub 1 \<and> can_send talk_hub 2" "hm_get (h_rooms talk_hub) [7] = Some talk_room"
  using demo_pair_txs
  by (simp_all add: room_txs_def talk_room_def talk_hub_def demo_listeners_def can_send_def hm_get_def CHANNEL_CAPACITY_def)

definition quiet_debug :: debug_text where
  "quiet_debug = \<lparr>dbg_str = (\<lambda>s. s), dbg_event = (\<lambda>e. []), dbg_frame = (\<lambda>f. [])\<rparr>"

lemma chat_reaches_screens_witness:
  "queue_of (snd (run (receive_loop talk_ext demo_cfg [7] 1 decoder_new (binary_messages [[0, 0, 0], [1, 1]])) talk_hub)) 2
     = [Msg_Binary [0, 0, 0, 1, 2]]
   \<and> concat (map (room_report quiet_debug) (fst (receive talk_ext decoder_new [[0, 0], [0, 1, 2]]))) = [''[a@x ] hi'']"
proof -
  obtain p where p: "may_speak talk_room 1 p" "p_participant_id (p_state p) = ''a@x''" "p_display_name (p_state p) = None"
    using talk_speaker by blast
  let ?run = "run (receive_loop talk_ext demo_cfg [7] 1 decoder_new (binary_messages [[0, 0, 0], [1, 1]])) talk_hub"
  have trim: "str_trim '' hi '' = ''hi''" by code_simp
  have sent: "rr_sent (room_event_step talk_ext refuses demo_context (Typed 7 '' hi '') demo_run)
      = rr_sent demo_run @ [said_frame]"
    by (subst chat_line_sent) (simp_all add: trim demo_run_def chat_frame_of_def demo_context_def said_frame_def)
  have heard: "relayed_chat p (reading talk_hub 0) (str_trim '' hi '') = heard_frame"
    by (simp add: relayed_chat_def p trim heard_frame_def talk_hub_def demo_listeners_def empty_hub_def reading_def
        clamp_ms_def)
  have result: "?run = (fst ?run, snd ?run)" by simp
  have "fst ?run = Inr () \<and> h_rooms (snd ?run) = h_rooms talk_hub
     \<and> queue_of (snd ?run) 2 = queue_of talk_hub 2 @ [Msg_Binary [0, 0, 0, 1, 2]]
     \<and> (case receive talk_ext decoder_new [[0, 0], [0, 1, 2]] of (received, e, _) \<Rightarrow> e = None
         \<and> concat (map (room_report quiet_debug) received)
           = [''['' @ p_participant_id (p_state p) @ '' '' @ unwrap_or (p_display_name (p_state p)) [] @ ''] ''
              @ str_trim '' hi ''])"
    by (rule chat_reaches_screens [OF talk_ext_laws _ _ _ sent, of "[[0, 0, 0, 1, 1]]" "[[0, 0, 0], [1, 1]]" _ _ talk_room,
          OF _ _ _ _ _ talk_listening(3) p(1) _ _ _ result])
      (simp_all add: trim demo_run_def talk_encodes talk_listening heard [unfolded trim])
  then show ?thesis
    by (simp add: p trim unwrap_or_def queue_of_def talk_hub_def demo_listeners_def hm_get_def case_prod_beta)
qed

end
