(* ===== verification/Cli_Anon_Session.thy ===== *)
theory Cli_Anon_Session
  imports Cli_Anon
begin

text \<open>
  The anonymous room of the line interface from its first frame to its last (\<open>run_room_chat_anonymous\<close> in
  \<^verbatim>\<open>crates/kaigi-cli/src/main.rs\<close>): its start, the turns of the input loop, the reader and the proof task in any
  order, and its exit, put together from the operations of theory \<open>Cli_Anon\<close>. Whatever arrives and whatever is
  typed, all that leaves is the member's keys, escrow proofs and sealed control frames.
\<close>

section \<open>The session\<close>

datatype anon_event =
    Anon_Typed u64 bytes "string \<Rightarrow> bytes" string
  | Anon_Arrived kaigi_frame
  | Escrow_Due u64
  | Anon_Writer_Fails string
  \<comment> \<open>a line, with the clock, the secret a new key would have and the nonces drawn; a frame from the hub; a turn of the
      proof task; the writer ends with an error and takes no more frames\<close>

record anon_run =
  av_room :: anon_room
  av_sent :: "kaigi_frame list"
  av_lines :: "console list"
  av_status :: room_status
  av_proving :: bool
  av_writer :: "string option"
  \<comment> \<open>whether the proof task runs; the error the writer has ended with\<close>

definition anon_returned :: "anon_run \<Rightarrow> bool" where
  \<comment> \<open>an error has left the function, from the loop or from the writer it waits for after the loop\<close>
  "anon_returned r = (case av_status r of Failed e \<Rightarrow> True | Left_Room b \<Rightarrow> av_writer r \<noteq> None | Running \<Rightarrow> False)"

definition anon_turn ::
    "ext \<Rightarrow> crypto \<Rightarrow> anon_escrow \<Rightarrow> u64 \<Rightarrow> bytes \<Rightarrow> (string \<Rightarrow> bytes) \<Rightarrow> string \<Rightarrow> anon_run \<Rightarrow> anon_run" where
  \<comment> \<open>one round of the input loop\<close>
  "anon_turn X C escrow now secret nonces line r =
     (case anon_line X C secret nonces escrow now line (av_room r) of (out, room) \<Rightarrow>
       if ao_frames out \<noteq> [] \<and> av_writer r \<noteq> None
       then r\<lparr>av_room := room, av_lines := av_lines r @ ao_lines out, av_status := Failed ''send channel closed''\<rparr>
       else r\<lparr>av_room := room, av_sent := av_sent r @ ao_frames out, av_lines := av_lines r @ ao_lines out,
              av_status := ao_status out\<rparr>)"

definition anon_event_step ::
    "ext \<Rightarrow> crypto \<Rightarrow> (kaigi_frame \<Rightarrow> string) \<Rightarrow> room_chat_args \<Rightarrow> anon_escrow \<Rightarrow> anon_event \<Rightarrow> anon_run \<Rightarrow> anon_run" where
  \<comment> \<open>once the loop has ended nobody reads the lines, but the tasks go on\<close>
  "anon_event_step X C debug args escrow ev r = (if anon_returned r then r else case ev of
     Anon_Typed now secret nonces line \<Rightarrow>
       if av_status r = Running then anon_turn X C escrow now secret nonces line r else r
   | Anon_Arrived frame \<Rightarrow>
       (case anon_receive X C debug frame (av_room r) of (lines, room) \<Rightarrow>
         r\<lparr>av_room := room, av_lines := av_lines r @ lines\<rparr>)
   | Escrow_Due now \<Rightarrow>
       if \<not> av_proving r then r
       else if av_writer r \<noteq> None then r\<lparr>av_proving := False\<rparr>
       else r\<lparr>av_sent := av_sent r @ escrow_tick args (av_room r) escrow now\<rparr>
   | Anon_Writer_Fails e \<Rightarrow> if av_writer r = None then r\<lparr>av_writer := Some e\<rparr> else r)"

definition anon_events ::
    "ext \<Rightarrow> crypto \<Rightarrow> (kaigi_frame \<Rightarrow> string) \<Rightarrow> room_chat_args \<Rightarrow> anon_escrow \<Rightarrow> anon_event list \<Rightarrow> anon_run \<Rightarrow> anon_run" where
  "anon_events X C debug args escrow evs r = fold (anon_event_step X C debug args escrow) evs r"

record anon_inputs =
  \<comment> \<open>what a session is given from outside: the secret of the first key, the random bytes of the escrow id and
      proof and of the shield request, the clock at the first proof and whether the writer takes it, the events, and
      whether the reader still reads after them\<close>
  ai_secret :: bytes
  ai_random8 :: bytes
  ai_random32 :: bytes
  ai_prepay :: prepay_random
  ai_started_ms :: u64
  ai_proof_taken :: bool
  ai_events :: "anon_event list"
  ai_reader :: reader_end

datatype anon_left = Anon_Failed string | Anon_Left bool | Anon_Waits
  \<comment> \<open>the error of the function; whether the end of the call was asked for; it has not returned\<close>

record anon_result =
  ax_left :: anon_left
  ax_sent :: "kaigi_frame list"
  ax_lines :: "console list"

definition anon_end ::
    "ext \<Rightarrow> 'w spawn \<Rightarrow> reader_end \<Rightarrow> room_chat_args \<Rightarrow> anon_run \<Rightarrow> 'w \<Rightarrow> anon_result \<times> 'w" where
  \<comment> \<open>when an error has left the loop, or after it: \<open>drop(out_tx); writer.await??; let _ = reader.await?\<close>, then the
      unshield. The writer ends without an error only when the proof task, which holds a sender of its own, is none.\<close>
  "anon_end X spawn reader args r w =
     (let result = (\<lambda>left lines. \<lparr>ax_left = left, ax_sent = av_sent r, ax_lines = av_lines r @ lines\<rparr>) in
      case av_status r of
        Failed e \<Rightarrow> (result (Anon_Failed e) [], w)
      | status \<Rightarrow> (case av_writer r of
          Some e \<Rightarrow> (result (Anon_Failed e) [], w)
        | None \<Rightarrow>
            if av_proving r \<or> reader = Reader_Open then (result Anon_Waits [], w)
            else (case anon_exit X spawn args w of
              (lines, w) \<Rightarrow> (result (Anon_Left (status = Left_Room True)) lines, w))))"

definition run_room_chat_anonymous ::
    "ext \<Rightarrow> crypto \<Rightarrow> (kaigi_frame \<Rightarrow> string) \<Rightarrow> (bytes \<Rightarrow> string) \<Rightarrow> 'w spawn \<Rightarrow> anon_inputs \<Rightarrow> room_chat_args \<Rightarrow> string
      \<Rightarrow> 'w \<Rightarrow> anon_result \<times> 'w" where
  \<comment> \<open>the end of the input counts as leaving\<close>
  "run_room_chat_anonymous X C debug base64 spawn i args handle w =
     (let room = anon_room_new C handle (ai_secret i);
          escrow = anon_escrow_of X (ai_random8 i) (ai_random32 i) args in
      case anon_start X base64 spawn (ai_prepay i) args room escrow (ai_started_ms i) (ai_proof_taken i) w of
        ((Some e, frames, lines), w) \<Rightarrow> (\<lparr>ax_left = Anon_Failed e, ax_sent = frames, ax_lines = lines\<rparr>, w)
      | ((None, frames, lines), w) \<Rightarrow>
          anon_end X spawn (ai_reader i) args (anon_events X C debug args escrow (ai_events i) \<lparr>av_room = room,
            av_sent = frames, av_lines = lines @ [Out (''anonymous participant_handle='' @ handle),
              Out ''commands: /rekey, /escrow-proof <hex>, /end, /quit''], av_status = Running,
            av_proving = (ra_anon_escrow_proof_interval_secs args > 0), av_writer = None\<rparr>) w)"

lemma anon_end_sent [simp]: "ax_sent (fst (anon_end X spawn reader args r w)) = av_sent r"
  by (simp add: anon_end_def Let_def split: room_status.split option.split prod.split)

text \<open>The proof task ends only with the writer.\<close>

lemma anon_step_proving:
  "av_proving r \<longrightarrow> av_proving (anon_event_step X C debug args escrow ev r)
     \<or> av_writer (anon_event_step X C debug args escrow ev r) \<noteq> None"
  "av_writer r \<noteq> None \<longrightarrow> av_writer (anon_event_step X C debug args escrow ev r) \<noteq> None"
  by (auto simp: anon_event_step_def anon_turn_def split: anon_event.split prod.split)

lemma anon_events_proving:
  "av_proving r \<or> av_writer r \<noteq> None \<Longrightarrow> av_proving (anon_events X C debug args escrow evs r)
     \<or> av_writer (anon_events X C debug args escrow evs r) \<noteq> None"
proof (induction evs arbitrary: r)
  case (Cons ev evs)
  have "av_proving (anon_event_step X C debug args escrow ev r) \<or> av_writer (anon_event_step X C debug args escrow ev r) \<noteq> None"
    using Cons.prems anon_step_proving [of r X C debug args escrow ev] by blast
  from Cons.IH [OF this] show ?case by (simp add: anon_events_def)
qed (simp add: anon_events_def)

lemma anon_end_left:
  "ax_left (fst (anon_end X spawn reader args r w)) = Anon_Left b \<Longrightarrow> \<not> av_proving r \<and> av_writer r = None"
  by (auto simp: anon_end_def Let_def split: if_splits room_status.splits option.splits prod.splits)

text \<open>A session leaves without an error only when it has no proof task.\<close>

lemma anon_leaves_unproving:
  assumes "run_room_chat_anonymous X C debug base64 spawn i args handle w = (a, w')" and "ax_left a = Anon_Left b"
  shows "ra_anon_escrow_proof_interval_secs args = 0"
proof -
  let ?escrow = "anon_escrow_of X (ai_random8 i) (ai_random32 i) args" and ?room = "anon_room_new C handle (ai_secret i)"
  obtain e frames lines v where start: "anon_start X base64 spawn (ai_prepay i) args ?room ?escrow (ai_started_ms i)
      (ai_proof_taken i) w = ((e, frames, lines), v)" by (metis surj_pair)
  define r where "r = \<lparr>av_room = ?room, av_sent = frames, av_lines = lines @ [Out (''anonymous participant_handle='' @ handle),
    Out ''commands: /rekey, /escrow-proof <hex>, /end, /quit''], av_status = Running,
    av_proving = (ra_anon_escrow_proof_interval_secs args > 0), av_writer = None\<rparr>"
  have "e = None" using assms by (cases e) (auto simp: run_room_chat_anonymous_def Let_def start)
  then have "ax_left (fst (anon_end X spawn (ai_reader i) args (anon_events X C debug args ?escrow (ai_events i) r) v)) = Anon_Left b"
    using assms by (simp add: run_room_chat_anonymous_def Let_def start r_def)
  from anon_end_left [OF this] have "\<not> av_proving r"
    using anon_events_proving by blast
  then show ?thesis by (simp add: r_def word_gt_0)
qed

section \<open>What may leave\<close>

inductive sealed_frame :: "ext \<Rightarrow> crypto \<Rightarrow> string \<Rightarrow> kaigi_frame \<Rightarrow> bool" for X C handle where
  sealed_hello: "ah_participant_handle h = handle \<Longrightarrow> sealed_frame X C handle (K_AnonHello h)"
| sealed_key: "gk_participant_handle u = handle \<Longrightarrow> sealed_frame X C handle (K_GroupKeyUpdate u)"
| sealed_proof: "ep_payer_handle p = handle \<Longrightarrow> sealed_frame X C handle (K_EscrowProof p)"
| sealed_control: "ec_sender_handle e = handle \<Longrightarrow>
     \<forall>p \<in> set (ec_payloads e). \<exists>nonce secret pubkey recipient body.
       encrypt_for_recipient X C nonce secret pubkey handle recipient (ec_epoch e) (ec_kind e) body = Inr p \<Longrightarrow>
     sealed_frame X C handle (K_EncryptedControl e)"

inductive_simps sealed_frame_simps:
  "sealed_frame X C handle (K_AnonHello h)" "sealed_frame X C handle (K_GroupKeyUpdate u)"
  "sealed_frame X C handle (K_EscrowProof p)" "sealed_frame X C handle (K_EncryptedControl e)"
  "sealed_frame X C handle (K_Chat chat)"

lemma seal_for_all_sealed:
  "seal_for_all X C nonces room kind body peers = Inr payloads \<Longrightarrow> p \<in> set payloads \<Longrightarrow>
     \<exists>nonce secret pubkey recipient body.
       encrypt_for_recipient X C nonce secret pubkey (an_handle room) recipient (an_epoch room) kind body = Inr p"
  by (induction X C nonces room kind body peers arbitrary: payloads rule: seal_for_all.induct)
    (auto simp: try_bind_def split: sum.splits, blast+)

lemma anon_say_sealed:
  "anon_say X C nonces now input room = Inr (Some frame) \<Longrightarrow> sealed_frame X C (an_handle room) frame"
  by (auto simp: anon_say_def try_bind_def Let_def sealed_frame_simps split: sum.splits if_splits
      dest: seal_for_all_sealed)

lemma anon_line_sealed:
  assumes "anon_line X C secret nonces escrow now line room = (out, room')"
  shows "an_handle room' = an_handle room \<and> list_all (sealed_frame X C (an_handle room)) (ao_frames out)"
  using assms
  by (auto simp: anon_line_def anon_rekey_def escrow_frame_def out_of_def Let_def sealed_frame_simps anon_say_sealed
      split: if_splits option.splits sum.splits prod.splits)

lemma anon_receive_handle:
  "anon_receive X C debug frame room = (lines, room') \<Longrightarrow> an_handle room' = an_handle room"
  by (auto simp: anon_receive_def Let_def split: kaigi_frame.splits if_splits sum.splits)

lemma anon_step_sealed:
  assumes "an_handle (av_room r) = handle" and "list_all (sealed_frame X C handle) (av_sent r)"
  shows "an_handle (av_room (anon_event_step X C debug args escrow ev r)) = handle
    \<and> list_all (sealed_frame X C handle) (av_sent (anon_event_step X C debug args escrow ev r))"
  using assms
  by (auto simp: anon_event_step_def anon_turn_def escrow_tick_def escrow_frame_def sealed_frame_simps
      split: anon_event.split prod.split dest: anon_line_sealed anon_receive_handle)

lemma anon_events_sealed:
  assumes "an_handle (av_room r) = handle" and "list_all (sealed_frame X C handle) (av_sent r)"
  shows "list_all (sealed_frame X C handle) (av_sent (anon_events X C debug args escrow evs r))"
  using assms
proof (induction evs arbitrary: r)
  case (Cons ev evs)
  from Cons.IH [OF conjunct1 [OF anon_step_sealed [OF Cons.prems]] conjunct2 [OF anon_step_sealed [OF Cons.prems]]]
  show ?case by (simp add: anon_events_def)
qed (simp add: anon_events_def)

lemma anon_start_sealed:
  assumes "anon_start X base64 spawn rnd args room escrow now taken w = ((e, frames, lines), w')"
  shows "list_all (sealed_frame X C (an_handle room)) frames"
  using assms
  by (auto simp: anon_start_def Let_def build_initial_anon_join_frames_def escrow_frame_def sealed_frame_simps
      split: if_splits prod.splits sum.splits)

lemma anon_session_sealed:
  "list_all (sealed_frame X C handle) (ax_sent (fst (run_room_chat_anonymous X C debug base64 spawn i args handle w)))"
proof -
  have start: "an_handle (anon_room_new C handle (ai_secret i)) = handle"
    by (simp add: anon_room_new_def)
  show ?thesis
    using anon_start_sealed [of X base64 spawn "ai_prepay i" args "anon_room_new C handle (ai_secret i)"] start
    by (auto simp: run_room_chat_anonymous_def Let_def intro!: anon_events_sealed
        split: prod.split option.split)
qed

text \<open>C10. Nothing that is typed into an anonymous room leaves in the clear: whatever the user types, whatever the hub
  sends and whenever the proof task runs, every frame the session sends carries the member's handle and is a key
  announcement, an escrow proof, or a control frame of which every payload is sealed for one recipient.\<close>

theorem anonymous_session_sealed:
  "list_all (sealed_frame X C handle) (ax_sent (fst (run_room_chat_anonymous X C debug base64 spawn i args handle w)))"
  by (rule anon_session_sealed)

text \<open>In particular no chat frame.\<close>

corollary anonymous_session_no_plaintext:
  "K_Chat chat \<notin> set (ax_sent (fst (run_room_chat_anonymous X C debug base64 spawn i args handle w)))"
  using anon_session_sealed [of X C handle debug base64 spawn i args w]
  by (auto simp: list_all_iff sealed_frame_simps)

end
