(* ===== verification/Cli_Session.thy ===== *)
theory Cli_Session
  imports Cli_Setup Cli_Room_Safety Cli_Anon_Session
begin

text \<open>
  A whole run of \<open>room-chat\<close> with the line interface, and the opening of the conference view (\<open>room_chat\<close>,
  \<open>room_chat_conference\<close> in \<^verbatim>\<open>crates/kaigi-cli/src/main.rs\<close>), put together from their parts: the settings (theory
  \<open>Cli_Setup\<close>), the relay connection and the Kaigi stream (theories \<open>Soranet\<close>, \<open>Soranet_Connect\<close>), the join on
  the ledger (theory \<open>Cli_Ledger\<close>), the payment settings, the input loop and the end (theory \<open>Cli_Room\<close>).
  An anonymous session is that of theory \<open>Cli_Anon_Session\<close>. The network and the ledger are separate worlds \<open>'n\<close> and \<open>'l\<close>, so it is visible which of them a run has
  touched. A run ends as the source ends it: after the input loop the function first waits for the writer, which does
  not end while another task, the payment loop or the proof task of an anonymous member, holds a sender; only then
  does it close the call.
\<close>

section \<open>The stream to the hub\<close>

record ('n, 'st, 'key, 'sec) network =
  nw_quic :: "('n, 'st, 'key, 'sec) soranet_ext"
  nw_tls :: "'n connect_ext"
  nw_http :: "'n http_ext"
  nw_connect_text :: "connect_error \<Rightarrow> string"
  nw_config_text :: "config_error \<Rightarrow> string"
  nw_stream_text :: "soranet_error \<Rightarrow> string"
  \<comment> \<open>the last three: the texts of the errors\<close>

definition fetch_params :: "('n, 'st, 'key, 'sec) network \<Rightarrow> string \<Rightarrow> 'n \<Rightarrow> (string + handshake_params) \<times> 'n" where
  "fetch_params W torii_url =
     run (map_error (nw_config_text W) (fetch_handshake_params_from_torii (nw_quic W) (nw_http W) torii_url))"

definition connect_stream ::
    "ext \<Rightarrow> ('n, 'st, 'key, 'sec) network
      \<Rightarrow> ((string \<Rightarrow> 'n \<Rightarrow> (string + handshake_params) \<times> 'n) \<Rightarrow> handshake_params \<Rightarrow> 'n \<Rightarrow> (string + relay_connect_options) \<times> 'n)
      \<Rightarrow> string \<Rightarrow> bool \<Rightarrow> ('n, string, stream_id) prog" where
  \<comment> \<open>the options with their handshake parameters, the connection, the handshake and the stream of the channel\<close>
  "connect_stream X W options channel_hex authenticated =
     bind_prog (atomic_try (options (fetch_params W) (fixture_defaults (nw_tls W)))) (\<lambda>opts.
     seq_prog (map_error (nw_connect_text W) (connect_and_handshake (nw_quic W) (nw_tls W) opts))
     (case hex_of X channel_hex of
        Inl e \<Rightarrow> Fail e
      | Inr channel_id \<Rightarrow> map_error (nw_stream_text W) (open_kaigi_stream (nw_quic W) channel_id authenticated)))"

definition open_session ::
    "ext \<Rightarrow> ('n, 'st, 'key, 'sec) network \<Rightarrow> room_settings \<Rightarrow> ('n, string, stream_id) prog" where
  "open_session X W s = connect_stream X W (\<lambda>fetch fixture. relay_options X fetch fixture s) (rs_channel_hex s)
     (ra_authenticated (rs_args s))"

section \<open>The opening of the line interface\<close>

definition ledger_join :: "'l spawn \<Rightarrow> auto_kaigi_lifecycle option \<Rightarrow> 'l \<Rightarrow> console list \<times> 'l" where
  \<comment> \<open>a join that fails is reported and does not stop the session\<close>
  "ledger_join spawn lifecycle l = (case lifecycle of
     None \<Rightarrow> ([], l)
   | Some lc \<Rightarrow> (case run_auto_kaigi_join spawn lc l of (r, l) \<Rightarrow> ([report ''kaigi_join'' ''join'' r], l)))"

definition commands_help :: string where
  "commands_help = ''commands: /mic on|off, /video on|off, /share on|off, /rate <nano_per_min>, /maxshare <u8>, /mute <id>, '' @
     ''/muteall, /videooff <id>, /shareoff <id>, /kick <id>, /admit <id>, /deny <id>, /cohost <id>, /uncohost <id>, '' @
     ''/host <id>, /lock on|off, /waiting on|off, /guests on|off, /recordlocal on|off, /e2eerequired on|off, '' @
     ''/maxparticipants <u32>, /devicecap, /profile sdr|hdr, /recordstart, /recordstop, /e2eekey <epoch>, '' @
     ''/e2eeack <epoch>, /end (host), /pay <nano>, /quit''"

definition room_context_of :: "(string \<Rightarrow> string option) \<Rightarrow> room_chat_args \<Rightarrow> string \<Rightarrow> pay_ledger_cli option \<Rightarrow> room_context" where
  "room_context_of env args participant_id pay_ledger = \<lparr>rx_participant_id = participant_id,
     rx_display_name = ra_display_name args, rx_hdr_capture = ra_hdr_capture args,
     rx_hdr_display = ra_hdr_display args \<or> auto_hdr_display env args, rx_pay_ledger = pay_ledger,
     rx_pay_auto = is_pay_auto_enabled args, rx_fixed_rate = (ra_pay_rate_per_minute_nano args > 0)\<rparr>"

datatype opened =
    Opened_Chat stream_id "kaigi_frame list" "console list" "string + room_context"
  | Opened_Anonymous stream_id string "console list"
  \<comment> \<open>the stream, the frames handed to its writer, the lines, and the error of the payment settings or the context of
      the loop; the stream, the handle and the lines\<close>

definition room_opening ::
    "ext \<Rightarrow> ('n, 'st, 'key, 'sec) network \<Rightarrow> 'l spawn \<Rightarrow> (string \<Rightarrow> string option) \<Rightarrow> bytes \<Rightarrow> room_settings \<Rightarrow> 'n \<times> 'l
      \<Rightarrow> (string + opened) \<times> 'n \<times> 'l" where
  \<comment> \<open>from the checked settings to the input loop\<close>
  "room_opening X W spawn env rnd s w =
     (case run (open_session X W s) (fst w) of
        (Inl e, n) \<Rightarrow> (Inl e, n, snd w)
      | (Inr stream, n) \<Rightarrow>
          (case local_id_of X rnd s of
             Inl e \<Rightarrow> (Inl e, n, snd w)
           | Inr local_id \<Rightarrow>
               (case ledger_join spawn (rs_lifecycle s) (snd w) of
                  (joined, l) \<Rightarrow>
                    (Inr (if rs_anonymous_mode s
                       then Opened_Anonymous stream local_id (Out ''anonymous_mode=enabled privacy_mode=zk'' # joined)
                       else Opened_Chat stream [hello_of env (rs_args s) local_id]
                         (joined @ [Out (''connected participant_id='' @ local_id)] @
                          (if auto_hdr_display env (rs_args s) \<and> \<not> ra_hdr_display (rs_args s)
                           then [Out ''hdr_display auto-detected=true''] else []) @
                          [Out commands_help, Out ''audio path is active on join; no separate connect-audio step''])
                         (map_sum id (room_context_of env (rs_args s) local_id) (payment_settings (rs_args s)))),
                     n, l))))"

section \<open>A run of the line interface\<close>

record run_inputs =
  \<comment> \<open>what a run is given from outside: the clock at the two readings of the link, the start, the start of the payment
      loop, the end and the closing of the session; the random bytes of a name; the events; whether the reader still
      reads after them\<close>
  ri_link_ms :: "u64 \<times> u64"
  ri_started_ms :: u64
  ri_pay_ms :: u64
  ri_ended_ms :: u64
  ri_closed_ms :: u64
  ri_random :: bytes
  ri_events :: "room_event list"
  ri_reader :: reader_end
  ri_anon :: anon_inputs

record member_ext =
  \<comment> \<open>the libraries of an anonymous member: the cryptography, the text of \<open>{:?}\<close>, base64\<close>
  mk_crypto :: crypto
  mk_debug :: "kaigi_frame \<Rightarrow> string"
  mk_base64 :: "bytes \<Rightarrow> string"

type_synonym ('n, 'l) run_result = "(run_end \<times> console list) \<times> 'n \<times> 'l"

definition chat_start :: "u64 \<Rightarrow> room_settings \<Rightarrow> kaigi_frame list \<Rightarrow> console list \<Rightarrow> 'l \<Rightarrow> 'l room_run" where
  \<comment> \<open>the variables of the tasks, and the payment loop if the options ask for one\<close>
  "chat_start pay_ms s frames lines l = \<lparr>rr_local = room_local_new (ra_pay_rate_per_minute_nano (rs_args s)), rr_world = l,
     rr_sent = frames, rr_lines = lines, rr_status = Running,
     rr_pay = (if pay_loop_enabled (rs_args s) then Some (pay_state_new pay_ms) else None), rr_writer = None\<rparr>"

definition chat_session ::
    "ext \<Rightarrow> 'l transfer \<Rightarrow> 'l spawn \<Rightarrow> run_inputs \<Rightarrow> room_settings \<Rightarrow> kaigi_frame list \<Rightarrow> console list \<Rightarrow> room_context
      \<Rightarrow> 'l \<Rightarrow> (run_end \<times> console list) \<times> 'l" where
  \<comment> \<open>from the input loop to the end\<close>
  "chat_session X transfer spawn i s frames lines c l =
     (let r = room_events X transfer c (ri_events i) (chat_start (ri_pay_ms i) s frames lines l) in
      (case room_chat_end spawn (ri_closed_ms i) (ri_ended_ms i) (rs_lifecycle s) (ri_started_ms i) (ri_reader i) r of
         ((e, closing), l) \<Rightarrow> ((e, rr_lines r @ closing), l)))"

definition session_of ::
    "ext \<Rightarrow> ('n, 'st, 'key, 'sec) network \<Rightarrow> 'l transfer \<Rightarrow> 'l spawn
      \<Rightarrow> member_ext \<Rightarrow> (string \<Rightarrow> string option) \<Rightarrow> run_inputs \<Rightarrow> room_settings \<Rightarrow> 'n \<times> 'l \<Rightarrow> ('n, 'l) run_result" where
  \<comment> \<open>once the settings are known\<close>
  "session_of X W transfer spawn K env i s w =
     (case room_opening X W spawn env (ri_random i) s w of
        (Inl e, w) \<Rightarrow> ((Returns (Some e), []), w)
      | (Inr (Opened_Chat stream frames lines (Inl e)), w) \<Rightarrow> ((Returns (Some e), lines), w)
      | (Inr (Opened_Chat stream frames lines (Inr c)), w) \<Rightarrow>
          (case chat_session X transfer spawn i s frames lines c (snd w) of (r, l) \<Rightarrow> (r, fst w, l))
      | (Inr (Opened_Anonymous stream handle lines), w) \<Rightarrow>
          (case run_room_chat_anonymous X (mk_crypto K) (mk_debug K) (mk_base64 K) spawn (ri_anon i) (rs_args s) handle (snd w) of
             (a, l) \<Rightarrow> (case ax_left a of
                Anon_Failed e \<Rightarrow> ((Returns (Some e), lines @ ax_lines a), fst w, l)
              | Anon_Waits \<Rightarrow> ((Waits, lines @ ax_lines a), fst w, l)
              | Anon_Left end_requested \<Rightarrow>
                  (case finalize_auto_kaigi_lifecycle spawn (ri_closed_ms i) (ri_ended_ms i) (rs_lifecycle s) end_requested
                       (ri_started_ms i) l of
                     (closing, l) \<Rightarrow> ((Returns None, lines @ ax_lines a @ closing), fst w, l)))))"

definition room_chat ::
    "ext \<Rightarrow> ('n, 'st, 'key, 'sec) network \<Rightarrow> 'l transfer \<Rightarrow> 'l spawn
      \<Rightarrow> member_ext \<Rightarrow> (string \<Rightarrow> string option) \<Rightarrow> run_inputs \<Rightarrow> room_chat_args \<Rightarrow> nonce_cache \<Rightarrow> 'n \<times> 'l
      \<Rightarrow> ('n, 'l) run_result \<times> nonce_cache" where
  \<comment> \<open>with \<open>--legacy-ui\<close>\<close>
  "room_chat X W transfer spawn K env i args cache w =
     (case room_settings_of X env (fst (ri_link_ms i)) (snd (ri_link_ms i)) args cache of
        (Inl e, cache) \<Rightarrow> (((Returns (Some e), []), w), cache)
      | (Inr s, cache) \<Rightarrow> (session_of X W transfer spawn K env i s w, cache))"

section \<open>The opening of the conference view\<close>

definition controls_help :: string where
  "controls_help = ''controls: m mic, v video, s share, p pause, a cycle adaptive, 0..4 direct adaptive, c theme, t auto-theme, '' @
     ''d density, b boost, g glitch, j mosh, n noise, e edge, r rain, w sort, x reset, k snapshot, +/- density, '' @
     ''arrows focus, tab advanced, h help, q quit, End end-call''"

definition conference_opening ::
    "ext \<Rightarrow> ('n, 'st, 'key, 'sec) network \<Rightarrow> 'l spawn \<Rightarrow> bytes \<Rightarrow> room_settings \<Rightarrow> 'n \<times> 'l
      \<Rightarrow> (string + stream_id \<times> string \<times> console list) \<times> 'n \<times> 'l" where
  \<comment> \<open>the first frames are \<open>conference_first_frames\<close> of theory \<open>Cli_Conference\<close>\<close>
  "conference_opening X W spawn rnd s w =
     (case run (open_session X W s) (fst w) of
        (Inl e, n) \<Rightarrow> (Inl e, n, snd w)
      | (Inr stream, n) \<Rightarrow>
          (case local_id_of X rnd s of
             Inl e \<Rightarrow> (Inl e, n, snd w)
           | Inr local_id \<Rightarrow>
               (case ledger_join spawn (rs_lifecycle s) (snd w) of
                  (joined, l) \<Rightarrow>
                    (Inr (stream, local_id, joined @
                       [Out (''connected participant='' @ local_id @ '' mode='' @
                          (if rs_anonymous_mode s then ''anonymous'' else ''transparent'')),
                        Out controls_help]), n, l))))"

section \<open>What a run does on the ledger\<close>

definition is_call :: "string list \<Rightarrow> bool" where
  \<comment> \<open>a request about a call: what follows the four words of the configuration begins with \<^verbatim>\<open>app kaigi\<close>\<close>
  "is_call req = (take 2 (drop 4 req) = [''app'', ''kaigi''])"

definition no_calls :: "string list list \<Rightarrow> bool" where
  "no_calls reqs = list_all (\<lambda>req. \<not> is_call req) reqs"

lemma no_calls_append [simp]: "no_calls (a @ b) \<longleftrightarrow> no_calls a \<and> no_calls b"
  by (simp add: no_calls_def)

lemma no_calls_Nil [simp]: "no_calls []"
  by (simp add: no_calls_def)

lemma call_requests:
  "is_call (request lc (auto_join_args lc))" "is_call (request lc (auto_leave_args lc))"
  "is_call (request lc (call_args verb domain name @ rest))"
  by (simp_all add: is_call_def request_def auto_join_args_def auto_leave_args_def call_args_def)

lemma closing_calls: "list_all is_call (closing_requests answer lc now ended_at started left log)"
  by (simp add: closing_requests_def Let_def call_requests)

definition appends :: "string list list transfer \<Rightarrow> bool" where
  \<comment> \<open>a transfer only sends requests, and none about a call\<close>
  "appends transfer \<longleftrightarrow> (\<forall>cfg amount log. \<exists>more. snd (transfer cfg amount log) = log @ more \<and> no_calls more)"

lemma appendsD: "appends transfer \<Longrightarrow> transfer cfg amount log = (r, log') \<Longrightarrow> \<exists>more. log' = log @ more \<and> no_calls more"
  unfolding appends_def by (metis snd_conv)

definition extends :: "string list list \<Rightarrow> string list list \<Rightarrow> bool" where
  "extends log log' \<longleftrightarrow> (\<exists>more. log' = log @ more \<and> no_calls more)"

lemma extends_refl [simp]: "extends log log"
  by (auto simp: extends_def)

lemma extends_trans: "extends a b \<Longrightarrow> extends b c \<Longrightarrow> extends a c"
  by (auto simp: extends_def)

lemma appends_extends: "appends transfer \<Longrightarrow> transfer cfg amount log = (r, log') \<Longrightarrow> extends log log'"
  by (auto simp: extends_def dest: appendsD)

lemma ledger_join_logged:
  "snd (ledger_join (logged answer) (Some lc) log) = log @ [request lc (auto_join_args lc)]"
  by (simp add: ledger_join_def run_auto_kaigi_join_def case_prod_beta run_logged request_def)

lemma ledger_join_None [simp]: "ledger_join spawn None l = ([], l)"
  by (simp add: ledger_join_def)

lemma room_opening_Inl:
  "room_opening X W spawn env rnd s w = (Inl e, w') \<Longrightarrow> snd w' = snd w"
  by (auto simp: room_opening_def split: prod.splits sum.splits)

lemma room_opening_Inr:
  assumes "room_opening X W spawn env rnd s w = (Inr o', w')"
  shows "snd w' = snd (ledger_join spawn (rs_lifecycle s) (snd w))"
    and "\<not> rs_anonymous_mode s \<Longrightarrow> \<exists>stream local_id lines. o' = Opened_Chat stream [hello_of env (rs_args s) local_id] lines
       (map_sum id (room_context_of env (rs_args s) local_id) (payment_settings (rs_args s)))"
    and "o' = Opened_Chat stream frames lines c \<Longrightarrow> \<not> rs_anonymous_mode s"
    and "o' = Opened_Anonymous stream handle lines \<Longrightarrow> rs_anonymous_mode s"
  using assms by (auto simp: room_opening_def split: prod.splits sum.splits if_splits)

lemma pay_command_extends:
  "appends transfer \<Longrightarrow> extends log (snd (snd (pay_command transfer c at_ms n log)))"
  by (auto simp: pay_command_def Let_def dest: appends_extends split: option.split prod.split sum.split)

lemma room_command_extends:
  "appends transfer \<Longrightarrow> extends log (snd (snd (room_command X transfer c at_ms cmd st log)))"
  using pay_command_extends [of transfer log c at_ms]
  by (auto simp: room_command_def Let_def case_prod_beta split: option.split sum.split)

lemma pay_turn_extends: "appends transfer \<Longrightarrow> extends (rr_world r) (rr_world (pay_turn transfer c now r))"
  by (auto simp: pay_turn_def pay_round_def Let_def dest: appends_extends
      split: option.split prod.splits sum.splits option.splits if_splits)

lemma room_step_extends: "appends transfer \<Longrightarrow> extends (rr_world r) (rr_world (room_event_step X transfer c ev r))"
  using room_command_extends [of transfer "rr_world r" X c _ _ "rr_local r"] pay_turn_extends [of transfer r c]
  by (cases ev) (auto simp: room_event_step_def type_line_def sent_line_def Let_def case_prod_beta split: sum.split)

lemma room_events_extend: "appends transfer \<Longrightarrow> extends (rr_world r) (rr_world (room_events X transfer c evs r))"
  by (induction evs rule: rev_induct) (auto simp: room_events_def intro: extends_trans room_step_extends)

lemma run_iroha_extends:
  "run_iroha_json_cli (logged answer) bin config args log = (r, log') \<Longrightarrow> take 2 args \<noteq> [''app'', ''kaigi''] \<Longrightarrow> extends log log'"
  using run_logged(1) [of answer bin config args log] by (simp add: extends_def no_calls_def is_call_def)

lemma prepay_extends: "run_anon_escrow_prepay X base64 (logged answer) rnd args log = (r, lines, log') \<Longrightarrow> extends log log'"
  by (auto simp: run_anon_escrow_prepay_def Let_def dest!: run_iroha_extends split: option.splits sum.splits prod.splits)

lemma unshield_args: "unshield_cli_args X args to inputs proof_json = Inr cmd \<Longrightarrow> take 2 cmd = [''app'', ''zk'']"
  by (auto simp: unshield_cli_args_def try_bind_def Let_def split: sum.splits option.splits)

lemma unshield_extends: "run_anon_escrow_unshield X (logged answer) args log = (r, log') \<Longrightarrow> extends log log'"
  by (auto simp: run_anon_escrow_unshield_def dest!: run_iroha_extends unshield_args split: option.splits sum.splits)

lemma anon_start_extends:
  "anon_start X base64 (logged answer) rnd args room escrow now taken log = (r, log') \<Longrightarrow> extends log log'"
  by (auto simp: anon_start_def Let_def dest!: prepay_extends split: if_splits prod.splits sum.splits)

lemma anon_end_extends: "anon_end X (logged answer) reader args r log = (a, log') \<Longrightarrow> extends log log'"
  by (auto simp: anon_end_def anon_exit_def Let_def dest!: unshield_extends
      split: if_splits prod.splits sum.splits room_status.splits option.splits)

lemma anonymous_extends:
  "run_room_chat_anonymous X C debug base64 (logged answer) i args handle log = (a, log') \<Longrightarrow> extends log log'"
  by (auto simp: run_room_chat_anonymous_def Let_def dest!: anon_start_extends anon_end_extends
      intro: extends_trans split: prod.splits option.splits)

lemma finalize_ledger:
  "finalize_auto_kaigi_lifecycle (logged answer) now ended_at (Some lc) left started log = (lines, log') \<Longrightarrow>
     log' = log @ closing_requests answer lc now ended_at started left log"
  using finalize_requests [of answer now ended_at lc left started log] by (simp add: closing_requests_def Let_def)

lemma room_chat_end_ledger:
  "room_chat_end (logged answer) now ended_at (Some lc) started reader f = ((e, lines), log') \<Longrightarrow>
     \<exists>left. log' = rr_world f @ (if e = Returns None then closing_requests answer lc now ended_at started left (rr_world f) else [])"
  by (cases "rr_status f"; cases reader) (auto simp: room_chat_end_def dest!: finalize_ledger split: prod.splits if_splits option.splits)

lemma chat_session_ledger:
  assumes "appends transfer" and "rs_lifecycle s = Some lc"
    and "chat_session X transfer (logged answer) i s frames lines c log = ((e, out), log')"
  shows "\<exists>spent left. no_calls spent \<and> log' = log @ spent @ (if e = Returns None
       then closing_requests answer lc (ri_closed_ms i) (ri_ended_ms i) (ri_started_ms i) left (log @ spent) else [])"
    and "e = Returns None \<Longrightarrow> \<not> pay_loop_enabled (rs_args s)"
proof -
  let ?start = "chat_start (ri_pay_ms i) s frames lines log"
  define f where "f = room_events X transfer c (ri_events i) ?start"
  obtain spent where spent: "rr_world f = log @ spent" "no_calls spent"
    using room_events_extend [OF assms(1), of ?start X c "ri_events i"] unfolding f_def extends_def
    by (auto simp: chat_start_def)
  obtain closing where end_f: "room_chat_end (logged answer) (ri_closed_ms i) (ri_ended_ms i) (Some lc) (ri_started_ms i)
      (ri_reader i) f = ((e, closing), log')"
    using assms(2,3) by (auto simp: chat_session_def f_def [symmetric] split: prod.splits)
  from room_chat_end_ledger [OF this] spent(2)
  show "\<exists>spent left. no_calls spent \<and> log' = log @ spent @ (if e = Returns None
       then closing_requests answer lc (ri_closed_ms i) (ri_ended_ms i) (ri_started_ms i) left (log @ spent) else [])"
    unfolding spent(1) append_assoc by (elim exE) (intro exI [of _ spent] exI conjI)
  show "\<not> pay_loop_enabled (rs_args s)" if "e = Returns None"
  proof
    assume "pay_loop_enabled (rs_args s)"
    then have "rr_pay ?start \<noteq> None" by (simp add: chat_start_def)
    from paying_session_never_ends [OF this, of "logged answer" "ri_closed_ms i" "ri_ended_ms i" "Some lc" "ri_started_ms i"
        "ri_reader i" X transfer c "ri_events i"]
    show False using end_f that by (simp add: f_def)
  qed
qed

text \<open>C9. A run of the line interface that mirrors its call on the ledger does so in order, whatever the network, the
  user, the hub and the payment loop do. Either it returns an error before it has printed anything and asks the ledger
  for nothing; or it asks to join the call, once; then for transfers and escrows, but for nothing about a call; and
  then, exactly if it returns without an error, for what closes the call (its end or the leave, and the usage). And it
  returns without an error only if it has no payment loop, or, in an anonymous room, no proof task: with such a task it
  waits, or fails, and never leaves the call.\<close>

theorem session_mirrors_call:
  assumes "appends transfer" and "rs_lifecycle s = Some lc"
    and "session_of X W transfer (logged answer) K env i s (n, log) = ((e, lines), n', log')"
  shows "log' = log \<and> (\<exists>err. e = Returns (Some err)) \<and> lines = []
     \<or> (\<exists>spent left. no_calls spent \<and> log' = log @ [request lc (auto_join_args lc)] @ spent @ (if e = Returns None
          then closing_requests answer lc (ri_closed_ms i) (ri_ended_ms i) (ri_started_ms i) left
            (log @ [request lc (auto_join_args lc)] @ spent) else []))
       \<and> (e \<noteq> Returns None \<or> (if rs_anonymous_mode s then ra_anon_escrow_proof_interval_secs (rs_args s) = 0
            else \<not> pay_loop_enabled (rs_args s)))"
proof -
  obtain r w1 where Pair: "room_opening X W (logged answer) env (ri_random i) s (n, log) = (r, w1)"
    by (cases "room_opening X W (logged answer) env (ri_random i) s (n, log)")
  show ?thesis
  proof (cases r)
    case (Inl err)
    then show ?thesis
      using room_opening_Inl [of X W "logged answer" env "ri_random i" s "(n, log)" err w1] Pair assms(3)
      by (auto simp: session_of_def)
  next
    case (Inr op)
    note opened = room_opening_Inr [OF Pair [unfolded Inr]]
    have joined: "snd w1 = log @ [request lc (auto_join_args lc)]"
      using opened(1) by (simp add: assms(2) ledger_join_logged)
    show ?thesis
    proof (cases op)
      case (Opened_Chat stream frames out c)
      have mode: "\<not> rs_anonymous_mode s" using opened(3) Opened_Chat by blast
      show ?thesis
      proof (cases c)
        case (Inl err)
        then have "log' = snd w1" and "e = Returns (Some err)"
          using assms(3) Pair Inr Opened_Chat by (auto simp: session_of_def)
        then show ?thesis
          using joined by (intro disjI2 [of _ "_ \<and> _"] conjI exI [of "\<lambda>spent. \<exists>left. _ spent left" "[]"]) auto
      next
        case Inr': (Inr c')
        have "chat_session X transfer (logged answer) i s frames out c' (snd w1) = ((e, lines), log')"
          using assms(3) Pair Inr Opened_Chat Inr' by (auto simp: session_of_def split: prod.splits)
        from chat_session_ledger [OF assms(1,2) this] show ?thesis
          unfolding joined append_assoc using mode by auto
      qed
    next
      case (Opened_Anonymous stream handle out)
      have mode: "rs_anonymous_mode s" using opened(4) Opened_Anonymous by blast
      obtain a l where a: "run_room_chat_anonymous X (mk_crypto K) (mk_debug K) (mk_base64 K) (logged answer) (ri_anon i)
          (rs_args s) handle (snd w1) = (a, l)" by (metis surj_pair)
      obtain spent where spent: "l = snd w1 @ spent" "no_calls spent"
        using anonymous_extends [OF a] by (auto simp: extends_def)
      have "e = Returns None \<longrightarrow> (\<exists>b. ax_left a = Anon_Left b)"
        using assms(3) Pair Inr Opened_Anonymous a by (auto simp: session_of_def split: anon_left.splits)
      then have task: "e \<noteq> Returns None \<or> ra_anon_escrow_proof_interval_secs (rs_args s) = 0"
        using anon_leaves_unproving [OF a] by blast
      have "\<exists>left. log' = snd w1 @ spent @ (if e = Returns None then
          closing_requests answer lc (ri_closed_ms i) (ri_ended_ms i) (ri_started_ms i) left (snd w1 @ spent) else [])"
        using assms(2,3) Pair Inr Opened_Anonymous a
        by (auto simp: session_of_def spent(1) dest!: finalize_ledger split: anon_left.splits prod.splits)
      moreover have "e \<noteq> Returns None \<or> (if rs_anonymous_mode s then ra_anon_escrow_proof_interval_secs (rs_args s) = 0
          else \<not> pay_loop_enabled (rs_args s))" using task mode by simp
      ultimately show ?thesis
        unfolding joined append_assoc using spent(2) by blast
    qed
  qed
qed

text \<open>The payment options are checked too late: when they contradict each other the run fails, but by then it has
  joined the call on the ledger, which it never leaves.\<close>

theorem late_refusal_stays_joined:
  assumes "\<not> rs_anonymous_mode s" and "rs_lifecycle s = Some lc" and "payment_settings (rs_args s) = Inl e"
    and "run (open_session X W s) n = (Inr stream, n')"
  shows "\<exists>lines. session_of X W transfer (logged answer) K env i s (n, log)
     = ((Returns (Some e), lines), n', log @ [request lc (auto_join_args lc)])"
proof -
  obtain joined where "ledger_join (logged answer) (Some lc) log = (joined, log @ [request lc (auto_join_args lc)])"
    using ledger_join_logged [of answer lc log] by (cases "ledger_join (logged answer) (Some lc) log") auto
  then show ?thesis
    using assms by (simp add: session_of_def room_opening_def local_id_of_def)
qed

text \<open>The iroha command line is the only thing a payment touches.\<close>

lemma ledger_transfer_appends: "appends (ledger_transfer J read_file (logged answer))"
  by (auto simp: appends_def ledger_transfer_def transfer_xor_nano_via_cli_def logged_def no_calls_def is_call_def
      split: sum.split option.split)

section \<open>An example\<close>

definition local_network :: "(bytes \<times> bytes, unit, unit, bytes) network" where
  "local_network = \<lparr>nw_quic = loopback, nw_tls = local_net,
     nw_http = \<lparr>ht_get = (\<lambda>url n. (None, n)), ht_json_config = (\<lambda>b. None)\<rparr>,
     nw_connect_text = (\<lambda>e. ''connect''), nw_config_text = (\<lambda>e. ''config''), nw_stream_text = (\<lambda>e. ''stream'')\<rparr>"

definition local_settings :: "u64 \<Rightarrow> room_settings" where
  \<comment> \<open>with a rate to pay, and no payments by the hub's rate unless there is one\<close>
  "local_settings rate = \<lparr>rs_args = demo_room_args\<lparr>ra_pay_auto := (rate \<noteq> 0), ra_no_pay_auto := (rate = 0), ra_insecure := False, ra_ca_cert_pem_path := Some ''ca.pem'',
       ra_torii := None, ra_descriptor_commit_hex := None, ra_client_capabilities_hex := None,
       ra_relay_capabilities_hex := None, ra_kem_id := None, ra_sig_id := None, ra_resume_hash_hex := None,
       ra_handshake_prelude_hex := None, ra_pay_rate_per_minute_nano := rate, ra_allow_unsettled_payments := True\<rparr>,
     rs_anonymous_mode = False, rs_lifecycle = Some demo_lifecycle, rs_relay_addr = Addr_V4 (127, 0, 0, 1) 7000,
     rs_channel_hex = replicate 64 (CHR ''8''), rs_server_name = ''relay''\<rparr>"

definition local_inputs :: run_inputs where
  "local_inputs = \<lparr>ri_link_ms = (0, 0), ri_started_ms = 10, ri_pay_ms = 15, ri_ended_ms = 50, ri_closed_ms = 60, ri_random = [1],
     ri_events = [Typed 20 ''/quit''], ri_reader = Reader_Ends,
     ri_anon = \<lparr>ai_secret = [], ai_random8 = [], ai_random32 = [], ai_prepay = \<lparr>pr_note_commitment = [],
       pr_ephemeral_pubkey = [], pr_nonce = [], pr_ciphertext = []\<rparr>, ai_started_ms = 0, ai_proof_taken = True, ai_events = [],
       ai_reader = Reader_Ends\<rparr>\<rparr>"

lemma local_hex:
  "hex_of demo_ext (replicate 64 (CHR ''8'')) = Inr (replicate 32 0x88)"
  by code_simp

lemma local_open: "\<exists>n. run (open_session demo_ext local_network (local_settings rate)) ([], [0, 1, 8]) = (Inr 0, n)"
  by (simp add: open_session_def connect_stream_def run_simps relay_options_def connect_options_def choose_handshake_def
      handshake_flags_of_def any_handshake_flag_def local_settings_def
      opt_hex_vec_def local_network_def connect_and_handshake_def build_quic_client_config_def rustls_config_with_ca_def
      local_net_def await_def perform_soranet_handshake_def loopback_def write_handshake_frame_def
      read_handshake_frame_def be_value_def local_hex open_kaigi_stream_def fixture_defaults_def list_all_iff)

definition local_member :: member_ext where
  "local_member = \<lparr>mk_crypto = \<lparr>cr_public = id, cr_dh = (\<lambda>a b. a), cr_seal = (\<lambda>_ _ _ p. Some p),
       cr_open = (\<lambda>_ _ _ p. Some p)\<rparr>, mk_debug = (\<lambda>_. []), mk_base64 = (\<lambda>_. [])\<rparr>"

definition local_run :: "u64 \<Rightarrow> (bytes \<times> bytes, string list list) run_result" where
  "local_run rate = session_of demo_ext local_network refuses (logged (\<lambda>_ _ _. None)) local_member (\<lambda>_. None)
     local_inputs (local_settings rate) (([], [0, 1, 8]), [])"

lemma local_payments:
  "payment_settings (rs_args (local_settings 0)) = Inr None" "\<not> pay_loop_enabled (rs_args (local_settings 0))"
  "payment_settings (rs_args (local_settings 5)) = Inl (''automatic pay-rate tracking requires --pay-rate-per-minute-nano '' @
     ''to be 0; use --no-pay-auto for fixed-rate mode'')"
  by (simp_all add: payment_settings_def pay_loop_enabled_def local_settings_def demo_room_args_def is_pay_auto_enabled_def)

lemma local_run_ends: "fst (fst (local_run 0)) = Returns None"
proof -
  obtain n where open_ok: "run (open_session demo_ext local_network (local_settings 0)) ([], [0, 1, 8]) = (Inr 0, n)"
    using local_open by blast
  have "str_trim ''/quit'' = ''/quit''" by code_simp
  moreover have "\<not> rs_anonymous_mode (local_settings 0)" by (simp add: local_settings_def)
  ultimately show ?thesis
    by (simp add: local_run_def session_of_def room_opening_def open_ok local_id_of_def local_payments case_prod_beta
        chat_session_def chat_start_def local_inputs_def room_events_def room_event_step_def returned_def type_line_def
        Let_def room_chat_end_def)
qed

lemma session_mirrors_call_witness:
  "\<exists>spent left. no_calls spent \<and> snd (snd (local_run 0)) = [request demo_lifecycle (auto_join_args demo_lifecycle)] @ spent @
     closing_requests (\<lambda>_ _ _. None) demo_lifecycle 60 50 10 left
       ([request demo_lifecycle (auto_join_args demo_lifecycle)] @ spent)"
proof -
  have "appends refuses" by (simp add: appends_def refuses_def)
  moreover have "rs_lifecycle (local_settings 0) = Some demo_lifecycle"
    by (simp add: local_settings_def)
  moreover have "local_run 0 = ((Returns None, snd (fst (local_run 0))), fst (snd (local_run 0)), snd (snd (local_run 0)))"
    by (simp flip: local_run_ends)
  ultimately show ?thesis
    using session_mirrors_call [of refuses "local_settings 0" demo_lifecycle demo_ext local_network "\<lambda>_ _ _. None"
        local_member "\<lambda>_. None" local_inputs "([], [0, 1, 8])" "[]" "Returns None" "snd (fst (local_run 0))"
        "fst (snd (local_run 0))" "snd (snd (local_run 0))", folded local_run_def]
    by (simp add: local_inputs_def)
qed

lemma late_refusal_stays_joined_witness:
  "snd (snd (local_run 5)) = [request demo_lifecycle (auto_join_args demo_lifecycle)]"
proof -
  obtain n where open_ok: "run (open_session demo_ext local_network (local_settings 5)) ([], [0, 1, 8]) = (Inr 0, n)"
    using local_open by blast
  have "\<not> rs_anonymous_mode (local_settings 5)" "rs_lifecycle (local_settings 5) = Some demo_lifecycle"
    by (simp_all add: local_settings_def)
  from late_refusal_stays_joined [OF this local_payments(3) open_ok, of refuses "\<lambda>_ _ _. None" local_member "\<lambda>_. None"
      local_inputs "[]"]
  show ?thesis by (auto simp: local_run_def)
qed

section \<open>Before anything is printed\<close>

lemma room_step_lines: "\<exists>more. rr_lines (room_event_step X transfer c ev r) = rr_lines r @ more"
  by (cases ev) (auto simp: room_event_step_def type_line_def sent_line_def pay_turn_def Let_def case_prod_beta
      split: sum.split option.split)

lemma room_events_lines: "\<exists>more. rr_lines (room_events X transfer c evs r) = rr_lines r @ more"
proof (induction evs arbitrary: r)
  case (Cons ev evs)
  obtain m1 where m1: "rr_lines (room_event_step X transfer c ev r) = rr_lines r @ m1"
    using room_step_lines by blast
  obtain m2 where "rr_lines (room_events X transfer c evs (room_event_step X transfer c ev r))
      = rr_lines (room_event_step X transfer c ev r) @ m2"
    using Cons.IH by blast
  then show ?case by (simp add: room_events_def m1)
qed (simp add: room_events_def)

lemma chat_session_lines:
  "chat_session X transfer spawn i s frames lines c l = ((e, out), l') \<Longrightarrow> \<exists>more. out = lines @ more"
  using room_events_lines [of X transfer c "ri_events i" "chat_start (ri_pay_ms i) s frames lines l"]
  by (auto simp: chat_session_def chat_start_def Let_def split: prod.splits)

lemma opened_lines:
  "room_opening X W spawn env rnd s w = (Inr (Opened_Chat stream frames lines c), w') \<Longrightarrow> lines \<noteq> []"
  "room_opening X W spawn env rnd s w = (Inr (Opened_Anonymous stream handle lines), w') \<Longrightarrow> lines \<noteq> []"
  by (auto simp: room_opening_def split: prod.splits sum.splits if_splits)

text \<open>A run that fails before it has printed a line - its arguments are refused, the link is used up, the relay is not
  the one expected, the channel is none - has not asked the ledger for anything.\<close>

theorem silent_failure_spares_ledger:
  assumes "room_chat X W transfer spawn K env i args cache w = (((Returns (Some e), []), w'), cache')"
  shows "snd w' = snd w"
proof -
  have "snd w' = snd w" if run: "session_of X W transfer spawn K env i s w = ((Returns (Some e), []), w')" for s
  proof -
    obtain r w1 where Pair: "room_opening X W spawn env (ri_random i) s w = (r, w1)"
      by (cases "room_opening X W spawn env (ri_random i) s w")
    show ?thesis
    proof (cases r)
      case (Inl err)
      then show ?thesis
        using room_opening_Inl [OF Pair [unfolded Inl]] run Pair by (simp add: session_of_def)
    next
      case (Inr op)
      show ?thesis
      proof (cases op)
        case (Opened_Chat stream frames lines c)
        have "lines \<noteq> []" by (rule opened_lines(1) [OF Pair [unfolded Inr Opened_Chat]])
        then show ?thesis
          using run Pair Inr Opened_Chat by (auto simp: session_of_def dest!: chat_session_lines split: sum.splits prod.splits)
      next
        case (Opened_Anonymous stream handle lines)
        have "lines \<noteq> []" by (rule opened_lines(2) [OF Pair [unfolded Inr Opened_Anonymous]])
        then show ?thesis
          using run Pair Inr Opened_Anonymous by (auto simp: session_of_def split: anon_left.splits prod.splits)
      qed
    qed
  qed
  then show ?thesis
    using assms by (auto simp: room_chat_def split: prod.splits sum.splits)
qed

end
