(* ===== verification/Cli_Echo.thy ===== *)
theory Cli_Echo
  imports Cli_Session Cli_Routes Wire_Codec
begin

text \<open>
  The command \<open>relay-echo\<close> (\<^verbatim>\<open>crates/kaigi-cli/src/main.rs\<close>), which sends a message through a relay and prints what comes
  back: it opens a stream as \<open>room-chat\<close> does (theory \<open>Cli_Session\<close>), writes its frames, closes its half and reads until
  the relay closes the other half.
\<close>

record relay_echo_args =
  re_relay :: socket_addr
  re_server_name :: "string option"
  re_insecure :: bool
  re_ca_cert_pem_path :: "string option"
  re_handshake :: handshake_flags
  re_channel :: string
  re_authenticated :: bool
  re_message :: "string option"
  re_message_hex :: "string option"

fun send_frames ::
    "ext \<Rightarrow> ('n, 'st, 'key, 'sec) network \<Rightarrow> stream_id \<Rightarrow> kaigi_frame list \<Rightarrow> ('n, string, unit) prog" where
  \<comment> \<open>each frame is encoded and written before the next; the texts of the errors are the contexts\<close>
  "send_frames X W stream [] = Return ()"
| "send_frames X W stream (frame # frames) =
     (case encode_framed X frame of
        Inl e \<Rightarrow> Fail ''encode''
      | Inr bytes \<Rightarrow>
          seq_prog (await ''send'' (sx_write_all (nw_quic W) stream bytes)) (send_frames X W stream frames))"

definition echo_send ::
    "ext \<Rightarrow> ('n, 'st, 'key, 'sec) network \<Rightarrow> relay_echo_args \<Rightarrow> bytes \<Rightarrow> u64 \<Rightarrow> u64 \<Rightarrow> ('n, string, stream_id) prog" where
  \<comment> \<open>up to the end of what is sent\<close>
  "echo_send X W args rnd chat_ms ping_ms =
     bind_prog (connect_stream X W (\<lambda>fetch fixture. connect_options X fetch fixture (re_handshake args) (re_relay args)
        (unwrap_or (re_server_name args) ''localhost'') (re_insecure args) (re_ca_cert_pem_path args))
        (re_channel args) (re_authenticated args)) (\<lambda>stream.
     (case relay_echo_frames X rnd chat_ms ping_ms (re_message_hex args) (re_message args) of
        Inl e \<Rightarrow> Fail e
      | Inr frames \<Rightarrow>
          seq_prog (send_frames X W stream frames)
          (seq_prog (await ''finish payload stream'' (sx_finish (nw_quic W) stream)) (Return stream))))"

definition echo_prints :: "ext \<Rightarrow> (kaigi_frame \<Rightarrow> string) \<Rightarrow> bytes list \<Rightarrow> bool \<Rightarrow> string option \<times> string list" where
  \<comment> \<open>the reading loop on the chunks that arrive; \<open>broken\<close>: a read failed after them\<close>
  "echo_prints X debug chunks broken =
     (case receive X decoder_new chunks of (frames, e, _) \<Rightarrow>
        ((case e of Some _ \<Rightarrow> Some ''decode'' | None \<Rightarrow> if broken then Some ''recv'' else None),
         map (\<lambda>frame. ''frame='' @ debug frame) frames))"

definition relay_echo ::
    "ext \<Rightarrow> ('n, 'st, 'key, 'sec) network \<Rightarrow> (kaigi_frame \<Rightarrow> string) \<Rightarrow> relay_echo_args \<Rightarrow> bytes \<Rightarrow> u64 \<Rightarrow> u64
      \<Rightarrow> ('n \<Rightarrow> stream_id \<Rightarrow> bytes list \<times> bool) \<Rightarrow> 'n \<Rightarrow> (string option \<times> string list) \<times> 'n" where
  \<comment> \<open>\<open>answers\<close>: what the relay sends on the stream\<close>
  "relay_echo X W debug args rnd chat_ms ping_ms answers n =
     (case run (echo_send X W args rnd chat_ms ping_ms) n of
        (Inl e, n) \<Rightarrow> ((Some e, []), n)
      | (Inr stream, n) \<Rightarrow> (case answers n stream of (chunks, broken) \<Rightarrow> (echo_prints X debug chunks broken, n)))"

text \<open>A relay that answers with frames has them printed one to a line, whatever its chunks; a command that could not send
  everything prints nothing.\<close>

theorem echo_prints_answers:
  assumes "norito_roundtrip X" and "norito_nonempty X" and "list_all2 (\<lambda>f bs. encode_framed X f = Inr bs) frames bss"
    and "run (echo_send X W args rnd chat_ms ping_ms) n = (r, n')"
    and "\<And>stream. r = Inr stream \<Longrightarrow> concat (fst (answers n' stream)) = concat bss \<and> \<not> snd (answers n' stream)"
  shows "relay_echo X W debug args rnd chat_ms ping_ms answers n =
     ((case r of Inl e \<Rightarrow> (Some e, []) | Inr _ \<Rightarrow> (None, map (\<lambda>frame. ''frame='' @ debug frame) frames)), n')"
proof (cases r)
  case (Inl e)
  then show ?thesis using assms(4) by (simp add: relay_echo_def)
next
  case (Inr stream)
  have "receive X decoder_new (fst (answers n' stream)) = (frames, None, decoder_new)"
    using receive_encoded [OF assms(1-3)] assms(5) [OF Inr] by blast
  then show ?thesis
    using assms(4) assms(5) [OF Inr] Inr by (simp add: relay_echo_def echo_prints_def case_prod_beta)
qed

text \<open>What is written is what was encoded, in order.\<close>

lemma send_frames_sent:
  assumes "sends (nw_quic W) sent"
  shows "run (send_frames X W stream frames) n = (Inr (), n') \<Longrightarrow>
     \<exists>bss. list_all2 (\<lambda>f bs. encode_framed X f = Inr bs) frames bss \<and> sent stream n' = sent stream n @ concat bss"
proof (induction frames arbitrary: n)
  case (Cons frame frames)
  obtain bs n1 where bs: "encode_framed X frame = Inr bs" and w: "sx_write_all (nw_quic W) stream bs n = (Some (), n1)"
      and rest: "run (send_frames X W stream frames) n1 = (Inr (), n')"
    using Cons.prems by (auto simp: run_seq_Inr run_await_Inr split: sum.splits)
  have "sent stream n1 = sent stream n @ bs"
    using assms w unfolding sends_def by (metis fst_conv snd_conv)
  with Cons.IH [OF rest] bs show ?case
    by (auto simp: list_all2_Cons1)
qed simp

lemma open_stream_sent:
  assumes "sends N sent" and "run (open_kaigi_stream N channel_id authenticated) n = (Inr stream, n')"
  shows "sent stream n' = route_open_header channel_id authenticated"
proof -
  obtain n1 where opened: "sx_open_bi N n = (Some stream, n1)"
      and wrote: "sx_write_all N stream (route_open_header channel_id authenticated) n1 = (Some (), n')"
    using assms(2) by (auto simp: open_kaigi_stream_def run_bind_Inr run_seq_Inr run_await_Inr split: if_splits)
  have "sent stream n1 = []" and "sent stream n' = sent stream n1 @ route_open_header channel_id authenticated"
    using assms(1) opened wrote unfolding sends_def by (metis fst_conv snd_conv)+
  then show ?thesis by simp
qed

lemma connect_stream_Inr:
  assumes "run (connect_stream X W options channel_hex authenticated) n = (Inr stream, n')"
  shows "\<exists>channel_id n1. hex_of X channel_hex = Inr channel_id
     \<and> run (open_kaigi_stream (nw_quic W) channel_id authenticated) n1 = (Inr stream, n')"
  using assms by (auto simp: connect_stream_def run_bind_Inr run_seq_Inr run_map_error_Inr split: sum.splits)

text \<open>What the relay gets on the stream of a command that succeeded is the header of the channel, then the encoded
  frames, and nothing else.\<close>

theorem echo_writes:
  assumes "sends (nw_quic W) sent" and "run (echo_send X W args rnd chat_ms ping_ms) n = (Inr stream, n')"
  shows "\<exists>channel_id frames bss. hex_of X (re_channel args) = Inr channel_id
     \<and> relay_echo_frames X rnd chat_ms ping_ms (re_message_hex args) (re_message args) = Inr frames
     \<and> list_all2 (\<lambda>f bs. encode_framed X f = Inr bs) frames bss
     \<and> sent stream n' = route_open_header channel_id (re_authenticated args) @ concat bss"
proof -
  obtain frames where frames:
      "relay_echo_frames X rnd chat_ms ping_ms (re_message_hex args) (re_message args) = Inr frames"
    using assms(2)
    by (cases "relay_echo_frames X rnd chat_ms ping_ms (re_message_hex args) (re_message args)")
      (auto simp: echo_send_def run_bind_Inr)
  obtain n2 n3 where opened: "run (connect_stream X W (\<lambda>fetch fixture. connect_options X fetch fixture
        (re_handshake args) (re_relay args) (unwrap_or (re_server_name args) ''localhost'') (re_insecure args)
        (re_ca_cert_pem_path args)) (re_channel args) (re_authenticated args)) n = (Inr stream, n2)"
      and sent_frames: "run (send_frames X W stream frames) n2 = (Inr (), n3)"
      and finished: "sx_finish (nw_quic W) stream n3 = (Some (), n')"
    using assms(2) by (auto simp: echo_send_def run_bind_Inr run_seq_Inr run_await_Inr frames)
  obtain channel_id n1 where channel: "hex_of X (re_channel args) = Inr channel_id"
      and stream: "run (open_kaigi_stream (nw_quic W) channel_id (re_authenticated args)) n1 = (Inr stream, n2)"
    using connect_stream_Inr [OF opened] by blast
  have "sent stream n' = sent stream n3"
    using assms(1) finished unfolding sends_def by (metis snd_conv)
  then show ?thesis
    using channel frames send_frames_sent [OF assms(1) sent_frames] open_stream_sent [OF assms(1) stream] by auto
qed

end
