(* ===== verification/Client_Main.thy ===== *)
theory Client_Main
  imports Client_Machine
begin

text \<open>
  The program of \<^verbatim>\<open>crates/kaigi-linux-client/src/main.rs\<close>: it asks a fresh session for a connection, tells it that the
  transport is there, prints where it is and asserts that it waits for the answers to its handshake.
\<close>

definition linux_main :: "connection_phase \<times> nat" where
  \<comment> \<open>what is printed: the phase and the number of handshake frames\<close>
  "linux_main =
     (let rt = connect_requested 0 (new_runtime meeting_config_default);
          (outbound, rt) = on_transport_connected 1 rt in
      (ss_connection_phase (sr_state rt), length outbound))"

text \<open>The assertion of the program holds: connecting is not over until the peer has answered, and two frames, the handshake
  and the device's capabilities, wait to be sent.\<close>

theorem linux_main_asserts: "linux_main = (Phase_Connecting, 2)"
  by code_simp

end
