(* ===== verification/Spec2Isabelle.thy ===== *)
theory Spec2Isabelle
  imports Hub_Authority Hub_Delivery Hub_Ledger Hub_Lifecycle Soranet Platform Client_Codec Client_Reconnect
    Cli_Telemetry_Safety Cli_Play_Safety Cli_Conference_Safety Cli_Routes_Safety
    Hub_Participants Hub_Start End_To_End Cli_Echo Client_Main
begin

text \<open>
  Kaigi is a conference system: clients exchange frames with a hub, either in a transparent room (names,
  roles, media, pay-per-use billing) or in an anonymous one (ephemeral handles, encrypted payloads,
  escrowed payment). This library models its Rust crates, proves what they keep in every run, and records
  where the code falls short.

  Program and theories. Each definition bears the name of the function, struct or constant it models,
  with a suffix or prefix where that name is taken in HOL.

    \<^item> \<^verbatim>\<open>crates/kaigi-wire\<close>: the frames (\<open>Wire_Types\<close>) and the length-prefixed stream codec with the receive
      loop around it (\<open>Wire_Codec\<close>). The Norito codec of one frame is a parameter with its round trip as law.
    \<^item> \<^verbatim>\<open>crates/kaigi-hub-echo\<close>: the state (\<open>Hub_State\<close>), billing (\<open>Hub_Billing\<close>), frame validation and signed
      action clocks (\<open>Hub_Validate\<close>), roles, admission and policy (\<open>Hub_Roles\<close>), anonymous rooms (\<open>Hub_Anon\<close>),
      sending (\<open>Hub_Send\<close>), the critical sections of the handlers (\<open>Hub_Sections\<close>), the handlers
      (\<open>Hub_Handlers\<close>), the life of a connection (\<open>Hub_Conn\<close>) and the process with its command line
      (\<open>Hub_Start\<close>). The state is \<open>hub\<close>: rooms behind one mutex,
      participants by connection, a bounded queue per connection, the clock.
    \<^item> \<^verbatim>\<open>crates/kaigi-soranet-client\<close>: the room id, the stream header, the relay handshake (\<open>Soranet\<close>);
      how a connection is opened and what it trusts (\<open>Soranet_Connect\<close>).
    \<^item> \<^verbatim>\<open>crates/kaigi-linux-client\<close>: the session data (\<open>Client_Types\<close>), the JSON codec (\<open>Client_Codec\<close>), the
      reducer (\<open>Client_Session\<close>), the reconnect runtime (\<open>Client_Runtime\<close>) and the program (\<open>Client_Main\<close>).
    \<^item> \<^verbatim>\<open>crates/kaigi-platform-contract\<close>: the table of platform contracts (\<open>Platform\<close>).

  How the parts interact. A handler of the hub is asynchronous: it locks a room for a moment, sends, locks
  again. \<open>Effects\<close> models such a program as a resumption, a tree of atomic steps over a shared world that the
  scheduler interleaves; a handler is the composition of its sections and sends in the order of the code.
  \<open>Hub_Machine\<close> abstracts from the handlers to \<open>room_step\<close>, one rule per section that writes a room, and
  \<open>hub_reachable\<close>; its contract \<open>room_invariant\<close> is a locale that each invariant interprets, and every
  program of \<open>Hub_Handlers\<close> and \<open>Hub_Conn\<close> is shown to take only such steps, whatever the others do between
  its own. \<open>Framing\<close> is the interface of a length-prefixed stream, interpreted once by the wire codec (4-byte
  header) and once by the relay handshake (2-byte header). A run of the Linux client is a fold of calls of its
  public operations (\<open>Client_Machine\<close>); its contracts \<open>client_contract\<close> (for the runtime) and
  \<open>session_contract\<close> (for the reducer, which gives the former) are interpreted by \<open>session_ok\<close> and
  \<open>schedule_ok\<close>.

  The command line client (\<^verbatim>\<open>crates/kaigi-cli\<close>): its arguments and their checks (\<open>Cli_Args\<close>), join links
  (\<open>Cli_Link\<close>), requests to the ledger program (\<open>Cli_Ledger\<close>), how a session begins (\<open>Cli_Setup\<close>), the
  anonymous room (\<open>Cli_Anon\<close>, and \<open>Cli_Anon_Session\<close> for a whole session in it), the transparent room (\<open>Cli_Room\<close>, and \<open>Cli_Report\<close> for what it prints), the
  media telemetry (\<open>Cli_Telemetry\<close>), pictures and dashboard (\<open>Cli_View\<close>), the player (\<open>Cli_Play\<close>), the
  conference (\<open>Cli_Conference\<close>), routes and the small commands (\<open>Cli_Routes\<close>,
  \<open>Cli_Echo\<close>). \<open>Cli_Session\<close> puts a run together: settings, relay connection, stream, ledger, input loop, end. The
  clock, the random bytes, the
  file system and the external programs are arguments; a run of the ledger program is a function of its arguments
  and the state of the world. The tasks of a session (reader, input loop, payment loop, media sender, render task)
  share their variables behind locks; each is a step function on the shared state, and a session is any sequence
  of such steps: a typed line, a frame that arrives, a round of the payment loop (with its transfer and its frame) and
  the failure of the writer are one step each. The end of a run is that of the source: the function waits for the
  writer, which ends only when nobody holds a sender, so a run with a payment loop or a proof task waits
  (\<open>run_end\<close>), and only a run whose writer and reader have ended closes the call. \<open>Cli_Hub\<close> joins the two sides: what the client sends is run through the hub's own handlers.

  What the lemmas show.

    \<^item> \<open>Hub_Members\<close>: who is in a room: unique names, exact co-host roles and bindings, waiting participants are
      outside, in every reachable hub.
    \<^item> \<open>Hub_Epochs\<close>: what only grows in a room (clocks, epochs, counters), hence no section accepts a signed action
      twice; what stays in bounds.
    \<^item> \<open>Hub_Participants\<close>: the record of a participant: totals and key epochs only grow while it stays joined,
      remainders stay below 60000, handles are well formed, distinct, within the cap and come with a key.
    \<^item> \<open>Hub_Authority\<close>: who may do what, and exactly what it does; the ways into a room; the choice of a host.
    \<^item> \<open>Hub_Ledger\<close> and \<open>Hub_Billing\<close>: exact accounting, keys, escrow, payments, rates.
    \<^item> \<open>Hub_Delivery\<close> and \<open>Hub_Lifecycle\<close>: what a broadcast delivers and counts, the plaintext gate, the end
      of a connection, connections that are never cleaned up.
    \<^item> \<open>Hub_Stream\<close>: a connection refines the handling of the frames of its byte stream, as an equation between
      programs; \<open>Hub_Start\<close>: what a command line promises holds in every room of the hub it starts.
    \<^item> \<open>End_To_End\<close>: one line of chat from the keyboard of one client through the codec, the hub's connection and
      handler and its queues to the screens of the others.
    \<^item> \<open>Wire_Codec\<close>, \<open>Soranet\<close>, \<open>Client_Codec\<close>: round trips, independence of chunking, buffer bounds;
      \<open>Soranet_Connect\<close>: a relay that is not asked for insecurely has proved itself against the configured bundle.
    \<^item> \<open>Client_Safety\<close> and \<open>Client_Reconnect\<close>: the phase invariant, monotone counters, guards on privileged
      frames, the payment gate, the reconnect schedule, outages, the form of the participant id.
    \<^item> \<open>Cli_Link_Safety\<close> and \<open>Cli_Nonces\<close>: join links round-trip, are accepted in their window, open once in a
      process, and how their checks can be got round. The cache of nonces is a locale of its own.
    \<^item> \<open>Cli_Ledger_Safety\<close>: exact amounts, the mirrored ledger calls are those of the explicit commands, the requests
      of leaving.
    \<^item> \<open>Cli_Anon_Safety\<close>: envelopes open for whom they are meant, a typed line reaches the other member.
    \<^item> \<open>Cli_Room_Safety\<close>: the payment loop is exact, what a typed line does, what the end of a session asks the
      ledger for, and that a session with a payment loop never gets there.
    \<^item> \<open>Cli_Session\<close>: in which order a run asks the ledger for what, when it closes the call, and which failures
      come too late;
      \<open>Cli_Anon_Session\<close>: nothing typed into an anonymous room leaves in the clear; \<open>Cli_Echo\<close>: what
      \<open>relay-echo\<close> writes and prints.
    \<^item> \<open>Cli_Hub\<close>: frames of the client pass the hub's checks, signatures included; the client's copy of the policy
      simulates the room's; anonymous lines, keys and escrow proofs are accepted; failed payments are credited.
    \<^item> \<open>Cli_Telemetry_Safety\<close>: packet counts, averages, the adaptive profile, the order of the feeds.
    \<^item> \<open>Cli_Play_Safety\<close>: the shape of pictures, where snapshots go, valid settings, the end of the player.
    \<^item> \<open>Cli_Conference_Safety\<close>: valid settings, sealed media, consecutive numbers, media reach the members, what
      ends the reader.
    \<^item> \<open>Cli_Routes_Safety\<close>: a written route is listed; used links are forgotten with the process.

  Conventions, bounds and fuel. Unsigned and signed integers are words of their width; \<open>u128\<close> intermediate
  values are naturals with the saturation written out; arithmetic wraps as in a release build. Strings are
  their UTF-8 bytes. Hash maps are association lists in iteration order, and no statement depends on that
  order unless it says so. Loops are structural recursions or \<open>function\<close>s with a measure (the decoder's drain
  loop: the buffer shrinks), so nothing needs fuel; the handlers' loops run over finite lists fixed when they
  start, and the receive loop over the list of chunks the socket yields.

  External code is a parameter: BLAKE3, hex decoding of libraries, the Norito and JSON codecs, random numbers,
  the QUIC stream. Its laws are hypotheses (a codec's round trip) with witnesses.

  Not modelled: the sockets, and the insides of the TLS, QUIC, HTTP and PEM libraries, of which only the calls
  are; argument parsing by clap, logging; the GTK module of the Linux client; the clients in other languages
  (web, Apple, Android, Windows). Of the command line client: the terminal's raw
  mode and the thread that polls keys, the start and the abortion of the tasks, the text that serde_json
  makes of the platform contracts (their table is \<open>Platform\<close>), the dispatch of \<open>main\<close>.
  The picture and sound codecs and the test tone, a sine in \<open>f32\<close>, are parameters of \<open>Cli_Conference\<close>.
\<close>

end
